(* ===== verification/Prelude.thy ===== *)
theory Prelude
  imports Complex_Main "HOL-Library.Sublist"
begin

text \<open>
  Shared ground of the development: results as sums with their binds, the parts of Rust's
  string library the sources use (trimming, lines, splitting, prefixes), and the lemma
  collections the component theories feed. A Rust \<open>String\<close> and a byte vector are both lists
  of \<open>char\<close>, one per byte, so \<open>as_bytes\<close> is the identity and lengths count bytes.
\<close>

named_theorems res_iff \<open>when a fallible computation succeeds\<close>
named_theorems act_simps \<open>unfolding of the state and error monad\<close>

type_synonym bytes = "char list"

section \<open>Results\<close>

text \<open>\<open>Result<T, E>\<close> is \<open>'e + 'a\<close> with \<open>Inl\<close> the error; \<open>rbind\<close> is the \<open>?\<close> operator.\<close>

definition rbind :: "'e + 'a \<Rightarrow> ('a \<Rightarrow> 'e + 'b) \<Rightarrow> 'e + 'b" where
  "rbind r f = (case r of Inl e \<Rightarrow> Inl e | Inr x \<Rightarrow> f x)"

definition map_err :: "('e \<Rightarrow> 'f) \<Rightarrow> 'e + 'a \<Rightarrow> 'f + 'a" where
  "map_err g r = (case r of Inl e \<Rightarrow> Inl (g e) | Inr x \<Rightarrow> Inr x)"

definition ok_or :: "'e \<Rightarrow> 'a option \<Rightarrow> 'e + 'a" where
  "ok_or e m = (case m of None \<Rightarrow> Inl e | Some x \<Rightarrow> Inr x)"

definition res_ok :: "'e + 'a \<Rightarrow> 'a option" where
  "res_ok r = (case r of Inl _ \<Rightarrow> None | Inr x \<Rightarrow> Some x)"

definition opt_filter :: "('a \<Rightarrow> bool) \<Rightarrow> 'a option \<Rightarrow> 'a option" where
  "opt_filter P m = (case m of None \<Rightarrow> None | Some x \<Rightarrow> if P x then Some x else None)"

definition unwrap_or :: "'a \<Rightarrow> 'a option \<Rightarrow> 'a" where
  "unwrap_or d m = (case m of None \<Rightarrow> d | Some x \<Rightarrow> x)"

lemma rbind_simps [simp]:
  "rbind (Inl e) f = Inl e"
  "rbind (Inr x) f = f x"
  by (simp_all add: rbind_def)

lemma map_err_simps [simp]:
  "map_err g (Inl e) = Inl (g e)"
  "map_err g (Inr x) = Inr x"
  by (simp_all add: map_err_def)

lemma ok_or_simps [simp]:
  "ok_or e None = Inl e"
  "ok_or e (Some x) = Inr x"
  by (simp_all add: ok_or_def)

lemma res_ok_simps [simp]:
  "res_ok (Inl e) = None"
  "res_ok (Inr x) = Some x"
  by (simp_all add: res_ok_def)

lemma opt_filter_simps [simp]:
  "opt_filter P None = None"
  "opt_filter P (Some x) = (if P x then Some x else None)"
  by (simp_all add: opt_filter_def)

lemma unwrap_or_simps [simp]:
  "unwrap_or d None = d"
  "unwrap_or d (Some x) = x"
  by (simp_all add: unwrap_or_def)

lemma rbind_Inr_iff [res_iff]: "rbind r f = Inr y \<longleftrightarrow> (\<exists>x. r = Inr x \<and> f x = Inr y)"
  by (cases r) auto

lemma map_err_Inr_iff [res_iff]: "map_err g r = Inr y \<longleftrightarrow> r = Inr y"
  by (cases r) auto

lemma ok_or_Inr_iff [res_iff]: "ok_or e m = Inr y \<longleftrightarrow> m = Some y"
  by (cases m) auto

lemma opt_filter_Some_iff [res_iff]: "opt_filter P m = Some x \<longleftrightarrow> m = Some x \<and> P x"
  by (cases m) auto

section \<open>Characters and ASCII case\<close>

abbreviation nl :: char where "nl \<equiv> CHR 0x0A"
abbreviation cr :: char where "cr \<equiv> CHR 0x0D"

definition ascii_lower_char :: "char \<Rightarrow> char" where
  "ascii_lower_char c =
     (if 65 \<le> (of_char c :: nat) \<and> (of_char c :: nat) \<le> 90 then char_of (of_char c + 32 :: nat) else c)"

text \<open>\<open>str::to_ascii_lowercase\<close>.\<close>

definition to_ascii_lowercase :: "string \<Rightarrow> string" where
  "to_ascii_lowercase s = map ascii_lower_char s"

lemma to_ascii_lowercase_Nil [simp]: "to_ascii_lowercase [] = []"
  by (simp add: to_ascii_lowercase_def)

lemma length_to_ascii_lowercase [simp]: "length (to_ascii_lowercase s) = length s"
  by (simp add: to_ascii_lowercase_def)

lemma ascii_lower_char_idem [simp]: "ascii_lower_char (ascii_lower_char c) = ascii_lower_char c"
proof (cases "65 \<le> (of_char c :: nat) \<and> (of_char c :: nat) \<le> 90")
  case True
  then have "of_char (char_of (of_char c + 32 :: nat) :: char) = (of_char c + 32 :: nat)"
    by (simp add: of_char_of)
  with True show ?thesis by (simp add: ascii_lower_char_def)
qed (auto simp: ascii_lower_char_def)

lemma to_ascii_lowercase_idem [simp]:
  "to_ascii_lowercase (to_ascii_lowercase s) = to_ascii_lowercase s"
  by (simp add: to_ascii_lowercase_def)

section \<open>Trimming\<close>

text \<open>
  \<open>str::trim\<close> removes every leading and trailing character with the Unicode property
  White\_Space. On the UTF-8 bytes these are the following byte sequences.
\<close>

definition ws_tokens :: "string list" where
  "ws_tokens =
     [[CHR 0x09], [CHR 0x0A], [CHR 0x0B], [CHR 0x0C], [CHR 0x0D], [CHR 0x20],
      [CHR 0xC2, CHR 0x85], [CHR 0xC2, CHR 0xA0], [CHR 0xE1, CHR 0x9A, CHR 0x80],
      [CHR 0xE2, CHR 0x80, CHR 0x80], [CHR 0xE2, CHR 0x80, CHR 0x81],
      [CHR 0xE2, CHR 0x80, CHR 0x82], [CHR 0xE2, CHR 0x80, CHR 0x83],
      [CHR 0xE2, CHR 0x80, CHR 0x84], [CHR 0xE2, CHR 0x80, CHR 0x85],
      [CHR 0xE2, CHR 0x80, CHR 0x86], [CHR 0xE2, CHR 0x80, CHR 0x87],
      [CHR 0xE2, CHR 0x80, CHR 0x88], [CHR 0xE2, CHR 0x80, CHR 0x89],
      [CHR 0xE2, CHR 0x80, CHR 0x8A], [CHR 0xE2, CHR 0x80, CHR 0xA8],
      [CHR 0xE2, CHR 0x80, CHR 0xA9], [CHR 0xE2, CHR 0x80, CHR 0xAF],
      [CHR 0xE2, CHR 0x81, CHR 0x9F], [CHR 0xE3, CHR 0x80, CHR 0x80]]"

definition head_token :: "string list \<Rightarrow> string \<Rightarrow> string option" where
  "head_token ts s = find (\<lambda>t. t \<noteq> [] \<and> prefix t s) ts"

lemma head_token_SomeD: "head_token ts s = Some t \<Longrightarrow> t \<in> set ts \<and> t \<noteq> [] \<and> prefix t s"
  by (auto simp: head_token_def find_Some_iff)

lemma head_token_None_iff: "head_token ts s = None \<longleftrightarrow> (\<forall>t\<in>set ts. t = [] \<or> \<not> prefix t s)"
  by (auto simp: head_token_def find_None_iff)

function strip_tokens :: "string list \<Rightarrow> string \<Rightarrow> string" where
  "strip_tokens ts s =
     (case head_token ts s of None \<Rightarrow> s | Some t \<Rightarrow> strip_tokens ts (drop (length t) s))"
  by pat_completeness auto
termination
proof (relation "measure (\<lambda>(ts, s). length s)", simp, goal_cases)
  case (1 ts s t)
  then have "t \<noteq> []" and "prefix t s"
    using head_token_SomeD by blast+
  then have "0 < length t" and "0 < length s"
    by auto
  then show ?case by (simp only: in_measure case_prod_conv length_drop diff_less)
qed

declare strip_tokens.simps [simp del]

lemma strip_tokens_id: "head_token ts s = None \<Longrightarrow> strip_tokens ts s = s"
  by (simp add: strip_tokens.simps)

lemma head_token_strip: "head_token ts (strip_tokens ts s) = None"
proof (induction ts s rule: strip_tokens.induct)
  case (1 ts s)
  then show ?case
    by (cases "head_token ts s") (simp_all add: strip_tokens.simps [of ts s])
qed

lemma suffix_strip_tokens: "suffix (strip_tokens ts s) s"
proof (induction ts s rule: strip_tokens.induct)
  case (1 ts s)
  show ?case
  proof (cases "head_token ts s")
    case None
    then show ?thesis by (simp add: strip_tokens_id)
  next
    case (Some t)
    with 1 have "suffix (strip_tokens ts (drop (length t) s)) (drop (length t) s)" by simp
    then show ?thesis
      using Some by (simp add: strip_tokens.simps [of ts s])
        (meson suffix_drop suffix_order.trans)
  qed
qed

lemma strip_tokens_idem [simp]: "strip_tokens ts (strip_tokens ts s) = strip_tokens ts s"
  by (rule strip_tokens_id [OF head_token_strip])

definition trim_start :: "string \<Rightarrow> string" where
  "trim_start s = strip_tokens ws_tokens s"

definition trim_end :: "string \<Rightarrow> string" where
  "trim_end s = rev (strip_tokens (map rev ws_tokens) (rev s))"

definition trim :: "string \<Rightarrow> string" where
  "trim s = trim_end (trim_start s)"

text \<open>No whitespace sequence starts the text, none ends it.\<close>

definition no_ws_start :: "string \<Rightarrow> bool" where
  "no_ws_start s \<longleftrightarrow> head_token ws_tokens s = None"

definition no_ws_end :: "string \<Rightarrow> bool" where
  "no_ws_end s \<longleftrightarrow> head_token (map rev ws_tokens) (rev s) = None"

lemma trim_start_id [simp]: "no_ws_start s \<Longrightarrow> trim_start s = s"
  by (simp add: trim_start_def no_ws_start_def strip_tokens_id)

lemma trim_end_id [simp]: "no_ws_end s \<Longrightarrow> trim_end s = s"
  by (simp add: trim_end_def no_ws_end_def strip_tokens_id)

lemma no_ws_start_trim_start [simp]: "no_ws_start (trim_start s)"
  by (simp add: trim_start_def no_ws_start_def head_token_strip)

lemma no_ws_end_trim_end [simp]: "no_ws_end (trim_end s)"
  by (simp add: trim_end_def no_ws_end_def head_token_strip)

lemma prefix_trim_end: "prefix (trim_end s) s"
  using suffix_strip_tokens [of "map rev ws_tokens" "rev s"]
  by (simp add: trim_end_def suffix_to_prefix)

lemma suffix_trim_start: "suffix (trim_start s) s"
  by (simp add: trim_start_def suffix_strip_tokens)

lemma no_ws_start_prefix: "no_ws_start s \<Longrightarrow> prefix u s \<Longrightarrow> no_ws_start u"
  by (auto simp: no_ws_start_def head_token_None_iff intro: prefix_order.trans)

lemma no_ws_start_trim [simp]: "no_ws_start (trim s)"
  unfolding trim_def by (rule no_ws_start_prefix [OF no_ws_start_trim_start prefix_trim_end])

lemma no_ws_end_trim [simp]: "no_ws_end (trim s)"
  by (simp add: trim_def)

lemma trim_id: "no_ws_start s \<Longrightarrow> no_ws_end s \<Longrightarrow> trim s = s"
  by (simp add: trim_def)

lemma trim_idem [simp]: "trim (trim s) = trim s"
  by (simp add: trim_id)

lemma trim_eq_iff: "trim s = s \<longleftrightarrow> no_ws_start s \<and> no_ws_end s"
  using no_ws_start_trim [of s] no_ws_end_trim [of s] trim_id by metis

lemma set_trim_subset: "set (trim s) \<subseteq> set s"
proof -
  have "set (trim s) \<subseteq> set (trim_start s)"
    unfolding trim_def by (rule set_mono_prefix [OF prefix_trim_end])
  also have "\<dots> \<subseteq> set s"
    by (rule set_mono_suffix [OF suffix_trim_start])
  finally show ?thesis .
qed

lemma no_ws_Nil [simp]: "no_ws_start []" "no_ws_end []"
  by (simp_all add: no_ws_start_def no_ws_end_def head_token_None_iff)

lemma trim_Nil [simp]: "trim [] = []"
  by (simp add: trim_id)

text \<open>
  A token never reaches across a character that occurs in no token: appending such a
  separator and anything after it keeps both ends clean.
\<close>

definition ws_free :: "char \<Rightarrow> bool" where
  "ws_free c \<longleftrightarrow> (\<forall>t\<in>set ws_tokens. c \<notin> set t)"

lemma prefix_before:
  assumes "prefix t (u @ c # v)" and "c \<notin> set t"
  shows "prefix t u"
proof -
  have "prefix t u \<or> (\<exists>w. t = u @ w \<and> prefix w (c # v))"
    using assms(1) by (simp add: prefix_append)
  then show ?thesis
  proof
    assume "\<exists>w. t = u @ w \<and> prefix w (c # v)"
    then obtain w where w: "t = u @ w" "prefix w (c # v)" by blast
    with assms(2) have "w = []" by (cases w) auto
    with w show ?thesis by simp
  qed
qed

lemma no_ws_start_append:
  assumes "no_ws_start u" and "u \<noteq> []" and "ws_free c"
  shows "no_ws_start (u @ c # v)"
  unfolding no_ws_start_def head_token_None_iff
proof
  fix t assume t: "t \<in> set ws_tokens"
  show "t = [] \<or> \<not> prefix t (u @ c # v)"
  proof (rule ccontr)
    assume "\<not> ?thesis"
    with t assms(3) have "prefix t u" and "t \<noteq> []"
      by (auto simp: ws_free_def intro: prefix_before)
    with assms(1) t show False
      by (auto simp: no_ws_start_def head_token_None_iff)
  qed
qed

lemma no_ws_end_append:
  assumes "no_ws_end v" and "v \<noteq> []" and "ws_free c"
  shows "no_ws_end (u @ c # v)"
  unfolding no_ws_end_def head_token_None_iff
proof
  fix t assume t: "t \<in> set (map rev ws_tokens)"
  show "t = [] \<or> \<not> prefix t (rev (u @ c # v))"
  proof (rule ccontr)
    assume a: "\<not> ?thesis"
    from t assms(3) have "c \<notin> set t" by (auto simp: ws_free_def)
    with a have "prefix t (rev v)" and "t \<noteq> []"
      using prefix_before [of t "rev v" c "rev u"] by auto
    with assms(1) t show False
      by (auto simp: no_ws_end_def head_token_None_iff)
  qed
qed

lemma no_ws_start_Cons: "ws_free c \<Longrightarrow> no_ws_start (c # v)"
  by (auto simp: no_ws_start_def head_token_None_iff ws_free_def prefix_Cons)

section \<open>Lines\<close>

text \<open>
  \<open>str::lines\<close>: the text between newlines, a carriage return just before the newline
  dropped, no empty line after a final newline.
\<close>

definition strip_cr :: "string \<Rightarrow> string" where
  "strip_cr l = (if l \<noteq> [] \<and> last l = cr then butlast l else l)"

fun lines_from :: "string \<Rightarrow> string \<Rightarrow> string list" where
  "lines_from acc [] = (if acc = [] then [] else [rev acc])"
| "lines_from acc (c # cs) =
     (if c = nl then strip_cr (rev acc) # lines_from [] cs else lines_from (c # acc) cs)"

definition str_lines :: "string \<Rightarrow> string list" where
  "str_lines s = lines_from [] s"

text \<open>The writer the sources use: every line followed by a newline.\<close>

definition unlines :: "string list \<Rightarrow> string" where
  "unlines ls = concat (map (\<lambda>l. l @ [nl]) ls)"

definition clean_line :: "string \<Rightarrow> bool" where
  "clean_line l \<longleftrightarrow> nl \<notin> set l \<and> cr \<notin> set l"

lemma unlines_simps [simp]:
  "unlines [] = []"
  "unlines (l # ls) = l @ nl # unlines ls"
  "unlines (ls @ ms) = unlines ls @ unlines ms"
  by (simp_all add: unlines_def)

lemma strip_cr_id [simp]: "cr \<notin> set l \<Longrightarrow> strip_cr l = l"
  by (auto simp: strip_cr_def dest: last_in_set)

lemma set_strip_cr: "set (strip_cr l) \<subseteq> set l"
  by (auto simp: strip_cr_def dest: in_set_butlastD)

lemma lines_from_append:
  "nl \<notin> set l \<Longrightarrow> lines_from acc (l @ nl # s) = strip_cr (rev acc @ l) # lines_from [] s"
  by (induction l arbitrary: acc) auto

lemma str_lines_Cons: "nl \<notin> set l \<Longrightarrow> str_lines (l @ nl # s) = strip_cr l # str_lines s"
  by (simp add: str_lines_def lines_from_append)

lemma str_lines_Nil [simp]: "str_lines [] = []"
  by (simp add: str_lines_def)

lemma str_lines_unlines [simp]: "\<forall>l\<in>set ls. clean_line l \<Longrightarrow> str_lines (unlines ls) = ls"
  by (induction ls) (auto simp: str_lines_Cons clean_line_def)

lemma lines_from_no_nl: "nl \<notin> set acc \<Longrightarrow> l \<in> set (lines_from acc s) \<Longrightarrow> nl \<notin> set l"
proof (induction acc s rule: lines_from.induct)
  case (2 acc c cs)
  then show ?case
    using set_strip_cr [of "rev acc"] by (auto split: if_splits)
qed (auto split: if_splits)

lemma str_lines_no_nl: "l \<in> set (str_lines s) \<Longrightarrow> nl \<notin> set l"
  unfolding str_lines_def by (rule lines_from_no_nl) simp_all

lemma lines_from_subset: "l \<in> set (lines_from acc s) \<Longrightarrow> set l \<subseteq> set acc \<union> set s"
proof (induction acc s rule: lines_from.induct)
  case (2 acc c cs)
  then show ?case
    using set_strip_cr [of "rev acc"] by (fastforce split: if_splits)
qed (auto split: if_splits)

lemma str_lines_clean: "cr \<notin> set s \<Longrightarrow> \<forall>l\<in>set (str_lines s). clean_line l"
  using lines_from_subset [of _ "[]" s] str_lines_no_nl [of _ s]
  by (fastforce simp: clean_line_def str_lines_def)

section \<open>Splitting and searching\<close>

text \<open>\<open>str::split_once(c)\<close>.\<close>

fun split_once :: "char \<Rightarrow> string \<Rightarrow> (string \<times> string) option" where
  "split_once d [] = None"
| "split_once d (c # s) =
     (if c = d then Some ([], s)
      else map_option (\<lambda>(a, b). (c # a, b)) (split_once d s))"

lemma split_once_append [simp]: "d \<notin> set a \<Longrightarrow> split_once d (a @ d # b) = Some (a, b)"
  by (induction a) auto

lemma split_once_SomeD: "split_once d s = Some (a, b) \<Longrightarrow> s = a @ d # b \<and> d \<notin> set a"
  by (induction s arbitrary: a b) (auto split: if_splits)

lemma split_once_None_iff: "split_once d s = None \<longleftrightarrow> d \<notin> set s"
  by (induction s) auto

text \<open>\<open>starts_with\<close>, \<open>contains\<close> and \<open>strip_prefix\<close> for a string pattern.\<close>

definition starts_with :: "string \<Rightarrow> string \<Rightarrow> bool" where
  "starts_with s p \<longleftrightarrow> prefix p s"

fun contains_str :: "string \<Rightarrow> string \<Rightarrow> bool" where
  "contains_str [] p = (p = [])"
| "contains_str (c # s) p = (prefix p (c # s) \<or> contains_str s p)"

definition strip_prefix :: "string \<Rightarrow> string \<Rightarrow> string option" where
  "strip_prefix s p = (if prefix p s then Some (drop (length p) s) else None)"

lemma contains_str_iff: "contains_str s p \<longleftrightarrow> sublist p s"
  by (induction s) (auto simp: sublist_Cons_right)

lemma strip_prefix_append [simp]: "strip_prefix (p @ s) p = Some s"
  by (simp add: strip_prefix_def)

lemma strip_prefix_Some_iff: "strip_prefix s p = Some r \<longleftrightarrow> s = p @ r"
  by (auto simp: strip_prefix_def prefix_def)

text \<open>\<open>str::split(c)\<close> and the first whitespace-separated token of \<open>split_whitespace\<close>.\<close>

fun split_on :: "char \<Rightarrow> string \<Rightarrow> string list" where
  "split_on d [] = [[]]"
| "split_on d (c # s) =
     (if c = d then [] # split_on d s
      else (case split_on d s of [] \<Rightarrow> [[c]] | w # ws \<Rightarrow> (c # w) # ws))"

lemma split_on_ne [simp]: "split_on d s \<noteq> []"
  by (induction s) (auto split: list.splits)

fun take_token :: "string \<Rightarrow> string" where
  "take_token [] = []"
| "take_token (c # s) =
     (if head_token ws_tokens (c # s) \<noteq> None then [] else c # take_token s)"

definition first_token :: "string \<Rightarrow> string option" where
  "first_token s = (let t = trim_start s in if t = [] then None else Some (take_token t))"

text \<open>\<open>slice::join\<close> with a one-character separator.\<close>

fun join_with :: "string \<Rightarrow> string list \<Rightarrow> string" where
  "join_with sep [] = []"
| "join_with sep [l] = l"
| "join_with sep (l # ls) = l @ sep @ join_with sep ls"

lemma join_nl_unlines: "ls \<noteq> [] \<Longrightarrow> join_with [nl] ls @ [nl] = unlines ls"
  by (induction "[nl]" ls rule: join_with.induct) auto

section \<open>Formatting\<close>

text \<open>Decimal digits of an unsigned integer, and \<open>{:?}\<close> of a vector of them.\<close>

fun show_nat :: "nat \<Rightarrow> string" where
  "show_nat n =
     (if n < 10 then [char_of (48 + n)] else show_nat (n div 10) @ [char_of (48 + n mod 10)])"

declare show_nat.simps [simp del]

definition show_nats :: "nat list \<Rightarrow> string" where
  "show_nats ns = ''['' @ join_with '', '' (map show_nat ns) @ '']''"

text \<open>A string between apostrophes, as the messages print names.\<close>

definition quoted :: "string \<Rightarrow> string" where
  "quoted s = CHR 0x27 # s @ [CHR 0x27]"

text \<open>The characters outside ASCII of the user-facing messages, as UTF-8.\<close>

definition em_dash :: string where
  "em_dash = [CHR 0xE2, CHR 0x80, CHR 0x94]"

definition plus_minus :: string where "plus_minus = [CHR 0xC2, CHR 0xB1]"
definition degree_sign :: string where "degree_sign = [CHR 0xC2, CHR 0xB0]"
definition geq_sign :: string where "geq_sign = [CHR 0xE2, CHR 0x89, CHR 0xA5]"

text \<open>\<open>matches!(v, "1" | "true" | "yes" | "on")\<close> and its negative counterpart.\<close>

definition truthy :: "string \<Rightarrow> bool" where
  "truthy v \<longleftrightarrow> v \<in> {''1'', ''true'', ''yes'', ''on''}"

definition falsy :: "string \<Rightarrow> bool" where
  "falsy v \<longleftrightarrow> v \<in> {''0'', ''false'', ''no'', ''off''}"

end
