(* ===== verification/Host.thy ===== *)
theory Host
  imports Prelude
begin

text \<open>
  The host the daemon and the tools run on, as far as the sources touch it: a file store
  (regular files with their bytes and modes, directories), environment variables and the
  random source, with the operations of \<open>std::fs\<close> the code calls. Every operation may fail:
  \<open>io_fault\<close> says which ones the operating system refuses at present. Symbolic links are
  data of the host: \<open>links\<close> is what \<open>read_link\<close> returns and \<open>realpath\<close> what \<open>canonicalize\<close> does. The error type is
  \<open>LinuxHelloError\<close> of crates/linhello-common/src/lib.rs. Computations that read or change
  the host and may stop with an error are functions \<open>'w \<Rightarrow> ('e, 'a) outcome \<times> 'w\<close>, composed by
  \<open>abind\<close>, the \<open>?\<close> operator with the state threaded through.
\<close>

section \<open>Errors\<close>

datatype io_error = NotFound | TimedOut | UnexpectedEof | OtherIo string

datatype lh_error =
    Tpm string
  | Biometrics string
  | Policy string
  | Io io_error
  | Serde string

definition io_to_string :: "io_error \<Rightarrow> string" where
  "io_to_string e = (case e of
      NotFound \<Rightarrow> ''No such file or directory (os error 2)''
    | TimedOut \<Rightarrow> ''timed out connecting to linhello daemon socket''
    | UnexpectedEof \<Rightarrow> ''daemon closed connection without responding''
    | OtherIo m \<Rightarrow> m)"

definition err_to_string :: "lh_error \<Rightarrow> string" where
  "err_to_string e = (case e of
      Tpm m \<Rightarrow> ''TPM error: '' @ m
    | Biometrics m \<Rightarrow> ''biometrics error: '' @ m
    | Policy m \<Rightarrow> ''policy violation: '' @ m
    | Io i \<Rightarrow> ''io error: '' @ io_to_string i
    | Serde m \<Rightarrow> ''serialization error: '' @ m)"

datatype security_level = Full | Medium | Basic

datatype boot_mode = Uki | Grub | Unknown

section \<open>Computations over a state\<close>

text \<open>
  A computation returns, stops with an error the callers may inspect, or panics: a panic
  unwinds through every \<open>?\<close> and every \<open>match\<close> on a \<open>Result\<close>.
\<close>

datatype ('e, 'a) outcome = Ok 'a | Err 'e | Panic string

type_synonym ('w, 'e, 'a) act = "'w \<Rightarrow> ('e, 'a) outcome \<times> 'w"

definition ret :: "'a \<Rightarrow> ('w, 'e, 'a) act" where
  "ret x w = (Ok x, w)"

definition fail :: "'e \<Rightarrow> ('w, 'e, 'a) act" where
  "fail e w = (Err e, w)"

definition of_result :: "'e + 'a \<Rightarrow> ('e, 'a) outcome" where
  "of_result r = (case r of Inl e \<Rightarrow> Err e | Inr x \<Rightarrow> Ok x)"

definition lift :: "'e + 'a \<Rightarrow> ('w, 'e, 'a) act" where
  "lift r w = (of_result r, w)"

definition lift_out :: "('e, 'a) outcome \<Rightarrow> ('w, 'e, 'a) act" where
  "lift_out r w = (r, w)"

definition query :: "('w \<Rightarrow> 'a) \<Rightarrow> ('w, 'e, 'a) act" where
  "query f w = (Ok (f w), w)"

definition modify :: "('w \<Rightarrow> 'w) \<Rightarrow> ('w, 'e, unit) act" where
  "modify f w = (Ok (), f w)"

definition abind :: "('w, 'e, 'a) act \<Rightarrow> ('a \<Rightarrow> ('w, 'e, 'b) act) \<Rightarrow> ('w, 'e, 'b) act" where
  "abind m f w = (case m w of
      (Ok x, v) \<Rightarrow> f x v
    | (Err e, v) \<Rightarrow> (Err e, v)
    | (Panic s, v) \<Rightarrow> (Panic s, v))"

text \<open>Observe the result of a computation without stopping on its error, as a \<open>match\<close> on a
  \<open>Result\<close> does; a panic still unwinds.\<close>

definition try_act :: "('w, 'e, 'a) act \<Rightarrow> ('w, 'f, 'e + 'a) act" where
  "try_act m w = (case m w of
      (Ok x, v) \<Rightarrow> (Ok (Inr x), v)
    | (Err e, v) \<Rightarrow> (Ok (Inl e), v)
    | (Panic s, v) \<Rightarrow> (Panic s, v))"

text \<open>\<open>let _ = m;\<close>\<close>

definition ignore :: "('w, 'f, 'a) act \<Rightarrow> ('w, 'e, unit) act" where
  "ignore m = abind (try_act m) (\<lambda>_. ret ())"

definition amap_err :: "('e \<Rightarrow> 'f) \<Rightarrow> ('w, 'e, 'a) act \<Rightarrow> ('w, 'f, 'a) act" where
  "amap_err g m w = (case m w of
      (Ok x, v) \<Rightarrow> (Ok x, v)
    | (Err e, v) \<Rightarrow> (Err (g e), v)
    | (Panic s, v) \<Rightarrow> (Panic s, v))"

lemma of_result_simps [simp]:
  "of_result (Inr x) = Ok x"
  "of_result (Inl e) = Err e"
  by (simp_all add: of_result_def)

lemma of_result_Ok_iff [res_iff]: "of_result r = Ok x \<longleftrightarrow> r = Inr x"
  by (cases r) simp_all

lemma act_basic [simp, act_simps]:
  "ret x w = (Ok x, w)"
  "fail e w = (Err e, w)"
  "lift r w = (of_result r, w)"
  "lift_out q w = (q, w)"
  "query f w = (Ok (f w), w)"
  "modify g w = (Ok (), g w)"
  by (simp_all add: ret_def fail_def lift_def lift_out_def query_def modify_def)

lemma abind_eq [act_simps]:
  "abind m f w = (case fst (m w) of
      Ok x \<Rightarrow> f x (snd (m w)) | Err e \<Rightarrow> (Err e, snd (m w)) | Panic s \<Rightarrow> (Panic s, snd (m w)))"
  by (simp add: abind_def case_prod_beta split: outcome.splits)

lemma abind_run:
  "m w = (Ok x, v) \<Longrightarrow> abind m f w = f x v"
  "m w = (Err e, v) \<Longrightarrow> abind m f w = (Err e, v)"
  by (simp_all add: abind_def)

text \<open>When a composed computation succeeds: every part did, in order.\<close>

lemma abind_result [res_iff]:
  "abind m f w = (Ok y, w') \<longleftrightarrow> (\<exists>x v. m w = (Ok x, v) \<and> f x v = (Ok y, w'))"
  by (auto simp: abind_def split: prod.splits outcome.splits)

lemma try_act_result [res_iff]:
  "try_act m w = (Ok r, w') \<longleftrightarrow>
     (\<exists>x. r = Inr x \<and> m w = (Ok x, w')) \<or> (\<exists>e. r = Inl e \<and> m w = (Err e, w'))"
  by (auto simp: try_act_def split: prod.splits outcome.splits)

lemma amap_err_result [res_iff]: "amap_err g m w = (Ok y, w') \<longleftrightarrow> m w = (Ok y, w')"
  by (auto simp: amap_err_def split: prod.splits outcome.splits)

lemma lift_result [res_iff]: "lift r w = (Ok y, w') \<longleftrightarrow> r = Inr y \<and> w' = w"
  by (cases r) auto

definition panics :: "('e, 'a) outcome \<Rightarrow> bool" where
  "panics r \<longleftrightarrow> (case r of Panic _ \<Rightarrow> True | _ \<Rightarrow> False)"

lemma panics_simps [simp]: "\<not> panics (Ok x)" "\<not> panics (Err e)" "panics (Panic s)"
  by (simp_all add: panics_def)

lemma panics_try_act [simp]: "panics (fst (try_act m w)) = panics (fst (m w))"
  by (simp add: try_act_def split: prod.splits outcome.splits)

lemma panics_amap_err [simp]: "panics (fst (amap_err g m w)) = panics (fst (m w))"
  by (simp add: amap_err_def split: prod.splits outcome.splits)

lemma snd_try_act [simp]: "snd (try_act m w) = snd (m w)"
  by (simp add: try_act_def split: prod.splits outcome.splits)

lemma snd_amap_err [simp]: "snd (amap_err g m w) = snd (m w)"
  by (simp add: amap_err_def split: prod.splits outcome.splits)

text \<open>
  The frame interface: a preorder on states that a computation respects. Every component
  states what its operations leave alone as an instance of it, and whole handlers inherit it
  from their parts.
\<close>

locale frame =
  fixes R :: "'w \<Rightarrow> 'w \<Rightarrow> bool"
  assumes frame_refl: "R w w"
    and frame_trans: "R u v \<Longrightarrow> R v w \<Longrightarrow> R u w"
begin

definition keeps :: "('w, 'e, 'a) act \<Rightarrow> bool" where
  "keeps m \<longleftrightarrow> (\<forall>w. R w (snd (m w)))"

lemma keepsD: "keeps m \<Longrightarrow> R w (snd (m w))"
  by (simp add: keeps_def)

lemma keepsI: "(\<And>w. R w (snd (m w))) \<Longrightarrow> keeps m"
  by (simp add: keeps_def)

lemma keeps_pure:
  "keeps (ret x)" "keeps (fail e)" "keeps (lift r)" "keeps (lift_out q)" "keeps (query f)"
  by (simp_all add: keeps_def frame_refl)

lemma keeps_modify: "(\<And>w. R w (g w)) \<Longrightarrow> keeps (modify g)"
  by (simp add: keeps_def)

lemma keeps_abind:
  assumes "keeps m" and "\<And>x. keeps (f x)"
  shows "keeps (abind m f)"
proof (rule keepsI)
  fix w
  have "R w (snd (m w))" by (rule keepsD [OF assms(1)])
  then show "R w (snd (abind m f w))"
    using keepsD [OF assms(2)] by (auto simp: abind_eq frame_refl split: outcome.splits intro: frame_trans)
qed

lemma keeps_try: "keeps m \<Longrightarrow> keeps (try_act m)"
  by (simp add: keeps_def)

lemma keeps_map_err: "keeps m \<Longrightarrow> keeps (amap_err g m)"
  by (simp add: keeps_def)

lemma keeps_if: "(b \<Longrightarrow> keeps m) \<Longrightarrow> (\<not> b \<Longrightarrow> keeps n) \<Longrightarrow> keeps (if b then m else n)"
  by simp

lemma keeps_case_option:
  "keeps m \<Longrightarrow> (\<And>x. keeps (f x)) \<Longrightarrow> keeps (case opt of None \<Rightarrow> m | Some x \<Rightarrow> f x)"
  by (simp split: option.split)

lemma keeps_case_sum:
  "(\<And>e. keeps (g e)) \<Longrightarrow> (\<And>x. keeps (f x)) \<Longrightarrow> keeps (case r of Inl e \<Rightarrow> g e | Inr x \<Rightarrow> f x)"
  by (simp split: sum.split)

lemma keeps_Let: "(\<And>x. keeps (f x)) \<Longrightarrow> keeps (Let v f)"
  by simp

lemma keeps_case_prod: "(\<And>a b. keeps (f a b)) \<Longrightarrow> keeps (case p of (a, b) \<Rightarrow> f a b)"
  by (simp split: prod.split)

lemmas keeps_intros =
  keeps_pure keeps_abind keeps_try keeps_map_err keeps_if keeps_case_option keeps_case_sum keeps_Let

text \<open>The weaker form for a computation that may unwind: the relation holds when it returns.\<close>

definition keeps_ret :: "('w, 'e, 'a) act \<Rightarrow> bool" where
  "keeps_ret m \<longleftrightarrow> (\<forall>w. \<not> panics (fst (m w)) \<longrightarrow> R w (snd (m w)))"

lemma keeps_retI: "(\<And>w. \<not> panics (fst (m w)) \<Longrightarrow> R w (snd (m w))) \<Longrightarrow> keeps_ret m"
  by (simp add: keeps_ret_def)

lemma keeps_retD: "keeps_ret m \<Longrightarrow> \<not> panics (fst (m w)) \<Longrightarrow> R w (snd (m w))"
  by (simp add: keeps_ret_def)

lemma keeps_keeps_ret: "keeps m \<Longrightarrow> keeps_ret m"
  by (simp add: keeps_def keeps_ret_def)

lemma keeps_ret_abind:
  assumes "keeps_ret m" and "\<And>x. keeps_ret (f x)"
  shows "keeps_ret (abind m f)"
proof (rule keeps_retI)
  fix w assume n: "\<not> panics (fst (abind m f w))"
  then have "\<not> panics (fst (m w))" by (auto simp: abind_eq split: outcome.splits)
  then have "R w (snd (m w))" by (rule keeps_retD [OF assms(1)])
  then show "R w (snd (abind m f w))"
    using keeps_retD [OF assms(2)] n
    by (auto simp: abind_eq frame_refl split: outcome.splits intro: frame_trans)
qed

lemma keeps_ret_try: "keeps_ret m \<Longrightarrow> keeps_ret (try_act m)"
  by (simp add: keeps_ret_def)

lemma keeps_ret_map_err: "keeps_ret m \<Longrightarrow> keeps_ret (amap_err g m)"
  by (simp add: keeps_ret_def)

lemma keeps_ret_if: "(b \<Longrightarrow> keeps_ret m) \<Longrightarrow> (\<not> b \<Longrightarrow> keeps_ret n) \<Longrightarrow> keeps_ret (if b then m else n)"
  by simp

lemma keeps_ret_case_option:
  "keeps_ret m \<Longrightarrow> (\<And>x. keeps_ret (f x)) \<Longrightarrow> keeps_ret (case opt of None \<Rightarrow> m | Some x \<Rightarrow> f x)"
  by (simp split: option.split)

lemma keeps_ret_case_sum:
  "(\<And>e. keeps_ret (g e)) \<Longrightarrow> (\<And>x. keeps_ret (f x)) \<Longrightarrow> keeps_ret (case r of Inl e \<Rightarrow> g e | Inr x \<Rightarrow> f x)"
  by (simp split: sum.split)

lemma keeps_ret_Let: "(\<And>x. keeps_ret (f x)) \<Longrightarrow> keeps_ret (Let v f)"
  by simp

lemmas keeps_ret_intros =
  keeps_pure [THEN keeps_keeps_ret] keeps_ret_abind keeps_ret_try keeps_ret_map_err keeps_ret_if
  keeps_ret_case_option keeps_ret_case_sum keeps_ret_Let

end

section \<open>The file store\<close>

datatype io_op = OpStat | OpRead | OpWrite | OpMkdir | OpChmod | OpRemove | OpRename

record host =
  files :: "string \<rightharpoonup> bytes"
  modes :: "string \<rightharpoonup> nat"
  dirs :: "string list"
  new_mode :: nat
  io_fault :: "io_op \<Rightarrow> string \<Rightarrow> io_error option"
  env_vars :: "string \<rightharpoonup> string"
  links :: "string \<rightharpoonup> string"
  realpath :: "string \<rightharpoonup> string"
  draws :: nat

text \<open>UTF-8 validity, which \<open>read_to_string\<close> checks.\<close>

definition cont_byte :: "char \<Rightarrow> bool" where
  "cont_byte c \<longleftrightarrow> (let n = (of_char c :: nat) in 128 \<le> n \<and> n \<le> 191)"

definition utf8_2 :: "char \<Rightarrow> char \<Rightarrow> bool" where
  "utf8_2 a b \<longleftrightarrow> (let n = (of_char a :: nat) in 194 \<le> n \<and> n \<le> 223) \<and> cont_byte b"

definition utf8_3 :: "char \<Rightarrow> char \<Rightarrow> char \<Rightarrow> bool" where
  "utf8_3 a b c \<longleftrightarrow>
     (let n = (of_char a :: nat); m = (of_char b :: nat) in
        224 \<le> n \<and> n \<le> 239 \<and> cont_byte b \<and> cont_byte c \<and>
        (n = 224 \<longrightarrow> 160 \<le> m) \<and> (n = 237 \<longrightarrow> m \<le> 159))"

definition utf8_4 :: "char \<Rightarrow> char \<Rightarrow> char \<Rightarrow> char \<Rightarrow> bool" where
  "utf8_4 a b c d \<longleftrightarrow>
     (let n = (of_char a :: nat); m = (of_char b :: nat) in
        240 \<le> n \<and> n \<le> 244 \<and> cont_byte b \<and> cont_byte c \<and> cont_byte d \<and>
        (n = 240 \<longrightarrow> 144 \<le> m) \<and> (n = 244 \<longrightarrow> m \<le> 143))"

fun utf8_valid :: "bytes \<Rightarrow> bool" where
  "utf8_valid [] = True"
| "utf8_valid (a # s) =
     (if (of_char a :: nat) < 128 then utf8_valid s
      else (case s of [] \<Rightarrow> False | b # s2 \<Rightarrow>
        if utf8_2 a b then utf8_valid s2
        else (case s2 of [] \<Rightarrow> False | c # s3 \<Rightarrow>
          if utf8_3 a b c then utf8_valid s3
          else (case s3 of [] \<Rightarrow> False | d # s4 \<Rightarrow> utf8_4 a b c d \<and> utf8_valid s4))))"

definition ascii :: "bytes \<Rightarrow> bool" where
  "ascii s \<longleftrightarrow> list_all (\<lambda>c. (of_char c :: nat) < 128) s"

lemma utf8_valid_ascii: "ascii s \<Longrightarrow> utf8_valid s"
  by (induction s) (auto simp: ascii_def)

lemma utf8_valid_append_ascii: "ascii s \<Longrightarrow> utf8_valid (s @ t) = utf8_valid t"
  by (induction s) (auto simp: ascii_def)

lemma ascii_append [simp]: "ascii (s @ t) \<longleftrightarrow> ascii s \<and> ascii t"
  by (simp add: ascii_def)

lemma utf8_not_cont:
  assumes "(of_char x :: nat) < 128"
  shows "\<not> utf8_2 a x" "\<not> utf8_3 a x c" "\<not> utf8_3 a b x"
    "\<not> utf8_4 a x c d" "\<not> utf8_4 a b x d" "\<not> utf8_4 a b c x"
  using assms by (auto simp: utf8_2_def utf8_3_def utf8_4_def cont_byte_def Let_def)

lemma utf8_valid_break:
  assumes x: "(of_char x :: nat) < 128"
  shows "utf8_valid (s @ x # t) \<longleftrightarrow> utf8_valid s \<and> utf8_valid t"
proof (induction s rule: utf8_valid.induct)
  case (2 a s)
  note no = utf8_not_cont [OF x]
  show ?case
  proof (cases "(of_char a :: nat) < 128")
    case True then show ?thesis using "2.IH"(1) by simp
  next
    case a: False
    show ?thesis
    proof (cases s)
      case Nil then show ?thesis using a no by (simp split: list.split)
    next
      case b: (Cons b s2)
      show ?thesis
      proof (cases "utf8_2 a b")
        case True then show ?thesis using a b "2.IH"(2) by simp
      next
        case n2: False
        show ?thesis
        proof (cases s2)
          case Nil then show ?thesis using a b n2 no by (simp split: list.split)
        next
          case c: (Cons c s3)
          show ?thesis
          proof (cases "utf8_3 a b c")
            case True then show ?thesis using a b n2 c "2.IH"(3) by simp
          next
            case False then show ?thesis using a b n2 c no "2.IH"(4) by (cases s3) simp_all
          qed
        qed
      qed
    qed
  qed
qed (simp add: x)

lemma utf8_strip_cr:
  assumes "utf8_valid l"
  shows "utf8_valid (strip_cr l)"
proof (cases "l \<noteq> [] \<and> last l = cr")
  case True
  then have l: "l = butlast l @ cr # []" by (metis append_butlast_last_id)
  have "utf8_valid (butlast l @ cr # [])" using assms l by simp
  then have "utf8_valid (butlast l)" by (subst (asm) utf8_valid_break) simp_all
  then show ?thesis using True by (simp add: strip_cr_def)
qed (use assms in \<open>auto simp: strip_cr_def\<close>)

lemma utf8_lines_from: "utf8_valid (rev acc @ s) \<Longrightarrow> l \<in> set (lines_from acc s) \<Longrightarrow> utf8_valid l"
proof (induction acc s rule: lines_from.induct)
  case (2 acc c cs)
  have "(of_char nl :: nat) < 128" by simp
  from utf8_valid_break [OF this, of "rev acc" cs] 2 show ?case
    by (auto split: if_splits intro: utf8_strip_cr)
qed (auto split: if_splits)

lemma utf8_str_lines: "utf8_valid s \<Longrightarrow> l \<in> set (str_lines s) \<Longrightarrow> utf8_valid l"
  using utf8_lines_from [of "[]" s l] by (simp add: str_lines_def)

lemma utf8_unlines: "\<forall>l\<in>set ls. utf8_valid l \<Longrightarrow> utf8_valid (unlines ls)"
  by (induction ls) (simp_all add: utf8_valid_break)

subsection \<open>Paths\<close>

definition path_join :: "string \<Rightarrow> string \<Rightarrow> string" where
  "path_join a b = (if starts_with b ''/'' then b else a @ ''/'' @ b)"

definition parent :: "string \<Rightarrow> string option" where
  "parent p = map_option (\<lambda>(_, r). rev r) (split_once (CHR ''/'') (rev p))"

definition file_name :: "string \<Rightarrow> string" where
  "file_name p = (case split_once (CHR ''/'') (rev p) of None \<Rightarrow> p | Some (n, _) \<Rightarrow> rev n)"

definition config_root :: string where
  "config_root = ''/etc/linhello''"

lemma parent_join: "CHR ''/'' \<notin> set b \<Longrightarrow> parent (a @ ''/'' @ b) = Some a"
  by (simp add: parent_def)

lemma parent_SomeD: "parent p = Some q \<Longrightarrow> \<exists>n. p = q @ ''/'' @ n \<and> CHR ''/'' \<notin> set n"
proof -
  assume "parent p = Some q"
  then obtain n where "split_once (CHR ''/'') (rev p) = Some (n, rev q)"
    by (auto simp: parent_def)
  then have "rev p = n @ CHR ''/'' # rev q \<and> CHR ''/'' \<notin> set n"
    by (rule split_once_SomeD)
  then have "p = q @ ''/'' @ rev n \<and> CHR ''/'' \<notin> set (rev n)"
    by (auto simp: rev_eq_append_conv)
  then show ?thesis by blast
qed

lemma parent_shorter: "parent p = Some q \<Longrightarrow> length q < length p"
  by (auto dest!: parent_SomeD)

function ancestors :: "string \<Rightarrow> string list" where
  "ancestors p = (case parent p of None \<Rightarrow> [] | Some q \<Rightarrow> if q = [] then [] else q # ancestors q)"
  by pat_completeness auto
termination
  by (relation "measure length") (auto dest: parent_shorter)

declare ancestors.simps [simp del]

text \<open>A path lies below a directory when it extends it by a separator and a name.\<close>

definition below :: "string \<Rightarrow> string \<Rightarrow> bool" where
  "below d p \<longleftrightarrow> prefix (d @ ''/'') p"

lemma below_join [simp]: "below a (a @ ''/'' @ b)"
  by (simp add: below_def)

lemma below_trans: "below a b \<Longrightarrow> below b c \<Longrightarrow> below a c"
  by (auto simp: below_def prefix_def)

subsection \<open>Operations\<close>

definition path_exists :: "string \<Rightarrow> 'z host_scheme \<Rightarrow> bool" where
  "path_exists p w \<longleftrightarrow> io_fault w OpStat p = None \<and> (files w p \<noteq> None \<or> p \<in> set (dirs w))"

definition fs_read :: "string \<Rightarrow> 'z host_scheme \<Rightarrow> io_error + bytes" where
  "fs_read p w = (case io_fault w OpRead p of
      Some e \<Rightarrow> Inl e
    | None \<Rightarrow> (case files w p of None \<Rightarrow> Inl NotFound | Some b \<Rightarrow> Inr b))"

definition fs_read_to_string :: "string \<Rightarrow> 'z host_scheme \<Rightarrow> io_error + string" where
  "fs_read_to_string p w = rbind (fs_read p w) (\<lambda>b.
     if utf8_valid b then Inr b else Inl (OtherIo ''stream did not contain valid UTF-8''))"

definition fs_len :: "string \<Rightarrow> 'z host_scheme \<Rightarrow> io_error + nat" where
  "fs_len p w = (case io_fault w OpStat p of
      Some e \<Rightarrow> Inl e
    | None \<Rightarrow> (case files w p of None \<Rightarrow> Inl NotFound | Some b \<Rightarrow> Inr (length b)))"

definition put_file :: "string \<Rightarrow> bytes \<Rightarrow> 'z host_scheme \<Rightarrow> 'z host_scheme" where
  "put_file p b w = w\<lparr>files := (files w)(p \<mapsto> b),
     modes := (if files w p = None then (modes w)(p \<mapsto> new_mode w) else modes w)\<rparr>"

definition fs_write :: "string \<Rightarrow> bytes \<Rightarrow> ('z host_scheme, io_error, unit) act" where
  "fs_write p b w = (case io_fault w OpWrite p of
      Some e \<Rightarrow> (Err e, w)
    | None \<Rightarrow>
        if p \<in> set (dirs w) then (Err (OtherIo ''Is a directory (os error 21)''), w)
        else if (case parent p of None \<Rightarrow> False | Some q \<Rightarrow> q \<noteq> [] \<and> q \<notin> set (dirs w))
        then (Err NotFound, w)
        else (Ok (), put_file p b w))"

definition fs_create_dir_all :: "string \<Rightarrow> ('z host_scheme, io_error, unit) act" where
  "fs_create_dir_all p w = (case io_fault w OpMkdir p of
      Some e \<Rightarrow> (Err e, w)
    | None \<Rightarrow>
        (let ps = p # ancestors p in
         if \<exists>q\<in>set ps. files w q \<noteq> None then (Err (OtherIo ''Not a directory (os error 20)''), w)
         else (Ok (), w\<lparr>dirs := dirs w @ filter (\<lambda>q. q \<notin> set (dirs w)) ps\<rparr>)))"

definition fs_set_permissions :: "string \<Rightarrow> nat \<Rightarrow> ('z host_scheme, io_error, unit) act" where
  "fs_set_permissions p m w = (case io_fault w OpChmod p of
      Some e \<Rightarrow> (Err e, w)
    | None \<Rightarrow>
        if files w p = None \<and> p \<notin> set (dirs w) then (Err NotFound, w)
        else (Ok (), w\<lparr>modes := (modes w)(p \<mapsto> m)\<rparr>))"

definition fs_remove_file :: "string \<Rightarrow> ('z host_scheme, io_error, unit) act" where
  "fs_remove_file p w = (case io_fault w OpRemove p of
      Some e \<Rightarrow> (Err e, w)
    | None \<Rightarrow>
        (case files w p of
           None \<Rightarrow> (Err NotFound, w)
         | Some _ \<Rightarrow> (Ok (), w\<lparr>files := (files w)(p := None), modes := (modes w)(p := None)\<rparr>)))"

definition fs_rename :: "string \<Rightarrow> string \<Rightarrow> ('z host_scheme, io_error, unit) act" where
  "fs_rename p q w = (case io_fault w OpRename q of
      Some e \<Rightarrow> (Err e, w)
    | None \<Rightarrow>
        (case files w p of
           None \<Rightarrow> (Err NotFound, w)
         | Some b \<Rightarrow>
             if q \<in> set (dirs w) then (Err (OtherIo ''Is a directory (os error 21)''), w)
             else (Ok (), w\<lparr>files := ((files w)(p := None))(q \<mapsto> b),
                             modes := ((modes w)(p := None))(q := modes w p)\<rparr>)))"

text \<open>Removing a tree either succeeds on everything below the directory or leaves it.\<close>

definition fs_remove_dir_all :: "string \<Rightarrow> ('z host_scheme, io_error, unit) act" where
  "fs_remove_dir_all d w = (case io_fault w OpRemove d of
      Some e \<Rightarrow> (Err e, w)
    | None \<Rightarrow>
        if d \<notin> set (dirs w) then (Err NotFound, w)
        else (Ok (), w\<lparr>files := (\<lambda>p. if below d p then None else files w p),
                        modes := (\<lambda>p. if below d p then None else modes w p),
                        dirs := filter (\<lambda>q. q \<noteq> d \<and> \<not> below d q) (dirs w)\<rparr>))"

definition subdirs :: "string \<Rightarrow> 'z host_scheme \<Rightarrow> string list" where
  "subdirs d w = map file_name (filter (\<lambda>q. parent q = Some d) (dirs w))"

text \<open>Errors of \<open>std::fs\<close> reach the callers through \<open>LinuxHelloError::Io\<close>.\<close>

definition io_act :: "('w, io_error, 'a) act \<Rightarrow> ('w, lh_error, 'a) act" where
  "io_act m = amap_err Io m"

section \<open>What the file operations leave alone\<close>

text \<open>
  \<open>same_outside P v w\<close>: the two hosts agree on every file outside \<open>P\<close>, on the environment
  and on which operations fail.
\<close>

definition same_outside :: "(string \<Rightarrow> bool) \<Rightarrow> 'z host_scheme \<Rightarrow> 'z host_scheme \<Rightarrow> bool" where
  "same_outside P v w \<longleftrightarrow>
     (\<forall>p. \<not> P p \<longrightarrow> files w p = files v p \<and> modes w p = modes v p) \<and>
     env_vars w = env_vars v \<and> io_fault w = io_fault v \<and> new_mode w = new_mode v \<and>
     links w = links v \<and> realpath w = realpath v"

lemma same_outside_refl [simp]: "same_outside P w w"
  by (simp add: same_outside_def)

lemma same_outside_trans: "same_outside P u v \<Longrightarrow> same_outside P v w \<Longrightarrow> same_outside P u w"
  by (simp add: same_outside_def)

lemma same_outside_mono: "same_outside P v w \<Longrightarrow> (\<And>p. P p \<Longrightarrow> Q p) \<Longrightarrow> same_outside Q v w"
  by (auto simp: same_outside_def)

lemma fs_write_frame: "P p \<Longrightarrow> same_outside P w (snd (fs_write p b w))"
  by (auto simp: fs_write_def same_outside_def put_file_def split: option.splits)

lemma fs_create_dir_all_frame: "same_outside P w (snd (fs_create_dir_all p w))"
  by (auto simp: fs_create_dir_all_def same_outside_def Let_def split: option.splits)

lemma fs_set_permissions_frame: "P p \<Longrightarrow> same_outside P w (snd (fs_set_permissions p m w))"
  by (auto simp: fs_set_permissions_def same_outside_def split: option.splits)

lemma fs_remove_file_frame: "P p \<Longrightarrow> same_outside P w (snd (fs_remove_file p w))"
  by (auto simp: fs_remove_file_def same_outside_def split: option.splits)

lemma fs_rename_frame: "P p \<Longrightarrow> P q \<Longrightarrow> same_outside P w (snd (fs_rename p q w))"
  by (auto simp: fs_rename_def same_outside_def split: option.splits)

lemma fs_remove_dir_all_frame:
  "(\<And>p. below d p \<Longrightarrow> P p) \<Longrightarrow> same_outside P w (snd (fs_remove_dir_all d w))"
  by (auto simp: fs_remove_dir_all_def same_outside_def split: option.splits)

lemma io_act_snd [simp]: "snd (io_act m w) = snd (m w)"
  by (simp add: io_act_def)

text \<open>What a successful operation did.\<close>

lemma io_act_result [res_iff]: "io_act m w = (Ok y, w') \<longleftrightarrow> m w = (Ok y, w')"
  by (simp add: io_act_def amap_err_result)

lemma fs_write_result:
  "fs_write p b w = (Ok (), w') \<Longrightarrow> w' = put_file p b w \<and> io_fault w OpWrite p = None"
  by (auto simp: fs_write_def split: option.splits if_splits)

lemma fs_set_permissions_result:
  "fs_set_permissions p m w = (Ok (), w') \<Longrightarrow> w' = w\<lparr>modes := (modes w)(p \<mapsto> m)\<rparr>"
  by (auto simp: fs_set_permissions_def split: option.splits if_splits)

lemma fs_rename_result:
  "fs_rename p q w = (Ok (), w') \<Longrightarrow>
   \<exists>b. files w p = Some b \<and> files w' = ((files w)(p := None))(q \<mapsto> b) \<and> io_fault w' = io_fault w
     \<and> modes w' = ((modes w)(p := None))(q := modes w p) \<and> dirs w' = dirs w"
  by (auto simp: fs_rename_def split: option.splits if_splits)

lemma fs_create_dir_all_result:
  "fs_create_dir_all p w = (Ok (), w') \<Longrightarrow>
   files w' = files w \<and> modes w' = modes w \<and> io_fault w' = io_fault w \<and> host.more w' = host.more w"
  by (auto simp: fs_create_dir_all_def Let_def split: option.splits if_splits)

lemma put_file_simps [simp]:
  "files (put_file p b w) = (files w)(p \<mapsto> b)"
  "dirs (put_file p b w) = dirs w"
  "env_vars (put_file p b w) = env_vars w"
  "io_fault (put_file p b w) = io_fault w"
  "host.more (put_file p b w) = host.more w"
  by (simp_all add: put_file_def)

interpretation outside: frame "same_outside P :: 'z host_scheme \<Rightarrow> 'z host_scheme \<Rightarrow> bool"
  for P :: "string \<Rightarrow> bool"
  by unfold_locales (auto intro: same_outside_trans)

text \<open>The file operations as instances of the frame interface.\<close>

lemma outside_fs_write: "P p \<Longrightarrow> outside.keeps P (fs_write p b)"
  by (rule outside.keepsI) (rule fs_write_frame)

lemma outside_fs_create_dir_all: "outside.keeps P (fs_create_dir_all p)"
  by (rule outside.keepsI) (rule fs_create_dir_all_frame)

lemma outside_fs_set_permissions: "P p \<Longrightarrow> outside.keeps P (fs_set_permissions p m)"
  by (rule outside.keepsI) (rule fs_set_permissions_frame)

lemma outside_fs_remove_file: "P p \<Longrightarrow> outside.keeps P (fs_remove_file p)"
  by (rule outside.keepsI) (rule fs_remove_file_frame)

lemma outside_fs_rename: "P p \<Longrightarrow> P q \<Longrightarrow> outside.keeps P (fs_rename p q)"
  by (rule outside.keepsI) (rule fs_rename_frame)

lemma outside_fs_remove_dir_all: "(\<And>p. below d p \<Longrightarrow> P p) \<Longrightarrow> outside.keeps P (fs_remove_dir_all d)"
  by (rule outside.keepsI) (rule fs_remove_dir_all_frame)

lemma outside_io_act: "outside.keeps P m \<Longrightarrow> outside.keeps P (io_act m)"
  by (simp add: io_act_def outside.keeps_map_err)

lemmas outside_intros =
  outside.keeps_intros outside_fs_write outside_fs_create_dir_all outside_fs_set_permissions
  outside_fs_remove_file outside_fs_rename outside_fs_remove_dir_all outside_io_act

text \<open>The parts of a larger state that extends the host, which the file operations never touch.\<close>

definition same_rest :: "'z host_scheme \<Rightarrow> 'z host_scheme \<Rightarrow> bool" where
  "same_rest v w \<longleftrightarrow> host.more w = host.more v"

interpretation rest: frame "same_rest :: 'z host_scheme \<Rightarrow> 'z host_scheme \<Rightarrow> bool"
  by unfold_locales (auto simp: same_rest_def)

lemma rest_fs:
  "rest.keeps (fs_write p b)" "rest.keeps (fs_create_dir_all p)" "rest.keeps (fs_set_permissions p m)"
  "rest.keeps (fs_remove_file p)" "rest.keeps (fs_rename p q)" "rest.keeps (fs_remove_dir_all p)"
  by (auto simp: rest.keeps_def same_rest_def fs_write_def fs_create_dir_all_def fs_set_permissions_def
      fs_remove_file_def fs_rename_def fs_remove_dir_all_def Let_def put_file_def split: option.splits)

lemma rest_io_act: "rest.keeps m \<Longrightarrow> rest.keeps (io_act m)"
  by (simp add: io_act_def rest.keeps_map_err)

lemmas rest_intros = rest.keeps_intros rest_fs rest_io_act

end
