(* ===== verification/F32.thy ===== *)
theory F32
  imports Prelude Complex_Main "HOL-Library.Word"
begin

text \<open>
  \<open>f32\<close> as its 32-bit pattern, with the IEEE-754 binary32 operations the sources use. An
  operation decodes its operands to exact rationals, computes exactly and rounds to nearest,
  ties to even; signed zeros, infinities and NaN are kept. The only freedom taken is the
  payload of a NaN, which no source line inspects. Also here: the casts \<open>as u8\<close> and \<open>as i32\<close>,
  \<open>clamp\<close>, \<open>max\<close>, \<open>min\<close>, \<open>sqrt\<close>, parsing and fixed-precision formatting.
\<close>

type_synonym f32 = "32 word"

datatype fval = FNan | FNInf | FNum rat | FPInf

section \<open>Decoding and rounding\<close>

definition f_sign :: "f32 \<Rightarrow> bool" where
  "f_sign w \<longleftrightarrow> 2 ^ 31 \<le> uint w"

definition f_expo :: "f32 \<Rightarrow> int" where
  "f_expo w = uint w div 2 ^ 23 mod 256"

definition f_mant :: "f32 \<Rightarrow> int" where
  "f_mant w = uint w mod 2 ^ 23"

definition f_magnitude :: "f32 \<Rightarrow> rat" where
  "f_magnitude w =
     (if f_expo w = 0 then of_int (f_mant w) / 2 ^ 149
      else of_int ((2 ^ 23 + f_mant w) * 2 ^ nat (f_expo w)) / 2 ^ 150)"

definition decode :: "f32 \<Rightarrow> fval" where
  "decode w =
     (if f_expo w = 255 then
        (if f_mant w \<noteq> 0 then FNan else if f_sign w then FNInf else FPInf)
      else FNum (if f_sign w then - f_magnitude w else f_magnitude w))"

definition f_zero :: "bool \<Rightarrow> f32" where
  "f_zero neg = (if neg then word_of_int (2 ^ 31) else 0)"

definition f_inf :: "bool \<Rightarrow> f32" where
  "f_inf neg = word_of_int ((if neg then 2 ^ 31 else 0) + 255 * 2 ^ 23)"

definition f_nan :: f32 where
  "f_nan = word_of_int (255 * 2 ^ 23 + 2 ^ 22)"

text \<open>The exponent of a positive rational: \<open>2 ^ e \<le> q < 2 ^ (e + 1)\<close>.\<close>

definition pow2 :: "int \<Rightarrow> rat" where
  "pow2 e = (if 0 \<le> e then 2 ^ nat e else 1 / 2 ^ nat (- e))"

function ilog2 :: "int \<Rightarrow> int" where
  "ilog2 n = (if n \<le> 1 then 0 else 1 + ilog2 (n div 2))"
  by pat_completeness auto
termination
  by (relation "measure nat") auto

declare ilog2.simps [simp del]

definition log2_floor :: "rat \<Rightarrow> int" where
  "log2_floor q =
     (let (a, b) = quotient_of q;
          e = ilog2 a - ilog2 b
      in if pow2 e \<le> q then e else e - 1)"

definition round_even :: "rat \<Rightarrow> int" where
  "round_even q =
     (let f = \<lfloor>q\<rfloor>; r = q - of_int f
      in if r < 1 / 2 then f else if 1 / 2 < r then f + 1 else if even f then f else f + 1)"

text \<open>Round a non-zero rational to a pattern; the carry into the exponent is the addition.\<close>

definition round_pos :: "bool \<Rightarrow> rat \<Rightarrow> f32" where
  "round_pos neg q =
     (let e = max (log2_floor q) (- 126);
          m = round_even (q * pow2 (23 - e));
          bits = (e + 126) * 2 ^ 23 + m
      in if 255 * 2 ^ 23 \<le> bits then f_inf neg
         else word_of_int ((if neg then 2 ^ 31 else 0) + bits))"

definition f_round :: "bool \<Rightarrow> rat \<Rightarrow> f32" where
  "f_round zero_sign q =
     (if q = 0 then f_zero zero_sign else if q < 0 then round_pos True (- q) else round_pos False q)"

abbreviation f_lit :: "rat \<Rightarrow> f32" where "f_lit q \<equiv> f_round False q"

section \<open>Arithmetic\<close>

definition f_neg :: "f32 \<Rightarrow> f32" where
  "f_neg w = word_of_int (if f_sign w then uint w - 2 ^ 31 else uint w + 2 ^ 31)"

definition f_abs :: "f32 \<Rightarrow> f32" where
  "f_abs w = (if f_sign w then f_neg w else w)"

definition f_add :: "f32 \<Rightarrow> f32 \<Rightarrow> f32" where
  "f_add a b = (case (decode a, decode b) of
      (FNan, _) \<Rightarrow> f_nan
    | (_, FNan) \<Rightarrow> f_nan
    | (FNum x, FNum y) \<Rightarrow> f_round (f_sign a \<and> f_sign b) (x + y)
    | (FNum _, _) \<Rightarrow> b
    | (_, FNum _) \<Rightarrow> a
    | (u, v) \<Rightarrow> if u = v then a else f_nan)"

definition f_sub :: "f32 \<Rightarrow> f32 \<Rightarrow> f32" where
  "f_sub a b = f_add a (f_neg b)"

definition f_mul :: "f32 \<Rightarrow> f32 \<Rightarrow> f32" where
  "f_mul a b =
     (let neg = (f_sign a \<noteq> f_sign b) in
      case (decode a, decode b) of
        (FNan, _) \<Rightarrow> f_nan
      | (_, FNan) \<Rightarrow> f_nan
      | (FNum x, FNum y) \<Rightarrow> f_round neg (x * y)
      | (FNum x, _) \<Rightarrow> if x = 0 then f_nan else f_inf neg
      | (_, FNum y) \<Rightarrow> if y = 0 then f_nan else f_inf neg
      | _ \<Rightarrow> f_inf neg)"

definition f_div :: "f32 \<Rightarrow> f32 \<Rightarrow> f32" where
  "f_div a b =
     (let neg = (f_sign a \<noteq> f_sign b) in
      case (decode a, decode b) of
        (FNan, _) \<Rightarrow> f_nan
      | (_, FNan) \<Rightarrow> f_nan
      | (FNum x, FNum y) \<Rightarrow>
          if y = 0 then (if x = 0 then f_nan else f_inf neg) else f_round neg (x / y)
      | (FNum _, _) \<Rightarrow> f_zero neg
      | (_, FNum _) \<Rightarrow> f_inf neg
      | _ \<Rightarrow> f_nan)"

function isqrt :: "int \<Rightarrow> int" where
  "isqrt n = (if n \<le> 0 then 0
     else let r = 2 * isqrt (n div 4) in if (r + 1) * (r + 1) \<le> n then r + 1 else r)"
  by pat_completeness auto
termination
  by (relation "measure nat") auto

declare isqrt.simps [simp del]

text \<open>A square root to more than 24 bits with a sticky half, then rounded once.\<close>

definition f_sqrt :: "f32 \<Rightarrow> f32" where
  "f_sqrt a = (case decode a of
      FNum x \<Rightarrow>
        if x = 0 then a
        else if x < 0 then f_nan
        else (let j = 30 - log2_floor x div 2;
                  y = x * pow2 (2 * j);
                  s = isqrt \<lfloor>y\<rfloor>;
                  sticky = (if of_int (s * s) = y then 0 else 1)
              in f_round False (of_int (2 * s + sticky) / (2 * pow2 j)))
    | FPInf \<Rightarrow> a
    | _ \<Rightarrow> f_nan)"

section \<open>Comparison\<close>

fun fval_lt :: "fval \<Rightarrow> fval \<Rightarrow> bool" where
  "fval_lt FNInf (FNum _) = True"
| "fval_lt FNInf FPInf = True"
| "fval_lt (FNum x) (FNum y) = (x < y)"
| "fval_lt (FNum _) FPInf = True"
| "fval_lt _ _ = False"

definition f_lt :: "f32 \<Rightarrow> f32 \<Rightarrow> bool" where
  "f_lt a b \<longleftrightarrow> fval_lt (decode a) (decode b)"

definition f_eq :: "f32 \<Rightarrow> f32 \<Rightarrow> bool" where
  "f_eq a b \<longleftrightarrow> decode a \<noteq> FNan \<and> decode a = decode b"

definition f_le :: "f32 \<Rightarrow> f32 \<Rightarrow> bool" where
  "f_le a b \<longleftrightarrow> f_lt a b \<or> f_eq a b"

definition f_is_nan :: "f32 \<Rightarrow> bool" where
  "f_is_nan a \<longleftrightarrow> decode a = FNan"

definition f_finite :: "f32 \<Rightarrow> bool" where
  "f_finite a \<longleftrightarrow> f_expo a \<noteq> 255"

text \<open>\<open>f32::max\<close> and \<open>f32::min\<close> ignore a NaN operand.\<close>

definition f_max :: "f32 \<Rightarrow> f32 \<Rightarrow> f32" where
  "f_max a b = (if f_is_nan a then b else if f_is_nan b then a else if f_lt a b then b else a)"

definition f_min :: "f32 \<Rightarrow> f32 \<Rightarrow> f32" where
  "f_min a b = (if f_is_nan a then b else if f_is_nan b then a else if f_lt b a then b else a)"

text \<open>\<open>f32::clamp\<close>: a NaN passes through.\<close>

definition f_clamp :: "f32 \<Rightarrow> f32 \<Rightarrow> f32 \<Rightarrow> f32" where
  "f_clamp a lo hi = (let x = (if f_lt a lo then lo else a) in if f_lt hi x then hi else x)"

definition f_in :: "f32 \<Rightarrow> f32 \<Rightarrow> f32 \<Rightarrow> bool" where
  "f_in lo hi a \<longleftrightarrow> f_le lo a \<and> f_le a hi"

section \<open>Casts\<close>

definition f_of_nat :: "nat \<Rightarrow> f32" where
  "f_of_nat n = f_round False (of_nat n)"

definition f_of_int :: "int \<Rightarrow> f32" where
  "f_of_int i = f_round False (of_int i)"

text \<open>\<open>as u8\<close>, \<open>as u32\<close>, \<open>as i32\<close>: truncate, saturate, NaN to zero.\<close>

definition rat_trunc :: "rat \<Rightarrow> int" where
  "rat_trunc q = (if q < 0 then \<lceil>q\<rceil> else \<lfloor>q\<rfloor>)"

definition f_to_int :: "int \<Rightarrow> int \<Rightarrow> f32 \<Rightarrow> int" where
  "f_to_int lo hi a = (case decode a of
      FNan \<Rightarrow> 0 | FNInf \<Rightarrow> lo | FPInf \<Rightarrow> hi | FNum x \<Rightarrow> max lo (min hi (rat_trunc x)))"

definition f_to_i32 :: "f32 \<Rightarrow> int" where
  "f_to_i32 a = f_to_int (- (2 ^ 31)) (2 ^ 31 - 1) a"

definition f_to_u32 :: "f32 \<Rightarrow> nat" where
  "f_to_u32 a = nat (f_to_int 0 (2 ^ 32 - 1) a)"

definition f_to_u8 :: "f32 \<Rightarrow> nat" where
  "f_to_u8 a = nat (f_to_int 0 255 a)"

text \<open>\<open>f32::round\<close>: half away from zero, an integer in the format is exact.\<close>

definition f_round_int :: "f32 \<Rightarrow> f32" where
  "f_round_int a = (case decode a of
      FNum x \<Rightarrow> f_round (f_sign a) (of_int (if x < 0 then - \<lfloor>- x + 1 / 2\<rfloor> else \<lfloor>x + 1 / 2\<rfloor>))
    | _ \<Rightarrow> a)"

definition f_floor :: "f32 \<Rightarrow> f32" where
  "f_floor a = (case decode a of FNum x \<Rightarrow> f_round (f_sign a) (of_int \<lfloor>x\<rfloor>) | _ \<Rightarrow> a)"

section \<open>Bytes\<close>

definition f_to_le_bytes :: "f32 \<Rightarrow> bytes" where
  "f_to_le_bytes w = map (\<lambda>i. char_of (uint w div 256 ^ i)) [0, 1, 2, 3]"

definition f_from_le_bytes :: "bytes \<Rightarrow> f32" where
  "f_from_le_bytes bs = word_of_int (foldr (\<lambda>b acc. of_char b + 256 * acc) bs 0)"

section \<open>Text\<close>

definition is_digit :: "char \<Rightarrow> bool" where
  "is_digit c \<longleftrightarrow> 48 \<le> (of_char c :: nat) \<and> (of_char c :: nat) \<le> 57"

definition dec_value :: "string \<Rightarrow> nat" where
  "dec_value s = foldl (\<lambda>n c. 10 * n + (of_char c - 48)) 0 s"

definition take_sign :: "string \<Rightarrow> bool \<times> string" where
  "take_sign s = (case s of
      c # r \<Rightarrow> if c = CHR ''-'' then (True, r) else if c = CHR ''+'' then (False, r) else (False, s)
    | [] \<Rightarrow> (False, []))"

text \<open>\<open>[eE][+-]?[0-9]+\<close>, or nothing.\<close>

definition parse_expo :: "string \<Rightarrow> int option" where
  "parse_expo s = (case s of
      [] \<Rightarrow> Some 0
    | c # r \<Rightarrow>
        if c \<noteq> CHR ''e'' \<and> c \<noteq> CHR ''E'' then None
        else (let (neg, ds) = take_sign r in
              if ds = [] \<or> \<not> list_all is_digit ds then None
              else Some (if neg then - int (dec_value ds) else int (dec_value ds))))"

definition pow10 :: "int \<Rightarrow> rat" where
  "pow10 e = (if 0 \<le> e then 10 ^ nat e else 1 / 10 ^ nat (- e))"

text \<open>\<open>str::parse::<f32>\<close>.\<close>

definition parse_f32 :: "string \<Rightarrow> f32 option" where
  "parse_f32 s =
     (let (neg, body) = take_sign s; low = to_ascii_lowercase body in
      if low = ''inf'' \<or> low = ''infinity'' then Some (f_inf neg)
      else if low = ''nan'' then Some f_nan
      else
        (let whole = takeWhile is_digit body; rest = dropWhile is_digit body;
             (frac, tail) = (case rest of
                 c # r \<Rightarrow> if c = CHR ''.'' then (takeWhile is_digit r, dropWhile is_digit r) else ([], rest)
               | [] \<Rightarrow> ([], []))
         in if whole = [] \<and> frac = [] then None
            else map_option (\<lambda>e.
                let q = of_nat (dec_value (whole @ frac)) * pow10 (e - int (length frac))
                in f_round neg (if neg then - q else q)) (parse_expo tail)))"

text \<open>\<open>format!("{:.p}")\<close>: the exact value rounded to \<open>p\<close> decimals.\<close>

definition pad_left :: "nat \<Rightarrow> string \<Rightarrow> string" where
  "pad_left n s = replicate (n - length s) (CHR ''0'') @ s"

definition fmt_prec :: "nat \<Rightarrow> f32 \<Rightarrow> string" where
  "fmt_prec p a = (case decode a of
      FNan \<Rightarrow> ''NaN''
    | FPInf \<Rightarrow> ''inf''
    | FNInf \<Rightarrow> ''-inf''
    | FNum x \<Rightarrow>
        (let n = nat (round_even (abs x * 10 ^ p));
             whole = show_nat (n div 10 ^ p);
             frac = pad_left p (show_nat (n mod 10 ^ p))
         in (if f_sign a then ''-'' else []) @ whole @ (if p = 0 then [] else ''.'' @ frac)))"

section \<open>Order\<close>

lemma fval_lt_irrefl [simp]: "\<not> fval_lt a a"
  by (cases a) auto

lemma fval_lt_trans: "fval_lt a b \<Longrightarrow> fval_lt b c \<Longrightarrow> fval_lt a c"
  by (cases a; cases b; cases c) auto

lemma fval_lt_total: "a \<noteq> FNan \<Longrightarrow> b \<noteq> FNan \<Longrightarrow> fval_lt a b \<or> a = b \<or> fval_lt b a"
  by (cases a; cases b) auto

lemma fval_lt_nan [simp]: "\<not> fval_lt FNan a" "\<not> fval_lt a FNan"
  by (cases a; simp)+

lemmas f_order_defs = f_lt_def f_le_def f_eq_def f_is_nan_def

lemma f_le_iff: "f_le a b \<longleftrightarrow> \<not> f_is_nan a \<and> \<not> f_is_nan b \<and> \<not> f_lt b a"
  unfolding f_order_defs using fval_lt_total [of "decode a" "decode b"] fval_lt_trans
  by (metis fval_lt_irrefl fval_lt_nan)

lemma f_le_refl: "\<not> f_is_nan a \<Longrightarrow> f_le a a"
  by (simp add: f_order_defs)

lemma f_lt_trans: "f_lt a b \<Longrightarrow> f_lt b c \<Longrightarrow> f_lt a c"
  unfolding f_lt_def by (rule fval_lt_trans)

lemma f_le_trans: "f_le a b \<Longrightarrow> f_le b c \<Longrightarrow> f_le a c"
  unfolding f_order_defs by (metis fval_lt_trans)

lemma f_le_lt_trans: "f_le a b \<Longrightarrow> f_lt b c \<Longrightarrow> f_lt a c"
  unfolding f_order_defs by (metis fval_lt_trans)

lemma f_lt_imp_le: "f_lt a b \<Longrightarrow> f_le a b"
  by (simp add: f_le_def)

lemma f_lt_not_nan: "f_lt a b \<Longrightarrow> \<not> f_is_nan a \<and> \<not> f_is_nan b"
  unfolding f_order_defs by (metis fval_lt_nan)

lemma not_f_lt: "\<not> f_is_nan a \<Longrightarrow> \<not> f_is_nan b \<Longrightarrow> \<not> f_lt a b \<longleftrightarrow> f_le b a"
  by (simp add: f_le_iff)

text \<open>Clamping bounds every number; a NaN is all that escapes.\<close>

lemma f_clamp_in:
  assumes "\<not> f_is_nan a" and "f_le lo hi"
  shows "f_in lo hi (f_clamp a lo hi)"
proof -
  have n: "\<not> f_is_nan lo" "\<not> f_is_nan hi" using assms(2) by (auto simp: f_le_iff)
  then have "f_le lo lo" "f_le hi hi" by (auto intro: f_le_refl)
  then show ?thesis
    using assms n by (auto simp: f_in_def f_clamp_def Let_def f_le_iff dest: f_lt_not_nan)
qed

lemma f_clamp_id: "f_in lo hi a \<Longrightarrow> f_clamp a lo hi = a"
  by (auto simp: f_in_def f_clamp_def Let_def f_le_iff)

lemma f_lt_asym: "f_lt a b \<Longrightarrow> \<not> f_lt b a"
  unfolding f_lt_def by (metis fval_lt_irrefl fval_lt_trans)

lemma f_max_ge: "\<not> f_is_nan a \<Longrightarrow> f_le a (f_max a b)"
  by (auto simp: f_max_def f_le_iff dest: f_lt_asym)

lemma f_max_ge2: "\<not> f_is_nan b \<Longrightarrow> f_le b (f_max a b)"
  by (auto simp: f_max_def f_le_iff dest: f_lt_asym)

lemma f_max_cases: "f_max a b = a \<or> f_max a b = b"
  by (simp add: f_max_def)

lemma f_max_not_nan: "\<not> f_is_nan a \<Longrightarrow> \<not> f_is_nan (f_max a b)"
  by (simp add: f_max_def)

section \<open>Bytes and back\<close>

lemma length_f_to_le_bytes [simp]: "length (f_to_le_bytes w) = 4"
  by (simp add: f_to_le_bytes_def)

lemma base256:
  fixes n :: int
  assumes "0 \<le> n" and "n < 2 ^ 32"
  shows "n mod 256 + 256 * (n div 256 mod 256 + 256 * (n div 65536 mod 256 + 256 * (n div 16777216 mod 256))) = n"
proof -
  have 1: "n div 65536 = n div 256 div 256" and 2: "n div 16777216 = n div 65536 div 256"
    by (simp_all add: zdiv_zmult2_eq [symmetric])
  have "n div 16777216 < 256" and "0 \<le> n div 16777216" using assms by auto
  then have "n div 16777216 mod 256 = n div 16777216" by simp
  then show ?thesis
    using mod_mult_div_eq [of n 256] mod_mult_div_eq [of "n div 256" 256] mod_mult_div_eq [of "n div 65536" 256]
    unfolding 1 2 by (simp add: algebra_simps)
qed

lemma f_from_to_le_bytes [simp]: "f_from_le_bytes (f_to_le_bytes w) = w"
proof -
  have "foldr (\<lambda>b acc. of_char b + 256 * acc) (f_to_le_bytes w) 0 = uint w"
    using base256 [of "uint w"] unsigned_less [of w]
    by (simp add: f_to_le_bytes_def of_char_of)
  then show ?thesis
    by (simp only: f_from_le_bytes_def word_of_int_uint)
qed

section \<open>Negation and magnitude\<close>

lemma uint_f32: "0 \<le> uint (w :: f32)" "uint (w :: f32) < 4294967296"
  using unsigned_less [of w] by simp_all

lemma uint_of_int_f32: "0 \<le> i \<Longrightarrow> i < 4294967296 \<Longrightarrow> uint (word_of_int i :: f32) = i"
  by (simp add: uint_word_of_int_eq take_bit_int_eq_self)

lemma uint_f_neg: "uint (f_neg w) = (if f_sign w then uint w - 2147483648 else uint w + 2147483648)"
proof (cases "f_sign w")
  case True
  then have "f_neg w = word_of_int (uint w - 2147483648)" "0 \<le> uint w - 2147483648"
    unfolding f_neg_def f_sign_def by simp_all
  then show ?thesis using True uint_f32 [of w] by (simp only: uint_of_int_f32 if_True)
next
  case False
  then have "f_neg w = word_of_int (uint w + 2147483648)" "uint w + 2147483648 < 4294967296"
    unfolding f_neg_def f_sign_def by simp_all
  then show ?thesis using False uint_f32 [of w] by (simp only: uint_of_int_f32 if_False)
qed

lemma f_neg_fields:
  "f_sign (f_neg w) \<longleftrightarrow> \<not> f_sign w" "f_expo (f_neg w) = f_expo w" "f_mant (f_neg w) = f_mant w"
proof -
  show "f_sign (f_neg w) \<longleftrightarrow> \<not> f_sign w"
    using uint_f32 [of w] by (auto simp: f_sign_def uint_f_neg)
  have *: "\<exists>k. uint (f_neg w) = uint w + (256 * k) * 8388608"
    by (cases "f_sign w") (auto simp: uint_f_neg intro: exI [of _ "- 1"] exI [of _ 1])
  then obtain k where k: "uint (f_neg w) = uint w + (256 * k) * 8388608" ..
  have "uint (f_neg w) div 8388608 = uint w div 8388608 + 256 * k"
    unfolding k using div_mult_self1 [of 8388608 "uint w" "256 * k"] by (simp only: add.commute)
  then show "f_expo (f_neg w) = f_expo w"
    by (simp add: f_expo_def)
  show "f_mant (f_neg w) = f_mant w"
    unfolding f_mant_def k using mod_mult_self1 [of "uint w" "256 * k" 8388608] by simp
qed

fun fval_neg :: "fval \<Rightarrow> fval" where
  "fval_neg FNan = FNan"
| "fval_neg FNInf = FPInf"
| "fval_neg FPInf = FNInf"
| "fval_neg (FNum x) = FNum (- x)"

lemma decode_f_neg: "decode (f_neg w) = fval_neg (decode w)"
  by (simp add: decode_def f_neg_fields f_magnitude_def)

lemma decode_sign:
  "f_sign w \<Longrightarrow> decode w = FNan \<or> decode w = FNInf \<or> (\<exists>x. decode w = FNum x \<and> x \<le> 0)"
  "\<not> f_sign w \<Longrightarrow> decode w = FNan \<or> decode w = FPInf \<or> (\<exists>x. decode w = FNum x \<and> 0 \<le> x)"
proof -
  have "0 \<le> f_mant w" by (simp add: f_mant_def)
  then have "0 \<le> f_magnitude w" by (auto simp: f_magnitude_def intro!: divide_nonneg_nonneg mult_nonneg_nonneg)
  then show "f_sign w \<Longrightarrow> decode w = FNan \<or> decode w = FNInf \<or> (\<exists>x. decode w = FNum x \<and> x \<le> 0)"
    and "\<not> f_sign w \<Longrightarrow> decode w = FNan \<or> decode w = FPInf \<or> (\<exists>x. decode w = FNum x \<and> 0 \<le> x)"
    by (auto simp: decode_def)
qed

text \<open>A magnitude bound is a two-sided bound.\<close>

lemma f_abs_le_iff:
  assumes "\<not> f_is_nan x" and "\<not> f_is_nan b" and "decode c = fval_neg (decode b)"
  shows "f_le (f_abs x) b \<longleftrightarrow> \<not> f_lt b x \<and> \<not> f_lt x c"
  using assms decode_sign [of x]
  by (cases "decode b"; cases "decode x"; cases "f_sign x")
    (auto simp: f_abs_def f_order_defs decode_f_neg)

lemma f_abs_le_not_nan: "f_le (f_abs x) b \<Longrightarrow> \<not> f_is_nan x \<and> \<not> f_is_nan b"
  by (cases "decode x") (auto simp: f_le_iff f_abs_def f_is_nan_def decode_f_neg split: if_splits)

lemma round_even_nonneg: "0 \<le> q \<Longrightarrow> 0 \<le> round_even q"
  by (auto simp: round_even_def Let_def)

lemma pow2_pos: "0 < pow2 e"
  by (simp add: pow2_def)

lemma f_neg_inf: "f_neg (f_inf False) = f_inf True" and f_neg_zero: "f_neg (f_zero False) = f_zero True"
  by code_simp+

lemma f_neg_round_pos: "0 < q \<Longrightarrow> f_neg (round_pos False q) = round_pos True q"
proof -
  assume q: "0 < q"
  define e where "e = max (log2_floor q) (- 126)"
  define bits where "bits = (e + 126) * 2 ^ 23 + round_even (q * pow2 (23 - e))"
  have b0: "0 \<le> bits"
    unfolding bits_def using q pow2_pos [of "23 - e"]
    by (intro add_nonneg_nonneg [OF mult_nonneg_nonneg round_even_nonneg]) (auto simp: e_def)
  have r: "round_pos neg q = (if 255 * 2 ^ 23 \<le> bits then f_inf neg else word_of_int ((if neg then 2 ^ 31 else 0) + bits))" for neg
    by (simp only: round_pos_def e_def bits_def Let_def)
  show ?thesis
  proof (cases "255 * 2 ^ 23 \<le> bits")
    case False
    then have "uint (word_of_int bits :: f32) = bits" using b0 by (intro uint_of_int_f32) auto
    then show ?thesis
      using False b0 unfolding r f_neg_def f_sign_def by (simp add: add.commute)
  qed (simp add: r f_neg_inf)
qed

lemma f_neg_neg: "f_neg (f_neg w) = w"
proof -
  have "uint (f_neg (f_neg w)) = uint w"
    by (cases "f_sign w") (simp_all add: uint_f_neg f_neg_fields)
  then show ?thesis by (simp add: unsigned_word_eqI)
qed

lemma f_round_neg: "f_round (\<not> s) (- q) = f_neg (f_round s q)"
proof -
  have z: "f_zero (\<not> s) = f_neg (f_zero s)"
    using f_neg_zero f_neg_neg [of "f_zero False"] by (cases s) auto
  show ?thesis
    using f_neg_round_pos [of q] f_neg_round_pos [of "- q"] f_neg_neg [of "round_pos False (- q)"]
    by (cases "q = 0"; cases "q < 0") (auto simp: f_round_def z)
qed

lemma decode_f_inf: "decode (f_inf True) = FNInf" "decode (f_inf False) = FPInf" "decode f_nan = FNan"
  by code_simp+

lemma decode_f_mul_neg: "decode (f_mul (f_neg a) b) = fval_neg (decode (f_mul a b))"
proof -
  have i: "decode (f_inf (\<not> s)) = fval_neg (decode (f_inf s))" for s
    by (cases s) (simp_all add: decode_f_inf)
  have n: "decode (f_round (\<not> s) (- q)) = fval_neg (decode (f_round s q))" for s q
    by (simp only: f_round_neg decode_f_neg)
  have s: "(f_sign (f_neg a) \<noteq> f_sign b) = (\<not> (f_sign a \<noteq> f_sign b))"
    by (auto simp: f_neg_fields)
  obtain neg where neg: "(f_sign a \<noteq> f_sign b) = neg" by blast
  show ?thesis
    unfolding f_mul_def s neg Let_def decode_f_neg
    by (cases "decode a"; cases "decode b") (simp_all add: i n decode_f_inf)
qed

text \<open>The comparison: a strict weak order on the numbers, false on NaN.\<close>

lemma f_lt_irrefl: "\<not> f_lt a a"
  by (cases "decode a") (auto simp: f_lt_def)

lemma f_lt_weak: "f_lt t a \<Longrightarrow> \<not> f_lt b a \<Longrightarrow> \<not> f_is_nan b \<Longrightarrow> f_lt t b"
  by (cases "decode t"; cases "decode a"; cases "decode b") (auto simp: f_lt_def f_is_nan_def)

lemma f_lt_weak': "f_lt a t \<Longrightarrow> \<not> f_lt a b \<Longrightarrow> \<not> f_is_nan b \<Longrightarrow> f_lt b t"
  by (cases "decode t"; cases "decode a"; cases "decode b") (auto simp: f_lt_def f_is_nan_def)

text \<open>\<open>str::parse\<close> for the 64-bit unsigned integers.\<close>

definition parse_usize :: "string \<Rightarrow> nat option" where
  "parse_usize s =
     (let ds = (case s of c # r \<Rightarrow> if c = CHR ''+'' then r else s | [] \<Rightarrow> [])
      in if ds = [] \<or> \<not> list_all is_digit ds then None
         else opt_filter (\<lambda>n. n < 2 ^ 64) (Some (dec_value ds)))"

end
