(* ===== verification/Camera.thy ===== *)
theory Camera
  imports Host F32
begin

text \<open>
  Camera identity: the binding of an enrolled profile to its sensors
  (crates/linhello-liveness/src/device\_binding.rs) and the trust placed in a capture device
  (crates/linhello-liveness/src/device.rs). Both read sysfs through the host.
\<close>

section \<open>Paths of devices\<close>

text \<open>\<open>Path::file_name\<close>: the last component, none for the root or a parent reference.\<close>

definition path_file_name :: "string \<Rightarrow> string option" where
  "path_file_name p =
     (let cs = filter (\<lambda>c. c \<noteq> [] \<and> c \<noteq> ''.'') (split_on (CHR ''/'') p)
      in if cs = [] \<or> last cs = ''..'' then None else Some (last cs))"

definition read_trim :: "string \<Rightarrow> 'z host_scheme \<Rightarrow> string option" where
  "read_trim p w = map_option trim (res_ok (fs_read_to_string p w))"

section \<open>device\_binding.rs\<close>

record device_identity =
  vid :: string
  pid :: string
  serial :: string
  dev_name :: string

record camera_binding =
  bind_rgb :: device_identity
  bind_ir :: "device_identity option"

text \<open>Walk up from the device directory to the USB node that names the vendor.\<close>

function usb_identity :: "string \<Rightarrow> string \<Rightarrow> 'z host_scheme \<Rightarrow> device_identity option" where
  "usb_identity name p w =
     (let vid_path = path_join p ''idVendor'' in
      if path_exists vid_path w then
        Option.bind (read_trim vid_path w) (\<lambda>v.
        Option.bind (read_trim (path_join p ''idProduct'') w) (\<lambda>pr.
        Some \<lparr>vid = v, pid = pr,
              serial = unwrap_or [] (read_trim (path_join p ''serial'') w), dev_name = name\<rparr>))
      else (case parent p of None \<Rightarrow> None | Some q \<Rightarrow> usb_identity name q w))"
  by pat_completeness auto
termination
  by (relation "measure (\<lambda>(_, p, _). length p)") (auto dest: parent_shorter)

declare usb_identity.simps [simp del]

definition device_probe :: "string \<Rightarrow> 'z host_scheme \<Rightarrow> device_identity option" where
  "device_probe device_path w =
     (let real = unwrap_or device_path (realpath w device_path) in
      Option.bind (path_file_name real) (\<lambda>node.
      let sys = path_join ''/sys/class/video4linux'' node in
      Option.bind (read_trim (path_join sys ''name'') w) (\<lambda>name.
      Option.bind (realpath w (path_join sys ''device'')) (\<lambda>dev.
      usb_identity name dev w))))"

fun probe_attempts :: "nat \<Rightarrow> string \<Rightarrow> 'z host_scheme \<Rightarrow> device_identity option" where
  "probe_attempts 0 device_path w = None"
| "probe_attempts (Suc k) device_path w =
     (case device_probe device_path w of Some i \<Rightarrow> Some i | None \<Rightarrow> probe_attempts k device_path w)"

definition from_device :: "string \<Rightarrow> 'z host_scheme \<Rightarrow> device_identity option" where
  "from_device device_path w = probe_attempts 6 device_path w"

definition check_device :: "string \<Rightarrow> device_identity \<Rightarrow> device_identity \<Rightarrow> string + unit" where
  "check_device label enrolled current =
     (if vid enrolled \<noteq> vid current then
        Inl (label @ '' camera VID changed: enrolled '' @ vid enrolled @ '', now '' @ vid current)
      else if pid enrolled \<noteq> pid current then
        Inl (label @ '' camera PID changed: enrolled '' @ pid enrolled @ '', now '' @ pid current)
      else if serial enrolled \<noteq> [] \<and> serial enrolled \<noteq> serial current then
        Inl (label @ '' camera serial changed: enrolled '' @ serial enrolled @ '', now '' @ serial current)
      else Inr ())"

definition binding_verify :: "camera_binding \<Rightarrow> camera_binding \<Rightarrow> string + unit" where
  "binding_verify enrolled current =
     rbind (check_device ''RGB'' (bind_rgb enrolled) (bind_rgb current)) (\<lambda>_.
       case (bind_ir enrolled, bind_ir current) of
         (Some e, Some c) \<Rightarrow> check_device ''IR'' e c
       | (Some _, None) \<Rightarrow> Inl ''IR camera was present at enrollment but is now missing''
       | _ \<Rightarrow> Inr ())"

section \<open>device.rs\<close>

record device_trust =
  trust_score :: f32
  trust_name :: "string option"
  trust_driver :: "string option"

definition virtual_drivers :: "string list" where
  "virtual_drivers = [''v4l2 loopback'', ''v4l2loopback'']"

definition virtual_name_fragments :: "string list" where
  "virtual_name_fragments =
     [''v4l2loopback'', ''obs virtual'', ''obs-camera'', ''dummy'', ''fakewebcam'',
      ''virtual camera'', ''virtualcam'']"

definition real_drivers :: "string list" where
  "real_drivers =
     [''uvcvideo'', ''ipu3-cio2'', ''intel_ipu6'', ''ipu6'', ''pwc'', ''v4l2 pci'', ''v4l2_pci'']"

definition read_driver :: "string \<Rightarrow> 'z host_scheme \<Rightarrow> string option" where
  "read_driver base w =
     Option.bind (links w (path_join (path_join base ''device'') ''driver'')) path_file_name"

definition is_virtual :: "string \<Rightarrow> string \<Rightarrow> bool" where
  "is_virtual drv_lc name_lc \<longleftrightarrow>
     list_ex (\<lambda>v. contains_str drv_lc v) virtual_drivers \<or>
     list_ex (\<lambda>v. contains_str name_lc v) virtual_name_fragments"

definition validate_camera_device :: "string \<Rightarrow> 'z host_scheme \<Rightarrow> device_trust" where
  "validate_camera_device device_path w =
     (case path_file_name device_path of
        None \<Rightarrow> \<lparr>trust_score = f_lit 0.5, trust_name = None, trust_driver = None\<rparr>
      | Some node \<Rightarrow>
          (let sys_base = path_join ''/sys/class/video4linux'' node;
               name = read_trim (path_join sys_base ''name'') w;
               driver = read_driver sys_base w;
               drv_lc = to_ascii_lowercase (unwrap_or [] driver);
               name_lc = to_ascii_lowercase (unwrap_or [] name)
           in if is_virtual drv_lc name_lc
              then \<lparr>trust_score = f_lit 0, trust_name = name, trust_driver = driver\<rparr>
              else \<lparr>trust_score =
                     (if list_ex (\<lambda>v. contains_str drv_lc v) real_drivers then f_lit 1 else f_lit 0.5),
                    trust_name = name, trust_driver = driver\<rparr>))"

section \<open>Properties\<close>

text \<open>The identity a check compares: vendor, product and, when enrolled, the serial number.\<close>

definition same_device :: "device_identity \<Rightarrow> device_identity \<Rightarrow> bool" where
  "same_device e c \<longleftrightarrow>
     vid e = vid c \<and> pid e = pid c \<and> (serial e = [] \<or> serial e = serial c)"

lemma check_device_iff [res_iff]: "check_device label e c = Inr u \<longleftrightarrow> same_device e c"
  by (auto simp: check_device_def same_device_def)

lemma binding_verify_iff:
  "binding_verify e c = Inr () \<longleftrightarrow>
     same_device (bind_rgb e) (bind_rgb c) \<and>
     (\<forall>i. bind_ir e = Some i \<longrightarrow> (\<exists>j. bind_ir c = Some j \<and> same_device i j))"
  by (auto simp: binding_verify_def res_iff split: option.splits)

text \<open>A profile enrolled with an infrared camera never passes without one.\<close>

lemma binding_ir_lost: "bind_ir e = Some i \<Longrightarrow> bind_ir c = None \<Longrightarrow> binding_verify e c \<noteq> Inr ()"
  by (simp add: binding_verify_iff)

lemma binding_refl: "binding_verify b b = Inr ()"
  by (auto simp: binding_verify_iff same_device_def)

lemma binding_trans:
  assumes "binding_verify a b = Inr ()" and "binding_verify b c = Inr ()"
    and "\<And>d. d \<in> {bind_rgb a} \<union> set_option (bind_ir a) \<Longrightarrow> serial d \<noteq> []"
  shows "binding_verify a c = Inr ()"
  using assms unfolding binding_verify_iff same_device_def by auto

lemma probe_attempts_const: "probe_attempts (Suc k) p w = device_probe p w"
  by (induction k) (auto split: option.splits)

lemma from_device_probe: "from_device p w = device_probe p w"
  unfolding from_device_def by (metis probe_attempts_const eval_nat_numeral(2,3) numeral_eq_Suc)

lemma trust_score_cases:
  "trust_score (validate_camera_device p w) \<in> {f_lit 0, f_lit 0.5, f_lit 1}"
  by (auto simp: validate_camera_device_def Let_def split: option.splits)

end
