(* ===== verification/Ir.thy ===== *)
theory Ir
  imports Host F32
begin

text \<open>
  The active-infrared cues and the per-user gate over them, crates/linhello-liveness/src/ir.rs,
  and the head pose of crates/linhello-liveness/src/orientation.rs. A grayscale image gives its
  size and a pixel function; sums of pixels are exact integers, as the 64-bit accumulators of
  the code are, and everything after them is 32-bit floating point.
\<close>

section \<open>orientation.rs\<close>

type_synonym point = "f32 \<times> f32"

record landmarks =
  lm_le :: point
  lm_re :: point
  lm_nose :: point
  lm_lm :: point
  lm_rm :: point

definition max_angle_deg :: f32 where "max_angle_deg = f_lit 18"

definition estimate_pose :: "landmarks \<Rightarrow> f32 \<times> f32" where
  "estimate_pose lm =
     (let d_left = f_abs (f_sub (fst (lm_nose lm)) (fst (lm_le lm)));
          d_right = f_abs (f_sub (fst (lm_re lm)) (fst (lm_nose lm)));
          denom_yaw = f_add d_left d_right;
          yaw_ratio = (if f_lt (f_lit 1) denom_yaw then f_div (f_sub d_right d_left) denom_yaw else f_lit 0);
          yaw_deg = f_mul yaw_ratio (f_lit 60);
          eye_cy = f_div (f_add (snd (lm_le lm)) (snd (lm_re lm))) (f_lit 2);
          mouth_cy = f_div (f_add (snd (lm_lm lm)) (snd (lm_rm lm))) (f_lit 2);
          nose_to_eyes = f_sub (snd (lm_nose lm)) eye_cy;
          nose_to_mouth = f_sub mouth_cy (snd (lm_nose lm));
          denom_pitch = f_max (f_add (f_abs nose_to_eyes) (f_abs nose_to_mouth)) (f_lit 1);
          pitch_ratio = f_div (f_sub nose_to_eyes nose_to_mouth) denom_pitch;
          pitch_deg = f_mul pitch_ratio (f_lit 60)
      in (yaw_deg, pitch_deg))"

definition is_frontal :: "f32 \<Rightarrow> f32 \<Rightarrow> f32 \<Rightarrow> bool" where
  "is_frontal yaw_deg pitch_deg max_deg \<longleftrightarrow>
     f_le (f_abs yaw_deg) max_deg \<and> f_le (f_abs pitch_deg) max_deg"

section \<open>Images\<close>

record gray_image =
  gi_w :: nat
  gi_h :: nat
  gi_px :: "nat \<Rightarrow> nat \<Rightarrow> nat"

record rgb_image =
  ri_w :: nat
  ri_h :: nat
  ri_px :: "nat \<Rightarrow> nat \<Rightarrow> nat \<times> nat \<times> nat"

type_synonym bbox = "f32 \<times> f32 \<times> f32 \<times> f32"

text \<open>The pixels of \<open>for y in y1..=y2 { for x in x1..=x2 { .. } }\<close>, in that order.\<close>

definition pixels_in :: "(nat \<Rightarrow> nat \<Rightarrow> 'a) \<Rightarrow> nat \<Rightarrow> nat \<Rightarrow> nat \<Rightarrow> nat \<Rightarrow> 'a list" where
  "pixels_in px x1 x2 y1 y2 =
     concat (map (\<lambda>y. map (\<lambda>x. px x y) [x1..<Suc x2]) [y1..<Suc y2])"

definition sum_int :: "nat list \<Rightarrow> int" where
  "sum_int vs = sum_list (map int vs)"

section \<open>Signals\<close>

definition min_face_frac :: f32 where "min_face_frac = f_lit 0.15"
definition min_face_bg_ratio :: f32 where "min_face_bg_ratio = f_lit 1.2"
definition min_highlight_frac :: f32 where "min_highlight_frac = f_lit 0.08"

record ir_signals =
  is_mean_face :: f32
  is_std_face :: f32
  is_highlight_frac :: f32
  is_mean_bg :: f32
  is_face_bg_ratio :: f32
  is_eye_glint :: f32
  is_ir_score :: f32
  is_depth_ratio :: f32

datatype ir_verdict = IrReal | IrTooFar | IrReject string

definition ir_classify :: "ir_signals \<Rightarrow> f32 \<Rightarrow> ir_verdict" where
  "ir_classify s face_frac = (if f_lt face_frac min_face_frac then IrTooFar else IrReal)"

text \<open>Brightest pixel minus the mean of the window, clipped to the frame.\<close>

definition eye_glint_at :: "gray_image \<Rightarrow> int \<Rightarrow> int \<Rightarrow> int \<Rightarrow> f32" where
  "eye_glint_at ir cx cy r =
     (let ylo = max (cy - r) 0; yhi = min (cy + r) (int (gi_h ir) - 1);
          xlo = max (cx - r) 0; xhi = min (cx + r) (int (gi_w ir) - 1);
          vs = concat (map (\<lambda>y. map (\<lambda>x. gi_px ir (nat x) (nat y)) [xlo..xhi]) [ylo..yhi])
      in if vs = [] then f_lit 0
         else f_max (f_sub (f_of_nat (fold max vs 0))
                       (f_div (f_of_int (sum_int vs)) (f_of_int (int (length vs))))) (f_lit 0))"

text \<open>The rescaled, ordered and clipped face box: \<open>(x1, x2)\<close> or \<open>(y1, y2)\<close> on one axis.\<close>

definition ir_span :: "f32 \<Rightarrow> f32 \<Rightarrow> f32 \<Rightarrow> nat \<Rightarrow> nat \<times> nat" where
  "ir_span a b scale extent =
     (let top = f_sub (f_of_nat extent) (f_lit 1);
          p = f_to_u32 (f_clamp (f_mul a scale) (f_lit 0) top);
          q = f_to_u32 (f_clamp (f_mul b scale) (f_lit 0) top)
      in (min p q, min (max (max p q) (p + 1)) (extent - 1)))"

definition ir_depth_ratio :: "gray_image \<Rightarrow> nat \<Rightarrow> nat \<Rightarrow> nat \<Rightarrow> nat \<Rightarrow> int \<Rightarrow> int \<Rightarrow> f32" where
  "ir_depth_ratio ir x1 x2 y1 y2 n sm =
     (let cw = (x2 - x1) div 4; ch = (y2 - y1) div 4;
          cx1 = x1 + cw; cx2 = x2 - cw; cy1 = y1 + ch; cy2 = y2 - ch;
          cs = (if cx1 < cx2 \<and> cy1 < cy2 then pixels_in (gi_px ir) cx1 cx2 cy1 cy2 else []);
          c_sum = sum_int cs; c_n = int (length cs);
          edge_n = max 0 (n - c_n); edge_sum = max 0 (sm - c_sum)
      in if 0 < c_n \<and> 0 < edge_n \<and> 0 < edge_sum
         then f_div (f_div (f_of_int c_sum) (f_of_int c_n)) (f_div (f_of_int edge_sum) (f_of_int edge_n))
         else f_lit 1)"

definition empty_signals :: ir_signals where
  "empty_signals =
     \<lparr>is_mean_face = f_lit 0, is_std_face = f_lit 0, is_highlight_frac = f_lit 0, is_mean_bg = f_lit 0,
      is_face_bg_ratio = f_lit 0, is_eye_glint = f_lit 0, is_ir_score = f_lit 0, is_depth_ratio = f_lit 1\<rparr>"

text \<open>
  An image with no pixels panics in \<open>clamp(0.0, -1.0)\<close>.
\<close>

definition ir_evaluate ::
  "gray_image \<Rightarrow> bbox \<Rightarrow> nat \<times> nat \<Rightarrow> landmarks \<Rightarrow> (lh_error, ir_signals) outcome" where
  "ir_evaluate ir box rgb_size lm =
     (if gi_w ir = 0 \<or> gi_h ir = 0 then Panic ''min > max, or either was NaN''
      else
        (let (b1, b2, b3, b4) = box;
             sx = f_div (f_of_nat (gi_w ir)) (f_max (f_of_nat (fst rgb_size)) (f_lit 1));
             sy = f_div (f_of_nat (gi_h ir)) (f_max (f_of_nat (snd rgb_size)) (f_lit 1));
             (x1, x2) = ir_span b1 b3 sx (gi_w ir);
             (y1, y2) = ir_span b2 b4 sy (gi_h ir);
             vs = pixels_in (gi_px ir) x1 x2 y1 y2;
             n = int (length vs);
             sm = sum_int vs;
             sum_sq = sum_list (map (\<lambda>v. int v * int v) vs);
             hi = int (length (filter (\<lambda>v. 240 < v) vs));
             mean = f_div (f_of_int sm) (f_of_int n);
             var = f_max (f_sub (f_div (f_of_int sum_sq) (f_of_int n)) (f_mul mean mean)) (f_lit 0);
             hi_frac = f_div (f_of_int hi) (f_of_int n);
             bg_n = max 0 (int (gi_w ir) * int (gi_h ir) - n);
             frame_sum = sum_int (pixels_in (gi_px ir) 0 (gi_w ir - 1) 0 (gi_h ir - 1));
             bg_sum = max 0 (frame_sum - sm);
             mean_bg = (if 0 < bg_n then f_div (f_of_int bg_sum) (f_of_int bg_n) else f_lit 1);
             face_bg = (if f_lt (f_lit 1) mean_bg then f_div mean mean_bg else mean);
             ratio_ok = f_min (f_div face_bg min_face_bg_ratio) (f_lit 1);
             hi_ok = f_min (f_div hi_frac min_highlight_frac) (f_lit 1);
             glint_r = max 8 (min 28 (int ((x2 - x1) div 8)));
             glint = (\<lambda>p. eye_glint_at ir (f_to_i32 (f_mul (fst p) sx)) (f_to_i32 (f_mul (snd p) sy)) glint_r)
         in if vs = [] then Ok empty_signals
            else Ok \<lparr>is_mean_face = mean, is_std_face = f_sqrt var, is_highlight_frac = hi_frac,
                 is_mean_bg = mean_bg, is_face_bg_ratio = face_bg,
                 is_eye_glint = f_min (glint (lm_le lm)) (glint (lm_re lm)),
                 is_ir_score = f_min ratio_ok (f_max hi_ok (f_lit 0.5)),
                 is_depth_ratio = ir_depth_ratio ir x1 x2 y1 y2 n sm\<rparr>))"

section \<open>The calibrated gate\<close>

text \<open>\<open>LivenessSignals\<close> of lib.rs.\<close>

record liveness_signals =
  spoof_prob :: "f32 option"
  ml_score :: "f32 option"
  device_score :: f32
  device_name :: "string option"
  device_driver :: "string option"
  ir_score :: "f32 option"
  ir_mean :: "f32 option"
  ir_std :: "f32 option"
  ir_highlight_frac :: "f32 option"
  ir_face_bg_ratio :: "f32 option"
  ir_eye_glint :: "f32 option"
  sg_face_frac :: "f32 option"
  sg_yaw_deg :: "f32 option"
  sg_pitch_deg :: "f32 option"
  motion_score :: "f32 option"
  blink_score :: "f32 option"
  consistency_score :: "f32 option"
  depth_score :: "f32 option"

record ir_observation =
  ob_face_bg_ratio :: f32
  ob_eye_glint :: f32
  ob_ir_score :: f32
  ob_depth_ratio :: f32
  ob_face_frac :: f32

record ir_calibration =
  observations :: "ir_observation list"

datatype ir_gate = GatePass | GateReject string | GateNotCalibrated

definition from_signals :: "liveness_signals \<Rightarrow> ir_observation option" where
  "from_signals s =
     Option.bind (ir_face_bg_ratio s) (\<lambda>r.
     Option.bind (ir_eye_glint s) (\<lambda>g.
     Option.bind (ir_score s) (\<lambda>i.
     Option.bind (sg_face_frac s) (\<lambda>f.
     Some \<lparr>ob_face_bg_ratio = r, ob_eye_glint = g, ob_ir_score = i,
           ob_depth_ratio = unwrap_or (f_lit 1) (depth_score s), ob_face_frac = f\<rparr>))))"

definition min_calibration_observations :: nat where "min_calibration_observations = 3"
definition depth_min_ref :: f32 where "depth_min_ref = f_lit 1.1"

definition default_calibration :: ir_calibration where
  "default_calibration = \<lparr>observations = []\<rparr>"

definition is_ready :: "ir_calibration \<Rightarrow> bool" where
  "is_ready c \<longleftrightarrow> min_calibration_observations \<le> length (observations c)"

definition cal_push :: "ir_observation \<Rightarrow> ir_calibration \<Rightarrow> ir_calibration" where
  "cal_push o1 c = c\<lparr>observations := observations c @ [o1]\<rparr>"

definition env_margin :: "string \<Rightarrow> f32 \<Rightarrow> 'z host_scheme \<Rightarrow> f32" where
  "env_margin var dflt w =
     unwrap_or dflt
       (opt_filter (\<lambda>v. f_finite v \<and> f_lt (f_lit 0) v \<and> f_le v (f_lit 1))
         (Option.bind (env_vars w var) (\<lambda>s. parse_f32 (trim s))))"

text \<open>
  The stable sort by \<open>partial_cmp\<close>, equal when incomparable. Enrolled values come from JSON, which
  has no NaN, so the comparison is total on them.
\<close>

fun insert_f :: "f32 \<Rightarrow> f32 list \<Rightarrow> f32 list" where
  "insert_f x [] = [x]"
| "insert_f x (y # ys) = (if f_lt x y then x # y # ys else y # insert_f x ys)"

definition sort_f :: "f32 list \<Rightarrow> f32 list" where
  "sort_f xs = fold insert_f xs []"

definition robust_low :: "f32 list \<Rightarrow> f32" where
  "robust_low vals =
     (if vals = [] then f_lit 0
      else let idx = min (nat (f_to_int 0 (2 ^ 64 - 1) (f_floor (f_mul (f_of_nat (length vals)) (f_lit 0.2)))))
                         (length vals - 1)
           in sort_f vals ! idx)"

definition b2n :: "bool \<Rightarrow> nat" where "b2n b = (if b then 1 else 0)"

definition cal_gate :: "ir_calibration \<Rightarrow> ir_observation \<Rightarrow> 'z host_scheme \<Rightarrow> ir_gate" where
  "cal_gate c live w =
     (if \<not> is_ready c then GateNotCalibrated
      else
        (let ratio_ref = robust_low (map ob_face_bg_ratio (observations c));
             glint_ref = robust_low (map ob_eye_glint (observations c));
             ratio_thr = f_mul ratio_ref (env_margin ''LINHELLO_IR_RATIO_MARGIN'' (f_lit 0.8) w);
             glint_thr = f_mul glint_ref (env_margin ''LINHELLO_IR_GLINT_MARGIN'' (f_lit 0.5) w);
             ratio_usable = f_lt (f_lit 0) ratio_ref;
             glint_usable = f_lt (f_lit 0) glint_ref;
             rg_usable = b2n ratio_usable + b2n glint_usable;
             rg_absent = b2n (ratio_usable \<and> f_lt (ob_face_bg_ratio live) ratio_thr) +
                         b2n (glint_usable \<and> f_lt (ob_eye_glint live) glint_thr);
             brightness_spoof = (0 < rg_usable \<and> rg_absent = rg_usable);
             depth_ref = robust_low (map ob_depth_ratio (observations c));
             depth_thr = f_mul depth_ref (env_margin ''LINHELLO_IR_DEPTH_MARGIN'' (f_lit 0.85) w);
             depth_spoof = (f_lt depth_min_ref depth_ref \<and> f_lt (ob_depth_ratio live) depth_thr)
         in if brightness_spoof then
              GateReject (''active-IR liveness below your enrolled profile (face/bg '' @
                fmt_prec 2 (ob_face_bg_ratio live) @ '' < '' @ fmt_prec 2 ratio_thr @ '', eye-glint '' @
                fmt_prec 0 (ob_eye_glint live) @ '' < '' @ fmt_prec 0 glint_thr @ '') '' @ em_dash @
                '' looks like a flat photo, not a live face'')
            else if depth_spoof then
              GateReject (''no facial depth under the IR emitter (center/edge '' @
                fmt_prec 2 (ob_depth_ratio live) @ '' < '' @ fmt_prec 2 depth_thr @ '') '' @ em_dash @
                '' looks like a flat photo or screen, not a 3-D face'')
            else GatePass))"

section \<open>Properties of the gate\<close>

lemma set_insert_f: "set (insert_f x ys) = insert x (set ys)"
  by (induction ys) auto

lemma length_insert_f [simp]: "length (insert_f x ys) = Suc (length ys)"
  by (induction ys) auto

lemma sort_f_gen: "set (fold insert_f xs ys) = set xs \<union> set ys \<and> length (fold insert_f xs ys) = length xs + length ys"
  by (induction xs arbitrary: ys) (auto simp: set_insert_f)

lemma set_sort_f [simp]: "set (sort_f xs) = set xs"
  and length_sort_f [simp]: "length (sort_f xs) = length xs"
  using sort_f_gen [of xs "[]"] by (auto simp: sort_f_def)

lemma sorted_insert_f:
  assumes "sorted_wrt f_le ys" and "\<forall>z\<in>set (x # ys). \<not> f_is_nan z"
  shows "sorted_wrt f_le (insert_f x ys)"
  using assms
proof (induction ys)
  case (Cons y ys)
  show ?case
  proof (cases "f_lt x y")
    case True
    then have "f_le x z" if "z \<in> set (y # ys)" for z
      using that Cons.prems(1) by (auto intro: f_lt_imp_le f_le_trans)
    then show ?thesis using True Cons.prems(1) by simp
  next
    case False
    then have "f_le y x" using Cons.prems(2) by (simp add: f_le_iff)
    then show ?thesis using False Cons by (auto simp: set_insert_f)
  qed
qed simp

lemma sorted_fold_insert_f:
  "sorted_wrt f_le ys \<Longrightarrow> \<forall>z\<in>set xs \<union> set ys. \<not> f_is_nan z \<Longrightarrow> sorted_wrt f_le (fold insert_f xs ys)"
proof (induction xs arbitrary: ys)
  case (Cons a xs)
  have "sorted_wrt f_le (insert_f a ys)"
    using Cons.prems by (intro sorted_insert_f) auto
  then show ?case
    using Cons.IH [of "insert_f a ys"] Cons.prems by (auto simp: set_insert_f)
qed simp

lemma sorted_sort_f: "\<forall>z\<in>set xs. \<not> f_is_nan z \<Longrightarrow> sorted_wrt f_le (sort_f xs)"
  by (simp add: sort_f_def sorted_fold_insert_f)

text \<open>The reference is one of the enrolled values.\<close>

lemma robust_low_mem: "vals \<noteq> [] \<Longrightarrow> robust_low vals \<in> set vals"
proof -
  assume "vals \<noteq> []"
  then have "min k (length vals - 1) < length (sort_f vals)" for k by (cases vals) auto
  then have "sort_f vals ! min k (length vals - 1) \<in> set (sort_f vals)" for k by (rule nth_mem)
  then show ?thesis
    using \<open>vals \<noteq> []\<close> by (simp add: robust_low_def Let_def)
qed

definition ratio_weak :: "ir_calibration \<Rightarrow> ir_observation \<Rightarrow> 'z host_scheme \<Rightarrow> bool" where
  "ratio_weak c live w \<longleftrightarrow> f_lt (ob_face_bg_ratio live)
     (f_mul (robust_low (map ob_face_bg_ratio (observations c))) (env_margin ''LINHELLO_IR_RATIO_MARGIN'' (f_lit 0.8) w))"

definition glint_weak :: "ir_calibration \<Rightarrow> ir_observation \<Rightarrow> 'z host_scheme \<Rightarrow> bool" where
  "glint_weak c live w \<longleftrightarrow> f_lt (ob_eye_glint live)
     (f_mul (robust_low (map ob_eye_glint (observations c))) (env_margin ''LINHELLO_IR_GLINT_MARGIN'' (f_lit 0.5) w))"

definition depth_weak :: "ir_calibration \<Rightarrow> ir_observation \<Rightarrow> 'z host_scheme \<Rightarrow> bool" where
  "depth_weak c live w \<longleftrightarrow> f_lt (ob_depth_ratio live)
     (f_mul (robust_low (map ob_depth_ratio (observations c))) (env_margin ''LINHELLO_IR_DEPTH_MARGIN'' (f_lit 0.85) w))"

definition ratio_enrolled :: "ir_calibration \<Rightarrow> bool" where
  "ratio_enrolled c \<longleftrightarrow> f_lt (f_lit 0) (robust_low (map ob_face_bg_ratio (observations c)))"

definition glint_enrolled :: "ir_calibration \<Rightarrow> bool" where
  "glint_enrolled c \<longleftrightarrow> f_lt (f_lit 0) (robust_low (map ob_eye_glint (observations c)))"

definition depth_enrolled :: "ir_calibration \<Rightarrow> bool" where
  "depth_enrolled c \<longleftrightarrow> f_lt depth_min_ref (robust_low (map ob_depth_ratio (observations c)))"

lemma cal_gate_Pass_iff:
  "cal_gate c live w = GatePass \<longleftrightarrow> is_ready c \<and>
     ((\<not> ratio_enrolled c \<and> \<not> glint_enrolled c) \<or>
      (ratio_enrolled c \<and> \<not> ratio_weak c live w) \<or> (glint_enrolled c \<and> \<not> glint_weak c live w)) \<and>
     \<not> (depth_enrolled c \<and> depth_weak c live w)"
  by (simp add: cal_gate_def Let_def ratio_enrolled_def glint_enrolled_def depth_enrolled_def
      ratio_weak_def glint_weak_def depth_weak_def b2n_def)

lemma cal_gate_NotCalibrated_iff: "cal_gate c live w = GateNotCalibrated \<longleftrightarrow> \<not> is_ready c"
  by (simp add: cal_gate_def Let_def)

end
