(* ===== verification/Liveness.thy ===== *)
theory Liveness
  imports Camera Ir
begin

text \<open>
  The liveness gate, crates/linhello-liveness/src/lib.rs, and the eye-motion score of
  crates/linhello-liveness/src/temporal.rs. The anti-spoof network is an ONNX model: it enters as
  the loaded model's number and, for \<open>evaluate\<close>, as the spoof probability its caller computed.
\<close>

section \<open>temporal.rs\<close>

definition patch_side :: nat where "patch_side = 16"
definition eye_win_frac :: f32 where "eye_win_frac = f_lit 0.3"
definition min_win_px :: f32 where "min_win_px = f_lit 6"

record eye_patches =
  ep_left :: "nat list"
  ep_right :: "nat list"

definition wrap_i32 :: "int \<Rightarrow> int" where
  "wrap_i32 i = (i + 2 ^ 31) mod 2 ^ 32 - 2 ^ 31"

definition extract_patch :: "rgb_image \<Rightarrow> point \<Rightarrow> f32 \<Rightarrow> nat list" where
  "extract_patch img c r =
     (let x0 = f_to_i32 (f_round_int (f_sub (fst c) r));
          y0 = f_to_i32 (f_round_int (f_sub (snd c) r));
          side = f_max (f_mul (f_lit 2) r) (f_lit 1);
          step = (\<lambda>k. f_to_i32 (f_div (f_mul (f_of_nat k) side) (f_of_nat patch_side)))
      in concat (map (\<lambda>py. map (\<lambda>px.
           let sx = wrap_i32 (x0 + step px); sy = wrap_i32 (y0 + step py) in
           if 0 \<le> sx \<and> 0 \<le> sy \<and> sx < int (ri_w img) \<and> sy < int (ri_h img)
           then (case ri_px img (nat sx) (nat sy) of (p0, p1, p2) \<Rightarrow> (p0 * 30 + p1 * 59 + p2 * 11) div 100 mod 256)
           else 0) [0..<patch_side]) [0..<patch_side]))"

definition eye_frame :: "rgb_image \<Rightarrow> landmarks \<Rightarrow> eye_patches" where
  "eye_frame img lm =
     (let dx = f_sub (fst (lm_re lm)) (fst (lm_le lm));
          dy = f_sub (snd (lm_re lm)) (snd (lm_le lm));
          iod = f_sqrt (f_add (f_mul dx dx) (f_mul dy dy));
          r = f_max (f_mul iod eye_win_frac) min_win_px
      in \<lparr>ep_left = extract_patch img (lm_le lm) r, ep_right = extract_patch img (lm_re lm) r\<rparr>)"

definition f_sum :: "f32 list \<Rightarrow> f32" where
  "f_sum xs = foldl f_add (f_lit 0) xs"

definition patch_diff :: "nat list \<Rightarrow> nat list \<Rightarrow> f32" where
  "patch_diff a b =
     (let n = f_of_nat (length a);
          ma = f_div (f_sum (map f_of_nat a)) n;
          mb = f_div (f_sum (map f_of_nat b)) n
      in f_div (f_sum (map (\<lambda>(x, y). f_abs (f_sub (f_sub (f_of_nat x) ma) (f_sub (f_of_nat y) mb)))
                        (zip a b))) n)"

fun windows2 :: "'a list \<Rightarrow> ('a \<times> 'a) list" where
  "windows2 (x # y # r) = (x, y) # windows2 (y # r)"
| "windows2 _ = []"

definition temporal_motion_score :: "eye_patches list \<Rightarrow> f32 option" where
  "temporal_motion_score sq =
     (if length sq < 2 then None
      else (let left = f_sum (map (\<lambda>(a, b). patch_diff (ep_left a) (ep_left b)) (windows2 sq));
                right = f_sum (map (\<lambda>(a, b). patch_diff (ep_right a) (ep_right b)) (windows2 sq));
                n = f_of_nat (length sq - 1)
            in Some (f_max (f_div left n) (f_div right n))))"

section \<open>Configuration\<close>

definition default_temporal_min :: f32 where "default_temporal_min = f_lit 8"
definition default_antispoof_model :: string where "default_antispoof_model = ''/etc/linhello/antispoof.onnx''"
definition default_antispoof_model_4 :: string where "default_antispoof_model_4 = ''/etc/linhello/antispoof_4.onnx''"
definition default_spoof_threshold :: f32 where "default_spoof_threshold = f_lit 0.5"

definition temporal_gate_enabled :: "'z host_scheme \<Rightarrow> bool" where
  "temporal_gate_enabled w =
     (case env_vars w ''LINHELLO_TEMPORAL_GATE'' of None \<Rightarrow> False | Some v \<Rightarrow> truthy v)"

definition temporal_min :: "'z host_scheme \<Rightarrow> f32" where
  "temporal_min w =
     unwrap_or default_temporal_min
       (opt_filter (\<lambda>v. f_finite v \<and> f_le (f_lit 0) v)
         (Option.bind (env_vars w ''LINHELLO_TEMPORAL_MIN'') (\<lambda>s. parse_f32 (trim s))))"

record liveness_config =
  antispoof_model :: "string option"
  antispoof_model_4 :: "string option"
  spoof_threshold :: f32
  require_antispoof :: bool
  require_ir :: bool

definition config_from_env :: "'z host_scheme \<Rightarrow> liveness_config" where
  "config_from_env w =
     \<lparr>antispoof_model = Some (unwrap_or default_antispoof_model (env_vars w ''LINHELLO_ANTISPOOF_MODEL'')),
      antispoof_model_4 = Some (unwrap_or default_antispoof_model_4 (env_vars w ''LINHELLO_ANTISPOOF_MODEL_4'')),
      spoof_threshold =
        unwrap_or default_spoof_threshold
          (map_option (\<lambda>v. f_clamp v (f_lit 0) (f_lit 1))
            (opt_filter f_finite (Option.bind (env_vars w ''LINHELLO_SPOOF_THRESHOLD'') parse_f32))),
      require_antispoof =
        (case env_vars w ''LINHELLO_REQUIRE_ANTISPOOF'' of
           None \<Rightarrow> True | Some v \<Rightarrow> \<not> (falsy v \<or> v = [])),
      require_ir =
        (case env_vars w ''LINHELLO_REQUIRE_IR'' of None \<Rightarrow> False | Some v \<Rightarrow> truthy v)\<rparr>"

section \<open>The evaluator\<close>

datatype liveness_decision = Real | Spoof | Uncertain

record liveness_report =
  lr_decision :: liveness_decision
  lr_signals :: liveness_signals
  lr_reason :: "string option"

record liveness_evaluator =
  le_config :: liveness_config
  le_antispoof :: "nat option"

definition empty_liveness_signals :: liveness_signals where
  "empty_liveness_signals =
     \<lparr>spoof_prob = None, ml_score = None, device_score = f_lit 0.5, device_name = None,
      device_driver = None, ir_score = None, ir_mean = None, ir_std = None, ir_highlight_frac = None,
      ir_face_bg_ratio = None, ir_eye_glint = None, sg_face_frac = None, sg_yaw_deg = None,
      sg_pitch_deg = None, motion_score = None, blink_score = None, consistency_score = None,
      depth_score = None\<rparr>"

type_synonym model_item = "string \<times> f32 \<times> string"

text \<open>The models to load: the primary may be mandatory, the secondary never is.\<close>

definition evaluator_items :: "liveness_config \<Rightarrow> 'z host_scheme \<Rightarrow> lh_error + model_item list" where
  "evaluator_items config w =
     rbind (case antispoof_model config of
         Some path \<Rightarrow>
           if path_exists path w then Inr [(path, f_lit 2.7, ''2.7_V2'')]
           else if require_antispoof config
           then Inl (Biometrics (''anti-spoof model required but not found at '' @ path))
           else Inr []
       | None \<Rightarrow>
           if require_antispoof config
           then Inl (Biometrics ''anti-spoof required but no primary model configured'')
           else Inr []) (\<lambda>items.
     Inr (case antispoof_model_4 config of
         Some p4 \<Rightarrow> if path_exists p4 w then items @ [(p4, f_lit 4, ''4.0_V1SE'')] else items
       | None \<Rightarrow> items))"

definition evaluator_new ::
  "(model_item list \<Rightarrow> lh_error + nat) \<Rightarrow> liveness_config \<Rightarrow> 'z host_scheme \<Rightarrow> lh_error + liveness_evaluator" where
  "evaluator_new load_ensemble config w =
     rbind (evaluator_items config w) (\<lambda>items.
     rbind (if items = [] then Inr None else rbind (load_ensemble items) (\<lambda>m. Inr (Some m))) (\<lambda>model.
     Inr \<lparr>le_config = config, le_antispoof = model\<rparr>))"

definition antispoof_median ::
  "(nat \<Rightarrow> 'f list \<Rightarrow> lh_error + f32) \<Rightarrow> liveness_evaluator \<Rightarrow> 'f list \<Rightarrow> lh_error + f32 option" where
  "antispoof_median predict_median ev frames =
     (case le_antispoof ev of
        Some m \<Rightarrow> if frames \<noteq> [] then rbind (predict_median m frames) (\<lambda>p. Inr (Some p)) else Inr None
      | None \<Rightarrow> Inr None)"

definition mk_report ::
  "liveness_decision \<Rightarrow> string option \<Rightarrow> liveness_signals \<Rightarrow> liveness_report" where
  "mk_report d r s = \<lparr>lr_decision = d, lr_signals = s, lr_reason = r\<rparr>"

text \<open>\<open>{:?}\<close> of an optional driver name; sysfs names hold no character that needs escaping.\<close>

definition debug_opt :: "string option \<Rightarrow> string" where
  "debug_opt x = (case x of None \<Rightarrow> ''None'' | Some s \<Rightarrow> ''Some('' @ [CHR 0x22] @ s @ [CHR 0x22] @ '')'')"

definition with_ir_signals :: "ir_signals \<Rightarrow> liveness_signals \<Rightarrow> liveness_signals" where
  "with_ir_signals s sg =
     sg\<lparr>ir_score := Some (is_ir_score s), ir_mean := Some (is_mean_face s), ir_std := Some (is_std_face s),
        ir_highlight_frac := Some (is_highlight_frac s), ir_face_bg_ratio := Some (is_face_bg_ratio s),
        ir_eye_glint := Some (is_eye_glint s), depth_score := Some (is_depth_ratio s)\<rparr>"

text \<open>The gates after the camera and framing checks: the network, then eye motion, then the verdict.\<close>

definition ml_stage ::
  "liveness_evaluator \<Rightarrow> f32 option \<Rightarrow> f32 option \<Rightarrow> 'z host_scheme \<Rightarrow> liveness_signals \<Rightarrow> liveness_report" where
  "ml_stage ev prob temporal_score w sg0 =
     (let sg = (case prob of
                  None \<Rightarrow> sg0
                | Some p \<Rightarrow> sg0\<lparr>spoof_prob := Some p, ml_score := Some (f_sub (f_lit 1) p)\<rparr>);
          verdict = mk_report (if ml_score sg = None \<and> f_lt (device_score sg) (f_lit 1) then Uncertain else Real)
                      None sg;
          after_ml = (case temporal_score of
              Some score \<Rightarrow>
                if temporal_gate_enabled w \<and> f_lt score (temporal_min w)
                then mk_report Uncertain (Some (''no eye movement detected (motion '' @ fmt_prec 1 score @ '' < '' @
                       fmt_prec 1 (temporal_min w) @ '') '' @ em_dash @
                       '' look at the camera and blink; a still photo or screen reads like this'')) sg
                else verdict
            | None \<Rightarrow> verdict)
      in case prob of
           Some p \<Rightarrow>
             if f_le (spoof_threshold (le_config ev)) p
             then mk_report Spoof (Some (''anti-spoof rejected (median spoof_prob='' @ fmt_prec 3 p @ '' '' @ geq_sign @
                    '' '' @ fmt_prec 3 (spoof_threshold (le_config ev)) @ '')'')) sg
             else after_ml
         | None \<Rightarrow> after_ml)"

definition live_evaluate ::
  "liveness_evaluator \<Rightarrow> rgb_image \<Rightarrow> bbox \<Rightarrow> landmarks \<Rightarrow> string \<Rightarrow> gray_image option \<Rightarrow> f32 option
   \<Rightarrow> f32 option \<Rightarrow> 'z host_scheme \<Rightarrow> (lh_error, liveness_report) outcome" where
  "live_evaluate ev img box lm camera_path ir prob temporal_score w =
     (let (yaw, pitch) = estimate_pose lm;
          sg1 = empty_liveness_signals\<lparr>motion_score := temporal_score, sg_yaw_deg := Some yaw, sg_pitch_deg := Some pitch\<rparr>
      in if \<not> is_frontal yaw pitch max_angle_deg then
           Ok (mk_report Uncertain (Some (''face not facing camera (yaw '' @ fmt_prec 0 yaw @ degree_sign @
                '', pitch '' @ fmt_prec 0 pitch @ degree_sign @ ''; need within '' @ plus_minus @
                fmt_prec 0 max_angle_deg @ degree_sign @ '')'')) sg1)
         else
      (let dev = validate_camera_device camera_path w;
           sg2 = sg1\<lparr>device_score := trust_score dev, device_name := trust_name dev, device_driver := trust_driver dev\<rparr>
       in if f_eq (device_score sg2) (f_lit 0) then
            Ok (mk_report Spoof (Some (''virtual camera detected (driver='' @ debug_opt (device_driver sg2) @ '')'')) sg2)
          else
      (let (b1, b2, b3, b4) = box;
           bbox_w = f_max (f_sub b3 b1) (f_lit 0);
           face_frac = f_div bbox_w (f_of_nat (max (ri_w img) 1));
           sg3 = sg2\<lparr>sg_face_frac := Some face_frac\<rparr>
       in if ir = None \<and> require_ir (le_config ev) then
            Ok (mk_report Uncertain
                 (Some ''IR liveness required (LINHELLO_REQUIRE_IR) but no IR frame was available'') sg3)
          else (case ir of
              None \<Rightarrow> Ok (ml_stage ev prob temporal_score w sg3)
            | Some ir_frame \<Rightarrow>
                (case ir_evaluate ir_frame box (ri_w img, ri_h img) lm of
                   Panic m \<Rightarrow> Panic m
                 | Err e \<Rightarrow> Err e
                 | Ok s \<Rightarrow>
                     (let sg4 = with_ir_signals s sg3 in
                      case ir_classify s face_frac of
                        IrReal \<Rightarrow> Ok (ml_stage ev prob temporal_score w sg4)
                      | IrTooFar \<Rightarrow>
                          Ok (mk_report Uncertain (Some (''move closer to the camera '' @ em_dash @ '' face fills '' @
                               fmt_prec 0 (f_mul face_frac (f_lit 100)) @ ''% of frame, need '' @ geq_sign @
                               fmt_prec 0 (f_mul min_face_frac (f_lit 100)) @ ''% for IR liveness'')) sg4)
                      | IrReject reason \<Rightarrow>
                          Ok (mk_report Spoof (Some (''IR liveness rejected: '' @ reason)) sg4)))))))"

section \<open>Properties\<close>

lemma f_finite_not_nan: "f_finite a \<Longrightarrow> \<not> f_is_nan a"
  by (simp add: f_finite_def f_is_nan_def decode_def)

lemma unit_interval: "f_le (f_lit 0) (f_lit 1)"
  by code_simp

lemma half_in_unit: "f_in (f_lit 0) (f_lit 1) default_spoof_threshold"
  by code_simp

text \<open>Whatever the environment says, the threshold of the network gate is a probability.\<close>

lemma config_threshold_unit: "f_in (f_lit 0) (f_lit 1) (spoof_threshold (config_from_env w))"
proof -
  have "f_in (f_lit 0) (f_lit 1) (f_clamp v (f_lit 0) (f_lit 1))" if "f_finite v" for v
    using that by (intro f_clamp_in f_finite_not_nan unit_interval)
  moreover have "f_finite v" if "opt_filter f_finite m = Some v" for m v
    using that by (simp add: opt_filter_Some_iff)
  ultimately show ?thesis
    by (cases "opt_filter f_finite (Option.bind (env_vars w ''LINHELLO_SPOOF_THRESHOLD'') parse_f32)")
      (simp_all add: config_from_env_def half_in_unit)
qed

text \<open>Fail closed: an evaluator that requires anti-spoof has a model loaded.\<close>

lemma evaluator_requires_model:
  assumes "evaluator_new load config w = Inr ev" and "require_antispoof config"
  shows "\<exists>m path items. le_antispoof ev = Some m \<and> antispoof_model config = Some path \<and>
    path_exists path w \<and> load ((path, f_lit 2.7, ''2.7_V2'') # items) = Inr m"
  using assms
  by (fastforce simp: evaluator_new_def evaluator_items_def res_iff split: option.splits if_splits)

lemma ml_stage_Real:
  "lr_decision (ml_stage ev prob ts w sg) = Real \<longleftrightarrow>
     (\<forall>p. prob = Some p \<longrightarrow> \<not> f_le (spoof_threshold (le_config ev)) p) \<and>
     \<not> (\<exists>t. ts = Some t \<and> temporal_gate_enabled w \<and> f_lt t (temporal_min w)) \<and>
     (prob = None \<longrightarrow> ml_score sg = None \<longrightarrow> \<not> f_lt (device_score sg) (f_lit 1))"
  by (auto simp: ml_stage_def Let_def mk_report_def split: option.splits if_splits)

text \<open>Everything a live verdict has passed.\<close>

lemma live_evaluate_Real:
  assumes "live_evaluate ev img box lm path ir prob ts w = Ok r" and "lr_decision r = Real"
  shows "is_frontal (fst (estimate_pose lm)) (snd (estimate_pose lm)) max_angle_deg"
    and "\<not> f_eq (trust_score (validate_camera_device path w)) (f_lit 0)"
    and "ir = None \<Longrightarrow> \<not> require_ir (le_config ev)"
    and "ir \<noteq> None \<Longrightarrow> \<not> f_lt (f_div (f_max (f_sub (fst (snd (snd box))) (fst box)) (f_lit 0))
           (f_of_nat (max (ri_w img) 1))) min_face_frac"
    and "prob = Some p \<Longrightarrow> \<not> f_le (spoof_threshold (le_config ev)) p"
    and "prob = None \<Longrightarrow> \<not> f_lt (trust_score (validate_camera_device path w)) (f_lit 1)"
  using assms
  by (auto simp: live_evaluate_def Let_def mk_report_def ml_stage_Real ir_classify_def with_ir_signals_def
      empty_liveness_signals_def split: prod.splits if_splits option.splits outcome.splits)

text \<open>A live verdict from an infrared frame carries the cues the per-user gate needs.\<close>

lemma ml_stage_ir:
  "ir_face_bg_ratio (lr_signals (ml_stage ev prob ts w sg)) = ir_face_bg_ratio sg"
  "ir_eye_glint (lr_signals (ml_stage ev prob ts w sg)) = ir_eye_glint sg"
  "ir_score (lr_signals (ml_stage ev prob ts w sg)) = ir_score sg"
  "sg_face_frac (lr_signals (ml_stage ev prob ts w sg)) = sg_face_frac sg"
  by (auto simp: ml_stage_def Let_def mk_report_def split: option.splits)

lemma live_evaluate_observation:
  assumes "live_evaluate ev img box lm path ir prob ts w = Ok r" and "lr_decision r = Real"
  shows "from_signals (lr_signals r) \<noteq> None \<longleftrightarrow> ir \<noteq> None"
  using assms
  by (auto simp: live_evaluate_def Let_def mk_report_def from_signals_def ml_stage_ir with_ir_signals_def
      empty_liveness_signals_def ir_classify_def bind_eq_None_conv
      split: prod.splits if_splits option.splits outcome.splits)

end
