(* ===== verification/BioPolicy.thy ===== *)
theory BioPolicy
  imports Host
begin

text \<open>
  The tiered biometric policy of crates/linhello-common/src/biopolicy.rs: tiers, operation
  classes, actions, the per-operation modality requirement, unlock methods and their
  selection, the classification of PAM services and the decision itself.
\<close>

section \<open>Data\<close>

datatype tier = Secure | Convenience

datatype operation_class = ScreenUnlock | Login | Elevation | Remote | UnknownService

datatype action = Verify | Unseal | Deny

datatype modality_req = Off | Rgb | Ir

record bio_policy =
  screen_unlock :: modality_req
  login :: modality_req
  sudo :: modality_req
  polkit :: modality_req

datatype unlock_method = FaceRgb | FaceIr | Fingerprint

record available_methods =
  face_rgb :: bool
  face_ir :: bool
  fingerprint :: bool
  fingerprint_capable :: bool

section \<open>Operations\<close>

definition tier_as_str :: "tier \<Rightarrow> string" where
  "tier_as_str t = (case t of
      Secure \<Rightarrow> ''secure (RGB + active IR)''
    | Convenience \<Rightarrow> ''convenience (RGB only)'')"

definition modality_parse :: "string \<Rightarrow> modality_req option" where
  "modality_parse s =
     (let v = to_ascii_lowercase (trim s) in
      if v = ''off'' then Some Off
      else if v = ''rgb'' then Some Rgb
      else if v = ''ir'' then Some Ir
      else None)"

definition default_policy :: bio_policy where
  "default_policy = \<lparr>screen_unlock = Rgb, login = Ir, sudo = Ir, polkit = Ir\<rparr>"

definition method_tier :: "unlock_method \<Rightarrow> tier" where
  "method_tier m = (case m of FaceRgb \<Rightarrow> Convenience | FaceIr \<Rightarrow> Secure | Fingerprint \<Rightarrow> Secure)"

definition method_as_str :: "unlock_method \<Rightarrow> string" where
  "method_as_str m = (case m of
      FaceRgb \<Rightarrow> ''face-rgb'' | FaceIr \<Rightarrow> ''face-ir'' | Fingerprint \<Rightarrow> ''fingerprint'')"

definition method_label :: "unlock_method \<Rightarrow> string" where
  "method_label m = (case m of
      FaceRgb \<Rightarrow> ''face (RGB only, convenience)''
    | FaceIr \<Rightarrow> ''face (RGB + IR, secure)''
    | Fingerprint \<Rightarrow> ''fingerprint (secure)'')"

definition replace_char :: "char \<Rightarrow> char \<Rightarrow> string \<Rightarrow> string" where
  "replace_char a b s = map (\<lambda>c. if c = a then b else c) s"

definition method_parse :: "string \<Rightarrow> unlock_method option" where
  "method_parse s =
     (let v = replace_char (CHR ''_'') (CHR ''-'') (to_ascii_lowercase (trim s)) in
      if v = ''face-rgb'' \<or> v = ''rgb'' then Some FaceRgb
      else if v = ''face-ir'' \<or> v = ''ir'' then Some FaceIr
      else if v = ''fingerprint'' \<or> v = ''finger'' \<or> v = ''fp'' then Some Fingerprint
      else None)"

definition selectable :: "available_methods \<Rightarrow> unlock_method list" where
  "selectable a =
     (if face_ir a then [FaceIr] else []) @
     (if fingerprint a then [Fingerprint] else []) @
     (if face_rgb a then [FaceRgb] else [])"

definition default_method :: "available_methods \<Rightarrow> unlock_method option" where
  "default_method a =
     (if face_ir a then Some FaceIr
      else if fingerprint a then Some Fingerprint
      else if face_rgb a then Some FaceRgb
      else None)"

definition needs_user_choice :: "available_methods \<Rightarrow> bool" where
  "needs_user_choice a \<longleftrightarrow> face_ir a \<and> fingerprint_capable a"

definition recommended_method :: "available_methods \<Rightarrow> unlock_method option" where
  "recommended_method a =
     (if face_ir a then Some FaceIr
      else if fingerprint_capable a then Some Fingerprint
      else if face_rgb a then Some FaceRgb
      else None)"

definition greeter_services :: "string list" where
  "greeter_services =
     [''gdm-password'', ''gdm-fingerprint'', ''gdm-smartcard'', ''sddm'', ''sddm-greeter'',
      ''plasmalogin'', ''plasmalogin-greeter'', ''plasmalogin-autologin'', ''lightdm'',
      ''lightdm-greeter'', ''lightdm-autologin'', ''login'', ''system-local-login'', ''kde'',
      ''kscreensaver'', ''kde-fingerprint'', ''gnome-screensaver'', ''xscreensaver'',
      ''swaylock'', ''hyprlock'']"

definition is_greeter_or_unlock :: "string \<Rightarrow> bool" where
  "is_greeter_or_unlock s \<longleftrightarrow> s \<in> set greeter_services"

definition classify :: "string \<Rightarrow> bool \<Rightarrow> operation_class" where
  "classify service warm =
     (if service \<in> set [''sudo'', ''su'', ''su-l'', ''runuser'', ''polkit-1''] then Elevation
      else if service \<in> set [''sshd'', ''remote''] then Remote
      else if is_greeter_or_unlock service then (if warm then ScreenUnlock else Login)
      else UnknownService)"

definition unseal_if_secure :: "tier \<Rightarrow> modality_req \<Rightarrow> action" where
  "unseal_if_secure t req = (if t = Secure \<and> req \<noteq> Off then Unseal else Deny)"

definition decide :: "operation_class \<Rightarrow> tier \<Rightarrow> bio_policy \<Rightarrow> action" where
  "decide class t p = (case class of
      Remote \<Rightarrow> Deny
    | UnknownService \<Rightarrow> Deny
    | ScreenUnlock \<Rightarrow> (case screen_unlock p of
          Off \<Rightarrow> Deny
        | Rgb \<Rightarrow> Verify
        | Ir \<Rightarrow> (if t = Secure then Verify else Deny))
    | Login \<Rightarrow> unseal_if_secure t (login p)
    | Elevation \<Rightarrow> unseal_if_secure t (sudo p))"

section \<open>An order on assurance\<close>

text \<open>Tiers ordered by assurance, so that monotonicity can be stated with the library's order.\<close>

instantiation tier :: linorder
begin

definition less_eq_tier :: "tier \<Rightarrow> tier \<Rightarrow> bool" where
  "less_eq_tier a b \<longleftrightarrow> (a = Secure \<longrightarrow> b = Secure)"

definition less_tier :: "tier \<Rightarrow> tier \<Rightarrow> bool" where
  "less_tier a b \<longleftrightarrow> a = Convenience \<and> b = Secure"

instance
proof
  fix x y z :: tier
  show "x < y \<longleftrightarrow> x \<le> y \<and> \<not> y \<le> x"
    by (cases x; cases y) (simp_all add: less_eq_tier_def less_tier_def)
  show "x \<le> x"
    by (simp add: less_eq_tier_def)
  show "x \<le> y \<Longrightarrow> y \<le> z \<Longrightarrow> x \<le> z"
    by (simp add: less_eq_tier_def)
  show "x \<le> y \<Longrightarrow> y \<le> x \<Longrightarrow> x = y"
    by (cases x; cases y) (simp_all add: less_eq_tier_def)
  show "x \<le> y \<or> y \<le> x"
    by (cases x; cases y) (simp_all add: less_eq_tier_def)
qed

end

text \<open>What an action grants: nothing, a match, or the credential.\<close>

definition grant :: "action \<Rightarrow> nat" where
  "grant a = (case a of Deny \<Rightarrow> 0 | Verify \<Rightarrow> 1 | Unseal \<Rightarrow> 2)"

section \<open>Properties\<close>

lemma unseal_if_secure_Unseal [simp]:
  "unseal_if_secure t r = Unseal \<longleftrightarrow> t = Secure \<and> r \<noteq> Off"
  by (simp add: unseal_if_secure_def)

lemma unseal_if_secure_not_Verify [simp]: "unseal_if_secure t r \<noteq> Verify"
  by (simp add: unseal_if_secure_def)

lemma decide_Unseal_iff:
  "decide c t p = Unseal \<longleftrightarrow>
     t = Secure \<and> (c = Login \<and> login p \<noteq> Off \<or> c = Elevation \<and> sudo p \<noteq> Off)"
  by (cases c) (auto simp: decide_def split: modality_req.splits)

lemma decide_Verify_iff:
  "decide c t p = Verify \<longleftrightarrow>
     c = ScreenUnlock \<and> (screen_unlock p = Rgb \<or> screen_unlock p = Ir \<and> t = Secure)"
  by (cases c) (auto simp: decide_def split: modality_req.splits)

lemma decide_mono: "s \<le> t \<Longrightarrow> grant (decide c s p) \<le> grant (decide c t p)"
  by (cases c; cases s; cases t)
    (auto simp: decide_def grant_def less_eq_tier_def unseal_if_secure_def split: modality_req.splits)

lemma classify_greeter: "is_greeter_or_unlock s \<Longrightarrow> classify s warm = (if warm then ScreenUnlock else Login)"
  by (auto simp: classify_def is_greeter_or_unlock_def greeter_services_def)

text \<open>The operation class depends on the service name and, for greeters only, on warmth.\<close>

lemma classify_ScreenUnlock_iff: "classify s warm = ScreenUnlock \<longleftrightarrow> is_greeter_or_unlock s \<and> warm"
  by (auto simp: classify_def is_greeter_or_unlock_def greeter_services_def)

lemma classify_Login_iff: "classify s warm = Login \<longleftrightarrow> is_greeter_or_unlock s \<and> \<not> warm"
  by (auto simp: classify_def is_greeter_or_unlock_def greeter_services_def)

lemma default_in_selectable: "default_method a = Some m \<Longrightarrow> m \<in> set (selectable a)"
  by (auto simp: default_method_def selectable_def split: if_splits)

lemma default_method_strongest:
  "default_method a = Some m \<Longrightarrow> n \<in> set (selectable a) \<Longrightarrow> method_tier n \<le> method_tier m"
  by (auto simp: default_method_def selectable_def method_tier_def less_eq_tier_def split: if_splits)

lemma selectable_sorted:
  "sorted_wrt (\<lambda>m n. method_tier n \<le> method_tier m) (selectable a) \<and> distinct (selectable a)"
  by (auto simp: selectable_def method_tier_def less_eq_tier_def)

lemma method_parse_as_str: "method_parse (method_as_str m) = Some m"
  by (cases m)
    (simp_all add: method_parse_def method_as_str_def trim_def trim_start_def trim_end_def
      strip_tokens.simps head_token_def ws_tokens_def to_ascii_lowercase_def ascii_lower_char_def
      replace_char_def)

end
