(* ===== verification/Ipc.thy ===== *)
theory Ipc
  imports BioPolicy F32 Host
begin

text \<open>
  The messages between the daemon and its clients, crates/linhello-common/src/ipc.rs. A
  \<open>SecretBytes\<close> is its bytes: wiping a buffer when it is dropped is below the model.
\<close>

datatype request =
    RStatus
  | REnroll string bool
  | RVerify string
  | RUnseal string
  | RReseal
  | RSealPassword string bytes
  | RUnsealPassword string
  | RAuthenticate string string
  | RAuthIntent string string
  | RPolicyStatus string
  | RDiagnose
  | RLivenessTest
  | RResealUserEnvelopes string
  | RProbe
  | RPositionSample
  | RListProfiles
  | RIdentify
  | RSetProfileName string string
  | RDeleteProfile string
  | RSaveRecovery string bytes
  | RRestoreFromRecovery string bytes

record profile_info =
  pi_user :: string
  pi_name :: "string option"
  pi_samples :: nat
  pi_has_password :: bool

record operation_policy =
  op_operation :: string
  op_action :: string
  op_effect :: string

record identify_candidate =
  ic_user :: string
  ic_name :: "string option"
  ic_score :: f32

record position_report =
  pr_face_count :: nat
  pr_frame_w :: nat
  pr_frame_h :: nat
  pr_bbox :: "(f32 \<times> f32 \<times> f32 \<times> f32) option"
  pr_face_frac :: "f32 option"
  pr_yaw_deg :: "f32 option"
  pr_pitch_deg :: "f32 option"
  pr_brightness :: "f32 option"
  pr_sharpness :: "f32 option"
  pr_quality :: nat
  pr_ir_present :: bool
  pr_ir_brightness :: "f32 option"
  pr_ir_face_bg :: "f32 option"
  pr_low_light :: bool
  pr_well_framed :: bool
  pr_guidance :: string

datatype capability_status = CapOk | CapWarn | CapMissing

record capability_check =
  cap_name :: string
  cap_status :: capability_status
  cap_detail :: string
  cap_required :: bool

type_synonym capability_report = "capability_check list"

definition can_run :: "capability_report \<Rightarrow> bool" where
  "can_run r \<longleftrightarrow> list_all (\<lambda>c. \<not> (cap_required c \<and> cap_status c = CapMissing)) r"

definition degraded :: "capability_report \<Rightarrow> bool" where
  "degraded r \<longleftrightarrow> can_run r \<and>
     list_ex (\<lambda>c. cap_status c = CapWarn \<or> \<not> cap_required c \<and> cap_status c = CapMissing) r"

record liveness_summary =
  ls_decision :: string
  ls_spoof_prob :: "f32 option"
  ls_ml_score :: "f32 option"
  ls_device_score :: f32
  ls_device_name :: "string option"
  ls_device_driver :: "string option"
  ls_ir_score :: "f32 option"
  ls_ir_mean :: "f32 option"
  ls_ir_std :: "f32 option"
  ls_ir_highlight_frac :: "f32 option"
  ls_ir_face_bg_ratio :: "f32 option"
  ls_ir_eye_glint :: "f32 option"
  ls_ir_depth_ratio :: "f32 option"
  ls_face_frac :: "f32 option"
  ls_yaw_deg :: "f32 option"
  ls_pitch_deg :: "f32 option"
  ls_reason :: "string option"

record policy_status =
  ps_tier :: string
  ps_secure :: bool
  ps_hardware_tier :: string
  ps_overridden :: bool
  ps_enrolled :: bool
  ps_hardware_ready :: bool
  ps_hardware_note :: string
  ps_ops :: "operation_policy list"

datatype response =
    SStatus security_level boot_mode bool "string option"
  | SEnrolled nat
  | SVerified bool f32 f32
  | SUnsealed bytes
  | SResealed nat
  | SPasswordSealed
  | SPasswordUnsealed bytes
  | SDiagnosed bool security_level "nat list" "nat list option" "string option"
  | SLivenessChecked liveness_summary
  | SUserEnvelopesResealed bool bool
  | SCapabilities capability_report
  | SPosition position_report
  | SProfiles "profile_info list"
  | SIdentified "identify_candidate option" f32 "identify_candidate list"
  | SProfileNameSet
  | SProfileDeleted string nat
  | SRecoverySaved
  | SRecoveryRestored
  | SAuthPlan bool string "string option"
  | SPolicyStatus policy_status
  | SError string

text \<open>The responses that carry a secret.\<close>

definition released :: "response \<Rightarrow> bytes option" where
  "released r = (case r of SUnsealed s \<Rightarrow> Some s | SPasswordUnsealed s \<Rightarrow> Some s | _ \<Rightarrow> None)"

lemma released_simps [simp]:
  "released (SError m) = None" "released (SUnsealed s) = Some s" "released (SPasswordUnsealed s) = Some s"
  "released (SVerified b x y) = None"
  by (simp_all add: released_def)

lemma degraded_runs: "degraded r \<Longrightarrow> can_run r"
  by (simp add: degraded_def)

end
