(* ===== verification/Crypto.thy ===== *)
theory Crypto
  imports Host
begin

text \<open>
  Template encryption (crates/linhello-core/src/crypto.rs) and the recovery passphrase
  (crates/linhello-core/src/recovery.rs). AES-256-GCM, Argon2id, base64, serde\_json and the
  operating system's random source are third-party code: they are fields of the parameter
  \<open>crypto_ext\<close>, and \<open>crypto_laws\<close> collects what their documentation promises.
\<close>

record recovery_envelope =
  rec_version :: nat
  rec_kdf :: string
  rec_salt :: string
  rec_m_cost :: nat
  rec_t_cost :: nat
  rec_p_cost :: nat
  rec_wrapped :: string

record crypto_ext =
  rand_bytes :: "nat \<Rightarrow> nat \<Rightarrow> bytes"
    \<comment> \<open>the i-th draw of n bytes from \<open>thread_rng().fill_bytes\<close>\<close>
  gcm_new :: "bytes \<Rightarrow> string + unit"
    \<comment> \<open>\<open>Aes256Gcm::new_from_slice\<close>\<close>
  gcm_encrypt :: "bytes \<Rightarrow> bytes \<Rightarrow> bytes \<Rightarrow> string + bytes"
    \<comment> \<open>key, nonce, plaintext\<close>
  gcm_decrypt :: "bytes \<Rightarrow> bytes \<Rightarrow> bytes \<Rightarrow> string + bytes"
    \<comment> \<open>key, nonce, ciphertext with tag\<close>
  argon2_params :: "nat \<Rightarrow> nat \<Rightarrow> nat \<Rightarrow> nat \<Rightarrow> string + unit"
  argon2_hash :: "nat \<Rightarrow> nat \<Rightarrow> nat \<Rightarrow> nat \<Rightarrow> bytes \<Rightarrow> bytes \<Rightarrow> string + bytes"
    \<comment> \<open>memory, passes, lanes, output length, passphrase, salt\<close>
  b64_encode :: "bytes \<Rightarrow> string"
  b64_decode :: "string \<Rightarrow> string + bytes"
  rec_to_json :: "recovery_envelope \<Rightarrow> string"
  rec_of_json :: "string \<Rightarrow> string + recovery_envelope"

section \<open>crypto.rs\<close>

definition key_len :: nat where "key_len = 32"
definition nonce_len :: nat where "nonce_len = 12"

definition fill_bytes :: "('x crypto_ext_scheme) \<Rightarrow> nat \<Rightarrow> ('z host_scheme, 'e, bytes) act" where
  "fill_bytes X n w = (Ok (rand_bytes X (draws w) n), w\<lparr>draws := Suc (draws w)\<rparr>)"

definition generate_key :: "('x crypto_ext_scheme) \<Rightarrow> ('z host_scheme, 'e, bytes) act" where
  "generate_key X = fill_bytes X key_len"

definition key_len_error :: "bytes \<Rightarrow> lh_error" where
  "key_len_error key =
     Policy (''template key must be '' @ show_nat key_len @ '' bytes, got '' @ show_nat (length key))"

definition encrypt ::
  "('x crypto_ext_scheme) \<Rightarrow> bytes \<Rightarrow> bytes \<Rightarrow> ('z host_scheme, lh_error, bytes) act" where
  "encrypt X key plaintext =
     (if length key \<noteq> key_len then fail (key_len_error key)
      else abind (lift (map_err (\<lambda>e. Tpm (''aes init: '' @ e)) (gcm_new X key))) (\<lambda>_.
           abind (fill_bytes X nonce_len) (\<lambda>nonce.
           abind (lift (map_err (\<lambda>e. Tpm (''aes encrypt: '' @ e)) (gcm_encrypt X key nonce plaintext)))
             (\<lambda>ct. ret (nonce @ ct)))))"

definition decrypt :: "('x crypto_ext_scheme) \<Rightarrow> bytes \<Rightarrow> bytes \<Rightarrow> lh_error + bytes" where
  "decrypt X key blob =
     (if length key \<noteq> key_len then Inl (key_len_error key)
      else if length blob < nonce_len + 16 then Inl (Policy ''encrypted blob too short'')
      else let nonce = take nonce_len blob; ct = drop nonce_len blob in
        rbind (map_err (\<lambda>e. Tpm (''aes init: '' @ e)) (gcm_new X key)) (\<lambda>_.
          map_err (\<lambda>_. Policy ''template decryption failed (wrong key or tampered data)'')
            (gcm_decrypt X key nonce ct)))"

section \<open>recovery.rs\<close>

definition salt_len :: nat where "salt_len = 16"
definition m_cost :: nat where "m_cost = 19456"
definition t_cost :: nat where "t_cost = 2"
definition p_cost :: nat where "p_cost = 1"

definition derive_key ::
  "('x crypto_ext_scheme) \<Rightarrow> bytes \<Rightarrow> bytes \<Rightarrow> nat \<Rightarrow> nat \<Rightarrow> nat \<Rightarrow> lh_error + bytes" where
  "derive_key X passphrase salt m t p =
     rbind (map_err (\<lambda>e. Policy (''argon2 params: '' @ e)) (argon2_params X m t p key_len)) (\<lambda>_.
       map_err (\<lambda>e. Policy (''argon2 derive: '' @ e)) (argon2_hash X m t p key_len passphrase salt))"

definition wrap ::
  "('x crypto_ext_scheme) \<Rightarrow> bytes \<Rightarrow> bytes \<Rightarrow> ('z host_scheme, lh_error, recovery_envelope) act" where
  "wrap X passphrase template_key =
     (if passphrase = [] then fail (Policy ''empty recovery passphrase'')
      else abind (fill_bytes X salt_len) (\<lambda>salt.
           abind (lift (derive_key X passphrase salt m_cost t_cost p_cost)) (\<lambda>dk.
           abind (encrypt X dk template_key) (\<lambda>wrapped.
           ret \<lparr>rec_version = 1, rec_kdf = ''argon2id'', rec_salt = b64_encode X salt,
                rec_m_cost = m_cost, rec_t_cost = t_cost, rec_p_cost = p_cost,
                rec_wrapped = b64_encode X wrapped\<rparr>))))"

definition unwrap :: "('x crypto_ext_scheme) \<Rightarrow> bytes \<Rightarrow> recovery_envelope \<Rightarrow> lh_error + bytes" where
  "unwrap X passphrase e =
     (if rec_kdf e \<noteq> ''argon2id'' then Inl (Policy (''unsupported recovery KDF: '' @ rec_kdf e))
      else rbind (map_err (\<lambda>m. Serde (''bad recovery salt: '' @ m)) (b64_decode X (rec_salt e))) (\<lambda>salt.
           rbind (map_err (\<lambda>m. Serde (''bad recovery blob: '' @ m)) (b64_decode X (rec_wrapped e))) (\<lambda>wrapped.
           rbind (derive_key X passphrase salt (rec_m_cost e) (rec_t_cost e) (rec_p_cost e)) (\<lambda>dk.
             map_err (\<lambda>_. Policy ''wrong recovery passphrase'') (decrypt X dk wrapped)))))"

section \<open>What the third-party code promises\<close>

text \<open>
  A draw has the requested length; AES-256-GCM accepts 32-byte keys, appends a 16-byte tag and
  decrypts what it encrypted under the same key and nonce; Argon2id fills the output buffer;
  base64 and the JSON codec decode what they encoded.
\<close>

definition rand_law :: "('x crypto_ext_scheme) \<Rightarrow> bool" where
  "rand_law X \<longleftrightarrow> (\<forall>i n. length (rand_bytes X i n) = n)"

definition gcm_law :: "('x crypto_ext_scheme) \<Rightarrow> bool" where
  "gcm_law X \<longleftrightarrow>
     (\<forall>k. length k = 32 \<longrightarrow> gcm_new X k = Inr ()) \<and>
     (\<forall>k n p c. gcm_encrypt X k n p = Inr c \<longrightarrow> length c = length p + 16 \<and> gcm_decrypt X k n c = Inr p)"

definition b64_law :: "('x crypto_ext_scheme) \<Rightarrow> bool" where
  "b64_law X \<longleftrightarrow> (\<forall>b. b64_decode X (b64_encode X b) = Inr b)"

definition argon2_law :: "('x crypto_ext_scheme) \<Rightarrow> bool" where
  "argon2_law X \<longleftrightarrow> (\<forall>m t p n s l k. argon2_hash X m t p l s n = Inr k \<longrightarrow> length k = l)"

definition rec_json_law :: "('x crypto_ext_scheme) \<Rightarrow> bool" where
  "rec_json_law X \<longleftrightarrow> (\<forall>e. rec_of_json X (rec_to_json X e) = Inr e \<and> utf8_valid (rec_to_json X e))"

section \<open>Properties\<close>

text \<open>The random source is the only part of the host these operations move.\<close>

definition same_but_draws :: "'z host_scheme \<Rightarrow> 'z host_scheme \<Rightarrow> bool" where
  "same_but_draws v w \<longleftrightarrow> (\<exists>n. w = v\<lparr>draws := n\<rparr>)"

interpretation rng: frame "same_but_draws :: 'z host_scheme \<Rightarrow> 'z host_scheme \<Rightarrow> bool"
proof
  fix w :: "'z host_scheme"
  have "w = w\<lparr>draws := draws w\<rparr>" by simp
  then show "same_but_draws w w" unfolding same_but_draws_def by blast
qed (auto simp: same_but_draws_def)

lemma rng_fill_bytes: "rng.keeps (fill_bytes X n)"
  by (rule rng.keepsI) (auto simp: fill_bytes_def same_but_draws_def)

lemma rng_encrypt: "rng.keeps (encrypt X key p)"
  unfolding encrypt_def by (intro rng.keeps_intros rng_fill_bytes)

lemma rng_wrap: "rng.keeps (wrap X pass key)"
  unfolding wrap_def by (intro rng.keeps_intros rng_fill_bytes rng_encrypt)

lemma same_but_drawsD: "same_but_draws v w \<Longrightarrow> same_outside P v w"
  by (auto simp: same_but_draws_def same_outside_def)

lemma rest_rng: "rng.keeps m \<Longrightarrow> rest.keeps m"
proof (rule rest.keepsI)
  fix w assume "rng.keeps m"
  then obtain n where "snd (m w) = w\<lparr>draws := n\<rparr>"
    using rng.keepsD [of m w] by (auto simp: same_but_draws_def)
  then show "same_rest w (snd (m w))"
    by (simp add: same_rest_def)
qed

lemma outside_rng: "rng.keeps m \<Longrightarrow> outside.keeps P m"
  by (auto simp: rng.keeps_def outside.keeps_def intro: same_but_drawsD)

lemma encrypt_result:
  assumes "encrypt X key p w = (Ok blob, w')"
  shows "length key = key_len \<and>
    (\<exists>nonce ct. nonce = rand_bytes X (draws w) nonce_len \<and> blob = nonce @ ct \<and>
       gcm_encrypt X key nonce p = Inr ct)"
  using assms
  by (auto simp: encrypt_def fail_def res_iff fill_bytes_def split: if_splits)

text \<open>The at-rest format: 12 bytes of nonce, the plaintext's length and a 16-byte tag.\<close>

lemma encrypt_length:
  assumes "encrypt X key p w = (Ok blob, w')" and "rand_law X" and "gcm_law X"
  shows "length blob = length p + 28"
  using encrypt_result [OF assms(1)] assms(2,3)
  by (auto simp: rand_law_def gcm_law_def nonce_len_def)

lemma decrypt_encrypt:
  assumes e: "encrypt X key p w = (Ok blob, w')" and "rand_law X" and "gcm_law X"
  shows "decrypt X key blob = Inr p"
proof -
  from encrypt_result [OF e] obtain nonce ct where
    k: "length key = key_len" and n: "nonce = rand_bytes X (draws w) nonce_len"
    and b: "blob = nonce @ ct" and c: "gcm_encrypt X key nonce p = Inr ct" by blast
  have ln: "length nonce = nonce_len"
    using assms(2) n by (simp add: rand_law_def)
  have "length ct = length p + 16" and d: "gcm_decrypt X key nonce ct = Inr p"
    using assms(3) c by (auto simp: gcm_law_def)
  then show ?thesis
    using k ln b assms(3) by (simp add: decrypt_def Let_def gcm_law_def key_len_def)
qed

lemma unwrap_wrap:
  assumes e: "wrap X pass key w = (Ok env, w')"
    and laws: "rand_law X" "gcm_law X" "b64_law X"
  shows "unwrap X pass env = Inr key"
proof -
  from e obtain salt dk wrapped u where
    dk: "derive_key X pass salt m_cost t_cost p_cost = Inr dk"
    and enc: "encrypt X dk key u = (Ok wrapped, w')"
    and env: "env = \<lparr>rec_version = 1, rec_kdf = ''argon2id'', rec_salt = b64_encode X salt,
                rec_m_cost = m_cost, rec_t_cost = t_cost, rec_p_cost = p_cost,
                rec_wrapped = b64_encode X wrapped\<rparr>"
    by (clarsimp simp: wrap_def fail_def res_iff split: if_splits)
  have "decrypt X dk wrapped = Inr key"
    using enc laws(1,2) by (rule decrypt_encrypt)
  then show ?thesis
    using laws(3) dk by (simp add: env unwrap_def b64_law_def)
qed

lemma wrap_empty: "fst (wrap X [] key w) = Err (Policy ''empty recovery passphrase'')"
  by (simp add: wrap_def)

lemma unwrap_Inr_decrypt:
  "unwrap X pass env = Inr key \<Longrightarrow>
   \<exists>salt wrapped dk. b64_decode X (rec_wrapped env) = Inr wrapped \<and>
     derive_key X pass salt (rec_m_cost env) (rec_t_cost env) (rec_p_cost env) = Inr dk \<and>
     decrypt X dk wrapped = Inr key"
  by (auto simp: unwrap_def rbind_Inr_iff map_err_Inr_iff split: if_splits)

end
