(* ===== verification/SecureBoot.thy ===== *)
theory SecureBoot
  imports Host
begin

text \<open>
  Boot-mode and Secure Boot detection from efivarfs, crates/linhello-secureboot/src/lib.rs.
  Detection only reads the host; \<open>std::string::String::from_utf16\<close> is written out down to the
  UTF-8 bytes it produces.
\<close>

definition efi_root :: string where "efi_root = ''/sys/firmware/efi''"
definition efivars :: string where "efivars = ''/sys/firmware/efi/efivars''"
definition secureboot_var :: string where
  "secureboot_var = ''SecureBoot-8be4df61-93ca-11d2-aa0d-00e098032b8c''"
definition setupmode_var :: string where
  "setupmode_var = ''SetupMode-8be4df61-93ca-11d2-aa0d-00e098032b8c''"
definition stub_info_var :: string where
  "stub_info_var = ''StubInfo-4a67b082-0a4c-41cf-b6c7-440b29bb8c4f''"
definition loader_info_var :: string where
  "loader_info_var = ''LoaderInfo-4a67b082-0a4c-41cf-b6c7-440b29bb8c4f''"

definition efivar_exists :: "string \<Rightarrow> 'z host_scheme \<Rightarrow> bool" where
  "efivar_exists name w \<longleftrightarrow> path_exists (path_join efivars name) w"

definition read_efivar_bytes :: "string \<Rightarrow> 'z host_scheme \<Rightarrow> bytes option" where
  "read_efivar_bytes name w =
     (case fs_read (path_join efivars name) w of
        Inl _ \<Rightarrow> None
      | Inr b \<Rightarrow> if length b < 5 then None else Some (drop 4 b))"

definition read_efivar_u8 :: "string \<Rightarrow> 'z host_scheme \<Rightarrow> nat option" where
  "read_efivar_u8 name w =
     Option.bind (read_efivar_bytes name w)
       (\<lambda>b. case b of [] \<Rightarrow> None | c # _ \<Rightarrow> Some (of_char c))"

definition grub_artifacts_present :: "'z host_scheme \<Rightarrow> bool" where
  "grub_artifacts_present w \<longleftrightarrow>
     list_ex (\<lambda>p. path_exists p w)
       [''/boot/grub/grub.cfg'', ''/boot/grub2/grub.cfg'', ''/etc/default/grub'']"

definition detect_boot_mode :: "'z host_scheme \<Rightarrow> boot_mode" where
  "detect_boot_mode w =
     (if \<not> path_exists efi_root w then Grub
      else if efivar_exists stub_info_var w then Uki
      else if efivar_exists loader_info_var w \<or> grub_artifacts_present w then Grub
      else Unknown)"

definition is_setup_mode :: "'z host_scheme \<Rightarrow> bool" where
  "is_setup_mode w \<longleftrightarrow> read_efivar_u8 setupmode_var w = Some 1"

definition is_secure_boot_enabled :: "'z host_scheme \<Rightarrow> bool" where
  "is_secure_boot_enabled w =
     (case read_efivar_u8 secureboot_var w of
        None \<Rightarrow> False
      | Some secure \<Rightarrow>
          (let setup = unwrap_or 0 (read_efivar_u8 setupmode_var w) in secure = 1 \<and> setup = 0))"

section \<open>UTF-16 variables\<close>

fun chunks2_le :: "bytes \<Rightarrow> nat list" where
  "chunks2_le (a # b # r) = (of_char a + 256 * of_char b) # chunks2_le r"
| "chunks2_le _ = []"

definition utf8_encode :: "nat \<Rightarrow> bytes" where
  "utf8_encode n =
     (if n < 128 then [char_of n]
      else if n < 2048 then [char_of (192 + n div 64), char_of (128 + n mod 64)]
      else if n < 65536 then
        [char_of (224 + n div 4096), char_of (128 + n div 64 mod 64), char_of (128 + n mod 64)]
      else
        [char_of (240 + n div 262144), char_of (128 + n div 4096 mod 64),
         char_of (128 + n div 64 mod 64), char_of (128 + n mod 64)])"

fun from_utf16 :: "nat list \<Rightarrow> string option" where
  "from_utf16 [] = Some []"
| "from_utf16 (u # us) =
     (if u < 55296 \<or> 57343 < u then map_option (\<lambda>s. utf8_encode u @ s) (from_utf16 us)
      else if 56320 \<le> u then None
      else (case us of
          [] \<Rightarrow> None
        | v # vs \<Rightarrow>
            if 56320 \<le> v \<and> v \<le> 57343
            then map_option (\<lambda>s. utf8_encode (65536 + (u - 55296) * 1024 + (v - 56320)) @ s)
                   (from_utf16 vs)
            else None))"

definition read_efivar_utf16 :: "string \<Rightarrow> 'z host_scheme \<Rightarrow> string option" where
  "read_efivar_utf16 name w =
     Option.bind (read_efivar_bytes name w) (\<lambda>data.
       if length data < 2 then None
       else from_utf16 (takeWhile (\<lambda>c. c \<noteq> 0) (chunks2_le data)))"

definition loader_identity :: "'z host_scheme \<Rightarrow> string option" where
  "loader_identity w =
     (case read_efivar_utf16 stub_info_var w of
        Some s \<Rightarrow> Some s
      | None \<Rightarrow> read_efivar_utf16 loader_info_var w)"

section \<open>Properties\<close>

lemma read_efivar_u8_Some:
  "read_efivar_u8 name w = Some n \<longleftrightarrow>
   (\<exists>b. fs_read (path_join efivars name) w = Inr b \<and> 5 \<le> length b \<and> of_char (b ! 4) = n)"
proof -
  have "drop 4 b = b ! 4 # drop 5 b" if "5 \<le> length b" for b :: bytes
    using that Cons_nth_drop_Suc [of 4 b] by simp
  then show ?thesis
    by (auto simp: read_efivar_u8_def read_efivar_bytes_def bind_eq_Some_conv not_less
        split: sum.splits if_splits)
qed

lemma secure_boot_needs_variable:
  "is_secure_boot_enabled w \<Longrightarrow>
   \<exists>b. fs_read (path_join efivars secureboot_var) w = Inr b \<and> 5 \<le> length b \<and> of_char (b ! 4) = (1::nat)"
  by (auto simp: is_secure_boot_enabled_def read_efivar_u8_Some Let_def split: option.splits)

lemma setup_mode_disables: "is_setup_mode w \<Longrightarrow> \<not> is_secure_boot_enabled w"
  by (auto simp: is_setup_mode_def is_secure_boot_enabled_def Let_def split: option.splits)

lemma boot_mode_Uki_iff:
  "detect_boot_mode w = Uki \<longleftrightarrow> path_exists efi_root w \<and> efivar_exists stub_info_var w"
  by (auto simp: detect_boot_mode_def)

text \<open>Detection depends only on the files it reads and on which reads fail.\<close>

lemma secure_boot_cong:
  assumes "\<forall>p. below efivars p \<longrightarrow> files v p = files w p" and "io_fault v = io_fault w"
  shows "is_secure_boot_enabled v = is_secure_boot_enabled w"
proof -
  have "path_join efivars n = efivars @ ''/'' @ n" if "n = secureboot_var \<or> n = setupmode_var" for n
    using that by (auto simp: path_join_def starts_with_def secureboot_var_def setupmode_var_def)
  then have "files v (path_join efivars n) = files w (path_join efivars n)"
    if "n = secureboot_var \<or> n = setupmode_var" for n
    using assms(1) that below_join [of efivars n] by metis
  then have "read_efivar_u8 n v = read_efivar_u8 n w" if "n = secureboot_var \<or> n = setupmode_var" for n
    using that assms(2) by (simp only: read_efivar_u8_def read_efivar_bytes_def fs_read_def)
  then have "read_efivar_u8 secureboot_var v = read_efivar_u8 secureboot_var w"
    and "read_efivar_u8 setupmode_var v = read_efivar_u8 setupmode_var w" by blast+
  then show ?thesis
    by (simp only: is_secure_boot_enabled_def)
qed

end
