(* ===== verification/PcrSig.thy ===== *)
theory PcrSig
  imports Crypto SecureBoot
begin

text \<open>
  Signed PCR policies, crates/linhello-core/src/pcrsig.rs: discovery of systemd's artifacts,
  the pinned trust anchor, hexadecimal digests, the signature file and its lookup, and
  linhello's own per-host signer. RSA, SHA-256 and the JSON form of the signature file are
  third-party code and enter through \<open>pki_ext\<close>.
\<close>

record pcr_signature =
  sig_pcrs :: "nat list"
  sig_pkfp :: string
  sig_pol :: bytes
  sig_sig :: bytes

text \<open>\<open>RawEntry\<close> and \<open>WriteEntry\<close> have the same fields: one entry of the signature file.\<close>

record sig_entry =
  ent_pcrs :: "nat list"
  ent_pkfp :: string
  ent_pol :: string
  ent_sig :: string

record rsa_pub =
  rsa_n :: bytes
  rsa_e :: bytes

type_synonym rsa_priv = bytes

text \<open>A \<open>HashMap<String, Vec<_>>\<close> is an association list with one entry per bank.\<close>

type_synonym sig_banks = "(string \<times> sig_entry list) list"

record pki_ext = crypto_ext +
  sha256 :: "bytes \<Rightarrow> bytes"
  pub_of_pem :: "string \<Rightarrow> string + rsa_pub"
  pub_to_der :: "rsa_pub \<Rightarrow> string + bytes"
  rsa_new :: "nat \<Rightarrow> string + rsa_priv"
  priv_to_pem :: "rsa_priv \<Rightarrow> string + string"
  priv_of_pem :: "string \<Rightarrow> string + rsa_priv"
  pub_of_priv :: "rsa_priv \<Rightarrow> rsa_pub"
  pub_to_pem :: "rsa_pub \<Rightarrow> string + string"
  rsa_sign :: "rsa_priv \<Rightarrow> bytes \<Rightarrow> string + bytes"
  sigs_of_json :: "string \<Rightarrow> string + sig_banks"
  sigs_to_json :: "sig_banks \<Rightarrow> string"

section \<open>Constants and discovery\<close>

definition default_bank :: string where "default_bank = ''sha256''"

definition trusted_pubkey_spki_sha256 :: string where
  "trusted_pubkey_spki_sha256 =
     ''86812b40a327339e23d3c1a5621f31041e7581e1cc334746f3af62e861525ede''"

definition search_dirs :: "string list" where
  "search_dirs = [''/etc/systemd'', ''/run/systemd'', ''/usr/lib/systemd'']"

definition signature_file :: string where "signature_file = ''tpm2-pcr-signature.json''"
definition pubkey_file :: string where "pubkey_file = ''tpm2-pcr-public-key.pem''"

definition discover :: "string \<Rightarrow> 'z host_scheme \<Rightarrow> string option" where
  "discover file w = find (\<lambda>p. path_exists p w) (map (\<lambda>d. path_join d file) search_dirs)"

definition discover_via :: "string \<Rightarrow> string \<Rightarrow> 'z host_scheme \<Rightarrow> string option" where
  "discover_via var file w =
     (case env_vars w var of
        Some p \<Rightarrow> if path_exists p w then Some p else None
      | None \<Rightarrow> discover file w)"

definition discover_signature_path :: "'z host_scheme \<Rightarrow> string option" where
  "discover_signature_path w = discover_via ''LINHELLO_PCR_SIGNATURE'' signature_file w"

definition discover_pubkey_path :: "'z host_scheme \<Rightarrow> string option" where
  "discover_pubkey_path w = discover_via ''LINHELLO_PCR_PUBKEY'' pubkey_file w"

definition signed_policy_available :: "'z host_scheme \<Rightarrow> bool" where
  "signed_policy_available w \<longleftrightarrow>
     discover_signature_path w \<noteq> None \<and> discover_pubkey_path w \<noteq> None"

section \<open>Hexadecimal\<close>

definition hex_char :: "nat \<Rightarrow> char" where
  "hex_char n = (if n < 10 then char_of (48 + n) else char_of (87 + n))"

definition hex_lower :: "bytes \<Rightarrow> string" where
  "hex_lower bs = concat (map (\<lambda>b. [hex_char (of_char b div 16), hex_char (of_char b mod 16)]) bs)"

definition hex_digit :: "char \<Rightarrow> nat option" where
  "hex_digit c = (let n = (of_char c :: nat) in
     if 48 \<le> n \<and> n \<le> 57 then Some (n - 48)
     else if 97 \<le> n \<and> n \<le> 102 then Some (n - 87)
     else if 65 \<le> n \<and> n \<le> 70 then Some (n - 55)
     else None)"

text \<open>\<open>u8::from_str_radix\<close> on two bytes at radix 16; a leading plus sign is accepted.\<close>

definition radix16 :: "char \<Rightarrow> char \<Rightarrow> nat option" where
  "radix16 a b =
     (if a = CHR ''+'' then hex_digit b
      else Option.bind (hex_digit a) (\<lambda>x. map_option (\<lambda>y. 16 * x + y) (hex_digit b)))"

fun from_hex_loop :: "string \<Rightarrow> (lh_error, bytes) outcome" where
  "from_hex_loop [] = Ok []"
| "from_hex_loop [a] = Panic ''byte index out of bounds''"
| "from_hex_loop (a # b # r) =
     (if cont_byte a \<or> r \<noteq> [] \<and> cont_byte (hd r) then Panic ''byte index is not a char boundary''
      else (case radix16 a b of
          None \<Rightarrow> Err (Serde ''bad hex: invalid digit found in string'')
        | Some v \<Rightarrow> (case from_hex_loop r of Ok vs \<Rightarrow> Ok (char_of v # vs) | Err e \<Rightarrow> Err e | Panic m \<Rightarrow> Panic m)))"

definition from_hex :: "string \<Rightarrow> (lh_error, bytes) outcome" where
  "from_hex s =
     (if length s mod 2 \<noteq> 0 then Err (Serde ''odd-length hex string'') else from_hex_loop s)"

section \<open>Keys\<close>

definition pubkey_spki_fingerprint :: "('x pki_ext_scheme) \<Rightarrow> string \<Rightarrow> lh_error + string" where
  "pubkey_spki_fingerprint X pem =
     rbind (map_err (\<lambda>e. Policy (''parse PCR public key: '' @ e)) (pub_of_pem X pem)) (\<lambda>key.
     rbind (map_err (\<lambda>e. Policy (''encode PCR public key SPKI: '' @ e)) (pub_to_der X key)) (\<lambda>der.
       Inr (hex_lower (sha256 X der))))"

definition ensure_trusted_pubkey :: "('x pki_ext_scheme) \<Rightarrow> string \<Rightarrow> lh_error + unit" where
  "ensure_trusted_pubkey X pem =
     rbind (pubkey_spki_fingerprint X pem) (\<lambda>fp.
       if fp \<noteq> trusted_pubkey_spki_sha256
       then Inl (Policy (''PCR signing key fingerprint '' @ fp @ '' is not the pinned trusted key '' @
              trusted_pubkey_spki_sha256))
       else Inr ())"

definition load_pubkey_pem :: "('x pki_ext_scheme) \<Rightarrow> 'z host_scheme \<Rightarrow> lh_error + string" where
  "load_pubkey_pem X w =
     rbind (ok_or (Policy ''no TPM2 PCR public key found'') (discover_pubkey_path w)) (\<lambda>path.
     rbind (map_err Io (fs_read_to_string path w)) (\<lambda>pem.
     rbind (ensure_trusted_pubkey X pem) (\<lambda>_. Inr pem)))"

section \<open>The signature file\<close>

definition decode_entry :: "('x pki_ext_scheme) \<Rightarrow> sig_entry \<Rightarrow> (lh_error, pcr_signature) outcome" where
  "decode_entry X e = (case from_hex (ent_pol e) of
      Err er \<Rightarrow> Err er
    | Panic m \<Rightarrow> Panic m
    | Ok pol \<Rightarrow> (case b64_decode X (ent_sig e) of
          Inl er \<Rightarrow> Err (Serde (''bad signature base64: '' @ er))
        | Inr sg \<Rightarrow> Ok \<lparr>sig_pcrs = ent_pcrs e, sig_pkfp = ent_pkfp e, sig_pol = pol, sig_sig = sg\<rparr>))"

fun collect_out :: "('a \<Rightarrow> ('e, 'b) outcome) \<Rightarrow> 'a list \<Rightarrow> ('e, 'b list) outcome" where
  "collect_out f [] = Ok []"
| "collect_out f (x # xs) = (case f x of
      Err e \<Rightarrow> Err e
    | Panic m \<Rightarrow> Panic m
    | Ok y \<Rightarrow> (case collect_out f xs of Ok ys \<Rightarrow> Ok (y # ys) | Err e \<Rightarrow> Err e | Panic m \<Rightarrow> Panic m))"

definition parse_signatures ::
  "('x pki_ext_scheme) \<Rightarrow> string \<Rightarrow> string \<Rightarrow> (lh_error, pcr_signature list) outcome" where
  "parse_signatures X text bank = (case sigs_of_json X text of
      Inl e \<Rightarrow> Err (Serde e)
    | Inr raw \<Rightarrow> (case map_of raw bank of
          None \<Rightarrow> Ok []
        | Some entries \<Rightarrow> collect_out (decode_entry X) entries))"

definition load_signatures ::
  "('x pki_ext_scheme) \<Rightarrow> string \<Rightarrow> ('z host_scheme, lh_error, pcr_signature list) act" where
  "load_signatures X bank =
     abind (query discover_signature_path) (\<lambda>found.
     abind (lift (ok_or (Policy ''no TPM2 PCR signature file found'') found)) (\<lambda>path.
     abind (query (\<lambda>w. map_err Io (fs_read_to_string path w))) (\<lambda>r.
     abind (lift r) (\<lambda>text.
     lift_out (parse_signatures X text bank)))))"

definition find_for_policy ::
  "pcr_signature list \<Rightarrow> nat list \<Rightarrow> bytes \<Rightarrow> pcr_signature option" where
  "find_for_policy sigs pcrs digest = find (\<lambda>s. sig_pol s = digest \<and> sig_pcrs s = pcrs) sigs"

section \<open>The host signer\<close>

definition host_signing_key_path :: string where
  "host_signing_key_path = path_join config_root ''pcr-signing-key.pem''"
definition host_signing_pub_path :: string where
  "host_signing_pub_path = path_join config_root ''pcr-signing-pub.pem''"
definition host_signature_path :: string where
  "host_signature_path = path_join config_root ''pcr-signature.json''"
definition host_signature_tmp :: string where
  "host_signature_tmp = path_join config_root ''pcr-signature.json.tmp''"

datatype signer_kind = Systemd | LinhelloHost

definition classify_signer ::
  "('x pki_ext_scheme) \<Rightarrow> string \<Rightarrow> 'z host_scheme \<Rightarrow> lh_error + signer_kind" where
  "classify_signer X pem w =
     rbind (pubkey_spki_fingerprint X pem) (\<lambda>fp.
       if fp = trusted_pubkey_spki_sha256 then Inr Systemd
       else (let refused = Inl (Policy (''authorized envelope references signing key '' @ fp @
                  '', which is neither the pinned systemd key nor this host's linhello signing key; refusing to unseal''))
             in case fs_read_to_string host_signing_pub_path w of
                  Inr host_pem \<Rightarrow>
                    rbind (pubkey_spki_fingerprint X host_pem) (\<lambda>hfp.
                      if hfp = fp then Inr LinhelloHost else refused)
                | Inl _ \<Rightarrow> refused))"

definition host_private_key :: "('x pki_ext_scheme) \<Rightarrow> 'z host_scheme \<Rightarrow> lh_error + rsa_priv" where
  "host_private_key X w =
     rbind (map_err Io (fs_read_to_string host_signing_key_path w)) (\<lambda>pem.
       map_err (\<lambda>e. Policy (''parse host signing key: '' @ e)) (priv_of_pem X pem))"

definition rsa_generate :: "('x pki_ext_scheme) \<Rightarrow> ('z host_scheme, lh_error, rsa_priv) act" where
  "rsa_generate X w =
     (of_result (map_err (\<lambda>e. Policy (''generate host signing key: '' @ e)) (rsa_new X (draws w))),
      w\<lparr>draws := Suc (draws w)\<rparr>)"

definition ensure_host_signing_key :: "('x pki_ext_scheme) \<Rightarrow> ('z host_scheme, lh_error, string) act" where
  "ensure_host_signing_key X =
     abind (query (path_exists host_signing_pub_path)) (\<lambda>present.
     if present then
       abind (query (\<lambda>w. map_err Io (fs_read_to_string host_signing_pub_path w))) (\<lambda>r.
       abind (lift r) (\<lambda>pem.
       abind (query (host_private_key X)) (\<lambda>k.
       abind (lift k) (\<lambda>_. ret pem))))
     else
       abind (rsa_generate X) (\<lambda>sk.
       abind (lift (map_err (\<lambda>e. Policy (''encode host signing key: '' @ e)) (priv_to_pem X sk))) (\<lambda>priv_pem.
       abind (lift (map_err (\<lambda>e. Policy (''encode host signing pubkey: '' @ e))
                     (pub_to_pem X (pub_of_priv X sk)))) (\<lambda>pub_pem.
       abind (io_act (fs_create_dir_all config_root)) (\<lambda>_.
       abind (io_act (fs_write host_signing_key_path priv_pem)) (\<lambda>_.
       abind (io_act (fs_set_permissions host_signing_key_path 384)) (\<lambda>_.
       abind (io_act (fs_write host_signing_pub_path pub_pem)) (\<lambda>_.
       abind (io_act (fs_set_permissions host_signing_pub_path 420)) (\<lambda>_.
       ret pub_pem)))))))))"

definition sign_ahash :: "('x pki_ext_scheme) \<Rightarrow> bytes \<Rightarrow> 'z host_scheme \<Rightarrow> lh_error + bytes" where
  "sign_ahash X ahash w =
     rbind (host_private_key X w) (\<lambda>sk.
       map_err (\<lambda>e. Policy (''sign PCR policy: '' @ e)) (rsa_sign X sk ahash))"

definition host_signatures ::
  "('x pki_ext_scheme) \<Rightarrow> string \<Rightarrow> ('z host_scheme, lh_error, pcr_signature list) act" where
  "host_signatures X bank =
     abind (query (path_exists host_signature_path)) (\<lambda>present.
     if \<not> present then ret []
     else
       abind (query (\<lambda>w. map_err Io (fs_read_to_string host_signature_path w))) (\<lambda>r.
       abind (lift r) (\<lambda>text. lift_out (parse_signatures X text bank))))"

definition existing_banks :: "('x pki_ext_scheme) \<Rightarrow> 'z host_scheme \<Rightarrow> sig_banks" where
  "existing_banks X w =
     (case fs_read_to_string host_signature_path w of
        Inl _ \<Rightarrow> []
      | Inr text \<Rightarrow> (case sigs_of_json X text of Inl _ \<Rightarrow> [] | Inr raw \<Rightarrow> raw))"

text \<open>\<open>banks.entry(bank).or_default()\<close>, then a push unless an entry for the policy is there.\<close>

definition add_entry :: "string \<Rightarrow> sig_entry \<Rightarrow> sig_banks \<Rightarrow> sig_banks" where
  "add_entry bank e banks =
     (let list = unwrap_or [] (map_of banks bank);
          list' = (if list_ex (\<lambda>x. ent_pol x = ent_pol e \<and> ent_pcrs x = ent_pcrs e) list
                   then list else list @ [e])
      in if map_of banks bank = None then banks @ [(bank, list')]
         else map (\<lambda>(b, l). if b = bank then (b, list') else (b, l)) banks)"

definition persist_host_signature ::
  "('x pki_ext_scheme) \<Rightarrow> string \<Rightarrow> nat list \<Rightarrow> bytes \<Rightarrow> bytes \<Rightarrow> ('z host_scheme, lh_error, unit) act" where
  "persist_host_signature X bank pcrs pol_digest sg =
     abind (query (existing_banks X)) (\<lambda>banks.
     abind (query (\<lambda>w. map_err Io (fs_read_to_string host_signing_pub_path w))) (\<lambda>r.
     abind (lift r) (\<lambda>host_pem.
     abind (lift (pubkey_spki_fingerprint X host_pem)) (\<lambda>pkfp.
     let entry = \<lparr>ent_pcrs = pcrs, ent_pkfp = pkfp, ent_pol = hex_lower pol_digest,
                  ent_sig = b64_encode X sg\<rparr>;
         json = sigs_to_json X (add_entry bank entry banks)
     in
     abind (io_act (fs_create_dir_all config_root)) (\<lambda>_.
     abind (io_act (fs_write host_signature_tmp json)) (\<lambda>_.
     abind (io_act (fs_set_permissions host_signature_tmp 420)) (\<lambda>_.
     io_act (fs_rename host_signature_tmp host_signature_path))))))))"

section \<open>Properties of the hexadecimal codec\<close>

text \<open>
  The codec interface: what a decoder promises of the encoder's output. The digests of the
  signature file go through hexadecimal, everything binary in an envelope through base64.
\<close>

locale codec =
  fixes enc :: "'a \<Rightarrow> 'b" and dec :: "'b \<Rightarrow> 'a option"
  assumes dec_enc: "dec (enc x) = Some x"
begin

lemma enc_inj: "enc x = enc y \<longleftrightarrow> x = y"
  using dec_enc by (metis option.inject)

lemma enc_mem: "list_ex (\<lambda>y. enc y = enc x) ys \<longleftrightarrow> x \<in> set ys"
  by (auto simp: enc_inj list_ex_iff)

end

definition out_option :: "('e, 'a) outcome \<Rightarrow> 'a option" where
  "out_option r = (case r of Ok x \<Rightarrow> Some x | _ \<Rightarrow> None)"

lemma hex_char_code:
  "n < 16 \<Longrightarrow> (of_char (hex_char n) :: nat) = (if n < 10 then 48 + n else 87 + n)"
  by (simp add: hex_char_def of_char_of)

lemma hex_digit_char: "n < 16 \<Longrightarrow> hex_digit (hex_char n) = Some n"
  by (simp add: hex_digit_def Let_def hex_char_code)

lemma hex_char_plain: "n < 16 \<Longrightarrow> hex_char n \<noteq> CHR ''+'' \<and> \<not> cont_byte (hex_char n)"
  using hex_char_code [of n] by (auto simp: cont_byte_def Let_def split: if_splits)

lemma of_char_bound: "(of_char c :: nat) < 256"
  using of_char_mod_256 [of c, where 'a = nat] by (metis mod_less_divisor zero_less_numeral)

lemma nibbles: "(of_char b :: nat) div 16 < 16" "(of_char b :: nat) mod 16 < 16"
  using of_char_bound [of b] by (auto simp: less_mult_imp_div_less)

lemma radix16_hex:
  "radix16 (hex_char (of_char b div 16)) (hex_char (of_char b mod 16)) = Some (of_char b)"
  by (simp add: radix16_def hex_char_plain hex_digit_char nibbles)

lemma hex_lower_Cons:
  "hex_lower (b # bs) = hex_char (of_char b div 16) # hex_char (of_char b mod 16) # hex_lower bs"
  by (simp add: hex_lower_def)

lemma hex_lower_Nil [simp]: "hex_lower [] = []"
  by (simp add: hex_lower_def)

lemma length_hex_lower [simp]: "length (hex_lower bs) = 2 * length bs"
  by (induction bs) (simp_all add: hex_lower_Cons)

lemma hex_lower_hd: "hex_lower bs \<noteq> [] \<Longrightarrow> \<not> cont_byte (hd (hex_lower bs))"
  by (cases bs) (simp_all add: hex_lower_Cons hex_char_plain nibbles)

lemma from_hex_loop_hex: "from_hex_loop (hex_lower bs) = Ok bs"
proof (induction bs)
  case (Cons b bs)
  then show ?case
    using hex_lower_hd [of bs] by (cases "hex_lower bs = []") (simp_all add: hex_lower_Cons hex_char_plain nibbles radix16_hex)
qed simp

lemma from_hex_hex_lower: "from_hex (hex_lower bs) = Ok bs"
  by (simp add: from_hex_def from_hex_loop_hex)

interpretation hex: codec hex_lower "\<lambda>s. out_option (from_hex s)"
  by unfold_locales (simp add: out_option_def from_hex_hex_lower)

text \<open>Decoding halves the length, and never panics on ASCII input.\<close>

lemma from_hex_loop_length: "from_hex_loop s = Ok bs \<Longrightarrow> length s = 2 * length bs"
  by (induction s arbitrary: bs rule: from_hex_loop.induct) (auto split: if_splits option.splits outcome.splits)

lemma from_hex_length: "from_hex s = Ok bs \<Longrightarrow> length s = 2 * length bs"
  by (auto simp: from_hex_def from_hex_loop_length split: if_splits)

lemma cont_byte_high: "cont_byte c \<Longrightarrow> \<not> (of_char c :: nat) < 128"
  by (simp add: cont_byte_def Let_def)

lemma from_hex_loop_total:
  "ascii s \<Longrightarrow> even (length s) \<Longrightarrow> from_hex_loop s \<noteq> Panic m"
proof (induction s rule: from_hex_loop.induct)
  case (3 a b r)
  have "\<not> cont_byte a" "r \<noteq> [] \<longrightarrow> \<not> cont_byte (hd r)"
    using 3(2) by (auto simp: ascii_def dest!: cont_byte_high) (cases r; simp)
  then show ?case
    using 3 by (auto simp: ascii_def split: option.splits outcome.splits)
qed simp_all

lemma from_hex_total: "ascii s \<Longrightarrow> from_hex s \<noteq> Panic m"
  by (auto simp: from_hex_def from_hex_loop_total even_iff_mod_2_eq_zero)

section \<open>Properties of the signature file\<close>

lemma find_for_policy_Some:
  "find_for_policy sigs pcrs d = Some s \<Longrightarrow> s \<in> set sigs \<and> sig_pol s = d \<and> sig_pcrs s = pcrs"
  by (auto simp: find_for_policy_def find_Some_iff)

lemma find_for_policy_None:
  "find_for_policy sigs pcrs d = None \<longleftrightarrow> (\<forall>s\<in>set sigs. sig_pol s = d \<longrightarrow> sig_pcrs s \<noteq> pcrs)"
  by (auto simp: find_for_policy_def find_None_iff)

lemma collect_out_append:
  "collect_out f xs = Ok ys \<Longrightarrow> f x = Ok y \<Longrightarrow> collect_out f (xs @ [x]) = Ok (ys @ [y])"
  by (induction xs arbitrary: ys) (auto split: outcome.splits)

lemma collect_out_mem:
  "collect_out f xs = Ok ys \<Longrightarrow> x \<in> set xs \<Longrightarrow> \<exists>y\<in>set ys. f x = Ok y"
  by (induction xs arbitrary: ys) (auto split: outcome.splits)

lemma map_of_set_bank:
  "map_of (map (\<lambda>(b, l). if b = bank then (b, l') else (b, l)) banks) k =
     (if k = bank then map_option (\<lambda>_. l') (map_of banks k) else map_of banks k)"
  by (induction banks) auto

text \<open>Every other bank keeps its list; the bank of the entry has it, once.\<close>

lemma add_entry_other: "k \<noteq> bank \<Longrightarrow> map_of (add_entry bank e banks) k = map_of banks k"
  by (simp add: add_entry_def Let_def map_of_set_bank)
    (auto simp: map_add_Some_iff map_add_def split: option.splits)

lemma add_entry_bank:
  "map_of (add_entry bank e banks) bank =
     Some (let list = unwrap_or [] (map_of banks bank) in
           if list_ex (\<lambda>x. ent_pol x = ent_pol e \<and> ent_pcrs x = ent_pcrs e) list then list
           else list @ [e])"
  by (auto simp: add_entry_def Let_def map_of_set_bank unwrap_or_def map_add_def split: option.splits)

lemma add_entry_idem: "map_of (add_entry bank e (add_entry bank e banks)) = map_of (add_entry bank e banks)"
proof
  fix k
  show "map_of (add_entry bank e (add_entry bank e banks)) k = map_of (add_entry bank e banks) k"
    by (cases "k = bank") (simp_all add: add_entry_other add_entry_bank Let_def unwrap_or_def)
qed

lemma decode_entry_new:
  "b64_law X \<Longrightarrow> decode_entry X \<lparr>ent_pcrs = pcrs, ent_pkfp = fp, ent_pol = hex_lower d, ent_sig = b64_encode X sg\<rparr>
     = Ok \<lparr>sig_pcrs = pcrs, sig_pkfp = fp, sig_pol = d, sig_sig = sg\<rparr>"
  by (simp add: decode_entry_def from_hex_hex_lower b64_law_def)

lemma decode_entry_fields:
  "decode_entry X e = Ok s \<Longrightarrow>
   sig_pcrs s = ent_pcrs e \<and> sig_pkfp s = ent_pkfp e \<and> from_hex (ent_pol e) = Ok (sig_pol s)"
  by (auto simp: decode_entry_def split: outcome.splits sum.splits)

text \<open>
  After an entry for a policy is added, a lookup of that policy finds a signature: the entry's
  own, or the one an earlier entry for the same policy digest and PCRs carries.
\<close>

lemma find_after_add:
  assumes banks: "collect_out (decode_entry X) (unwrap_or [] (map_of banks bank)) = Ok old"
    and law: "b64_law X"
  shows "\<exists>sigs. collect_out (decode_entry X) (the (map_of (add_entry bank
              \<lparr>ent_pcrs = pcrs, ent_pkfp = fp, ent_pol = hex_lower d, ent_sig = b64_encode X sg\<rparr> banks) bank)) = Ok sigs
    \<and> find_for_policy sigs pcrs d \<noteq> None"
proof -
  let ?e = "\<lparr>ent_pcrs = pcrs, ent_pkfp = fp, ent_pol = hex_lower d, ent_sig = b64_encode X sg\<rparr>"
  let ?list = "unwrap_or [] (map_of banks bank)"
  show ?thesis
  proof (cases "list_ex (\<lambda>x. ent_pol x = ent_pol ?e \<and> ent_pcrs x = ent_pcrs ?e) ?list")
    case True
    then obtain x where x: "x \<in> set ?list" "ent_pol x = hex_lower d" "ent_pcrs x = pcrs"
      by (auto simp: list_ex_iff)
    from collect_out_mem [OF banks x(1)] obtain s where "s \<in> set old" "decode_entry X x = Ok s" by blast
    then have "s \<in> set old \<and> sig_pol s = d \<and> sig_pcrs s = pcrs"
      using decode_entry_fields [of X x s] x from_hex_hex_lower [of d] by simp
    then show ?thesis
      using True banks by (auto simp: add_entry_bank Let_def find_for_policy_None)
  next
    case False
    then show ?thesis
      using collect_out_append [OF banks decode_entry_new [OF law]]
      by (auto simp: add_entry_bank Let_def find_for_policy_None)
  qed
qed

section \<open>Properties of the signers\<close>

lemma classify_signer_Inr:
  assumes "classify_signer X pem w = Inr k"
  shows "\<exists>fp. pubkey_spki_fingerprint X pem = Inr fp \<and>
    (case k of
       Systemd \<Rightarrow> fp = trusted_pubkey_spki_sha256
     | LinhelloHost \<Rightarrow> fp \<noteq> trusted_pubkey_spki_sha256 \<and>
         (\<exists>host_pem. fs_read_to_string host_signing_pub_path w = Inr host_pem \<and>
            pubkey_spki_fingerprint X host_pem = Inr fp))"
  using assms
  by (auto simp: classify_signer_def rbind_Inr_iff Let_def split: if_splits sum.splits)

definition host_signer_file :: "string \<Rightarrow> bool" where
  "host_signer_file p \<longleftrightarrow>
     p \<in> {host_signing_key_path, host_signing_pub_path, host_signature_path, host_signature_tmp}"

lemma host_signer_files [simp]:
  "host_signer_file host_signing_key_path" "host_signer_file host_signing_pub_path"
  "host_signer_file host_signature_path" "host_signer_file host_signature_tmp"
  by (simp_all add: host_signer_file_def)

lemma rng_rsa_generate: "rng.keeps (rsa_generate X)"
  by (rule rng.keepsI) (auto simp: rsa_generate_def same_but_draws_def)

lemma outside_ensure_host_signing_key: "outside.keeps host_signer_file (ensure_host_signing_key X)"
  unfolding ensure_host_signing_key_def
  by (intro outside_intros outside_rng rng_rsa_generate) simp_all

lemma outside_persist_host_signature:
  "outside.keeps host_signer_file (persist_host_signature X bank pcrs d sg)"
  unfolding persist_host_signature_def
  by (intro outside_intros) simp_all

text \<open>A private key that was written is readable by its owner only.\<close>

lemma rest_persist_host_signature: "rest.keeps (persist_host_signature X bank pcrs d sg)"
  unfolding persist_host_signature_def by (intro rest_intros)

lemma rest_ensure_host_signing_key: "rest.keeps (ensure_host_signing_key X)"
  unfolding ensure_host_signing_key_def by (intro rest_intros rest_rng rng_rsa_generate)

lemma host_paths_distinct [simp]:
  "host_signing_key_path \<noteq> host_signing_pub_path"
  "host_signing_pub_path \<noteq> host_signing_key_path"
  "host_signature_tmp \<noteq> host_signature_path"
  by (simp_all add: host_signing_key_path_def host_signing_pub_path_def host_signature_path_def
      host_signature_tmp_def path_join_def config_root_def starts_with_def)

lemma ensure_host_signing_key_new:
  assumes "ensure_host_signing_key X w = (Ok pem, w')" and "\<not> path_exists host_signing_pub_path w"
  shows "\<exists>sk priv_pem. rsa_new X (draws w) = Inr sk \<and> priv_to_pem X sk = Inr priv_pem \<and>
    pub_to_pem X (pub_of_priv X sk) = Inr pem \<and>
    files w' host_signing_key_path = Some priv_pem \<and> modes w' host_signing_key_path = Some 384 \<and>
    files w' host_signing_pub_path = Some pem"
  using assms
  by (auto simp: ensure_host_signing_key_def res_iff rsa_generate_def map_err_Inr_iff put_file_def
      dest!: fs_write_result fs_set_permissions_result fs_create_dir_all_result)

end
