(* ===== verification/SealPolicy.thy ===== *)
theory SealPolicy
  imports PcrSig
begin

text \<open>
  How a secret is bound to the TPM: the plan of crates/linhello-core/src/policy.rs and the
  on-disk envelope of crates/linhello-core/src/envelope.rs. The JSON form of an envelope is
  derived by serde and enters through \<open>env_ext\<close>.
\<close>

section \<open>policy.rs\<close>

datatype policy_plan =
    PlanAuthorized "nat list" string bytes
      \<comment> \<open>pcrs, \<open>pubkey_pem\<close>, \<open>policy_ref\<close>\<close>
  | PlanLiteral "nat list"
  | PlanNone

definition authorized_pcrs :: "nat list" where "authorized_pcrs = [11]"
definition linhello_signed_pcrs :: "nat list" where "linhello_signed_pcrs = [7]"
definition literal_pcrs :: "nat list" where "literal_pcrs = [7]"

fun plan_security_level :: "policy_plan \<Rightarrow> security_level" where
  "plan_security_level (PlanAuthorized pcrs _ _) = (if pcrs = authorized_pcrs then Full else Medium)"
| "plan_security_level (PlanLiteral _) = Medium"
| "plan_security_level PlanNone = Basic"

fun plan_pcrs :: "policy_plan \<Rightarrow> nat list" where
  "plan_pcrs (PlanAuthorized pcrs _ _) = pcrs"
| "plan_pcrs (PlanLiteral pcrs) = pcrs"
| "plan_pcrs PlanNone = []"

text \<open>The two loaders are computations: they run only on the branch that needs them.\<close>

definition decide_plan ::
  "bool \<Rightarrow> boot_mode \<Rightarrow> bool \<Rightarrow> ('w, 'e, string option) act \<Rightarrow> ('w, 'e, string option) act
   \<Rightarrow> ('w, 'e, policy_plan) act" where
  "decide_plan secure_boot boot signed_available load_systemd_pubkey load_host_pubkey =
     (if \<not> secure_boot then ret PlanNone
      else abind (if boot = Uki \<and> signed_available then load_systemd_pubkey else ret None) (\<lambda>systemd.
        case systemd of
          Some pubkey_pem \<Rightarrow> ret (PlanAuthorized authorized_pcrs pubkey_pem [])
        | None \<Rightarrow> abind load_host_pubkey (\<lambda>host.
            case host of
              Some pubkey_pem \<Rightarrow> ret (PlanAuthorized linhello_signed_pcrs pubkey_pem [])
            | None \<Rightarrow> ret (PlanLiteral literal_pcrs))))"

definition plan :: "('x pki_ext_scheme) \<Rightarrow> ('z host_scheme, 'e, policy_plan) act" where
  "plan X =
     abind (query is_secure_boot_enabled) (\<lambda>sb.
     abind (query detect_boot_mode) (\<lambda>boot.
     abind (query signed_policy_available) (\<lambda>avail.
     decide_plan sb boot avail
       (query (\<lambda>w. res_ok (load_pubkey_pem X w)))
       (abind (try_act (ensure_host_signing_key X)) (\<lambda>r. ret (res_ok r))))))"

definition detect :: "('x pki_ext_scheme) \<Rightarrow> ('z host_scheme, 'e, security_level) act" where
  "detect X = abind (plan X) (\<lambda>p. ret (plan_security_level p))"

definition pcrs_for :: "security_level \<Rightarrow> nat list" where
  "pcrs_for level = (case level of Full \<Rightarrow> authorized_pcrs | Medium \<Rightarrow> literal_pcrs | Basic \<Rightarrow> [])"

section \<open>envelope.rs\<close>

record pcr_value =
  pv_pcr :: nat
  pv_value :: bytes

datatype policy_kind = PcrLiteral | KindAuthorized string bytes

record sealed_envelope =
  env_version :: nat
  env_mode :: security_level
  env_pcrs :: "nat list"
  env_policy :: policy_kind
  env_public :: bytes
  env_private :: bytes
  env_pcr_values :: "pcr_value list"

definition current_version :: nat where "current_version = 2"

record env_ext = pki_ext +
  env_to_json :: "sealed_envelope \<Rightarrow> string"
  env_of_json :: "string \<Rightarrow> string + sealed_envelope"

definition env_load :: "('x env_ext_scheme) \<Rightarrow> string \<Rightarrow> 'z host_scheme \<Rightarrow> lh_error + sealed_envelope" where
  "env_load X path w =
     rbind (map_err Io (fs_read_to_string path w)) (\<lambda>s. map_err Serde (env_of_json X s))"

definition env_save ::
  "('x env_ext_scheme) \<Rightarrow> sealed_envelope \<Rightarrow> string \<Rightarrow> ('z host_scheme, lh_error, unit) act" where
  "env_save X e path =
     abind (case parent path of None \<Rightarrow> ret () | Some d \<Rightarrow> io_act (fs_create_dir_all d)) (\<lambda>_.
     io_act (fs_write path (env_to_json X e)))"

text \<open>serde reads back the envelope it wrote, and writes text.\<close>

definition env_json_law :: "('x env_ext_scheme) \<Rightarrow> bool" where
  "env_json_law X \<longleftrightarrow> (\<forall>e. env_of_json X (env_to_json X e) = Inr e \<and> utf8_valid (env_to_json X e))"

section \<open>Properties\<close>

lemma decide_plan_cases:
  "fst (decide_plan sb boot avail (query s) (query h) w) = Ok p \<longleftrightarrow>
   p = (if \<not> sb then PlanNone
        else case (if boot = Uki \<and> avail then s w else None) of
          Some k \<Rightarrow> PlanAuthorized [11] k []
        | None \<Rightarrow> (case h w of Some k \<Rightarrow> PlanAuthorized [7] k [] | None \<Rightarrow> PlanLiteral [7]))"
  by (auto simp: decide_plan_def act_simps authorized_pcrs_def linhello_signed_pcrs_def
      literal_pcrs_def split: option.splits)

lemma plan_result:
  "plan X w = decide_plan (is_secure_boot_enabled w) (detect_boot_mode w) (signed_policy_available w)
       (query (\<lambda>w. res_ok (load_pubkey_pem X w)))
       (abind (try_act (ensure_host_signing_key X)) (\<lambda>r. ret (res_ok r))) w"
  by (simp add: plan_def abind_def)

lemma plan_None_iff: "plan X w = (Ok p, w') \<Longrightarrow> p = PlanNone \<longleftrightarrow> \<not> is_secure_boot_enabled w"
  by (auto simp: plan_result decide_plan_def res_iff split: if_splits option.splits)

text \<open>Without Secure Boot the plan touches nothing: no signing key is created.\<close>

lemma plan_no_secure_boot: "\<not> is_secure_boot_enabled w \<Longrightarrow> plan X w = (Ok PlanNone, w)"
  by (simp add: plan_def decide_plan_def abind_def)

lemma load_pubkey_pem_trusted:
  "load_pubkey_pem X w = Inr pem \<Longrightarrow> pubkey_spki_fingerprint X pem = Inr trusted_pubkey_spki_sha256"
  by (auto simp: load_pubkey_pem_def ensure_trusted_pubkey_def res_iff split: if_splits)

lemma plan_Full:
  assumes "plan X w = (Ok p, w')" and "plan_security_level p = Full"
  shows "\<exists>pem. p = PlanAuthorized [11] pem [] \<and> is_secure_boot_enabled w \<and>
    detect_boot_mode w = Uki \<and> signed_policy_available w \<and> w' = w \<and>
    pubkey_spki_fingerprint X pem = Inr trusted_pubkey_spki_sha256"
proof -
  have "res_ok r = Some pem \<longleftrightarrow> r = Inr pem" for r :: "lh_error + string" and pem
    by (cases r) auto
  then show ?thesis
    using assms
    by (auto simp: plan_result decide_plan_def res_iff authorized_pcrs_def linhello_signed_pcrs_def
        intro: load_pubkey_pem_trusted split: if_splits option.splits)
qed

lemma plan_Authorized_pcrs:
  "plan X w = (Ok (PlanAuthorized pcrs pem ref), w') \<Longrightarrow> ref = [] \<and> (pcrs = [11] \<or> pcrs = [7])"
  by (auto simp: plan_result decide_plan_def res_iff authorized_pcrs_def linhello_signed_pcrs_def
      split: if_splits option.splits)

lemma outside_plan: "outside.keeps host_signer_file (plan X)"
  unfolding plan_def decide_plan_def
  by (intro outside_intros outside_ensure_host_signing_key)

lemma env_load_save:
  assumes "env_save X e path w = (Ok (), w')" and "env_json_law X" and "io_fault w OpRead path = None"
  shows "env_load X path w' = Inr e"
proof -
  have "files w' path = Some (env_to_json X e) \<and> io_fault w' = io_fault w"
    using assms(1)
    by (auto simp: env_save_def res_iff dest!: fs_write_result fs_create_dir_all_result
        split: option.splits)
  then show ?thesis
    using assms(2,3) by (simp add: env_load_def fs_read_to_string_def fs_read_def env_json_law_def)
qed

lemma rest_plan: "rest.keeps (plan X)"
  unfolding plan_def decide_plan_def by (intro rest_intros rest_ensure_host_signing_key)

lemma rest_env_save: "rest.keeps (env_save X e path)"
  unfolding env_save_def by (intro rest_intros)

lemma outside_env_save: "P path \<Longrightarrow> outside.keeps P (env_save X e path)"
  unfolding env_save_def by (intro outside_intros)

end
