(* ===== verification/Tpm.thy ===== *)
theory Tpm
  imports SealPolicy
begin

text \<open>
  Sealing and unsealing, crates/linhello-core/src/tpm.rs. The TPM and the tss-esapi crate are
  third-party: \<open>tss\<close> collects the commands the code issues, each a computation over an opaque
  TPM state \<open>'t\<close>, and the conversions of tss-esapi that may fail. A command that the code runs
  inside \<open>execute_with_nullauth_session\<close> or \<open>execute_with_session\<close> takes that choice as its
  \<open>tpm_auth\<close> argument. The model keeps every early return, every flush and the drop of a
  \<open>Context\<close> at the end of its scope.
\<close>

record 't tpm_host = host +
  tpm :: 't

datatype session_kind = Trial | PolicySess

datatype tpm_auth = NullAuth | WithSession nat

datatype buf_kind = DigestBuf | SensitiveBuf | PrivateBuf | RsaBuf | NonceBuf

datatype obj_attr =
  FixedTpm | FixedParent | SensitiveDataOrigin | UserWithAuth | Restricted | Decrypt
  | SignEncrypt | NoDa | AdminWithPolicy

datatype hash_alg = Sha256 | OtherHash

datatype sym_def = Aes128Cfb | SymNull

record rsa_public =
  rp_attrs :: "obj_attr set"
  rp_hash :: hash_alg
  rp_policy :: bytes
  rp_sym :: sym_def
  rp_bits :: nat
  rp_exponent :: nat
  rp_unique :: bytes

datatype tpm_public =
    PubRsa rsa_public
  | PubKeyedHash "obj_attr set" hash_alg bytes bytes
      \<comment> \<open>attributes, name hash, \<open>authPolicy\<close>, unique\<close>
  | PubOther

record 't tss = env_ext +
  tcti_conf :: "string \<Rightarrow> string + unit"
  ctx_new :: "string \<Rightarrow> ('t, string, nat) act"
  ctx_drop :: "nat \<Rightarrow> 't \<Rightarrow> 't"
  clear_sessions :: "nat \<Rightarrow> 't \<Rightarrow> 't"
  buf_try :: "buf_kind \<Rightarrow> bytes \<Rightarrow> string + bytes"
  pub_build :: "tpm_public \<Rightarrow> string + tpm_public"
  rsa_exponent :: "nat \<Rightarrow> string + nat"
  selection_build :: "nat list \<Rightarrow> string + nat list"
  persistent_new :: "nat \<Rightarrow> string + nat"
  policy_session :: "nat \<Rightarrow> string + nat"
  rsa_signature :: "bytes \<Rightarrow> string + bytes"
  marshall :: "tpm_public \<Rightarrow> string + bytes"
  unmarshall :: "bytes \<Rightarrow> string + tpm_public"
  pcr_read :: "nat \<Rightarrow> nat list \<Rightarrow> ('t, string, bytes list) act"
  start_auth_session :: "nat \<Rightarrow> session_kind \<Rightarrow> ('t, string, nat option) act"
  tr_sess_set_attributes :: "nat \<Rightarrow> nat \<Rightarrow> ('t, string, unit) act"
  flush_context :: "nat \<Rightarrow> nat \<Rightarrow> ('t, string, unit) act"
  policy_pcr :: "nat \<Rightarrow> nat \<Rightarrow> nat list \<Rightarrow> ('t, string, unit) act"
  policy_get_digest :: "nat \<Rightarrow> nat \<Rightarrow> ('t, string, bytes) act"
  create_primary :: "nat \<Rightarrow> tpm_auth \<Rightarrow> tpm_public \<Rightarrow> ('t, string, nat) act"
  tr_from_tpm_public :: "nat \<Rightarrow> nat \<Rightarrow> ('t, string, nat) act"
  read_public :: "nat \<Rightarrow> nat \<Rightarrow> ('t, string, tpm_public) act"
  tr_set_auth :: "nat \<Rightarrow> nat \<Rightarrow> bytes \<Rightarrow> ('t, string, unit) act"
  evict_control :: "nat \<Rightarrow> tpm_auth \<Rightarrow> nat \<Rightarrow> nat \<Rightarrow> ('t, string, nat) act"
  tpm_create :: "nat \<Rightarrow> tpm_auth \<Rightarrow> nat \<Rightarrow> tpm_public \<Rightarrow> bytes \<Rightarrow> ('t, string, tpm_public \<times> bytes) act"
  tpm_load :: "nat \<Rightarrow> tpm_auth \<Rightarrow> nat \<Rightarrow> bytes \<Rightarrow> tpm_public \<Rightarrow> ('t, string, nat) act"
  load_external_public :: "nat \<Rightarrow> tpm_public \<Rightarrow> ('t, string, nat) act"
  tr_get_name :: "nat \<Rightarrow> nat \<Rightarrow> ('t, string, bytes) act"
  verify_signature :: "nat \<Rightarrow> nat \<Rightarrow> bytes \<Rightarrow> bytes \<Rightarrow> ('t, string, bytes) act"
  policy_authorize :: "nat \<Rightarrow> nat \<Rightarrow> bytes \<Rightarrow> bytes \<Rightarrow> bytes \<Rightarrow> bytes \<Rightarrow> ('t, string, unit) act"
  tpm_unseal :: "nat \<Rightarrow> tpm_auth \<Rightarrow> nat \<Rightarrow> ('t, string, bytes) act"

section \<open>Running a command\<close>

definition tss_cmd :: "('t, string, 'a) act \<Rightarrow> (('t, 'z) tpm_host_scheme, string, 'a) act" where
  "tss_cmd m w = (case m (tpm w) of (r, t) \<Rightarrow> (r, w\<lparr>tpm := t\<rparr>))"

definition tpm_cmd :: "('t, string, 'a) act \<Rightarrow> (('t, 'z) tpm_host_scheme, lh_error, 'a) act" where
  "tpm_cmd m = amap_err Tpm (tss_cmd m)"

definition tpm_res :: "string + 'a \<Rightarrow> lh_error + 'a" where
  "tpm_res r = map_err Tpm r"

text \<open>Run a scope, then its cleanup whatever the scope returned; a panic skips the cleanup.\<close>

definition finally_act :: "('w, 'e, 'a) act \<Rightarrow> ('w, 'e, unit) act \<Rightarrow> ('w, 'e, 'a) act" where
  "finally_act m fin = abind (try_act m) (\<lambda>r. abind fin (\<lambda>_. lift r))"

definition tcti_default :: string where "tcti_default = ''device:/dev/tpmrm0''"

definition open_context :: "('t, 'x) tss_scheme \<Rightarrow> (('t, 'z) tpm_host_scheme, lh_error, nat) act" where
  "open_context X =
     abind (query (\<lambda>w. unwrap_or tcti_default (env_vars w ''LINHELLO_TCTI''))) (\<lambda>tcti.
     abind (lift (tpm_res (tcti_conf X tcti))) (\<lambda>_. tpm_cmd (ctx_new X tcti)))"

text \<open>The \<open>Context\<close> local to a function: dropped when the function is left, also by a panic.\<close>

definition with_context ::
  "('t, 'x) tss_scheme \<Rightarrow> (nat \<Rightarrow> (('t, 'z) tpm_host_scheme, lh_error, 'a) act)
   \<Rightarrow> (('t, 'z) tpm_host_scheme, lh_error, 'a) act" where
  "with_context X body =
     abind (open_context X) (\<lambda>ctx w. case body ctx w of (r, v) \<Rightarrow> (r, v\<lparr>tpm := ctx_drop X ctx (tpm v)\<rparr>))"

section \<open>Selections, templates and scopes\<close>

text \<open>A slot is its index.\<close>

definition pcr_slot :: "nat \<Rightarrow> lh_error + nat" where
  "pcr_slot index =
     (if index \<le> 16 \<or> index = 23 then Inr index
      else Inl (Tpm (''unsupported PCR '' @ show_nat index)))"

fun collect_res :: "('a \<Rightarrow> 'e + 'b) \<Rightarrow> 'a list \<Rightarrow> 'e + 'b list" where
  "collect_res f [] = Inr []"
| "collect_res f (x # xs) = rbind (f x) (\<lambda>y. rbind (collect_res f xs) (\<lambda>ys. Inr (y # ys)))"

definition pcr_selection :: "('t, 'x) tss_scheme \<Rightarrow> nat list \<Rightarrow> lh_error + nat list" where
  "pcr_selection X pcrs =
     rbind (collect_res pcr_slot pcrs) (\<lambda>slots. tpm_res (selection_build X slots))"

definition srk_attrs :: "obj_attr set" where
  "srk_attrs = {FixedTpm, FixedParent, SensitiveDataOrigin, UserWithAuth, Restricted, Decrypt}"

definition srk_public :: rsa_public where
  "srk_public = \<lparr>rp_attrs = srk_attrs, rp_hash = Sha256, rp_policy = [], rp_sym = Aes128Cfb,
     rp_bits = 2048, rp_exponent = 0, rp_unique = []\<rparr>"

definition srk_template :: "('t, 'x) tss_scheme \<Rightarrow> lh_error + tpm_public" where
  "srk_template X = tpm_res (pub_build X (PubRsa srk_public))"

definition sealed_template :: "('t, 'x) tss_scheme \<Rightarrow> bytes \<Rightarrow> lh_error + tpm_public" where
  "sealed_template X policy_digest =
     tpm_res (pub_build X (PubKeyedHash {FixedTpm, FixedParent, NoDa} Sha256 policy_digest []))"

fun read_pcr_values ::
  "('t, 'x) tss_scheme \<Rightarrow> nat \<Rightarrow> nat list \<Rightarrow> (('t, 'z) tpm_host_scheme, lh_error, pcr_value list) act" where
  "read_pcr_values X ctx [] = ret []"
| "read_pcr_values X ctx (p # ps) =
     abind (lift (pcr_selection X [p])) (\<lambda>sel.
     abind (tpm_cmd (pcr_read X ctx sel)) (\<lambda>digests.
     abind (read_pcr_values X ctx ps) (\<lambda>rest.
     ret (\<lparr>pv_pcr = p, pv_value = (case digests of [] \<Rightarrow> [] | d # _ \<Rightarrow> d)\<rparr> # rest))))"

definition with_session ::
  "('t, 'x) tss_scheme \<Rightarrow> nat \<Rightarrow> session_kind \<Rightarrow> (nat \<Rightarrow> (('t, 'z) tpm_host_scheme, lh_error, 'a) act)
   \<Rightarrow> (('t, 'z) tpm_host_scheme, lh_error, 'a) act" where
  "with_session X ctx kind body =
     abind (tpm_cmd (start_auth_session X ctx kind)) (\<lambda>started.
     case started of
       None \<Rightarrow> fail (Tpm ''start_auth_session returned None'')
     | Some session \<Rightarrow>
         abind (try_act (tss_cmd (tr_sess_set_attributes X ctx session))) (\<lambda>r.
         case r of
           Inl e \<Rightarrow> abind (ignore (tss_cmd (flush_context X ctx session))) (\<lambda>_. fail (Tpm e))
         | Inr _ \<Rightarrow>
             finally_act (body session)
               (abind (modify (\<lambda>w. w\<lparr>tpm := clear_sessions X ctx (tpm w)\<rparr>)) (\<lambda>_.
                ignore (tss_cmd (flush_context X ctx session))))))"

definition with_handle ::
  "('t, 'x) tss_scheme \<Rightarrow> nat \<Rightarrow> (('t, 'z) tpm_host_scheme, lh_error, nat) act
   \<Rightarrow> (nat \<Rightarrow> (('t, 'z) tpm_host_scheme, lh_error, 'a) act)
   \<Rightarrow> (('t, 'z) tpm_host_scheme, lh_error, 'a) act" where
  "with_handle X ctx spawn body =
     abind spawn (\<lambda>handle.
     finally_act (body handle) (ignore (tss_cmd (flush_context X ctx handle))))"

definition compute_policy_digest ::
  "('t, 'x) tss_scheme \<Rightarrow> nat \<Rightarrow> nat list option \<Rightarrow> (('t, 'z) tpm_host_scheme, lh_error, bytes) act" where
  "compute_policy_digest X ctx pcrs =
     with_session X ctx Trial (\<lambda>session.
       abind (case pcrs of
           None \<Rightarrow> ret ()
         | Some sel \<Rightarrow>
             abind (lift (tpm_res (policy_session X session))) (\<lambda>policy.
             tpm_cmd (policy_pcr X ctx policy sel))) (\<lambda>_.
       abind (lift (tpm_res (policy_session X session))) (\<lambda>policy.
       tpm_cmd (policy_get_digest X ctx policy))))"

section \<open>The storage root key\<close>

definition create_srk ::
  "('t, 'x) tss_scheme \<Rightarrow> nat \<Rightarrow> (('t, 'z) tpm_host_scheme, lh_error, nat) act" where
  "create_srk X ctx =
     abind (lift (srk_template X)) (\<lambda>tmpl. tpm_cmd (create_primary X ctx NullAuth tmpl))"

text \<open>\<open>u32::from_str_radix(_, 16)\<close>: an optional plus sign, hexadecimal digits, no overflow.\<close>

definition hex_value :: "string \<Rightarrow> nat option" where
  "hex_value s = fold (\<lambda>c acc. Option.bind acc (\<lambda>n. map_option (\<lambda>d. 16 * n + d) (hex_digit c))) s (Some 0)"

definition u32_from_hex :: "string \<Rightarrow> nat option" where
  "u32_from_hex s =
     (let digits = (case s of c # r \<Rightarrow> if c = CHR ''+'' \<and> r \<noteq> [] then r else s | [] \<Rightarrow> [])
      in if digits = [] then None else opt_filter (\<lambda>n. n < 2 ^ 32) (hex_value digits))"

definition default_srk_handle :: nat where "default_srk_handle = 0x81010001"

definition persistent_srk_handle :: "('t, 'x) tss_scheme \<Rightarrow> 'z host_scheme \<Rightarrow> lh_error + nat" where
  "persistent_srk_handle X w =
     (let raw = unwrap_or default_srk_handle
        (Option.bind (env_vars w ''LINHELLO_SRK_HANDLE'') (\<lambda>s. u32_from_hex (strip_tokens [''0x''] (trim s))))
      in tpm_res (persistent_new X raw))"

definition is_linhello_srk :: "('t, 'x) tss_scheme \<Rightarrow> tpm_public \<Rightarrow> lh_error + bool" where
  "is_linhello_srk X public =
     (case public of
        PubRsa p \<Rightarrow>
          rbind (srk_template X) (\<lambda>want.
            case want of
              PubRsa q \<Rightarrow> Inr (rp_attrs p = rp_attrs q \<and> rp_hash p = rp_hash q \<and>
                             rp_policy p = rp_policy q \<and> rp_bits p = rp_bits q)
            | _ \<Rightarrow> Inr False)
      | _ \<Rightarrow> Inr False)"

definition load_or_create_srk ::
  "('t, 'x) tss_scheme \<Rightarrow> nat \<Rightarrow> (('t, 'z) tpm_host_scheme, lh_error, nat \<times> bool) act" where
  "load_or_create_srk X ctx =
     abind (query (persistent_srk_handle X)) (\<lambda>h.
     abind (lift h) (\<lambda>persistent.
     abind (try_act (tss_cmd (tr_from_tpm_public X ctx persistent))) (\<lambda>found.
     case found of
       Inr object \<Rightarrow>
         abind (try_act (tss_cmd (read_public X ctx object))) (\<lambda>rp.
         abind (case rp of Inr public \<Rightarrow> lift (is_linhello_srk X public) | Inl _ \<Rightarrow> ret False) (\<lambda>is_ours.
         if is_ours then
           abind (tpm_cmd (tr_set_auth X ctx object [])) (\<lambda>_. ret (object, True))
         else
           abind (create_srk X ctx) (\<lambda>transient. ret (transient, False))))
     | Inl _ \<Rightarrow>
         abind (create_srk X ctx) (\<lambda>transient.
         abind (tpm_cmd (evict_control X ctx NullAuth transient persistent)) (\<lambda>persisted.
         abind (ignore (tss_cmd (flush_context X ctx transient))) (\<lambda>_.
         abind (tpm_cmd (tr_set_auth X ctx persisted [])) (\<lambda>_.
         ret (persisted, True))))))))"

definition with_srk ::
  "('t, 'x) tss_scheme \<Rightarrow> nat \<Rightarrow> (nat \<Rightarrow> (('t, 'z) tpm_host_scheme, lh_error, 'a) act)
   \<Rightarrow> (('t, 'z) tpm_host_scheme, lh_error, 'a) act" where
  "with_srk X ctx body =
     abind (load_or_create_srk X ctx) (\<lambda>(srk, persistent).
     finally_act (body srk)
       (if \<not> persistent then ignore (tss_cmd (flush_context X ctx srk)) else ret ()))"

section \<open>Digests\<close>

definition zero_digest :: bytes where "zero_digest = replicate 32 (CHR 0x00)"
definition cc_policy_authorize :: bytes where
  "cc_policy_authorize = [CHR 0x00, CHR 0x00, CHR 0x01, CHR 0x6A]"

definition authorize_policy_digest :: "('t, 'x) tss_scheme \<Rightarrow> bytes \<Rightarrow> bytes \<Rightarrow> lh_error + bytes" where
  "authorize_policy_digest X key_name policy_ref =
     (let d1 = sha256 X (zero_digest @ cc_policy_authorize @ key_name)
      in tpm_res (buf_try X DigestBuf (sha256 X (d1 @ policy_ref))))"

definition a_hash :: "('t, 'x) tss_scheme \<Rightarrow> bytes \<Rightarrow> bytes \<Rightarrow> lh_error + bytes" where
  "a_hash X approved_policy policy_ref =
     tpm_res (buf_try X DigestBuf (sha256 X (approved_policy @ policy_ref)))"

fun be_nat :: "bytes \<Rightarrow> nat" where
  "be_nat [] = 0"
| "be_nat (c # cs) = of_char c * 256 ^ length cs + be_nat cs"

definition rsa_pem_to_public :: "('t, 'x) tss_scheme \<Rightarrow> string \<Rightarrow> lh_error + tpm_public" where
  "rsa_pem_to_public X pubkey_pem =
     rbind (map_err (\<lambda>e. Policy (''parse PCR public key: '' @ e)) (pub_of_pem X pubkey_pem)) (\<lambda>key.
     let modulus = rsa_n key; bits = length modulus * 8 in
     rbind (if bits = 2048 \<or> bits = 3072 \<or> bits = 4096 then Inr bits
            else Inl (Policy (''unsupported PCR key size: '' @ show_nat bits @ '' bits''))) (\<lambda>key_bits.
     rbind (if length (rsa_e key) > 4 then Inl (Policy ''PCR key exponent too large'')
            else tpm_res (rsa_exponent X (be_nat (rsa_e key)))) (\<lambda>exponent.
     rbind (tpm_res (buf_try X RsaBuf modulus)) (\<lambda>unique.
     tpm_res (pub_build X (PubRsa
       \<lparr>rp_attrs = {UserWithAuth, SignEncrypt}, rp_hash = Sha256, rp_policy = [], rp_sym = SymNull,
        rp_bits = key_bits, rp_exponent = exponent, rp_unique = unique\<rparr>))))))"

definition load_external_pubkey ::
  "('t, 'x) tss_scheme \<Rightarrow> nat \<Rightarrow> string \<Rightarrow> (('t, 'z) tpm_host_scheme, lh_error, nat) act" where
  "load_external_pubkey X ctx pubkey_pem =
     abind (lift (rsa_pem_to_public X pubkey_pem)) (\<lambda>public.
     tpm_cmd (load_external_public X ctx public))"

section \<open>Diagnosis\<close>

definition diagnose_pcrs ::
  "('t, 'x) tss_scheme \<Rightarrow> sealed_envelope \<Rightarrow> (('t, 'z) tpm_host_scheme, lh_error, nat list) act" where
  "diagnose_pcrs X e =
     (if env_pcr_values e = [] then ret []
      else with_context X (\<lambda>ctx.
        abind (read_pcr_values X ctx (env_pcrs e)) (\<lambda>current.
        ret (map (\<lambda>(ex, now). pv_pcr ex)
              (filter (\<lambda>(ex, now). pv_pcr ex = pv_pcr now \<and> pv_value ex \<noteq> pv_value now)
                (zip (env_pcr_values e) current))))))"

definition policy_aware_err ::
  "('t, 'x) tss_scheme \<Rightarrow> string \<Rightarrow> sealed_envelope \<Rightarrow> (('t, 'z) tpm_host_scheme, lh_error, lh_error) act" where
  "policy_aware_err X base e =
     abind (try_act (diagnose_pcrs X e)) (\<lambda>r.
     ret (case r of
            Inr changed \<Rightarrow>
              if changed \<noteq> [] then Policy (base @ '': PCR mismatch: '' @ show_nats changed @ '' changed since seal'')
              else Tpm base
          | Inl _ \<Rightarrow> Tpm base))"

text \<open>\<open>ctx.execute_with_session(Some(session), |ctx| ctx.unseal(h)).map_err(policy_aware_err)\<close>\<close>

definition unseal_under ::
  "('t, 'x) tss_scheme \<Rightarrow> nat \<Rightarrow> sealed_envelope \<Rightarrow> nat \<Rightarrow> nat \<Rightarrow> (('t, 'z) tpm_host_scheme, lh_error, bytes) act" where
  "unseal_under X ctx e session handle =
     abind (try_act (tss_cmd (tpm_unseal X ctx (WithSession session) handle))) (\<lambda>r.
     case r of
       Inr data \<Rightarrow> ret data
     | Inl er \<Rightarrow> abind (policy_aware_err X er e) fail)"

section \<open>Sealing\<close>

text \<open>\<open>SensitiveData::try_from\<close>, \<open>create\<close> under the SRK, and the envelope of the created object.\<close>

definition create_sealed ::
  "('t, 'x) tss_scheme \<Rightarrow> nat \<Rightarrow> nat \<Rightarrow> bytes \<Rightarrow> bytes \<Rightarrow> security_level \<Rightarrow> nat list \<Rightarrow> policy_kind
   \<Rightarrow> pcr_value list \<Rightarrow> (('t, 'z) tpm_host_scheme, lh_error, sealed_envelope) act" where
  "create_sealed X ctx srk secret auth_policy level pcrs kind pcr_values =
     abind (lift (sealed_template X auth_policy)) (\<lambda>tmpl.
     abind (lift (tpm_res (buf_try X SensitiveBuf secret))) (\<lambda>sensitive.
     abind (tpm_cmd (tpm_create X ctx NullAuth srk tmpl sensitive)) (\<lambda>(out_public, out_private).
     abind (lift (tpm_res (marshall X out_public))) (\<lambda>public.
     ret \<lparr>env_version = current_version, env_mode = level, env_pcrs = pcrs, env_policy = kind,
          env_public = public, env_private = out_private, env_pcr_values = pcr_values\<rparr>))))"

definition seal_literal ::
  "('t, 'x) tss_scheme \<Rightarrow> bytes \<Rightarrow> nat list \<Rightarrow> (('t, 'z) tpm_host_scheme, lh_error, sealed_envelope) act" where
  "seal_literal X secret pcrs =
     with_context X (\<lambda>ctx.
       abind (read_pcr_values X ctx pcrs) (\<lambda>pcr_values.
       with_srk X ctx (\<lambda>srk.
         abind (if pcrs = [] then ret None else abind (lift (pcr_selection X pcrs)) (\<lambda>sel. ret (Some sel))) (\<lambda>selection.
         abind (compute_policy_digest X ctx selection) (\<lambda>policy_digest.
         create_sealed X ctx srk secret policy_digest (plan_security_level (PlanLiteral pcrs)) pcrs
           PcrLiteral pcr_values)))))"

definition ensure_host_signature ::
  "('t, 'x) tss_scheme \<Rightarrow> nat list \<Rightarrow> bytes \<Rightarrow> (('t, 'z) tpm_host_scheme, lh_error, bytes) act" where
  "ensure_host_signature X pcrs policy_ref =
     with_context X (\<lambda>ctx.
       abind (lift (pcr_selection X pcrs)) (\<lambda>sel.
       abind (compute_policy_digest X ctx (Some sel)) (\<lambda>approved.
       abind (host_signatures X default_bank) (\<lambda>existing.
       if find_for_policy existing pcrs approved \<noteq> None then ret approved
       else
         abind (lift (a_hash X approved policy_ref)) (\<lambda>ah.
         abind (query (sign_ahash X ah)) (\<lambda>signed.
         abind (lift signed) (\<lambda>sig.
         abind (persist_host_signature X default_bank pcrs approved sig) (\<lambda>_.
         ret approved))))))))"

definition seal_authorized ::
  "('t, 'x) tss_scheme \<Rightarrow> bytes \<Rightarrow> nat list \<Rightarrow> string \<Rightarrow> bytes
   \<Rightarrow> (('t, 'z) tpm_host_scheme, lh_error, sealed_envelope) act" where
  "seal_authorized X secret pcrs pubkey_pem policy_ref =
     abind (query (classify_signer X pubkey_pem)) (\<lambda>classified.
     abind (lift classified) (\<lambda>signer.
     with_context X (\<lambda>ctx.
       abind (read_pcr_values X ctx pcrs) (\<lambda>pcr_values.
       abind (with_handle X ctx (load_external_pubkey X ctx pubkey_pem)
               (\<lambda>kh. tpm_cmd (tr_get_name X ctx kh))) (\<lambda>key_name.
       abind (lift (authorize_policy_digest X key_name policy_ref)) (\<lambda>auth_policy.
       abind (with_srk X ctx (\<lambda>srk.
               create_sealed X ctx srk secret auth_policy
                 (plan_security_level (PlanAuthorized pcrs pubkey_pem policy_ref)) pcrs
                 (KindAuthorized pubkey_pem policy_ref) pcr_values)) (\<lambda>e.
       if signer = LinhelloHost
       then abind (ensure_host_signature X pcrs policy_ref) (\<lambda>_. ret e)
       else ret e)))))))"

definition seal_with_plan ::
  "('t, 'x) tss_scheme \<Rightarrow> bytes \<Rightarrow> policy_plan \<Rightarrow> (('t, 'z) tpm_host_scheme, lh_error, sealed_envelope) act" where
  "seal_with_plan X secret p =
     (case p of
        PlanAuthorized pcrs pubkey_pem policy_ref \<Rightarrow> seal_authorized X secret pcrs pubkey_pem policy_ref
      | PlanLiteral pcrs \<Rightarrow> seal_literal X secret pcrs
      | PlanNone \<Rightarrow> seal_literal X secret [])"

definition seal_secret ::
  "('t, 'x) tss_scheme \<Rightarrow> bytes \<Rightarrow> (('t, 'z) tpm_host_scheme, lh_error, sealed_envelope) act" where
  "seal_secret X secret = abind (plan X) (seal_with_plan X secret)"

text \<open>The shim for older callers.\<close>

definition seal ::
  "('t, 'x) tss_scheme \<Rightarrow> bytes \<Rightarrow> security_level \<Rightarrow> (('t, 'z) tpm_host_scheme, lh_error, sealed_envelope) act" where
  "seal X secret level = seal_literal X secret (pcrs_for level)"

section \<open>Unsealing\<close>

text \<open>Load the envelope's blobs under the SRK, run the scope, flush the loaded object.\<close>

definition with_sealed_object ::
  "('t, 'x) tss_scheme \<Rightarrow> nat \<Rightarrow> nat \<Rightarrow> sealed_envelope
   \<Rightarrow> (nat \<Rightarrow> (('t, 'z) tpm_host_scheme, lh_error, bytes) act)
   \<Rightarrow> (('t, 'z) tpm_host_scheme, lh_error, bytes) act" where
  "with_sealed_object X ctx srk e body =
     abind (lift (tpm_res (unmarshall X (env_public e)))) (\<lambda>public.
     abind (lift (tpm_res (buf_try X PrivateBuf (env_private e)))) (\<lambda>private.
     abind (tpm_cmd (tpm_load X ctx NullAuth srk private public)) (\<lambda>sealed_handle.
     finally_act (body sealed_handle) (ignore (tss_cmd (flush_context X ctx sealed_handle))))))"

definition unseal_literal ::
  "('t, 'x) tss_scheme \<Rightarrow> sealed_envelope \<Rightarrow> (('t, 'z) tpm_host_scheme, lh_error, bytes) act" where
  "unseal_literal X e =
     with_context X (\<lambda>ctx.
       with_srk X ctx (\<lambda>srk.
         with_sealed_object X ctx srk e (\<lambda>sealed_handle.
           with_session X ctx PolicySess (\<lambda>session.
             abind (if env_pcrs e \<noteq> [] then
                 abind (lift (pcr_selection X (env_pcrs e))) (\<lambda>sel.
                 abind (lift (tpm_res (policy_session X session))) (\<lambda>policy.
                 tpm_cmd (policy_pcr X ctx policy sel)))
               else ret ()) (\<lambda>_.
             unseal_under X ctx e session sealed_handle)))))"

definition expected_pcrs :: "signer_kind \<Rightarrow> nat list" where
  "expected_pcrs signer = (case signer of Systemd \<Rightarrow> authorized_pcrs | LinhelloHost \<Rightarrow> linhello_signed_pcrs)"

definition signer_name :: "signer_kind \<Rightarrow> string" where
  "signer_name signer = (case signer of Systemd \<Rightarrow> ''Systemd'' | LinhelloHost \<Rightarrow> ''LinhelloHost'')"

definition no_signature_error :: "signer_kind \<Rightarrow> lh_error" where
  "no_signature_error signer =
     (case signer of
        Systemd \<Rightarrow> Policy (''no signed PCR policy matches the current boot state (kernel/UKI not yet enrolled '' @
            em_dash @ '' re-sign required)'')
      | LinhelloHost \<Rightarrow> Policy (''no PCR-7 signature matches the current Secure Boot state. If Secure Boot was disabled, face unlock is intentionally withheld '' @
            em_dash @ '' re-enable Secure Boot, or use the recovery passphrase.''))"

text \<open>Steps 3 to 5: verify the signature, rewrite the session policy, unseal.\<close>

definition authorize_and_unseal ::
  "('t, 'x) tss_scheme \<Rightarrow> nat \<Rightarrow> sealed_envelope \<Rightarrow> nat \<Rightarrow> nat \<Rightarrow> bytes \<Rightarrow> bytes \<Rightarrow> bytes \<Rightarrow> nat \<Rightarrow> nat
   \<Rightarrow> (('t, 'z) tpm_host_scheme, lh_error, bytes) act" where
  "authorize_and_unseal X ctx e session policy approved policy_ref sig_bytes sealed_handle key_handle =
     abind (tpm_cmd (tr_get_name X ctx key_handle)) (\<lambda>key_name.
     abind (lift (a_hash X approved policy_ref)) (\<lambda>ah.
     abind (lift (tpm_res (buf_try X RsaBuf sig_bytes))) (\<lambda>sig_buf.
     abind (lift (tpm_res (rsa_signature X sig_buf))) (\<lambda>signature.
     abind (tpm_cmd (verify_signature X ctx key_handle ah signature)) (\<lambda>ticket.
     abind (lift (tpm_res (buf_try X NonceBuf policy_ref))) (\<lambda>ref_nonce.
     abind (tpm_cmd (policy_authorize X ctx policy approved ref_nonce key_name ticket)) (\<lambda>_.
     unseal_under X ctx e session sealed_handle)))))))"

text \<open>Step 1 and 2, then the rest, inside the policy session.\<close>

definition present_signature ::
  "('t, 'x) tss_scheme \<Rightarrow> nat \<Rightarrow> sealed_envelope \<Rightarrow> signer_kind \<Rightarrow> string \<Rightarrow> bytes \<Rightarrow> nat \<Rightarrow> nat
   \<Rightarrow> (('t, 'z) tpm_host_scheme, lh_error, bytes) act" where
  "present_signature X ctx e signer pubkey_pem policy_ref sealed_handle session =
     abind (lift (tpm_res (policy_session X session))) (\<lambda>policy.
     abind (lift (pcr_selection X (env_pcrs e))) (\<lambda>sel.
     abind (tpm_cmd (policy_pcr X ctx policy sel)) (\<lambda>_.
     abind (tpm_cmd (policy_get_digest X ctx policy)) (\<lambda>approved.
     abind (case signer of
         Systemd \<Rightarrow> load_signatures X default_bank
       | LinhelloHost \<Rightarrow> host_signatures X default_bank) (\<lambda>sigs.
     abind (lift (ok_or (no_signature_error signer)
         (map_option sig_sig (find_for_policy sigs (env_pcrs e) approved)))) (\<lambda>sig_bytes.
     with_handle X ctx (load_external_pubkey X ctx pubkey_pem)
       (authorize_and_unseal X ctx e session policy approved policy_ref sig_bytes sealed_handle)))))))"

definition authorized_session ::
  "('t, 'x) tss_scheme \<Rightarrow> sealed_envelope \<Rightarrow> signer_kind \<Rightarrow> string \<Rightarrow> bytes
   \<Rightarrow> (('t, 'z) tpm_host_scheme, lh_error, bytes) act" where
  "authorized_session X e signer pubkey_pem policy_ref =
     with_context X (\<lambda>ctx.
       with_srk X ctx (\<lambda>srk.
         with_sealed_object X ctx srk e (\<lambda>sealed_handle.
           with_session X ctx PolicySess
             (present_signature X ctx e signer pubkey_pem policy_ref sealed_handle))))"

definition unseal_authorized ::
  "('t, 'x) tss_scheme \<Rightarrow> sealed_envelope \<Rightarrow> string \<Rightarrow> bytes \<Rightarrow> (('t, 'z) tpm_host_scheme, lh_error, bytes) act" where
  "unseal_authorized X e pubkey_pem policy_ref =
     abind (query (classify_signer X pubkey_pem)) (\<lambda>classified.
     abind (lift classified) (\<lambda>signer.
     if env_pcrs e \<noteq> expected_pcrs signer
     then fail (Policy (''authorized envelope binds unexpected PCR set '' @ show_nats (env_pcrs e) @
            '' (expected '' @ show_nats (expected_pcrs signer) @ '' for '' @ signer_name signer @
            ''); refusing to unseal''))
     else
     abind (query is_secure_boot_enabled) (\<lambda>sb.
     abind (if signer = LinhelloHost \<and> sb
            then ignore (ensure_host_signature X (env_pcrs e) policy_ref) else ret ()) (\<lambda>_.
     authorized_session X e signer pubkey_pem policy_ref))))"

definition tpm_unseal_env ::
  "('t, 'x) tss_scheme \<Rightarrow> sealed_envelope \<Rightarrow> (('t, 'z) tpm_host_scheme, lh_error, bytes) act" where
  "tpm_unseal_env X e =
     (case env_policy e of
        PcrLiteral \<Rightarrow> unseal_literal X e
      | KindAuthorized pubkey_pem policy_ref \<Rightarrow> unseal_authorized X e pubkey_pem policy_ref)"

end
