(* ===== verification/Config.thy ===== *)
theory Config
  imports Host
begin

text \<open>
  The \<open>key=value\<close> files of crates/linhello-common/src/config.rs. \<open>kv_lookup\<close> and \<open>kv_update\<close>
  are the loops of \<open>read_kv\<close> and \<open>write_kv\<close> over the file's text; \<open>read_kv\<close> and \<open>write_kv\<close> add
  the file access around them. The locale \<open>kv_store\<close> is the contract the rest of the program
  relies on (what a read returns after a write).
\<close>

definition config_path :: "string \<Rightarrow> string" where
  "config_path file = path_join config_root file"

section \<open>The reader\<close>

definition kv_line :: "string \<Rightarrow> string \<Rightarrow> string option" where
  "kv_line key line0 =
     (let line = trim line0 in
      if line = [] \<or> starts_with line ''#'' then None
      else (case split_once (CHR ''='') line of
          None \<Rightarrow> None
        | Some (k, v) \<Rightarrow>
            if trim k = key then (let v = trim v in if v \<noteq> [] then Some v else None) else None))"

fun kv_scan :: "string \<Rightarrow> string list \<Rightarrow> string option" where
  "kv_scan key [] = None"
| "kv_scan key (l # ls) = (case kv_line key l of Some v \<Rightarrow> Some v | None \<Rightarrow> kv_scan key ls)"

definition kv_lookup :: "string \<Rightarrow> string \<Rightarrow> string option" where
  "kv_lookup text key = kv_scan key (str_lines text)"

definition read_kv :: "string \<Rightarrow> string \<Rightarrow> 'z host_scheme \<Rightarrow> string option" where
  "read_kv file key w =
     (case fs_read_to_string (config_path file) w of
        Inl NotFound \<Rightarrow> None
      | Inl _ \<Rightarrow> None
      | Inr text \<Rightarrow> kv_lookup text key)"

section \<open>The writer\<close>

definition kv_is_target :: "string \<Rightarrow> string \<Rightarrow> bool" where
  "kv_is_target key line =
     (let trimmed = trim line in
      \<not> starts_with trimmed ''#'' \<and>
      (case split_once (CHR ''='') trimmed of None \<Rightarrow> False | Some (k, _) \<Rightarrow> trim k = key))"

definition kv_entry :: "string \<Rightarrow> string \<Rightarrow> string" where
  "kv_entry key val = key @ ''='' @ val"

fun kv_rewrite :: "string \<Rightarrow> string \<Rightarrow> bool \<Rightarrow> string list \<Rightarrow> string" where
  "kv_rewrite key val replaced [] = (if replaced then [] else kv_entry key val @ [nl])"
| "kv_rewrite key val replaced (l # ls) =
     (if kv_is_target key l
      then (if replaced then [] else kv_entry key val @ [nl]) @ kv_rewrite key val True ls
      else l @ [nl] @ kv_rewrite key val replaced ls)"

definition kv_update :: "string \<Rightarrow> string \<Rightarrow> string \<Rightarrow> string" where
  "kv_update text key val = kv_rewrite key val False (str_lines text)"

definition write_kv :: "string \<Rightarrow> string \<Rightarrow> string \<Rightarrow> ('z host_scheme, lh_error, unit) act" where
  "write_kv file key val = (\<lambda>w.
     let path = config_path file;
         existing = unwrap_or [] (res_ok (fs_read_to_string path w))
     in abind (io_act (fs_write path (kv_update existing key val))) (\<lambda>_.
        io_act (fs_set_permissions path 384)) w)"

section \<open>Lines the writer keeps, drops and adds\<close>

text \<open>A key and a value that survive a round trip through a line.\<close>

definition good_key :: "string \<Rightarrow> bool" where
  "good_key k \<longleftrightarrow> k \<noteq> [] \<and> trim k = k \<and> clean_line k \<and> CHR ''='' \<notin> set k \<and> \<not> starts_with k ''#''"

definition good_value :: "string \<Rightarrow> bool" where
  "good_value v \<longleftrightarrow> v \<noteq> [] \<and> trim v = v \<and> clean_line v"

fun kv_new_lines :: "string \<Rightarrow> string \<Rightarrow> bool \<Rightarrow> string list \<Rightarrow> string list" where
  "kv_new_lines key val replaced [] = (if replaced then [] else [kv_entry key val])"
| "kv_new_lines key val replaced (l # ls) =
     (if kv_is_target key l
      then (if replaced then [] else [kv_entry key val]) @ kv_new_lines key val True ls
      else l # kv_new_lines key val replaced ls)"

lemma kv_rewrite_unlines: "kv_rewrite key val r ls = unlines (kv_new_lines key val r ls)"
  by (induction ls arbitrary: r) auto

lemma kv_new_lines_clean:
  "\<forall>l\<in>set ls. clean_line l \<Longrightarrow> clean_line (kv_entry key val) \<Longrightarrow>
   \<forall>l\<in>set (kv_new_lines key val r ls). clean_line l"
  by (induction ls arbitrary: r) auto

lemma str_lines_kv_update:
  assumes "cr \<notin> set text" and "clean_line (kv_entry key val)"
  shows "str_lines (kv_update text key val) = kv_new_lines key val False (str_lines text)"
  unfolding kv_update_def kv_rewrite_unlines
  by (rule str_lines_unlines [OF kv_new_lines_clean [OF str_lines_clean [OF assms(1)] assms(2)]])

lemma clean_kv_entry: "good_key k \<Longrightarrow> good_value v \<Longrightarrow> clean_line (kv_entry k v)"
  by (auto simp: good_key_def good_value_def clean_line_def kv_entry_def)

lemma ws_free_eq: "ws_free (CHR ''='')"
  by (simp add: ws_free_def ws_tokens_def)

lemma trim_kv_entry:
  assumes "good_key k" and "good_value v"
  shows "trim (kv_entry k v) = kv_entry k v"
proof (rule trim_id)
  from assms have k: "no_ws_start k" "k \<noteq> []" and v: "no_ws_end v" "v \<noteq> []"
    by (auto simp: good_key_def good_value_def trim_eq_iff)
  show "no_ws_start (kv_entry k v)"
    using no_ws_start_append [OF k ws_free_eq, of v] by (simp add: kv_entry_def)
  show "no_ws_end (kv_entry k v)"
    using no_ws_end_append [OF v ws_free_eq, of k] by (simp add: kv_entry_def)
qed

lemma starts_with_hash_append: "k \<noteq> [] \<Longrightarrow> starts_with (k @ s) ''#'' = starts_with k ''#''"
  by (cases k) (simp_all add: starts_with_def)

lemma kv_line_entry:
  assumes "good_key k" and "good_value v"
  shows "kv_line key (kv_entry k v) = (if k = key then Some v else None)"
proof -
  have e: "trim (kv_entry k v) = kv_entry k v"
    using assms by (rule trim_kv_entry)
  have ne: "kv_entry k v \<noteq> []"
    by (simp add: kv_entry_def)
  have nh: "\<not> starts_with (kv_entry k v) ''#''"
    using assms(1) by (simp add: kv_entry_def good_key_def starts_with_hash_append)
  have sp: "split_once (CHR ''='') (kv_entry k v) = Some (k, v)"
    using assms(1) by (simp add: kv_entry_def good_key_def)
  show ?thesis
    using assms by (simp add: kv_line_def e ne nh sp good_key_def good_value_def Let_def)
qed

lemma kv_is_target_entry: "good_key k \<Longrightarrow> good_value v \<Longrightarrow> kv_is_target k (kv_entry k v)"
  using trim_kv_entry [of k v]
  by (simp add: kv_is_target_def Let_def) (simp add: kv_entry_def good_key_def starts_with_hash_append)

lemma kv_line_SomeD: "kv_line key l = Some v \<Longrightarrow> kv_is_target key l"
  by (auto simp: kv_line_def kv_is_target_def Let_def split: if_splits option.splits prod.splits)

lemma not_target_line: "\<not> kv_is_target key l \<Longrightarrow> kv_line key l = None"
  using kv_line_SomeD by (cases "kv_line key l") auto

lemma kv_target_other: "kv_is_target key l \<Longrightarrow> key \<noteq> k \<Longrightarrow> kv_line k l = None"
  by (auto simp: kv_line_def kv_is_target_def Let_def split: if_splits option.splits prod.splits)

text \<open>Reading the written key gives the value; reading any other key is unchanged.\<close>

lemma kv_scan_new_same:
  "good_key key \<Longrightarrow> good_value val \<Longrightarrow> kv_scan key (kv_new_lines key val False ls) = Some val"
  by (induction ls) (auto simp: kv_line_entry not_target_line)

lemma kv_scan_new_other:
  assumes "good_key key" and "good_value val" and "key \<noteq> k"
  shows "kv_scan k (kv_new_lines key val r ls) = kv_scan k ls"
  using assms by (induction ls arbitrary: r) (auto simp: kv_line_entry kv_target_other split: option.splits)

text \<open>Every line that is not the target stays, in order; at most one target line remains.\<close>

lemma kv_new_lines_others:
  assumes "good_key key" and "good_value val"
  shows "filter (\<lambda>l. \<not> kv_is_target key l) (kv_new_lines key val r ls) =
         filter (\<lambda>l. \<not> kv_is_target key l) ls"
  using assms by (induction ls arbitrary: r) (auto simp: kv_is_target_entry)

lemma kv_new_lines_targets:
  assumes "good_key key" and "good_value val"
  shows "filter (kv_is_target key) (kv_new_lines key val r ls) =
         (if r then [] else [kv_entry key val])"
  using assms by (induction ls arbitrary: r) (auto simp: kv_is_target_entry)

section \<open>The contract of a key-value text\<close>

locale kv_store =
  fixes get :: "'t \<Rightarrow> 'k \<Rightarrow> 'v option"
    and put :: "'t \<Rightarrow> 'k \<Rightarrow> 'v \<Rightarrow> 't"
    and ok :: "'t \<Rightarrow> bool"
    and key_ok :: "'k \<Rightarrow> bool"
    and val_ok :: "'v \<Rightarrow> bool"
  assumes get_put_same: "ok t \<Longrightarrow> key_ok k \<Longrightarrow> val_ok v \<Longrightarrow> get (put t k v) k = Some v"
    and get_put_other: "ok t \<Longrightarrow> key_ok k \<Longrightarrow> val_ok v \<Longrightarrow> j \<noteq> k \<Longrightarrow> get (put t k v) j = get t j"
    and ok_put: "ok t \<Longrightarrow> key_ok k \<Longrightarrow> val_ok v \<Longrightarrow> ok (put t k v)"
begin

text \<open>A batch of writes behaves as the corresponding update of a map.\<close>

fun put_all :: "'t \<Rightarrow> ('k \<times> 'v) list \<Rightarrow> 't" where
  "put_all t [] = t"
| "put_all t ((k, v) # kvs) = put_all (put t k v) kvs"

definition batch_ok :: "('k \<times> 'v) list \<Rightarrow> bool" where
  "batch_ok kvs \<longleftrightarrow> list_all (\<lambda>(k, v). key_ok k \<and> val_ok v) kvs"

lemma get_put: "ok t \<Longrightarrow> key_ok k \<Longrightarrow> val_ok v \<Longrightarrow> get (put t k v) = (get t)(k \<mapsto> v)"
  by (auto simp: fun_eq_iff get_put_same get_put_other)

lemma ok_put_all: "ok t \<Longrightarrow> batch_ok kvs \<Longrightarrow> ok (put_all t kvs)"
  by (induction t kvs rule: put_all.induct) (auto simp: batch_ok_def ok_put)

lemma get_put_all: "ok t \<Longrightarrow> batch_ok kvs \<Longrightarrow> get (put_all t kvs) = get t ++ map_of (rev kvs)"
proof (induction t kvs rule: put_all.induct)
  case (2 t k v kvs)
  then have upd: "get (put t k v) = (get t)(k \<mapsto> v)" and "ok (put t k v)" and "batch_ok kvs"
    by (auto simp: batch_ok_def ok_put intro: get_put)
  then have ih: "get (put_all (put t k v) kvs) = get (put t k v) ++ map_of (rev kvs)"
    by (intro "2.IH")
  show ?case
    by (simp only: put_all.simps ih upd) (auto simp: fun_eq_iff map_add_def split: option.splits)
qed simp

lemma put_commute:
  "ok t \<Longrightarrow> key_ok j \<Longrightarrow> key_ok k \<Longrightarrow> val_ok u \<Longrightarrow> val_ok v \<Longrightarrow> j \<noteq> k \<Longrightarrow>
   get (put (put t j u) k v) = get (put (put t k v) j u)"
  by (auto simp: get_put ok_put fun_upd_twist)

end

text \<open>The text has no carriage returns; this is what \<open>write_kv\<close> itself produces.\<close>

definition kv_text :: "string \<Rightarrow> bool" where
  "kv_text t \<longleftrightarrow> cr \<notin> set t"

lemma kv_text_update:
  assumes "kv_text t" and "good_key k" and "good_value v"
  shows "kv_text (kv_update t k v)"
proof -
  have "\<forall>l\<in>set (kv_new_lines k v False (str_lines t)). clean_line l"
    using assms by (intro kv_new_lines_clean str_lines_clean clean_kv_entry) (simp_all add: kv_text_def)
  then have "cr \<notin> set (unlines (kv_new_lines k v False (str_lines t)))"
    by (auto simp: unlines_def clean_line_def)
  then show ?thesis
    by (simp add: kv_text_def kv_update_def kv_rewrite_unlines)
qed

interpretation conf: kv_store kv_lookup kv_update kv_text good_key good_value
proof unfold_locales
  fix t k v
  assume a: "kv_text t" "good_key k" "good_value v"
  note sl = str_lines_kv_update [of t k v]
  show "kv_lookup (kv_update t k v) k = Some v"
    using a sl by (simp add: kv_lookup_def kv_text_def clean_kv_entry kv_scan_new_same)
  show "kv_text (kv_update t k v)"
    using a by (rule kv_text_update)
  fix j :: string
  assume "j \<noteq> k"
  with a sl show "kv_lookup (kv_update t k v) j = kv_lookup t j"
    by (simp add: kv_lookup_def kv_text_def clean_kv_entry kv_scan_new_other)
qed

section \<open>The file level\<close>

lemma path_join_plain: "CHR ''/'' \<notin> set f \<Longrightarrow> path_join a f = a @ ''/'' @ f"
  by (cases f) (auto simp: path_join_def starts_with_def)

lemma write_kv_frame: "same_outside (\<lambda>p. p = config_path file) w (snd (write_kv file key val w))"
  unfolding write_kv_def Let_def
  by (rule outside.keepsD) (auto intro!: outside_intros)

text \<open>After a successful write the file holds the rewritten text at mode 0600.\<close>

lemma write_kv_result:
  assumes "write_kv file key val w = (Ok (), w')"
  shows "files w' (config_path file) =
           Some (kv_update (unwrap_or [] (res_ok (fs_read_to_string (config_path file) w))) key val)
         \<and> modes w' (config_path file) = Some 384"
  using assms
  by (auto simp: write_kv_def Let_def abind_result io_act_result
      dest!: fs_write_result fs_set_permissions_result)

lemma utf8_kv_new_lines:
  "\<forall>l\<in>set ls. utf8_valid l \<Longrightarrow> utf8_valid (kv_entry key val) \<Longrightarrow> \<forall>l\<in>set (kv_new_lines key val r ls). utf8_valid l"
  by (induction ls arbitrary: r) auto

lemma utf8_kv_update:
  assumes "utf8_valid text" "utf8_valid key" "utf8_valid val"
  shows "utf8_valid (kv_update text key val)"
proof -
  have "utf8_valid (kv_entry key val)"
    using assms(2,3) by (simp add: kv_entry_def utf8_valid_break)
  moreover have "\<forall>l\<in>set (str_lines text). utf8_valid l"
    using utf8_str_lines [OF assms(1)] by blast
  ultimately show ?thesis
    unfolding kv_update_def kv_rewrite_unlines by (intro utf8_unlines utf8_kv_new_lines)
qed

text \<open>What the file holds as the reader sees it: nothing when it is missing.\<close>

definition conf_text :: "string \<Rightarrow> 'z host_scheme \<Rightarrow> string" where
  "conf_text file w = unwrap_or [] (res_ok (fs_read_to_string (config_path file) w))"

lemma read_kv_conf_text: "read_kv file k w = kv_lookup (conf_text file w) k"
  by (auto simp: read_kv_def conf_text_def kv_lookup_def split: sum.splits io_error.splits)

lemma utf8_conf_text: "utf8_valid (conf_text file w)"
  by (auto simp: conf_text_def fs_read_to_string_def rbind_def split: sum.splits)

text \<open>What the reader sees after a successful write.\<close>

lemma conf_text_write:
  assumes "write_kv file key val w = (Ok (), w')" and "utf8_valid key" "utf8_valid val"
    and "io_fault w OpRead (config_path file) = None"
  shows "conf_text file w' = kv_update (conf_text file w) key val \<and> io_fault w' = io_fault w"
proof -
  have "io_fault w' = io_fault w"
    using assms(1) by (auto simp: write_kv_def Let_def abind_result io_act_result
      dest!: fs_write_result fs_set_permissions_result)
  moreover have "utf8_valid (kv_update (conf_text file w) key val)"
    using assms by (intro utf8_kv_update utf8_conf_text)
  ultimately show ?thesis
    using write_kv_result [OF assms(1)] assms(4) by (simp add: conf_text_def fs_read_to_string_def fs_read_def)
qed

lemma read_write_kv:
  assumes "write_kv file key val w = (Ok (), w')" and "kv_text (conf_text file w)"
    and "good_key key" "good_value val" "utf8_valid key" "utf8_valid val"
    and "io_fault w OpRead (config_path file) = None"
  shows "read_kv file k w' = (if k = key then Some val else read_kv file k w)"
  using conf_text_write [OF assms(1,5-7)] assms(2-4) by (simp add: read_kv_conf_text conf.get_put)

end
