(* ===== verification/Biometrics.thy ===== *)
theory Biometrics
  imports Liveness Ipc Tpm Config
begin

text \<open>
  Recognition and capture, crates/linhello-biometrics/src/lib.rs with matcher.rs and enroll.rs.
  The cameras, the detector, the aligner and the two networks are devices and ONNX models: they
  are fields of \<open>ext\<close> over an opaque sensor state \<open>'s\<close>. The process-wide caches (\<open>OnceLock\<close>) are
  fields of the world the daemon runs in.
\<close>

record face =
  face_bbox :: bbox
  face_landmarks :: landmarks

record camera_info =
  ci_path :: string
  ci_privacy :: "bool option"

record ('t, 's) world = "'t tpm_host" +
  sensors :: 's
  key_cache :: "string \<rightharpoonup> bytes"
  thr_cache :: "f32 option"
  ev_cache :: "(string + liveness_evaluator) option"

record ('t, 's) ext = "'t tss" +
  rgb_device :: "'s \<Rightarrow> string \<times> 's"
  ir_device :: "'s \<Rightarrow> string option \<times> 's"
  cam_enumerate :: "'s \<Rightarrow> camera_info list \<times> 's"
  capture_burst :: "string \<Rightarrow> nat \<Rightarrow> ('s, lh_error, rgb_image list) act"
  capture_frame :: "('s, lh_error, rgb_image) act"
  capture_ir_frame :: "('s, lh_error, gray_image option) act"
  detector_cached :: "lh_error + unit"
  detect_faces :: "rgb_image \<Rightarrow> lh_error + face list"
  align_face :: "rgb_image \<Rightarrow> face \<Rightarrow> lh_error + rgb_image"
  embedder_cached :: "lh_error + unit"
  embed_face :: "rgb_image \<Rightarrow> lh_error + f32 list"
  load_ensemble :: "model_item list \<Rightarrow> lh_error + nat"
  predict_median :: "nat \<Rightarrow> (rgb_image \<times> bbox) list \<Rightarrow> lh_error + f32"

definition sensor :: "('s, lh_error, 'a) act \<Rightarrow> (('t, 's, 'z) world_scheme, lh_error, 'a) act" where
  "sensor m w = (case m (sensors w) of (r, s) \<Rightarrow> (r, w\<lparr>sensors := s\<rparr>))"

definition sense :: "('s \<Rightarrow> 'a \<times> 's) \<Rightarrow> (('t, 's, 'z) world_scheme, 'e, 'a) act" where
  "sense m w = (case m (sensors w) of (x, s) \<Rightarrow> (Ok x, w\<lparr>sensors := s\<rparr>))"

definition bio_err :: "string \<Rightarrow> lh_error" where
  "bio_err m = Biometrics m"

section \<open>enroll.rs\<close>

definition embedding_dim :: nat where "embedding_dim = 512"
definition stride_bytes :: nat where "stride_bytes = embedding_dim * 4"

definition enroll_user_dir :: "string \<Rightarrow> lh_error + string" where
  "enroll_user_dir user =
     (if user = [] \<or> CHR ''/'' \<in> set user \<or> CHR 0x00 \<in> set user then Inl (bio_err ''invalid user name'')
      else Inr (path_join config_root user))"

definition check_dim :: "f32 list \<Rightarrow> lh_error + unit" where
  "check_dim v =
     (if length v \<noteq> embedding_dim
      then Inl (bio_err (''embedding dim '' @ show_nat (length v) @ '' != expected '' @ show_nat embedding_dim))
      else Inr ())"

definition embedding_bytes :: "f32 list \<Rightarrow> bytes" where
  "embedding_bytes v = concat (map f_to_le_bytes v)"

definition save_embedding :: "string \<Rightarrow> f32 list \<Rightarrow> ('z host_scheme, lh_error, unit) act" where
  "save_embedding user v =
     abind (lift (check_dim v)) (\<lambda>_.
     abind (lift (enroll_user_dir user)) (\<lambda>dir.
     abind (io_act (fs_create_dir_all dir)) (\<lambda>_.
     io_act (fs_write (path_join dir ''embedding.bin'') (embedding_bytes v)))))"

text \<open>Open for appending, creating the file, and write at its end.\<close>

definition fs_append :: "string \<Rightarrow> bytes \<Rightarrow> ('z host_scheme, io_error, unit) act" where
  "fs_append p b w = fs_write p (unwrap_or [] (files w p) @ b) w"

definition append_embedding :: "string \<Rightarrow> f32 list \<Rightarrow> ('z host_scheme, lh_error, unit) act" where
  "append_embedding user v =
     abind (lift (check_dim v)) (\<lambda>_.
     abind (lift (enroll_user_dir user)) (\<lambda>dir.
     abind (io_act (fs_create_dir_all dir)) (\<lambda>_.
     io_act (fs_append (path_join dir ''embedding.bin'') (embedding_bytes v)))))"

text \<open>\<open>chunks_exact(n)\<close>: a rest shorter than \<open>n\<close> is dropped.\<close>

function chunks_exact :: "nat \<Rightarrow> 'a list \<Rightarrow> 'a list list" where
  "chunks_exact n xs = (if n = 0 \<or> length xs < n then [] else take n xs # chunks_exact n (drop n xs))"
  by pat_completeness auto
termination
  by (relation "measure (length \<circ> snd)") auto

declare chunks_exact.simps [simp del]

definition degenerate_norm :: "f32 \<Rightarrow> bool" where
  "degenerate_norm n \<longleftrightarrow> \<not> (f_finite n \<and> f_lt (f_lit (1 / 1000000)) n)"

definition normalize_sample :: "f32 list \<Rightarrow> lh_error + f32 list" where
  "normalize_sample s =
     (if \<not> list_all f_finite s then Inl (bio_err ''enrollment contains non-finite values'')
      else let norm = f_sqrt (f_sum (map (\<lambda>x. f_mul x x) s)) in
        if degenerate_norm norm then Inl (bio_err ''enrollment sample has a degenerate (near-zero) norm'')
        else Inr (map (\<lambda>x. f_div x norm) s))"

definition parse_raw_embeddings :: "bytes \<Rightarrow> lh_error + f32 list list" where
  "parse_raw_embeddings bs =
     (if bs = [] \<or> length bs mod stride_bytes \<noteq> 0
      then Inl (bio_err (''enrollment size '' @ show_nat (length bs) @ '' not a multiple of '' @
                 show_nat stride_bytes @ '' (dim='' @ show_nat embedding_dim @ '')''))
      else collect_res normalize_sample
             (map (\<lambda>chunk. map f_from_le_bytes (chunks_exact 4 chunk)) (chunks_exact stride_bytes bs)))"

definition load_embeddings :: "string \<Rightarrow> 'z host_scheme \<Rightarrow> lh_error + f32 list list" where
  "load_embeddings user w =
     rbind (enroll_user_dir user) (\<lambda>dir.
     let path = path_join dir ''embedding.bin'' in
     rbind (map_err (\<lambda>e. bio_err (''read enrollment '' @ path @ '': '' @ io_to_string e)) (fs_read path w))
       parse_raw_embeddings)"

definition sample_count :: "string \<Rightarrow> 'z host_scheme \<Rightarrow> lh_error + nat" where
  "sample_count user w =
     rbind (enroll_user_dir user) (\<lambda>dir.
     let path = path_join dir ''embedding.bin'' in
     rbind (map_err (\<lambda>e. bio_err (''stat '' @ path @ '': '' @ io_to_string e)) (fs_len path w)) (\<lambda>n.
     Inr (n div stride_bytes)))"

section \<open>matcher.rs\<close>

definition cosine :: "f32 list \<Rightarrow> f32 list \<Rightarrow> f32" where
  "cosine a b =
     (if length a \<noteq> length b \<or> a = [] then f_lit 0
      else f_clamp (f_sum (map (\<lambda>(x, y). f_mul x y) (zip a b))) (f_lit (- 1)) (f_lit 1))"

definition default_match_threshold :: f32 where "default_match_threshold = f_lit 0.6"

definition min_threshold :: f32 where "min_threshold = f_lit 0.3"
definition max_threshold :: f32 where "max_threshold = f_lit 0.95"

definition resolve_threshold :: "'z host_scheme \<Rightarrow> f32" where
  "resolve_threshold w =
     unwrap_or default_match_threshold
       (map_option (\<lambda>v. f_clamp v min_threshold max_threshold)
         (opt_filter f_finite
           (case Option.bind (env_vars w ''LINHELLO_MATCH_THRESHOLD'') (\<lambda>s. parse_f32 (trim s)) of
              Some v \<Rightarrow> Some v
            | None \<Rightarrow> Option.bind (read_kv ''settings.conf'' ''match_threshold'' w) parse_f32)))"

text \<open>Resolved once per process.\<close>

definition match_threshold :: "(('t, 's, 'z) world_scheme, lh_error, f32) act" where
  "match_threshold w = (case thr_cache w of
      Some t \<Rightarrow> (Ok t, w)
    | None \<Rightarrow> (let t = resolve_threshold w in (Ok t, w\<lparr>thr_cache := Some t\<rparr>)))"

record auth_result =
  ar_matched :: bool
  ar_score :: f32

definition best_score :: "f32 list \<Rightarrow> f32 list list \<Rightarrow> f32" where
  "best_score live samples = foldl f_max (f_inf True) (map (cosine live) samples)"

definition match_against ::
  "f32 list \<Rightarrow> f32 list list \<Rightarrow> (('t, 's, 'z) world_scheme, lh_error, auth_result) act" where
  "match_against live samples =
     abind match_threshold (\<lambda>t.
     ret \<lparr>ar_matched = f_le t (best_score live samples), ar_score = best_score live samples\<rparr>)"

end
