(* ===== verification/Capture.thy ===== *)
theory Capture
  imports Biometrics
begin

text \<open>
  The capture pipeline and the framing guide of crates/linhello-biometrics/src/lib.rs: burst,
  detection, liveness, embedding, and the pure decision behind the enrolment positioning guide.
\<close>

section \<open>Bursts\<close>

definition default_antispoof_frames :: nat where "default_antispoof_frames = 5"
definition temporal_burst :: nat where "temporal_burst = 7"

definition antispoof_frames :: "'z host_scheme \<Rightarrow> nat" where
  "antispoof_frames w =
     unwrap_or default_antispoof_frames
       (opt_filter (\<lambda>n. 1 \<le> n \<and> n \<le> 15)
         (Option.bind (env_vars w ''LINHELLO_ANTISPOOF_FRAMES'') (\<lambda>s. parse_usize (trim s))))"

definition burst_len :: "'z host_scheme \<Rightarrow> nat" where
  "burst_len w = max (max (antispoof_frames w) (if temporal_gate_enabled w then temporal_burst else 0)) 1"

definition face_area :: "face \<Rightarrow> f32" where
  "face_area f = (case face_bbox f of (x1, y1, x2, y2) \<Rightarrow>
     f_mul (f_max (f_sub x2 x1) (f_lit 0)) (f_max (f_sub y2 y1) (f_lit 0)))"

text \<open>The faces of a burst: each frame with its first detection, frames without one skipped.\<close>

definition first_face :: "('t, 's, 'x) ext_scheme \<Rightarrow> rgb_image \<Rightarrow> face option" where
  "first_face X img = (case detect_faces X img of Inr (f # _) \<Rightarrow> Some f | _ \<Rightarrow> None)"

definition burst_faces :: "('t, 's, 'x) ext_scheme \<Rightarrow> rgb_image list \<Rightarrow> (rgb_image \<times> face) list" where
  "burst_faces X imgs = List.map_filter (\<lambda>img. map_option (Pair img) (first_face X img)) imgs"

definition better :: "(rgb_image \<times> face) option \<Rightarrow> rgb_image \<times> face \<Rightarrow> (rgb_image \<times> face) option" where
  "better best c = (case best of
      None \<Rightarrow> Some c
    | Some b \<Rightarrow> if f_lt (face_area (snd b)) (face_area (snd c)) then Some c else Some b)"

definition cached_evaluator ::
  "('t, 's, 'x) ext_scheme \<Rightarrow> (('t, 's, 'z) world_scheme, lh_error, liveness_evaluator) act" where
  "cached_evaluator X w = (case ev_cache w of
      Some r \<Rightarrow> (of_result (map_err Biometrics r), w)
    | None \<Rightarrow>
        (let r = map_err err_to_string (evaluator_new (load_ensemble X) (config_from_env w) w)
         in (of_result (map_err Biometrics r), w\<lparr>ev_cache := Some r\<rparr>)))"

type_synonym burst_capture = "string \<times> rgb_image \<times> face \<times> f32 option \<times> f32 option"

definition capture_burst_detect ::
  "('t, 's, 'x) ext_scheme \<Rightarrow> (('t, 's, 'z) world_scheme, lh_error, burst_capture) act" where
  "capture_burst_detect X =
     abind (sense (rgb_device X)) (\<lambda>path.
     abind (query burst_len) (\<lambda>n.
     abind (sensor (capture_burst X path n)) (\<lambda>imgs.
     abind (lift (detector_cached X)) (\<lambda>_.
     let found = burst_faces X imgs in
     abind (lift (ok_or (bio_err ''no face detected'') (foldl better None found))) (\<lambda>(img, f).
     let temporal = temporal_motion_score (map (\<lambda>(i, g). eye_frame i (face_landmarks g)) found) in
     abind (cached_evaluator X) (\<lambda>ev.
     abind (lift (antispoof_median (predict_median X) ev (map (\<lambda>(i, g). (i, face_bbox g)) found))) (\<lambda>prob.
     ret (path, img, f, prob, temporal))))))))"

definition grab_ir ::
  "('t, 's, 'x) ext_scheme \<Rightarrow> (('t, 's, 'z) world_scheme, lh_error, gray_image option) act" where
  "grab_ir X =
     abind (try_act (sensor (capture_ir_frame X))) (\<lambda>r.
     ret (case r of Inr g \<Rightarrow> g | Inl _ \<Rightarrow> None))"

definition run_liveness_test ::
  "('t, 's, 'x) ext_scheme \<Rightarrow> (('t, 's, 'z) world_scheme, lh_error, liveness_report) act" where
  "run_liveness_test X =
     abind (capture_burst_detect X) (\<lambda>(path, img, f, prob, temporal).
     abind (grab_ir X) (\<lambda>ir.
     abind (cached_evaluator X) (\<lambda>ev.
     abind (query (live_evaluate ev img (face_bbox f) (face_landmarks f) path ir prob temporal)) lift_out)))"

definition capture_detect_live ::
  "('t, 's, 'x) ext_scheme \<Rightarrow> (('t, 's, 'z) world_scheme, lh_error, rgb_image \<times> face \<times> liveness_signals) act" where
  "capture_detect_live X =
     abind (capture_burst_detect X) (\<lambda>(path, img, f, prob, temporal).
     abind (grab_ir X) (\<lambda>ir.
     abind (cached_evaluator X) (\<lambda>ev.
     abind (query (live_evaluate ev img (face_bbox f) (face_landmarks f) path ir prob temporal)) (\<lambda>q.
     abind (lift_out q) (\<lambda>report.
     case lr_decision report of
       Spoof \<Rightarrow> fail (bio_err (''liveness check failed: '' @ unwrap_or ''spoof detected'' (lr_reason report)))
     | Uncertain \<Rightarrow> fail (bio_err (''liveness uncertain: '' @ unwrap_or ''try again'' (lr_reason report)))
     | Real \<Rightarrow> ret (img, f, lr_signals report))))))"

definition capture_and_embed_signals ::
  "('t, 's, 'x) ext_scheme \<Rightarrow> (('t, 's, 'z) world_scheme, lh_error, f32 list \<times> liveness_signals) act" where
  "capture_and_embed_signals X =
     abind (capture_detect_live X) (\<lambda>(img, f, signals).
     abind (lift (align_face X img f)) (\<lambda>aligned.
     abind (lift (embedder_cached X)) (\<lambda>_.
     abind (lift (embed_face X aligned)) (\<lambda>emb.
     ret (emb, signals)))))"

definition capture_and_embed ::
  "('t, 's, 'x) ext_scheme \<Rightarrow> (('t, 's, 'z) world_scheme, lh_error, f32 list) act" where
  "capture_and_embed X = abind (capture_and_embed_signals X) (\<lambda>(v, _). ret v)"

definition enroll_user ::
  "('t, 's, 'x) ext_scheme \<Rightarrow> string \<Rightarrow> (('t, 's, 'z) world_scheme, lh_error, unit) act" where
  "enroll_user X user = abind (capture_and_embed X) (\<lambda>v. append_embedding user v)"

definition enroll_user_reset ::
  "('t, 's, 'x) ext_scheme \<Rightarrow> string \<Rightarrow> (('t, 's, 'z) world_scheme, lh_error, unit) act" where
  "enroll_user_reset X user = abind (capture_and_embed X) (\<lambda>v. save_embedding user v)"

section \<open>Image statistics\<close>

definition luma :: "nat \<times> nat \<times> nat \<Rightarrow> f32" where
  "luma p = (case p of (p0, p1, p2) \<Rightarrow>
     f_add (f_add (f_mul (f_lit 0.299) (f_of_nat p0)) (f_mul (f_lit 0.587) (f_of_nat p1)))
           (f_mul (f_lit 0.114) (f_of_nat p2)))"

text \<open>\<open>let mut x = lo; while x <= hi { ..; x += st }\<close>, for a positive step.\<close>

definition steps :: "int \<Rightarrow> int \<Rightarrow> int \<Rightarrow> int list" where
  "steps lo st hi = (if hi < lo then [] else map (\<lambda>k. lo + st * k) [0..(hi - lo) div st])"

definition f_count :: "'a list \<Rightarrow> f32" where
  "f_count xs = f_sum (map (\<lambda>_. f_lit 1) xs)"

definition f_mean :: "f32 \<Rightarrow> f32 \<Rightarrow> f32" where
  "f_mean sm n = (if f_lt (f_lit 0) n then f_div sm n else f_lit 0)"

definition clampi :: "int \<Rightarrow> int \<Rightarrow> int \<Rightarrow> int" where
  "clampi x lo hi = (if x < lo then lo else if hi < x then hi else x)"

definition luma_at :: "rgb_image \<Rightarrow> int \<Rightarrow> int \<Rightarrow> f32" where
  "luma_at img x y =
     luma (ri_px img (nat (clampi x 0 (int (ri_w img) - 1))) (nat (clampi y 0 (int (ri_h img) - 1))))"

definition grid :: "int list \<Rightarrow> int list \<Rightarrow> (int \<times> int) list" where
  "grid xs ys = concat (map (\<lambda>y. map (\<lambda>x. (x, y)) xs) ys)"

definition region_stats :: "rgb_image \<Rightarrow> bbox \<Rightarrow> f32 \<times> f32 \<times> f32" where
  "region_stats img box =
     (let (b1, b2, b3, b4) = box; fw = int (ri_w img); fh = int (ri_h img);
          x1 = f_to_i32 (f_max b1 (f_lit 0)); y1 = f_to_i32 (f_max b2 (f_lit 0));
          x2 = min (f_to_i32 b3) (fw - 1); y2 = min (f_to_i32 b4) (fh - 1);
          sx = max (max (wrap_i32 (x2 - x1)) 1 div 32) 1;
          sy = max (max (wrap_i32 (y2 - y1)) 1 div 32) 1;
          pts = grid (steps x1 sx x2) (steps y1 sy y2);
          sm = f_sum (map (\<lambda>(x, y). luma_at img x y) pts);
          grad = f_sum (map (\<lambda>(x, y). f_add (f_abs (f_sub (luma_at img (x + sx) y) (luma_at img x y)))
                                           (f_abs (f_sub (luma_at img x (y + sy)) (luma_at img x y)))) pts);
          all = grid (steps 0 40 (fw - 1)) (steps 0 40 (fh - 1));
          fsum = f_sum (map (\<lambda>(x, y). luma_at img x y) all)
      in (f_mean sm (f_count pts), f_mean fsum (f_count all), f_mean grad (f_count pts)))"

definition frame_mean_luma :: "rgb_image \<Rightarrow> f32" where
  "frame_mean_luma img =
     (let pts = grid (steps 0 32 (int (ri_w img) - 1)) (steps 0 32 (int (ri_h img) - 1))
      in f_mean (f_sum (map (\<lambda>(x, y). luma_at img x y) pts)) (f_count pts))"

definition lerp01 :: "f32 \<Rightarrow> f32 \<Rightarrow> f32 \<Rightarrow> f32" where
  "lerp01 v lo hi = f_clamp (f_div (f_sub v lo) (f_sub hi lo)) (f_lit 0) (f_lit 1)"

definition ir_to_rgb :: "gray_image \<Rightarrow> rgb_image" where
  "ir_to_rgb ir = \<lparr>ri_w = gi_w ir, ri_h = gi_h ir, ri_px = (\<lambda>x y. let l = gi_px ir x y in (l, l, l))\<rparr>"

end
