(* ===== verification/Framing.thy ===== *)
theory Framing
  imports Capture
begin

text \<open>
  The positioning guide of crates/linhello-biometrics/src/lib.rs: the pure decision
  \<open>framing_guidance\<close> and the capture that feeds it.
\<close>

record framing_input =
  fi_face_count :: nat
  fi_frame_w :: nat
  fi_frame_h :: nat
  fi_primary :: "(bbox \<times> f32 \<times> f32 \<times> f32 \<times> f32 \<times> f32) option"
  fi_ir_present :: bool
  fi_ir_sig :: "ir_signals option"
  fi_low_light :: bool

definition max_frac :: f32 where "max_frac = f_lit 0.6"
definition center_tol :: f32 where "center_tol = f_lit 0.18"
definition dim_gate :: f32 where "dim_gate = f_lit 40"
definition bright_gate :: f32 where "bright_gate = f_lit 230"
definition backlit_delta :: f32 where "backlit_delta = f_lit 55"
definition backlit_face_floor :: f32 where "backlit_face_floor = f_lit 65"

definition hold_still :: string where
  "hold_still = ''Hold still '' @ em_dash @ '' ready to capture''"

section \<open>The decision\<close>

definition guidance_text ::
  "nat \<Rightarrow> f32 \<Rightarrow> f32 \<Rightarrow> f32 \<Rightarrow> f32 \<Rightarrow> f32 \<Rightarrow> f32 \<Rightarrow> f32 \<Rightarrow> bool \<Rightarrow> f32 \<Rightarrow> string" where
  "guidance_text face_count face_frac off_x off_y fw fh yaw pitch backlit face_lum =
     (if face_count > 1 then ''Multiple faces '' @ em_dash @ '' only you should be in frame''
      else if f_lt face_frac min_face_frac then ''Move closer''
      else if f_lt max_frac face_frac then ''Move back a little''
      else if f_lt off_y (f_mul (f_neg center_tol) fh) then ''Move your head down''
      else if f_lt (f_mul center_tol fh) off_y then ''Move your head up''
      else if f_lt (f_mul center_tol fw) off_x then ''Move right''
      else if f_lt off_x (f_mul (f_neg center_tol) fw) then ''Move left''
      else if f_lt max_angle_deg yaw then ''Turn your head slightly left''
      else if f_lt yaw (f_neg max_angle_deg) then ''Turn your head slightly right''
      else if f_lt max_angle_deg pitch then ''Lift your chin a little''
      else if f_lt pitch (f_neg max_angle_deg) then ''Lower your chin a little''
      else if backlit then ''Reduce backlighting '' @ em_dash @ '' face a light source''
      else if f_lt face_lum dim_gate then ''More light on your face''
      else if f_lt bright_gate face_lum then ''Too bright '' @ em_dash @ '' reduce glare''
      else hold_still)"

definition framing_quality ::
  "f32 \<Rightarrow> f32 \<Rightarrow> f32 \<Rightarrow> f32 \<Rightarrow> f32 \<Rightarrow> f32 \<Rightarrow> f32 \<Rightarrow> f32 \<Rightarrow> f32 \<Rightarrow> f32 option \<Rightarrow> nat" where
  "framing_quality face_frac off_x off_y fw fh yaw pitch face_lum sharp ir_face_bg =
     (let size_score =
            (if f_in (f_lit 0.22) (f_lit 0.45) face_frac then f_lit 1
             else if f_lt face_frac (f_lit 0.22) then lerp01 face_frac min_face_frac (f_lit 0.22)
             else f_sub (f_lit 1) (lerp01 face_frac (f_lit 0.45) (f_lit 0.7)));
          off = f_max (f_div (f_abs off_x) (f_div fw (f_lit 2))) (f_div (f_abs off_y) (f_div fh (f_lit 2)));
          center_score = f_clamp (f_sub (f_lit 1) off) (f_lit 0) (f_lit 1);
          pose_score = f_sub (f_lit 1)
            (f_clamp (f_div (f_max (f_abs yaw) (f_abs pitch)) (f_lit 30)) (f_lit 0) (f_lit 1));
          light_score =
            (if f_in (f_lit 90) (f_lit 190) face_lum then f_lit 1
             else if f_lt face_lum (f_lit 90) then lerp01 face_lum (f_lit 40) (f_lit 90)
             else f_sub (f_lit 1) (lerp01 face_lum (f_lit 190) (f_lit 235)));
          sharp_score = f_clamp (f_div sharp (f_lit 12)) (f_lit 0) (f_lit 1);
          ir_part = unwrap_or (f_lit 0.5) (map_option (\<lambda>r. lerp01 r (f_lit 1) (f_lit 1.5)) ir_face_bg);
          total = f_add (f_add (f_add (f_add (f_add
                    (f_mul (f_lit 0.25) size_score) (f_mul (f_lit 0.2) center_score))
                    (f_mul (f_lit 0.2) pose_score)) (f_mul (f_lit 0.15) light_score))
                    (f_mul (f_lit 0.1) sharp_score)) (f_mul (f_lit 0.1) ir_part)
      in f_to_u8 (f_clamp (f_round_int (f_mul total (f_lit 100))) (f_lit 0) (f_lit 100)))"

definition framing_guidance :: "framing_input \<Rightarrow> position_report" where
  "framing_guidance i =
     (let ir_brightness = map_option is_mean_face (fi_ir_sig i);
          ir_face_bg = map_option is_face_bg_ratio (fi_ir_sig i)
      in case fi_primary i of
        None \<Rightarrow>
          \<lparr>pr_face_count = 0, pr_frame_w = fi_frame_w i, pr_frame_h = fi_frame_h i, pr_bbox = None,
           pr_face_frac = None, pr_yaw_deg = None, pr_pitch_deg = None, pr_brightness = None,
           pr_sharpness = None, pr_quality = 0, pr_ir_present = fi_ir_present i,
           pr_ir_brightness = ir_brightness, pr_ir_face_bg = ir_face_bg, pr_low_light = False,
           pr_well_framed = False,
           pr_guidance = ''No face detected '' @ em_dash @ '' center yourself in front of the camera''\<rparr>
      | Some ((x1, y1, x2, y2), yaw, pitch, face_lum, frame_lum, sharp) \<Rightarrow>
          (let fw = f_of_nat (fi_frame_w i); fh = f_of_nat (fi_frame_h i);
               face_frac = f_div (f_max (f_sub x2 x1) (f_lit 0)) fw;
               off_x = f_sub (f_div (f_add x1 x2) (f_lit 2)) (f_div fw (f_lit 2));
               off_y = f_sub (f_div (f_add y1 y2) (f_lit 2)) (f_div fh (f_lit 2));
               centered = (f_le (f_abs off_x) (f_mul center_tol fw) \<and> f_le (f_abs off_y) (f_mul center_tol fh));
               backlit = (f_le backlit_delta (f_sub frame_lum face_lum) \<and> f_lt face_lum backlit_face_floor);
               lit = (f_in dim_gate bright_gate face_lum \<and> \<not> backlit);
               base = \<lparr>pr_face_count = 1, pr_frame_w = fi_frame_w i, pr_frame_h = fi_frame_h i,
                  pr_bbox = Some (x1, y1, x2, y2), pr_face_frac = Some face_frac, pr_yaw_deg = Some yaw,
                  pr_pitch_deg = Some pitch, pr_brightness = Some face_lum, pr_sharpness = Some sharp,
                  pr_quality = (case ir_face_bg of
                      Some r \<Rightarrow> f_to_u8 (f_mul (lerp01 r (f_lit 1) (f_lit 1.6)) (f_lit 60)) | None \<Rightarrow> 30),
                  pr_ir_present = fi_ir_present i, pr_ir_brightness = ir_brightness,
                  pr_ir_face_bg = ir_face_bg, pr_low_light = True, pr_well_framed = False,
                  pr_guidance = ''Too dark to enroll '' @ em_dash @ '' add light (IR can see you)''\<rparr>
           in if fi_low_light i then base
              else base\<lparr>pr_face_count := fi_face_count i, pr_low_light := False,
                 pr_quality := framing_quality face_frac off_x off_y fw fh yaw pitch face_lum sharp ir_face_bg,
                 pr_well_framed := (fi_face_count i = 1 \<and> f_in min_face_frac max_frac face_frac \<and>
                   f_le (f_abs yaw) max_angle_deg \<and> f_le (f_abs pitch) max_angle_deg \<and> centered \<and> lit),
                 pr_guidance := guidance_text (fi_face_count i) face_frac off_x off_y fw fh yaw pitch backlit face_lum\<rparr>))"

section \<open>The capture\<close>

definition capture_position_sample ::
  "('t, 's, 'x) ext_scheme \<Rightarrow> (('t, 's, 'z) world_scheme, lh_error, position_report) act" where
  "capture_position_sample X =
     abind (sensor (capture_frame X)) (\<lambda>img.
     abind (lift (detector_cached X)) (\<lambda>_.
     abind (lift (detect_faces X img)) (\<lambda>faces.
     abind (grab_ir X) (\<lambda>ir.
     let fw = ri_w img; fh = ri_h img;
         nothing = framing_guidance \<lparr>fi_face_count = 0, fi_frame_w = fw, fi_frame_h = fh, fi_primary = None,
            fi_ir_present = (ir \<noteq> None), fi_ir_sig = None, fi_low_light = False\<rparr>
     in case faces of
       f # _ \<Rightarrow>
         (let (yaw, pitch) = estimate_pose (face_landmarks f);
              (face_lum, frame_lum, sharp) = region_stats img (face_bbox f);
              input = (\<lambda>sig. \<lparr>fi_face_count = length faces, fi_frame_w = fw, fi_frame_h = fh,
                 fi_primary = Some (face_bbox f, yaw, pitch, face_lum, frame_lum, sharp),
                 fi_ir_present = (ir \<noteq> None), fi_ir_sig = sig, fi_low_light = False\<rparr>)
          in case ir of
               None \<Rightarrow> ret (framing_guidance (input None))
             | Some irf \<Rightarrow>
                 abind (lift_out (ir_evaluate irf (face_bbox f) (fw, fh) (face_landmarks f))) (\<lambda>s.
                 ret (framing_guidance (input (Some s)))))
     | [] \<Rightarrow>
         (if f_lt (frame_mean_luma img) (f_lit 60) then
            (case ir of
               None \<Rightarrow> ret nothing
             | Some irf \<Rightarrow>
                 (case first_face X (ir_to_rgb irf) of
                    None \<Rightarrow> ret nothing
                  | Some f \<Rightarrow>
                      (let (yaw, pitch) = estimate_pose (face_landmarks f);
                           (face_lum, frame_lum, sharp) = region_stats (ir_to_rgb irf) (face_bbox f)
                       in abind (lift_out (ir_evaluate irf (face_bbox f) (gi_w irf, gi_h irf) (face_landmarks f))) (\<lambda>s.
                          ret (framing_guidance \<lparr>fi_face_count = 1, fi_frame_w = gi_w irf, fi_frame_h = gi_h irf,
                            fi_primary = Some (face_bbox f, yaw, pitch, face_lum, frame_lum, sharp),
                            fi_ir_present = True, fi_ir_sig = Some s, fi_low_light = True\<rparr>)))))
          else ret nothing)))))"

section \<open>Properties\<close>

text \<open>The wording of the guide and the gate agree.\<close>

lemma if_other: "s \<noteq> h \<Longrightarrow> (if b then s else t) = h \<longleftrightarrow> \<not> b \<and> t = h"
  by simp

lemma guidance_hold_still_iff:
  "guidance_text n ff ox oy fw fh yaw pitch backlit lum = hold_still \<longleftrightarrow>
     n \<le> 1 \<and> \<not> f_lt ff min_face_frac \<and> \<not> f_lt max_frac ff \<and>
     \<not> f_lt oy (f_mul (f_neg center_tol) fh) \<and> \<not> f_lt (f_mul center_tol fh) oy \<and>
     \<not> f_lt (f_mul center_tol fw) ox \<and> \<not> f_lt ox (f_mul (f_neg center_tol) fw) \<and>
     \<not> f_lt max_angle_deg yaw \<and> \<not> f_lt yaw (f_neg max_angle_deg) \<and>
     \<not> f_lt max_angle_deg pitch \<and> \<not> f_lt pitch (f_neg max_angle_deg) \<and>
     \<not> backlit \<and> \<not> f_lt lum dim_gate \<and> \<not> f_lt bright_gate lum"
  by (simp add: guidance_text_def if_other hold_still_def em_dash_def not_less)


lemma max_angle_not_nan [simp]: "\<not> f_is_nan max_angle_deg"
  and frac_not_nan [simp]: "\<not> f_is_nan min_face_frac" "\<not> f_is_nan max_frac"
  and gate_not_nan [simp]: "\<not> f_is_nan dim_gate" "\<not> f_is_nan bright_gate"
  by code_simp+

lemma frontal_iff:
  "\<not> f_is_nan a \<Longrightarrow> f_le (f_abs a) max_angle_deg \<longleftrightarrow> \<not> f_lt max_angle_deg a \<and> \<not> f_lt a (f_neg max_angle_deg)"
  by (rule f_abs_le_iff) (simp_all add: decode_f_neg)

lemma centered_iff:
  "\<not> f_is_nan a \<Longrightarrow> \<not> f_is_nan (f_mul center_tol n) \<Longrightarrow>
   f_le (f_abs a) (f_mul center_tol n) \<longleftrightarrow> \<not> f_lt (f_mul center_tol n) a \<and> \<not> f_lt a (f_mul (f_neg center_tol) n)"
  by (rule f_abs_le_iff) (simp_all add: decode_f_mul_neg)

lemma f_in_iff:
  "\<not> f_is_nan a \<Longrightarrow> \<not> f_is_nan lo \<Longrightarrow> \<not> f_is_nan hi \<Longrightarrow> f_in lo hi a \<longleftrightarrow> \<not> f_lt a lo \<and> \<not> f_lt hi a"
  by (auto simp: f_in_def f_le_iff)

text \<open>When every measured quantity is a number, the gate is exactly the last branch of the guide.\<close>

lemma gate_iff_guidance:
  assumes "\<not> f_is_nan ff" "\<not> f_is_nan ox" "\<not> f_is_nan oy" "\<not> f_is_nan yaw" "\<not> f_is_nan pitch" "\<not> f_is_nan lum"
    "\<not> f_is_nan (f_mul center_tol fw)" "\<not> f_is_nan (f_mul center_tol fh)" and "0 < n"
  shows "n = 1 \<and> f_in min_face_frac max_frac ff \<and> f_le (f_abs yaw) max_angle_deg \<and> f_le (f_abs pitch) max_angle_deg \<and>
      (f_le (f_abs ox) (f_mul center_tol fw) \<and> f_le (f_abs oy) (f_mul center_tol fh)) \<and>
      f_in dim_gate bright_gate lum \<and> \<not> backlit
    \<longleftrightarrow> guidance_text n ff ox oy fw fh yaw pitch backlit lum = hold_still"
  unfolding guidance_hold_still_iff using assms
  by (auto simp: frontal_iff centered_iff f_in_iff)

text \<open>A gate that passes needs no such assumption: NaN fails it.\<close>

lemma gate_imp_guidance:
  assumes "n = 1" "f_in min_face_frac max_frac ff" "f_le (f_abs yaw) max_angle_deg" "f_le (f_abs pitch) max_angle_deg"
    "f_le (f_abs ox) (f_mul center_tol fw)" "f_le (f_abs oy) (f_mul center_tol fh)"
    "f_in dim_gate bright_gate lum" "\<not> backlit"
  shows "guidance_text n ff ox oy fw fh yaw pitch backlit lum = hold_still"
proof -
  have "\<not> f_is_nan ff" "\<not> f_is_nan lum"
    using assms(2,7) by (auto simp: f_in_def f_le_iff)
  moreover note f_abs_le_not_nan [OF assms(3)] f_abs_le_not_nan [OF assms(4)]
    f_abs_le_not_nan [OF assms(5)] f_abs_le_not_nan [OF assms(6)]
  ultimately show ?thesis
    using assms gate_iff_guidance [of ff ox oy yaw pitch lum fw fh n backlit] by simp
qed

end
