(* ===== verification/BioProps.thy ===== *)
theory BioProps
  imports Framing
begin

text \<open>
  Properties of recognition and capture: the stored template format, the threshold, what a
  match means, and what a finished capture has passed.
\<close>

section \<open>Templates\<close>

lemma length_embedding_bytes [simp]: "length (embedding_bytes v) = 4 * length v"
  by (induction v) (simp_all add: embedding_bytes_def)

lemma chunks_exact_append:
  "length c = n \<Longrightarrow> 0 < n \<Longrightarrow> chunks_exact n (c @ r) = c # chunks_exact n r"
  by (subst chunks_exact.simps) simp

lemma chunks_exact_Nil [simp]: "chunks_exact n [] = []"
  by (subst chunks_exact.simps) auto

lemma chunks_exact_concat:
  "\<forall>c\<in>set cs. length c = n \<Longrightarrow> 0 < n \<Longrightarrow> chunks_exact n (concat cs) = cs"
  by (induction cs) (simp_all add: chunks_exact_append)

lemma decode_embedding_bytes: "map f_from_le_bytes (chunks_exact 4 (embedding_bytes v)) = v"
proof -
  have "chunks_exact 4 (embedding_bytes v) = map f_to_le_bytes v"
    unfolding embedding_bytes_def by (rule chunks_exact_concat) auto
  then show ?thesis by (simp add: comp_def)
qed

lemma length_concat_const: "\<forall>x\<in>set xs. length x = n \<Longrightarrow> length (concat xs) = n * length xs"
  by (induction xs) auto

text \<open>Reading back appended samples gives them, normalized, in enrolment order.\<close>

lemma parse_stored_samples:
  assumes "\<forall>v\<in>set vs. length v = embedding_dim" and "vs \<noteq> []"
  shows "parse_raw_embeddings (concat (map embedding_bytes vs)) = collect_res normalize_sample vs"
proof -
  let ?bs = "concat (map embedding_bytes vs)"
  have st: "\<forall>c\<in>set (map embedding_bytes vs). length c = stride_bytes"
    using assms(1) by (simp add: stride_bytes_def)
  have len: "length ?bs = stride_bytes * length vs"
    using length_concat_const [OF st] by simp
  have pos: "0 < stride_bytes" by (simp add: stride_bytes_def embedding_dim_def)
  have "?bs \<noteq> []"
    using len pos assms(2) by (metis length_0_conv mult_eq_0_iff not_gr_zero)
  moreover have "map (\<lambda>chunk. map f_from_le_bytes (chunks_exact 4 chunk)) (chunks_exact stride_bytes ?bs) = vs"
    by (simp add: chunks_exact_concat [OF st pos] comp_def decode_embedding_bytes)
  ultimately show ?thesis
    using len by (simp only: parse_raw_embeddings_def) simp
qed

lemma collect_res_Inr:
  "collect_res f xs = Inr ys \<Longrightarrow> length ys = length xs \<and> (\<forall>i<length xs. f (xs ! i) = Inr (ys ! i))"
proof (induction xs arbitrary: ys)
  case (Cons x xs)
  then obtain y zs where "f x = Inr y" "collect_res f xs = Inr zs" "ys = y # zs"
    by (auto simp: res_iff)
  then show ?case using Cons.IH [of zs] by (auto simp: nth_Cons split: nat.split)
qed simp

lemma parse_nonempty:
  assumes "parse_raw_embeddings bs = Inr samples"
  shows "samples \<noteq> []"
proof -
  have "bs \<noteq> []" "length bs mod stride_bytes = 0"
    and c: "collect_res normalize_sample (map (\<lambda>chunk. map f_from_le_bytes (chunks_exact 4 chunk))
      (chunks_exact stride_bytes bs)) = Inr samples"
    using assms by (auto simp: parse_raw_embeddings_def split: if_splits)
  then have "stride_bytes \<le> length bs"
    by (metis length_0_conv mod_less not_le)
  then have "chunks_exact stride_bytes bs \<noteq> []"
    by (subst chunks_exact.simps) (simp add: stride_bytes_def embedding_dim_def)
  then show ?thesis
    using collect_res_Inr [OF c] by (metis length_0_conv length_map)
qed

section \<open>Matching\<close>

lemma thr_interval: "f_le min_threshold max_threshold"
  and default_thr_in: "f_in min_threshold max_threshold default_match_threshold"
  and unit_ball: "f_le (f_lit (- 1)) (f_lit 1)"
  by code_simp+

text \<open>No configuration, malformed or hostile, moves the threshold out of its interval.\<close>

lemma resolve_threshold_in: "f_in min_threshold max_threshold (resolve_threshold w)"
proof -
  have c: "f_in min_threshold max_threshold (f_clamp v min_threshold max_threshold)" if "f_finite v" for v
    using that by (intro f_clamp_in f_finite_not_nan thr_interval)
  have "f_in min_threshold max_threshold (unwrap_or default_match_threshold
      (map_option (\<lambda>v. f_clamp v min_threshold max_threshold) (opt_filter f_finite m)))" for m
    using c default_thr_in by (cases "opt_filter f_finite m") (auto simp: opt_filter_Some_iff)
  then show ?thesis unfolding resolve_threshold_def .
qed

definition thr_ok :: "('t, 's, 'z) world_scheme \<Rightarrow> bool" where
  "thr_ok w \<longleftrightarrow> (\<forall>t. thr_cache w = Some t \<longrightarrow> f_in min_threshold max_threshold t)"

lemma match_threshold_result:
  assumes "match_threshold w = (Ok t, w')" and "thr_ok w"
  shows "f_in min_threshold max_threshold t \<and> thr_ok w' \<and> w' = w\<lparr>thr_cache := Some t\<rparr>"
  using assms resolve_threshold_in [of w]
  by (auto simp: match_threshold_def thr_ok_def Let_def split: option.splits)

lemma cosine_in: "\<not> f_is_nan (cosine a b) \<Longrightarrow> f_in (f_lit (- 1)) (f_lit 1) (cosine a b)"
proof -
  have z: "f_in (f_lit (- 1)) (f_lit 1) (f_lit 0)" by code_simp
  have "f_is_nan (f_clamp v (f_lit (- 1)) (f_lit 1))" if "f_is_nan v" for v
    using that by (auto simp: f_clamp_def Let_def dest: f_lt_not_nan)
  then show "\<not> f_is_nan (cosine a b) \<Longrightarrow> ?thesis"
    using z by (auto simp: cosine_def intro: f_clamp_in unit_ball split: if_splits)
qed

lemma f_inf_not_nan: "\<not> f_is_nan (f_inf True)"
  by (simp add: f_is_nan_def decode_f_inf)

lemma foldl_f_max:
  assumes "\<not> f_is_nan a"
  shows "\<not> f_is_nan (foldl f_max a xs)" and "f_le a (foldl f_max a xs)"
    and "foldl f_max a xs \<in> insert a (set xs)"
    and "\<forall>x\<in>set xs. f_is_nan x \<or> f_le x (foldl f_max a xs)"
  using assms
proof (induction xs arbitrary: a)
  case Nil
  { case 1 then show ?case by simp next
    case 2 then show ?case by (simp add: f_le_refl) next
    case 3 then show ?case by simp next
    case 4 then show ?case by simp }
next
  case (Cons x xs)
  { case 1 then show ?case using Cons.IH(1) by (simp add: f_max_not_nan) next
    case 2 then show ?case
      using f_le_trans [OF f_max_ge [OF 2] Cons.IH(2) [OF f_max_not_nan [OF 2]]] by simp next
    case 3 then show ?case using Cons.IH(3) [OF f_max_not_nan [OF 3], of x] f_max_cases [of a x] by auto next
    case 4 then show ?case
      using Cons.IH(2,4) [OF f_max_not_nan [OF 4], of x] by (auto intro: f_le_trans f_max_ge2) }
qed

text \<open>A match: some stored sample scores at or above the threshold. A NaN score never does.\<close>

lemma best_score_reached:
  assumes "f_le t (best_score live samples)" and "f_in min_threshold max_threshold t"
  shows "\<exists>s\<in>set samples. f_le t (cosine live s)"
proof -
  have "f_lt (f_inf True) min_threshold" by code_simp
  then have "\<not> f_le t (f_inf True)"
    using assms(2) f_le_lt_trans [of t "f_inf True" min_threshold] by (auto simp: f_in_def f_le_iff [of min_threshold])
  then show ?thesis
    using assms(1) foldl_f_max(3) [OF f_inf_not_nan, of "map (cosine live) samples"]
    by (auto simp: best_score_def)
qed

lemma best_score_ge:
  "s \<in> set samples \<Longrightarrow> \<not> f_is_nan (cosine live s) \<Longrightarrow> f_le (cosine live s) (best_score live samples)"
  using foldl_f_max(4) [OF f_inf_not_nan, of "map (cosine live) samples"] by (auto simp: best_score_def)

lemma best_score_iff:
  assumes "f_in min_threshold max_threshold t"
  shows "f_le t (best_score live samples) \<longleftrightarrow> (\<exists>s\<in>set samples. f_le t (cosine live s))"
  using best_score_reached [OF _ assms] best_score_ge
  by (metis f_le_iff f_le_trans)

lemma match_against_result:
  assumes "match_against live samples w = (Ok r, w')" and "thr_ok w"
  shows "\<exists>t. f_in min_threshold max_threshold t \<and> w' = w\<lparr>thr_cache := Some t\<rparr> \<and>
    ar_score r = best_score live samples \<and> (ar_matched r \<longleftrightarrow> (\<exists>s\<in>set samples. f_le t (cosine live s)))"
  using assms by (auto simp: match_against_def res_iff best_score_iff dest!: match_threshold_result)

section \<open>Captures\<close>

lemma capture_live_result:
  assumes "capture_detect_live X w = (Ok (img, f, sg), w')"
  shows "\<exists>ev path ir prob ts r. live_evaluate ev img (face_bbox f) (face_landmarks f) path ir prob ts w' = Ok r \<and>
    lr_decision r = Real \<and> sg = lr_signals r \<and> ev_cache w' = Some (Inr ev)"
proof -
  from assms obtain path prob ts u v ir x ev r where
    ev: "cached_evaluator X v = (Ok ev, x)" and
    e: "live_evaluate ev img (face_bbox f) (face_landmarks f) path ir prob ts x = Ok r" and
    r: "lr_decision r = Real" "sg = lr_signals r" "w' = x"
    by (auto simp: capture_detect_live_def res_iff fail_def)
      (case_tac "lr_decision xb"; auto simp: fail_def)
  have "ev_cache x = Some (Inr ev)"
    using ev by (auto simp: cached_evaluator_def Let_def res_iff split: option.splits)
  then show ?thesis using e r by blast
qed

end
