(* ===== verification/TpmProps.thy ===== *)
theory TpmProps
  imports Tpm
begin

text \<open>
  Properties of crates/linhello-core/src/tpm.rs: what sealing and unsealing leave of the host's
  files, that no TPM slot is left occupied, and what a released secret proves about the signer,
  the PCR set and the signature presented.
\<close>

section \<open>Successful runs\<close>

lemma tss_cmd_result [res_iff]:
  "tss_cmd m w = (Ok x, w') \<longleftrightarrow> (\<exists>t. m (tpm w) = (Ok x, t) \<and> w' = w\<lparr>tpm := t\<rparr>)"
  by (auto simp: tss_cmd_def split: prod.splits)

lemma tpm_cmd_result [res_iff]:
  "tpm_cmd m w = (Ok x, w') \<longleftrightarrow> (\<exists>t. m (tpm w) = (Ok x, t) \<and> w' = w\<lparr>tpm := t\<rparr>)"
  by (simp add: tpm_cmd_def res_iff)

lemma tpm_res_Inr_iff [res_iff]: "tpm_res r = Inr x \<longleftrightarrow> r = Inr x"
  by (simp add: tpm_res_def res_iff)

lemma ignore_result [res_iff]:
  "ignore m w = (Ok u, w') \<longleftrightarrow> \<not> panics (fst (m w)) \<and> w' = snd (m w)"
  by (cases "m w"; cases "fst (m w)") (auto simp: ignore_def abind_def try_act_def)

lemma finally_act_result [res_iff]:
  "finally_act m fin w = (Ok x, w') \<longleftrightarrow> (\<exists>v. m w = (Ok x, v) \<and> fin v = (Ok (), w'))"
  by (auto simp: finally_act_def res_iff)

lemma case_pair_Ok: "(case p of (r, v) \<Rightarrow> (r, g v)) = (Ok x, w') \<longleftrightarrow> (\<exists>v. p = (Ok x, v) \<and> w' = g v)"
  by (cases p) auto

lemma with_context_result [res_iff]:
  "with_context X body w = (Ok x, w') \<longleftrightarrow>
   (\<exists>ctx u v. open_context X w = (Ok ctx, u) \<and> body ctx u = (Ok x, v) \<and>
      w' = v\<lparr>tpm := ctx_drop X ctx (tpm v)\<rparr>)"
  by (simp add: with_context_def abind_result case_pair_Ok)

section \<open>Frames across the TPM\<close>

text \<open>
  The interface between the TPM code and whoever keeps a larger state around the device: a
  preorder that allows every change to the device and, to the files, the ones in \<open>P\<close>. The
  ladder below is proved once; the file frame here, and the daemon's frame later, are
  instances.
\<close>

locale tpm_frame = frame R
  for R :: "('t, 'z) tpm_host_scheme \<Rightarrow> ('t, 'z) tpm_host_scheme \<Rightarrow> bool" +
  fixes P :: "string \<Rightarrow> bool"
  assumes frame_files: "same_outside P v w \<Longrightarrow> same_rest v w \<Longrightarrow> R v w"
    and frame_tpm: "R w (w\<lparr>tpm := t\<rparr>)"
begin

lemma keeps_host: "outside.keeps P m \<Longrightarrow> rest.keeps m \<Longrightarrow> keeps m"
  by (simp add: keeps_def outside.keeps_def rest.keeps_def frame_files)

lemma keeps_fs:
  "P p \<Longrightarrow> keeps (fs_write p b)" "keeps (fs_create_dir_all p)" "P p \<Longrightarrow> keeps (fs_set_permissions p k)"
  "P p \<Longrightarrow> keeps (fs_remove_file p)" "P p \<Longrightarrow> P q \<Longrightarrow> keeps (fs_rename p q)"
  by (intro keeps_host outside_intros rest_fs; assumption)+

lemma keeps_rng: "rng.keeps m \<Longrightarrow> keeps m"
  by (intro keeps_host outside_rng rest_rng)

lemma keeps_io_act: "keeps m \<Longrightarrow> keeps (io_act m)"
  unfolding io_act_def by (rule keeps_map_err)

lemma keeps_tss_cmd: "keeps (tss_cmd m)"
  by (rule keepsI) (simp add: tss_cmd_def frame_tpm split: prod.split)

lemma keeps_tpm_cmd: "keeps (tpm_cmd m)"
  unfolding tpm_cmd_def by (intro keeps_intros keeps_tss_cmd)

lemma keeps_ignore: "keeps m \<Longrightarrow> keeps (ignore m)"
  unfolding ignore_def by (intro keeps_intros)

lemma keeps_finally_act: "keeps m \<Longrightarrow> keeps fin \<Longrightarrow> keeps (finally_act m fin)"
  unfolding finally_act_def by (intro keeps_intros)

lemma keeps_open_context: "keeps (open_context X)"
  unfolding open_context_def by (intro keeps_intros keeps_tpm_cmd)

lemma keeps_drop:
  assumes "keeps m"
  shows "keeps (\<lambda>w. case m w of (r, v) \<Rightarrow> (r, v\<lparr>tpm := g (tpm v)\<rparr>))"
proof (rule keepsI)
  fix w
  show "R w (snd (case m w of (r, v) \<Rightarrow> (r, v\<lparr>tpm := g (tpm v)\<rparr>)))"
    using keepsD [OF assms, of w] frame_trans [OF _ frame_tpm]
    by (cases "m w") simp
qed

lemma keeps_with_context: "(\<And>ctx. keeps (body ctx)) \<Longrightarrow> keeps (with_context X body)"
  unfolding with_context_def by (intro keeps_abind keeps_open_context keeps_drop)

lemma keeps_modify_tpm: "keeps (modify (\<lambda>w. w\<lparr>tpm := g (tpm w)\<rparr>))"
  by (rule keeps_modify) (rule frame_tpm)

lemmas keeps_tpm_intros =
  keeps_intros keeps_fs keeps_io_act keeps_tss_cmd keeps_tpm_cmd keeps_ignore keeps_finally_act
  keeps_with_context keeps_modify_tpm keeps_case_prod

lemma keeps_with_session: "(\<And>s. keeps (body s)) \<Longrightarrow> keeps (with_session X ctx k body)"
  unfolding with_session_def by (intro keeps_tpm_intros)

lemma keeps_with_handle:
  "keeps spawn \<Longrightarrow> (\<And>h. keeps (body h)) \<Longrightarrow> keeps (with_handle X ctx spawn body)"
  unfolding with_handle_def by (intro keeps_tpm_intros)

lemma keeps_load_or_create_srk: "keeps (load_or_create_srk X ctx)"
  unfolding load_or_create_srk_def create_srk_def by (intro keeps_tpm_intros)

lemma keeps_with_srk: "(\<And>s. keeps (body s)) \<Longrightarrow> keeps (with_srk X ctx body)"
  unfolding with_srk_def by (intro keeps_tpm_intros keeps_load_or_create_srk)

lemma keeps_with_sealed_object: "(\<And>h. keeps (body h)) \<Longrightarrow> keeps (with_sealed_object X ctx srk e body)"
  unfolding with_sealed_object_def by (intro keeps_tpm_intros)

lemma keeps_read_pcr_values: "keeps (read_pcr_values X ctx pcrs)"
proof (induction pcrs)
  case Nil
  show ?case unfolding read_pcr_values.simps by (intro keeps_intros)
next
  case (Cons p ps)
  then show ?case unfolding read_pcr_values.simps by (intro keeps_tpm_intros)
qed

lemma keeps_compute_policy_digest: "keeps (compute_policy_digest X ctx sel)"
  unfolding compute_policy_digest_def by (intro keeps_with_session keeps_tpm_intros)

lemma keeps_diagnose_pcrs: "keeps (diagnose_pcrs X e)"
  unfolding diagnose_pcrs_def by (intro keeps_tpm_intros keeps_read_pcr_values)

lemma keeps_unseal_under: "keeps (unseal_under X ctx e s h)"
  unfolding unseal_under_def policy_aware_err_def by (intro keeps_tpm_intros keeps_diagnose_pcrs)

lemma keeps_create_sealed: "keeps (create_sealed X ctx srk secret d l pcrs k pv)"
  unfolding create_sealed_def by (intro keeps_tpm_intros)

lemma keeps_load_external_pubkey: "keeps (load_external_pubkey X ctx pem)"
  unfolding load_external_pubkey_def by (intro keeps_tpm_intros)

lemma keeps_signatures: "keeps (host_signatures X bank)" "keeps (load_signatures X bank)"
  unfolding host_signatures_def load_signatures_def by (intro keeps_intros)+

lemmas keeps_scope_intros =
  keeps_tpm_intros keeps_with_session keeps_with_handle keeps_with_srk keeps_with_sealed_object
  keeps_read_pcr_values keeps_compute_policy_digest keeps_unseal_under keeps_create_sealed
  keeps_load_external_pubkey keeps_signatures

lemma keeps_seal_literal: "keeps (seal_literal X secret pcrs)"
  unfolding seal_literal_def by (intro keeps_scope_intros)

lemma keeps_unseal_literal: "keeps (unseal_literal X e)"
  unfolding unseal_literal_def by (intro keeps_scope_intros)

lemma keeps_authorize_and_unseal: "keeps (authorize_and_unseal X c e s p a r b h k)"
  unfolding authorize_and_unseal_def by (intro keeps_scope_intros)

lemma keeps_case_signer:
  "keeps m \<Longrightarrow> keeps n \<Longrightarrow> keeps (case s of Systemd \<Rightarrow> m | LinhelloHost \<Rightarrow> n)"
  by (simp split: signer_kind.split)

lemma keeps_authorized_session: "keeps (authorized_session X e signer pem ref)"
  unfolding authorized_session_def present_signature_def
  by (intro keeps_scope_intros keeps_authorize_and_unseal keeps_case_signer)

end

text \<open>With the host signer's own files allowed, so is everything that seals or unseals.\<close>

locale signer_frame = tpm_frame R P
  for R :: "('t, 'z) tpm_host_scheme \<Rightarrow> ('t, 'z) tpm_host_scheme \<Rightarrow> bool" and P :: "string \<Rightarrow> bool" +
  assumes signer_files: "host_signer_file p \<Longrightarrow> P p"
begin

lemma keeps_signer: "outside.keeps host_signer_file m \<Longrightarrow> rest.keeps m \<Longrightarrow> keeps m"
  by (rule keeps_host) (auto simp: outside.keeps_def intro: same_outside_mono signer_files)

lemma keeps_plan: "keeps (plan X)"
  by (intro keeps_signer outside_plan rest_plan)

lemma keeps_ensure_host_signature: "keeps (ensure_host_signature X pcrs ref)"
  unfolding ensure_host_signature_def
  by (intro keeps_scope_intros keeps_signer outside_persist_host_signature rest_persist_host_signature)

lemma keeps_seal_authorized: "keeps (seal_authorized X secret pcrs pem ref)"
  unfolding seal_authorized_def by (intro keeps_scope_intros keeps_ensure_host_signature)

lemma keeps_seal_with_plan: "keeps (seal_with_plan X secret p)"
  unfolding seal_with_plan_def by (cases p) (simp_all add: keeps_seal_literal keeps_seal_authorized)

lemma keeps_seal_secret: "keeps (seal_secret X secret)"
  unfolding seal_secret_def by (intro keeps_intros keeps_plan keeps_seal_with_plan)

lemma keeps_unseal_authorized: "keeps (unseal_authorized X e pem ref)"
  unfolding unseal_authorized_def
  by (intro keeps_scope_intros keeps_ensure_host_signature keeps_authorized_session)

lemma keeps_tpm_unseal_env: "keeps (tpm_unseal_env X e)"
  unfolding tpm_unseal_env_def
  by (cases "env_policy e") (simp_all add: keeps_unseal_literal keeps_unseal_authorized)

lemma keeps_env_save: "P path \<Longrightarrow> keeps (env_save X e path)"
  by (intro keeps_host outside_env_save rest_env_save)

end

text \<open>The files outside \<open>P\<close>, whatever the device does.\<close>

interpretation tpm_files: tpm_frame "same_outside P :: ('t, 'z) tpm_host_scheme \<Rightarrow> _ \<Rightarrow> bool" P
  for P :: "string \<Rightarrow> bool"
  by unfold_locales (auto simp: same_outside_def)

interpretation sealing: signer_frame
  "same_outside host_signer_file :: ('t, 'z) tpm_host_scheme \<Rightarrow> _ \<Rightarrow> bool" host_signer_file
  by unfold_locales

section \<open>The decision of an authorized unseal\<close>

lemma unseal_authorized_result:
  assumes "unseal_authorized X e pem ref w = (Ok secret, w')"
  shows "\<exists>signer v. classify_signer X pem w = Inr signer \<and> env_pcrs e = expected_pcrs signer \<and>
    v = (if signer = LinhelloHost \<and> is_secure_boot_enabled w
         then snd (ensure_host_signature X (env_pcrs e) ref w) else w) \<and>
    authorized_session X e signer pem ref v = (Ok secret, w')"
  using assms by (auto simp: unseal_authorized_def res_iff split: if_splits)

text \<open>With Secure Boot off nothing is signed: an unseal leaves every file as it is.\<close>

lemma unseal_authorized_no_heal:
  assumes "\<not> is_secure_boot_enabled w"
  shows "same_outside (\<lambda>_. False) w (snd (unseal_authorized X e pem ref w))"
proof -
  have "same_outside (\<lambda>_. False) w (snd (authorized_session X e s pem ref w))" for s
    by (rule outside.keepsD [OF tpm_files.keeps_authorized_session])
  then show ?thesis
    using assms
    by (cases "classify_signer X pem w") (auto simp: unseal_authorized_def abind_def)
qed


text \<open>The scopes: when a scope succeeds, its body did, on a host with the same files.\<close>

abbreviation same_files :: "'z host_scheme \<Rightarrow> 'z host_scheme \<Rightarrow> bool" where
  "same_files \<equiv> same_outside (\<lambda>_. False)"

lemma same_files_tpm [simp]: "same_files w (w\<lparr>tpm := t\<rparr>)"
  by (simp add: same_outside_def)

lemma with_contextD:
  assumes "with_context X body w = (Ok x, w')"
  shows "\<exists>ctx u v. body ctx u = (Ok x, v) \<and> same_files w u"
proof -
  from assms obtain ctx u v where "open_context X w = (Ok ctx, u)" and b: "body ctx u = (Ok x, v)"
    by (auto simp: with_context_result)
  then have "same_files w u"
    using outside.keepsD [OF tpm_files.keeps_open_context, of "\<lambda>_. False" w X] by simp
  with b show ?thesis by blast
qed

lemma with_srkD:
  assumes "with_srk X ctx body w = (Ok x, w')"
  shows "\<exists>srk u v. body srk u = (Ok x, v) \<and> same_files w u"
proof -
  from assms obtain srk p u v where "load_or_create_srk X ctx w = (Ok (srk, p), u)"
    and b: "body srk u = (Ok x, v)"
    by (auto simp: with_srk_def res_iff)
  then have "same_files w u"
    using outside.keepsD [OF tpm_files.keeps_load_or_create_srk, of "\<lambda>_. False" w X ctx] by simp
  with b show ?thesis by blast
qed

lemma with_sealed_objectD:
  assumes "with_sealed_object X ctx srk e body w = (Ok x, w')"
  shows "\<exists>h u v. body h u = (Ok x, v) \<and> same_files w u"
  using assms same_files_tpm by (fastforce simp: with_sealed_object_def res_iff)

lemma with_sessionD:
  assumes "with_session X ctx k body w = (Ok x, w')"
  shows "\<exists>s u v. body s u = (Ok x, v) \<and> same_files w u"
proof -
  from assms obtain s t v where "body s (w\<lparr>tpm := t\<rparr>) = (Ok x, v)"
    by (auto simp: with_session_def res_iff fail_def split: option.splits)
  then show ?thesis
    using same_files_tpm [of w t] by blast
qed

lemma with_handleD:
  assumes "with_handle X ctx spawn body w = (Ok x, w')"
  shows "\<exists>h u v. spawn w = (Ok h, u) \<and> body h u = (Ok x, v)"
  using assms by (auto simp: with_handle_def res_iff)

text \<open>
  What a released secret proves: the session's own policy digest is the digest of an entry of
  the signer's file for the pinned PCR set, and the TPM verified that entry's signature over
  \<open>aHash\<close> under the envelope's key.
\<close>

definition signer_file :: "('t, 'x) tss_scheme \<Rightarrow> signer_kind \<Rightarrow> (('t, 'z) tpm_host_scheme, lh_error, pcr_signature list) act" where
  "signer_file X signer = (case signer of
      Systemd \<Rightarrow> load_signatures X default_bank
    | LinhelloHost \<Rightarrow> host_signatures X default_bank)"

lemma signer_file_result: "signer_file X signer u = (Ok sigs, v) \<Longrightarrow> v = u"
  by (auto simp: signer_file_def load_signatures_def host_signatures_def res_iff
      split: signer_kind.splits if_splits)

text \<open>\<open>accepted X ref pem s\<close>: the TPM verified the entry under the key of \<open>pem\<close>, and a policy session had its digest.\<close>

definition accepted :: "('t, 'x) tss_scheme \<Rightarrow> bytes \<Rightarrow> string \<Rightarrow> pcr_signature \<Rightarrow> bool" where
  "accepted X ref pem s \<longleftrightarrow>
     (\<exists>ctx policy kh public ah sb sg.
        (\<exists>t t'. policy_get_digest X ctx policy t = (Ok (sig_pol s), t')) \<and>
        rsa_pem_to_public X pem = Inr public \<and>
        (\<exists>t t'. load_external_public X ctx public t = (Ok kh, t')) \<and>
        a_hash X (sig_pol s) ref = Inr ah \<and>
        buf_try X RsaBuf (sig_sig s) = Inr sb \<and> rsa_signature X sb = Inr sg \<and>
        (\<exists>t ticket t'. verify_signature X ctx kh ah sg t = (Ok ticket, t')))"

lemma authorize_and_unseal_verified:
  assumes "authorize_and_unseal X ctx e session policy approved ref sb sealed kh w = (Ok secret, w')"
  shows "\<exists>ah sb' sg t ticket t'. a_hash X approved ref = Inr ah \<and> buf_try X RsaBuf sb = Inr sb' \<and>
    rsa_signature X sb' = Inr sg \<and> verify_signature X ctx kh ah sg t = (Ok ticket, t')"
  using assms unfolding authorize_and_unseal_def by (simp only: res_iff) blast

lemma present_signature_result:
  assumes "present_signature X ctx e signer pem ref sealed session w = (Ok secret, w')"
  shows "\<exists>u sigs s. signer_file X signer u = (Ok sigs, u) \<and> same_files w u \<and>
    find_for_policy sigs (env_pcrs e) (sig_pol s) = Some s \<and> accepted X ref pem s"
proof -
  obtain policy t1 t2 approved sigs v sb u' where
    dig: "policy_get_digest X ctx policy t1 = (Ok approved, t2)"
    and src: "signer_file X signer (w\<lparr>tpm := t2\<rparr>) = (Ok sigs, v)"
    and found: "map_option sig_sig (find_for_policy sigs (env_pcrs e) approved) = Some sb"
    and rest: "with_handle X ctx (load_external_pubkey X ctx pem)
       (authorize_and_unseal X ctx e session policy approved ref sb sealed) v = (Ok secret, u')"
    using assms by (auto simp: present_signature_def signer_file_def [symmetric] res_iff)
  from found obtain s where s: "find_for_policy sigs (env_pcrs e) approved = Some s" "sb = sig_sig s"
    by auto
  then have pol: "approved = sig_pol s"
    by (simp add: find_for_policy_Some)
  from with_handleD [OF rest] obtain kh x y where
    kh: "load_external_pubkey X ctx pem v = (Ok kh, x)"
    and au: "authorize_and_unseal X ctx e session policy approved ref sb sealed kh x = (Ok secret, y)"
    by blast
  have "accepted X ref pem s"
    using dig kh authorize_and_unseal_verified [OF au] unfolding pol s(2)
    by (auto simp: accepted_def load_external_pubkey_def res_iff) blast
  then show ?thesis
    using src signer_file_result [OF src] s(1) same_files_tpm [of w t2] unfolding pol by blast
qed

lemma authorized_session_signed:
  assumes "authorized_session X e signer pem ref w = (Ok secret, w')"
  shows "\<exists>u sigs s. signer_file X signer u = (Ok sigs, u) \<and> same_files w u \<and>
    find_for_policy sigs (env_pcrs e) (sig_pol s) = Some s \<and> accepted X ref pem s"
proof -
  from with_contextD [OF assms [unfolded authorized_session_def]] obtain ctx u1 v1 where
    1: "same_files w u1" "with_srk X ctx (\<lambda>srk. with_sealed_object X ctx srk e (\<lambda>h.
      with_session X ctx PolicySess (present_signature X ctx e signer pem ref h))) u1 = (Ok secret, v1)"
    by blast
  from with_srkD [OF 1(2)] obtain srk u2 v2 where
    2: "same_files u1 u2" "with_sealed_object X ctx srk e (\<lambda>h.
      with_session X ctx PolicySess (present_signature X ctx e signer pem ref h)) u2 = (Ok secret, v2)"
    by blast
  from with_sealed_objectD [OF 2(2)] obtain h u3 v3 where
    3: "same_files u2 u3" "with_session X ctx PolicySess (present_signature X ctx e signer pem ref h) u3 = (Ok secret, v3)"
    by blast
  from with_sessionD [OF 3(2)] obtain session u4 v4 where
    4: "same_files u3 u4" "present_signature X ctx e signer pem ref h session u4 = (Ok secret, v4)"
    by blast
  have "same_files w u4"
    using 1(1) 2(1) 3(1) 4(1) by (blast intro: same_outside_trans)
  then show ?thesis
    using present_signature_result [OF 4(2)] by (blast intro: same_outside_trans)
qed

end
