(* ===== verification/CoreLib.thy ===== *)
theory CoreLib
  imports TpmProps Config
begin

text \<open>
  The security engine's entry points, crates/linhello-core/src/lib.rs: user-name validation, the
  per-user paths, sealed secrets and passwords, the template key, the recovery passphrase and
  the encrypted embeddings. \<open>memlock::lock_slice\<close> only advises the kernel and always returns
  \<open>Ok\<close>, so it leaves no trace in the model.
\<close>

section \<open>Users and paths\<close>

definition envelope_path :: string where
  "envelope_path = path_join config_root ''tpm_envelope.json''"

definition validate_user :: "string \<Rightarrow> lh_error + unit" where
  "validate_user user =
     (if user = [] \<or> user = ''.'' \<or> user = ''..'' \<or> CHR ''/'' \<in> set user \<or> CHR 0x5C \<in> set user \<or>
         CHR 0x00 \<in> set user
      then Inl (Policy ''invalid user name'') else Inr ())"

definition user_file :: "string \<Rightarrow> string \<Rightarrow> lh_error + string" where
  "user_file name user =
     rbind (validate_user user) (\<lambda>_. Inr (path_join (path_join config_root user) name))"

definition password_envelope_path :: "string \<Rightarrow> lh_error + string" where
  "password_envelope_path user = user_file ''password_envelope.json'' user"

definition template_key_path :: "string \<Rightarrow> lh_error + string" where
  "template_key_path user = user_file ''template_key_envelope.json'' user"

definition encrypted_embedding_path :: "string \<Rightarrow> lh_error + string" where
  "encrypted_embedding_path user = user_file ''embedding.enc'' user"

definition legacy_embedding_path :: "string \<Rightarrow> lh_error + string" where
  "legacy_embedding_path user = user_file ''embedding.bin'' user"

definition recovery_envelope_path :: "string \<Rightarrow> lh_error + string" where
  "recovery_envelope_path user = user_file ''recovery_envelope.json'' user"

section \<open>The keyring secret and the login password\<close>

definition detect_security_level :: "('x pki_ext_scheme) \<Rightarrow> ('z host_scheme, 'e, security_level) act" where
  "detect_security_level X = detect X"

definition reseal_random_secret ::
  "('t, 'x) tss_scheme \<Rightarrow> (('t, 'z) tpm_host_scheme, lh_error, bytes) act" where
  "reseal_random_secret X =
     abind (fill_bytes X 32) (\<lambda>buf.
     abind (seal_secret X buf) (\<lambda>e.
     abind (env_save X e envelope_path) (\<lambda>_. ret buf)))"

definition reseal_secret ::
  "('t, 'x) tss_scheme \<Rightarrow> bytes \<Rightarrow> (('t, 'z) tpm_host_scheme, lh_error, unit) act" where
  "reseal_secret X secret =
     (if secret = [] then fail (Policy ''empty secret'')
      else abind (seal_secret X secret) (\<lambda>e. env_save X e envelope_path))"

definition unseal_at ::
  "('t, 'x) tss_scheme \<Rightarrow> string \<Rightarrow> (('t, 'z) tpm_host_scheme, lh_error, bytes) act" where
  "unseal_at X path =
     abind (query (env_load X path)) (\<lambda>r.
     abind (lift r) (\<lambda>e. tpm_unseal_env X e))"

definition unseal_keyring_secret ::
  "('t, 'x) tss_scheme \<Rightarrow> (('t, 'z) tpm_host_scheme, lh_error, bytes) act" where
  "unseal_keyring_secret X = unseal_at X envelope_path"

text \<open>\<open>tpm::seal_secret\<close>, \<open>save\<close>, then \<open>set_permissions(0o600)\<close>.\<close>

definition seal_to ::
  "('t, 'x) tss_scheme \<Rightarrow> bytes \<Rightarrow> string \<Rightarrow> (('t, 'z) tpm_host_scheme, lh_error, unit) act" where
  "seal_to X secret path =
     abind (seal_secret X secret) (\<lambda>e.
     abind (env_save X e path) (\<lambda>_.
     io_act (fs_set_permissions path 384)))"

definition seal_password ::
  "('t, 'x) tss_scheme \<Rightarrow> string \<Rightarrow> bytes \<Rightarrow> (('t, 'z) tpm_host_scheme, lh_error, unit) act" where
  "seal_password X user password =
     (if password = [] then fail (Policy ''empty password'')
      else abind (lift (password_envelope_path user)) (\<lambda>path. seal_to X password path))"

definition unseal_password ::
  "('t, 'x) tss_scheme \<Rightarrow> string \<Rightarrow> (('t, 'z) tpm_host_scheme, lh_error, bytes) act" where
  "unseal_password X user =
     abind (lift (password_envelope_path user)) (\<lambda>path. unseal_at X path)"

section \<open>The template key\<close>

definition unseal_template_key ::
  "('t, 'x) tss_scheme \<Rightarrow> string \<Rightarrow> (('t, 'z) tpm_host_scheme, lh_error, bytes) act" where
  "unseal_template_key X user =
     abind (lift (template_key_path user)) (\<lambda>kp. unseal_at X kp)"

definition ensure_template_key ::
  "('t, 'x) tss_scheme \<Rightarrow> string \<Rightarrow> (('t, 'z) tpm_host_scheme, lh_error, bytes) act" where
  "ensure_template_key X user =
     abind (lift (template_key_path user)) (\<lambda>kp.
     abind (query (path_exists kp)) (\<lambda>present.
     if present then unseal_template_key X user
     else
       abind (generate_key X) (\<lambda>key.
       abind (seal_to X key kp) (\<lambda>_. ret key))))"

definition seal_template_key ::
  "('t, 'x) tss_scheme \<Rightarrow> string \<Rightarrow> bytes \<Rightarrow> (('t, 'z) tpm_host_scheme, lh_error, unit) act" where
  "seal_template_key X user key =
     (if length key \<noteq> key_len then fail (key_len_error key)
      else abind (lift (template_key_path user)) (\<lambda>kp. seal_to X key kp))"

section \<open>The recovery passphrase\<close>

definition recovery_exists :: "string \<Rightarrow> 'z host_scheme \<Rightarrow> bool" where
  "recovery_exists user w =
     (case recovery_envelope_path user of Inl _ \<Rightarrow> False | Inr p \<Rightarrow> path_exists p w)"

definition make_parent :: "string \<Rightarrow> ('z host_scheme, lh_error, unit) act" where
  "make_parent path = (case parent path of None \<Rightarrow> ret () | Some d \<Rightarrow> io_act (fs_create_dir_all d))"

definition save_recovery ::
  "('t, 'x) tss_scheme \<Rightarrow> string \<Rightarrow> bytes \<Rightarrow> (('t, 'z) tpm_host_scheme, lh_error, unit) act" where
  "save_recovery X user passphrase =
     abind (unseal_template_key X user) (\<lambda>key.
     abind (wrap X passphrase key) (\<lambda>e.
     abind (lift (recovery_envelope_path user)) (\<lambda>path.
     abind (make_parent path) (\<lambda>_.
     abind (io_act (fs_write path (rec_to_json X e))) (\<lambda>_.
     io_act (fs_set_permissions path 384))))))"

definition restore_from_recovery ::
  "('t, 'x) tss_scheme \<Rightarrow> string \<Rightarrow> bytes \<Rightarrow> (('t, 'z) tpm_host_scheme, lh_error, unit) act" where
  "restore_from_recovery X user passphrase =
     abind (lift (recovery_envelope_path user)) (\<lambda>path.
     abind (query (fs_read_to_string path)) (\<lambda>r.
     abind (lift (map_err (\<lambda>_. Policy (''no recovery passphrase is set for '' @ quoted user)) r)) (\<lambda>json.
     abind (lift (map_err Serde (rec_of_json X json))) (\<lambda>e.
     abind (lift (unwrap X passphrase e)) (\<lambda>key.
     seal_template_key X user key)))))"

section \<open>Encrypted embeddings\<close>

definition save_encrypted_embedding ::
  "('x crypto_ext_scheme) \<Rightarrow> string \<Rightarrow> bytes \<Rightarrow> bytes \<Rightarrow> ('z host_scheme, lh_error, unit) act" where
  "save_encrypted_embedding X user raw key =
     abind (lift (encrypted_embedding_path user)) (\<lambda>enc_path.
     abind (make_parent enc_path) (\<lambda>_.
     abind (encrypt X key raw) (\<lambda>blob.
     abind (io_act (fs_write enc_path blob)) (\<lambda>_.
     abind (io_act (fs_set_permissions enc_path 384)) (\<lambda>_.
     abind (lift (legacy_embedding_path user)) (\<lambda>legacy.
     ignore (fs_remove_file legacy)))))))"

definition legacy_migration_allowed :: "'z host_scheme \<Rightarrow> bool" where
  "legacy_migration_allowed w =
     (case env_vars w ''LINHELLO_ALLOW_LEGACY_MIGRATION'' of
        None \<Rightarrow> False
      | Some v \<Rightarrow> truthy v)"

definition load_encrypted_embedding ::
  "('x crypto_ext_scheme) \<Rightarrow> string \<Rightarrow> bytes \<Rightarrow> ('z host_scheme, lh_error, bytes) act" where
  "load_encrypted_embedding X user key =
     abind (lift (encrypted_embedding_path user)) (\<lambda>enc_path.
     abind (query (path_exists enc_path)) (\<lambda>present.
     if present then
       abind (query (\<lambda>w. map_err Io (fs_read enc_path w))) (\<lambda>r.
       abind (lift r) (\<lambda>blob. lift (decrypt X key blob)))
     else
       abind (lift (legacy_embedding_path user)) (\<lambda>legacy.
       abind (query (path_exists legacy)) (\<lambda>old.
       if old then
         abind (query legacy_migration_allowed) (\<lambda>allowed.
         if \<not> allowed then
           fail (Biometrics (''found legacy plaintext template for '' @ quoted user @
             '' but migration is disabled (unauthenticated at rest). Re-enroll, or set LINHELLO_ALLOW_LEGACY_MIGRATION=1 for a one-time upgrade.''))
         else
           abind (query (\<lambda>w. map_err Io (fs_read legacy w))) (\<lambda>r.
           abind (lift r) (\<lambda>raw.
           abind (save_encrypted_embedding X user raw key) (\<lambda>_.
           abind (ignore (fs_remove_file legacy)) (\<lambda>_. ret raw)))))
       else fail (Biometrics (''no enrollment found for user '' @ quoted user))))))"

section \<open>Paths stay below the configuration root\<close>

lemma validate_user_Inr_iff [res_iff]:
  "validate_user user = Inr u \<longleftrightarrow> user \<noteq> [] \<and> user \<noteq> ''.'' \<and> user \<noteq> ''..'' \<and>
     CHR ''/'' \<notin> set user \<and> CHR 0x5C \<notin> set user \<and> CHR 0x00 \<notin> set user"
  by (simp add: validate_user_def)

lemma user_file_result:
  assumes "user_file name user = Inr p" and "CHR ''/'' \<notin> set name"
  shows "p = config_root @ ''/'' @ user @ ''/'' @ name \<and> parent p = Some (config_root @ ''/'' @ user)"
proof -
  have "p = (config_root @ ''/'' @ user) @ ''/'' @ name"
    using assms by (auto simp: user_file_def res_iff path_join_plain)
  then show ?thesis
    using parent_join [OF assms(2), of "config_root @ ''/'' @ user"] by simp
qed

definition user_area :: "string \<Rightarrow> string \<Rightarrow> bool" where
  "user_area user p \<longleftrightarrow> below (config_root @ ''/'' @ user) p"

lemma user_file_area:
  "user_file name user = Inr p \<Longrightarrow> CHR ''/'' \<notin> set name \<Longrightarrow> user_area user p"
  by (drule (1) user_file_result) (simp add: user_area_def below_def)

text \<open>Two users' areas are disjoint, and neither holds a file of the daemon itself.\<close>

lemma user_area_disjoint:
  assumes "user_area u p" and "user_area v p" and "CHR ''/'' \<notin> set u" and "CHR ''/'' \<notin> set v"
  shows "u = v"
proof -
  from assms(1,2) obtain a b where "u @ ''/'' @ a = v @ ''/'' @ b"
    by (auto simp: user_area_def below_def prefix_def)
  then have "split_once (CHR ''/'') (u @ ''/'' @ a) = split_once (CHR ''/'') (v @ ''/'' @ b)"
    by simp
  then show ?thesis
    using assms(3,4) by simp
qed

lemma user_area_config_file: "CHR ''/'' \<notin> set f \<Longrightarrow> \<not> user_area u (config_root @ ''/'' @ f)"
  by (auto simp: user_area_def below_def prefix_def)

section \<open>What the entry points leave alone\<close>

lemma outside_make_parent: "outside.keeps P (make_parent p)"
  unfolding make_parent_def by (intro outside_intros)

lemma rest_make_parent: "rest.keeps (make_parent p)"
  unfolding make_parent_def by (intro rest_intros)

text \<open>With a user's own area allowed, so is every entry point called for that user.\<close>

locale core_frame = signer_frame R P
  for R :: "('t, 'z) tpm_host_scheme \<Rightarrow> ('t, 'z) tpm_host_scheme \<Rightarrow> bool" and P :: "string \<Rightarrow> bool" +
  fixes user :: string
  assumes area_files: "user_area user p \<Longrightarrow> P p"
begin

lemma keeps_lift_bind: "(\<And>x. r = Inr x \<Longrightarrow> keeps (f x)) \<Longrightarrow> keeps (abind (lift r) f)"
  by (cases r) (auto simp: keeps_def abind_def frame_refl)

lemma keeps_make_parent: "keeps (make_parent p)"
  by (intro keeps_host outside_make_parent rest_make_parent)

lemma keeps_user_file:
  assumes "\<And>p. P p \<Longrightarrow> keeps (f p)" and "CHR ''/'' \<notin> set name"
  shows "keeps (abind (lift (user_file name user)) f)"
proof (rule keeps_lift_bind, rule assms(1), rule area_files)
  fix p assume "user_file name user = Inr p"
  then show "user_area user p" using assms(2) by (rule user_file_area)
qed

lemma keeps_seal_to: "P p \<Longrightarrow> keeps (seal_to X secret p)"
  unfolding seal_to_def by (intro keeps_tpm_intros keeps_seal_secret keeps_env_save)

lemma keeps_unseal_at: "keeps (unseal_at X p)"
  unfolding unseal_at_def by (intro keeps_intros keeps_tpm_unseal_env)

lemma keeps_unseal_template_key: "keeps (unseal_template_key X u)"
  unfolding unseal_template_key_def by (intro keeps_intros keeps_unseal_at)

lemma keeps_unseal_password: "keeps (unseal_password X u)"
  unfolding unseal_password_def by (intro keeps_intros keeps_unseal_at)

lemma keeps_ensure_template_key: "keeps (ensure_template_key X user)"
  unfolding ensure_template_key_def template_key_path_def generate_key_def
  by (intro keeps_user_file keeps_intros keeps_unseal_template_key keeps_rng rng_fill_bytes keeps_seal_to) auto

lemma keeps_seal_template_key: "keeps (seal_template_key X user key)"
  unfolding seal_template_key_def template_key_path_def
  by (intro keeps_if keeps_pure keeps_user_file keeps_seal_to) auto

lemma keeps_seal_password: "keeps (seal_password X user pw)"
  unfolding seal_password_def password_envelope_path_def
  by (intro keeps_if keeps_pure keeps_user_file keeps_seal_to) auto

lemma keeps_save_recovery: "keeps (save_recovery X user pass)"
  unfolding save_recovery_def recovery_envelope_path_def
  by (intro keeps_abind keeps_unseal_template_key keeps_rng [OF rng_wrap] keeps_user_file
      keeps_make_parent keeps_tpm_intros) auto

lemma keeps_restore_from_recovery: "keeps (restore_from_recovery X user pass)"
  unfolding restore_from_recovery_def by (intro keeps_intros keeps_seal_template_key)

lemma keeps_save_encrypted_embedding: "keeps (save_encrypted_embedding X user raw key)"
  unfolding save_encrypted_embedding_def encrypted_embedding_path_def legacy_embedding_path_def
  by (intro keeps_user_file keeps_abind keeps_make_parent keeps_rng [OF rng_encrypt] keeps_tpm_intros) auto

lemma keeps_load_encrypted_embedding: "keeps (load_encrypted_embedding X user key)"
  unfolding load_encrypted_embedding_def legacy_embedding_path_def
  by (intro keeps_abind keeps_if keeps_user_file keeps_save_encrypted_embedding keeps_tpm_intros) auto

end

definition user_or_signer :: "string \<Rightarrow> string \<Rightarrow> bool" where
  "user_or_signer user p \<longleftrightarrow> user_area user p \<or> host_signer_file p"

interpretation user_files: core_frame
  "same_outside (user_or_signer user) :: ('t, 'z) tpm_host_scheme \<Rightarrow> _ \<Rightarrow> bool" "user_or_signer user" user
  for user :: string
  by unfold_locales (auto simp: user_or_signer_def)

section \<open>Round trips\<close>

lemma rng_result: "rng.keeps m \<Longrightarrow> m w = (r, v) \<Longrightarrow> \<exists>n. v = w\<lparr>draws := n\<rparr>"
  by (metis rng.keepsD same_but_draws_def snd_conv)

lemma make_parent_result:
  "make_parent p w = (Ok (), v) \<Longrightarrow> files v = files w \<and> modes v = modes w \<and> io_fault v = io_fault w"
  by (auto simp: make_parent_def res_iff dest: fs_create_dir_all_result split: option.splits)

lemma fs_remove_file_snd:
  "files (snd (fs_remove_file p w)) q = (if q = p \<and> io_fault w OpRemove p = None then None else files w q)"
  "modes (snd (fs_remove_file p w)) q = (if q = p \<and> io_fault w OpRemove p = None \<and> files w p \<noteq> None then None else modes w q)"
  "io_fault (snd (fs_remove_file p w)) = io_fault w"
  by (auto simp: fs_remove_file_def split: option.splits)

lemma embedding_paths:
  assumes "validate_user user = Inr ()"
  shows "encrypted_embedding_path user = Inr (config_root @ ''/'' @ user @ ''/embedding.enc'')"
    and "legacy_embedding_path user = Inr (config_root @ ''/'' @ user @ ''/embedding.bin'')"
  using assms
  by (simp_all add: encrypted_embedding_path_def legacy_embedding_path_def user_file_def res_iff path_join_plain)

text \<open>After a save: the ciphertext is there, readable by root alone, and no plaintext is left.\<close>

lemma save_encrypted_embedding_result:
  fixes w :: "'z host_scheme"
  assumes "save_encrypted_embedding X user raw key w = (Ok (), w')"
  defines "enc \<equiv> config_root @ ''/'' @ user @ ''/embedding.enc''"
    and "leg \<equiv> config_root @ ''/'' @ user @ ''/embedding.bin''"
  shows "\<exists>blob u v. encrypt X key raw (u :: 'z host_scheme) = (Ok blob, v) \<and> validate_user user = Inr () \<and>
    files w' enc = Some blob \<and> modes w' enc = Some 384 \<and> io_fault w' = io_fault w \<and>
    (io_fault w OpRemove leg = None \<longrightarrow> files w' leg = None)"
proof -
  have ne: "enc \<noteq> leg" by (simp add: enc_def leg_def)
  have v: "validate_user user = Inr ()"
    using assms(1) by (auto simp: save_encrypted_embedding_def encrypted_embedding_path_def user_file_def res_iff)
  from assms(1) obtain u blob x where
    mp: "make_parent enc w = (Ok (), u)" and e: "encrypt X key raw u = (Ok blob, x)"
    and rest: "abind (io_act (fs_write enc blob)) (\<lambda>_.
       abind (io_act (fs_set_permissions enc 384)) (\<lambda>_. ignore (fs_remove_file leg))) x = (Ok (), w')"
    by (auto simp: save_encrypted_embedding_def embedding_paths [OF v] abind_result lift_result enc_def leg_def)
  from rng_result [OF rng_encrypt e] obtain n where x: "x = u\<lparr>draws := n\<rparr>" ..
  from rest have w': "w' = snd (fs_remove_file leg ((put_file enc blob x)\<lparr>modes := (modes (put_file enc blob x))(enc \<mapsto> 384)\<rparr>))"
    by (auto simp: res_iff dest!: fs_write_result fs_set_permissions_result)
  show ?thesis
    using e v ne x make_parent_result [OF mp] by (auto simp: w' fs_remove_file_snd)
qed

lemma load_save_embedding:
  fixes w :: "'b host_scheme"
  assumes s: "save_encrypted_embedding X user raw key w = (Ok (), w')"
    and laws: "rand_law X" "gcm_law X" and "\<And>op. op = OpStat \<or> op = OpRead \<Longrightarrow>
      io_fault w op (config_root @ ''/'' @ user @ ''/embedding.enc'') = None"
  shows "load_encrypted_embedding X user key w' = (Ok raw, w')"
proof -
  from save_encrypted_embedding_result [OF s] obtain blob and u v :: "'b host_scheme" where
    e: "encrypt X key raw u = (Ok blob, v)" and v: "validate_user user = Inr ()"
    and f: "files w' (config_root @ ''/'' @ user @ ''/embedding.enc'') = Some blob"
    and io: "io_fault w' = io_fault w" by blast
  have "decrypt X key blob = Inr raw"
    using e laws by (rule decrypt_encrypt)
  then show ?thesis
    using f io assms(4)
    by (simp add: load_encrypted_embedding_def embedding_paths [OF v] abind_def path_exists_def fs_read_def)
qed

text \<open>Without the opt-in, a plaintext template is never adopted.\<close>

lemma legacy_refused:
  assumes "load_encrypted_embedding X user key w = (Ok raw, w')"
  shows "(\<exists>blob. files w (config_root @ ''/'' @ user @ ''/embedding.enc'') = Some blob \<and>
            decrypt X key blob = Inr raw \<and> w' = w) \<or> legacy_migration_allowed w"
proof -
  have v: "validate_user user = Inr ()"
    using assms by (auto simp: load_encrypted_embedding_def encrypted_embedding_path_def user_file_def res_iff)
  show ?thesis
    using assms
    by (auto simp: load_encrypted_embedding_def embedding_paths [OF v] res_iff fs_read_def fail_def
        split: if_splits option.splits)
qed

lemma seal_to_result:
  assumes "seal_to X secret p w = (Ok (), w')"
  shows "\<exists>e v. seal_secret X secret w = (Ok e, v) \<and> files w' p = Some (env_to_json X e) \<and>
    modes w' p = Some 384 \<and> io_fault w' = io_fault v"
  using assms
  by (auto simp: seal_to_def env_save_def res_iff
      dest!: fs_write_result fs_set_permissions_result split: option.splits)
    (auto dest!: fs_create_dir_all_result)

text \<open>A saved recovery envelope gives the sealed key back to the same passphrase.\<close>

lemma restore_after_save:
  assumes s: "save_recovery X user pass w = (Ok (), w')"
    and laws: "rand_law X" "gcm_law X" "b64_law X" "rec_json_law X"
    and rd: "io_fault w' OpRead (config_root @ ''/'' @ user @ ''/recovery_envelope.json'') = None"
  shows "\<exists>key v. unseal_template_key X user w = (Ok key, v) \<and>
    restore_from_recovery X user pass w' = seal_template_key X user key w'"
proof -
  let ?p = "config_root @ ''/'' @ user @ ''/recovery_envelope.json''"
  from s obtain key v where k: "unseal_template_key X user w = (Ok key, v)"
    by (auto simp: save_recovery_def res_iff)
  then have val: "validate_user user = Inr ()"
    by (auto simp: unseal_template_key_def template_key_path_def user_file_def res_iff)
  then have p: "recovery_envelope_path user = Inr ?p"
    by (simp add: recovery_envelope_path_def user_file_def res_iff path_join_plain)
  from s k p obtain e x y where wr: "wrap X pass key v = (Ok e, x)"
    and y: "files w' ?p = Some (rec_to_json X e)"
    by (auto simp: save_recovery_def res_iff dest!: fs_write_result fs_set_permissions_result)
  have "unwrap X pass e = Inr key"
    using wr laws(1-3) by (rule unwrap_wrap)
  then show ?thesis
    using k y rd laws(4)
    by (auto simp: restore_from_recovery_def p abind_def fs_read_to_string_def fs_read_def rec_json_law_def)
qed

end
