(* ===== verification/Daemon.thy ===== *)
theory Daemon
  imports BioProps CoreLib "HOL-Library.List_Lexorder" "HOL-Library.Char_ord"
begin

text \<open>
  The daemon, crates/linhello-daemon/src/main.rs with users.rs: peer authorization, the template
  key cache, every request handler, the dispatcher and the connection handler. \<open>getpwnam_r\<close>, the
  JSON of messages, bindings and calibrations, and the capability probe are parameters in
  \<open>daemon_ext\<close>. Log lines are not modelled.
\<close>

record ('t, 's) daemon_ext = "('t, 's) ext" +
  getpwnam :: "string \<Rightarrow> nat option"
  binding_to_json :: "camera_binding \<Rightarrow> string"
  binding_of_json :: "string \<Rightarrow> string + camera_binding"
  cal_to_json :: "ir_calibration \<Rightarrow> string"
  cal_of_json :: "string \<Rightarrow> string + ir_calibration"
  req_of_json :: "string \<Rightarrow> string + request"
  resp_to_json :: "response \<Rightarrow> string"
  join_error :: "string \<Rightarrow> string"
  probe_caps :: "'s \<Rightarrow> capability_report \<times> 's"

section \<open>users.rs\<close>

definition uid_for_name :: "('t, 's, 'x) daemon_ext_scheme \<Rightarrow> string \<Rightarrow> nat option" where
  "uid_for_name X name = (if CHR 0x00 \<in> set name then None else getpwnam X name)"

definition peer_may_act_as :: "('t, 's, 'x) daemon_ext_scheme \<Rightarrow> nat option \<Rightarrow> string \<Rightarrow> bool" where
  "peer_may_act_as X peer user =
     (case peer of
        None \<Rightarrow> False
      | Some u \<Rightarrow> if u = 0 then True else uid_for_name X user = Some u)"

section \<open>The template key cache\<close>

definition cached_template_key ::
  "('t, 's, 'x) daemon_ext_scheme \<Rightarrow> string \<Rightarrow> (('t, 's, 'z) world_scheme, string, bytes) act" where
  "cached_template_key X user =
     abind (query (\<lambda>w. key_cache w user)) (\<lambda>hit.
     case hit of
       Some key \<Rightarrow> ret key
     | None \<Rightarrow>
         abind (amap_err err_to_string (ensure_template_key X user)) (\<lambda>key.
         abind (modify (\<lambda>w. w\<lparr>key_cache := (key_cache w)(user \<mapsto> key)\<rparr>)) (\<lambda>_.
         ret key)))"

definition evict_template_key :: "string \<Rightarrow> (('t, 's, 'z) world_scheme, 'e, unit) act" where
  "evict_template_key user = modify (\<lambda>w. w\<lparr>key_cache := (key_cache w)(user := None)\<rparr>)"

section \<open>Camera binding and calibration files\<close>

definition user_path :: "string \<Rightarrow> string \<Rightarrow> string" where
  "user_path user name = path_join (path_join config_root user) name"

definition camera_binding_path :: "string \<Rightarrow> string" where
  "camera_binding_path user = user_path user ''camera_binding.json''"

definition ir_calibration_path :: "string \<Rightarrow> string" where
  "ir_calibration_path user = user_path user ''ir_calibration.json''"

definition profile_name_path :: "string \<Rightarrow> string" where
  "profile_name_path user = user_path user ''display_name''"

definition unknown_device :: device_identity where
  "unknown_device = \<lparr>vid = [], pid = [], serial = [], dev_name = ''unknown''\<rparr>"

definition snapshot_camera_binding ::
  "('t, 's, 'x) daemon_ext_scheme \<Rightarrow> (('t, 's, 'z) world_scheme, 'e, camera_binding) act" where
  "snapshot_camera_binding X =
     abind (sense (rgb_device X)) (\<lambda>rgb_path.
     abind (sense (ir_device X)) (\<lambda>ir_path.
     query (\<lambda>w. \<lparr>bind_rgb = unwrap_or unknown_device (from_device rgb_path w),
                 bind_ir = Option.bind ir_path (\<lambda>p. from_device p w)\<rparr>)))"

text \<open>Best-effort private write: both steps ignore their error.\<close>

definition write_private :: "string \<Rightarrow> bytes \<Rightarrow> ('z host_scheme, 'e, unit) act" where
  "write_private path b =
     abind (ignore (fs_write path b)) (\<lambda>_. ignore (fs_set_permissions path 384))"

definition save_camera_binding ::
  "('t, 's, 'x) daemon_ext_scheme \<Rightarrow> string \<Rightarrow> camera_binding \<Rightarrow> ('z host_scheme, 'e, unit) act" where
  "save_camera_binding X user b = write_private (camera_binding_path user) (binding_to_json X b)"

definition enrolled_binding :: "('t, 's, 'x) daemon_ext_scheme \<Rightarrow> string \<Rightarrow> 'z host_scheme \<Rightarrow> camera_binding option" where
  "enrolled_binding X user w =
     Option.bind (res_ok (fs_read_to_string (camera_binding_path user) w)) (\<lambda>j. res_ok (binding_of_json X j))"

definition load_ir_calibration :: "('t, 's, 'x) daemon_ext_scheme \<Rightarrow> string \<Rightarrow> 'z host_scheme \<Rightarrow> ir_calibration" where
  "load_ir_calibration X user w =
     unwrap_or default_calibration
       (Option.bind (res_ok (fs_read_to_string (ir_calibration_path user) w)) (\<lambda>j. res_ok (cal_of_json X j)))"

definition save_ir_calibration ::
  "('t, 's, 'x) daemon_ext_scheme \<Rightarrow> string \<Rightarrow> ir_calibration \<Rightarrow> ('z host_scheme, 'e, unit) act" where
  "save_ir_calibration X user c = write_private (ir_calibration_path user) (cal_to_json X c)"

definition ir_gate_disabled :: "'z host_scheme \<Rightarrow> bool" where
  "ir_gate_disabled w = (case env_vars w ''LINHELLO_IR_GATE'' of None \<Rightarrow> False | Some v \<Rightarrow> falsy v)"

definition ir_gate_check ::
  "('t, 's, 'x) daemon_ext_scheme \<Rightarrow> string \<Rightarrow> liveness_signals \<Rightarrow> 'z host_scheme \<Rightarrow> string + unit" where
  "ir_gate_check X user signals w =
     (if ir_gate_disabled w then Inr ()
      else let cal = load_ir_calibration X user w in
        if \<not> is_ready cal then Inr ()
        else (case from_signals signals of
            Some ob \<Rightarrow> (case cal_gate cal ob w of
                GatePass \<Rightarrow> Inr ()
              | GateReject reason \<Rightarrow> Inl (''liveness check failed: '' @ reason)
              | GateNotCalibrated \<Rightarrow> Inr ())
          | None \<Rightarrow> Inl ''IR liveness required (you enrolled with IR) but no IR frame was captured this attempt''))"

definition capture_embed_gated ::
  "('t, 's, 'x) daemon_ext_scheme \<Rightarrow> string \<Rightarrow> (('t, 's, 'z) world_scheme, string, f32 list) act" where
  "capture_embed_gated X user =
     abind (amap_err err_to_string (capture_and_embed_signals X)) (\<lambda>(live, signals).
     abind (query (ir_gate_check X user signals)) (\<lambda>r.
     abind (lift r) (\<lambda>_. ret live)))"

section \<open>Tier and policy\<close>

definition user_tier :: "('t, 's, 'x) daemon_ext_scheme \<Rightarrow> string \<Rightarrow> 'z host_scheme \<Rightarrow> tier" where
  "user_tier X user w =
     (case enrolled_binding X user w of
        Some b \<Rightarrow> if bind_ir b \<noteq> None then Secure else Convenience
      | None \<Rightarrow> Convenience)"

definition effective_tier :: "('t, 's, 'x) daemon_ext_scheme \<Rightarrow> string \<Rightarrow> 'z host_scheme \<Rightarrow> tier" where
  "effective_tier X user w =
     (let t = read_kv ''policy.conf'' ''tier'' w in
      if t = Some ''convenience'' then Convenience
      else if t = Some ''secure'' then Secure
      else user_tier X user w)"

definition session_warm :: "('t, 's, 'x) daemon_ext_scheme \<Rightarrow> string \<Rightarrow> 'z host_scheme \<Rightarrow> bool" where
  "session_warm X user w =
     (case uid_for_name X user of
        None \<Rightarrow> False
      | Some uid \<Rightarrow>
          (case fs_read_to_string (''/run/systemd/users/'' @ show_nat uid) w of
             Inl _ \<Rightarrow> False
           | Inr text \<Rightarrow>
               list_ex (\<lambda>l. case strip_prefix l ''STATE='' of
                   None \<Rightarrow> False | Some s \<Rightarrow> trim s = ''active'' \<or> trim s = ''online'') (str_lines text)))"

definition current_policy :: "'z host_scheme \<Rightarrow> bio_policy" where
  "current_policy w =
     (let get = (\<lambda>k d. unwrap_or d (Option.bind (read_kv ''policy.conf'' k w) modality_parse));
          p = default_policy
      in p\<lparr>screen_unlock := get ''screen_unlock'' (screen_unlock p), login := get ''login'' (login p),
           sudo := get ''sudo'' (sudo p), polkit := get ''polkit'' (polkit p)\<rparr>)"

definition face_is_active_method :: "'z host_scheme \<Rightarrow> bool" where
  "face_is_active_method w \<longleftrightarrow>
     Option.bind (read_kv ''policy.conf'' ''method'' w) method_parse \<noteq> Some Fingerprint"

definition plan_action ::
  "('t, 's, 'x) daemon_ext_scheme \<Rightarrow> string \<Rightarrow> string \<Rightarrow> bool \<Rightarrow> 'z host_scheme
   \<Rightarrow> action \<times> tier \<times> operation_class \<times> bool" where
  "plan_action X user service peer_is_root w =
     (let warm = session_warm X user w;
          class = classify service warm;
          tr = effective_tier X user w;
          a0 = decide class tr (current_policy w);
          a1 = (if \<not> face_is_active_method w then Deny else a0);
          a2 = (if a1 = Unseal \<and> \<not> peer_is_root then Deny else a1)
      in (a2, tr, class, warm))"

end
