(* ===== verification/Handlers.thy ===== *)
theory Handlers
  imports Daemon
begin

text \<open>
  The request handlers of crates/linhello-daemon/src/main.rs. A handler is a computation whose
  result is a response; it never stops with an error of its own, and a panic in it is caught
  by the task that runs it (\<open>dispatch\<close> in the next theory).
\<close>

type_synonym ('t, 's, 'z) handler = "(('t, 's, 'z) world_scheme, lh_error, response) act"

definition respond ::
  "('w, 'f, 'a) act \<Rightarrow> ('f \<Rightarrow> string) \<Rightarrow> ('a \<Rightarrow> ('w, lh_error, response) act) \<Rightarrow> ('w, lh_error, response) act" where
  "respond m msg ok =
     abind (try_act m) (\<lambda>r. case r of Inl e \<Rightarrow> ret (SError (msg e)) | Inr x \<Rightarrow> ok x)"

definition do_status :: "('t, 's, 'x) daemon_ext_scheme \<Rightarrow> ('t, 's, 'z) handler" where
  "do_status X =
     abind (detect_security_level X) (\<lambda>lvl.
     query (\<lambda>w. SStatus lvl (detect_boot_mode w) (is_secure_boot_enabled w) (loader_identity w)))"

definition embedding_to_bytes :: "f32 list \<Rightarrow> bytes" where
  "embedding_to_bytes v = concat (map f_to_le_bytes v)"

section \<open>Enrolment\<close>

definition do_enroll :: "('t, 's, 'x) daemon_ext_scheme \<Rightarrow> string \<Rightarrow> bool \<Rightarrow> ('t, 's, 'z) handler" where
  "do_enroll X user reset =
     respond (capture_and_embed_signals X) err_to_string (\<lambda>(embedding, signals).
     let raw = embedding_to_bytes embedding in
     respond (cached_template_key X user) (\<lambda>e. ''template key: '' @ e) (\<lambda>key.
     abind (if reset then ret []
            else abind (try_act (load_encrypted_embedding X user key)) (\<lambda>r.
              ret (case r of Inr existing \<Rightarrow> existing | Inl _ \<Rightarrow> []))) (\<lambda>before.
     let all_raw = before @ raw in
     respond (save_encrypted_embedding X user all_raw key) (\<lambda>e. ''save enrollment: '' @ err_to_string e) (\<lambda>_.
     abind (snapshot_camera_binding X) (\<lambda>b.
     abind (save_camera_binding X user b) (\<lambda>_.
     abind (if reset then ret default_calibration else query (load_ir_calibration X user)) (\<lambda>cal0.
     let cal = (case from_signals signals of Some ob \<Rightarrow> cal_push ob cal0 | None \<Rightarrow> cal0) in
     abind (save_ir_calibration X user cal) (\<lambda>_.
     ret (SEnrolled (length all_raw div (embedding_dim * 4)))))))))))"

section \<open>Verification and release\<close>

definition check_camera_binding ::
  "('t, 's, 'x) daemon_ext_scheme \<Rightarrow> string \<Rightarrow> (('t, 's, 'z) world_scheme, string, unit) act" where
  "check_camera_binding X user =
     (let path = camera_binding_path user in
      abind (query (path_exists path)) (\<lambda>present.
      if \<not> present then ret ()
      else
        abind (query (\<lambda>w. map_err (\<lambda>e. ''read binding: '' @ io_to_string e) (fs_read_to_string path w))) (\<lambda>r.
        abind (lift r) (\<lambda>json.
        abind (lift (map_err (\<lambda>e. ''parse binding: '' @ e) (binding_of_json X json))) (\<lambda>enrolled.
        abind (snapshot_camera_binding X) (\<lambda>current.
        lift (binding_verify enrolled current)))))))"

definition load_user_samples ::
  "('t, 's, 'x) daemon_ext_scheme \<Rightarrow> string \<Rightarrow> (('t, 's, 'z) world_scheme, string, f32 list list) act" where
  "load_user_samples X user =
     abind (check_camera_binding X user) (\<lambda>_.
     abind (amap_err (\<lambda>e. ''template key unavailable ('' @ e @ ''); refusing plaintext fallback'')
             (cached_template_key X user)) (\<lambda>key.
     abind (amap_err err_to_string (load_encrypted_embedding X user key)) (\<lambda>raw.
     lift (map_err err_to_string (parse_raw_embeddings raw)))))"

definition do_verify :: "('t, 's, 'x) daemon_ext_scheme \<Rightarrow> string \<Rightarrow> ('t, 's, 'z) handler" where
  "do_verify X user =
     respond (load_user_samples X user) id (\<lambda>samples.
     respond (capture_embed_gated X user) id (\<lambda>live.
     abind (match_against live samples) (\<lambda>r.
     abind match_threshold (\<lambda>t.
     ret (SVerified (ar_matched r) (ar_score r) t)))))"

definition face_mismatch :: "f32 \<Rightarrow> response" where
  "face_mismatch score = SError (''face mismatch (score '' @ fmt_prec 4 score @ '')'')"

text \<open>
  The common part of the two handlers that release a secret: load the samples, capture through
  the gates, match, and only then go on.
\<close>

definition face_gated ::
  "('t, 's, 'x) daemon_ext_scheme \<Rightarrow> string \<Rightarrow> ('t, 's, 'z) handler \<Rightarrow> ('t, 's, 'z) handler" where
  "face_gated X user release =
     respond (load_user_samples X user) id (\<lambda>samples.
     respond (capture_embed_gated X user) id (\<lambda>live.
     abind (match_against live samples) (\<lambda>r.
     if \<not> ar_matched r then ret (face_mismatch (ar_score r)) else release)))"

definition do_unseal :: "('t, 's, 'x) daemon_ext_scheme \<Rightarrow> string \<Rightarrow> ('t, 's, 'z) handler" where
  "do_unseal X user =
     face_gated X user (respond (unseal_keyring_secret X) err_to_string (\<lambda>secret. ret (SUnsealed secret)))"

definition do_unseal_password :: "('t, 's, 'x) daemon_ext_scheme \<Rightarrow> string \<Rightarrow> ('t, 's, 'z) handler" where
  "do_unseal_password X user =
     face_gated X user (respond (unseal_password X user) err_to_string (\<lambda>secret. ret (SPasswordUnsealed secret)))"

definition do_authenticate ::
  "('t, 's, 'x) daemon_ext_scheme \<Rightarrow> string \<Rightarrow> string \<Rightarrow> bool \<Rightarrow> ('t, 's, 'z) handler" where
  "do_authenticate X user service peer_is_root =
     abind (query (plan_action X user service peer_is_root)) (\<lambda>(act, tr, class, warm).
     case act of
       Deny \<Rightarrow> ret (SError (''face auth not permitted for '' @ quoted service @ '' on the '' @
                tier_as_str tr @ '' tier''))
     | Verify \<Rightarrow> do_verify X user
     | Unseal \<Rightarrow> do_unseal_password X user)"

definition canon :: "'z host_scheme \<Rightarrow> string \<Rightarrow> string" where
  "canon w p = unwrap_or p (realpath w p)"

definition camera_block_notice ::
  "('t, 's, 'x) daemon_ext_scheme \<Rightarrow> (('t, 's, 'z) world_scheme, 'e, string option) act" where
  "camera_block_notice X =
     abind (sense (cam_enumerate X)) (\<lambda>cams.
     abind (sense (rgb_device X)) (\<lambda>rgb.
     query (\<lambda>w. case find (\<lambda>c. canon w (ci_path c) = canon w rgb) cams of
         Some c \<Rightarrow>
           if ci_privacy c = Some True
           then Some (''Camera privacy switch is on '' @ em_dash @
                  '' toggle the camera-privacy key (e.g. Fn+F10) to use face unlock'')
           else None
       | None \<Rightarrow> Some (''No camera detected '' @ em_dash @
           '' it may be disconnected or a hardware privacy switch is on; using your password''))))"

definition action_label :: "action \<Rightarrow> string" where
  "action_label a = (case a of Deny \<Rightarrow> ''deny'' | Verify \<Rightarrow> ''verify'' | Unseal \<Rightarrow> ''unseal'')"

definition do_auth_intent ::
  "('t, 's, 'x) daemon_ext_scheme \<Rightarrow> string \<Rightarrow> string \<Rightarrow> bool \<Rightarrow> ('t, 's, 'z) handler" where
  "do_auth_intent X user service peer_is_root =
     abind (query (plan_action X user service peer_is_root)) (\<lambda>(act, tr, class, warm).
     abind (if act = Deny then ret None else camera_block_notice X) (\<lambda>notice.
     ret (SAuthPlan (act \<noteq> Deny) (action_label act) notice)))"

section \<open>Status of the policy\<close>

definition policy_row :: "string \<Rightarrow> operation_class \<Rightarrow> tier \<Rightarrow> bio_policy \<Rightarrow> operation_policy" where
  "policy_row operation class tr p =
     (let a = decide class tr p in
      \<lparr>op_operation = operation, op_action = action_label a,
       op_effect = (case a of
           Verify \<Rightarrow> ''match only '' @ em_dash @ '' unlocks the live session, no credential released''
         | Unseal \<Rightarrow> ''match + IR liveness '' @ em_dash @ '' releases your password to log in / elevate''
         | Deny \<Rightarrow> ''face not used '' @ em_dash @ '' falls back to your password'')\<rparr>)"

definition hardware_check ::
  "('t, 's, 'x) daemon_ext_scheme \<Rightarrow> camera_binding option \<Rightarrow> (('t, 's, 'z) world_scheme, 'e, bool \<times> string) act" where
  "hardware_check X binding =
     (case binding of
        Some b \<Rightarrow>
          if bind_ir b \<noteq> None then
            abind (snapshot_camera_binding X) (\<lambda>current.
            ret (case binding_verify b current of
                Inr _ \<Rightarrow> (True, [])
              | Inl _ \<Rightarrow>
                  if bind_ir current = None
                  then (False, ''IR camera not detected '' @ em_dash @
                         '' login & sudo fall back to your password until it'' @ [CHR 0x27] @ ''s reconnected'')
                  else (False, ''enrolled camera changed '' @ em_dash @ '' login & sudo fall back to your password'')))
          else ret (True, [])
      | None \<Rightarrow> ret (True, []))"

definition do_policy_status :: "('t, 's, 'x) daemon_ext_scheme \<Rightarrow> string \<Rightarrow> ('t, 's, 'z) handler" where
  "do_policy_status X user =
     abind (query (\<lambda>w. (enrolled_binding X user w, user_tier X user w, effective_tier X user w, current_policy w)))
       (\<lambda>(binding, hardware, tr, p).
     abind (hardware_check X binding) (\<lambda>(ready, note).
     ret (SPolicyStatus \<lparr>ps_tier = tier_as_str tr, ps_secure = (tr = Secure),
       ps_hardware_tier = tier_as_str hardware, ps_overridden = (tr \<noteq> hardware),
       ps_enrolled = (binding \<noteq> None), ps_hardware_ready = ready, ps_hardware_note = note,
       ps_ops = [policy_row ''Screen unlock'' ScreenUnlock tr p, policy_row ''Login (greeter)'' Login tr p,
                 policy_row ''sudo / su / polkit'' Elevation tr p, policy_row ''ssh / remote'' Remote tr p,
                 policy_row ''unknown service'' UnknownService tr p]\<rparr>)))"

section \<open>Profiles\<close>

definition read_profile_name :: "string \<Rightarrow> 'z host_scheme \<Rightarrow> string option" where
  "read_profile_name user w =
     opt_filter (\<lambda>s. s \<noteq> []) (map_option trim (res_ok (fs_read_to_string (profile_name_path user) w)))"

definition enrolled_profiles :: "'z host_scheme \<Rightarrow> string list" where
  "enrolled_profiles w =
     (if io_fault w OpRead config_root \<noteq> None \<or> config_root \<notin> set (dirs w) then []
      else sort (filter (\<lambda>n. utf8_valid n \<and>
             (path_exists (user_path n ''embedding.enc'') w \<or> path_exists (user_path n ''embedding.bin'') w))
             (subdirs config_root w)))"

definition profile_sample_count :: "string \<Rightarrow> 'z host_scheme \<Rightarrow> nat" where
  "profile_sample_count user w =
     (case fs_len (user_path user ''embedding.enc'') w of
        Inr n \<Rightarrow> (n - (12 + 16)) div (embedding_dim * 4)
      | Inl _ \<Rightarrow>
          (case fs_len (user_path user ''embedding.bin'') w of
             Inr n \<Rightarrow> n div (embedding_dim * 4) | Inl _ \<Rightarrow> 0))"

definition do_list_profiles :: "('t, 's, 'x) daemon_ext_scheme \<Rightarrow> nat option \<Rightarrow> ('t, 's, 'z) handler" where
  "do_list_profiles X peer =
     query (\<lambda>w. SProfiles (map (\<lambda>user.
       \<lparr>pi_user = user, pi_name = read_profile_name user w, pi_samples = profile_sample_count user w,
        pi_has_password = (peer_may_act_as X peer user \<and> path_exists (user_path user ''password_envelope.json'') w)\<rparr>)
       (enrolled_profiles w)))"

definition no_profile :: "string \<Rightarrow> response" where
  "no_profile user = SError (''no enrolled profile '' @ quoted user)"

definition clear_label :: "string \<Rightarrow> ('z host_scheme, io_error, unit) act" where
  "clear_label path =
     abind (try_act (fs_remove_file path)) (\<lambda>r. case r of
       Inr _ \<Rightarrow> ret ()
     | Inl e \<Rightarrow> if e = NotFound then ret () else fail e)"

definition do_set_profile_name :: "string \<Rightarrow> string \<Rightarrow> ('t, 's, 'z) handler" where
  "do_set_profile_name user name =
     abind (query enrolled_profiles) (\<lambda>ps.
     if user \<notin> set ps then ret (no_profile user)
     else
       (let path = profile_name_path user; trimmed = trim name in
        respond
          (if trimmed = [] then clear_label path
           else abind (fs_write path (trimmed @ [nl])) (\<lambda>_. fs_set_permissions path 420))
          (\<lambda>e. ''set profile name: '' @ io_to_string e) (\<lambda>_. ret SProfileNameSet)))"

definition do_delete_profile :: "string \<Rightarrow> ('t, 's, 'z) handler" where
  "do_delete_profile user =
     abind (query enrolled_profiles) (\<lambda>ps.
     if user \<notin> set ps then ret (no_profile user)
     else
       abind (query (profile_sample_count user)) (\<lambda>samples.
       respond (fs_remove_dir_all (path_join config_root user))
         (\<lambda>e. ''delete profile '' @ quoted user @ '': '' @ io_to_string e) (\<lambda>_.
       abind (evict_template_key user) (\<lambda>_.
       ret (SProfileDeleted user samples)))))"

fun insert_cand :: "identify_candidate \<Rightarrow> identify_candidate list \<Rightarrow> identify_candidate list" where
  "insert_cand c [] = [c]"
| "insert_cand c (d # ds) =
     (if f_lt (ic_score d) (ic_score c) then c # d # ds else d # insert_cand c ds)"

fun score_profiles ::
  "('t, 's, 'x) daemon_ext_scheme \<Rightarrow> f32 list \<Rightarrow> string list
   \<Rightarrow> (('t, 's, 'z) world_scheme, lh_error, identify_candidate list) act" where
  "score_profiles X live [] = ret []"
| "score_profiles X live (user # us) =
     abind (try_act (load_user_samples X user)) (\<lambda>r.
     abind (case r of
         Inl _ \<Rightarrow> ret []
       | Inr samples \<Rightarrow>
           abind (match_against live samples) (\<lambda>m.
           query (\<lambda>w. [\<lparr>ic_user = user, ic_name = read_profile_name user w, ic_score = ar_score m\<rparr>]))) (\<lambda>cs.
     abind (score_profiles X live us) (\<lambda>rest. ret (cs @ rest))))"

definition do_identify :: "('t, 's, 'x) daemon_ext_scheme \<Rightarrow> ('t, 's, 'z) handler" where
  "do_identify X =
     abind (query enrolled_profiles) (\<lambda>profiles.
     if profiles = [] then ret (SError ''no enrolled profiles to identify against'')
     else
       respond (capture_and_embed X) err_to_string (\<lambda>live.
       abind (score_profiles X live profiles) (\<lambda>found.
       if found = [] then ret (SError ''no profile templates could be read (TPM/PCR state?)'')
       else
         (let candidates = fold insert_cand found [] in
          abind match_threshold (\<lambda>t.
          ret (SIdentified (opt_filter (\<lambda>c. f_le t (ic_score c)) (Some (hd candidates))) t candidates))))))"

section \<open>Diagnosis, resealing, recovery\<close>

definition do_diagnose :: "('t, 's, 'x) daemon_ext_scheme \<Rightarrow> ('t, 's, 'z) handler" where
  "do_diagnose X =
     abind (query (path_exists envelope_path)) (\<lambda>present.
     abind (detect_security_level X) (\<lambda>lvl.
     if \<not> present then ret (SDiagnosed False lvl [] None None)
     else
       abind (query (env_load X envelope_path)) (\<lambda>loaded.
       case loaded of
         Inl e \<Rightarrow> ret (SError (''envelope load: '' @ err_to_string e))
       | Inr e \<Rightarrow>
           abind (try_act (diagnose_pcrs X e)) (\<lambda>r.
           ret (case r of
               Inr changed \<Rightarrow> SDiagnosed True lvl (env_pcrs e) (if changed = [] then None else Some changed) None
             | Inl er \<Rightarrow> SDiagnosed True lvl (env_pcrs e) None (Some (err_to_string er)))))))"

definition decision_label :: "liveness_decision \<Rightarrow> string" where
  "decision_label d = (case d of Real \<Rightarrow> ''real'' | Spoof \<Rightarrow> ''spoof'' | Uncertain \<Rightarrow> ''uncertain'')"

definition do_liveness_test :: "('t, 's, 'x) daemon_ext_scheme \<Rightarrow> ('t, 's, 'z) handler" where
  "do_liveness_test X =
     respond (run_liveness_test X) err_to_string (\<lambda>r.
     let s = lr_signals r in
     ret (SLivenessChecked
       \<lparr>ls_decision = decision_label (lr_decision r), ls_spoof_prob = spoof_prob s, ls_ml_score = ml_score s,
        ls_device_score = device_score s, ls_device_name = device_name s, ls_device_driver = device_driver s,
        ls_ir_score = ir_score s, ls_ir_mean = ir_mean s, ls_ir_std = ir_std s,
        ls_ir_highlight_frac = ir_highlight_frac s, ls_ir_face_bg_ratio = ir_face_bg_ratio s,
        ls_ir_eye_glint = ir_eye_glint s, ls_ir_depth_ratio = depth_score s, ls_face_frac = sg_face_frac s,
        ls_yaw_deg = sg_yaw_deg s, ls_pitch_deg = sg_pitch_deg s, ls_reason = lr_reason r\<rparr>))"

definition do_position_sample :: "('t, 's, 'x) daemon_ext_scheme \<Rightarrow> ('t, 's, 'z) handler" where
  "do_position_sample X =
     respond (capture_position_sample X) err_to_string (\<lambda>r. ret (SPosition r))"

definition do_probe :: "('t, 's, 'x) daemon_ext_scheme \<Rightarrow> ('t, 's, 'z) handler" where
  "do_probe X = abind (sense (probe_caps X)) (\<lambda>r. ret (SCapabilities r))"

definition do_reseal :: "('t, 's, 'x) daemon_ext_scheme \<Rightarrow> ('t, 's, 'z) handler" where
  "do_reseal X = respond (reseal_random_secret X) err_to_string (\<lambda>s. ret (SResealed (length s)))"

definition reseal_template ::
  "('t, 's, 'x) daemon_ext_scheme \<Rightarrow> string \<Rightarrow> (('t, 's, 'z) world_scheme, lh_error, unit) act" where
  "reseal_template X user =
     abind (unseal_template_key X user) (\<lambda>key.
     abind (seal_secret X key) (\<lambda>e.
     abind (lift (template_key_path user)) (\<lambda>path.
     abind (env_save X e path) (\<lambda>_. evict_template_key user))))"

definition do_reseal_user_envelopes :: "('t, 's, 'x) daemon_ext_scheme \<Rightarrow> string \<Rightarrow> ('t, 's, 'z) handler" where
  "do_reseal_user_envelopes X user =
     abind (try_act (abind (unseal_password X user) (seal_password X user))) (\<lambda>pw.
     abind (try_act (reseal_template X user)) (\<lambda>tk.
     ret (SUserEnvelopesResealed (res_ok pw \<noteq> None) (res_ok tk \<noteq> None))))"

definition do_seal_password :: "('t, 's, 'x) daemon_ext_scheme \<Rightarrow> string \<Rightarrow> bytes \<Rightarrow> ('t, 's, 'z) handler" where
  "do_seal_password X user password =
     respond (seal_password X user password) err_to_string (\<lambda>_. ret SPasswordSealed)"

definition do_save_recovery :: "('t, 's, 'x) daemon_ext_scheme \<Rightarrow> string \<Rightarrow> bytes \<Rightarrow> ('t, 's, 'z) handler" where
  "do_save_recovery X user passphrase =
     respond (save_recovery X user passphrase) err_to_string (\<lambda>_. ret SRecoverySaved)"

definition do_restore_from_recovery ::
  "('t, 's, 'x) daemon_ext_scheme \<Rightarrow> string \<Rightarrow> bytes \<Rightarrow> ('t, 's, 'z) handler" where
  "do_restore_from_recovery X user passphrase =
     respond (restore_from_recovery X user passphrase) err_to_string (\<lambda>_.
     abind (evict_template_key user) (\<lambda>_. ret SRecoveryRestored))"

end
