(* ===== verification/Dispatch.thy ===== *)
theory Dispatch
  imports Handlers
begin

text \<open>
  The dispatcher and the connection handler of crates/linhello-daemon/src/main.rs: which peer may
  ask for what, the order of the checks, and how a panicking worker is answered.
\<close>

definition is_root :: "nat option \<Rightarrow> bool" where
  "is_root peer \<longleftrightarrow> peer = Some 0"

definition forbidden :: "string \<Rightarrow> response" where
  "forbidden op = SError (op @ '' requires root'')"

definition invalid_user :: "string \<Rightarrow> response option" where
  "invalid_user user =
     (case validate_user user of Inl e \<Rightarrow> Some (SError (err_to_string e)) | Inr _ \<Rightarrow> None)"

text \<open>\<open>spawn_blocking(h).await.unwrap_or_else(err)\<close>; handlers themselves never return an error.\<close>

definition spawn ::
  "('t, 's, 'x) daemon_ext_scheme \<Rightarrow> ('t, 's, 'z) handler \<Rightarrow> ('t, 's, 'z) world_scheme
   \<Rightarrow> response \<times> ('t, 's, 'z) world_scheme" where
  "spawn X h w = (case h w of
      (Ok r, v) \<Rightarrow> (r, v)
    | (Err e, v) \<Rightarrow> (SError (err_to_string e), v)
    | (Panic m, v) \<Rightarrow> (SError (''worker panicked: '' @ join_error X m), v))"

text \<open>Root, then a valid user name, then the handler.\<close>

definition root_user ::
  "('t, 's, 'x) daemon_ext_scheme \<Rightarrow> nat option \<Rightarrow> string \<Rightarrow> string \<Rightarrow> ('t, 's, 'z) handler
   \<Rightarrow> ('t, 's, 'z) world_scheme \<Rightarrow> response \<times> ('t, 's, 'z) world_scheme" where
  "root_user X peer op user h w =
     (if \<not> is_root peer then (forbidden op, w)
      else case invalid_user user of Some r \<Rightarrow> (r, w) | None \<Rightarrow> spawn X h w)"

text \<open>A peer entitled to the account, then a valid user name, then the handler.\<close>

definition own_user ::
  "('t, 's, 'x) daemon_ext_scheme \<Rightarrow> nat option \<Rightarrow> string \<Rightarrow> string \<Rightarrow> ('t, 's, 'z) handler
   \<Rightarrow> ('t, 's, 'z) world_scheme \<Rightarrow> response \<times> ('t, 's, 'z) world_scheme" where
  "own_user X peer op user h w =
     (if \<not> peer_may_act_as X peer user then (forbidden op, w)
      else case invalid_user user of Some r \<Rightarrow> (r, w) | None \<Rightarrow> spawn X h w)"

definition dispatch ::
  "('t, 's, 'x) daemon_ext_scheme \<Rightarrow> request \<Rightarrow> nat option \<Rightarrow> ('t, 's, 'z) world_scheme
   \<Rightarrow> response \<times> ('t, 's, 'z) world_scheme" where
  "dispatch X req peer w = (case req of
      RStatus \<Rightarrow> spawn X (do_status X) w
    | REnroll user reset \<Rightarrow> root_user X peer ''enroll'' user (do_enroll X user reset) w
    | RVerify user \<Rightarrow>
        (case invalid_user user of
           Some r \<Rightarrow> (r, w)
         | None \<Rightarrow>
             if \<not> peer_may_act_as X peer user
             then (forbidden ''verify (only your own account, or run as root)'', w)
             else spawn X (do_verify X user) w)
    | RUnseal user \<Rightarrow> root_user X peer ''unseal'' user (do_unseal X user) w
    | RReseal \<Rightarrow> if \<not> is_root peer then (forbidden ''reseal'', w) else spawn X (do_reseal X) w
    | RSealPassword user password \<Rightarrow>
        root_user X peer ''seal_password'' user (do_seal_password X user password) w
    | RUnsealPassword user \<Rightarrow> root_user X peer ''unseal_password'' user (do_unseal_password X user) w
    | RAuthenticate user service \<Rightarrow>
        own_user X peer ''authenticate'' user (do_authenticate X user service (is_root peer)) w
    | RAuthIntent user service \<Rightarrow>
        own_user X peer ''auth_intent'' user (do_auth_intent X user service (is_root peer)) w
    | RPolicyStatus user \<Rightarrow> own_user X peer ''policy_status'' user (do_policy_status X user) w
    | RDiagnose \<Rightarrow> spawn X (do_diagnose X) w
    | RProbe \<Rightarrow> spawn X (do_probe X) w
    | RLivenessTest \<Rightarrow> spawn X (do_liveness_test X) w
    | RPositionSample \<Rightarrow> spawn X (do_position_sample X) w
    | RResealUserEnvelopes user \<Rightarrow>
        root_user X peer ''reseal_user_envelopes'' user (do_reseal_user_envelopes X user) w
    | RListProfiles \<Rightarrow> spawn X (do_list_profiles X peer) w
    | RIdentify \<Rightarrow> if \<not> is_root peer then (forbidden ''identify'', w) else spawn X (do_identify X) w
    | RSetProfileName user name \<Rightarrow>
        root_user X peer ''set_profile_name'' user (do_set_profile_name user name) w
    | RDeleteProfile user \<Rightarrow> root_user X peer ''delete_profile'' user (do_delete_profile user) w
    | RSaveRecovery user passphrase \<Rightarrow>
        root_user X peer ''save_recovery'' user (do_save_recovery X user passphrase) w
    | RRestoreFromRecovery user passphrase \<Rightarrow>
        root_user X peer ''restore_from_recovery'' user (do_restore_from_recovery X user passphrase) w)"

section \<open>Connections\<close>

definition max_request_bytes :: nat where "max_request_bytes = 64 * 1024"

text \<open>\<open>read_line\<close> on the capped stream: up to and including the first newline.\<close>

definition first_line :: "bytes \<Rightarrow> bytes" where
  "first_line b = (case split_once nl b of Some (l, _) \<Rightarrow> l @ [nl] | None \<Rightarrow> b)"

text \<open>The bytes written back; nothing for an empty stream or one that is not UTF-8.\<close>

definition handle ::
  "('t, 's, 'x) daemon_ext_scheme \<Rightarrow> nat option \<Rightarrow> bytes \<Rightarrow> ('t, 's, 'z) world_scheme
   \<Rightarrow> bytes option \<times> ('t, 's, 'z) world_scheme" where
  "handle X peer input w =
     (let line = first_line (take max_request_bytes input) in
      if \<not> utf8_valid line \<or> line = [] then (None, w)
      else (let (r, v) = (case req_of_json X (trim_end line) of
                Inr req \<Rightarrow> dispatch X req peer w
              | Inl e \<Rightarrow> (SError (''malformed request: '' @ e), w))
            in (Some (resp_to_json X r @ [nl]), v)))"

text \<open>One request after another, as the listening loop serves them.\<close>

fun serve ::
  "('t, 's, 'x) daemon_ext_scheme \<Rightarrow> (request \<times> nat option) list \<Rightarrow> ('t, 's, 'z) world_scheme
   \<Rightarrow> response list \<times> ('t, 's, 'z) world_scheme" where
  "serve X [] w = ([], w)"
| "serve X ((req, peer) # rs) w =
     (let (r, v) = dispatch X req peer w; (out, u) = serve X rs v in (r # out, u))"

section \<open>The socket argument\<close>

fun parse_socket_arg :: "string list \<Rightarrow> string option" where
  "parse_socket_arg [] = None"
| "parse_socket_arg (a # args) =
     (if a = ''--socket'' then (case args of [] \<Rightarrow> None | v # _ \<Rightarrow> Some v)
      else (case strip_prefix a ''--socket='' of Some v \<Rightarrow> Some v | None \<Rightarrow> parse_socket_arg args))"

section \<open>What a released secret proves\<close>

lemma respond_result:
  assumes "respond m msg ok w = (Ok r, w')"
  shows "(\<exists>e. m w = (Err e, w') \<and> r = SError (msg e)) \<or> (\<exists>x v. m w = (Ok x, v) \<and> ok x v = (Ok r, w'))"
  using assms by (auto simp: respond_def res_iff)

lemma respond_released:
  assumes "respond m msg ok w = (Ok r, w')" and "released r \<noteq> None"
  shows "\<exists>x v. m w = (Ok x, v) \<and> ok x v = (Ok r, w')"
  using respond_result [OF assms(1)] assms(2) by auto

lemma spawn_released:
  "spawn X h w = (r, w') \<Longrightarrow> released r \<noteq> None \<Longrightarrow> h w = (Ok r, w')"
  by (auto simp: spawn_def split: prod.splits outcome.splits)

lemma face_mismatch_released [simp]: "released (face_mismatch s) = None"
  by (simp add: face_mismatch_def)

text \<open>The evidence behind a release, in the order the handler gathers it.\<close>

definition face_evidence ::
  "('t, 's, 'x) daemon_ext_scheme \<Rightarrow> string \<Rightarrow> ('t, 's, 'z) world_scheme \<Rightarrow> ('t, 's, 'z) world_scheme \<Rightarrow> bool" where
  "face_evidence X user w u \<longleftrightarrow>
     (\<exists>samples live m v x. load_user_samples X user w = (Ok samples, v) \<and>
        capture_embed_gated X user v = (Ok live, x) \<and>
        match_against live samples x = (Ok m, u) \<and> ar_matched m)"

lemma face_gated_released:
  assumes "face_gated X user release w = (Ok r, w')" and "released r \<noteq> None"
  shows "\<exists>u. face_evidence X user w u \<and> release u = (Ok r, w')"
proof -
  from respond_released [OF assms(1) [unfolded face_gated_def] assms(2)]
  obtain samples v where l: "load_user_samples X user w = (Ok samples, v)"
    and 2: "respond (capture_embed_gated X user) id (\<lambda>live. abind (match_against live samples) (\<lambda>r.
       if \<not> ar_matched r then ret (face_mismatch (ar_score r)) else release)) v = (Ok r, w')"
    by blast
  from respond_released [OF 2 assms(2)] obtain live x where
    c: "capture_embed_gated X user v = (Ok live, x)"
    and 3: "abind (match_against live samples) (\<lambda>r.
       if \<not> ar_matched r then ret (face_mismatch (ar_score r)) else release) x = (Ok r, w')"
    by blast
  from 3 show ?thesis
    using l c assms(2) by (fastforce simp: res_iff face_evidence_def split: if_splits)
qed

lemma do_unseal_password_released:
  assumes "do_unseal_password X user w = (Ok r, w')" and "released r \<noteq> None"
  shows "\<exists>u secret. face_evidence X user w u \<and> unseal_password X user u = (Ok secret, w') \<and>
    r = SPasswordUnsealed secret"
proof -
  obtain u where "face_evidence X user w u"
    "respond (unseal_password X user) err_to_string (\<lambda>secret. ret (SPasswordUnsealed secret)) u = (Ok r, w')"
    using face_gated_released [OF assms(1) [unfolded do_unseal_password_def] assms(2)] by blast
  then show ?thesis using respond_released assms(2) by fastforce
qed

lemma do_unseal_released:
  assumes "do_unseal X user w = (Ok r, w')" and "released r \<noteq> None"
  shows "\<exists>u secret. face_evidence X user w u \<and> unseal_keyring_secret X u = (Ok secret, w') \<and>
    r = SUnsealed secret"
proof -
  obtain u where "face_evidence X user w u"
    "respond (unseal_keyring_secret X) err_to_string (\<lambda>secret. ret (SUnsealed secret)) u = (Ok r, w')"
    using face_gated_released [OF assms(1) [unfolded do_unseal_def] assms(2)] by blast
  then show ?thesis using respond_released assms(2) by fastforce
qed

lemma not_released [simp]:
  "released (no_profile u) = None" "released (SEnrolled n) = None" "released (SStatus s1 s2 s3 s4) = None"
  "released SPasswordSealed = None" "released SProfileNameSet = None" "released (SProfileDeleted u n) = None"
  "released (SResealed n) = None" "released SRecoverySaved = None" "released SRecoveryRestored = None"
  "released (SLivenessChecked l) = None" "released (SPosition p) = None" "released (SCapabilities cap) = None"
  "released (SProfiles ps) = None" "released (SIdentified bst th cs) = None" "released (SDiagnosed d1 d2 d3 d4 d5) = None"
  "released (SUserEnvelopesResealed ue1 ue2) = None" "released (SAuthPlan p1 p2 p3) = None"
  "released (SPolicyStatus pst) = None" "released (forbidden op) = None"
  by (simp_all add: released_def no_profile_def forbidden_def)

lemma respond_quiet:
  assumes "respond m msg ok w = (Ok r, w')" and "\<And>x v v' s. ok x v = (Ok s, v') \<Longrightarrow> released s = None"
  shows "released r = None"
  using respond_result [OF assms(1)] assms(2) by auto

end
