(* ===== verification/Isolation.thy ===== *)
theory Isolation
  imports Dispatch
begin

text \<open>
  What a request may change: the files of the user it names and the host signer's own, that
  user's entry of the key cache, the sensors and the caches that are filled once. The frame
  interface of the TPM code is extended to the daemon's world, the handlers climb it once, and
  the dispatcher's theorem is an instance per kind of request.
\<close>

section \<open>Frames over the daemon's world\<close>

locale world_frame = signer_frame R P
  for R :: "('t, 's, 'z) world_scheme \<Rightarrow> ('t, 's, 'z) world_scheme \<Rightarrow> bool" and P :: "string \<Rightarrow> bool" +
  assumes frame_sensors: "R w (w\<lparr>sensors := s\<rparr>)"
    and frame_ev: "R w (w\<lparr>ev_cache := e\<rparr>)"
    and frame_thr: "thr_cache w = None \<Longrightarrow> R w (w\<lparr>thr_cache := Some (resolve_threshold w)\<rparr>)"
begin

lemma keeps_sensor: "keeps (sensor m)"
  by (rule keepsI) (simp add: sensor_def frame_sensors split: prod.split)

lemma keeps_sense: "keeps (sense m)"
  by (rule keepsI) (simp add: sense_def frame_sensors split: prod.split)

lemma keeps_match_threshold: "keeps match_threshold"
  by (rule keepsI) (simp add: match_threshold_def Let_def frame_refl frame_thr split: option.split)

lemma keeps_match_against: "keeps (match_against live samples)"
  unfolding match_against_def by (intro keeps_intros keeps_match_threshold)

lemma keeps_respond: "keeps m \<Longrightarrow> (\<And>x. keeps (ok x)) \<Longrightarrow> keeps (respond m msg ok)"
  unfolding respond_def by (intro keeps_intros)

lemma keeps_cached_evaluator: "keeps (cached_evaluator X)"
  by (rule keepsI) (simp add: cached_evaluator_def Let_def frame_refl frame_ev act_simps split: option.split)

lemmas keeps_world_intros =
  keeps_tpm_intros keeps_sensor keeps_sense keeps_match_threshold keeps_match_against keeps_respond
  keeps_cached_evaluator

lemma keeps_case_decision:
  "keeps a \<Longrightarrow> keeps b \<Longrightarrow> keeps c \<Longrightarrow> keeps (case d of Real \<Rightarrow> a | Spoof \<Rightarrow> b | Uncertain \<Rightarrow> c)"
  by (simp split: liveness_decision.split)

lemma keeps_case_list:
  "keeps a \<Longrightarrow> (\<And>x xs. keeps (f x xs)) \<Longrightarrow> keeps (case ys of [] \<Rightarrow> a | x # xs \<Rightarrow> f x xs)"
  by (simp split: list.split)

lemma keeps_capture_burst_detect: "keeps (capture_burst_detect X)"
  unfolding capture_burst_detect_def by (intro keeps_world_intros)

lemma keeps_grab_ir: "keeps (grab_ir X)"
  unfolding grab_ir_def by (intro keeps_world_intros)

lemma keeps_capture_and_embed_signals: "keeps (capture_and_embed_signals X)"
  unfolding capture_and_embed_signals_def capture_detect_live_def
  by (intro keeps_world_intros keeps_capture_burst_detect keeps_grab_ir keeps_case_decision)

lemma keeps_capture_and_embed: "keeps (capture_and_embed X)"
  unfolding capture_and_embed_def by (intro keeps_world_intros keeps_capture_and_embed_signals)

lemma keeps_capture_embed_gated: "keeps (capture_embed_gated X user)"
  unfolding capture_embed_gated_def by (intro keeps_world_intros keeps_capture_and_embed_signals)

lemma keeps_snapshot: "keeps (snapshot_camera_binding X)"
  unfolding snapshot_camera_binding_def by (intro keeps_world_intros)

lemma keeps_check_camera_binding: "keeps (check_camera_binding X user)"
  unfolding check_camera_binding_def by (intro keeps_world_intros keeps_snapshot)

lemma keeps_write_private: "P p \<Longrightarrow> keeps (write_private p b)"
  unfolding write_private_def by (intro keeps_world_intros)

text \<open>The handlers that name no user.\<close>

lemma keeps_do_status: "keeps (do_status X)"
  unfolding do_status_def detect_security_level_def detect_def by (intro keeps_world_intros keeps_plan)

lemma keeps_do_diagnose: "keeps (do_diagnose X)"
  unfolding do_diagnose_def detect_security_level_def detect_def
  by (intro keeps_world_intros keeps_plan keeps_diagnose_pcrs)

lemma keeps_do_liveness_test: "keeps (do_liveness_test X)"
  unfolding do_liveness_test_def run_liveness_test_def
  by (intro keeps_world_intros keeps_capture_burst_detect keeps_grab_ir)

lemma keeps_do_position_sample: "keeps (do_position_sample X)"
  unfolding do_position_sample_def capture_position_sample_def
  by (intro keeps_world_intros keeps_grab_ir keeps_case_list)

lemma keeps_do_probe: "keeps (do_probe X)"
  unfolding do_probe_def by (intro keeps_world_intros)

lemma keeps_do_list_profiles: "keeps (do_list_profiles X peer)"
  unfolding do_list_profiles_def by (intro keeps_world_intros)

lemma keeps_do_reseal: "P envelope_path \<Longrightarrow> keeps (do_reseal X)"
  unfolding do_reseal_def reseal_random_secret_def
  by (intro keeps_world_intros keeps_rng rng_fill_bytes keeps_seal_secret keeps_env_save)

lemma keeps_hardware_check: "keeps (hardware_check X b)"
  unfolding hardware_check_def by (intro keeps_world_intros keeps_snapshot)

lemma keeps_do_policy_status: "keeps (do_policy_status X user)"
  unfolding do_policy_status_def by (intro keeps_world_intros keeps_hardware_check)

lemma keeps_do_auth_intent: "keeps (do_auth_intent X user service isr)"
  unfolding do_auth_intent_def camera_block_notice_def by (intro keeps_world_intros)

lemma keeps_spawn: "keeps h \<Longrightarrow> R w (snd (spawn X h w))"
  using keepsD [of h w] by (cases "h w"; cases "fst (h w)") (auto simp: spawn_def)

lemma keeps_root_user:
  "(validate_user user = Inr () \<Longrightarrow> keeps h) \<Longrightarrow> R w (snd (root_user X peer op user h w))"
  by (simp add: root_user_def invalid_user_def frame_refl keeps_spawn split: option.split sum.splits)

lemma keeps_own_user:
  "(validate_user user = Inr () \<Longrightarrow> keeps h) \<Longrightarrow> R w (snd (own_user X peer op user h w))"
  by (simp add: own_user_def invalid_user_def frame_refl keeps_spawn split: option.split sum.splits)

end

lemma user_path_area:
  "validate_user user = Inr () \<Longrightarrow> CHR ''/'' \<notin> set name \<Longrightarrow> user_area user (user_path user name)"
  by (rule user_file_area [of name]) (simp_all add: user_file_def user_path_def)

text \<open>The handlers that name a user, whose area and cached key they may change.\<close>

locale daemon_frame = world_frame R P + core_frame R P user
  for R :: "('t, 's, 'z) world_scheme \<Rightarrow> ('t, 's, 'z) world_scheme \<Rightarrow> bool"
    and P :: "string \<Rightarrow> bool" and user :: string +
  assumes frame_key: "R w (w\<lparr>key_cache := (key_cache w)(user := k)\<rparr>)"
begin

lemma keeps_cached_template_key: "keeps (cached_template_key X user)"
  unfolding cached_template_key_def
  by (intro keeps_world_intros keeps_ensure_template_key keeps_modify frame_key)

lemma keeps_evict: "keeps (evict_template_key user)"
  unfolding evict_template_key_def by (intro keeps_modify frame_key)

lemma keeps_load_user_samples: "keeps (load_user_samples X user)"
  unfolding load_user_samples_def
  by (intro keeps_world_intros keeps_check_camera_binding keeps_cached_template_key
      keeps_load_encrypted_embedding)

lemmas keeps_gate_intros =
  keeps_world_intros keeps_load_user_samples keeps_capture_embed_gated

lemma keeps_do_verify: "keeps (do_verify X user)"
  unfolding do_verify_def by (intro keeps_gate_intros)

lemma keeps_face_gated: "keeps release \<Longrightarrow> keeps (face_gated X user release)"
  unfolding face_gated_def by (intro keeps_gate_intros)

lemma keeps_do_unseal: "keeps (do_unseal X user)"
  unfolding do_unseal_def unseal_keyring_secret_def
  by (intro keeps_face_gated keeps_world_intros keeps_unseal_at)

lemma keeps_do_unseal_password: "keeps (do_unseal_password X user)"
  unfolding do_unseal_password_def by (intro keeps_face_gated keeps_world_intros keeps_unseal_password)

lemma keeps_do_authenticate: "keeps (do_authenticate X user service isr)"
proof -
  have "keeps (case a of Deny \<Rightarrow> ret r | Verify \<Rightarrow> do_verify X user | Unseal \<Rightarrow> do_unseal_password X user)" for a r
    by (simp add: keeps_do_verify keeps_do_unseal_password keeps_pure split: action.split)
  then show ?thesis unfolding do_authenticate_def by (intro keeps_world_intros)
qed

lemma keeps_do_enroll: "validate_user user = Inr () \<Longrightarrow> keeps (do_enroll X user reset)"
  unfolding do_enroll_def save_camera_binding_def save_ir_calibration_def camera_binding_path_def
    ir_calibration_path_def
  by (intro keeps_world_intros keeps_capture_and_embed_signals keeps_cached_template_key
      keeps_load_encrypted_embedding keeps_save_encrypted_embedding keeps_snapshot keeps_write_private
      area_files user_path_area) auto

lemma keeps_do_set_profile_name:
  "validate_user user = Inr () \<Longrightarrow> keeps (do_set_profile_name user name)"
  unfolding do_set_profile_name_def clear_label_def profile_name_path_def Let_def
  by (intro keeps_world_intros area_files user_path_area) auto

lemma keeps_remove_profile:
  assumes "validate_user user = Inr ()"
  shows "keeps (fs_remove_dir_all (path_join config_root user))"
proof -
  have "path_join config_root user = config_root @ ''/'' @ user"
    using assms by (simp add: res_iff path_join_plain)
  then have "user_area user p" if "below (path_join config_root user) p" for p
    using that by (simp add: user_area_def)
  then show ?thesis
    by (intro keeps_host outside_fs_remove_dir_all rest_fs area_files)
qed

lemma keeps_do_delete_profile: "validate_user user = Inr () \<Longrightarrow> keeps (do_delete_profile user)"
  unfolding do_delete_profile_def by (intro keeps_world_intros keeps_remove_profile keeps_evict)

lemma keeps_do_reseal_user_envelopes: "keeps (do_reseal_user_envelopes X user)"
  unfolding do_reseal_user_envelopes_def reseal_template_def template_key_path_def
  by (intro keeps_abind keeps_user_file keeps_try keeps_unseal_password keeps_seal_password
      keeps_unseal_template_key keeps_seal_secret keeps_env_save keeps_evict keeps_pure) auto

lemma keeps_do_seal_password: "keeps (do_seal_password X user pw)"
  unfolding do_seal_password_def by (intro keeps_world_intros keeps_seal_password)

lemma keeps_do_save_recovery: "keeps (do_save_recovery X user pass)"
  unfolding do_save_recovery_def by (intro keeps_world_intros keeps_save_recovery)

lemma keeps_do_restore: "keeps (do_restore_from_recovery X user pass)"
  unfolding do_restore_from_recovery_def
  by (intro keeps_world_intros keeps_restore_from_recovery keeps_evict)

end

section \<open>The instances\<close>

definition user_frame ::
  "(string \<Rightarrow> bool) \<Rightarrow> (string \<Rightarrow> bool) \<Rightarrow> ('t, 's, 'z) world_scheme \<Rightarrow> ('t, 's, 'z) world_scheme \<Rightarrow> bool" where
  "user_frame U P v w \<longleftrightarrow> same_outside P v w \<and>
     (\<forall>u. \<not> U u \<longrightarrow> key_cache w u = key_cache v u) \<and>
     (\<forall>t. thr_cache v = Some t \<longrightarrow> thr_cache w = Some t) \<and> (thr_ok v \<longrightarrow> thr_ok w)"

lemma user_frame_refl [simp]: "user_frame U P w w"
  by (simp add: user_frame_def)

lemma user_frame_trans: "user_frame U P u v \<Longrightarrow> user_frame U P v w \<Longrightarrow> user_frame U P u w"
  by (auto simp: user_frame_def intro: same_outside_trans)

lemma user_frame_mono:
  "user_frame U P v w \<Longrightarrow> (\<And>u. U u \<Longrightarrow> U' u) \<Longrightarrow> (\<And>p. P p \<Longrightarrow> P' p) \<Longrightarrow> user_frame U' P' v w"
  by (auto simp: user_frame_def intro: same_outside_mono)

lemma same_rest_caches:
  "same_rest v w \<Longrightarrow> key_cache w = key_cache v \<and> thr_cache w = thr_cache v" for v w :: "('t, 's, 'z) world_scheme"
  by (cases v; cases w) (simp add: same_rest_def)

lemma user_frame_files: "same_outside P v w \<Longrightarrow> same_rest v w \<Longrightarrow> user_frame U P v w"
  using same_rest_caches [of v w] by (simp add: user_frame_def thr_ok_def)

lemma user_frame_world:
  "user_frame U P w (w\<lparr>tpm := t\<rparr>)" "user_frame U P w (w\<lparr>sensors := s\<rparr>)" "user_frame U P w (w\<lparr>ev_cache := e\<rparr>)"
  "thr_cache w = None \<Longrightarrow> user_frame U P w (w\<lparr>thr_cache := Some (resolve_threshold w)\<rparr>)"
  "U u \<Longrightarrow> user_frame U P w (w\<lparr>key_cache := (key_cache w)(u := k)\<rparr>)"
  using resolve_threshold_in [of w] by (auto simp: user_frame_def same_outside_def thr_ok_def)

lemmas user_frame_rules = user_frame_refl user_frame_trans user_frame_files user_frame_world

text \<open>Any file of any user.\<close>

definition any_area :: "string \<Rightarrow> bool" where
  "any_area p \<longleftrightarrow> (\<exists>u. user_area u p) \<or> host_signer_file p"

interpretation no_user: world_frame "user_frame (\<lambda>_. False) host_signer_file" host_signer_file
  by unfold_locales (blast intro: user_frame_rules)+

interpretation keyring: world_frame
  "user_frame (\<lambda>_. False) (\<lambda>p. host_signer_file p \<or> p = envelope_path)" "\<lambda>p. host_signer_file p \<or> p = envelope_path"
  by unfold_locales (blast intro: user_frame_rules)+

interpretation own: daemon_frame "user_frame (\<lambda>u. u = user) (user_or_signer user)" "user_or_signer user" user
  for user :: string
  by unfold_locales (auto intro: user_frame_rules simp: user_or_signer_def)

interpretation everyone: daemon_frame "user_frame (\<lambda>_. True) any_area" any_area user
  for user :: string
  by unfold_locales (auto intro: user_frame_rules simp: any_area_def)

lemma everyone_score_profiles: "everyone.keeps (score_profiles X live us)"
proof (induction us)
  case Nil
  show ?case unfolding score_profiles.simps by (intro everyone.keeps_intros)
next
  case (Cons u us)
  then show ?case unfolding score_profiles.simps
    by (intro everyone.keeps_world_intros everyone.keeps_load_user_samples)
qed

lemma everyone_do_identify: "everyone.keeps (do_identify X)"
  unfolding do_identify_def
  by (intro everyone.keeps_world_intros everyone.keeps_capture_and_embed everyone_score_profiles)

section \<open>The dispatcher\<close>

text \<open>The user a request names, and the files it may therefore touch.\<close>

definition req_user :: "request \<Rightarrow> string option" where
  "req_user req = (case req of
      REnroll u _ \<Rightarrow> Some u | RVerify u \<Rightarrow> Some u | RUnseal u \<Rightarrow> Some u | RSealPassword u _ \<Rightarrow> Some u
    | RUnsealPassword u \<Rightarrow> Some u | RAuthenticate u _ \<Rightarrow> Some u | RAuthIntent u _ \<Rightarrow> Some u
    | RPolicyStatus u \<Rightarrow> Some u | RResealUserEnvelopes u \<Rightarrow> Some u | RSetProfileName u _ \<Rightarrow> Some u
    | RDeleteProfile u \<Rightarrow> Some u | RSaveRecovery u _ \<Rightarrow> Some u | RRestoreFromRecovery u _ \<Rightarrow> Some u
    | _ \<Rightarrow> None)"

definition touches :: "request \<Rightarrow> string \<Rightarrow> bool" where
  "touches req p \<longleftrightarrow> host_signer_file p \<or> (\<exists>u. req_user req = Some u \<and> user_area u p) \<or>
     (req = RReseal \<and> p = envelope_path) \<or> (req = RIdentify \<and> any_area p)"

definition touches_key :: "request \<Rightarrow> string \<Rightarrow> bool" where
  "touches_key req u \<longleftrightarrow> req_user req = Some u \<or> req = RIdentify"

lemma touches_own: "req_user req = Some u \<Longrightarrow>
  user_frame (\<lambda>x. x = u) (user_or_signer u) w v \<Longrightarrow> user_frame (touches_key req) (touches req) w v"
  by (erule user_frame_mono) (auto simp: touches_def touches_key_def user_or_signer_def)

lemma touches_none:
  "user_frame (\<lambda>_. False) host_signer_file w v \<Longrightarrow> user_frame (touches_key req) (touches req) w v"
  by (erule user_frame_mono) (auto simp: touches_def)

lemma dispatch_user_frame:
  assumes "req_user req = Some u"
  shows "user_frame (\<lambda>x. x = u) (user_or_signer u) w (snd (dispatch X req peer w))"
proof (cases req)
  case (RVerify x)
  then show ?thesis
    using assms own.keeps_spawn [OF own.keeps_do_verify, of u w X X]
    by (auto simp: dispatch_def req_user_def split: option.split)
qed (use assms in \<open>auto simp: dispatch_def req_user_def
      intro!: own.keeps_root_user own.keeps_own_user own.keeps_do_enroll own.keeps_do_unseal own.keeps_do_seal_password
        own.keeps_do_unseal_password own.keeps_do_authenticate own.keeps_do_auth_intent own.keeps_do_policy_status
        own.keeps_do_reseal_user_envelopes own.keeps_do_set_profile_name own.keeps_do_delete_profile
        own.keeps_do_save_recovery own.keeps_do_restore\<close>)

lemma dispatch_frame:
  "user_frame (touches_key req) (touches req) w (snd (dispatch X req peer w))"
proof (cases "req_user req")
  case (Some u)
  then show ?thesis by (rule touches_own) (rule dispatch_user_frame [OF Some])
next
  case None
  consider "req = RReseal" | "req = RIdentify" | "req \<noteq> RReseal" "req \<noteq> RIdentify" by blast
  then show ?thesis
  proof cases
    case 1
    have "user_frame (\<lambda>_. False) (\<lambda>p. host_signer_file p \<or> p = envelope_path) w (snd (dispatch X req peer w))"
      unfolding 1 by (auto simp: dispatch_def intro!: keyring.keeps_spawn keyring.keeps_do_reseal)
    then show ?thesis by (rule user_frame_mono) (auto simp: 1 touches_def)
  next
    case 2
    have "user_frame (\<lambda>_. True) any_area w (snd (dispatch X req peer w))"
      unfolding 2 by (auto simp: dispatch_def intro!: everyone.keeps_spawn everyone_do_identify)
    then show ?thesis by (rule user_frame_mono) (auto simp: 2 touches_def touches_key_def)
  next
    case 3
    show ?thesis
      by (rule touches_none) (use None 3 in \<open>cases req; auto simp: dispatch_def req_user_def
        intro!: no_user.keeps_spawn no_user.keeps_do_status no_user.keeps_do_diagnose
          no_user.keeps_do_probe no_user.keeps_do_liveness_test no_user.keeps_do_position_sample
          no_user.keeps_do_list_profiles\<close>)
  qed
qed

end
