(* ===== verification/DaemonProps.thy ===== *)
theory DaemonProps
  imports Isolation
begin

text \<open>
  The dispatcher's guarantees: which requests root alone may make, what an unprivileged peer
  can change at all, which requests release a secret and on what evidence, what a deletion
  removes, that the announced plan is the one carried out, and invariants of whole request
  sequences.
\<close>

section \<open>Privilege\<close>

definition needs_root :: "request \<Rightarrow> bool" where
  "needs_root req = (case req of
      REnroll _ _ \<Rightarrow> True | RUnseal _ \<Rightarrow> True | RReseal \<Rightarrow> True | RSealPassword _ _ \<Rightarrow> True
    | RUnsealPassword _ \<Rightarrow> True | RResealUserEnvelopes _ \<Rightarrow> True | RIdentify \<Rightarrow> True
    | RSetProfileName _ _ \<Rightarrow> True | RDeleteProfile _ \<Rightarrow> True | RSaveRecovery _ _ \<Rightarrow> True
    | RRestoreFromRecovery _ _ \<Rightarrow> True | _ \<Rightarrow> False)"

lemma dispatch_needs_root:
  "needs_root req \<Longrightarrow> \<not> is_root peer \<Longrightarrow> \<exists>op. dispatch X req peer w = (forbidden op, w)"
  by (cases req) (auto simp: needs_root_def dispatch_def root_user_def)

lemma dispatch_other_user:
  assumes "req_user req = Some u" and "\<not> peer_may_act_as X peer u"
  shows "snd (dispatch X req peer w) = w"
proof -
  have "\<not> is_root peer"
    using assms(2) by (auto simp: is_root_def peer_may_act_as_def)
  then show ?thesis
    using assms by (cases req) (auto simp: req_user_def dispatch_def root_user_def own_user_def split: option.split)
qed

text \<open>The files and cached keys within reach of a peer.\<close>

definition reach_files :: "('t, 's, 'x) daemon_ext_scheme \<Rightarrow> nat option \<Rightarrow> string \<Rightarrow> bool" where
  "reach_files X peer p \<longleftrightarrow> host_signer_file p \<or> (\<exists>u. peer_may_act_as X peer u \<and> user_area u p)"

lemma dispatch_within_reach:
  assumes "\<not> is_root peer"
  shows "user_frame (peer_may_act_as X peer) (reach_files X peer) w (snd (dispatch X req peer w))"
proof (cases "req_user req")
  case (Some u)
  show ?thesis
  proof (cases "peer_may_act_as X peer u")
    case True
    then show ?thesis
      by (intro user_frame_mono [OF dispatch_user_frame [OF Some]])
        (auto simp: reach_files_def user_or_signer_def)
  next
    case False
    show ?thesis unfolding dispatch_other_user [OF Some False] by (rule user_frame_refl)
  qed
next
  case None
  show ?thesis
  proof (cases "needs_root req")
    case True
    then show ?thesis using dispatch_needs_root [OF True assms, of X w] by auto
  next
    case False
    then have "req \<noteq> RReseal" "req \<noteq> RIdentify" by (auto simp: needs_root_def)
    then show ?thesis
      by (intro user_frame_mono [OF dispatch_frame]) (auto simp: touches_def touches_key_def None reach_files_def)
  qed
qed

section \<open>Sequences of requests\<close>

lemma serve_snd: "snd (serve X ((req, peer) # rs) w) = snd (serve X rs (snd (dispatch X req peer w)))"
  by (simp add: case_prod_beta Let_def)

lemma serve_frame:
  fixes w :: "('t, 's, 'z) world_scheme"
  assumes "\<And>req peer (w :: ('t, 's, 'z) world_scheme). (req, peer) \<in> set rs \<Longrightarrow> user_frame U P w (snd (dispatch X req peer w))"
  shows "user_frame U P w (snd (serve X rs w))"
  using assms
proof (induction rs arbitrary: w)
  case (Cons r rs)
  obtain req peer where r: "r = (req, peer)" by (cases r)
  have "user_frame U P w (snd (dispatch X req peer w))" by (rule Cons.prems) (simp add: r)
  moreover have "user_frame U P (snd (dispatch X req peer w)) (snd (serve X rs (snd (dispatch X req peer w))))"
    by (rule Cons.IH) (use Cons.prems in auto)
  ultimately show ?case unfolding r serve_snd by (rule user_frame_trans)
qed simp

lemma serve_thr_ok: "thr_ok w \<Longrightarrow> thr_ok (snd (serve X rs w))"
proof -
  have "user_frame (\<lambda>_. True) (\<lambda>_. True) w (snd (serve X rs w))"
    by (rule serve_frame) (rule user_frame_mono [OF dispatch_frame], simp_all)
  then show "thr_ok w \<Longrightarrow> ?thesis" by (simp add: user_frame_def)
qed

lemma host_signer_not_area: "host_signer_file p \<Longrightarrow> \<not> user_area u p"
  using user_area_config_file [of _ u]
  by (auto simp: host_signer_file_def host_signing_key_path_def host_signing_pub_path_def
      host_signature_path_def host_signature_tmp_def path_join_def starts_with_def)

lemma envelope_not_area: "\<not> user_area u envelope_path"
  using user_area_config_file [of "''tpm_envelope.json''" u]
  by (simp add: envelope_path_def path_join_def starts_with_def)

text \<open>A sequence of requests that never names a user leaves that user's profile alone.\<close>

lemma serve_isolates:
  fixes w :: "('t, 's, 'z) world_scheme"
  assumes "\<And>req peer. (req, peer) \<in> set rs \<Longrightarrow> \<not> touches_key req u \<and>
      (\<forall>v. req_user req = Some v \<longrightarrow> CHR ''/'' \<notin> set v)"
    and "CHR ''/'' \<notin> set u"
  shows "key_cache (snd (serve X rs w)) u = key_cache w u \<and>
    (user_area u p \<longrightarrow> files (snd (serve X rs w)) p = files w p)"
proof -
  have "user_frame (\<lambda>v. v \<noteq> u) (\<lambda>p. \<not> user_area u p) v (snd (dispatch X req peer v))"
    if "(req, peer) \<in> set rs" for req peer and v :: "('t, 's, 'z) world_scheme"
  proof (rule user_frame_mono [OF dispatch_frame])
    show "x \<noteq> u" if "touches_key req x" for x using that assms(1) [OF \<open>(req, peer) \<in> set rs\<close>] by auto
    show "\<not> user_area u p" if "touches req p" for p
      using that assms(1) [OF \<open>(req, peer) \<in> set rs\<close>] assms(2) host_signer_not_area envelope_not_area
      by (auto simp: touches_def touches_key_def dest: user_area_disjoint)
  qed
  then have "user_frame (\<lambda>v. v \<noteq> u) (\<lambda>p. \<not> user_area u p) w (snd (serve X rs w))"
    by (rule serve_frame)
  then show ?thesis by (auto simp: user_frame_def same_outside_def)
qed

section \<open>Release of secrets\<close>

lemma query_result [res_iff]: "query f w = (Ok y, w') \<longleftrightarrow> y = f w \<and> w' = w"
  by auto

lemma do_verify_quiet: "do_verify X user w = (Ok r, w') \<Longrightarrow> released r = None"
  unfolding do_verify_def by (erule respond_quiet, erule respond_quiet) (auto simp: res_iff)

lemma do_authenticate_released:
  assumes "do_authenticate X user service isr w = (Ok r, w')" and "released r \<noteq> None"
  shows "fst (plan_action X user service isr w) = Unseal \<and> do_unseal_password X user w = (Ok r, w')"
  using assms
  by (auto simp: do_authenticate_def res_iff dest: do_verify_quiet split: action.splits prod.splits)

lemma plan_action_Unseal:
  assumes "fst (plan_action X user service isr w) = Unseal"
  shows "isr \<and> effective_tier X user w = Secure \<and> face_is_active_method w"
  using assms by (auto simp: plan_action_def Let_def unseal_if_secure_def decide_def
      split: if_splits operation_class.splits modality_req.splits)

lemma root_user_result:
  assumes "root_user X peer op user h w = (r, w')" and "released r \<noteq> None"
  shows "is_root peer \<and> validate_user user = Inr () \<and> h w = (Ok r, w')"
  using assms by (auto simp: root_user_def invalid_user_def dest: spawn_released split: if_splits sum.splits)

lemma own_user_result:
  assumes "own_user X peer op user h w = (r, w')" and "released r \<noteq> None"
  shows "validate_user user = Inr () \<and> h w = (Ok r, w')"
  using assms by (auto simp: own_user_def invalid_user_def dest: spawn_released split: if_splits sum.splits)

text \<open>Handlers that never answer with a secret.\<close>

definition mute :: "('w, lh_error, response) act \<Rightarrow> bool" where
  "mute h \<longleftrightarrow> (\<forall>w r w'. h w = (Ok r, w') \<longrightarrow> released r = None)"

lemma mute_respond: "(\<And>x. mute (g x)) \<Longrightarrow> mute (respond m msg g)"
  unfolding mute_def by (blast intro: respond_quiet)

lemma mute_basic:
  "released r = None \<Longrightarrow> mute (ret r)"
  "(\<And>w. released (f w) = None) \<Longrightarrow> mute (query f)"
  "(\<And>x. mute (g x)) \<Longrightarrow> mute (abind m g)"
  "(b \<Longrightarrow> mute h) \<Longrightarrow> (\<not> b \<Longrightarrow> mute k) \<Longrightarrow> mute (if b then h else k)"
  "(\<And>x y. mute (q x y)) \<Longrightarrow> mute (case p of (x, y) \<Rightarrow> q x y)"
  "(\<And>e. mute (a e)) \<Longrightarrow> (\<And>x. mute (g2 x)) \<Longrightarrow> mute (case z of Inl e \<Rightarrow> a e | Inr x \<Rightarrow> g2 x)"
  "(\<And>x. mute (g3 x)) \<Longrightarrow> mute (Let v g3)"
  by (auto simp: mute_def res_iff split: prod.splits sum.splits)

lemmas mute_intros = mute_basic mute_respond

lemma mute_handlers:
  "mute (do_status X)" "mute (do_enroll X user rst)" "mute (do_verify X user)" "mute (do_reseal X)"
  "mute (do_seal_password X user pw)" "mute (do_auth_intent X user service isr)"
  "mute (do_policy_status X user)" "mute (do_diagnose X)" "mute (do_probe X)" "mute (do_liveness_test X)"
  "mute (do_position_sample X)" "mute (do_reseal_user_envelopes X user)" "mute (do_list_profiles X peer)"
  "mute (do_identify X)" "mute (do_set_profile_name user name)" "mute (do_delete_profile user)"
  "mute (do_save_recovery X user pass)" "mute (do_restore_from_recovery X user pass)"
  unfolding do_status_def do_enroll_def do_verify_def do_reseal_def do_seal_password_def do_auth_intent_def
    do_policy_status_def do_diagnose_def do_probe_def do_liveness_test_def do_position_sample_def
    do_reseal_user_envelopes_def do_list_profiles_def do_identify_def do_set_profile_name_def
    do_delete_profile_def do_save_recovery_def do_restore_from_recovery_def
  by (intro mute_intros; simp split: sum.split)+

lemma mute_spawn: "mute h \<Longrightarrow> released (fst (spawn X h w)) = None"
  by (cases "h w"; cases "fst (h w)") (auto simp: mute_def spawn_def)

lemma mute_root_user: "mute h \<Longrightarrow> released (fst (root_user X peer op user h w)) = None"
  using mute_spawn [of h X w] by (auto simp: root_user_def invalid_user_def split: sum.splits)

lemma mute_own_user: "mute h \<Longrightarrow> released (fst (own_user X peer op user h w)) = None"
  using mute_spawn [of h X w] by (auto simp: own_user_def invalid_user_def split: sum.splits)

definition releases :: "request \<Rightarrow> bool" where
  "releases req = (case req of RUnseal _ \<Rightarrow> True | RUnsealPassword _ \<Rightarrow> True | RAuthenticate _ _ \<Rightarrow> True | _ \<Rightarrow> False)"

lemma dispatch_mute:
  assumes "\<not> releases req"
  shows "released (fst (dispatch X req peer w)) = None"
proof (cases req)
  case (RVerify x)
  then show ?thesis
    using mute_spawn [OF mute_handlers(3)]
    by (auto simp: dispatch_def invalid_user_def split: sum.splits)
qed (use assms in \<open>auto simp: dispatch_def releases_def
      intro!: mute_spawn mute_root_user mute_own_user mute_handlers\<close>)

text \<open>The sealed object a release came from, with the evidence of the face.\<close>

definition unsealed_for ::
  "('t, 's, 'x) daemon_ext_scheme \<Rightarrow> string \<Rightarrow> request \<Rightarrow> ('t, 's, 'z) world_scheme
   \<Rightarrow> (lh_error, bytes) outcome \<times> ('t, 's, 'z) world_scheme" where
  "unsealed_for X user req u =
     (case req of RUnseal _ \<Rightarrow> unseal_keyring_secret X u | _ \<Rightarrow> unseal_password X user u)"

lemma dispatch_released:
  assumes "dispatch X req peer w = (r, w')" and "released r = Some s"
  shows "is_root peer \<and> (\<exists>user u. req_user req = Some user \<and> validate_user user = Inr () \<and>
    face_evidence X user w u \<and> unsealed_for X user req u = (Ok s, w') \<and>
    (\<forall>service. req = RAuthenticate user service \<longrightarrow>
       fst (plan_action X user service True w) = Unseal))"
proof -
  have rel: "released r \<noteq> None" using assms(2) by simp
  then have "releases req" using dispatch_mute [of req X peer w] assms(1) by (metis fst_conv)
  then consider (keyring) user where "req = RUnseal user" | (password) user where "req = RUnsealPassword user"
    | (auth) user service where "req = RAuthenticate user service"
    by (cases req) (auto simp: releases_def)
  then show ?thesis
  proof cases
    case keyring
    then have "is_root peer \<and> validate_user user = Inr () \<and> do_unseal X user w = (Ok r, w')"
      using root_user_result [OF _ rel] assms(1) by (simp add: dispatch_def)
    then show ?thesis
      using do_unseal_released [OF _ rel] assms(2) keyring by (fastforce simp: req_user_def unsealed_for_def)
  next
    case password
    then have "is_root peer \<and> validate_user user = Inr () \<and> do_unseal_password X user w = (Ok r, w')"
      using root_user_result [OF _ rel] assms(1) by (simp add: dispatch_def)
    then show ?thesis
      using do_unseal_password_released [OF _ rel] assms(2) password by (fastforce simp: req_user_def unsealed_for_def)
  next
    case auth
    then have o: "own_user X peer ''authenticate'' user (do_authenticate X user service (is_root peer)) w = (r, w')"
      using assms(1) by (simp add: dispatch_def)
    from own_user_result [OF o rel] have v: "validate_user user = Inr ()"
      and a: "do_authenticate X user service (is_root peer) w = (Ok r, w')"
      by simp_all
    have p: "fst (plan_action X user service (is_root peer) w) = Unseal"
      and d: "do_unseal_password X user w = (Ok r, w')"
      using do_authenticate_released [OF a rel] by simp_all
    from plan_action_Unseal [OF p] have root: "is_root peer" by simp
    from do_unseal_password_released [OF d rel] show ?thesis
      using assms(2) auth v root p by (fastforce simp: req_user_def unsealed_for_def)
  qed
qed

text \<open>A policy-driven release comes from a plan to unseal.\<close>

lemma authenticate_released:
  assumes "dispatch X (RAuthenticate user service) peer w = (r, w')" and "released r \<noteq> None"
  shows "is_root peer \<and> effective_tier X user w = Secure \<and> face_is_active_method w \<and>
    (classify service (session_warm X user w) = Login \<and> login (current_policy w) \<noteq> Off \<or>
     classify service (session_warm X user w) = Elevation \<and> sudo (current_policy w) \<noteq> Off)"
proof -
  from assms(2) obtain s where "released r = Some s" by blast
  from dispatch_released [OF assms(1) this] have "is_root peer" "fst (plan_action X user service True w) = Unseal"
    by (auto simp: req_user_def)
  then show ?thesis
    by (auto simp: plan_action_def Let_def decide_Unseal_iff split: if_splits)
qed

text \<open>What the evidence says of the face.\<close>

lemma load_user_samples_keeps: "user_frame (\<lambda>x. x = user) (user_or_signer user) w (snd (load_user_samples X user w))"
  by (rule own.keepsD) (rule own.keeps_load_user_samples)

lemma capture_gated_keeps: "user_frame (\<lambda>_. False) host_signer_file w (snd (capture_embed_gated X user w))"
  by (rule no_user.keepsD) (rule no_user.keeps_capture_embed_gated)

lemma face_evidence_match:
  assumes "face_evidence X user w u" and "thr_ok w"
  shows "\<exists>samples v live signals x t s. load_user_samples X user w = (Ok samples, v) \<and>
    capture_and_embed_signals X v = (Ok (live, signals), x) \<and> ir_gate_check X user signals x = Inr () \<and>
    f_in min_threshold max_threshold t \<and> s \<in> set samples \<and> f_le t (cosine live s) \<and> u = x\<lparr>thr_cache := Some t\<rparr>"
proof -
  from assms(1) obtain samples live m v x where
    l: "load_user_samples X user w = (Ok samples, v)" and c: "capture_embed_gated X user v = (Ok live, x)"
    and m: "match_against live samples x = (Ok m, u)" "ar_matched m"
    unfolding face_evidence_def by blast
  from c obtain signals where g: "capture_and_embed_signals X v = (Ok (live, signals), x)"
    "ir_gate_check X user signals x = Inr ()"
    by (auto simp: capture_embed_gated_def res_iff)
  have "thr_ok x"
    using load_user_samples_keeps [of user w X] capture_gated_keeps [of v X user] assms(2) l c
    by (simp add: user_frame_def)
  from match_against_result [OF m(1) this] m(2) obtain t s where
    "f_in min_threshold max_threshold t" "u = x\<lparr>thr_cache := Some t\<rparr>" "s \<in> set samples" "f_le t (cosine live s)"
    by blast
  with l g show ?thesis by blast
qed

text \<open>Loading the samples: the enrolled cameras are the present ones, and the template decrypts.\<close>

lemma load_user_samples_result:
  assumes "load_user_samples X user w = (Ok samples, v)"
  shows "\<exists>w1 key w2 raw. check_camera_binding X user w = (Ok (), w1) \<and>
    cached_template_key X user w1 = (Ok key, w2) \<and> load_encrypted_embedding X user key w2 = (Ok raw, v) \<and>
    parse_raw_embeddings raw = Inr samples \<and> samples \<noteq> []"
  using assms by (auto simp: load_user_samples_def res_iff dest: parse_nonempty)

lemma check_camera_binding_result:
  assumes "check_camera_binding X user w = (Ok (), v)" and "path_exists (camera_binding_path user) w"
  shows "\<exists>enrolled current. enrolled_binding X user w = Some enrolled \<and>
    snapshot_camera_binding X w = ((Ok current :: (string, camera_binding) outcome), v) \<and>
    binding_verify enrolled current = Inr ()"
  using assms by (auto simp: check_camera_binding_def enrolled_binding_def Let_def res_iff split: if_splits)

lemma capture_signals_result:
  assumes "capture_and_embed_signals X w = (Ok (live, signals), x)"
  shows "\<exists>img f. capture_detect_live X w = (Ok (img, f, signals), x)"
  using assms by (auto simp: capture_and_embed_signals_def res_iff)

section \<open>The announced plan\<close>

lemma own_user_ok:
  "peer_may_act_as X peer user \<Longrightarrow> validate_user user = Inr () \<Longrightarrow> own_user X peer op user h w = spawn X h w"
  by (simp add: own_user_def invalid_user_def)

lemma auth_intent_plan:
  assumes "dispatch X (RAuthIntent user service) peer w = (SAuthPlan engage label notice, w')"
  defines "a \<equiv> fst (plan_action X user service (is_root peer) w)"
  shows "engage = (a \<noteq> Deny) \<and> label = action_label a \<and> peer_may_act_as X peer user \<and> validate_user user = Inr ()"
proof -
  have "spawn X (do_auth_intent X user service (is_root peer)) w = (SAuthPlan engage label notice, w') \<and>
     peer_may_act_as X peer user \<and> validate_user user = Inr ()"
    using assms(1) by (auto simp: dispatch_def own_user_def invalid_user_def forbidden_def split: if_splits sum.splits)
  moreover from this have "do_auth_intent X user service (is_root peer) w = (Ok (SAuthPlan engage label notice), w')"
    by (auto simp: spawn_def split: prod.splits outcome.splits)
  ultimately show ?thesis
    by (auto simp: do_auth_intent_def res_iff a_def split: prod.splits)
qed

lemma authenticate_by_plan:
  fixes w :: "('t, 's, 'z) world_scheme" and service :: string
  assumes "peer_may_act_as X peer user" and "validate_user user = Inr ()"
  defines "a \<equiv> fst (plan_action X user service (is_root peer) w)"
  shows "a = Verify \<Longrightarrow> dispatch X (RAuthenticate user service) peer w = dispatch X (RVerify user) peer w"
    and "a = Unseal \<Longrightarrow> dispatch X (RAuthenticate user service) peer w = dispatch X (RUnsealPassword user) peer w"
    and "a = Deny \<Longrightarrow> \<exists>m. dispatch X (RAuthenticate user service) peer w = (SError m, w)"
proof -
  let ?h = "do_authenticate X user service (is_root peer)"
  have d: "dispatch X (RAuthenticate user service) peer w = spawn X ?h w"
    using assms(1,2) by (simp add: dispatch_def own_user_ok)
  have run: "?h w = (case a of Deny \<Rightarrow> (Ok (SError (''face auth not permitted for '' @ quoted service @ '' on the '' @
      tier_as_str (fst (snd (plan_action X user service (is_root peer) w))) @ '' tier'')), w)
    | Verify \<Rightarrow> do_verify X user w | Unseal \<Rightarrow> do_unseal_password X user w)"
    unfolding do_authenticate_def a_def
    by (cases "plan_action X user service (is_root peer) w") (simp add: abind_def split: action.split)
  show "dispatch X (RAuthenticate user service) peer w = dispatch X (RVerify user) peer w" if "a = Verify"
    unfolding d using run that assms(1,2) by (simp add: dispatch_def invalid_user_def spawn_def)
  show "dispatch X (RAuthenticate user service) peer w = dispatch X (RUnsealPassword user) peer w" if "a = Unseal"
  proof -
    have "is_root peer" using that plan_action_Unseal [of X user service "is_root peer" w] by (simp add: a_def)
    then show ?thesis
      unfolding d using run that assms(2) by (simp add: dispatch_def root_user_def invalid_user_def spawn_def)
  qed
  show "\<exists>m. dispatch X (RAuthenticate user service) peer w = (SError m, w)" if "a = Deny"
    unfolding d using run that by (simp add: spawn_def)
qed

section \<open>Deletion and listing\<close>

lemma root_user_answer:
  assumes "root_user X peer op user h w = (r, w')" and "\<And>m. r \<noteq> SError m"
  shows "is_root peer \<and> validate_user user = Inr () \<and> h w = (Ok r, w')"
  using assms
  by (auto simp: root_user_def invalid_user_def forbidden_def spawn_def split: if_splits sum.splits prod.splits outcome.splits)

lemma fs_remove_dir_all_result:
  "fs_remove_dir_all d w = (Ok (), w') \<Longrightarrow>
   w' = w\<lparr>files := (\<lambda>p. if below d p then None else files w p), modes := (\<lambda>p. if below d p then None else modes w p),
     dirs := filter (\<lambda>q. q \<noteq> d \<and> \<not> below d q) (dirs w)\<rparr>"
  by (auto simp: fs_remove_dir_all_def split: option.splits if_splits)

lemma delete_profile_result:
  assumes "dispatch X (RDeleteProfile user) peer w = (SProfileDeleted u n, w')"
  shows "is_root peer \<and> u = user \<and> user \<in> set (enrolled_profiles w) \<and> n = profile_sample_count user w \<and>
    key_cache w' = (key_cache w)(user := None) \<and>
    files w' = (\<lambda>p. if user_area user p then None else files w p) \<and> user \<notin> set (enrolled_profiles w')"
proof -
  from root_user_answer [of X peer "''delete_profile''" user "do_delete_profile user" w] assms
  have root: "is_root peer" and v: "validate_user user = Inr ()"
    and h: "do_delete_profile user w = (Ok (SProfileDeleted u n), w')"
    by (auto simp: dispatch_def)
  have pj: "path_join config_root user = config_root @ ''/'' @ user"
    using v by (simp add: res_iff path_join_plain)
  from h obtain x where e: "user \<in> set (enrolled_profiles w)" "u = user" "n = profile_sample_count user w"
    and x: "fs_remove_dir_all (path_join config_root user) w = (Ok (), x)"
    and w': "w' = x\<lparr>key_cache := (key_cache x)(user := None)\<rparr>"
    by (auto simp: do_delete_profile_def no_profile_def res_iff evict_template_key_def
        dest!: respond_result split: if_splits)
  note x' = fs_remove_dir_all_result [OF x, unfolded pj]
  have gone: "\<not> path_exists (user_path user f) w'" if "CHR ''/'' \<notin> set f" for f
  proof -
    have "user_area user (user_path user f)" by (rule user_path_area [OF v that])
    then show ?thesis by (simp add: w' x' path_exists_def user_area_def)
  qed
  have "user \<notin> set (enrolled_profiles w')"
    using gone [of "''embedding.enc''"] gone [of "''embedding.bin''"] by (simp add: enrolled_profiles_def)
  then show ?thesis
    using root e by (simp add: w' x' user_area_def fun_eq_iff)
qed

lemma list_profiles_password:
  assumes "dispatch X RListProfiles peer w = (SProfiles ps, w')" and "p \<in> set ps" and "pi_has_password p"
  shows "peer_may_act_as X peer (pi_user p)"
  using assms by (auto simp: dispatch_def spawn_def do_list_profiles_def)

end
