(* ===== verification/TpmSlots.thy ===== *)
theory TpmSlots
  imports TpmProps
begin

text \<open>
  TPM slots: sessions and transient objects occupy the few slots of the device, and
  crates/linhello-core/src/tpm.rs flushes each of them on every return path. \<open>live t\<close> observes
  the occupied slots of a TPM state; \<open>slot_law\<close> states what the commands are documented to do
  to them, and the frame interface carries the argument through the scopes.
\<close>

section \<open>What the commands do to the slots\<close>

definition quiet :: "('t \<Rightarrow> nat set) \<Rightarrow> ('t, string, 'a) act \<Rightarrow> bool" where
  "quiet live m \<longleftrightarrow> (\<forall>t. live (snd (m t)) \<subseteq> live t)"

definition occupies :: "('t \<Rightarrow> nat set) \<Rightarrow> ('a \<Rightarrow> nat set) \<Rightarrow> ('t, string, 'a) act \<Rightarrow> bool" where
  "occupies live slot m \<longleftrightarrow>
     (\<forall>t. live (snd (m t)) \<subseteq> live t \<union> (case fst (m t) of Ok x \<Rightarrow> slot x | _ \<Rightarrow> {}))"

definition slot_law :: "('t \<Rightarrow> nat set) \<Rightarrow> ('t, 'x) tss_scheme \<Rightarrow> bool" where
  "slot_law live X \<longleftrightarrow>
     (\<forall>c. (\<forall>k. occupies live set_option (start_auth_session X c k)) \<and>
          (\<forall>a p. occupies live (\<lambda>h. {h}) (create_primary X c a p)) \<and>
          (\<forall>a h b p. occupies live (\<lambda>h. {h}) (tpm_load X c a h b p)) \<and>
          (\<forall>p. occupies live (\<lambda>h. {h}) (load_external_public X c p)) \<and>
          (\<forall>h t. live (snd (flush_context X c h t)) \<subseteq> live t - {h}) \<and>
          (\<forall>t. live (ctx_drop X c t) \<subseteq> live t) \<and> (\<forall>t. live (clear_sessions X c t) \<subseteq> live t)) \<and>
     (\<forall>n. quiet live (ctx_new X n)) \<and>
     (\<forall>c. (\<forall>s. quiet live (pcr_read X c s)) \<and> (\<forall>s. quiet live (tr_sess_set_attributes X c s)) \<and>
          (\<forall>s l. quiet live (policy_pcr X c s l)) \<and> (\<forall>s. quiet live (policy_get_digest X c s)) \<and>
          (\<forall>h. quiet live (tr_from_tpm_public X c h)) \<and> (\<forall>h. quiet live (read_public X c h)) \<and>
          (\<forall>h b. quiet live (tr_set_auth X c h b)) \<and> (\<forall>a h p. quiet live (evict_control X c a h p)) \<and>
          (\<forall>a h p b. quiet live (tpm_create X c a h p b)) \<and> (\<forall>h. quiet live (tr_get_name X c h)) \<and>
          (\<forall>h d s. quiet live (verify_signature X c h d s)) \<and>
          (\<forall>s d n k i. quiet live (policy_authorize X c s d n k i)) \<and>
          (\<forall>a h. quiet live (tpm_unseal X c a h)))"

text \<open>Persisting the SRK succeeds: the one step whose failure returns past a transient key.\<close>

definition evict_law :: "('t, 'x) tss_scheme \<Rightarrow> bool" where
  "evict_law X \<longleftrightarrow> (\<forall>c a h p t. \<exists>x. fst (evict_control X c a h p t) = Ok x)"

section \<open>The slot frame\<close>

definition no_new_slots ::
  "('t \<Rightarrow> nat set) \<Rightarrow> ('t, 'z) tpm_host_scheme \<Rightarrow> ('t, 'z) tpm_host_scheme \<Rightarrow> bool" where
  "no_new_slots live v w \<longleftrightarrow> live (tpm w) \<subseteq> live (tpm v)"

interpretation slots: frame "no_new_slots live :: ('t, 'z) tpm_host_scheme \<Rightarrow> _ \<Rightarrow> bool"
  for live :: "'t \<Rightarrow> nat set"
  by unfold_locales (auto simp: no_new_slots_def)

lemma tpm_of_more: "host.more v = host.more w \<Longrightarrow> tpm v = tpm w" for v w :: "('t, 'z) tpm_host_scheme"
  by (cases v; cases w) simp

lemma slots_rest:
  fixes m :: "(('t, 'z) tpm_host_scheme, 'e, 'a) act"
  assumes "rest.keeps m"
  shows "slots.keeps_ret live m"
proof (rule slots.keeps_keeps_ret, rule slots.keepsI)
  fix w
  have "tpm (snd (m w)) = tpm w"
    using rest.keepsD [OF assms] by (intro tpm_of_more) (simp add: same_rest_def)
  then show "no_new_slots live w (snd (m w))"
    by (simp add: no_new_slots_def)
qed

section \<open>Taking and freeing a slot\<close>

definition takes ::
  "('t \<Rightarrow> nat set) \<Rightarrow> ('a \<Rightarrow> nat set) \<Rightarrow> (('t, 'z) tpm_host_scheme, 'e, 'a) act \<Rightarrow> bool" where
  "takes live slot m \<longleftrightarrow> (\<forall>w. \<not> panics (fst (m w)) \<longrightarrow>
     live (tpm (snd (m w))) \<subseteq> live (tpm w) \<union> (case fst (m w) of Ok x \<Rightarrow> slot x | _ \<Rightarrow> {}))"

definition frees :: "('t \<Rightarrow> nat set) \<Rightarrow> nat set \<Rightarrow> (('t, 'z) tpm_host_scheme, 'e, 'a) act \<Rightarrow> bool" where
  "frees live H m \<longleftrightarrow> (\<forall>w. \<not> panics (fst (m w)) \<longrightarrow> live (tpm (snd (m w))) \<subseteq> live (tpm w) - H)"

lemma keeps_ret_frees: "slots.keeps_ret live m \<longleftrightarrow> frees live {} m"
  by (simp add: slots.keeps_ret_def frees_def no_new_slots_def)

lemma keeps_ret_takes: "slots.keeps_ret live m \<Longrightarrow> takes live slot m"
  by (auto simp: slots.keeps_ret_def takes_def no_new_slots_def)

lemma keeps_ret_open:
  assumes "takes live slot m" and "\<And>x. frees live (slot x) (f x)"
  shows "slots.keeps_ret live (abind m f)"
proof (rule slots.keeps_retI)
  fix w assume n: "\<not> panics (fst (abind m f w))"
  then have m: "\<not> panics (fst (m w))" by (auto simp: abind_eq split: outcome.splits)
  show "no_new_slots live w (snd (abind m f w))"
  proof (cases "fst (m w)")
    case (Ok x)
    then have "\<not> panics (fst (f x (snd (m w))))" using n by (simp add: abind_eq)
    then have "live (tpm (snd (f x (snd (m w))))) \<subseteq> live (tpm (snd (m w))) - slot x"
      using assms(2) [of x] by (simp add: frees_def)
    moreover have "live (tpm (snd (m w))) \<subseteq> live (tpm w) \<union> slot x"
      using assms(1) m Ok unfolding takes_def by (metis outcome.simps(10))
    ultimately show ?thesis
      using Ok by (auto simp: no_new_slots_def abind_eq)
  next
    case (Err e)
    then show ?thesis
      using assms(1) m unfolding takes_def by (auto simp: no_new_slots_def abind_eq dest!: spec [of _ w])
  qed (use m in simp)
qed

lemma takes_abind:
  assumes "slots.keeps_ret live m" and "\<And>x. takes live slot (f x)"
  shows "takes live slot (abind m f)"
  unfolding takes_def
proof (intro allI impI)
  fix w assume n: "\<not> panics (fst (abind m f w))"
  then have "\<not> panics (fst (m w))" by (auto simp: abind_eq split: outcome.splits)
  then have "live (tpm (snd (m w))) \<subseteq> live (tpm w)"
    using assms(1) by (simp add: slots.keeps_ret_def no_new_slots_def)
  then show "live (tpm (snd (abind m f w))) \<subseteq> live (tpm w) \<union>
      (case fst (abind m f w) of Ok x \<Rightarrow> slot x | _ \<Rightarrow> {})"
    using assms(2) n unfolding takes_def abind_eq by (cases "fst (m w)") fastforce+
qed

lemma frees_abind:
  assumes "frees live H m" and "\<And>x. slots.keeps_ret live (f x)"
  shows "frees live H (abind m f)"
  unfolding frees_def
proof (intro allI impI)
  fix w assume n: "\<not> panics (fst (abind m f w))"
  then have "\<not> panics (fst (m w))" by (auto simp: abind_eq split: outcome.splits)
  then have "live (tpm (snd (m w))) \<subseteq> live (tpm w) - H"
    using assms(1) by (simp add: frees_def)
  then show "live (tpm (snd (abind m f w))) \<subseteq> live (tpm w) - H"
    using assms(2) n unfolding slots.keeps_ret_def no_new_slots_def abind_eq
    by (cases "fst (m w)") fastforce+
qed

text \<open>Cleanup after a part that cannot stop the computation.\<close>

definition unstoppable :: "('w, 'e, 'a) act \<Rightarrow> bool" where
  "unstoppable m \<longleftrightarrow> (\<forall>w e. fst (m w) \<noteq> Err e)"

lemma frees_after:
  assumes "slots.keeps_ret live m" and "unstoppable m" and "\<And>x. frees live H (f x)"
  shows "frees live H (abind m f)"
  unfolding frees_def
proof (intro allI impI)
  fix w assume n: "\<not> panics (fst (abind m f w))"
  then have "\<not> panics (fst (m w))" by (auto simp: abind_eq split: outcome.splits)
  then have "live (tpm (snd (m w))) \<subseteq> live (tpm w)"
    using assms(1) by (simp add: slots.keeps_ret_def no_new_slots_def)
  then show "live (tpm (snd (abind m f w))) \<subseteq> live (tpm w) - H"
    using assms(2,3) n unfolding frees_def unstoppable_def abind_eq
    by (cases "fst (m w)") fastforce+
qed

lemma unstoppable_try: "unstoppable (try_act m)"
  by (auto simp: unstoppable_def try_act_def split: prod.splits outcome.splits)

lemma frees_finally:
  "slots.keeps_ret live m \<Longrightarrow> frees live H fin \<Longrightarrow> frees live H (finally_act m fin)"
  unfolding finally_act_def
  by (intro frees_after slots.keeps_ret_try unstoppable_try frees_abind slots.keeps_ret_intros)

section \<open>The code's scopes\<close>

lemma slot_quiet:
  assumes "slot_law live X"
  shows "quiet live (ctx_new X n)" "quiet live (pcr_read X c l)" "quiet live (tr_sess_set_attributes X c s)"
    "quiet live (policy_pcr X c s l)" "quiet live (policy_get_digest X c s)"
    "quiet live (tr_from_tpm_public X c h)" "quiet live (read_public X c h)"
    "quiet live (tr_set_auth X c h b)" "quiet live (evict_control X c a h q)"
    "quiet live (tpm_create X c a h p b)" "quiet live (tr_get_name X c h)"
    "quiet live (verify_signature X c h d b)" "quiet live (policy_authorize X c s d b k i)"
    "quiet live (tpm_unseal X c a h)"
  using assms by (simp_all add: slot_law_def)

lemma slot_clear: "slot_law live X \<Longrightarrow> live (clear_sessions X c t) \<subseteq> live t"
  by (simp add: slot_law_def)

lemma slot_occupies:
  assumes "slot_law live X"
  shows "occupies live set_option (start_auth_session X c k)"
    "occupies live (\<lambda>h. {h}) (create_primary X c a p)"
    "occupies live (\<lambda>h. {h}) (tpm_load X c a h b p)"
    "occupies live (\<lambda>h. {h}) (load_external_public X c p)"
  using assms by (simp_all add: slot_law_def)

lemma snd_tss_cmd: "snd (tss_cmd m w) = w\<lparr>tpm := snd (m (tpm w))\<rparr>" "fst (tss_cmd m w) = fst (m (tpm w))"
  by (simp_all add: tss_cmd_def split: prod.splits)

lemma slots_tss_cmd: "quiet live m \<Longrightarrow> slots.keeps_ret live (tss_cmd m)"
  by (auto simp: quiet_def slots.keeps_ret_def no_new_slots_def snd_tss_cmd)

lemma slots_tpm_cmd: "quiet live m \<Longrightarrow> slots.keeps_ret live (tpm_cmd m)"
  unfolding tpm_cmd_def by (intro slots.keeps_ret_intros slots_tss_cmd)

lemma fst_amap_err: "fst (amap_err g m w) = (case fst (m w) of Ok x \<Rightarrow> Ok x | Err e \<Rightarrow> Err (g e) | Panic s \<Rightarrow> Panic s)"
  by (simp add: amap_err_def split: prod.splits outcome.splits)

lemma takes_tpm_cmd: "occupies live slot m \<Longrightarrow> takes live slot (tpm_cmd m)"
  by (auto simp: occupies_def takes_def tpm_cmd_def snd_tss_cmd fst_amap_err split: outcome.splits)

lemma slots_ignore: "slots.keeps_ret live m \<Longrightarrow> slots.keeps_ret live (ignore m)"
  unfolding ignore_def by (intro slots.keeps_ret_intros)

lemma slots_finally:
  "slots.keeps_ret live m \<Longrightarrow> slots.keeps_ret live fin \<Longrightarrow> slots.keeps_ret live (finally_act m fin)"
  unfolding finally_act_def by (intro slots.keeps_ret_intros)

lemma slots_modify: "(\<And>t. live (g t) \<subseteq> live t) \<Longrightarrow> slots.keeps_ret live (modify (\<lambda>w. w\<lparr>tpm := g (tpm w)\<rparr>))"
  by (auto simp: slots.keeps_ret_def no_new_slots_def)

lemma unstoppable_modify: "unstoppable (modify g)"
  by (simp add: unstoppable_def)

lemma frees_flush:
  assumes "slot_law live X"
  shows "frees live {h} (ignore (tss_cmd (flush_context X c h)))"
proof -
  have "live (snd (flush_context X c h t)) \<subseteq> live t - {h}" for t
    using assms by (simp add: slot_law_def)
  then have "frees live {h} (try_act (tss_cmd (flush_context X c h)))"
    by (auto simp: frees_def snd_tss_cmd)
  then show ?thesis
    unfolding ignore_def by (intro frees_abind slots.keeps_ret_intros)
qed

lemma slots_flush: "slot_law live X \<Longrightarrow> slots.keeps_ret live (ignore (tss_cmd (flush_context X c h)))"
  using frees_flush [of live X h c] by (auto simp: keeps_ret_frees frees_def)

lemma slots_with_context:
  assumes "slot_law live X" and "\<And>c. slots.keeps_ret live (body c)"
  shows "slots.keeps_ret live (with_context X body)"
  unfolding with_context_def
proof (rule slots.keeps_ret_abind)
  show "slots.keeps_ret live (open_context X)"
    using assms(1) unfolding open_context_def
    by (intro slots.keeps_ret_intros slots_tpm_cmd) (simp add: slot_law_def)
  fix c
  have "live (ctx_drop X c t) \<subseteq> live t" for t using assms(1) by (simp add: slot_law_def)
  then show "slots.keeps_ret live (\<lambda>w. case body c w of (r, v) \<Rightarrow> (r, v\<lparr>tpm := ctx_drop X c (tpm v)\<rparr>))"
    using assms(2) [of c] unfolding slots.keeps_ret_def no_new_slots_def case_prod_beta by auto
qed

lemma slots_with_session:
  assumes law: "slot_law live X" and body: "\<And>s. slots.keeps_ret live (body s)"
  shows "slots.keeps_ret live (with_session X c k body)"
  unfolding with_session_def
proof (rule keeps_ret_open)
  show "takes live set_option (tpm_cmd (start_auth_session X c k))"
    by (rule takes_tpm_cmd) (use law in \<open>simp add: slot_law_def\<close>)
  fix started
  show "frees live (set_option started) (case started of
       None \<Rightarrow> fail (Tpm ''start_auth_session returned None'')
     | Some session \<Rightarrow>
         abind (try_act (tss_cmd (tr_sess_set_attributes X c session))) (\<lambda>r.
         case r of
           Inl e \<Rightarrow> abind (ignore (tss_cmd (flush_context X c session))) (\<lambda>_. fail (Tpm e))
         | Inr _ \<Rightarrow>
             finally_act (body session)
               (abind (modify (\<lambda>w. w\<lparr>tpm := clear_sessions X c (tpm w)\<rparr>)) (\<lambda>_.
                ignore (tss_cmd (flush_context X c session))))))"
  proof (cases started)
    case (Some session)
    have "frees live {session} (case r of
           Inl e \<Rightarrow> abind (ignore (tss_cmd (flush_context X c session))) (\<lambda>_. fail (Tpm e))
         | Inr _ \<Rightarrow>
             finally_act (body session)
               (abind (modify (\<lambda>w. w\<lparr>tpm := clear_sessions X c (tpm w)\<rparr>)) (\<lambda>_.
                ignore (tss_cmd (flush_context X c session)))))" for r :: "string + unit"
    proof (cases r)
      case (Inl e)
      have "frees live {session} (abind (ignore (tss_cmd (flush_context X c session))) (\<lambda>_. fail (Tpm e)))"
        by (intro frees_abind frees_flush [OF law] slots.keeps_ret_intros)
      then show ?thesis using Inl by simp
    next
      case (Inr u)
      have "frees live {session} (finally_act (body session)
               (abind (modify (\<lambda>w. w\<lparr>tpm := clear_sessions X c (tpm w)\<rparr>)) (\<lambda>_.
                ignore (tss_cmd (flush_context X c session)))))"
        by (intro frees_finally body frees_after slots_modify slot_clear [OF law] unstoppable_modify
            frees_flush [OF law])
      then show ?thesis using Inr by simp
    qed
    then have "frees live {session} (abind (try_act (tss_cmd (tr_sess_set_attributes X c session))) (\<lambda>r.
         case r of
           Inl e \<Rightarrow> abind (ignore (tss_cmd (flush_context X c session))) (\<lambda>_. fail (Tpm e))
         | Inr _ \<Rightarrow>
             finally_act (body session)
               (abind (modify (\<lambda>w. w\<lparr>tpm := clear_sessions X c (tpm w)\<rparr>)) (\<lambda>_.
                ignore (tss_cmd (flush_context X c session))))))"
      by (intro frees_after slots.keeps_ret_try slots_tss_cmd slot_quiet [OF law] unstoppable_try)
    then show ?thesis using Some by simp
  qed (simp add: frees_def)
qed

lemma slots_with_handle:
  assumes "slot_law live X" and "takes live (\<lambda>h. {h}) spawn" and "\<And>h. slots.keeps_ret live (body h)"
  shows "slots.keeps_ret live (with_handle X c spawn body)"
  unfolding with_handle_def
  by (rule keeps_ret_open [OF assms(2)]) (intro frees_finally assms(3) frees_flush [OF assms(1)])

lemma slots_with_sealed_object:
  assumes "slot_law live X" and "\<And>h. slots.keeps_ret live (body h)"
  shows "slots.keeps_ret live (with_sealed_object X c srk e body)"
  unfolding with_sealed_object_def
  by (intro slots.keeps_ret_abind slots.keeps_ret_intros
      keeps_ret_open [OF takes_tpm_cmd [OF slot_occupies(3) [OF assms(1)]]]
      frees_finally assms(2) frees_flush [OF assms(1)])

lemma takes_create_srk: "slot_law live X \<Longrightarrow> takes live (\<lambda>h. {h}) (create_srk X c)"
  unfolding create_srk_def by (intro takes_abind slots.keeps_ret_intros takes_tpm_cmd slot_occupies)

definition srk_slot :: "nat \<times> bool \<Rightarrow> nat set" where
  "srk_slot p = (if snd p then {} else {fst p})"

lemma takes_ret: "takes live slot m \<Longrightarrow> (\<And>x. slot x \<subseteq> slot' (g x)) \<Longrightarrow> takes live slot' (abind m (\<lambda>x. ret (g x)))"
  unfolding takes_def by (fastforce simp: abind_eq split: outcome.splits)

lemma unstoppable_evict: "evict_law X \<Longrightarrow> unstoppable (tpm_cmd (evict_control X c a h p))"
  unfolding unstoppable_def evict_law_def tpm_cmd_def fst_amap_err snd_tss_cmd
  by (metis outcome.distinct(1) outcome.simps(10))

lemma slots_persist_srk:
  assumes "slot_law live X" and "evict_law X"
  shows "slots.keeps_ret live (abind (create_srk X c) (\<lambda>transient.
         abind (tpm_cmd (evict_control X c NullAuth transient persistent)) (\<lambda>persisted.
         abind (ignore (tss_cmd (flush_context X c transient))) (\<lambda>_.
         abind (tpm_cmd (tr_set_auth X c persisted [])) (\<lambda>_.
         ret (persisted, True))))))"
  by (rule keeps_ret_open [OF takes_create_srk [OF assms(1)]])
    (intro frees_after slots_tpm_cmd slot_quiet [OF assms(1)] unstoppable_evict [OF assms(2)]
      frees_abind frees_flush [OF assms(1)] slots.keeps_ret_intros)

lemma takes_if:
  "takes live slot m \<Longrightarrow> takes live slot n \<Longrightarrow> takes live slot (if b then m else n)"
  by simp

lemma takes_case_sum:
  "(\<And>e. takes live slot (g e)) \<Longrightarrow> (\<And>x. takes live slot (f x)) \<Longrightarrow>
   takes live slot (case r of Inl e \<Rightarrow> g e | Inr x \<Rightarrow> f x)"
  by (simp split: sum.split)

lemma takes_load_or_create_srk:
  assumes "slot_law live X" and "evict_law X"
  shows "takes live srk_slot (load_or_create_srk X c)"
  unfolding load_or_create_srk_def
  by (intro takes_abind takes_case_sum takes_if keeps_ret_takes [OF slots_persist_srk [OF assms]]
      takes_ret [OF takes_create_srk [OF assms(1)]])
    (auto simp: srk_slot_def intro!: keeps_ret_takes slots.keeps_ret_intros slots_tss_cmd slots_tpm_cmd slot_quiet [OF assms(1)])

lemma slots_with_srk:
  assumes "slot_law live X" and "evict_law X" and "\<And>s. slots.keeps_ret live (body s)"
  shows "slots.keeps_ret live (with_srk X c body)"
  unfolding with_srk_def
proof (rule keeps_ret_open [OF takes_load_or_create_srk [OF assms(1,2)]])
  fix p
  have "frees live (srk_slot p) (finally_act (body (fst p))
       (if \<not> snd p then ignore (tss_cmd (flush_context X c (fst p))) else ret ()))"
    using frees_flush [OF assms(1), of "fst p" c]
    by (intro frees_finally assms(3)) (auto simp: srk_slot_def frees_def)
  then show "frees live (srk_slot p) (case p of (srk, persistent) \<Rightarrow> finally_act (body srk)
       (if \<not> persistent then ignore (tss_cmd (flush_context X c srk)) else ret ()))"
    by (simp add: case_prod_beta)
qed

lemma takes_load_external_pubkey:
  "slot_law live X \<Longrightarrow> takes live (\<lambda>h. {h}) (load_external_pubkey X c pem)"
  unfolding load_external_pubkey_def
  by (intro takes_abind slots.keeps_ret_intros takes_tpm_cmd slot_occupies)

lemma slots_read_pcr_values:
  assumes "slot_law live X"
  shows "slots.keeps_ret live (read_pcr_values X c pcrs)"
proof (induction pcrs)
  case Nil
  show ?case unfolding read_pcr_values.simps by (intro slots.keeps_ret_intros)
next
  case (Cons p ps)
  then show ?case unfolding read_pcr_values.simps
    by (intro slots.keeps_ret_intros slots_tpm_cmd slot_quiet [OF assms])
qed

lemma slots_case_prod:
  "(\<And>a b. slots.keeps_ret live (f a b)) \<Longrightarrow> slots.keeps_ret live (case p of (a, b) \<Rightarrow> f a b)"
  by (simp split: prod.split)

section \<open>Every operation\<close>

lemmas slots_scopes =
  slots.keeps_ret_intros slots_tss_cmd slots_tpm_cmd slots_ignore slots_with_context slots_with_session
  slots_with_handle slots_with_sealed_object slots_with_srk slots_read_pcr_values slots_case_prod
  takes_load_external_pubkey slot_quiet

lemma slots_compute_policy_digest:
  "slot_law live X \<Longrightarrow> slots.keeps_ret live (compute_policy_digest X c sel)"
  unfolding compute_policy_digest_def by (intro slots_scopes)

lemma slots_unseal_under: "slot_law live X \<Longrightarrow> slots.keeps_ret live (unseal_under X c e s h)"
  unfolding unseal_under_def policy_aware_err_def diagnose_pcrs_def by (intro slots_scopes)

lemma slots_create_sealed:
  "slot_law live X \<Longrightarrow> slots.keeps_ret live (create_sealed X c srk secret d l pcrs k pv)"
  unfolding create_sealed_def by (intro slots_scopes)

lemma slots_host_signatures: "slots.keeps_ret live (host_signatures X bank)"
  unfolding host_signatures_def by (intro slots.keeps_ret_intros)

lemma slots_load_signatures: "slots.keeps_ret live (load_signatures X bank)"
  unfolding load_signatures_def by (intro slots.keeps_ret_intros)

lemma slots_ensure_host_signature:
  "slot_law live X \<Longrightarrow> slots.keeps_ret live (ensure_host_signature X pcrs ref)"
  unfolding ensure_host_signature_def
  by (intro slots_scopes slots_compute_policy_digest slots_host_signatures
      slots_rest rest_persist_host_signature)

lemma slots_seal_literal:
  "slot_law live X \<Longrightarrow> evict_law X \<Longrightarrow> slots.keeps_ret live (seal_literal X secret pcrs)"
  unfolding seal_literal_def
  by (intro slots_scopes slots_compute_policy_digest slots_create_sealed)

lemma slots_seal_authorized:
  "slot_law live X \<Longrightarrow> evict_law X \<Longrightarrow> slots.keeps_ret live (seal_authorized X secret pcrs pem ref)"
  unfolding seal_authorized_def
  by (intro slots_scopes slots_create_sealed slots_ensure_host_signature)

lemma slots_seal_secret:
  "slot_law live X \<Longrightarrow> evict_law X \<Longrightarrow> slots.keeps_ret live (seal_secret X secret)"
  unfolding seal_secret_def seal_with_plan_def
  by (intro slots.keeps_ret_abind slots_rest [OF rest_plan])
    (auto split: policy_plan.splits intro: slots_seal_literal slots_seal_authorized)

lemma slots_unseal_literal:
  "slot_law live X \<Longrightarrow> evict_law X \<Longrightarrow> slots.keeps_ret live (unseal_literal X e)"
  unfolding unseal_literal_def by (intro slots_scopes slots_unseal_under)

lemma slots_authorize_and_unseal:
  "slot_law live X \<Longrightarrow> slots.keeps_ret live (authorize_and_unseal X c e s p a r b h k)"
  unfolding authorize_and_unseal_def by (intro slots_scopes slots_unseal_under)

lemma slots_unseal_authorized:
  assumes "slot_law live X" and "evict_law X"
  shows "slots.keeps_ret live (unseal_authorized X e pem ref)"
proof -
  have "slots.keeps_ret live (case signer of Systemd \<Rightarrow> load_signatures X default_bank
      | LinhelloHost \<Rightarrow> host_signatures X default_bank)" for signer
    by (simp add: slots_load_signatures slots_host_signatures split: signer_kind.split)
  then show ?thesis
    unfolding unseal_authorized_def authorized_session_def present_signature_def
    by (intro slots_scopes assms slots_ensure_host_signature slots_authorize_and_unseal)
qed

lemma slots_tpm_unseal_env:
  "slot_law live X \<Longrightarrow> evict_law X \<Longrightarrow> slots.keeps_ret live (tpm_unseal_env X e)"
  unfolding tpm_unseal_env_def
  by (cases "env_policy e") (simp_all add: slots_unseal_literal slots_unseal_authorized)

end
