(* ===== verification/Codec.thy ===== *)
theory Codec
  imports SealPolicy
begin

text \<open>
  Executable text codecs for the two envelope files. The JSON text of an envelope is produced by
  a third-party crate and is a parameter of the model; these functions show that the laws the
  model relies on can hold, and the concrete setup uses them.
\<close>

section \<open>Lists of byte strings as text\<close>

definition comma :: char where "comma = CHR '',''"

definition pack :: "bytes list \<Rightarrow> string" where
  "pack bs = concat (map (\<lambda>b. hex_lower b @ [comma]) bs)"

definition unpack :: "string \<Rightarrow> bytes list" where
  "unpack s = map (\<lambda>h. unwrap_or [] (out_option (from_hex h))) (butlast (split_on comma s))"

lemma split_on_append: "d \<notin> set a \<Longrightarrow> split_on d (a @ d # s) = a # split_on d s"
  by (induction a) auto

lemma hex_char_range: "n < 16 \<Longrightarrow> (of_char (hex_char n) :: nat) \<noteq> 44 \<and> (of_char (hex_char n) :: nat) < 128"
  by (simp add: hex_char_code)

lemma set_hex_lower: "c \<in> set (hex_lower b) \<Longrightarrow> (of_char c :: nat) \<noteq> 44 \<and> (of_char c :: nat) < 128"
  by (induction b) (use hex_char_range nibbles in \<open>auto simp: hex_lower_Cons\<close>)

lemma comma_hex: "comma \<notin> set (hex_lower b)"
  using set_hex_lower [of comma b] by (auto simp: comma_def)

lemma unpack_pack [simp]: "unpack (pack bs) = bs"
proof -
  have "split_on comma (pack bs) = map hex_lower bs @ [[]]"
    by (induction bs) (simp_all add: pack_def split_on_append comma_hex)
  then show ?thesis
    by (simp add: unpack_def comp_def from_hex_hex_lower out_option_def)
qed

interpretation pack: codec pack "\<lambda>s. Some (unpack s)"
  by unfold_locales simp

lemma ascii_pack: "ascii (pack bs)"
  using set_hex_lower by (auto simp: ascii_def pack_def comma_def list_all_iff)

definition unary :: "nat \<Rightarrow> bytes" where "unary n = replicate n (CHR ''1'')"

lemma length_unary [simp]: "length (unary n) = n"
  by (simp add: unary_def)

section \<open>The envelope of a sealed secret\<close>

fun level_text :: "security_level \<Rightarrow> bytes" where
  "level_text Full = ''full''"
| "level_text Medium = ''medium''"
| "level_text Basic = ''basic''"

definition level_of_text :: "bytes \<Rightarrow> security_level" where
  "level_of_text s = (if s = ''full'' then Full else if s = ''medium'' then Medium else Basic)"

fun kind_fields :: "policy_kind \<Rightarrow> bytes list" where
  "kind_fields PcrLiteral = []"
| "kind_fields (KindAuthorized pem ref) = [pem, ref]"

definition kind_of_fields :: "bytes list \<Rightarrow> policy_kind" where
  "kind_of_fields fs = (case fs of [pem, ref] \<Rightarrow> KindAuthorized pem ref | _ \<Rightarrow> PcrLiteral)"

definition pcr_value_text :: "pcr_value \<Rightarrow> bytes" where
  "pcr_value_text v = pack [unary (pv_pcr v), pv_value v]"

definition pcr_value_of_text :: "bytes \<Rightarrow> pcr_value" where
  "pcr_value_of_text s = (let fs = unpack s in \<lparr>pv_pcr = length (fs ! 0), pv_value = fs ! 1\<rparr>)"

definition env_text :: "sealed_envelope \<Rightarrow> string" where
  "env_text e = pack [unary (env_version e), level_text (env_mode e), pack (map unary (env_pcrs e)),
     pack (kind_fields (env_policy e)), env_public e, env_private e,
     pack (map pcr_value_text (env_pcr_values e))]"

definition env_of_text :: "string \<Rightarrow> string + sealed_envelope" where
  "env_of_text s = (case unpack s of
      [version, mode, pcrs, kind, public, private, values] \<Rightarrow>
        Inr \<lparr>env_version = length version, env_mode = level_of_text mode,
             env_pcrs = map length (unpack pcrs), env_policy = kind_of_fields (unpack kind),
             env_public = public, env_private = private,
             env_pcr_values = map pcr_value_of_text (unpack values)\<rparr>
    | _ \<Rightarrow> Inl ''not an envelope'')"

lemma level_text_inv: "level_of_text (level_text l) = l"
  by (cases l) (simp_all add: level_of_text_def)

lemma kind_fields_inv: "kind_of_fields (kind_fields k) = k"
  by (cases k) (simp_all add: kind_of_fields_def)

lemma pcr_value_text_inv: "pcr_value_of_text (pcr_value_text v) = v"
  by (simp add: pcr_value_of_text_def pcr_value_text_def)

lemma env_of_text_inv [simp]: "env_of_text (env_text e) = Inr e"
  by (simp add: env_of_text_def env_text_def comp_def level_text_inv kind_fields_inv pcr_value_text_inv)

lemma env_text_utf8 [simp]: "utf8_valid (env_text e)"
  by (simp add: env_text_def utf8_valid_ascii ascii_pack)

section \<open>The recovery envelope\<close>

definition rec_text :: "recovery_envelope \<Rightarrow> string" where
  "rec_text e = pack [unary (rec_version e), rec_kdf e, rec_salt e, unary (rec_m_cost e),
     unary (rec_t_cost e), unary (rec_p_cost e), rec_wrapped e]"

definition rec_of_text :: "string \<Rightarrow> string + recovery_envelope" where
  "rec_of_text s = (case unpack s of
      [version, kdf, salt, m, t, p, wrapped] \<Rightarrow>
        Inr \<lparr>rec_version = length version, rec_kdf = kdf, rec_salt = salt, rec_m_cost = length m,
             rec_t_cost = length t, rec_p_cost = length p, rec_wrapped = wrapped\<rparr>
    | _ \<Rightarrow> Inl ''not a recovery envelope'')"

lemma rec_of_text_inv [simp]: "rec_of_text (rec_text e) = Inr e"
  by (simp add: rec_of_text_def rec_text_def)

lemma rec_text_utf8 [simp]: "utf8_valid (rec_text e)"
  by (simp add: rec_text_def utf8_valid_ascii ascii_pack)

end
