(* ===== verification/Setup.thy ===== *)
theory Setup
  imports DaemonProps TpmSlots Codec
begin

text \<open>
  A concrete setup: one host, one software TPM, one camera and trivial codecs, all executable.
  The parameters of the model are instantiated by these functions where a property is applied
  to a concrete input.
\<close>

section \<open>A software TPM\<close>

text \<open>The loaded objects and sessions, each with the private blob it was loaded from.\<close>

type_synonym soft_tpm = "(nat \<times> bytes) list"

definition fresh :: "soft_tpm \<Rightarrow> nat" where
  "fresh t = Suc (fold max (map fst t) 0)"

definition occupy :: "bytes \<Rightarrow> (soft_tpm, string, nat) act" where
  "occupy b t = (Ok (fresh t), (fresh t, b) # t)"

definition soft_unseal :: "nat \<Rightarrow> (soft_tpm, string, bytes) act" where
  "soft_unseal h t = (case map_of t h of None \<Rightarrow> (Err ''no such object'', t) | Some b \<Rightarrow> (Ok b, t))"

section \<open>The parameters\<close>

definition demo_env :: "bytes \<Rightarrow> sealed_envelope" where
  "demo_env b = \<lparr>env_version = 2, env_mode = Medium, env_pcrs = [7], env_policy = PcrLiteral,
     env_public = [], env_private = b, env_pcr_values = []\<rparr>"

definition demo_key :: bytes where "demo_key = replicate 32 (CHR ''k'')"
definition demo_password :: bytes where "demo_password = ''hunter2''"

definition demo_template :: "f32 list" where
  "demo_template = f_lit 1 # replicate 511 (f_lit 0)"

definition demo_image :: rgb_image where
  "demo_image = \<lparr>ri_w = 4, ri_h = 4, ri_px = (\<lambda>_ _. (120, 120, 120))\<rparr>"

definition demo_face :: face where
  "demo_face = \<lparr>face_bbox = (f_lit 0, f_lit 0, f_lit 3, f_lit 3),
     face_landmarks = \<lparr>lm_le = (f_lit 1, f_lit 1), lm_re = (f_lit 3, f_lit 1), lm_nose = (f_lit 2, f_lit 2),
       lm_lm = (f_lit 1, f_lit 3), lm_rm = (f_lit 3, f_lit 3)\<rparr>\<rparr>"

definition demo_public :: tpm_public where "demo_public = PubOther"

definition demo_ext :: "(soft_tpm, nat) daemon_ext" where
  "demo_ext = \<lparr>
     rand_bytes = (\<lambda>i n. replicate n (CHR ''r'')),
     gcm_new = (\<lambda>k. Inr ()),
     gcm_encrypt = (\<lambda>k n p. Inr (p @ replicate 16 (CHR ''t''))),
     gcm_decrypt = (\<lambda>k n c. Inr (take (length c - 16) c)),
     argon2_params = (\<lambda>_ _ _ _. Inr ()),
     argon2_hash = (\<lambda>m t p l pass s. Inr (replicate l (CHR ''d''))),
     b64_encode = id, b64_decode = Inr,
     rec_to_json = rec_text, rec_of_json = rec_of_text,
     sha256 = (\<lambda>_. replicate 32 (CHR ''h'')),
     pub_of_pem = (\<lambda>_. Inl ''pem''), pub_to_der = (\<lambda>_. Inr []), rsa_new = (\<lambda>_. Inl ''rng''),
     priv_to_pem = Inr, priv_of_pem = Inr, pub_of_priv = (\<lambda>_. \<lparr>rsa_n = [], rsa_e = []\<rparr>),
     pub_to_pem = (\<lambda>_. Inr []), rsa_sign = (\<lambda>_ _. Inr []), sigs_of_json = (\<lambda>_. Inr []), sigs_to_json = (\<lambda>_. []),
     env_to_json = env_text, env_of_json = env_of_text,
     tcti_conf = (\<lambda>_. Inr ()), ctx_new = (\<lambda>_ t. (Ok 0, t)), ctx_drop = (\<lambda>_ t. t), clear_sessions = (\<lambda>_ t. t),
     buf_try = (\<lambda>_ b. Inr b), pub_build = Inr, rsa_exponent = Inr, selection_build = Inr,
     persistent_new = Inr, policy_session = Inr, rsa_signature = Inr,
     marshall = (\<lambda>_. Inr []), unmarshall = (\<lambda>_. Inr demo_public),
     pcr_read = (\<lambda>_ _ t. (Ok [replicate 32 (CHR 0x00)], t)),
     start_auth_session = (\<lambda>_ _ t. case occupy [] t of (Ok h, t') \<Rightarrow> (Ok (Some h), t') | (_, t') \<Rightarrow> (Ok None, t')),
     tr_sess_set_attributes = (\<lambda>_ _ t. (Ok (), t)),
     flush_context = (\<lambda>_ h t. (Ok (), filter (\<lambda>p. fst p \<noteq> h) t)),
     policy_pcr = (\<lambda>_ _ _ t. (Ok (), t)), policy_get_digest = (\<lambda>_ _ t. (Ok (replicate 32 (CHR 0x00)), t)),
     create_primary = (\<lambda>_ _ _. occupy []),
     tr_from_tpm_public = (\<lambda>_ _ t. (Err ''not found'', t)),
     read_public = (\<lambda>_ _ t. (Ok demo_public, t)), tr_set_auth = (\<lambda>_ _ _ t. (Ok (), t)),
     evict_control = (\<lambda>_ _ _ p t. (Ok p, t)),
     tpm_create = (\<lambda>_ _ _ p b t. (Ok (demo_public, b), t)),
     tpm_load = (\<lambda>_ _ _ b _. occupy b), load_external_public = (\<lambda>_ _. occupy []),
     tr_get_name = (\<lambda>_ _ t. (Ok [], t)), verify_signature = (\<lambda>_ _ _ _ t. (Ok [], t)),
     policy_authorize = (\<lambda>_ _ _ _ _ _ t. (Ok (), t)), tpm_unseal = (\<lambda>_ _. soft_unseal),
     rgb_device = (\<lambda>s. (''/dev/video0'', s)), ir_device = (\<lambda>s. (None, s)), cam_enumerate = (\<lambda>s. ([], s)),
     capture_burst = (\<lambda>_ _. ret [demo_image]), capture_frame = ret demo_image, capture_ir_frame = ret None,
     detector_cached = Inr (), detect_faces = (\<lambda>_. Inr [demo_face]), align_face = (\<lambda>i _. Inr i),
     embedder_cached = Inr (), embed_face = (\<lambda>_. Inr demo_template),
     load_ensemble = (\<lambda>_. Inr 0), predict_median = (\<lambda>_ _. Inr (f_lit 0.1)),
     getpwnam = (\<lambda>n. if n = ''alice'' then Some 1000 else None),
     binding_to_json = (\<lambda>_. []), binding_of_json = (\<lambda>_. Inl ''json''),
     cal_to_json = (\<lambda>_. []), cal_of_json = (\<lambda>_. Inl ''json''),
     req_of_json = (\<lambda>s. if s = ''A'' then Inr (RAuthenticate ''alice'' ''sudo'') else Inr RStatus),
     resp_to_json = (\<lambda>r. unwrap_or [] (released r)), join_error = id, probe_caps = (\<lambda>s. ([], s))\<rparr>"

section \<open>The host\<close>

definition demo_files :: "(string \<times> bytes) list" where
  "demo_files =
     [(''/etc/linhello/alice/embedding.enc'',
        replicate 12 (CHR ''r'') @ embedding_bytes demo_template @ replicate 16 (CHR ''t'')),
      (''/etc/linhello/alice/template_key_envelope.json'', env_text (demo_env demo_key)),
      (''/etc/linhello/alice/password_envelope.json'', env_text (demo_env demo_password)),
      (''/etc/linhello/policy.conf'', ''tier=secure'' @ [nl]),
      (default_antispoof_model, ''onnx'')]"

definition demo_world :: "(soft_tpm, nat) world" where
  "demo_world = \<lparr>files = map_of demo_files, modes = (\<lambda>_. Some 384),
     dirs = [''/etc'', ''/etc/linhello'', ''/etc/linhello/alice''], new_mode = 420,
     io_fault = (\<lambda>_ _. None), env_vars = (\<lambda>_. None), links = (\<lambda>_. None), realpath = (\<lambda>_. None), draws = 0,
     tpm = [], sensors = 0, key_cache = (\<lambda>_. None), thr_cache = None, ev_cache = None\<rparr>"

section \<open>A run that releases a password\<close>


definition calm :: "(soft_tpm, nat, 'z) world_scheme \<Rightarrow> bool" where
  "calm w \<longleftrightarrow> io_fault w = (\<lambda>_ _. None) \<and> env_vars w = (\<lambda>_. None) \<and> tpm w = []"

lemma foldl_const: "f a z = a \<Longrightarrow> foldl f a (replicate n z) = a"
  by (induction n) auto

lemma small_lits:
  "decode (f_lit 0) = FNum 0" "decode (f_lit 1) = FNum 1" "decode (f_lit 2) = FNum 2" "decode (f_lit 3) = FNum 3"
  "decode (f_lit 6) = FNum 6" "decode (f_lit 60) = FNum 60"
  "\<not> f_sign (f_lit 0)" "\<not> f_sign (f_lit 1)" "\<not> f_sign (f_lit 2)" "\<not> f_sign (f_lit 3)" "\<not> f_sign (f_lit 6)" "\<not> f_sign (f_lit 60)"
  by code_simp+

lemma exact_ops:
  assumes "decode a = FNum x" "decode b = FNum y" "\<not> f_sign a" "\<not> f_sign b"
  shows "f_add a b = f_lit (x + y)" "f_sub a b = f_lit (x - y)" "f_mul a b = f_lit (x * y)"
    "y \<noteq> 0 \<Longrightarrow> f_div a b = f_lit (x / y)" "f_lt a b \<longleftrightarrow> x < y" "f_le a b \<longleftrightarrow> x \<le> y" "f_eq a b \<longleftrightarrow> x = y"
    "f_max a b = (if x < y then b else a)"
  using assms by (auto simp: f_add_def f_sub_def f_mul_def f_div_def f_lt_def f_le_def f_eq_def f_abs_def f_max_def f_is_nan_def decode_f_neg)

lemma exact_abs: "\<not> f_sign a \<Longrightarrow> f_abs a = a"
  by (simp add: f_abs_def)

lemmas lit_ops = exact_ops exact_abs small_lits

lemma unit_arith:
  "f_sqrt (f_lit 1) = f_lit 1" "f_finite (f_lit 1)" "f_finite (f_lit 0)" "\<not> degenerate_norm (f_lit 1)"
  "f_clamp (f_lit 1) (f_lit (- 1)) (f_lit 1) = f_lit 1"
  by code_simp+

lemma sum_unit: "f_sum (f_lit 1 # replicate n (f_lit 0)) = f_lit 1"
  by (simp add: f_sum_def lit_ops foldl_const)

lemma normalize_demo: "normalize_sample demo_template = Inr demo_template"
  by (simp add: normalize_sample_def demo_template_def Let_def unit_arith lit_ops sum_unit list_all_iff)
lemma cosine_demo: "cosine demo_template demo_template = f_lit 1"
  by (simp add: cosine_def demo_template_def unit_arith lit_ops sum_unit zip_replicate)
lemma length_demo_template: "length demo_template = embedding_dim"
  by (simp add: demo_template_def embedding_dim_def)

lemma demo_unseal:
  assumes "calm w" "files w p = Some (env_text (demo_env b))"
  shows "unseal_at demo_ext p w = (Ok b, w)"
  using assms
  apply (simp add: unseal_at_def env_load_def fs_read_to_string_def fs_read_def calm_def abind_def demo_ext_def)
  apply (simp add: demo_env_def tpm_unseal_env_def unseal_literal_def with_context_def open_context_def abind_def tpm_cmd_def tss_cmd_def amap_err_def tpm_res_def with_srk_def load_or_create_srk_def
    create_srk_def srk_template_def occupy_def fresh_def persistent_srk_handle_def try_act_def finally_act_def ignore_def Let_def)
  apply (simp add: with_sealed_object_def tpm_cmd_def tss_cmd_def amap_err_def abind_def try_act_def finally_act_def ignore_def with_session_def tpm_res_def occupy_def fresh_def pcr_selection_def pcr_slot_def unseal_under_def soft_unseal_def)
  done

definition demo_evaluator :: liveness_evaluator where
  "demo_evaluator = \<lparr>le_config = config_from_env demo_world, le_antispoof = Some 0\<rparr>"

lemma demo_evaluator_new:
  "env_vars w = (\<lambda>_. None) \<Longrightarrow> io_fault w = (\<lambda>_ _. None) \<Longrightarrow> files w default_antispoof_model \<noteq> None \<Longrightarrow>
   evaluator_new (load_ensemble demo_ext) (config_from_env w) w = Inr demo_evaluator"
  by (simp add: evaluator_new_def evaluator_items_def config_from_env_def demo_evaluator_def demo_ext_def demo_world_def
      path_exists_def)


text \<open>What the host keeps through a run: no fault, no environment, no sysfs, the model present.\<close>

definition calm_host :: "(soft_tpm, nat) world \<Rightarrow> bool" where
  "calm_host w \<longleftrightarrow> calm w \<and> links w = (\<lambda>_. None) \<and> files w default_antispoof_model \<noteq> None \<and>
     files w ''/sys/class/video4linux/video0/name'' = None \<and> files w (ir_calibration_path ''alice'') = None"

lemma demo_pose: "estimate_pose (face_landmarks demo_face) = (f_lit 0, f_lit 0)"
  by (simp add: estimate_pose_def demo_face_def Let_def lit_ops)

lemma demo_gates:
  "is_frontal (f_lit 0) (f_lit 0) max_angle_deg" "\<not> f_eq (f_lit (1/2)) (f_lit 0)" "\<not> f_le default_spoof_threshold (f_lit (1/10))"
  by code_simp+

lemma demo_camera:
  assumes "calm_host w"
  shows "validate_camera_device ''/dev/video0'' w = \<lparr>trust_score = f_lit 0.5, trust_name = None, trust_driver = None\<rparr>"
  using assms by (simp add: calm_host_def calm_def validate_camera_device_def path_file_name_def path_join_def starts_with_def
    read_trim_def fs_read_to_string_def fs_read_def read_driver_def Let_def is_virtual_def virtual_drivers_def
    virtual_name_fragments_def real_drivers_def)

lemma demo_live:
  assumes "calm_host w"
  shows "\<exists>r. live_evaluate demo_evaluator demo_image (face_bbox demo_face) (face_landmarks demo_face) ''/dev/video0'' None
     (Some (f_lit 0.1)) None w = Ok r \<and> lr_decision r = Real"
proof -
  have req: "\<not> require_ir (le_config demo_evaluator)"
    and thr: "spoof_threshold (le_config demo_evaluator) = default_spoof_threshold"
    by (simp_all add: demo_evaluator_def config_from_env_def demo_world_def)
  obtain b1 b2 b3 b4 where b: "face_bbox demo_face = (b1, b2, b3, b4)" by (cases "face_bbox demo_face")
  show ?thesis
    using demo_gates req by (simp add: live_evaluate_def demo_pose b demo_camera [OF assms] Let_def ml_stage_Real thr del: One_nat_def)
qed

lemma demo_burst:
  assumes "calm_host w" "ev_cache w = None \<or> ev_cache w = Some (Inr demo_evaluator)"
  shows "capture_burst_detect demo_ext w =
    (Ok (''/dev/video0'', demo_image, demo_face, Some (f_lit 0.1), None), w\<lparr>ev_cache := Some (Inr demo_evaluator)\<rparr>)"
proof -
  have ev: "cached_evaluator demo_ext w = (Ok demo_evaluator, w\<lparr>ev_cache := Some (Inr demo_evaluator)\<rparr>)"
    using assms demo_evaluator_new [of w] by (auto simp: cached_evaluator_def calm_host_def calm_def Let_def)
  have "antispoof_median (predict_median demo_ext) demo_evaluator [(demo_image, face_bbox demo_face)] = Inr (Some (f_lit 0.1))"
    by (simp add: antispoof_median_def demo_evaluator_def demo_ext_def)
  moreover have "temporal_motion_score [eye_frame demo_image (face_landmarks demo_face)] = None"
    by (simp add: temporal_motion_score_def)
  moreover have "burst_faces demo_ext [demo_image] = [(demo_image, demo_face)]"
    by (simp add: burst_faces_def first_face_def demo_ext_def List.map_filter_simps)
  ultimately show ?thesis
    using ev by (simp add: capture_burst_detect_def abind_def sense_def sensor_def better_def Let_def
        demo_ext_def [THEN arg_cong, of rgb_device] demo_ext_def [THEN arg_cong, of capture_burst] demo_ext_def [THEN arg_cong, of detector_cached])
qed

lemma demo_capture:
  assumes "calm_host w" "ev_cache w = None"
  shows "capture_embed_gated demo_ext ''alice'' w = (Ok demo_template, w\<lparr>ev_cache := Some (Inr demo_evaluator)\<rparr>)"
proof -
  let ?v = "w\<lparr>ev_cache := Some (Inr demo_evaluator)\<rparr>"
  have cv: "calm_host ?v" using assms by (simp add: calm_host_def calm_def)
  have ev: "cached_evaluator demo_ext ?v = (Ok demo_evaluator, ?v)"
    by (simp add: cached_evaluator_def)
  have ir: "grab_ir demo_ext ?v = (Ok None, ?v)"
    by (simp add: grab_ir_def abind_def try_act_def sensor_def demo_ext_def)
  from demo_live [OF cv] obtain r where r: "live_evaluate demo_evaluator demo_image (face_bbox demo_face) (face_landmarks demo_face)
      ''/dev/video0'' None (Some (f_lit 0.1)) None ?v = Ok r" "lr_decision r = Real" by blast
  have "capture_detect_live demo_ext w = (Ok (demo_image, demo_face, lr_signals r), ?v)"
    using r demo_burst [OF assms(1)] assms(2) ir ev by (simp add: capture_detect_live_def abind_def)
  moreover have "ir_gate_check demo_ext ''alice'' (lr_signals r) ?v = Inr ()"
    using assms by (simp add: ir_gate_check_def ir_gate_disabled_def load_ir_calibration_def fs_read_to_string_def
      fs_read_def calm_host_def calm_def is_ready_def default_calibration_def min_calibration_observations_def)
  ultimately show ?thesis
    by (simp add: capture_embed_gated_def capture_and_embed_signals_def abind_def amap_err_def demo_ext_def [THEN arg_cong, of align_face]
        demo_ext_def [THEN arg_cong, of embedder_cached] demo_ext_def [THEN arg_cong, of embed_face])
qed

lemma demo_paths:
  "password_envelope_path ''alice'' = Inr ''/etc/linhello/alice/password_envelope.json''"
  "template_key_path ''alice'' = Inr ''/etc/linhello/alice/template_key_envelope.json''"
  "encrypted_embedding_path ''alice'' = Inr ''/etc/linhello/alice/embedding.enc''"
  "camera_binding_path ''alice'' = ''/etc/linhello/alice/camera_binding.json''"
  "ir_calibration_path ''alice'' = ''/etc/linhello/alice/ir_calibration.json''"
  by (simp_all add: password_envelope_path_def template_key_path_def encrypted_embedding_path_def camera_binding_path_def
      ir_calibration_path_def user_path_def user_file_def validate_user_def path_join_def starts_with_def config_root_def)

lemma demo_calm: "calm_host demo_world"
  by (simp add: calm_host_def calm_def demo_world_def demo_files_def default_antispoof_model_def demo_paths)

lemma length_demo_key: "length demo_key = key_len"
  by (simp add: demo_key_def key_len_def)

lemma demo_file:
  "files demo_world ''/etc/linhello/alice/embedding.enc'' =
     Some (replicate 12 (CHR ''r'') @ embedding_bytes demo_template @ replicate 16 (CHR ''t''))"
  "files demo_world ''/etc/linhello/alice/template_key_envelope.json'' = Some (env_text (demo_env demo_key))"
  "files demo_world ''/etc/linhello/alice/password_envelope.json'' = Some (env_text (demo_env demo_password))"
  "files demo_world ''/etc/linhello/alice/camera_binding.json'' = None"
  by (simp_all add: demo_world_def demo_files_def default_antispoof_model_def)

lemma demo_samples:
  "load_user_samples demo_ext ''alice'' demo_world = (Ok [demo_template], demo_world\<lparr>key_cache := [''alice'' \<mapsto> demo_key]\<rparr>)"
proof -
  have c: "check_camera_binding demo_ext ''alice'' demo_world = (Ok (), demo_world)"
    by (simp add: check_camera_binding_def demo_paths abind_def path_exists_def demo_file Let_def) (simp add: demo_world_def)
  have k: "cached_template_key demo_ext ''alice'' demo_world = (Ok demo_key, demo_world\<lparr>key_cache := [''alice'' \<mapsto> demo_key]\<rparr>)"
  proof -
    have "calm demo_world" using demo_calm by (simp add: calm_host_def)
    from demo_unseal [OF this demo_file(2)]
    have "ensure_template_key demo_ext ''alice'' demo_world = (Ok demo_key, demo_world)"
      using demo_calm by (simp add: ensure_template_key_def unseal_template_key_def demo_paths abind_def path_exists_def demo_file
          calm_host_def calm_def)
    moreover have "key_cache demo_world = (\<lambda>_. None)" by (simp add: demo_world_def)
    ultimately show ?thesis
      by (simp add: cached_template_key_def abind_def amap_err_def)
  qed
  have l: "load_encrypted_embedding demo_ext ''alice'' demo_key (demo_world\<lparr>key_cache := m\<rparr>)
      = (Ok (embedding_bytes demo_template), demo_world\<lparr>key_cache := m\<rparr>)" for m
    using demo_calm length_demo_key
    by (simp add: load_encrypted_embedding_def demo_paths abind_def path_exists_def demo_file fs_read_def calm_host_def calm_def
        decrypt_def nonce_len_def Let_def demo_ext_def)
  have p: "parse_raw_embeddings (embedding_bytes demo_template) = Inr [demo_template]"
    using parse_stored_samples [of "[demo_template]"] length_demo_template normalize_demo by simp
  show ?thesis
    using c k l p by (simp add: load_user_samples_def abind_def amap_err_def)
qed

lemma demo_release:
  "\<exists>w'. dispatch demo_ext (RUnsealPassword ''alice'') (Some 0) demo_world = (SPasswordUnsealed demo_password, w')"
proof -
  let ?v = "demo_world\<lparr>key_cache := [''alice'' \<mapsto> demo_key]\<rparr>"
  let ?x = "?v\<lparr>ev_cache := Some (Inr demo_evaluator)\<rparr>"
  have "calm_host ?v" using demo_calm by (simp add: calm_host_def calm_def)
  then have c: "capture_embed_gated demo_ext ''alice'' ?v = (Ok demo_template, ?x)"
    by (rule demo_capture) (simp add: demo_world_def)
  have t: "resolve_threshold ?x = default_match_threshold"
    by (simp add: resolve_threshold_def read_kv_def demo_world_def fs_read_to_string_def fs_read_def demo_files_def
        config_path_def config_root_def path_join_def starts_with_def default_antispoof_model_def)
  have "f_in min_threshold max_threshold default_match_threshold" by (rule default_thr_in)
  moreover have "f_le default_match_threshold (cosine demo_template demo_template)"
    unfolding cosine_demo by code_simp
  ultimately have b: "f_le default_match_threshold (best_score demo_template [demo_template])"
    by (simp add: best_score_iff)
  have "thr_cache ?x = None" by (simp add: demo_world_def)
  then have m: "\<exists>r. match_against demo_template [demo_template] ?x = (Ok r, ?x\<lparr>thr_cache := Some default_match_threshold\<rparr>) \<and> ar_matched r"
    using t b by (simp add: match_against_def abind_def match_threshold_def Let_def)
  let ?y = "?x\<lparr>thr_cache := Some default_match_threshold\<rparr>"
  have "calm ?y" using demo_calm by (simp add: calm_host_def calm_def)
  moreover have "files ?y ''/etc/linhello/alice/password_envelope.json'' = Some (env_text (demo_env demo_password))"
    by (simp add: demo_file)
  ultimately have "unseal_at demo_ext ''/etc/linhello/alice/password_envelope.json'' ?y = (Ok demo_password, ?y)"
    by (rule demo_unseal)
  then have "unseal_password demo_ext ''alice'' ?y = (Ok demo_password, ?y)"
    by (simp add: unseal_password_def demo_paths abind_def)
  then have "do_unseal_password demo_ext ''alice'' demo_world = (Ok (SPasswordUnsealed demo_password), ?y)"
    using demo_samples c m by (auto simp: do_unseal_password_def face_gated_def respond_def abind_def try_act_def)
  then show ?thesis
    by (simp add: dispatch_def root_user_def is_root_def invalid_user_def validate_user_def spawn_def)
qed

text \<open>The same release through the policy: an elevation on the secure tier, asked for by root.\<close>

definition demo_conf :: string where "demo_conf = ''tier=secure'' @ [nl]"

lemma demo_conf_keys:
  "kv_lookup demo_conf ''tier'' = Some ''secure''" "kv_lookup demo_conf ''method'' = None"
  "kv_lookup demo_conf ''screen_unlock'' = None" "kv_lookup demo_conf ''login'' = None"
  "kv_lookup demo_conf ''sudo'' = None" "kv_lookup demo_conf ''polkit'' = None"
  by code_simp+

lemma demo_policy_conf: "read_kv ''policy.conf'' k demo_world = kv_lookup demo_conf k"
proof -
  have "utf8_valid demo_conf" by (rule utf8_valid_ascii) (simp add: ascii_def demo_conf_def)
  then have "fs_read_to_string (config_path ''policy.conf'') demo_world = Inr demo_conf"
    by (simp add: demo_world_def demo_files_def default_antispoof_model_def demo_conf_def
        fs_read_to_string_def fs_read_def config_path_def config_root_def path_join_def starts_with_def)
  then show ?thesis by (simp add: read_kv_def)
qed

lemma demo_plan: "fst (plan_action demo_ext ''alice'' ''sudo'' True demo_world) = Unseal"
  by (simp add: plan_action_def Let_def effective_tier_def demo_policy_conf demo_conf_keys face_is_active_method_def
      current_policy_def decide_def classify_def default_policy_def)

lemma demo_auth_release:
  "\<exists>w'. dispatch demo_ext (RAuthenticate ''alice'' ''sudo'') (Some 0) demo_world = (SPasswordUnsealed demo_password, w')"
proof -
  have "dispatch demo_ext (RAuthenticate ''alice'' ''sudo'') (Some 0) demo_world =
      dispatch demo_ext (RUnsealPassword ''alice'') (Some 0) demo_world"
    using demo_plan by (intro authenticate_by_plan(2)) (simp_all add: peer_may_act_as_def validate_user_def is_root_def)
  then show ?thesis using demo_release by simp
qed

lemma demo_enrolled: "enrolled_profiles demo_world = [''alice'']"
proof -
  have "subdirs config_root demo_world = [''alice'']"
    by (simp add: subdirs_def demo_world_def config_root_def parent_def file_name_def)
  moreover have "path_exists (user_path ''alice'' ''embedding.enc'') demo_world"
    by (simp add: path_exists_def user_path_def path_join_def starts_with_def config_root_def demo_file)
      (simp add: demo_world_def)
  moreover have "utf8_valid ''alice''"
    by (rule utf8_valid_ascii) (simp add: ascii_def)
  ultimately show ?thesis
    by (simp add: enrolled_profiles_def) (simp add: demo_world_def config_root_def)
qed

section \<open>The parameters keep the documented laws\<close>

lemma demo_laws: "rand_law demo_ext" "gcm_law demo_ext" "b64_law demo_ext" "rec_json_law demo_ext" "env_json_law demo_ext"
  by (auto simp: rand_law_def gcm_law_def b64_law_def rec_json_law_def env_json_law_def demo_ext_def)

definition soft_live :: "soft_tpm \<Rightarrow> nat set" where "soft_live t = set (map fst t)"

lemma occupy_law: "occupies soft_live (\<lambda>h. {h}) (occupy b)"
  by (auto simp: occupies_def occupy_def soft_live_def)

lemma demo_slot_law: "slot_law soft_live demo_ext"
  by (simp add: slot_law_def demo_ext_def occupy_law quiet_def soft_unseal_def split: option.splits)
    (auto simp: occupies_def occupy_def soft_live_def)

lemma demo_evict_law: "evict_law demo_ext"
  by (simp add: evict_law_def demo_ext_def)

section \<open>A run with a signed policy\<close>

text \<open>The host's own key, and a signature file with the one entry the run needs.\<close>

definition demo_entry :: sig_entry where
  "demo_entry = \<lparr>ent_pcrs = [7], ent_pkfp = [], ent_pol = hex_lower (replicate 32 (CHR 0x00)), ent_sig = ''sig''\<rparr>"

definition signed_ext :: "(soft_tpm, nat) daemon_ext" where
  "signed_ext = demo_ext\<lparr>pub_of_pem := (\<lambda>_. Inr \<lparr>rsa_n = replicate 256 (CHR ''n''), rsa_e = [CHR 0x03]\<rparr>), sigs_of_json := (\<lambda>_. Inr [(default_bank, [demo_entry])])\<rparr>"

definition signed_world :: "(soft_tpm, nat) world" where
  "signed_world = demo_world\<lparr>files := (files demo_world)(host_signing_pub_path \<mapsto> ''pem'', host_signature_path \<mapsto> ''sigs'')\<rparr>"

definition signed_env :: "bytes \<Rightarrow> sealed_envelope" where
  "signed_env b = (demo_env b)\<lparr>env_policy := KindAuthorized ''pem'' []\<rparr>"

lemma signed_tss:
  "sha256 signed_ext = (\<lambda>_. replicate 32 (CHR ''h''))"
  "pub_of_pem signed_ext = (\<lambda>_. Inr \<lparr>rsa_n = replicate 256 (CHR ''n''), rsa_e = [CHR 0x03]\<rparr>)"
  "tcti_conf signed_ext = (\<lambda>_. Inr ())"
  "ctx_new signed_ext = (\<lambda>_ t. (Ok 0, t))"
  "ctx_drop signed_ext = (\<lambda>_ t. t)"
  "clear_sessions signed_ext = (\<lambda>_ t. t)"
  "buf_try signed_ext = (\<lambda>_ b. Inr b)"
  "pub_build signed_ext = Inr"
  "rsa_exponent signed_ext = Inr"
  "selection_build signed_ext = Inr"
  "persistent_new signed_ext = Inr"
  "policy_session signed_ext = Inr"
  "rsa_signature signed_ext = Inr"
  "marshall signed_ext = (\<lambda>_. Inr [])"
  "unmarshall signed_ext = (\<lambda>_. Inr demo_public)"
  "start_auth_session signed_ext = (\<lambda>_ _ t. case occupy [] t of (Ok h, t') \<Rightarrow> (Ok (Some h), t') | (_, t') \<Rightarrow> (Ok None, t'))"
  "tr_sess_set_attributes signed_ext = (\<lambda>_ _ t. (Ok (), t))"
  "flush_context signed_ext = (\<lambda>_ h t. (Ok (), filter (\<lambda>p. fst p \<noteq> h) t))"
  "policy_pcr signed_ext = (\<lambda>_ _ _ t. (Ok (), t))"
  "policy_get_digest signed_ext = (\<lambda>_ _ t. (Ok (replicate 32 (CHR 0x00)), t))"
  "create_primary signed_ext = (\<lambda>_ _ _. occupy [])"
  "tr_from_tpm_public signed_ext = (\<lambda>_ _ t. (Err ''not found'', t))"
  "read_public signed_ext = (\<lambda>_ _ t. (Ok demo_public, t))"
  "tr_set_auth signed_ext = (\<lambda>_ _ _ t. (Ok (), t))"
  "evict_control signed_ext = (\<lambda>_ _ _ p t. (Ok p, t))"
  "tpm_load signed_ext = (\<lambda>_ _ _ b _. occupy b)"
  "load_external_public signed_ext = (\<lambda>_ _. occupy [])"
  "tr_get_name signed_ext = (\<lambda>_ _ t. (Ok [], t))"
  "verify_signature signed_ext = (\<lambda>_ _ _ _ t. (Ok [], t))"
  "policy_authorize signed_ext = (\<lambda>_ _ _ _ _ _ t. (Ok (), t))"
  "tpm_unseal signed_ext = (\<lambda>_ _. soft_unseal)"
  by (simp_all add: signed_ext_def demo_ext_def)

lemma signed_no_secure_boot: "\<not> is_secure_boot_enabled signed_world"
  using secure_boot_needs_variable [of signed_world]
  by (auto simp: fs_read_def signed_world_def demo_world_def demo_files_def path_join_def starts_with_def
     efivars_def secureboot_var_def host_signing_pub_path_def host_signature_path_def config_root_def default_antispoof_model_def)

lemma signed_unseal: "unseal_authorized signed_ext (signed_env b) ''pem'' [] signed_world = (Ok b, signed_world)"
proof -
  have fp: "pubkey_spki_fingerprint signed_ext pem = Inr (hex_lower (replicate 32 (CHR ''h'')))" for pem
    by (simp add: pubkey_spki_fingerprint_def signed_ext_def demo_ext_def)
  have hx: "hex_lower (replicate 32 (CHR ''h'')) \<noteq> trusted_pubkey_spki_sha256"
    by code_simp
  have f: "files signed_world host_signing_pub_path = Some ''pem''" "files signed_world host_signature_path = Some ''sigs''"
    "io_fault signed_world = (\<lambda>_ _. None)" "tpm signed_world = []" "env_vars signed_world = (\<lambda>_. None)"
    by (simp_all add: signed_world_def host_signing_pub_path_def host_signature_path_def path_join_def starts_with_def demo_world_def)
  have cls: "classify_signer signed_ext ''pem'' signed_world = Inr LinhelloHost"
    using hx by (simp add: classify_signer_def fp fs_read_to_string_def fs_read_def f)
  have sigs: "host_signatures signed_ext default_bank (signed_world\<lparr>tpm := t\<rparr>) =
      (Ok [\<lparr>sig_pcrs = [7], sig_pkfp = [], sig_pol = replicate 32 (CHR 0x00), sig_sig = ''sig''\<rparr>], signed_world\<lparr>tpm := t\<rparr>)" for t
    by (simp add: host_signatures_def abind_def path_exists_def f fs_read_to_string_def fs_read_def parse_signatures_def signed_ext_def demo_entry_def
     decode_entry_def from_hex_hex_lower demo_ext_def)
  have pub: "\<exists>pub. rsa_pem_to_public signed_ext ''pem'' = Inr pub"
    by (simp add: rsa_pem_to_public_def signed_tss tpm_res_def)
  have key: "load_external_pubkey signed_ext c ''pem'' (signed_world\<lparr>tpm := t\<rparr>) = (Ok (fresh t), signed_world\<lparr>tpm := (fresh t, []) # t\<rparr>)" for c t
    using pub by (auto simp: load_external_pubkey_def abind_def tpm_cmd_def tss_cmd_def amap_err_def signed_tss occupy_def)
  have au: "map_of t h = Some b \<Longrightarrow>
      authorize_and_unseal signed_ext c e s p a r g h k (signed_world\<lparr>tpm := t\<rparr>) = (Ok b, signed_world\<lparr>tpm := t\<rparr>)" for t c e s p a r g h k
    by (simp add: authorize_and_unseal_def unseal_under_def a_hash_def abind_def tpm_cmd_def tss_cmd_def amap_err_def tpm_res_def signed_tss soft_unseal_def try_act_def)
  have pr: "env_pcrs e = [7] \<Longrightarrow> present_signature signed_ext c e LinhelloHost ''pem'' [] (Suc 0) (Suc (Suc 0))
      (signed_world\<lparr>tpm := [(Suc (Suc 0), []), (Suc 0, b)]\<rparr>) = (Ok b, signed_world\<lparr>tpm := [(Suc (Suc 0), []), (Suc 0, b)]\<rparr>)" for c e
    by (simp add: present_signature_def with_handle_def abind_def tpm_res_def pcr_selection_def pcr_slot_def tpm_cmd_def tss_cmd_def amap_err_def
        signed_tss sigs find_for_policy_def key au finally_act_def try_act_def ignore_def fresh_def)
  show ?thesis
    by (simp add: unseal_authorized_def abind_def cls signed_no_secure_boot signed_env_def demo_env_def expected_pcrs_def linhello_signed_pcrs_def)
      (simp add: authorized_session_def with_context_def open_context_def abind_def tpm_cmd_def tss_cmd_def amap_err_def tpm_res_def with_srk_def load_or_create_srk_def
    create_srk_def srk_template_def persistent_srk_handle_def try_act_def finally_act_def ignore_def Let_def with_sealed_object_def with_session_def f
    signed_tss occupy_def fresh_def pr)
qed

section \<open>Storing a file for a user\<close>

text \<open>A host on which files can be created in the directory of \<open>alice\<close>.\<close>

definition home :: "(soft_tpm, nat) world \<Rightarrow> bool" where
  "home w \<longleftrightarrow> io_fault w = (\<lambda>_ _. None) \<and> dirs w = [''/etc'', ''/etc/linhello'', ''/etc/linhello/alice''] \<and>
     files w ''/etc'' = None \<and> files w ''/etc/linhello'' = None \<and> files w ''/etc/linhello/alice'' = None"

lemma demo_home: "home demo_world"
  by (simp add: home_def demo_world_def demo_files_def default_antispoof_model_def)

lemma home_ancestors: "ancestors ''/etc/linhello/alice'' = [''/etc/linhello'', ''/etc'']"
  by (simp add: ancestors.simps parent_def)

lemma home_parent:
  assumes "home w" "parent p = Some ''/etc/linhello/alice''"
  shows "make_parent p w = (Ok (), w)"
  using assms by (simp add: make_parent_def fs_create_dir_all_def io_act_def amap_err_def home_def home_ancestors)

lemma home_write:
  assumes "home w" "parent p = Some ''/etc/linhello/alice''"
  shows "fs_write p b w = (Ok (), put_file p b w)"
    "fs_set_permissions p m (put_file p b w) = (Ok (), (put_file p b w)\<lparr>modes := (modes (put_file p b w))(p \<mapsto> m)\<rparr>)"
proof -
  have "p \<notin> set (dirs w)" using assms by (auto simp: home_def parent_def)
  then show "fs_write p b w = (Ok (), put_file p b w)"
    "fs_set_permissions p m (put_file p b w) = (Ok (), (put_file p b w)\<lparr>modes := (modes (put_file p b w))(p \<mapsto> m)\<rparr>)"
    using assms by (simp_all add: fs_write_def fs_set_permissions_def home_def)
qed

lemma demo_save_embedding: "\<exists>w'. save_encrypted_embedding demo_ext ''alice'' raw demo_key demo_world = (Ok (), w')"
proof -
  have p: "parent ''/etc/linhello/alice/embedding.enc'' = Some ''/etc/linhello/alice''" by (simp add: parent_def)
  have l: "\<exists>q. legacy_embedding_path ''alice'' = Inr q"
    by (simp add: legacy_embedding_path_def user_file_def validate_user_def)
  have e: "\<exists>b. encrypt demo_ext demo_key raw demo_world = (Ok b, demo_world\<lparr>draws := 1\<rparr>)"
    by (simp add: encrypt_def length_demo_key demo_ext_def fill_bytes_def abind_def) (simp add: demo_world_def)
  have h: "home (demo_world\<lparr>draws := 1\<rparr>)" using demo_home by (simp add: home_def)
  obtain q b where "legacy_embedding_path ''alice'' = Inr q" "encrypt demo_ext demo_key raw demo_world = (Ok b, demo_world\<lparr>draws := 1\<rparr>)"
    using l e by blast
  then show ?thesis
    using demo_home p home_parent [OF demo_home p] home_write [OF h p]
    by (simp add: save_encrypted_embedding_def demo_paths abind_def io_act_def amap_err_def ignore_def try_act_def
      split: prod.split outcome.split)
 (simp add: fs_remove_file_def home_def split: option.splits)
qed

lemma demo_save_recovery:
  "\<exists>w'. save_recovery demo_ext ''alice'' ''pass'' demo_world = (Ok (), w') \<and> io_fault w' = (\<lambda>_ _. None)"
proof -
  let ?p = "''/etc/linhello/alice/recovery_envelope.json''" and ?v = "demo_world\<lparr>draws := 2\<rparr>"
  have p: "parent ?p = Some ''/etc/linhello/alice''" by (simp add: parent_def)
  have r: "recovery_envelope_path ''alice'' = Inr ?p"
    by (simp add: recovery_envelope_path_def user_file_def validate_user_def path_join_def starts_with_def config_root_def)
  have k: "unseal_template_key demo_ext ''alice'' demo_world = (Ok demo_key, demo_world)"
    using demo_unseal [OF _ demo_file(2)] demo_calm by (simp add: unseal_template_key_def demo_paths abind_def calm_host_def)
  have e: "\<exists>e. wrap demo_ext ''pass'' demo_key demo_world = (Ok e, ?v)"
    by (simp add: wrap_def encrypt_def derive_key_def key_len_def demo_ext_def fill_bytes_def abind_def) (simp add: demo_world_def)
  have h: "home ?v" using demo_home by (simp add: home_def)
  show ?thesis
    using k e r home_parent [OF h p] home_write [OF h p]
    by (auto simp: save_recovery_def abind_def io_act_def amap_err_def home_def [THEN iffD1, OF h])
qed

end
