(* ===== verification/CoreSpec.thy ===== *)
theory CoreSpec
  imports Setup
begin

text \<open>
  Properties of the security engine: sealing and unsealing, the signed policies, the envelope,
  recovery and template files, the configuration files and the paths of a user.
\<close>

section \<open>The TPM engine\<close>



text \<open>
  C10. An envelope under a signed policy opens only with a signature: its key is the pinned systemd
  key or this host's own, it binds the register set that signer signs, and the signature file of
  that signer, as it stood before the call or after the host signer's own repair, held an entry for these registers and the digest the session reached whose
  signature the TPM verified under that key.
\<close>

theorem authorized_unseal_signed:
  assumes "tpm_unseal_env X e w = (Ok secret, w')" and "env_policy e = KindAuthorized pem ref"
  shows "\<exists>signer u sigs s. classify_signer X pem w = Inr signer \<and> env_pcrs e = expected_pcrs signer \<and>
    same_files (if signer = LinhelloHost \<and> is_secure_boot_enabled w
      then snd (ensure_host_signature X (env_pcrs e) ref w) else w) u \<and>
    signer_file X signer u = (Ok sigs, u) \<and> find_for_policy sigs (env_pcrs e) (sig_pol s) = Some s \<and> accepted X ref pem s"
proof -
  from assms have "unseal_authorized X e pem ref w = (Ok secret, w')"
    by (simp add: tpm_unseal_env_def)
  from unseal_authorized_result [OF this] obtain signer v where
    signer: "classify_signer X pem w = Inr signer" "env_pcrs e = expected_pcrs signer"
    and v: "v = (if signer = LinhelloHost \<and> is_secure_boot_enabled w
         then snd (ensure_host_signature X (env_pcrs e) ref w) else w)"
    and a: "authorized_session X e signer pem ref v = (Ok secret, w')"
    by blast
  from authorized_session_signed [OF a] show ?thesis
    using signer unfolding v by blast
qed

theorem authorized_unseal_signed_witness:
  "tpm_unseal_env signed_ext (signed_env demo_key) signed_world = (Ok demo_key, signed_world) \<and>
   (\<exists>s. accepted signed_ext [] ''pem'' s)"
proof -
  have u: "tpm_unseal_env signed_ext (signed_env demo_key) signed_world = (Ok demo_key, signed_world)"
    by (simp add: tpm_unseal_env_def signed_env_def [THEN arg_cong, of env_policy] signed_unseal)
  have "env_policy (signed_env demo_key) = KindAuthorized ''pem'' []"
    by (simp add: signed_env_def)
  from authorized_unseal_signed [OF u this] u show ?thesis by blast
qed

text \<open>
  C11. With Secure Boot off, unsealing repairs nothing: whatever the envelope and the outcome, every
  file and every mode on the host is as before, so no fresh signature is issued for the new state.
\<close>

theorem no_repair_without_secure_boot:
  assumes "\<not> is_secure_boot_enabled w"
  shows "files (snd (tpm_unseal_env X e w)) = files w \<and> modes (snd (tpm_unseal_env X e w)) = modes w"
proof -
  have "same_outside (\<lambda>_. False) w (snd (tpm_unseal_env X e w))"
    by (simp add: tpm_unseal_env_def unseal_authorized_no_heal [OF assms]
        outside.keepsD [OF tpm_files.keeps_unseal_literal] split: policy_kind.split)
  then show ?thesis by (auto simp: same_outside_def)
qed

theorem no_repair_without_secure_boot_witness:
  "\<not> is_secure_boot_enabled signed_world \<and>
   files (snd (tpm_unseal_env signed_ext (signed_env demo_key) signed_world)) = files signed_world"
  using no_repair_without_secure_boot [OF signed_no_secure_boot] signed_no_secure_boot by blast

text \<open>
  The sealing plan: no register is bound exactly when Secure Boot is off, and the full level is
  reached only on a unified kernel image with a signed policy available whose key has the pinned
  fingerprint; then register 11 is bound and nothing on the host changes.
\<close>

theorem plan_levels:
  assumes "plan X w = (Ok p, w')"
  shows "(p = PlanNone \<longleftrightarrow> \<not> is_secure_boot_enabled w) \<and>
    (plan_security_level p = Full \<longrightarrow> detect_boot_mode w = Uki \<and> signed_policy_available w \<and> w' = w \<and>
       (\<exists>pem. p = PlanAuthorized [11] pem [] \<and> pubkey_spki_fingerprint X pem = Inr trusted_pubkey_spki_sha256))"
  using plan_None_iff [OF assms] plan_Full [OF assms] by blast

theorem plan_levels_witness: "plan signed_ext signed_world = (Ok PlanNone, signed_world) \<and> \<not> is_secure_boot_enabled signed_world"
proof -
  have p: "plan signed_ext signed_world = (Ok PlanNone, signed_world)"
    using signed_no_secure_boot by (rule plan_no_secure_boot)
  show ?thesis using plan_levels [OF p] p by simp
qed

text \<open>
  After the host signer added its signature for a digest, looking the digest up among the
  entries of the bank finds one, and the entries of other banks are as they were.
\<close>

theorem host_signature_found:
  assumes "collect_out (decode_entry X) (unwrap_or [] (map_of banks bank)) = Ok old" and "b64_law X"
  shows "let new = add_entry bank \<lparr>ent_pcrs = pcrs, ent_pkfp = fp, ent_pol = hex_lower d, ent_sig = b64_encode X sg\<rparr> banks in
    (\<exists>sigs. collect_out (decode_entry X) (the (map_of new bank)) = Ok sigs \<and> find_for_policy sigs pcrs d \<noteq> None) \<and>
    (other = bank \<or> map_of new other = map_of banks other)"
  using find_after_add [OF assms(1,2)] add_entry_other unfolding Let_def by blast

theorem host_signature_found_witness:
  "\<exists>sigs. collect_out (decode_entry demo_ext) (the (map_of (add_entry ''sha256''
       \<lparr>ent_pcrs = [7], ent_pkfp = [], ent_pol = hex_lower ''d'', ent_sig = b64_encode demo_ext ''s''\<rparr> []) ''sha256'')) = Ok sigs
     \<and> find_for_policy sigs [7] ''d'' \<noteq> None"
  using host_signature_found [of demo_ext "[]" "''sha256''" "[]" "[7]" "[]" "''d''" "''s''"] demo_laws(3) by (simp add: Let_def)

text \<open>
  The hexadecimal text of a digest reads back as that digest.
\<close>

theorem hex_roundtrip: "from_hex (hex_lower bs) = Ok bs"
  by (rule from_hex_hex_lower)

section \<open>Files\<close>

text \<open>
  C12. A key written to a configuration file reads back, and every other key of the file reads as
  before: for keys and values without line breaks or surrounding white space in a file without
  carriage returns.
\<close>

theorem config_roundtrip:
  assumes "write_kv file key val w = (Ok (), w')" and "kv_text (conf_text file w)"
    and "good_key key" "good_value val" "utf8_valid key" "utf8_valid val"
    and "io_fault w OpRead (config_path file) = None"
  shows "read_kv file k w' = (if k = key then Some val else read_kv file k w)"
  using assms by (rule read_write_kv)

theorem config_roundtrip_witness:
  "\<exists>w'. write_kv ''policy.conf'' ''sudo'' ''off'' demo_world = (Ok (), w') \<and>
     read_kv ''policy.conf'' ''sudo'' w' = Some ''off'' \<and> read_kv ''policy.conf'' ''tier'' w' = Some ''secure''"
proof -
  let ?p = "''/etc/linhello/policy.conf''"
  have p: "config_path ''policy.conf'' = ?p"
    by (simp add: config_path_def path_join_def starts_with_def config_root_def)
  have c: "conf_text ''policy.conf'' demo_world = demo_conf"
    unfolding conf_text_def p
    by (simp add: demo_world_def demo_files_def default_antispoof_model_def demo_conf_def fs_read_to_string_def fs_read_def)
  have "?p \<notin> set (dirs demo_world)" "parent ?p = Some ''/etc/linhello''" "''/etc/linhello'' \<in> set (dirs demo_world)" "files demo_world ?p \<noteq> None"
    "io_fault demo_world = (\<lambda>_ _. None)"
    by (simp_all add: demo_world_def parent_def demo_files_def)
  then obtain w' where w: "write_kv ''policy.conf'' ''sudo'' ''off'' demo_world = (Ok (), w')"
    by (simp add: write_kv_def p abind_def io_act_def amap_err_def fs_write_def fs_set_permissions_def Let_def)
  have g: "kv_text demo_conf" "good_key ''sudo''" "good_value ''off''" "utf8_valid ''sudo''" "utf8_valid ''off''"
    by (simp add: kv_text_def demo_conf_def, code_simp+)
  have "read_kv ''policy.conf'' k w' = (if k = ''sudo'' then Some ''off'' else read_kv ''policy.conf'' k demo_world)" for k
    using config_roundtrip [OF w, of k] c g by (simp add: demo_world_def)
  with w show ?thesis by (simp add: demo_policy_conf demo_conf_keys)
qed

text \<open>
  An envelope that was saved loads as the same envelope.
\<close>

theorem envelope_roundtrip:
  assumes "env_save X e path w = (Ok (), w')" and "env_json_law X" and "io_fault w OpRead path = None"
  shows "env_load X path w' = Inr e"
  using assms by (rule env_load_save)

theorem envelope_roundtrip_witness:
  "\<exists>w'. env_save demo_ext (demo_env demo_key) ''/etc/linhello/alice/k.json'' demo_world = (Ok (), w') \<and>
     env_load demo_ext ''/etc/linhello/alice/k.json'' w' = Inr (demo_env demo_key)"
proof -
  let ?p = "''/etc/linhello/alice/k.json''"
  have p: "parent ?p = Some ''/etc/linhello/alice''" by (simp add: parent_def)
  obtain w' where w: "env_save demo_ext (demo_env demo_key) ?p demo_world = (Ok (), w')"
    using home_parent [OF demo_home p] home_write [OF demo_home p]
    by (simp add: env_save_def abind_def io_act_def amap_err_def make_parent_def p)
  show ?thesis using w envelope_roundtrip [OF w demo_laws(5)] by (simp add: demo_world_def)
qed

text \<open>
  C13. A template saved under a key loads back under that key byte for byte.
\<close>

theorem template_roundtrip:
  fixes w :: "'b host_scheme"
  assumes "save_encrypted_embedding X user raw key w = (Ok (), w')" and "rand_law X" and "gcm_law X"
    and "io_fault w OpStat (config_root @ ''/'' @ user @ ''/embedding.enc'') = None"
    and "io_fault w OpRead (config_root @ ''/'' @ user @ ''/embedding.enc'') = None"
  shows "load_encrypted_embedding X user key w' = (Ok raw, w')"
  using assms by (intro load_save_embedding) auto

theorem template_roundtrip_witness:
  "\<exists>w'. save_encrypted_embedding demo_ext ''alice'' ''template'' demo_key demo_world = (Ok (), w') \<and>
     load_encrypted_embedding demo_ext ''alice'' demo_key w' = (Ok ''template'', w')"
proof -
  obtain w' where w: "save_encrypted_embedding demo_ext ''alice'' ''template'' demo_key demo_world = (Ok (), w')"
    using demo_save_embedding by blast
  show ?thesis
    using w template_roundtrip [OF w demo_laws(1,2)] demo_home by (simp add: home_def)
qed

text \<open>
  What a successful save leaves on disk: the file holds an encryption of the template under the
  key with mode 0600, and the plaintext file of earlier versions is gone unless removing it failed.
\<close>

theorem template_at_rest:
  fixes w :: "'z host_scheme"
  assumes "save_encrypted_embedding X user raw key w = (Ok (), w')"
  shows "(\<exists>blob u v. encrypt X key raw (u :: 'z host_scheme) = (Ok blob, v) \<and>
      files w' (config_root @ ''/'' @ user @ ''/embedding.enc'') = Some blob \<and>
      modes w' (config_root @ ''/'' @ user @ ''/embedding.enc'') = Some 384) \<and>
    (io_fault w OpRemove (config_root @ ''/'' @ user @ ''/embedding.bin'') = None \<longrightarrow>
      files w' (config_root @ ''/'' @ user @ ''/embedding.bin'') = None)"
  using save_encrypted_embedding_result [OF assms] by blast

theorem template_at_rest_witness:
  "\<exists>w'. save_encrypted_embedding demo_ext ''alice'' ''template'' demo_key demo_world = (Ok (), w') \<and>
     files w' (config_root @ ''/alice/embedding.bin'') = None"
proof -
  obtain w' where w: "save_encrypted_embedding demo_ext ''alice'' ''template'' demo_key demo_world = (Ok (), w')"
    using demo_save_embedding by blast
  show ?thesis
    using w template_at_rest [OF w] demo_home by (simp add: home_def)
qed

text \<open>
  A plaintext template is never used unless migration was explicitly allowed: otherwise what
  was loaded is the decryption of the encrypted file, and nothing changed.
\<close>

theorem plaintext_refused:
  assumes "load_encrypted_embedding X user key w = (Ok raw, w')" and "\<not> legacy_migration_allowed w"
  shows "\<exists>blob. files w (config_root @ ''/'' @ user @ ''/embedding.enc'') = Some blob \<and>
    decrypt X key blob = Inr raw \<and> w' = w"
  using legacy_refused [OF assms(1)] assms(2) by blast

theorem plaintext_refused_witness:
  "\<exists>raw. load_encrypted_embedding demo_ext ''alice'' demo_key demo_world = (Ok raw, demo_world) \<and>
     \<not> legacy_migration_allowed demo_world \<and>
     (\<exists>blob. files demo_world (config_root @ ''/'' @ ''alice'' @ ''/embedding.enc'') = Some blob \<and> decrypt demo_ext demo_key blob = Inr raw)"
proof -
  have l: "load_encrypted_embedding demo_ext ''alice'' demo_key demo_world = (Ok (embedding_bytes demo_template), demo_world)"
    using demo_calm length_demo_key
    by (simp add: load_encrypted_embedding_def demo_paths abind_def path_exists_def demo_file fs_read_def calm_host_def calm_def
        decrypt_def nonce_len_def Let_def demo_ext_def)
  have "\<not> legacy_migration_allowed demo_world" by (simp add: legacy_migration_allowed_def demo_world_def)
  with l plaintext_refused [OF l] show ?thesis by blast
qed

text \<open>
  C14. The recovery passphrase restores the key: after a recovery file was written, restoring with
  the same passphrase reseals exactly the template key that was unsealed when it was written.
\<close>

theorem recovery_roundtrip:
  assumes "save_recovery X user pass w = (Ok (), w')"
    and "rand_law X" "gcm_law X" "b64_law X" "rec_json_law X"
    and "io_fault w' OpRead (config_root @ ''/'' @ user @ ''/recovery_envelope.json'') = None"
  shows "\<exists>key v. unseal_template_key X user w = (Ok key, v) \<and>
    restore_from_recovery X user pass w' = seal_template_key X user key w'"
  using assms by (rule restore_after_save)

theorem recovery_roundtrip_witness:
  "\<exists>w'. save_recovery demo_ext ''alice'' ''pass'' demo_world = (Ok (), w') \<and>
     (\<exists>key v. unseal_template_key demo_ext ''alice'' demo_world = (Ok key, v) \<and>
       restore_from_recovery demo_ext ''alice'' ''pass'' w' = seal_template_key demo_ext ''alice'' key w')"
proof -
  obtain w' where w: "save_recovery demo_ext ''alice'' ''pass'' demo_world = (Ok (), w')" and f: "io_fault w' = (\<lambda>_ _. None)"
    using demo_save_recovery by blast
  show ?thesis using w f recovery_roundtrip [OF w demo_laws(1-4)] by simp
qed

text \<open>
  No user name reaches outside its own directory: every file of the engine for an accepted name
  lies directly in that user's directory below the configuration root, and the files of two
  different names are different.
\<close>

theorem user_files_contained:
  assumes "user_file name u = Inr p" and "CHR ''/'' \<notin> set name"
  shows "parent p = Some (config_root @ ''/'' @ u) \<and> user_area u p \<and>
    (\<forall>v q. user_file name v = Inr q \<longrightarrow> u \<noteq> v \<longrightarrow> q \<noteq> p)"
proof -
  have "user_file name v = Inr q \<Longrightarrow> u \<noteq> v \<Longrightarrow> q \<noteq> p" for v q
    using user_file_result [OF assms] user_file_result [of name v q] assms(2) by auto
  then show ?thesis
    using user_file_result [OF assms] user_file_area [OF assms] by blast
qed

theorem user_files_contained_witness:
  "user_file ''embedding.enc'' ''alice'' = Inr ''/etc/linhello/alice/embedding.enc'' \<and>
   parent ''/etc/linhello/alice/embedding.enc'' = Some (config_root @ ''/alice'')"
proof -
  have u: "user_file ''embedding.enc'' ''alice'' = Inr ''/etc/linhello/alice/embedding.enc''"
    by (simp add: user_file_def validate_user_def path_join_def starts_with_def config_root_def)
  then show ?thesis using user_files_contained [OF u] by simp
qed

end
