(* ===== verification/FaceSpec.thy ===== *)
theory FaceSpec
  imports Setup
begin

text \<open>
  Properties of the biometric side: the policy, the match, the stored samples, liveness, the
  infrared gate, the camera binding and the positioning guide.
\<close>

section \<open>Policy\<close>


text \<open>
  A stronger tier never grants less: from denial over verification to release.
\<close>

theorem decision_monotone: "s \<le> t \<Longrightarrow> grant (decide c s p) \<le> grant (decide c t p)"
  by (rule decide_mono)

theorem decision_monotone_witness:
  "grant (decide Login Convenience default_policy) \<le> grant (decide Login Secure default_policy)"
  by (rule decision_monotone) (simp add: less_eq_tier_def)

text \<open>
  The default method can be selected and no selectable method is on a stronger tier.
\<close>

theorem default_method_best:
  assumes "default_method a = Some m"
  shows "m \<in> set (selectable a) \<and> (\<forall>n. n \<in> set (selectable a) \<longrightarrow> method_tier n \<le> method_tier m)"
  using default_in_selectable [OF assms] default_method_strongest [OF assms] by blast

theorem default_method_best_witness:
  "\<exists>m. default_method \<lparr>face_rgb = True, face_ir = True, fingerprint = True, fingerprint_capable = True\<rparr> = Some m \<and>
     m \<in> set (selectable \<lparr>face_rgb = True, face_ir = True, fingerprint = True, fingerprint_capable = True\<rparr>)"
proof -
  obtain m where m: "default_method \<lparr>face_rgb = True, face_ir = True, fingerprint = True, fingerprint_capable = True\<rparr> = Some m"
    by (auto simp: default_method_def selectable_def)
  with default_method_best [OF m] show ?thesis by blast
qed

section \<open>Matching\<close>

text \<open>
  The resolved match threshold lies inside [0.3, 0.95] whatever the environment variable and
  the configuration file hold, not-a-number included.
\<close>

theorem threshold_bounds: "f_in min_threshold max_threshold (resolve_threshold w)"
  by (rule resolve_threshold_in)

text \<open>
  C16. A live face matches exactly when some stored sample reaches the threshold, the score
  reported is the best one, and a sample whose similarity is not a number never matches.
\<close>

theorem match_exact:
  assumes "match_against live samples w = (Ok r, w')" and "thr_ok w"
  shows "\<exists>t. f_in min_threshold max_threshold t \<and> w' = w\<lparr>thr_cache := Some t\<rparr> \<and>
    ar_score r = best_score live samples \<and> (ar_matched r \<longleftrightarrow> (\<exists>s\<in>set samples. f_le t (cosine live s))) \<and>
    (\<forall>s\<in>set samples. f_is_nan (cosine live s) \<or> f_le (cosine live s) (ar_score r))"
proof -
  from match_against_result [OF assms] obtain t where
    t: "f_in min_threshold max_threshold t" "w' = w\<lparr>thr_cache := Some t\<rparr>" "ar_score r = best_score live samples"
      "ar_matched r \<longleftrightarrow> (\<exists>s\<in>set samples. f_le t (cosine live s))"
    by blast
  moreover have "\<forall>s\<in>set samples. f_is_nan (cosine live s) \<or> f_le (cosine live s) (ar_score r)"
    using best_score_ge [of _ samples live] unfolding t(3) by blast
  ultimately show ?thesis by blast
qed

theorem match_exact_witness:
  "\<exists>r w'. match_against demo_template [demo_template] demo_world = (Ok r, w') \<and> thr_ok demo_world \<and>
     (f_is_nan (cosine demo_template demo_template) \<or> f_le (cosine demo_template demo_template) (ar_score r))"
proof -
  have t: "thr_ok demo_world" by (simp add: thr_ok_def demo_world_def)
  obtain r w' where m: "match_against demo_template [demo_template] demo_world = (Ok r, w')"
    by (simp add: match_against_def abind_def match_threshold_def Let_def demo_world_def [THEN arg_cong, of thr_cache])
  with match_exact [OF m t] t show ?thesis by auto
qed

text \<open>
  A similarity that is a number lies inside [-1, 1].
\<close>

theorem cosine_range: "\<not> f_is_nan (cosine a b) \<Longrightarrow> f_in (f_lit (- 1)) (f_lit 1) (cosine a b)"
  by (rule cosine_in)

theorem cosine_range_witness: "f_in (f_lit (- 1)) (f_lit 1) (cosine demo_template demo_template)"
  by (rule cosine_range) (simp add: cosine_demo f_is_nan_def lit_ops)

text \<open>
  Stored samples read back: parsing the concatenated bytes of samples of the right dimension
  gives their normalized forms, one per sample, or the error of the first one that cannot be
  normalized.
\<close>

theorem samples_roundtrip:
  assumes "\<forall>v\<in>set vs. length v = embedding_dim" and "vs \<noteq> []"
  shows "parse_raw_embeddings (concat (map embedding_bytes vs)) = collect_res normalize_sample vs"
  using assms by (rule parse_stored_samples)

theorem samples_roundtrip_witness:
  "parse_raw_embeddings (concat (map embedding_bytes [demo_template])) = Inr [demo_template]"
  using samples_roundtrip [of "[demo_template]"] length_demo_template normalize_demo by simp

section \<open>Liveness\<close>



text \<open>
  When the anti-spoofing model is required, an evaluator exists only with the model loaded from
  a file that is present: a missing model is an error, never a silent pass.
\<close>

theorem antispoof_fails_closed:
  assumes "evaluator_new load config w = Inr ev" and "require_antispoof config"
  shows "\<exists>m path items. le_antispoof ev = Some m \<and> antispoof_model config = Some path \<and>
    path_exists path w \<and> load ((path, f_lit 2.7, ''2.7_V2'') # items) = Inr m"
  using assms by (rule evaluator_requires_model)

theorem antispoof_fails_closed_witness:
  "require_antispoof (config_from_env demo_world) \<and> (\<exists>m. le_antispoof demo_evaluator = Some m) \<and>
   evaluator_new (load_ensemble demo_ext) (config_from_env demo_world) demo_world = Inr demo_evaluator"
proof -
  have e: "evaluator_new (load_ensemble demo_ext) (config_from_env demo_world) demo_world = Inr demo_evaluator"
    using demo_calm by (intro demo_evaluator_new) (simp_all add: calm_host_def calm_def)
  have q: "require_antispoof (config_from_env demo_world)"
    by (simp add: config_from_env_def demo_world_def)
  from antispoof_fails_closed [OF e q] e q show ?thesis by blast
qed

section \<open>The infrared gate and the camera binding\<close>

text \<open>
  The per-user infrared gate passes exactly when there is enough calibration, one of the two
  enrolled cues still holds (if any was enrolled), and the depth cue, if enrolled, is not weak.
\<close>

theorem ir_gate_exact:
  "cal_gate c live w = GatePass \<longleftrightarrow> is_ready c \<and>
     ((\<not> ratio_enrolled c \<and> \<not> glint_enrolled c) \<or>
      (ratio_enrolled c \<and> \<not> ratio_weak c live w) \<or> (glint_enrolled c \<and> \<not> glint_weak c live w)) \<and>
     \<not> (depth_enrolled c \<and> depth_weak c live w)"
  by (rule cal_gate_Pass_iff)

text \<open>
  A camera binding is accepted exactly when the colour camera is the enrolled device and, if an
  infrared camera was enrolled, one is present and is the enrolled device.
\<close>

theorem binding_exact:
  "binding_verify e c = Inr () \<longleftrightarrow> same_device (bind_rgb e) (bind_rgb c) \<and>
     (case bind_ir e of None \<Rightarrow> True
      | Some i \<Rightarrow> (case bind_ir c of None \<Rightarrow> False | Some j \<Rightarrow> same_device i j))"
  by (auto simp: binding_verify_iff split: option.splits)

section \<open>The positioning guide\<close>

text \<open>
  The guide never contradicts its own gate: a frame that may be captured has exactly one face,
  is not a low-light frame, and its guidance is to hold still.
\<close>

theorem guide_consistent:
  assumes "pr_well_framed (framing_guidance i)"
  shows "fi_face_count i = 1 \<and> \<not> fi_low_light i \<and> pr_guidance (framing_guidance i) = hold_still"
  using assms by (auto simp: framing_guidance_def Let_def gate_imp_guidance split: option.splits if_splits)

theorem guide_consistent_witness:
  "\<exists>i. pr_well_framed (framing_guidance i) \<and> pr_guidance (framing_guidance i) = hold_still"
proof -
  let ?i = "\<lparr>fi_face_count = 1, fi_frame_w = 8, fi_frame_h = 8,
     fi_primary = Some ((f_lit 3, f_lit 3, f_lit 5, f_lit 5), f_lit 0, f_lit 0, f_lit 60, f_lit 60, f_lit 1),
     fi_ir_present = False, fi_ir_sig = None, fi_low_light = False\<rparr>"
  have n: "f_of_nat 8 = f_lit 8" "decode (f_lit 5) = FNum 5" "decode (f_lit 8) = FNum 8" "decode (f_lit 4) = FNum 4"
    "\<not> f_sign (f_lit 5)" "\<not> f_sign (f_lit 8)" "\<not> f_sign (f_lit 4)"
    by code_simp+
  have g: "f_in min_face_frac max_frac (f_lit (1/4))" "f_le (f_lit 0) max_angle_deg" "f_le (f_lit 0) (f_mul center_tol (f_lit 8))"
    "f_in dim_gate bright_gate (f_lit 60)" "\<not> f_le backlit_delta (f_lit 0)"
    by code_simp+
  have w: "pr_well_framed (framing_guidance ?i)"
    by (simp add: framing_guidance_def Let_def n lit_ops g)
  from guide_consistent [OF w] w show ?thesis by blast
qed

end
