(* ===== verification/Platform.thy ===== *)
theory Platform
  imports Config
begin

text \<open>
  Distribution detection and what follows from it, crates/linhello-common/src/platform.rs: the
  os-release parser, the families, the PAM mechanism, the security module, the reseal trigger,
  packages and the resolved setup profile. Functions that read the host take it as their last
  argument; the entries of a directory, as the kernel lists them, are the argument \<open>read_dir\<close>.
\<close>

section \<open>Text\<close>

text \<open>\<open>str::split_whitespace\<close>.\<close>

lemma take_token_ne: "trim_start s = c # t \<Longrightarrow> take_token (c # t) \<noteq> []"
  using head_token_strip [of ws_tokens s] by (simp add: trim_start_def)

function split_whitespace :: "string \<Rightarrow> string list" where
  "split_whitespace s =
     (case trim_start s of
        [] \<Rightarrow> []
      | c # t \<Rightarrow> take_token (c # t) # split_whitespace (drop (length (take_token (c # t))) (c # t)))"
  by auto

termination
proof (relation "measure length")
  fix s c t assume s: "trim_start s = c # t"
  have "Suc (length t) \<le> length s"
    using suffix_trim_start [of s] unfolding s by (auto dest: suffix_length_le)
  moreover have "0 < length (take_token (c # t))"
    using take_token_ne [OF s] by blast
  ultimately have "length (drop (length (take_token (c # t))) (c # t)) < length s"
    by (simp only: length_drop length_Cons)
  then show "(drop (length (take_token (c # t))) (c # t), s) \<in> measure length"
    by simp
qed simp

declare split_whitespace.simps [simp del]

text \<open>\<open>trim_matches\<close> for a set of characters.\<close>

definition trim_matches :: "char list \<Rightarrow> string \<Rightarrow> string" where
  "trim_matches cs s = rev (dropWhile (\<lambda>c. c \<in> set cs) (rev (dropWhile (\<lambda>c. c \<in> set cs) s)))"

text \<open>The byte order of paths in one directory.\<close>

fun bytes_le :: "bytes \<Rightarrow> bytes \<Rightarrow> bool" where
  "bytes_le [] ys = True"
| "bytes_le (x # xs) [] = False"
| "bytes_le (x # xs) (y # ys) =
     ((of_char x :: nat) < of_char y \<or> (x = y \<and> bytes_le xs ys))"

fun insert_path :: "string \<Rightarrow> string list \<Rightarrow> string list" where
  "insert_path x [] = [x]"
| "insert_path x (y # ys) = (if bytes_le x y then x # y # ys else y # insert_path x ys)"

definition sort_paths :: "string list \<Rightarrow> string list" where
  "sort_paths xs = foldr insert_path xs []"

section \<open>The family\<close>

datatype distro_family_t = Arch | Debian | Fedora | OtherDistro

definition family_as_str :: "distro_family_t \<Rightarrow> string" where
  "family_as_str f = (case f of Arch \<Rightarrow> ''arch'' | Debian \<Rightarrow> ''debian'' | Fedora \<Rightarrow> ''fedora'' | OtherDistro \<Rightarrow> ''other'')"

record os_release_t =
  os_id :: string
  os_id_like :: string
  os_name :: string
  os_pretty_name :: string
  os_version_id :: string

definition default_os_release :: os_release_t where
  "default_os_release = \<lparr>os_id = [], os_id_like = [], os_name = [], os_pretty_name = [], os_version_id = []\<rparr>"

definition unquote :: "string \<Rightarrow> string" where
  "unquote v = trim_matches [CHR 0x22, CHR 0x27] (trim v)"

definition os_release_line :: "os_release_t \<Rightarrow> string \<Rightarrow> os_release_t" where
  "os_release_line o0 line =
     (case split_once (CHR ''='') (trim line) of
        None \<Rightarrow> o0
      | Some (k, v0) \<Rightarrow>
          (let v = unquote v0 in
           if k = ''ID'' then o0\<lparr>os_id := v\<rparr>
           else if k = ''ID_LIKE'' then o0\<lparr>os_id_like := v\<rparr>
           else if k = ''NAME'' then o0\<lparr>os_name := v\<rparr>
           else if k = ''PRETTY_NAME'' then o0\<lparr>os_pretty_name := v\<rparr>
           else if k = ''VERSION_ID'' then o0\<lparr>os_version_id := v\<rparr>
           else o0))"

definition parse_os_release :: "string \<Rightarrow> os_release_t" where
  "parse_os_release text = foldl os_release_line default_os_release (str_lines text)"

definition arch_names :: "string list" where
  "arch_names = [''arch'', ''manjaro'', ''endeavouros'', ''cachyos'', ''arcolinux'']"
definition fedora_names :: "string list" where
  "fedora_names = [''fedora'', ''rhel'', ''centos'', ''rocky'', ''almalinux'']"
definition debian_names :: "string list" where
  "debian_names = [''debian'', ''ubuntu'', ''linuxmint'', ''pop'']"

definition classify_distro :: "string \<Rightarrow> string \<Rightarrow> distro_family_t" where
  "classify_distro ident id_like =
     (let toks = (if ident = [] then [] else [to_ascii_lowercase ident]) @
                 map to_ascii_lowercase (split_whitespace id_like);
          has = (\<lambda>names. list_ex (\<lambda>t. t \<in> set names) toks)
      in if has arch_names then Arch
         else if has fedora_names then Fedora
         else if has debian_names then Debian
         else OtherDistro)"

definition classify_os_release :: "string \<Rightarrow> distro_family_t" where
  "classify_os_release text =
     (let r = parse_os_release text in classify_distro (os_id r) (os_id_like r))"

definition os_release_text :: "'z host_scheme \<Rightarrow> string" where
  "os_release_text w = unwrap_or [] (res_ok (fs_read_to_string ''/etc/os-release'' w))"

definition distro_family :: "'z host_scheme \<Rightarrow> distro_family_t" where
  "distro_family w = classify_os_release (os_release_text w)"

definition os_family :: "os_release_t \<Rightarrow> distro_family_t" where
  "os_family r = classify_distro (os_id r) (os_id_like r)"

definition os_label :: "os_release_t \<Rightarrow> string" where
  "os_label r =
     (if os_pretty_name r \<noteq> [] then os_pretty_name r
      else let nv = trim (os_name r @ '' '' @ os_version_id r) in
        if nv \<noteq> [] then nv
        else if os_id r \<noteq> [] then os_id r
        else ''Linux (unknown)'')"

definition os_release :: "'z host_scheme \<Rightarrow> os_release_t" where
  "os_release w = parse_os_release (os_release_text w)"

section \<open>Locations\<close>

definition onnx_candidates :: "string list" where
  "onnx_candidates =
     [''/usr/lib/libonnxruntime.so'', ''/usr/lib64/libonnxruntime.so'',
      ''/usr/lib/x86_64-linux-gnu/libonnxruntime.so'', ''/usr/lib/aarch64-linux-gnu/libonnxruntime.so'',
      ''/usr/local/lib/libonnxruntime.so'']"

definition versioned_sibling :: "(string \<Rightarrow> string list option) \<Rightarrow> string \<Rightarrow> string option" where
  "versioned_sibling read_dir path =
     (case parent path of
        None \<Rightarrow> None
      | Some dir \<Rightarrow>
          (let pre = file_name path @ ''.'' in
           case read_dir dir of
             None \<Rightarrow> None
           | Some names \<Rightarrow>
               (let hits = sort_paths (filter (\<lambda>n. utf8_valid n \<and> starts_with n pre) names) in
                if hits = [] then None else Some (path_join dir (last hits)))))"

fun onnxruntime_scan :: "(string \<Rightarrow> string list option) \<Rightarrow> string list \<Rightarrow> 'z host_scheme \<Rightarrow> string option" where
  "onnxruntime_scan read_dir [] w = None"
| "onnxruntime_scan read_dir (c # cs) w =
     (if path_exists c w then Some c
      else case versioned_sibling read_dir c of
          Some v \<Rightarrow> Some v
        | None \<Rightarrow> onnxruntime_scan read_dir cs w)"

definition onnxruntime_dylib :: "(string \<Rightarrow> string list option) \<Rightarrow> 'z host_scheme \<Rightarrow> string option" where
  "onnxruntime_dylib read_dir w = onnxruntime_scan read_dir onnx_candidates w"

definition pam_dirs :: "distro_family_t \<Rightarrow> string list" where
  "pam_dirs family = (case family of
      Debian \<Rightarrow> [''/lib/x86_64-linux-gnu/security'', ''/usr/lib/x86_64-linux-gnu/security'',
        ''/lib/aarch64-linux-gnu/security'', ''/usr/lib/aarch64-linux-gnu/security'', ''/usr/lib/security'']
    | Fedora \<Rightarrow> [''/usr/lib64/security'', ''/usr/lib/security'']
    | Arch \<Rightarrow> [''/usr/lib/security'', ''/usr/lib64/security'']
    | OtherDistro \<Rightarrow> [''/usr/lib/security'', ''/usr/lib64/security'',
        ''/lib/x86_64-linux-gnu/security'', ''/usr/lib/x86_64-linux-gnu/security''])"

definition pam_module_dir :: "'z host_scheme \<Rightarrow> string" where
  "pam_module_dir w =
     (let ordered = pam_dirs (distro_family w) in
      case find (\<lambda>c. path_exists (path_join c ''pam_unix.so'') w) ordered of
        Some c \<Rightarrow> c
      | None \<Rightarrow> ordered ! 0)"

text \<open>\<open>PathBuf::join\<close> on an entry of \<open>PATH\<close>: an empty entry stands for the working directory.\<close>

definition join_dir :: "string \<Rightarrow> string \<Rightarrow> string" where
  "join_dir dir bin = (if dir = [] then bin else if last dir = CHR ''/'' then dir @ bin else dir @ ''/'' @ bin)"

definition on_path :: "string \<Rightarrow> 'z host_scheme \<Rightarrow> bool" where
  "on_path bin w = (case env_vars w ''PATH'' of
      None \<Rightarrow> False
    | Some paths \<Rightarrow> list_ex (\<lambda>dir. path_exists (join_dir dir bin) w) (split_on (CHR '':'') paths))"

definition initramfs_tool :: "'z host_scheme \<Rightarrow> string" where
  "initramfs_tool w =
     (case find (\<lambda>bin. on_path bin w) [''mkinitcpio'', ''dracut'', ''update-initramfs''] of
        Some name \<Rightarrow> name
      | None \<Rightarrow> (case distro_family w of
            Debian \<Rightarrow> ''update-initramfs'' | Fedora \<Rightarrow> ''dracut'' | Arch \<Rightarrow> ''mkinitcpio'' | OtherDistro \<Rightarrow> ''unknown''))"

section \<open>The PAM mechanism\<close>

datatype pam_method_t = EditPamD | PamAuthUpdate | Authselect | PamManual

definition pam_method_label :: "pam_method_t \<Rightarrow> string" where
  "pam_method_label m = (case m of
      EditPamD \<Rightarrow> ''direct /etc/pam.d edits'' | PamAuthUpdate \<Rightarrow> ''pam-auth-update profile''
    | Authselect \<Rightarrow> ''authselect custom profile'' | PamManual \<Rightarrow> ''manual PAM edit'')"

definition pam_automated :: "pam_method_t \<Rightarrow> bool" where
  "pam_automated m \<longleftrightarrow> m = EditPamD"

definition pam_method_for :: "distro_family_t \<Rightarrow> pam_method_t" where
  "pam_method_for family = (case family of
      Arch \<Rightarrow> EditPamD | Debian \<Rightarrow> PamAuthUpdate | Fedora \<Rightarrow> Authselect | OtherDistro \<Rightarrow> PamManual)"

definition pam_method :: "'z host_scheme \<Rightarrow> pam_method_t" where
  "pam_method w = pam_method_for (distro_family w)"

section \<open>The security module\<close>

datatype security_module_t = SeLinux bool | AppArmor | NoModule

definition module_as_str :: "security_module_t \<Rightarrow> string" where
  "module_as_str m = (case m of
      SeLinux enforcing \<Rightarrow> (if enforcing then ''selinux (enforcing)'' else ''selinux (permissive)'')
    | AppArmor \<Rightarrow> ''apparmor'' | NoModule \<Rightarrow> ''none'')"

definition needs_selinux_policy :: "security_module_t \<Rightarrow> bool" where
  "needs_selinux_policy m = (case m of SeLinux _ \<Rightarrow> True | _ \<Rightarrow> False)"

definition classify_security_module :: "string option \<Rightarrow> string option \<Rightarrow> security_module_t" where
  "classify_security_module selinux_enforce apparmor_enabled =
     (case selinux_enforce of
        Some enforce \<Rightarrow> SeLinux (trim enforce = ''1'')
      | None \<Rightarrow>
          (if map_option trim apparmor_enabled = Some ''Y'' \<or> map_option trim apparmor_enabled = Some ''y''
           then AppArmor else NoModule))"

definition security_module :: "'z host_scheme \<Rightarrow> security_module_t" where
  "security_module w = classify_security_module
     (res_ok (fs_read_to_string ''/sys/fs/selinux/enforce'' w))
     (res_ok (fs_read_to_string ''/sys/module/apparmor/parameters/enabled'' w))"

definition selinux_module_name :: string where "selinux_module_name = ''linhello''"

definition selinux_te_candidates :: "string list" where
  "selinux_te_candidates =
     [''/usr/share/linhello/selinux/linhello.te'', ''/etc/linhello/selinux/linhello.te'']"

record selinux_policy_plan_t =
  sp_module_name :: string
  sp_source_te :: string
  sp_enforcing :: bool

definition selinux_commands :: "selinux_policy_plan_t \<Rightarrow> string \<Rightarrow> string list" where
  "selinux_commands p b =
     (let te = sp_source_te p; m = sp_module_name p in
      [''checkmodule -M -m -o '' @ b @ ''/'' @ m @ ''.mod '' @ te,
       ''semodule_package -o '' @ b @ ''/'' @ m @ ''.pp -m '' @ b @ ''/'' @ m @ ''.mod'',
       ''semodule -i '' @ b @ ''/'' @ m @ ''.pp'',
       ''systemctl restart linhellod''])"

text \<open>The first candidate that exists, else the first one.\<close>

definition first_existing :: "string list \<Rightarrow> 'z host_scheme \<Rightarrow> string" where
  "first_existing cs w = unwrap_or (cs ! 0) (find (\<lambda>p. path_exists p w) cs)"

definition selinux_policy_plan :: "'z host_scheme \<Rightarrow> selinux_policy_plan_t option" where
  "selinux_policy_plan w = (case security_module w of
      SeLinux enforcing \<Rightarrow> Some \<lparr>sp_module_name = selinux_module_name,
        sp_source_te = first_existing selinux_te_candidates w, sp_enforcing = enforcing\<rparr>
    | _ \<Rightarrow> None)"

section \<open>The reseal trigger\<close>

datatype reseal_trigger_t = PacmanHook | KernelInstall | KernelPostinst | TriggerManual

definition trigger_as_str :: "reseal_trigger_t \<Rightarrow> string" where
  "trigger_as_str t = (case t of
      PacmanHook \<Rightarrow> ''pacman hook'' | KernelInstall \<Rightarrow> ''kernel-install plugin''
    | KernelPostinst \<Rightarrow> ''kernel postinst.d script'' | TriggerManual \<Rightarrow> ''manual'')"

definition hook_path :: "reseal_trigger_t \<Rightarrow> string option" where
  "hook_path t = (case t of
      PacmanHook \<Rightarrow> Some ''/etc/pacman.d/hooks/linhello-reseal.hook''
    | KernelInstall \<Rightarrow> Some ''/etc/kernel/install.d/95-linhello.install''
    | KernelPostinst \<Rightarrow> Some ''/etc/kernel/postinst.d/zz-linhello''
    | TriggerManual \<Rightarrow> None)"

definition reseal_trigger_for :: "distro_family_t \<Rightarrow> reseal_trigger_t" where
  "reseal_trigger_for family = (case family of
      Arch \<Rightarrow> PacmanHook | Fedora \<Rightarrow> KernelInstall | Debian \<Rightarrow> KernelPostinst | OtherDistro \<Rightarrow> TriggerManual)"

definition reseal_trigger :: "'z host_scheme \<Rightarrow> reseal_trigger_t" where
  "reseal_trigger w = reseal_trigger_for (distro_family w)"

definition reseal_script_candidates :: "string list" where
  "reseal_script_candidates =
     [''/usr/local/bin/linhello-reseal-hook'', ''/usr/bin/linhello-reseal-hook'']"

record reseal_hook_plan_t =
  rh_trigger :: reseal_trigger_t
  rh_hook_path :: string
  rh_script_path :: string

definition reseal_hook_plan :: "'z host_scheme \<Rightarrow> reseal_hook_plan_t option" where
  "reseal_hook_plan w =
     (let trigger = reseal_trigger w in
      case hook_path trigger of
        None \<Rightarrow> None
      | Some p \<Rightarrow> Some \<lparr>rh_trigger = trigger, rh_hook_path = p,
          rh_script_path = first_existing reseal_script_candidates w\<rparr>)"

section \<open>Packages\<close>

record dep =
  dep_need :: string
  dep_runtime :: bool
  dep_arch :: string
  dep_debian :: string
  dep_fedora :: string

definition dep_package :: "dep \<Rightarrow> distro_family_t \<Rightarrow> string" where
  "dep_package d family = (case family of
      Arch \<Rightarrow> dep_arch d | Debian \<Rightarrow> dep_debian d | Fedora \<Rightarrow> dep_fedora d | OtherDistro \<Rightarrow> [])"

definition dependencies :: "dep list" where
  "dependencies =
     [\<lparr>dep_need = ''TPM 2.0 TSS runtime'', dep_runtime = True, dep_arch = ''tpm2-tss'', dep_debian = ''libtss2-tcti-device0'', dep_fedora = ''tpm2-tss''\<rparr>,
      \<lparr>dep_need = ''ONNX Runtime'', dep_runtime = True, dep_arch = ''onnxruntime'', dep_debian = [], dep_fedora = []\<rparr>,
      \<lparr>dep_need = ''PAM runtime'', dep_runtime = True, dep_arch = ''pam'', dep_debian = ''libpam0g'', dep_fedora = ''pam''\<rparr>,
      \<lparr>dep_need = ''V4L cameras'', dep_runtime = True, dep_arch = ''v4l-utils'', dep_debian = ''libv4l-0'', dep_fedora = ''libv4l''\<rparr>,
      \<lparr>dep_need = ''Rust toolchain'', dep_runtime = False, dep_arch = ''rust'', dep_debian = ''cargo'', dep_fedora = ''cargo''\<rparr>,
      \<lparr>dep_need = ''TPM TSS headers'', dep_runtime = False, dep_arch = ''tpm2-tss'', dep_debian = ''libtss2-dev'', dep_fedora = ''tpm2-tss-devel''\<rparr>,
      \<lparr>dep_need = ''OpenSSL headers'', dep_runtime = False, dep_arch = ''openssl'', dep_debian = ''libssl-dev'', dep_fedora = ''openssl-devel''\<rparr>,
      \<lparr>dep_need = ''clang/bindgen'', dep_runtime = False, dep_arch = ''clang'', dep_debian = ''libclang-dev'', dep_fedora = ''clang-devel''\<rparr>,
      \<lparr>dep_need = ''PAM headers'', dep_runtime = False, dep_arch = ''pam'', dep_debian = ''libpam0g-dev'', dep_fedora = ''pam-devel''\<rparr>]"

datatype package_format_t = Rpm | Deb | Pkg | UnknownFormat

definition format_as_str :: "package_format_t \<Rightarrow> string" where
  "format_as_str f = (case f of Rpm \<Rightarrow> ''rpm'' | Deb \<Rightarrow> ''deb'' | Pkg \<Rightarrow> ''pkg'' | UnknownFormat \<Rightarrow> ''unknown'')"

definition packaging_dir :: "package_format_t \<Rightarrow> string option" where
  "packaging_dir f = (case f of
      Rpm \<Rightarrow> Some ''packaging/fedora'' | Deb \<Rightarrow> Some ''packaging/debian'' | Pkg \<Rightarrow> Some ''packaging/arch''
    | UnknownFormat \<Rightarrow> None)"

definition build_tool :: "package_format_t \<Rightarrow> string option" where
  "build_tool f = (case f of
      Rpm \<Rightarrow> Some ''rpmbuild'' | Deb \<Rightarrow> Some ''dpkg-buildpackage'' | Pkg \<Rightarrow> Some ''makepkg''
    | UnknownFormat \<Rightarrow> None)"

definition package_format_for :: "distro_family_t \<Rightarrow> package_format_t" where
  "package_format_for family = (case family of
      Fedora \<Rightarrow> Rpm | Debian \<Rightarrow> Deb | Arch \<Rightarrow> Pkg | OtherDistro \<Rightarrow> UnknownFormat)"

definition package_format :: "'z host_scheme \<Rightarrow> package_format_t" where
  "package_format w = package_format_for (distro_family w)"

definition package_install_prefix :: "'z host_scheme \<Rightarrow> string option" where
  "package_install_prefix w = (case distro_family w of
      Arch \<Rightarrow> Some ''sudo pacman -S --needed'' | Debian \<Rightarrow> Some ''sudo apt install''
    | Fedora \<Rightarrow> Some ''sudo dnf install'' | OtherDistro \<Rightarrow> None)"

definition install_command :: "string list \<Rightarrow> 'z host_scheme \<Rightarrow> string option" where
  "install_command packages w = (case package_install_prefix w of
      None \<Rightarrow> None
    | Some pre \<Rightarrow>
        (let names = filter (\<lambda>p. p \<noteq> []) packages in
         if names = [] then None else Some (pre @ '' '' @ join_with '' '' names)))"

definition onnxruntime_install_hint :: "'z host_scheme \<Rightarrow> string" where
  "onnxruntime_install_hint w =
     (let pkg = unwrap_or [] (map_option (\<lambda>d. dep_package d (distro_family w))
            (find (\<lambda>d. dep_need d = ''ONNX Runtime'') dependencies))
      in case install_command [pkg] w of
           Some cmd \<Rightarrow> cmd
         | None \<Rightarrow> ''run `sudo linhello fetch-onnx` (installs the matching ONNX Runtime), or set ORT_DYLIB_PATH'')"

section \<open>The setup profile\<close>

record setup_profile_t =
  su_os_label :: string
  su_family :: distro_family_t
  su_security_module :: security_module_t
  su_pam_method :: pam_method_t
  su_reseal_trigger :: reseal_trigger_t
  su_initramfs_tool :: string
  su_pam_module_dir :: string
  su_onnxruntime :: "string option"

definition setup_profile :: "(string \<Rightarrow> string list option) \<Rightarrow> 'z host_scheme \<Rightarrow> setup_profile_t" where
  "setup_profile read_dir w =
     (let os = os_release w in
      \<lparr>su_os_label = os_label os, su_family = os_family os, su_security_module = security_module w,
       su_pam_method = pam_method w, su_reseal_trigger = reseal_trigger w,
       su_initramfs_tool = initramfs_tool w, su_pam_module_dir = pam_module_dir w,
       su_onnxruntime = onnxruntime_dylib read_dir w\<rparr>)"

section \<open>Properties\<close>

lemma distro_family_os: "distro_family w = os_family (os_release w)"
  by (simp add: distro_family_def classify_os_release_def os_family_def os_release_def Let_def)

text \<open>Plans exist exactly where their mechanism does.\<close>

lemma selinux_plan_iff:
  "selinux_policy_plan w \<noteq> None \<longleftrightarrow> needs_selinux_policy (security_module w)"
  by (simp add: selinux_policy_plan_def needs_selinux_policy_def split: security_module_t.split)

lemma security_module_SeLinux:
  "needs_selinux_policy (security_module w) \<longleftrightarrow> (\<exists>t. fs_read_to_string ''/sys/fs/selinux/enforce'' w = Inr t)"
  by (cases "fs_read_to_string ''/sys/fs/selinux/enforce'' w")
    (auto simp: security_module_def classify_security_module_def needs_selinux_policy_def)

lemma reseal_plan_iff: "reseal_hook_plan w \<noteq> None \<longleftrightarrow> distro_family w \<noteq> OtherDistro"
  by (cases "distro_family w")
    (simp_all add: reseal_hook_plan_def reseal_trigger_def reseal_trigger_for_def hook_path_def Let_def)

lemma hook_path_inj: "hook_path s = hook_path t \<longleftrightarrow> s = t"
  by (simp add: hook_path_def split: reseal_trigger_t.splits)

lemma install_prefix_iff: "package_install_prefix w \<noteq> None \<longleftrightarrow> distro_family w \<noteq> OtherDistro"
  by (simp add: package_install_prefix_def split: distro_family_t.split)

lemma first_existing_mem: "cs \<noteq> [] \<Longrightarrow> first_existing cs w \<in> set cs"
proof (cases "find (\<lambda>p. path_exists p w) cs")
  case (Some p)
  then have "p \<in> set cs" by (auto simp: find_Some_iff)
  with Some show ?thesis by (simp add: first_existing_def)
qed (simp add: first_existing_def)

text \<open>The library that is loaded exists, or a versioned file beside a candidate was listed.\<close>

lemma set_insert_path [simp]: "set (insert_path x ys) = insert x (set ys)"
  by (induction ys) auto

lemma set_sort_paths [simp]: "set (sort_paths xs) = set xs"
  by (induction xs) (auto simp: sort_paths_def)

lemma versioned_sibling_listed:
  assumes "versioned_sibling read_dir path = Some v"
  shows "\<exists>dir names n. parent path = Some dir \<and> read_dir dir = Some names \<and> n \<in> set names \<and>
    starts_with n (file_name path @ ''.'') \<and> v = path_join dir n"
proof -
  from assms obtain dir names where d: "parent path = Some dir" "read_dir dir = Some names"
    by (auto simp: versioned_sibling_def Let_def split: option.splits)
  let ?hits = "sort_paths (filter (\<lambda>n. utf8_valid n \<and> starts_with n (file_name path @ ''.'')) names)"
  from assms d have "?hits \<noteq> []" "v = path_join dir (last ?hits)"
    by (auto simp: versioned_sibling_def Let_def split: if_splits)
  then show ?thesis using d last_in_set [of ?hits] by auto
qed

lemma onnxruntime_scan_found:
  "onnxruntime_scan read_dir cs w = Some v \<Longrightarrow>
   \<exists>c\<in>set cs. (v = c \<and> path_exists c w) \<or> versioned_sibling read_dir c = Some v"
  by (induction cs) (auto split: if_splits option.splits)

end
