(* ===== verification/PamWire.thy ===== *)
theory PamWire
  imports Platform
begin

text \<open>
  Wiring face login into PAM, crates/linhello-cli/src/pamwire.rs: the edits of a service file, the
  overrides made from vendor copies, and the Debian and Fedora mechanisms. The external tools
  (\<open>pam-auth-update\<close>, \<open>authselect\<close>) are the parameter \<open>shell\<close>: a command gets its
  arguments and the host, may change the host, and reports whether it could be run, its exit
  status and its output. Errors are the texts of \<open>anyhow\<close>.
\<close>

record 'w shell =
  cmd_output :: "string \<Rightarrow> string list \<Rightarrow> ('w, string, bool \<times> bytes \<times> bytes) act"

section \<open>Constants\<close>

definition pam_module :: string where "pam_module = ''pam_linhello.so''"
definition backup_suffix :: string where "backup_suffix = ''.pre-linhello''"
definition debian_profile_path :: string where "debian_profile_path = ''/usr/share/pam-configs/linhello''"
definition fedora_custom_dir :: string where "fedora_custom_dir = ''/etc/authselect/custom/linhello''"
definition fedora_base_marker :: string where "fedora_base_marker = ''/etc/linhello/authselect-base''"
definition greeter_stanza :: string where
  "greeter_stanza = ''auth       [success=1 default=ignore]   pam_linhello.so''"
definition sufficient_stanza :: string where
  "sufficient_stanza = ''auth       sufficient   pam_linhello.so''"
definition wait_stanza :: string where
  "wait_stanza = ''auth       sufficient   pam_linhello.so wait''"
definition greeters :: "string list" where
  "greeters = [''/etc/pam.d/gdm-password'', ''/etc/pam.d/sddm'', ''/etc/pam.d/lightdm'']"
definition kde_lockscreen :: string where "kde_lockscreen = ''/etc/pam.d/kde''"
definition kde_fp_lockscreen :: string where "kde_fp_lockscreen = ''/etc/pam.d/kde-fingerprint''"
definition kde_vendor :: string where "kde_vendor = ''/usr/lib/pam.d/kde''"
definition kde_fp_vendor :: string where "kde_fp_vendor = ''/usr/lib/pam.d/kde-fingerprint''"
definition created_prefix :: string where "created_prefix = ''# linhello: created from ''"
definition sudo_file :: string where "sudo_file = ''/etc/pam.d/sudo''"
definition plasmalogin_etc :: string where "plasmalogin_etc = ''/etc/pam.d/plasmalogin''"
definition plasmalogin_vendor :: string where "plasmalogin_vendor = ''/usr/lib/pam.d/plasmalogin''"

record service_status =
  st_path :: string
  st_wired :: bool

datatype change =
    WouldEdit string | Edited string | Created string | AlreadyWired string
  | WouldRemove string | Removed string | NotWired string | ChangeManual string

definition describe :: "change \<Rightarrow> string" where
  "describe c = (case c of
      WouldEdit p \<Rightarrow> ''would wire  '' @ p
    | Edited p \<Rightarrow> ''wired       '' @ p @ '' (backup '' @ p @ backup_suffix @ '')''
    | Created p \<Rightarrow> ''wired       '' @ p @ '' (created from the /usr/lib/pam.d vendor copy)''
    | AlreadyWired p \<Rightarrow> ''already     '' @ p
    | WouldRemove p \<Rightarrow> ''would clear '' @ p
    | Removed p \<Rightarrow> ''cleared     '' @ p
    | NotWired p \<Rightarrow> ''not wired   '' @ p
    | ChangeManual s \<Rightarrow> s)"

section \<open>The text of a service file\<close>

definition active_module_line :: "string \<Rightarrow> bool" where
  "active_module_line l = (let t = trim_start l in \<not> starts_with t ''#'' \<and> contains_str t pam_module)"

definition content_has_module :: "string \<Rightarrow> bool" where
  "content_has_module content = list_ex active_module_line (str_lines content)"

definition is_auth_directive :: "string \<Rightarrow> bool" where
  "is_auth_directive line =
     (let t = trim_start line in
      if starts_with t ''#'' then False
      else first_token (unwrap_or t (strip_prefix t ''-'')) = Some ''auth'')"

fun insert_lines :: "string \<Rightarrow> string list \<Rightarrow> string list" where
  "insert_lines stanza [] = [stanza]"
| "insert_lines stanza (l # ls) =
     (if is_auth_directive l then stanza # l # ls else l # insert_lines stanza ls)"

definition insert_first_auth :: "string \<Rightarrow> string \<Rightarrow> string \<times> bool" where
  "insert_first_auth content stanza =
     (if content_has_module content then (content, False)
      else (join_with [nl] (insert_lines stanza (str_lines content)) @ [nl], True))"

definition remove_module :: "string \<Rightarrow> string \<times> bool" where
  "remove_module content =
     (let kept = filter (\<lambda>l. \<not> active_module_line l) (str_lines content) in
      if content_has_module content then (join_with [nl] kept @ [nl], True)
      else (content, False))"

definition build_override :: "string \<Rightarrow> string \<Rightarrow> string \<Rightarrow> string" where
  "build_override vendor_path vendor_content stanza =
     created_prefix @ vendor_path @ '' '' @ em_dash @ '' delete this file to revert to the vendor copy'' @ [nl] @
     fst (insert_first_auth vendor_content stanza)"

definition is_created_override :: "string \<Rightarrow> bool" where
  "is_created_override content = starts_with content created_prefix"

section \<open>Editing files\<close>

definition fs_err :: "string \<Rightarrow> string \<Rightarrow> ('w, io_error, 'a) act \<Rightarrow> ('w, string, 'a) act" where
  "fs_err verb path m = amap_err (\<lambda>e. verb @ '' '' @ path @ '': '' @ io_to_string e) m"

definition read_text :: "string \<Rightarrow> ('z host_scheme, string, string) act" where
  "read_text path = fs_err ''reading'' path (\<lambda>w. (of_result (fs_read_to_string path w), w))"

text \<open>\<open>std::fs::copy\<close>: contents and permission bits.\<close>

definition fs_copy :: "string \<Rightarrow> string \<Rightarrow> ('z host_scheme, io_error, unit) act" where
  "fs_copy p q w = (case fs_read p w of
      Inl e \<Rightarrow> (Err e, w)
    | Inr b \<Rightarrow> (case fs_write q b w of
          (Ok _, v) \<Rightarrow> (Ok (), v\<lparr>modes := (modes v)(q := modes w p)\<rparr>)
        | (Err e, v) \<Rightarrow> (Err e, v)
        | (Panic s, v) \<Rightarrow> (Panic s, v)))"

definition backup_path :: "string \<Rightarrow> string" where
  "backup_path path = path @ backup_suffix"

definition backup :: "string \<Rightarrow> ('z host_scheme, string, unit) act" where
  "backup path =
     abind (query (path_exists (backup_path path))) (\<lambda>there.
     if \<not> there then fs_err ''backing up'' path (fs_copy path (backup_path path)) else ret ())"

definition tmp_path :: "string \<Rightarrow> string" where
  "tmp_path path =
     (let dir = unwrap_or ''.'' (parent path);
          name = file_name path;
          fname = (if name = [] \<or> \<not> utf8_valid name then ''pam'' else name)
      in path_join dir (''.'' @ fname @ ''.linhello.tmp''))"

definition keep_mode :: "string \<Rightarrow> string \<Rightarrow> ('z host_scheme, string, unit) act" where
  "keep_mode path tmp =
     abind (query (\<lambda>w. if path_exists path w then modes w path else None)) (\<lambda>meta.
     case meta of None \<Rightarrow> ret () | Some m \<Rightarrow> ignore (fs_set_permissions tmp m))"

definition write_atomic :: "string \<Rightarrow> string \<Rightarrow> ('z host_scheme, string, unit) act" where
  "write_atomic path contents =
     (let tmp = tmp_path path in
      abind (fs_err ''writing temp'' tmp (fs_write tmp contents)) (\<lambda>_.
      abind (keep_mode path tmp) (\<lambda>_.
      abind (try_act (fs_rename tmp path)) (\<lambda>r.
      case r of
        Inr _ \<Rightarrow> ret ()
      | Inl e \<Rightarrow> abind (ignore (fs_remove_file tmp)) (\<lambda>_.
          fail (''renaming '' @ tmp @ '' into '' @ path @ '': '' @ io_to_string e))))))"

definition edit_in :: "string \<Rightarrow> string \<Rightarrow> bool \<Rightarrow> ('z host_scheme, string, change) act" where
  "edit_in path stanza dry_run =
     abind (read_text path) (\<lambda>content.
     case insert_first_auth content stanza of (new, changed) \<Rightarrow>
       if \<not> changed then ret (AlreadyWired path)
       else if dry_run then ret (WouldEdit path)
       else abind (backup path) (\<lambda>_.
            abind (write_atomic path new) (\<lambda>_. ret (Edited path))))"

definition remove_in :: "string \<Rightarrow> bool \<Rightarrow> ('z host_scheme, string, change) act" where
  "remove_in path dry_run =
     abind (query (path_exists path)) (\<lambda>present.
     if \<not> present then ret (NotWired path)
     else
     abind (read_text path) (\<lambda>content.
     if is_created_override content then
       (if dry_run then ret (WouldRemove path)
        else abind (fs_err ''removing'' path (fs_remove_file path)) (\<lambda>_. ret (Removed path)))
     else (case remove_module content of (new, changed) \<Rightarrow>
       if \<not> changed then ret (NotWired path)
       else if dry_run then ret (WouldRemove path)
       else abind (backup path) (\<lambda>_.
            abind (write_atomic path new) (\<lambda>_. ret (Removed path))))))"

definition create_override_from ::
  "string \<Rightarrow> string \<Rightarrow> string \<Rightarrow> bool \<Rightarrow> ('z host_scheme, string, change) act" where
  "create_override_from path vendor stanza dry_run =
     (if dry_run then ret (WouldEdit path)
      else
      abind (read_text vendor) (\<lambda>vendor_content.
      abind (query (path_exists path)) (\<lambda>present.
      abind (if present then backup path else ret ()) (\<lambda>_.
      abind (write_atomic path (build_override vendor vendor_content stanza)) (\<lambda>_.
      ret (Created path))))))"

record override_plan =
  op_etc :: string
  op_vendor :: string
  op_stanza :: string

definition lockscreen_plan :: "'z host_scheme \<Rightarrow> override_plan option" where
  "lockscreen_plan w =
     map_option (\<lambda>(etc, vendor, stanza). \<lparr>op_etc = etc, op_vendor = vendor, op_stanza = stanza\<rparr>)
       (find (\<lambda>(etc, vendor, stanza). path_exists etc w \<or> path_exists vendor w)
         [(kde_fp_lockscreen, kde_fp_vendor, wait_stanza), (kde_lockscreen, kde_vendor, sufficient_stanza)])"

definition plasmalogin_greeter_plan :: "'z host_scheme \<Rightarrow> override_plan option" where
  "plasmalogin_greeter_plan w =
     (if path_exists plasmalogin_etc w \<or> path_exists plasmalogin_vendor w
      then Some \<lparr>op_etc = plasmalogin_etc, op_vendor = plasmalogin_vendor, op_stanza = sufficient_stanza\<rparr>
      else None)"

definition apply_override :: "override_plan \<Rightarrow> bool \<Rightarrow> ('z host_scheme, string, change) act" where
  "apply_override p dry_run =
     abind (query (path_exists (op_etc p))) (\<lambda>present.
     if present then edit_in (op_etc p) (op_stanza p) dry_run
     else create_override_from (op_etc p) (op_vendor p) (op_stanza p) dry_run)"

section \<open>External commands\<close>

text \<open>\<open>String::from_utf8_lossy\<close>: each maximal invalid part becomes U+FFFD.\<close>

definition replacement :: string where "replacement = [CHR 0xEF, CHR 0xBF, CHR 0xBD]"

definition second_of_3 :: "char \<Rightarrow> char \<Rightarrow> bool" where
  "second_of_3 a b \<longleftrightarrow> (let n = (of_char a :: nat); m = (of_char b :: nat) in
     224 \<le> n \<and> n \<le> 239 \<and> cont_byte b \<and> (n = 224 \<longrightarrow> 160 \<le> m) \<and> (n = 237 \<longrightarrow> m \<le> 159))"

definition second_of_4 :: "char \<Rightarrow> char \<Rightarrow> bool" where
  "second_of_4 a b \<longleftrightarrow> (let n = (of_char a :: nat); m = (of_char b :: nat) in
     240 \<le> n \<and> n \<le> 244 \<and> cont_byte b \<and> (n = 240 \<longrightarrow> 144 \<le> m) \<and> (n = 244 \<longrightarrow> m \<le> 143))"

fun utf8_lossy :: "bytes \<Rightarrow> string" where
  "utf8_lossy [] = []"
| "utf8_lossy (a # s) =
     (if (of_char a :: nat) < 128 then a # utf8_lossy s
      else (case s of [] \<Rightarrow> replacement | b # s2 \<Rightarrow>
        if utf8_2 a b then a # b # utf8_lossy s2
        else if second_of_3 a b then
          (case s2 of [] \<Rightarrow> replacement | c # s3 \<Rightarrow>
            if cont_byte c then a # b # c # utf8_lossy s3 else replacement @ utf8_lossy s2)
        else if second_of_4 a b then
          (case s2 of [] \<Rightarrow> replacement | c # s3 \<Rightarrow>
            if cont_byte c then
              (case s3 of [] \<Rightarrow> replacement | d # s4 \<Rightarrow>
                if cont_byte d then a # b # c # d # utf8_lossy s4 else replacement @ utf8_lossy s3)
            else replacement @ utf8_lossy s2)
        else replacement @ utf8_lossy s))"

definition run :: "('z host_scheme) shell \<Rightarrow> string \<Rightarrow> string list \<Rightarrow> ('z host_scheme, string, unit) act" where
  "run S cmd args =
     abind (amap_err (\<lambda>e. ''running `'' @ cmd @ ''`: '' @ e @ '' (is it installed?)'') (cmd_output S cmd args)) (\<lambda>out.
     case out of (success, stdout, stderr) \<Rightarrow>
       if \<not> success
       then fail (''`'' @ cmd @ '' '' @ join_with '' '' args @ ''` failed: '' @ trim (utf8_lossy stderr))
       else ret ())"

definition run_capture ::
  "('z host_scheme) shell \<Rightarrow> string \<Rightarrow> string list \<Rightarrow> ('z host_scheme, string, string option) act" where
  "run_capture S cmd args =
     abind (try_act (cmd_output S cmd args)) (\<lambda>r.
     ret (case r of Inl _ \<Rightarrow> None | Inr (_, stdout, _) \<Rightarrow> Some (utf8_lossy stdout)))"

section \<open>Debian\<close>

definition debian_profile :: string where
  "debian_profile =
     ''Name: LinuxHello face authentication'' @ [nl] @
     ''Default: yes'' @ [nl] @
     ''Priority: 900'' @ [nl] @
     ''Auth-Type: Primary'' @ [nl] @
     ''Auth:'' @ [nl] @
     [CHR 0x09] @ ''[success=end default=ignore]'' @ [CHR 0x09] @ ''pam_linhello.so'' @ [nl] @
     ''Auth-Initial:'' @ [nl] @
     [CHR 0x09] @ ''[success=end default=ignore]'' @ [CHR 0x09] @ ''pam_linhello.so'' @ [nl]"

definition debian_enable :: "('z host_scheme) shell \<Rightarrow> bool \<Rightarrow> ('z host_scheme, string, change list) act" where
  "debian_enable S dry_run =
     (if dry_run
      then ret [WouldEdit debian_profile_path, ChangeManual ''then run: pam-auth-update --package'']
      else
      abind (fs_err ''writing'' debian_profile_path (fs_write debian_profile_path debian_profile)) (\<lambda>_.
      abind (run S ''pam-auth-update'' [''--package'']) (\<lambda>_.
      ret [Edited debian_profile_path,
           ChangeManual (''ran pam-auth-update '' @ em_dash @ '' face login is now in common-auth.''),
           ChangeManual ''note: keyring-unlock-on-face may need extra wiring on some GNOME setups; your password fallback is intact.'',
           ChangeManual ''revert with: linhello pam disable''])))"

definition debian_disable :: "('z host_scheme) shell \<Rightarrow> bool \<Rightarrow> ('z host_scheme, string, change list) act" where
  "debian_disable S dry_run =
     (if dry_run then ret [WouldRemove debian_profile_path]
      else
      abind (query (path_exists debian_profile_path)) (\<lambda>present.
      abind (if present then fs_err ''removing'' debian_profile_path (fs_remove_file debian_profile_path)
             else ret ()) (\<lambda>_.
      abind (run S ''pam-auth-update'' [''--package'']) (\<lambda>_.
      ret [Removed debian_profile_path]))))"

section \<open>Fedora\<close>

definition authselect_line :: "string option \<times> string list \<times> bool \<Rightarrow> string \<Rightarrow> string option \<times> string list \<times> bool" where
  "authselect_line st line =
     (case st of (profile, features, in_features) \<Rightarrow>
      let t = trim line in
      case strip_prefix t ''Profile ID:'' of
        Some rest \<Rightarrow> (Some (trim rest), features, in_features)
      | None \<Rightarrow>
          if starts_with t ''Enabled features:'' then (profile, features, True)
          else if in_features then
            (case strip_prefix t ''-'' of
               Some f0 \<Rightarrow> (let f = trim f0 in
                 if f \<noteq> [] then (profile, features @ [f], True) else (profile, features, True))
             | None \<Rightarrow> (profile, features, True))
          else (profile, features, False))"

definition parse_authselect_current :: "string \<Rightarrow> string option \<times> string list" where
  "parse_authselect_current out =
     (case foldl authselect_line (None, [], False) (str_lines out) of (profile, features, _) \<Rightarrow> (profile, features))"

definition store_authselect_base :: "string \<Rightarrow> ('z host_scheme, string, unit) act" where
  "store_authselect_base base =
     abind (case parent fedora_base_marker of None \<Rightarrow> ret () | Some d \<Rightarrow> ignore (fs_create_dir_all d)) (\<lambda>_.
     fs_err ''writing'' fedora_base_marker (fs_write fedora_base_marker (base @ [nl])))"

definition load_authselect_base :: "'z host_scheme \<Rightarrow> string" where
  "load_authselect_base w =
     unwrap_or ''sssd'' (opt_filter (\<lambda>s. s \<noteq> []) (map_option trim (res_ok (fs_read_to_string fedora_base_marker w))))"

fun fedora_templates :: "string list \<Rightarrow> ('z host_scheme, string, change list) act" where
  "fedora_templates [] = ret []"
| "fedora_templates (tmpl # ts) =
     (let p = path_join fedora_custom_dir tmpl in
      abind (query (path_exists p)) (\<lambda>present.
      if \<not> present then fedora_templates ts
      else
      abind (read_text p) (\<lambda>content.
      case insert_first_auth content sufficient_stanza of (new, changed) \<Rightarrow>
        abind (if changed then abind (fs_err ''writing'' p (fs_write p new)) (\<lambda>_. ret (Edited p))
               else ret (AlreadyWired p)) (\<lambda>c.
        abind (fedora_templates ts) (\<lambda>cs. ret (c # cs))))))"

definition fedora_enable :: "('z host_scheme) shell \<Rightarrow> bool \<Rightarrow> ('z host_scheme, string, change list) act" where
  "fedora_enable S dry_run =
     abind (run_capture S ''authselect'' [''current'']) (\<lambda>current.
     case parse_authselect_current (unwrap_or [] current) of (base0, features) \<Rightarrow>
     let base = unwrap_or ''sssd'' base0 in
     if dry_run then
       ret [ChangeManual (''would base a custom/linhello profile on '' @ quoted base),
            ChangeManual (''would inject `'' @ sufficient_stanza @ ''` into its system-auth & password-auth''),
            ChangeManual (''then run: authselect select custom/linhello'' @ concat (map (\<lambda>f. '' '' @ f) features) @ '' --force'')]
     else
     abind (query (path_exists fedora_custom_dir)) (\<lambda>present.
     abind (if \<not> present then run S ''authselect'' [''create-profile'', ''linhello'', ''--base-on'', base] else ret ()) (\<lambda>_.
     abind (fedora_templates [''system-auth'', ''password-auth'']) (\<lambda>changes.
     abind (store_authselect_base base) (\<lambda>_.
     abind (run S ''authselect'' ([''select'', ''custom/linhello''] @ features @ [''--force''])) (\<lambda>_.
     ret (changes @
       [ChangeManual (''activated custom/linhello (was '' @ quoted base @ '') '' @ em_dash @ '' face login is live; password still works''),
        ChangeManual ''revert any time with:  linhello pam disable''])))))))"

definition fedora_disable :: "('z host_scheme) shell \<Rightarrow> bool \<Rightarrow> ('z host_scheme, string, change list) act" where
  "fedora_disable S dry_run =
     (if dry_run then ret [WouldRemove fedora_custom_dir]
      else
      abind (run_capture S ''authselect'' [''current'']) (\<lambda>current.
      case parse_authselect_current (unwrap_or [] current) of (active, features) \<Rightarrow>
      abind (if active = Some ''custom/linhello'' then
               abind (query load_authselect_base) (\<lambda>base.
               abind (run S ''authselect'' ([''select'', base] @ features @ [''--force''])) (\<lambda>_.
               ret [ChangeManual (''switched back to '' @ quoted base)]))
             else ret []) (\<lambda>changes.
      abind (query (path_exists fedora_custom_dir)) (\<lambda>present.
      abind (if present then
               abind (fs_err ''removing'' fedora_custom_dir (fs_remove_dir_all fedora_custom_dir)) (\<lambda>_.
               ret (changes @ [Removed fedora_custom_dir]))
             else ret (changes @ [NotWired fedora_custom_dir])) (\<lambda>changes.
      abind (ignore (fs_remove_file fedora_base_marker)) (\<lambda>_. ret changes))))))"

section \<open>Status, enable and disable\<close>

definition inspect_files :: "'z host_scheme \<Rightarrow> string list" where
  "inspect_files w =
     (case distro_family w of
        Debian \<Rightarrow> filter (\<lambda>p. path_exists p w) [''/etc/pam.d/common-auth'']
      | Fedora \<Rightarrow> filter (\<lambda>p. path_exists p w) [''/etc/pam.d/system-auth'', ''/etc/pam.d/password-auth'']
      | _ \<Rightarrow> filter (\<lambda>p. path_exists p w) greeters @
          (case plasmalogin_greeter_plan w of None \<Rightarrow> [] | Some p \<Rightarrow> [op_etc p]) @
          (if path_exists sudo_file w then [sudo_file] else [])) @
     (case lockscreen_plan w of None \<Rightarrow> [] | Some p \<Rightarrow> [op_etc p])"

definition pam_status :: "'z host_scheme \<Rightarrow> service_status list" where
  "pam_status w = map (\<lambda>path.
     \<lparr>st_path = path, st_wired = (case fs_read_to_string path w of Inr c \<Rightarrow> content_has_module c | Inl _ \<Rightarrow> False)\<rparr>)
     (inspect_files w)"

text \<open>The filter of the loop is evaluated as the loop runs.\<close>

fun edit_existing :: "string list \<Rightarrow> string \<Rightarrow> bool \<Rightarrow> ('z host_scheme, string, change list) act" where
  "edit_existing [] stanza dry_run = ret []"
| "edit_existing (g # gs) stanza dry_run =
     abind (query (path_exists g)) (\<lambda>present.
     if \<not> present then edit_existing gs stanza dry_run
     else abind (edit_in g stanza dry_run) (\<lambda>c.
          abind (edit_existing gs stanza dry_run) (\<lambda>cs. ret (c # cs))))"

definition apply_plan ::
  "('z host_scheme \<Rightarrow> override_plan option) \<Rightarrow> bool \<Rightarrow> ('z host_scheme, string, change list) act" where
  "apply_plan find_plan dry_run =
     abind (query find_plan) (\<lambda>p.
     case p of None \<Rightarrow> ret [] | Some pl \<Rightarrow> abind (apply_override pl dry_run) (\<lambda>c. ret [c]))"

definition enable_services :: "bool \<Rightarrow> bool \<Rightarrow> ('z host_scheme, string, change list) act" where
  "enable_services include_sudo dry_run =
     abind (edit_existing greeters greeter_stanza dry_run) (\<lambda>greeter_changes.
     abind (apply_plan plasmalogin_greeter_plan dry_run) (\<lambda>plasma_changes.
     abind (if include_sudo then edit_existing [sudo_file] sufficient_stanza dry_run else ret []) (\<lambda>sudo_changes.
     ret (greeter_changes @ plasma_changes @ sudo_changes))))"

definition enable :: "('z host_scheme) shell \<Rightarrow> bool \<Rightarrow> bool \<Rightarrow> ('z host_scheme, string, change list) act" where
  "enable S include_sudo dry_run =
     abind (query distro_family) (\<lambda>family.
     abind (case family of
         Debian \<Rightarrow> debian_enable S dry_run
       | Fedora \<Rightarrow> fedora_enable S dry_run
       | _ \<Rightarrow> enable_services include_sudo dry_run) (\<lambda>changes.
     abind (apply_plan lockscreen_plan dry_run) (\<lambda>lock_changes.
     ret (changes @ lock_changes))))"

definition existing_targets :: "bool \<Rightarrow> 'z host_scheme \<Rightarrow> string list" where
  "existing_targets include_sudo w =
     filter (\<lambda>p. path_exists p w) greeters @
     (if include_sudo \<and> path_exists sudo_file w then [sudo_file] else [])"

fun remove_all :: "string list \<Rightarrow> bool \<Rightarrow> ('z host_scheme, string, change list) act" where
  "remove_all [] dry_run = ret []"
| "remove_all (p # ps) dry_run =
     abind (remove_in p dry_run) (\<lambda>c. abind (remove_all ps dry_run) (\<lambda>cs. ret (c # cs)))"

fun remove_existing :: "string list \<Rightarrow> bool \<Rightarrow> ('z host_scheme, string, change list) act" where
  "remove_existing [] dry_run = ret []"
| "remove_existing (p # ps) dry_run =
     abind (query (path_exists p)) (\<lambda>present.
     if \<not> present then remove_existing ps dry_run
     else abind (remove_in p dry_run) (\<lambda>c.
          abind (remove_existing ps dry_run) (\<lambda>cs. ret (c # cs))))"

definition disable :: "('z host_scheme) shell \<Rightarrow> bool \<Rightarrow> ('z host_scheme, string, change list) act" where
  "disable S dry_run =
     abind (query distro_family) (\<lambda>family.
     abind (case family of
         Debian \<Rightarrow> debian_disable S dry_run
       | Fedora \<Rightarrow> fedora_disable S dry_run
       | _ \<Rightarrow>
           abind (query (existing_targets True)) (\<lambda>targets.
           abind (query (path_exists plasmalogin_etc)) (\<lambda>plasma.
           remove_all (targets @ (if plasma then [plasmalogin_etc] else [])) dry_run))) (\<lambda>changes.
     abind (remove_existing [kde_fp_lockscreen, kde_lockscreen] dry_run) (\<lambda>lock_changes.
     ret (changes @ lock_changes))))"

end
