(* ===== verification/PamProps.thy ===== *)
theory PamProps
  imports PamWire
begin

text \<open>
  What the PAM edits do: where the line goes, that inserting is idempotent and removing undoes it,
  that a dry run changes nothing, and which files can change.
\<close>

section \<open>Lines\<close>

lemma lines_from_unlines:
  "\<forall>l\<in>set ls. nl \<notin> set l \<Longrightarrow> str_lines (unlines ls) = map strip_cr ls"
  by (induction ls) (simp_all add: str_lines_Cons)

lemma str_lines_join: "\<forall>l\<in>set ls. nl \<notin> set l \<Longrightarrow> str_lines (join_with [nl] ls @ [nl]) = (if ls = [] then [[]] else map strip_cr ls)"
proof (cases "ls = []")
  case True
  have "str_lines ([] @ nl # []) = strip_cr [] # str_lines []" by (rule str_lines_Cons) simp
  with True show ?thesis by (simp add: strip_cr_def)
qed (simp add: join_nl_unlines lines_from_unlines)

lemma strip_cr_prefix: "prefix (strip_cr l) l"
  by (simp add: strip_cr_def prefixeq_butlast)

text \<open>A carriage return at the end of a line decides nothing.\<close>

lemma head_token_snoc:
  assumes "u \<noteq> []" and "\<forall>t\<in>set ts. last t = c \<longrightarrow> length t \<le> 1"
  shows "head_token ts (u @ [c]) = head_token ts u"
proof -
  have "t \<noteq> u @ [c]" if "t \<in> set ts" for t
    using assms that by (cases u) auto
  then have "prefix t (u @ [c]) \<longleftrightarrow> prefix t u" if "t \<in> set ts" for t
    using that by (simp add: prefix_snoc)
  then show ?thesis unfolding head_token_def by (intro find_cong) auto
qed

lemma strip_tokens_snoc:
  assumes "\<forall>t\<in>set ts. last t = c \<longrightarrow> length t \<le> 1"
  shows "strip_tokens ts u \<noteq> [] \<Longrightarrow> strip_tokens ts (u @ [c]) = strip_tokens ts u @ [c]"
  using assms
proof (induction ts u rule: strip_tokens.induct)
  case (1 ts u)
  have ne: "u \<noteq> []"
    using "1.prems"(1) suffix_strip_tokens [of ts u] by auto
  note h = head_token_snoc [OF ne "1.prems"(2)]
  show ?case
  proof (cases "head_token ts u")
    case None
    with h show ?thesis by (simp add: strip_tokens_id)
  next
    case (Some t)
    then have "prefix t u" using head_token_SomeD by blast
    then have "drop (length t) (u @ [c]) = drop (length t) u @ [c]"
      by (simp add: prefix_length_le)
    with 1 Some h show ?thesis
      by (simp add: strip_tokens.simps [of ts u] strip_tokens.simps [of ts "u @ [c]"])
  qed
qed

lemma trim_start_cr: "trim_start u \<noteq> [] \<Longrightarrow> trim_start (u @ [cr]) = trim_start u @ [cr]"
  unfolding trim_start_def by (rule strip_tokens_snoc) (auto simp: ws_tokens_def)

lemma active_strip_cr:
  assumes "active_module_line (strip_cr l)"
  shows "active_module_line l"
proof (cases "l \<noteq> [] \<and> last l = cr")
  case True
  then obtain u where l: "l = u @ [cr]" by (metis append_butlast_last_id)
  with assms have u: "\<not> starts_with (trim_start u) ''#''" "sublist pam_module (trim_start u)"
    by (simp_all add: active_module_line_def strip_cr_def Let_def contains_str_iff)
  then have "trim_start u \<noteq> []" by (auto simp: pam_module_def)
  then have "trim_start l = trim_start u @ [cr]" "starts_with (trim_start u @ [cr]) ''#'' = starts_with (trim_start u) ''#''"
    unfolding l by (auto simp: trim_start_cr starts_with_def neq_Nil_conv)
  moreover have "sublist pam_module (trim_start u @ [cr])"
    using u(2) by (metis sublist_append_rightI sublist_order.order.trans)
  ultimately show ?thesis
    using u(1) by (simp add: active_module_line_def Let_def contains_str_iff)
qed (use assms in \<open>auto simp: strip_cr_def\<close>)

section \<open>Inserting\<close>

lemma insert_lines_split:
  "\<exists>before after. ls = before @ after \<and> insert_lines stanza ls = before @ stanza # after \<and>
     (\<forall>l\<in>set before. \<not> is_auth_directive l) \<and> (after = [] \<or> is_auth_directive (hd after))"
proof (induction ls)
  case (Cons l ls)
  then obtain before after where ih: "ls = before @ after" "insert_lines stanza ls = before @ stanza # after"
    "\<forall>l\<in>set before. \<not> is_auth_directive l" "after = [] \<or> is_auth_directive (hd after)"
    by blast
  show ?case
  proof (cases "is_auth_directive l")
    case True then show ?thesis by (intro exI [of _ "[]"] exI [of _ "l # ls"]) simp
  next
    case False with ih show ?thesis by (intro exI [of _ "l # before"] exI [of _ after]) simp
  qed
qed simp

lemma set_insert_lines: "set (insert_lines stanza ls) = insert stanza (set ls)"
  by (induction ls) auto

lemma filter_insert_lines:
  "\<not> P stanza \<Longrightarrow> filter P (insert_lines stanza ls) = filter P ls"
  by (induction ls) auto

lemma insert_lines_ne [simp]: "insert_lines stanza ls \<noteq> []"
  by (cases ls) auto

text \<open>A line that may be inserted: one line that refers to the module.\<close>

definition module_stanza :: "string \<Rightarrow> bool" where
  "module_stanza s \<longleftrightarrow> clean_line s \<and> active_module_line s"

lemma stanzas: "module_stanza greeter_stanza" "module_stanza sufficient_stanza" "module_stanza wait_stanza"
  by code_simp+

lemma str_lines_insert:
  assumes "\<not> content_has_module content" "clean_line stanza"
  shows "str_lines (fst (insert_first_auth content stanza)) = map strip_cr (insert_lines stanza (str_lines content))"
proof -
  have "\<forall>l\<in>set (insert_lines stanza (str_lines content)). nl \<notin> set l"
    using assms(2) str_lines_no_nl by (auto simp: set_insert_lines clean_line_def)
  then show ?thesis
    using assms(1) by (simp add: insert_first_auth_def str_lines_join)
qed

lemma insert_has_module:
  assumes "module_stanza stanza"
  shows "content_has_module (fst (insert_first_auth content stanza))"
proof (cases "content_has_module content")
  case False
  have s: "strip_cr stanza = stanza" "active_module_line stanza"
    using assms by (auto simp: module_stanza_def clean_line_def)
  have "list_ex active_module_line (map strip_cr (insert_lines stanza (str_lines content)))"
    using s set_insert_lines [of stanza "str_lines content"] by (force simp: list_ex_iff)
  then show ?thesis
    using str_lines_insert [OF False] assms by (simp add: content_has_module_def module_stanza_def)
qed (simp add: insert_first_auth_def)

lemma insert_idem:
  assumes "module_stanza stanza"
  shows "insert_first_auth (fst (insert_first_auth content stanza)) stanza = (fst (insert_first_auth content stanza), False)"
  by (simp add: insert_first_auth_def [of "fst _"] insert_has_module [OF assms])

section \<open>Removing\<close>

lemma str_lines_remove:
  assumes "content_has_module content"
  shows "\<forall>l\<in>set (str_lines (fst (remove_module content))). l = [] \<or> (\<exists>k. l = strip_cr k \<and> \<not> active_module_line k)"
proof -
  let ?kept = "filter (\<lambda>l. \<not> active_module_line l) (str_lines content)"
  have "\<forall>l\<in>set ?kept. nl \<notin> set l" using str_lines_no_nl by auto
  then have "str_lines (fst (remove_module content)) = (if ?kept = [] then [[]] else map strip_cr ?kept)"
    using assms str_lines_join [of ?kept] by (simp add: remove_module_def Let_def)
  then show ?thesis by (auto split: if_splits)
qed

lemma not_active_Nil: "\<not> active_module_line []"
  by (simp add: active_module_line_def pam_module_def trim_start_def strip_tokens_id head_token_None_iff)

lemma remove_no_module: "\<not> content_has_module (fst (remove_module content))"
proof (cases "content_has_module content")
  case True
  have "\<not> active_module_line l" if "l \<in> set (str_lines (fst (remove_module content)))" for l
  proof -
    from bspec [OF str_lines_remove [OF True] that] consider "l = []" | k where "l = strip_cr k" "\<not> active_module_line k"
      by blast
    then show ?thesis
    proof cases
      case 1 then show ?thesis using not_active_Nil by (simp only: simp_thms)
    next
      case (2 k) then show ?thesis using active_strip_cr [of k] by blast
    qed
  qed
  then show ?thesis by (auto simp: content_has_module_def list_ex_iff)
qed (simp add: remove_module_def Let_def)

lemma remove_insert:
  assumes "module_stanza stanza" and "\<not> content_has_module (unlines ls)" and "\<forall>l\<in>set ls. clean_line l" and "ls \<noteq> []"
  shows "remove_module (fst (insert_first_auth (unlines ls) stanza)) = (unlines ls, True)"
proof -
  have c: "\<forall>l\<in>set (insert_lines stanza ls). clean_line l"
    using assms(1,3) by (auto simp: set_insert_lines module_stanza_def)
  have l: "str_lines (fst (insert_first_auth (unlines ls) stanza)) = insert_lines stanza ls"
    using assms(2,3) c by (simp add: insert_first_auth_def join_nl_unlines)
  have "filter (\<lambda>l. \<not> active_module_line l) (insert_lines stanza ls) = filter (\<lambda>l. \<not> active_module_line l) ls"
    using assms(1) by (intro filter_insert_lines) (simp add: module_stanza_def)
  also have "\<dots> = ls"
    using assms(2,3) by (auto simp: content_has_module_def list_ex_iff filter_id_conv)
  finally show ?thesis
    using insert_has_module [OF assms(1)] assms(4) by (simp add: remove_module_def Let_def l join_nl_unlines)
qed

section \<open>Files\<close>

lemma fs_err_result [res_iff]: "fs_err verb path m w = (Ok x, w') \<longleftrightarrow> m w = (Ok x, w')"
  by (simp add: fs_err_def amap_err_result)

lemma read_text_result [res_iff]:
  "read_text path w = (Ok c, w') \<longleftrightarrow> fs_read_to_string path w = Inr c \<and> w' = w"
  by (auto simp: read_text_def fs_err_result of_result_Ok_iff)

lemma read_to_string_file: "fs_read_to_string path w = Inr c \<Longrightarrow> files w path = Some c \<and> utf8_valid c"
  by (auto simp: fs_read_to_string_def fs_read_def rbind_def split: option.splits sum.splits if_splits)

lemma snd_read_text [simp]: "snd (read_text path w) = w"
  by (simp add: read_text_def fs_err_def)

text \<open>A backup is made once and never replaced.\<close>

lemma backup_result:
  assumes "backup path w = (Ok (), w')"
  shows "files w' = (if path_exists (backup_path path) w then files w else (files w)(backup_path path := files w path)) \<and>
    modes w' path = modes w path \<and> io_fault w' = io_fault w \<and> dirs w' = dirs w"
proof -
  have "backup_path path \<noteq> path" by (simp add: backup_path_def backup_suffix_def)
  then show ?thesis
    using assms
    by (auto simp: backup_def abind_result fs_err_result fs_copy_def fs_read_def put_file_def
        dest!: fs_write_result split: if_splits option.splits sum.splits prod.splits outcome.splits)
qed

lemma ignore_result_state: "ignore m w = (Ok u, w') \<Longrightarrow> w' = snd (m w)"
  by (auto simp: ignore_def abind_result try_act_result)

lemma try_then_result:
  "abind (try_act m) f w = (Ok y, w') \<longleftrightarrow>
     (\<exists>x v. m w = (Ok x, v) \<and> f (Inr x) v = (Ok y, w')) \<or> (\<exists>e v. m w = (Err e, v) \<and> f (Inl e) v = (Ok y, w'))"
  by (auto simp: abind_result try_act_result)

lemma keep_mode_result:
  assumes "keep_mode path tmp u = (Ok (), v)"
  shows "files v = files u \<and> io_fault v = io_fault u \<and> dirs v = dirs u \<and>
    (path_exists path u \<and> modes u path \<noteq> None \<and> io_fault u OpChmod tmp = None \<and> files u tmp \<noteq> None \<longrightarrow>
      modes v tmp = modes u path)"
  using assms
  by (auto simp: keep_mode_def abind_result fs_set_permissions_def dest!: ignore_result_state split: option.splits if_splits)

lemma write_atomic_result:
  assumes "write_atomic path contents w = (Ok (), w')" and "tmp_path path \<noteq> path"
  shows "files w' path = Some contents \<and> files w' (tmp_path path) = None \<and>
    (\<forall>p. p \<noteq> path \<longrightarrow> p \<noteq> tmp_path path \<longrightarrow> files w' p = files w p) \<and>
    io_fault w' = io_fault w \<and> dirs w' = dirs w \<and>
    (path_exists path w \<and> modes w path \<noteq> None \<and> io_fault w OpChmod (tmp_path path) = None \<longrightarrow> modes w' path = modes w path)"
proof -
  let ?tmp = "tmp_path path"
  from assms(1) obtain u v where u: "fs_write ?tmp contents w = (Ok (), u)"
    and v: "keep_mode path ?tmp u = (Ok (), v)" and r: "fs_rename ?tmp path v = (Ok (), w')"
    by (auto simp: write_atomic_def Let_def try_then_result abind_result [of "fs_err _ _ _"]
        abind_result [of "keep_mode _ _"] abind_result [of "ignore _"] fs_err_result)
  have pu: "u = put_file ?tmp contents w" using fs_write_result [OF u] by blast
  have pe: "path_exists path u = path_exists path w" "modes u path = modes w path"
    using assms(2) by (auto simp: pu path_exists_def put_file_def)
  have vu: "files v = files u \<and> io_fault v = io_fault u \<and> dirs v = dirs u \<and>
    (path_exists path w \<and> modes w path \<noteq> None \<and> io_fault w OpChmod ?tmp = None \<longrightarrow> modes v ?tmp = modes w path)"
    using keep_mode_result [OF v] pe by (auto simp: pu)
  from fs_rename_result [OF r] vu show ?thesis
    using assms(2) by (auto simp: pu)
qed

text \<open>The three files an edit can touch are different.\<close>

definition service_path :: "string \<Rightarrow> bool" where
  "service_path path \<longleftrightarrow> (\<exists>d n. path = d @ ''/'' @ n \<and> CHR ''/'' \<notin> set n \<and> n \<noteq> [] \<and> utf8_valid n)"

lemma tmp_path_join:
  "CHR ''/'' \<notin> set n \<Longrightarrow> n \<noteq> [] \<Longrightarrow> utf8_valid n \<Longrightarrow> tmp_path (d @ ''/'' @ n) = d @ ''/.'' @ n @ ''.linhello.tmp''"
  using parent_join [of n d] by (simp add: tmp_path_def file_name_def path_join_def starts_with_def Let_def)

lemma length_tmp_path: "service_path path \<Longrightarrow> length (tmp_path path) = length path + 14"
  using tmp_path_join by (fastforce simp: service_path_def)

lemma paths_distinct:
  assumes "service_path path"
  shows "tmp_path path \<noteq> path" "backup_path path \<noteq> path" "tmp_path path \<noteq> backup_path path"
proof -
  show "tmp_path path \<noteq> path"
    using length_tmp_path [OF assms] by force
  show "backup_path path \<noteq> path" by (simp add: backup_path_def backup_suffix_def)
  have "length (backup_path path) = length path + 13" by (simp add: backup_path_def backup_suffix_def)
  then show "tmp_path path \<noteq> backup_path path"
    using length_tmp_path [OF assms] by force
qed

text \<open>A backed-up atomic replacement, as editing and removing share it.\<close>

lemma replace_result:
  assumes "abind (backup path) (\<lambda>_. abind (write_atomic path new) (\<lambda>_. ret c)) w = (Ok d, w')"
    and "service_path path"
  shows "d = c \<and> files w' path = Some new \<and>
    files w' (backup_path path) = (if path_exists (backup_path path) w then files w (backup_path path) else files w path) \<and>
    io_fault w' = io_fault w \<and> dirs w' = dirs w \<and>
    (path_exists path w \<and> modes w path \<noteq> None \<and> io_fault w OpChmod (tmp_path path) = None \<longrightarrow> modes w' path = modes w path)"
proof -
  from assms(1) obtain u where b: "backup path w = (Ok (), u)" and a: "write_atomic path new u = (Ok (), w')" and "d = c"
    by (auto simp: abind_result)
  note dist = paths_distinct [OF assms(2)]
  note ub = backup_result [OF b] and wa = write_atomic_result [OF a dist(1)]
  have "path_exists path u = path_exists path w"
    using ub dist(2) by (auto simp: path_exists_def)
  then show ?thesis
    using ub wa dist \<open>d = c\<close> by auto
qed

lemma edit_in_result:
  assumes "edit_in path stanza False w = (Ok (Edited path), w')" and "service_path path"
  shows "\<exists>content. files w path = Some content \<and> \<not> content_has_module content \<and> 
    files w' path = Some (fst (insert_first_auth content stanza)) \<and>
    files w' (backup_path path) = (if path_exists (backup_path path) w then files w (backup_path path) else files w path) \<and>
    io_fault w' = io_fault w \<and> dirs w' = dirs w \<and>
    (path_exists path w \<and> modes w path \<noteq> None \<and> io_fault w OpChmod (tmp_path path) = None \<longrightarrow> modes w' path = modes w path)"
proof -
  from assms(1) obtain content where c: "fs_read_to_string path w = Inr content"
    and e: "(case insert_first_auth content stanza of (new, changed) \<Rightarrow>
       if \<not> changed then ret (AlreadyWired path)
       else if False then ret (WouldEdit path)
       else abind (backup path) (\<lambda>_. abind (write_atomic path new) (\<lambda>_. ret (Edited path)))) w = (Ok (Edited path), w')"
    by (auto simp: edit_in_def abind_result [of "read_text _"] read_text_result)
  have n: "\<not> content_has_module content"
    using e by (auto simp: insert_first_auth_def split: if_splits)
  with e have "abind (backup path) (\<lambda>_. abind (write_atomic path (fst (insert_first_auth content stanza))) (\<lambda>_. ret (Edited path))) w
      = (Ok (Edited path), w')"
    by (simp add: insert_first_auth_def)
  from replace_result [OF this assms(2)] n read_to_string_file [OF c] show ?thesis by auto
qed

lemma remove_in_result:
  assumes "remove_in path False w = (Ok (Removed path), w')" and "service_path path"
    and "files w path = Some content" and "\<not> is_created_override content"
  shows "files w' path = Some (fst (remove_module content)) \<and>
    files w' (backup_path path) = (if path_exists (backup_path path) w then files w (backup_path path) else files w path) \<and>
    (path_exists path w \<and> modes w path \<noteq> None \<and> io_fault w OpChmod (tmp_path path) = None \<longrightarrow> modes w' path = modes w path)"
proof -
  have read: "fs_read_to_string path w = Inr x \<longleftrightarrow> x = content" for x
    using assms(1,3) read_to_string_file [of path w]
    by (auto simp: remove_in_def abind_result [of "read_text _"] abind_result [of "query _"] read_text_result split: if_splits)
  have "(case remove_module content of (new, changed) \<Rightarrow>
       if \<not> changed then ret (NotWired path)
       else abind (backup path) (\<lambda>_. abind (write_atomic path new) (\<lambda>_. ret (Removed path)))) w = (Ok (Removed path), w')"
    using assms(1,4)
    by (auto simp: remove_in_def abind_result [of "read_text _"] abind_result [of "query _"] read_text_result read
        split: if_splits prod.splits)
  then have "abind (backup path) (\<lambda>_. abind (write_atomic path (fst (remove_module content))) (\<lambda>_. ret (Removed path))) w = (Ok (Removed path), w')"
    by (cases "remove_module content") (auto split: if_splits)
  from replace_result [OF this assms(2)] show ?thesis by blast
qed

section \<open>Wiring and unwiring one file\<close>

lemma created_prefix_shape: "nl \<notin> set created_prefix" "hd created_prefix = CHR ''#''" "created_prefix \<noteq> []"
  by (simp_all add: created_prefix_def)

lemma not_prefix_stanza: "module_stanza s \<Longrightarrow> \<not> prefix created_prefix s"
proof
  assume m: "module_stanza s" and "prefix created_prefix s"
  then obtain t where s: "s = CHR ''#'' # t"
    by (auto simp: created_prefix_def prefix_def)
  then have "no_ws_start s"
    by (simp add: no_ws_start_def head_token_None_iff ws_tokens_def)
  with m s show False
    by (simp add: module_stanza_def active_module_line_def Let_def starts_with_def)
qed

lemma not_override_insert:
  assumes "module_stanza stanza" and "\<not> is_created_override (unlines ls)"
  shows "\<not> is_created_override (unlines (insert_lines stanza ls))"
proof
  assume a: "is_created_override (unlines (insert_lines stanza ls))"
  obtain l rest where r: "insert_lines stanza ls = l # rest" by (cases "insert_lines stanza ls") auto
  then have "prefix created_prefix (l @ nl # unlines rest)"
    using a by (simp add: is_created_override_def starts_with_def)
  then have p: "prefix created_prefix l"
    using created_prefix_shape(1) by (rule prefix_before)
  show False
  proof (cases ls)
    case Nil
    with r have "l = stanza" by simp
    then show False using p assms(1) not_prefix_stanza by blast
  next
    case (Cons k ks)
    show False
    proof (cases "is_auth_directive k")
      case True
      with r Cons have "l = stanza" by simp
      then show False using p assms(1) not_prefix_stanza by blast
    next
      case False
      with r Cons have "l = k" by simp
      then show False using p assms(2) Cons by (auto simp: is_created_override_def starts_with_def)
    qed
  qed
qed

lemma edit_remove:
  assumes "edit_in path stanza False w = (Ok (Edited path), u)" and "remove_in path False u = (Ok (Removed path), w')"
    and "module_stanza stanza" and "service_path path"
    and "files w path = Some (unlines ls)" and "\<forall>l\<in>set ls. clean_line l" and "ls \<noteq> []"
    and "\<not> is_created_override (unlines ls)"
    and "path_exists path w" and "modes w path \<noteq> None" and "io_fault w OpChmod (tmp_path path) = None"
  shows "files w' path = files w path \<and> modes w' path = modes w path \<and>
    (path_exists (backup_path path) w \<or> io_fault w OpStat (backup_path path) \<noteq> None \<or> files w' (backup_path path) = files w path)"
proof -
  from edit_in_result [OF assms(1,4)] assms(5) have n: "\<not> content_has_module (unlines ls)"
    and u: "files u path = Some (fst (insert_first_auth (unlines ls) stanza))"
      "files u (backup_path path) = (if path_exists (backup_path path) w then files w (backup_path path) else files w path)"
      "io_fault u = io_fault w" "modes u path = modes w path"
    using assms(9-11) by auto
  have i: "fst (insert_first_auth (unlines ls) stanza) = unlines (insert_lines stanza ls)"
    using n assms(6) by (simp add: insert_first_auth_def join_nl_unlines)
  have "\<not> is_created_override (unlines (insert_lines stanza ls))"
    using assms(3,8) by (rule not_override_insert)
  from remove_in_result [OF assms(2,4) u(1) this [folded i]]
  have w': "files w' path = Some (fst (remove_module (fst (insert_first_auth (unlines ls) stanza))))"
      "files w' (backup_path path) = (if path_exists (backup_path path) u then files u (backup_path path) else files u path)"
      "modes w' path = modes u path"
    using u assms(9-11) by (auto simp: path_exists_def)
  have "remove_module (fst (insert_first_auth (unlines ls) stanza)) = (unlines ls, True)"
    using assms(3) n assms(6,7) by (rule remove_insert)
  with w' u assms(5) show ?thesis by (auto simp: path_exists_def)
qed

text \<open>On a host where nothing fails, replacing a service file succeeds.\<close>

definition writable :: "string \<Rightarrow> 'z host_scheme \<Rightarrow> bool" where
  "writable p w \<longleftrightarrow> p \<notin> set (dirs w) \<and> (case parent p of None \<Rightarrow> False | Some q \<Rightarrow> q \<in> set (dirs w))"

lemma write_calm: "io_fault w = (\<lambda>_ _. None) \<Longrightarrow> writable p w \<Longrightarrow> fs_write p b w = (Ok (), put_file p b w)"
  by (auto simp: fs_write_def writable_def split: option.splits)

lemma backup_calm:
  assumes "io_fault w = (\<lambda>_ _. None)" "writable (backup_path path) w" "files w path = Some c"
  shows "\<exists>u. backup path w = (Ok (), u) \<and> io_fault u = (\<lambda>_ _. None) \<and> dirs u = dirs w"
  using assms write_calm [OF assms(1,2)]
  by (cases "path_exists (backup_path path) w")
    (auto simp: backup_def abind_eq fs_err_def amap_err_def fs_copy_def fs_read_def)

lemma keep_mode_calm: "\<exists>v. keep_mode path tmp w = (Ok (), v) \<and> files v = files w \<and> io_fault v = io_fault w \<and> dirs v = dirs w"
proof (cases "if path_exists path w then modes w path else None")
  case (Some m)
  have "\<exists>v. ignore (fs_set_permissions tmp m) w = (Ok (), v) \<and> files v = files w \<and> io_fault v = io_fault w \<and> dirs v = dirs w"
    by (auto simp: ignore_def abind_eq try_act_def fs_set_permissions_def split: option.splits)
  with Some show ?thesis by (simp add: keep_mode_def abind_eq)
qed (simp add: keep_mode_def abind_eq)

lemma write_atomic_calm:
  assumes "io_fault w = (\<lambda>_ _. None)" "writable (tmp_path path) w" "path \<notin> set (dirs w)"
  shows "\<exists>v. write_atomic path c w = (Ok (), v)"
proof -
  obtain v where v: "keep_mode path (tmp_path path) (put_file (tmp_path path) c w) = (Ok (), v)"
    "files v = (files w)(tmp_path path \<mapsto> c)" "io_fault v = io_fault w" "dirs v = dirs w"
    using keep_mode_calm [of path "tmp_path path" "put_file (tmp_path path) c w"] by auto
  then obtain x where x: "fs_rename (tmp_path path) path v = (Ok (), x)"
    using assms by (simp add: fs_rename_def)
  show ?thesis
    using write_calm [OF assms(1,2)] v(1) x
    by (simp add: write_atomic_def Let_def abind_eq fs_err_def amap_err_def try_act_def)
qed

lemma replace_calm:
  assumes "io_fault w = (\<lambda>_ _. None)" "writable (backup_path path) w" "writable (tmp_path path) w" "path \<notin> set (dirs w)"
    "files w path = Some c"
  shows "\<exists>w'. abind (backup path) (\<lambda>_. abind (write_atomic path new) (\<lambda>_. ret d)) w = (Ok d, w')"
proof -
  obtain u where u: "backup path w = (Ok (), u)" "io_fault u = (\<lambda>_ _. None)" "dirs u = dirs w"
    using backup_calm [OF assms(1,2,5)] by blast
  moreover have "writable (tmp_path path) u"
    using assms(3) unfolding writable_def u(3) .
  ultimately obtain v where "write_atomic path new u = (Ok (), v)"
    using write_atomic_calm [of u path new] assms(4) by auto
  with u show ?thesis by (simp add: abind_eq)
qed

lemma read_text_calm:
  "io_fault w = (\<lambda>_ _. None) \<Longrightarrow> files w path = Some c \<Longrightarrow> utf8_valid c \<Longrightarrow> read_text path w = (Ok c, w)"
  by (simp add: read_text_result fs_read_to_string_def fs_read_def)

lemma edit_in_calm:
  assumes "io_fault w = (\<lambda>_ _. None)" "writable (backup_path path) w" "writable (tmp_path path) w" "path \<notin> set (dirs w)"
    "files w path = Some c" "utf8_valid c" "\<not> content_has_module c"
  shows "\<exists>w'. edit_in path stanza False w = (Ok (Edited path), w')"
  using replace_calm [OF assms(1-5)] assms
  by (simp add: edit_in_def abind_run(1) [where m = "read_text path", OF read_text_calm [OF assms(1,5,6)]] insert_first_auth_def)

lemma remove_in_calm:
  assumes "io_fault w = (\<lambda>_ _. None)" "writable (backup_path path) w" "writable (tmp_path path) w" "path \<notin> set (dirs w)"
    "files w path = Some c" "utf8_valid c" "content_has_module c" "\<not> is_created_override c"
  shows "\<exists>w'. remove_in path False w = (Ok (Removed path), w')"
  using replace_calm [OF assms(1-5)] assms
  by (simp add: remove_in_def abind_eq [of "query _"] abind_run(1) [where m = "read_text path", OF read_text_calm [OF assms(1,5,6)]]
      remove_module_def Let_def path_exists_def)

section \<open>A dry run\<close>

interpretation still: frame "(=) :: 'z host_scheme \<Rightarrow> 'z host_scheme \<Rightarrow> bool"
  by unfold_locales auto

lemma still_fs_err: "still.keeps m \<Longrightarrow> still.keeps (fs_err verb path m)"
  by (simp add: fs_err_def still.keeps_map_err)

lemma still_read_text: "still.keeps (read_text path)"
  by (rule still.keepsI) simp

lemmas still_intros = still.keeps_intros still_read_text

lemma still_edit_in: "still.keeps (edit_in path stanza True)"
  unfolding edit_in_def by (auto intro!: still_intros split: prod.split)

lemma still_remove_in: "still.keeps (remove_in path True)"
  unfolding remove_in_def by (auto intro!: still_intros split: prod.split)

lemma still_apply_plan: "still.keeps (apply_plan f True)"
  unfolding apply_plan_def apply_override_def create_override_from_def
  by (auto intro!: still_intros still_edit_in split: option.split)

lemma still_edit_existing: "still.keeps (edit_existing gs stanza True)"
  by (induction gs) (simp only: edit_existing.simps; intro still_intros still_edit_in; assumption)+

lemma still_remove_all: "still.keeps (remove_all ps True)" "still.keeps (remove_existing ps True)"
  by (induction ps) (simp only: remove_all.simps remove_existing.simps; intro still_intros still_remove_in; assumption)+

text \<open>Asking the tool for the current profile reads only.\<close>

definition current_reads :: "('z host_scheme) shell \<Rightarrow> bool" where
  "current_reads S \<longleftrightarrow> still.keeps (cmd_output S ''authselect'' [''current''])"

lemma still_fedora: "current_reads S \<Longrightarrow> still.keeps (fedora_enable S True)"
  unfolding fedora_enable_def run_capture_def current_reads_def
  by (auto intro!: still_intros split: prod.split simp: Let_def)

lemma still_enable: "current_reads S \<Longrightarrow> still.keeps (enable S b True)"
  unfolding enable_def enable_services_def debian_enable_def
  by (auto intro!: still_intros still_edit_existing still_edit_in still_apply_plan still_fedora split: distro_family_t.split)

lemma still_disable: "still.keeps (disable S True)"
  unfolding disable_def debian_disable_def fedora_disable_def
  by (auto intro!: still_intros still_remove_all still_remove_in split: distro_family_t.split)

section \<open>Which files change\<close>

abbreviation in_pam_d :: "string \<Rightarrow> bool" where
  "in_pam_d \<equiv> below ''/etc/pam.d''"

text \<open>A service file, its backup and its temporary file, all in the same directory.\<close>

definition service_files :: "string \<Rightarrow> bool" where
  "service_files path \<longleftrightarrow> in_pam_d path \<and> in_pam_d (backup_path path) \<and> in_pam_d (tmp_path path)"

lemma service_files_known:
  "\<forall>p\<in>set greeters. service_files p" "service_files sudo_file" "service_files plasmalogin_etc"
  "service_files kde_lockscreen" "service_files kde_fp_lockscreen"
  by code_simp+

lemma pam_fs_err: "outside.keeps P m \<Longrightarrow> outside.keeps P (fs_err verb path m)"
  by (simp add: fs_err_def outside.keeps_map_err)

lemma pam_ignore: "outside.keeps P m \<Longrightarrow> outside.keeps P (ignore m)"
  unfolding ignore_def by (intro outside.keeps_intros)

lemma pam_read_text: "outside.keeps P (read_text path)"
  by (rule outside.keepsI) simp

lemma pam_fs_copy: "P q \<Longrightarrow> outside.keeps P (fs_copy p q)"
  by (rule outside.keepsI)
    (auto simp: fs_copy_def fs_write_def same_outside_def put_file_def split: option.splits sum.splits)

lemmas pam_intros = outside_intros pam_fs_err pam_ignore pam_read_text pam_fs_copy

lemma pam_write_atomic: "P path \<Longrightarrow> P (tmp_path path) \<Longrightarrow> outside.keeps P (write_atomic path c)"
  unfolding write_atomic_def keep_mode_def Let_def
  by (intro pam_intros) simp_all

lemma pam_backup: "P (backup_path path) \<Longrightarrow> outside.keeps P (backup path)"
  unfolding backup_def by (intro pam_intros) simp_all

lemma pam_edit_in: "service_files path \<Longrightarrow> outside.keeps in_pam_d (edit_in path stanza dry)"
  unfolding edit_in_def service_files_def
  by (auto intro!: pam_intros pam_backup pam_write_atomic split: prod.split)

lemma pam_remove_in: "service_files path \<Longrightarrow> outside.keeps in_pam_d (remove_in path dry)"
  unfolding remove_in_def service_files_def
  by (auto intro!: pam_intros pam_backup pam_write_atomic split: prod.split)

lemma pam_apply_override: "service_files (op_etc p) \<Longrightarrow> outside.keeps in_pam_d (apply_override p dry)"
  unfolding apply_override_def create_override_from_def
  by (auto intro!: pam_intros pam_edit_in pam_backup pam_write_atomic simp: service_files_def)

lemma pam_apply_plan:
  assumes "\<And>w p. f w = Some p \<Longrightarrow> service_files (op_etc p)"
  shows "outside.keeps in_pam_d (apply_plan f dry)"
proof (rule outside.keepsI)
  fix w :: "'a host_scheme"
  show "same_outside in_pam_d w (snd (apply_plan f dry w))"
  proof (cases "f w")
    case (Some p)
    have "outside.keeps in_pam_d (abind (apply_override p dry) (\<lambda>c. ret [c]))"
      by (intro pam_intros pam_apply_override assms [OF Some])
    then show ?thesis using outside.keepsD Some by (fastforce simp: apply_plan_def abind_eq)
  qed (simp add: apply_plan_def abind_eq)
qed

lemma pam_edit_existing:
  "\<forall>p\<in>set gs. service_files p \<Longrightarrow> outside.keeps in_pam_d (edit_existing gs stanza dry)"
  by (induction gs) (simp_all only: edit_existing.simps, (intro pam_intros pam_edit_in; simp)+)

lemma pam_remove_all:
  "\<forall>p\<in>set ps. service_files p \<Longrightarrow> outside.keeps in_pam_d (remove_all ps dry)"
  "\<forall>p\<in>set ps. service_files p \<Longrightarrow> outside.keeps in_pam_d (remove_existing ps dry)"
  by (induction ps) (simp_all only: remove_all.simps remove_existing.simps, (intro pam_intros pam_remove_in; simp)+)

lemma plan_files:
  "plasmalogin_greeter_plan w = Some p \<Longrightarrow> service_files (op_etc p)"
  "lockscreen_plan w = Some p \<Longrightarrow> service_files (op_etc p)"
  using service_files_known
  by (auto simp: plasmalogin_greeter_plan_def lockscreen_plan_def split: if_splits)

lemma pam_enable_services: "outside.keeps in_pam_d (enable_services b dry)"
  unfolding enable_services_def
  by (intro pam_intros pam_edit_existing pam_apply_plan plan_files service_files_known) (simp_all add: service_files_known)

text \<open>On Arch and unknown distributions wiring and unwiring stay inside the PAM directory.\<close>

lemma pam_enable:
  assumes "distro_family w \<notin> {Debian, Fedora}"
  shows "same_outside in_pam_d w (snd (enable S b dry w))"
proof -
  have "outside.keeps in_pam_d (abind (enable_services b dry) (\<lambda>changes. abind (apply_plan lockscreen_plan dry) (\<lambda>lock_changes. ret (changes @ lock_changes))))"
    by (intro pam_intros pam_enable_services pam_apply_plan plan_files)
  from outside.keepsD [OF this, of w] assms show ?thesis
    by (auto simp: enable_def abind_eq [of "query _"] split: distro_family_t.split)
qed

lemma pam_disable_services:
  "outside.keeps in_pam_d (abind (query (existing_targets True)) (\<lambda>targets.
     abind (query (path_exists plasmalogin_etc)) (\<lambda>plasma.
     remove_all (targets @ (if plasma then [plasmalogin_etc] else [])) dry)))"
proof (rule outside.keepsI)
  fix w :: "'a host_scheme"
  let ?ts = "existing_targets True w @ (if path_exists plasmalogin_etc w then [plasmalogin_etc] else [])"
  have "\<forall>p\<in>set ?ts. service_files p"
    using service_files_known by (auto simp: existing_targets_def)
  from outside.keepsD [OF pam_remove_all(1) [OF this], of w]
  show "same_outside in_pam_d w (snd (abind (query (existing_targets True)) (\<lambda>targets.
     abind (query (path_exists plasmalogin_etc)) (\<lambda>plasma.
     remove_all (targets @ (if plasma then [plasmalogin_etc] else [])) dry)) w))"
    by (simp add: abind_eq [of "query _"])
qed

lemma pam_disable:
  assumes "distro_family w \<notin> {Debian, Fedora}"
  shows "same_outside in_pam_d w (snd (disable S dry w))"
proof -
  have "\<forall>p\<in>set [kde_fp_lockscreen, kde_lockscreen]. service_files p"
    by (simp add: service_files_known)
  note k = outside.keepsD [OF outside.keeps_abind [OF pam_disable_services
    outside.keeps_abind [OF pam_remove_all(2) [OF this] outside.keeps_pure(1)]], of w]
  from assms have "distro_family w = Arch \<or> distro_family w = OtherDistro"
    by (cases "distro_family w") auto
  then show ?thesis
    unfolding disable_def abind_eq [of "query distro_family"] using k by auto
qed

section \<open>Enabling twice on Fedora\<close>

text \<open>
  The marker records the profile that is active when wiring starts. When that is already our own
  profile, the marker afterwards names it, so unwiring would select the profile it then deletes.
\<close>

definition select_keeps_marker :: "('z host_scheme) shell \<Rightarrow> bool" where
  "select_keeps_marker S \<longleftrightarrow> (\<forall>args v. files (snd (cmd_output S ''authselect'' (''select'' # args) v)) fedora_base_marker = files v fedora_base_marker)"

lemma run_result: "run S cmd args w = (Ok (), w') \<Longrightarrow> w' = snd (cmd_output S cmd args w)"
  by (auto simp: run_def abind_result amap_err_result split: prod.splits if_splits)

lemma store_base_result: "store_authselect_base base w = (Ok (), w') \<Longrightarrow> files w' fedora_base_marker = Some (base @ [nl])"
  by (auto simp: store_authselect_base_def abind_result fs_err_result dest!: fs_write_result)

lemma marker_trim: "trim (''custom/linhello'' @ [nl]) = ''custom/linhello''" "utf8_valid (''custom/linhello'' @ [nl])"
  by code_simp+

lemma fedora_marker_after:
  assumes "fedora_enable S False w = (Ok changes, w')"
    and "run_capture S ''authselect'' [''current''] w = (Ok (Some out), v)"
    and "parse_authselect_current out = (Some base, features)"
    and "select_keeps_marker S"
  shows "files w' fedora_base_marker = Some (base @ [nl])"
proof -
  from assms(1-3) obtain x y where "store_authselect_base base x = (Ok (), y)"
    and "run S ''authselect'' ([''select'', ''custom/linhello''] @ features @ [''--force'']) y = (Ok (), w')"
    by (auto simp: fedora_enable_def abind_result [of "run_capture _ _ _"] abind_result [of "query _"]
        abind_result [of "run _ _ _"] abind_result [of "If _ _ _"] abind_result [of "fedora_templates _"]
        abind_result [of "store_authselect_base _"] Let_def simp del: fedora_templates.simps)
  with assms(4) store_base_result show ?thesis
    by (fastforce simp: select_keeps_marker_def dest: run_result)
qed

lemma fedora_enable_twice:
  assumes "fedora_enable S False w = (Ok changes, w')"
    and "run_capture S ''authselect'' [''current''] w = (Ok (Some out), v)"
    and "parse_authselect_current out = (Some ''custom/linhello'', features)"
    and "select_keeps_marker S" and "io_fault w' OpRead fedora_base_marker = None"
  shows "load_authselect_base w' = ''custom/linhello''"
  using fedora_marker_after [OF assms(1-4)] assms(5) marker_trim
  by (simp add: load_authselect_base_def fs_read_to_string_def fs_read_def)

end
