(* ===== verification/ToolSpec.thy ===== *)
theory ToolSpec
  imports PamProps
begin

text \<open>
  Properties of the command line side: wiring the PAM stacks and the choices made per distribution.
\<close>

section \<open>A host with one greeter\<close>

definition pam_text :: "string list" where
  "pam_text = [''#%PAM-1.0'', ''auth include system-login'', ''account include system-login'']"

definition pam_host :: host where
  "pam_host = \<lparr>files = [''/etc/pam.d/sddm'' \<mapsto> unlines pam_text], modes = [''/etc/pam.d/sddm'' \<mapsto> 420],
     dirs = [''/etc'', ''/etc/pam.d'', ''/etc/linhello'', fedora_custom_dir], new_mode = 420, io_fault = (\<lambda>_ _. None),
     env_vars = (\<lambda>_. None), links = (\<lambda>_. None), realpath = (\<lambda>_. None), draws = 0\<rparr>"

text \<open>A tool that reports our own profile as the active one and changes nothing.\<close>

definition pam_shell :: "host shell" where
  "pam_shell = \<lparr>cmd_output = (\<lambda>cmd args. ret (True, ''Profile ID: custom/linhello'', []))\<rparr>"

lemma sddm_paths:
  "tmp_path ''/etc/pam.d/sddm'' = ''/etc/pam.d/.sddm.linhello.tmp''" "backup_path ''/etc/pam.d/sddm'' = ''/etc/pam.d/sddm.pre-linhello''"
  by code_simp+

lemma sddm_service: "service_path ''/etc/pam.d/sddm''"
  unfolding service_path_def by (rule exI [of _ "''/etc/pam.d''"], rule exI [of _ "''sddm''"]) simp

section \<open>PAM\<close>

text \<open>
  C18. The line goes directly before the first auth directive, or to the end when there is none;
  every other line stays in its place; inserting again changes nothing; and after removing, no
  active line of any text refers to the module.
\<close>

theorem pam_line_placed:
  assumes "\<not> content_has_module content" and "module_stanza stanza"
  shows "(\<exists>before after. str_lines content = before @ after \<and>
      fst (insert_first_auth content stanza) = unlines (before @ stanza # after) \<and>
      (\<forall>l. l \<in> set before \<longrightarrow> \<not> is_auth_directive l) \<and> (after = [] \<or> is_auth_directive (hd after))) \<and>
    insert_first_auth (fst (insert_first_auth content stanza)) stanza = (fst (insert_first_auth content stanza), False) \<and>
    \<not> content_has_module (fst (remove_module other))"
proof -
  have i: "fst (insert_first_auth content stanza) = unlines (insert_lines stanza (str_lines content))"
    using assms(1) by (simp add: insert_first_auth_def join_nl_unlines)
  obtain before after where "str_lines content = before @ after"
    "insert_lines stanza (str_lines content) = before @ stanza # after"
    "\<forall>l\<in>set before. \<not> is_auth_directive l" "after = [] \<or> is_auth_directive (hd after)"
    using insert_lines_split [of "str_lines content" stanza] by blast
  then have "\<exists>before after. str_lines content = before @ after \<and>
      fst (insert_first_auth content stanza) = unlines (before @ stanza # after) \<and>
      (\<forall>l. l \<in> set before \<longrightarrow> \<not> is_auth_directive l) \<and> (after = [] \<or> is_auth_directive (hd after))"
    using i by (intro exI [of _ before] exI [of _ after]) simp
  then show ?thesis
    using insert_idem [OF assms(2), of content] remove_no_module [of other] by blast
qed

theorem pam_line_placed_witness:
  "\<not> content_has_module (unlines pam_text) \<and> module_stanza greeter_stanza \<and>
   insert_first_auth (fst (insert_first_auth (unlines pam_text) greeter_stanza)) greeter_stanza =
     (fst (insert_first_auth (unlines pam_text) greeter_stanza), False)"
proof -
  have n: "\<not> content_has_module (unlines pam_text)" by code_simp
  with pam_line_placed [OF n stanzas(1)] stanzas(1) show ?thesis by blast
qed

text \<open>
  C19. Unwiring undoes wiring: a service file of whole lines that was edited and then cleared has
  its bytes and its mode back, and the backup made on the way, when none was there before, holds
  the original.
\<close>

theorem pam_roundtrip:
  assumes "edit_in path stanza False w = (Ok (Edited path), u)" and "remove_in path False u = (Ok (Removed path), w')"
    and "module_stanza stanza" and "service_path path"
    and "files w path = Some (unlines ls)" and "\<forall>l\<in>set ls. clean_line l" and "ls \<noteq> []"
    and "\<not> is_created_override (unlines ls)"
    and "path_exists path w" and "modes w path \<noteq> None" and "io_fault w OpChmod (tmp_path path) = None"
  shows "files w' path = files w path \<and> modes w' path = modes w path \<and>
    (path_exists (backup_path path) w \<or> io_fault w OpStat (backup_path path) \<noteq> None \<or> files w' (backup_path path) = files w path)"
  using assms by (rule edit_remove)

theorem pam_roundtrip_witness:
  "\<exists>u w'. edit_in ''/etc/pam.d/sddm'' greeter_stanza False pam_host = (Ok (Edited ''/etc/pam.d/sddm''), u) \<and>
     remove_in ''/etc/pam.d/sddm'' False u = (Ok (Removed ''/etc/pam.d/sddm''), w') \<and>
     files w' ''/etc/pam.d/sddm'' = Some (unlines pam_text)"
proof -
  let ?p = "''/etc/pam.d/sddm''" and ?new = "fst (insert_first_auth (unlines pam_text) greeter_stanza)"
  have t: "insert_first_auth (unlines pam_text) greeter_stanza = (?new, True)" "remove_module ?new = (unlines pam_text, True)"
    "\<not> is_created_override ?new" "\<not> is_created_override (unlines pam_text)" "utf8_valid (unlines pam_text)" "utf8_valid ?new"
    "\<forall>l\<in>set pam_text. clean_line l" "pam_text \<noteq> []" "\<not> content_has_module (unlines pam_text)" "content_has_module ?new"
    by code_simp+
  have f: "files pam_host ?p = Some (unlines pam_text)" "modes pam_host ?p = Some 420" "io_fault pam_host = (\<lambda>_ _. None)"
    by (simp_all add: pam_host_def)
  have d: "?p \<notin> set (dirs pam_host)" "writable (backup_path ?p) pam_host" "writable (tmp_path ?p) pam_host"
    by (simp_all add: sddm_paths writable_def parent_def pam_host_def fedora_custom_dir_def)
  obtain u where u: "edit_in ?p greeter_stanza False pam_host = (Ok (Edited ?p), u)"
    using edit_in_calm [OF f(3) d(2,3,1) f(1)] t by blast
  have uf: "files u ?p = Some ?new" "io_fault u = (\<lambda>_ _. None)" "dirs u = dirs pam_host"
    using edit_in_result [OF u sddm_service] f by auto
  have "writable (backup_path ?p) u" "writable (tmp_path ?p) u" "?p \<notin> set (dirs u)"
    using d unfolding writable_def uf(3) by auto
  from remove_in_calm [OF uf(2) this uf(1)] t obtain w' where w': "remove_in ?p False u = (Ok (Removed ?p), w')"
    by blast
  have "files w' ?p = files pam_host ?p"
    using pam_roundtrip [OF u w' stanzas(1) sddm_service f(1) t(7,8,4)] f by (simp add: path_exists_def)
  with u w' f show ?thesis by auto
qed

text \<open>
  A dry run, of wiring or of unwiring, leaves the whole host as it was on every distribution,
  given that asking the Fedora tool for the current profile only reads.
\<close>

theorem pam_dry_run: "current_reads S \<Longrightarrow> snd (enable S b True w) = w \<and> snd (disable S True w) = w"
  using still.keepsD [OF still_enable] still.keepsD [OF still_disable] by metis

theorem pam_dry_run_witness: "snd (enable pam_shell True True pam_host) = pam_host"
  by (rule pam_dry_run [THEN conjunct1])
    (simp add: current_reads_def still.keeps_def pam_shell_def)

text \<open>
  Where no shared stack is managed (Arch and unknown distributions), wiring and unwiring change
  no file outside the PAM directory.
\<close>

theorem pam_reach:
  assumes "distro_family w \<notin> {Debian, Fedora}" and "\<not> in_pam_d p"
  shows "files (snd (enable S b dry w)) p = files w p \<and> modes (snd (enable S b dry w)) p = modes w p \<and>
    files (snd (disable S dry w)) p = files w p \<and> modes (snd (disable S dry w)) p = modes w p"
  using pam_enable [OF assms(1), of S b dry] pam_disable [OF assms(1), of S dry] assms(2)
  by (simp add: same_outside_def)

theorem pam_reach_witness:
  "distro_family pam_host \<notin> {Debian, Fedora} \<and>
   files (snd (enable pam_shell True False pam_host)) ''/etc/shadow'' = files pam_host ''/etc/shadow''"
proof -
  have d: "distro_family pam_host \<notin> {Debian, Fedora}"
    by (simp add: distro_family_def os_release_text_def fs_read_to_string_def fs_read_def pam_host_def) code_simp
  have "\<not> in_pam_d ''/etc/shadow''" by code_simp
  from pam_reach [OF d this] d show ?thesis by blast
qed

text \<open>
  C20. Wiring Fedora a second time loses the way back: when our own profile is already the active
  one, the remembered base profile becomes that very profile, which unwiring deletes.
\<close>

theorem fedora_second_enable:
  assumes "fedora_enable S False w = (Ok changes, w')"
    and "run_capture S ''authselect'' [''current''] w = (Ok (Some out), v)"
    and "parse_authselect_current out = (Some ''custom/linhello'', features)"
    and "select_keeps_marker S" and "io_fault w' OpRead fedora_base_marker = None"
  shows "load_authselect_base w' = ''custom/linhello''"
  using assms by (rule fedora_enable_twice)

theorem fedora_second_enable_witness:
  "\<exists>changes w'. fedora_enable pam_shell False pam_host = (Ok changes, w') \<and> load_authselect_base w' = ''custom/linhello''"
proof -
  let ?out = "''Profile ID: custom/linhello''"
  have lossy: "utf8_lossy ?out = ?out" and parsed: "parse_authselect_current ?out = (Some ''custom/linhello'', [])"
    by code_simp+
  have c: "run_capture pam_shell ''authselect'' [''current''] w = (Ok (Some ?out), w)" for w
    by (simp add: run_capture_def abind_def try_act_def pam_shell_def lossy)
  have r: "run pam_shell cmd args w = (Ok (), w)" for cmd args w
    by (simp add: run_def abind_def amap_err_def pam_shell_def)
  have t: "fedora_templates [''system-auth'', ''password-auth''] pam_host = (Ok [], pam_host)"
    by (simp add: abind_def path_exists_def pam_host_def fedora_custom_dir_def path_join_def starts_with_def Let_def)
  obtain w' where s: "store_authselect_base ''custom/linhello'' pam_host = (Ok (), w')" and f: "io_fault w' = (\<lambda>_ _. None)"
    by (simp add: store_authselect_base_def abind_def ignore_def try_act_def fs_err_def amap_err_def fs_write_def fs_create_dir_all_def
        pam_host_def fedora_base_marker_def parent_def ancestors.simps fedora_custom_dir_def put_file_def Let_def)
  have "path_exists fedora_custom_dir pam_host" by (simp add: path_exists_def pam_host_def)
  then obtain changes where e: "fedora_enable pam_shell False pam_host = (Ok changes, w')"
    using t s by (simp add: fedora_enable_def abind_def c r parsed Let_def del: fedora_templates.simps)
  have "select_keeps_marker pam_shell" by (simp add: select_keeps_marker_def pam_shell_def)
  from fedora_second_enable [OF e c parsed this] e f show ?thesis by auto
qed

section \<open>Per distribution\<close>

text \<open>
  A plan exists exactly where its mechanism does: the SELinux module is planned only on a host
  whose kernel exposes the enforcement node, a reseal hook and an install command only on a known
  distribution family, and the hook files of two different mechanisms differ.
\<close>

theorem plans_gated:
  "(selinux_policy_plan w \<noteq> None \<longleftrightarrow> (\<exists>t. fs_read_to_string ''/sys/fs/selinux/enforce'' w = Inr t)) \<and>
   (reseal_hook_plan w \<noteq> None \<longleftrightarrow> distro_family w \<noteq> OtherDistro) \<and>
   (package_install_prefix w \<noteq> None \<longleftrightarrow> distro_family w \<noteq> OtherDistro) \<and>
   (hook_path s = hook_path t \<longleftrightarrow> s = t)"
  by (simp only: selinux_plan_iff security_module_SeLinux reseal_plan_iff install_prefix_iff hook_path_inj simp_thms)

end
