(* ===== verification/Client.thy ===== *)
theory Client
  imports Dispatch
begin

text \<open>
  The blocking client of the daemon socket, crates/linhello-common/src/client.rs, used by the
  command line and by the PAM module. The operating system's stream socket and the JSON of the
  messages are the parameter \<open>sockets\<close>: a connection attempt that has not finished within the
  timeout is \<open>None\<close>. \<open>daemon_link\<close> puts the connection handler of the daemon at the other end.
\<close>

record 'w sockets =
  sk_env :: "string \<rightharpoonup> string"
  sk_connect :: "string \<Rightarrow> nat \<Rightarrow> 'w \<Rightarrow> (io_error + nat) option \<times> 'w"
  sk_read_timeout :: "nat \<Rightarrow> nat \<Rightarrow> ('w, io_error, unit) act"
  sk_write_timeout :: "nat \<Rightarrow> nat \<Rightarrow> ('w, io_error, unit) act"
  sk_write_all :: "nat \<Rightarrow> bytes \<Rightarrow> ('w, io_error, unit) act"
  sk_flush :: "nat \<Rightarrow> ('w, io_error, unit) act"
  sk_read_until_nl :: "nat \<Rightarrow> ('w, io_error, bytes) act"
  sk_req_json :: "request \<Rightarrow> string + bytes"
  sk_resp_of_json :: "string \<Rightarrow> string + response"

definition socket_path_default :: string where "socket_path_default = ''/run/linhello.sock''"

definition default_timeout :: nat where "default_timeout = 30"

definition socket_path :: "'w sockets \<Rightarrow> string" where
  "socket_path S = unwrap_or socket_path_default (sk_env S ''LINHELLO_SOCKET'')"

definition connect_with_timeout :: "'w sockets \<Rightarrow> string \<Rightarrow> nat \<Rightarrow> ('w, lh_error, nat) act" where
  "connect_with_timeout S path timeout w = (case sk_connect S path timeout w of
      (Some (Inr h), v) \<Rightarrow> (Ok h, v)
    | (Some (Inl e), v) \<Rightarrow> (Err (Io e), v)
    | (None, v) \<Rightarrow> (Err (Io TimedOut), v))"

text \<open>\<open>BufRead::read_line\<close> into a fresh string.\<close>

definition read_line :: "'w sockets \<Rightarrow> nat \<Rightarrow> ('w, lh_error, string) act" where
  "read_line S h =
     abind (io_act (sk_read_until_nl S h)) (\<lambda>b.
     if utf8_valid b then ret b else fail (Io (OtherIo ''stream did not contain valid UTF-8'')))"

definition request_at :: "'w sockets \<Rightarrow> string \<Rightarrow> request \<Rightarrow> nat \<Rightarrow> ('w, lh_error, response) act" where
  "request_at S path req timeout =
     abind (connect_with_timeout S path timeout) (\<lambda>h.
     abind (io_act (sk_read_timeout S h timeout)) (\<lambda>_.
     abind (io_act (sk_write_timeout S h timeout)) (\<lambda>_.
     abind (amap_err Serde (lift (sk_req_json S req))) (\<lambda>line.
     abind (io_act (sk_write_all S h (line @ [nl]))) (\<lambda>_.
     abind (io_act (sk_flush S h)) (\<lambda>_.
     abind (read_line S h) (\<lambda>buf.
     if buf = [] then fail (Io UnexpectedEof)
     else amap_err Serde (lift (sk_resp_of_json S buf)))))))))"

definition send_request :: "'w sockets \<Rightarrow> request \<Rightarrow> ('w, lh_error, response) act" where
  "send_request S req = request_at S (socket_path S) req default_timeout"

definition request_with_timeout :: "'w sockets \<Rightarrow> request \<Rightarrow> nat \<Rightarrow> ('w, lh_error, response) act" where
  "request_with_timeout S req timeout = request_at S (socket_path S) req timeout"

section \<open>The daemon at the other end\<close>

text \<open>
  The state is the daemon's world and what has been sent on the connection. The peer credentials
  are those of the client process; the handler answers once the request line is complete.
\<close>

definition daemon_link ::
  "('t, 's, 'x) daemon_ext_scheme \<Rightarrow> nat option \<Rightarrow> (request \<Rightarrow> string + bytes) \<Rightarrow> (string \<Rightarrow> string + response)
   \<Rightarrow> (('t, 's, 'z) world_scheme \<times> bytes) sockets" where
  "daemon_link X peer enc dec = \<lparr>
     sk_env = (\<lambda>_. None),
     sk_connect = (\<lambda>_ _ (w, _). (Some (Inr 0), (w, []))),
     sk_read_timeout = (\<lambda>_ _. ret ()),
     sk_write_timeout = (\<lambda>_ _. ret ()),
     sk_write_all = (\<lambda>_ b (w, out). (Ok (), (w, out @ b))),
     sk_flush = (\<lambda>_. ret ()),
     sk_read_until_nl = (\<lambda>_ (w, out). case handle X peer out w of
         (None, v) \<Rightarrow> (Ok [], (v, []))
       | (Some reply, v) \<Rightarrow> (Ok (first_line reply), (v, []))),
     sk_req_json = enc, sk_resp_of_json = dec\<rparr>"

text \<open>The text of one message: a single line of UTF-8 that reads back as the message.\<close>

definition text_line :: "bytes \<Rightarrow> bool" where
  "text_line t \<longleftrightarrow> t \<noteq> [] \<and> nl \<notin> set t \<and> utf8_valid t \<and> no_ws_end t"

definition carries ::
  "(request \<Rightarrow> string + bytes) \<Rightarrow> (string \<Rightarrow> string + response) \<Rightarrow> ('t, 's, 'x) daemon_ext_scheme
   \<Rightarrow> request \<Rightarrow> response \<Rightarrow> bool" where
  "carries enc dec X req r \<longleftrightarrow>
     (case enc req of
        Inl _ \<Rightarrow> False
      | Inr j \<Rightarrow> text_line j \<and> length j < max_request_bytes \<and> req_of_json X j = Inr req) \<and>
     nl \<notin> set (resp_to_json X r) \<and> utf8_valid (resp_to_json X r) \<and>
     dec (resp_to_json X r @ [nl]) = Inr r"

lemma ascii_nl: "(of_char nl :: nat) < 128"
  by simp

lemma utf8_valid_line: "utf8_valid t \<Longrightarrow> utf8_valid (t @ [nl])"
  using utf8_valid_break [OF ascii_nl, of t "[]"] by simp

lemma first_line_line: "nl \<notin> set t \<Longrightarrow> first_line (t @ [nl]) = t @ [nl]"
  by (simp add: first_line_def)

lemma trim_end_line: "no_ws_end t \<Longrightarrow> trim_end (t @ [nl]) = t"
proof -
  have "head_token (map rev ws_tokens) (nl # rev t) = Some [nl]"
    by (simp add: head_token_def ws_tokens_def)
  moreover assume "no_ws_end t"
  ultimately show ?thesis
    by (simp add: trim_end_def no_ws_end_def strip_tokens.simps [of _ "nl # rev t"] strip_tokens_id)
qed

lemma handle_line:
  assumes j: "text_line j" "length j < max_request_bytes" "req_of_json X j = Inr req"
  shows "handle X peer (j @ [nl]) w =
    (let (r, v) = dispatch X req peer w in (Some (resp_to_json X r @ [nl]), v))"
proof -
  have "take max_request_bytes (j @ [nl]) = j @ [nl]" using j(2) by simp
  moreover have "utf8_valid (j @ [nl])" "trim_end (j @ [nl]) = j" "first_line (j @ [nl]) = j @ [nl]"
    using j(1) utf8_valid_line trim_end_line first_line_line by (auto simp: text_line_def)
  ultimately show ?thesis
    using j(3) by (simp add: handle_def Let_def del: take_append)
qed

text \<open>
  The client over the link is the dispatcher: one request gets the response the daemon computed
  for it, and the daemon's state is the one that left.
\<close>

lemma link_request_at:
  assumes d: "dispatch X req peer w = (r, w')" and c: "carries enc dec X req r"
  shows "request_at (daemon_link X peer enc dec) path req timeout (w, out) = (Ok r, (w', []))"
proof -
  from c obtain j where j: "enc req = Inr j" "text_line j" "length j < max_request_bytes" "req_of_json X j = Inr req"
    by (auto simp: carries_def split: sum.splits)
  from c have t: "nl \<notin> set (resp_to_json X r)" "utf8_valid (resp_to_json X r)" "dec (resp_to_json X r @ [nl]) = Inr r"
    by (auto simp: carries_def)
  have h: "handle X peer (j @ [nl]) w = (Some (resp_to_json X r @ [nl]), w')"
    using handle_line [OF j(2,3,4), of peer w] d by simp
  show ?thesis
    using j(1) t
    by (simp add: request_at_def daemon_link_def connect_with_timeout_def read_line_def abind_def io_act_def
        amap_err_def h first_line_line utf8_valid_line)
qed

end
