(* ===== verification/PamFfi.thy ===== *)
theory PamFfi
  imports Client DaemonProps "HOL-Library.Word"
begin

text \<open>
  The bridge the C PAM module calls, crates/linhello-pam/src/lib.rs. A pointer is an option: \<open>None\<close>
  is the null pointer, \<open>Some m\<close> the memory that starts there, of which the caller grants the first
  \<open>len\<close> bytes. A function returns its C \<open>int\<close> and the memory after the call; the daemon is reached
  through \<open>sockets\<close>.
\<close>

type_synonym i32 = "32 word"

definition minus_one :: i32 where "minus_one = -1"

definition as_i32 :: "nat \<Rightarrow> i32" where "as_i32 n = word_of_nat n"

text \<open>\<open>CStr::from_ptr(p).to_str()\<close>\<close>

definition c_str :: "bytes \<Rightarrow> string option" where
  "c_str m = (let s = takeWhile (\<lambda>c. c \<noteq> CHR 0x00) m in if utf8_valid s then Some s else None)"

definition c_user :: "bytes option \<Rightarrow> string option" where
  "c_user p = opt_filter (\<lambda>s. s \<noteq> []) (Option.bind p c_str)"

text \<open>Copy over the front of the memory a pointer grants.\<close>

definition overwrite :: "bytes \<Rightarrow> bytes \<Rightarrow> bytes" where
  "overwrite b m = b @ drop (length b) m"

text \<open>The secret into the caller's buffer, refused when it does not fit.\<close>

definition copy_secret :: "bytes \<Rightarrow> nat \<Rightarrow> bytes \<Rightarrow> i32 \<times> bytes" where
  "copy_secret secret len m =
     (if length secret > len then (minus_one, m) else (as_i32 (length secret), overwrite secret m))"

definition ask :: "'w sockets \<Rightarrow> request \<Rightarrow> (lh_error + response \<Rightarrow> 'a) \<Rightarrow> ('w, unit, 'a) act" where
  "ask S req k = abind (try_act (send_request S req)) (\<lambda>r. ret (k r))"

text \<open>What the calls make of the daemon's answer.\<close>

definition unseal_answer :: "nat \<Rightarrow> bytes \<Rightarrow> lh_error + response \<Rightarrow> i32 \<times> bytes option" where
  "unseal_answer len m r = (case r of
      Inr (SPasswordUnsealed secret) \<Rightarrow> map_prod id Some (copy_secret secret len m)
    | _ \<Rightarrow> (minus_one, Some m))"

definition auth_answer :: "nat \<Rightarrow> bytes \<Rightarrow> lh_error + response \<Rightarrow> i32 \<times> bytes option" where
  "auth_answer len m r = (case r of
      Inr (SPasswordUnsealed secret) \<Rightarrow> map_prod id Some (copy_secret secret len m)
    | Inr (SVerified matched _ _) \<Rightarrow> (if matched then 0 else minus_one, Some m)
    | _ \<Rightarrow> (minus_one, Some m))"

definition linhello_unseal_keyring ::
  "'w sockets \<Rightarrow> bytes option \<Rightarrow> bytes option \<Rightarrow> nat \<Rightarrow> ('w, unit, i32 \<times> bytes option) act" where
  "linhello_unseal_keyring S user buf len =
     (case buf of None \<Rightarrow> ret (minus_one, buf)
      | Some m \<Rightarrow>
         if user = None \<or> len = 0 then ret (minus_one, buf)
         else case c_user user of None \<Rightarrow> ret (minus_one, buf)
         | Some u \<Rightarrow> ask S (RUnsealPassword u) (unseal_answer len m))"

definition linhello_verify_face :: "'w sockets \<Rightarrow> bytes option \<Rightarrow> ('w, unit, i32) act" where
  "linhello_verify_face S user =
     (if user = None then ret minus_one
      else case c_user user of None \<Rightarrow> ret minus_one
      | Some u \<Rightarrow> ask S (RVerify u) (\<lambda>r. case r of
          Inr (SVerified matched _ _) \<Rightarrow> if matched then 0 else minus_one
        | _ \<Rightarrow> minus_one))"

definition linhello_authenticate ::
  "'w sockets \<Rightarrow> bytes option \<Rightarrow> bytes option \<Rightarrow> bytes option \<Rightarrow> nat \<Rightarrow> ('w, unit, i32 \<times> bytes option) act" where
  "linhello_authenticate S user service buf len =
     (case (service, buf) of
        (Some sm, Some m) \<Rightarrow>
          if user = None \<or> len = 0 then ret (minus_one, buf)
          else (case (c_user user, c_str sm) of
              (Some u, Some sv) \<Rightarrow> ask S (RAuthenticate u sv) (auth_answer len m)
            | _ \<Rightarrow> ret (minus_one, buf))
      | _ \<Rightarrow> ret (minus_one, buf))"

definition write_cstr :: "bytes option \<Rightarrow> nat \<Rightarrow> string \<Rightarrow> bytes option" where
  "write_cstr dst dst_len s =
     (if dst_len = 0 then dst
      else map_option (overwrite (take (min (length s) (dst_len - 1)) s @ [CHR 0x00])) dst)"

definition plan_answer :: "nat \<Rightarrow> bytes option \<Rightarrow> lh_error + response \<Rightarrow> i32 \<times> bytes option" where
  "plan_answer msg_len msg r = (case r of
      Inr (SAuthPlan engage _ notice) \<Rightarrow>
        (if engage then 1 else 0, case notice of None \<Rightarrow> msg | Some s \<Rightarrow> write_cstr msg msg_len s)
    | _ \<Rightarrow> (minus_one, msg))"

definition linhello_auth_will_capture ::
  "'w sockets \<Rightarrow> bytes option \<Rightarrow> bytes option \<Rightarrow> bytes option \<Rightarrow> nat \<Rightarrow> ('w, unit, i32 \<times> bytes option) act" where
  "linhello_auth_will_capture S user service msg msg_len =
     (let msg0 = (if msg_len > 0 then map_option (overwrite [CHR 0x00]) msg else msg) in
      if user = None then ret (minus_one, msg0)
      else case service of None \<Rightarrow> ret (minus_one, msg0)
      | Some sm \<Rightarrow> (case (c_user user, c_str sm) of
          (Some u, Some sv) \<Rightarrow> ask S (RAuthIntent u sv) (plan_answer msg_len msg0)
        | _ \<Rightarrow> ret (minus_one, msg0)))"

definition linhello_zero_buf :: "bytes option \<Rightarrow> nat \<Rightarrow> bytes option" where
  "linhello_zero_buf buf len = map_option (overwrite (replicate len (CHR 0x00))) buf"

definition linhello_reseal_password ::
  "'w sockets \<Rightarrow> bytes option \<Rightarrow> bytes option \<Rightarrow> nat \<Rightarrow> ('w, unit, i32 \<times> bytes option) act" where
  "linhello_reseal_password S user password len =
     (case password of None \<Rightarrow> ret (minus_one, password)
      | Some m \<Rightarrow>
         if user = None \<or> len = 0 then ret (minus_one, password)
         else case c_user user of None \<Rightarrow> ret (minus_one, password)
         | Some u \<Rightarrow> ask S (RSealPassword u (take len m)) (\<lambda>r.
             (case r of Inr SPasswordSealed \<Rightarrow> 0 | _ \<Rightarrow> minus_one,
              Some (overwrite (replicate len (CHR 0x00)) m))))"

section \<open>Memory\<close>

lemma length_overwrite: "length b \<le> length m \<Longrightarrow> length (overwrite b m) = length m"
  by (simp add: overwrite_def)

lemma drop_overwrite: "length b \<le> n \<Longrightarrow> drop n (overwrite b m) = drop n m"
  by (simp add: overwrite_def)

lemma ask_result [res_iff]: "ask S req k w = (Ok y, w') \<longleftrightarrow>
  (\<exists>r. send_request S req w = (Ok r, w') \<and> y = k (Inr r)) \<or> (\<exists>e. send_request S req w = (Err e, w') \<and> y = k (Inl e))"
  by (auto simp: ask_def res_iff)

lemma sint_as_i32: "n < 2 ^ 31 \<Longrightarrow> sint (as_i32 n) = int n"
  by (simp add: as_i32_def signed_of_nat signed_take_bit_int_eq_self)

lemma minus_one_simps [simp]: "sint minus_one = -1" "minus_one \<noteq> 0" "minus_one \<noteq> 1"
  by (simp_all add: minus_one_def)

text \<open>The possible outcomes of each.\<close>

lemma unseal_answer_cases:
  "(\<exists>s. unseal_answer len m r = map_prod id Some (copy_secret s len m)) \<or> unseal_answer len m r = (minus_one, Some m)"
proof (cases r)
  case (Inr a)
  then show ?thesis by (cases a) (auto simp: unseal_answer_def)
qed (simp add: unseal_answer_def)

lemma auth_answer_cases:
  "(\<exists>s. auth_answer len m r = map_prod id Some (copy_secret s len m)) \<or>
   auth_answer len m r = (minus_one, Some m) \<or> auth_answer len m r = (0, Some m)"
proof (cases r)
  case (Inr a)
  then show ?thesis by (cases a) (auto simp: auth_answer_def)
qed (simp add: auth_answer_def)

lemma plan_answer_cases: "snd (plan_answer len b r) = b \<or> (\<exists>s. snd (plan_answer len b r) = write_cstr b len s)"
proof (cases r)
  case (Inr a)
  then show ?thesis by (cases a) (auto simp: plan_answer_def split: option.split)
qed (simp add: plan_answer_def)

section \<open>The bridge over the daemon\<close>

lemma link_request:
  "dispatch X req peer w = (r, w') \<Longrightarrow> carries enc dec X req r \<Longrightarrow>
   send_request (daemon_link X peer enc dec) req (w, out) = (Ok r, (w', []))"
  by (simp add: send_request_def link_request_at)

text \<open>What the module reports for a response.\<close>

definition bridged :: "response \<Rightarrow> nat \<Rightarrow> bytes \<Rightarrow> i32 \<times> bytes option" where
  "bridged r len m = auth_answer len m (Inr r)"

lemma authenticate_bridged:
  assumes "c_user (Some ub) = Some u" and "c_str sb = Some sv" and "len > 0"
    and "dispatch X (RAuthenticate u sv) peer w = (r, w')" and "carries enc dec X (RAuthenticate u sv) r"
  shows "linhello_authenticate (daemon_link X peer enc dec) (Some ub) (Some sb) (Some m) len (w, out) =
    (Ok (bridged r len m), (w', []))"
  using assms(1,2,3) link_request [OF assms(4,5), of out]
  by (auto simp: linhello_authenticate_def ask_def abind_def try_act_def bridged_def)

lemma verified_evidence:
  "do_verify X user w = (Ok (SVerified True s t), w') \<Longrightarrow> \<exists>u. face_evidence X user w u"
  by (fastforce simp: do_verify_def face_evidence_def res_iff dest!: respond_result)

text \<open>A report other than failure, or a changed buffer, comes from a match of the live face.\<close>

lemma bridged_evidence:
  assumes "dispatch X (RAuthenticate u sv) peer w = (r, w')"
    and "fst (bridged r len m) \<noteq> minus_one \<or> snd (bridged r len m) \<noteq> Some m"
  shows "peer_may_act_as X peer u \<and> validate_user u = Inr () \<and> (\<exists>x. face_evidence X u w x) \<and>
    (snd (bridged r len m) \<noteq> Some m \<longrightarrow> released r \<noteq> None)"
proof -
  from assms(2) consider (secret) s where "r = SPasswordUnsealed s" | (seen) a b where "r = SVerified True a b"
    by (cases r) (auto simp: bridged_def auth_answer_def split: if_splits)
  note cases = this
  then have ne: "\<And>msg. r \<noteq> SError msg" by cases auto
  with assms(1) have o: "peer_may_act_as X peer u" "validate_user u = Inr ()"
    and h: "do_authenticate X u sv (is_root peer) w = (Ok r, w')"
    by (auto simp: dispatch_def own_user_def invalid_user_def forbidden_def spawn_def
        split: if_splits sum.splits prod.splits outcome.splits)
  from cases show ?thesis
  proof cases
    case secret
    then have "released r = Some s" by simp
    from dispatch_released [OF assms(1) this] show ?thesis using o secret by (auto simp: req_user_def)
  next
    case seen
    from h ne have "do_verify X u w = (Ok r, w') \<or> do_unseal_password X u w = (Ok r, w')"
      by (auto simp: do_authenticate_def res_iff split: prod.splits action.splits)
    moreover have "do_unseal_password X u w \<noteq> (Ok r, w')"
      using seen by (auto simp: do_unseal_password_def face_gated_def face_mismatch_def res_iff dest!: respond_result split: if_splits)
    ultimately have "do_verify X u w = (Ok r, w')" by blast
    then show ?thesis using o seen verified_evidence by (fastforce simp: bridged_def auth_answer_def)
  qed
qed

end
