(* ===== verification/PamSpec.thy ===== *)
theory PamSpec
  imports PamFfi Setup
begin

text \<open>
  Properties of the PAM bridge: the memory it writes, and what its answer says once the daemon is at
  the other end of the socket.
\<close>

text \<open>The memory after a call: same size, and nothing past the granted bytes changed.\<close>

definition granted :: "nat \<Rightarrow> bytes \<Rightarrow> bytes option \<Rightarrow> bool" where
  "granted len m b \<longleftrightarrow> (\<exists>m'. b = Some m' \<and> length m' = length m \<and> drop len m' = drop len m)"

lemma granted_same [simp]: "granted len m (Some m)"
  by (simp add: granted_def)

lemma granted_overwrite: "length b \<le> len \<Longrightarrow> len \<le> length m \<Longrightarrow> granted len m (Some (overwrite b m))"
  by (simp add: granted_def drop_overwrite length_overwrite)

lemma granted_overwrite2:
  "length b \<le> len \<Longrightarrow> length c \<le> len \<Longrightarrow> len \<le> length m \<Longrightarrow> granted len m (Some (overwrite c (overwrite b m)))"
  by (simp add: granted_def drop_overwrite length_overwrite)

lemma copy_secret_memory:
  "(n, b) = map_prod id Some (copy_secret s len m) \<Longrightarrow> len \<le> length m \<Longrightarrow> len < 2 ^ 31 \<Longrightarrow>
   granted len m b \<and> (sint n < 0 \<longrightarrow> b = Some m)"
  by (auto simp: copy_secret_def granted_overwrite sint_as_i32 split: if_splits)

text \<open>The four calls that write through a pointer.\<close>

lemma authenticate_memory:
  assumes "len \<le> length m" and "len < 2 ^ 31"
    and "linhello_authenticate S user service (Some m) len w = (Ok (n, b), w')"
  shows "granted len m b \<and> (sint n < 0 \<longrightarrow> b = Some m)"
proof -
  note g = copy_secret_memory [OF _ assms(1,2)]
  have "b = Some m \<and> n = minus_one \<or> (\<exists>r. (n, b) = auth_answer len m r)"
    using assms(3) by (auto simp: linhello_authenticate_def res_iff split: option.splits if_splits)
  then show ?thesis using g auth_answer_cases [of len m] by (metis granted_same minus_one_simps(1) prod.inject sint_0 less_irrefl)
qed

lemma unseal_keyring_memory:
  assumes "len \<le> length m" and "len < 2 ^ 31"
    and "linhello_unseal_keyring S user (Some m) len w = (Ok (n, b), w')"
  shows "granted len m b \<and> (sint n < 0 \<longrightarrow> b = Some m)"
proof -
  note g = copy_secret_memory [OF _ assms(1,2)]
  have "b = Some m \<and> n = minus_one \<or> (\<exists>r. (n, b) = unseal_answer len m r)"
    using assms(3) by (auto simp: linhello_unseal_keyring_def res_iff split: option.splits if_splits)
  then show ?thesis using g unseal_answer_cases [of len m] by (metis granted_same minus_one_simps(1) prod.inject sint_0 less_irrefl)
qed

lemma reseal_memory:
  assumes "len \<le> length m" and "linhello_reseal_password S user (Some m) len w = (Ok (n, b), w')"
  shows "granted len m b"
  using assms by (auto simp: linhello_reseal_password_def res_iff granted_overwrite split: option.splits if_splits)

lemma write_cstr_memory:
  assumes "0 < len" and "len \<le> length m"
  shows "granted len m (write_cstr (Some (overwrite [CHR 0x00] m)) len s) \<and>
    (\<exists>m'. write_cstr (Some (overwrite [CHR 0x00] m)) len s = Some m' \<and> CHR 0x00 \<in> set (take len m'))"
  proof -
  obtain k l where "len = Suc k" "length m = Suc l" using assms by (cases len; cases "length m") auto
  moreover obtain x xs where "m = x # xs" using assms by (cases m) auto
  ultimately show ?thesis
    using assms by (auto simp: write_cstr_def granted_def overwrite_def min_def drop_Cons' take_Cons')
qed

lemma will_capture_memory:
  assumes "0 < len" and "len \<le> length m"
    and "linhello_auth_will_capture S user service (Some m) len w = (Ok (n, b), w')"
  shows "granted len m b \<and> (\<exists>m'. b = Some m' \<and> CHR 0x00 \<in> set (take len m'))"
proof -
  let ?o = "Some (overwrite [CHR 0x00] m)"
  have o: "granted len m ?o \<and> (\<exists>m'. ?o = Some m' \<and> CHR 0x00 \<in> set (take len m'))"
    using assms(1,2) by (cases len; cases m) (auto simp: granted_def overwrite_def)
  have "b = ?o \<or> (\<exists>s. b = write_cstr ?o len s)"
    using assms plan_answer_cases [of len ?o]
    by (auto simp: linhello_auth_will_capture_def Let_def res_iff dest: arg_cong [of _ _ snd] split: option.splits if_splits) (metis snd_conv)+
  then show ?thesis using o write_cstr_memory [OF assms(1,2)] by metis
qed

text \<open>
  C21. The bridge writes no byte outside the buffer the C caller granted, whatever the daemon
  answers: the memory keeps its length and everything past \<open>len\<close>. A negative answer leaves the
  secret buffer as it was, and the pre-flight call leaves its notice NUL-terminated inside the
  buffer.
\<close>

theorem bridge_memory:
  assumes "len \<le> length m" and "len < 2 ^ 31" and "0 < len"
  shows "(linhello_authenticate S user service (Some m) len w = (Ok (n, b), w') \<longrightarrow>
       granted len m b \<and> (sint n < 0 \<longrightarrow> b = Some m)) \<and>
    (linhello_unseal_keyring S user (Some m) len w = (Ok (n, b), w') \<longrightarrow>
       granted len m b \<and> (sint n < 0 \<longrightarrow> b = Some m)) \<and>
    (linhello_reseal_password S user (Some m) len w = (Ok (n, b), w') \<longrightarrow> granted len m b) \<and>
    (linhello_auth_will_capture S user service (Some m) len w = (Ok (n, b), w') \<longrightarrow>
       granted len m b \<and> (\<exists>m'. b = Some m' \<and> CHR 0x00 \<in> set (take len m')))"
  using authenticate_memory [OF assms(1,2), of S user service w n b w']
    unseal_keyring_memory [OF assms(1,2), of S user w n b w'] reseal_memory [OF assms(1), of S user w n b w']
    will_capture_memory [OF assms(3,1), of S user service w n b w'] by blast

text \<open>The link the examples use: requests and answers of the demonstration codec.\<close>

definition demo_link :: "((soft_tpm, nat) world \<times> bytes) sockets" where
  "demo_link = daemon_link demo_ext (Some 0) (\<lambda>_. Inr ''A'') (\<lambda>s. Inr (SPasswordUnsealed (butlast s)))"

definition demo_user :: bytes where "demo_user = ''alice'' @ [CHR 0x00]"
definition demo_service :: bytes where "demo_service = ''sudo'' @ [CHR 0x00]"
definition demo_buffer :: bytes where "demo_buffer = replicate 80 (CHR ''x'')"

lemma demo_strings: "c_user (Some demo_user) = Some ''alice''" "c_str demo_service = Some ''sudo''"
  by (simp_all add: c_user_def c_str_def demo_user_def demo_service_def Let_def)

lemma demo_carries:
  "carries (\<lambda>_. Inr ''A'') (\<lambda>s. Inr (SPasswordUnsealed (butlast s))) demo_ext
     (RAuthenticate ''alice'' ''sudo'') (SPasswordUnsealed demo_password)"
  by (simp add: carries_def text_line_def demo_ext_def max_request_bytes_def demo_password_def no_ws_end_def
      head_token_def ws_tokens_def)

lemma demo_bridge:
  "\<exists>w'. linhello_authenticate demo_link (Some demo_user) (Some demo_service) (Some demo_buffer) 64 (demo_world, []) =
    (Ok (as_i32 (length demo_password), Some (overwrite demo_password demo_buffer)), (w', []))"
proof -
  obtain w' where d: "dispatch demo_ext (RAuthenticate ''alice'' ''sudo'') (Some 0) demo_world =
      (SPasswordUnsealed demo_password, w')"
    using demo_auth_release by blast
  show ?thesis
    using authenticate_bridged [OF demo_strings _ d demo_carries, of 64 demo_buffer "[]"]
    by (auto simp: demo_link_def bridged_def auth_answer_def copy_secret_def demo_password_def)
qed

lemma demo_changed: "Some (overwrite demo_password demo_buffer) \<noteq> Some demo_buffer"
proof -
  have "hd (overwrite demo_password demo_buffer) \<noteq> hd demo_buffer"
    by (simp add: overwrite_def demo_password_def demo_buffer_def)
  then show ?thesis by force
qed

theorem bridge_memory_witness:
  "\<exists>n b s. linhello_authenticate demo_link (Some demo_user) (Some demo_service) (Some demo_buffer) 64 (demo_world, []) =
     (Ok (n, b), s) \<and> granted 64 demo_buffer b \<and> b \<noteq> Some demo_buffer"
proof -
  obtain w' where r: "linhello_authenticate demo_link (Some demo_user) (Some demo_service) (Some demo_buffer) 64 (demo_world, []) =
    (Ok (as_i32 (length demo_password), Some (overwrite demo_password demo_buffer)), (w', []))"
    using demo_bridge by blast
  have "granted 64 demo_buffer (Some (overwrite demo_password demo_buffer))"
    using bridge_memory [of 64 demo_buffer demo_link "Some demo_user" "Some demo_service" "(demo_world, [])"
        "as_i32 (length demo_password)" "Some (overwrite demo_password demo_buffer)" "(w', [])"] r
    by (simp add: demo_buffer_def)
  then show ?thesis using r demo_changed by blast
qed

text \<open>
  C22. The PAM module reports success, or changes the caller's buffer, only after the daemon matched
  the live face of that very call: the service name and user it was given were put to the daemon,
  which accepted the calling process for the account, loaded the user's samples and found one that
  the captured face reaches at a threshold inside the allowed interval. A changed buffer moreover
  means a root caller, the secure tier and face as the active method.
\<close>

theorem pam_success_is_face:
  assumes "c_user (Some ub) = Some u" and "c_str sb = Some sv" and "0 < len" and "thr_ok w"
    and "carries enc dec X (RAuthenticate u sv) (fst (dispatch X (RAuthenticate u sv) peer w))"
    and "linhello_authenticate (daemon_link X peer enc dec) (Some ub) (Some sb) (Some m) len (w, out) = (Ok (n, b), st)"
    and "n \<noteq> minus_one \<or> b \<noteq> Some m"
  shows "peer_may_act_as X peer u \<and> validate_user u = Inr () \<and>
    (\<exists>samples v live signals x t smp. load_user_samples X u w = (Ok samples, v) \<and>
       capture_and_embed_signals X v = (Ok (live, signals), x) \<and> ir_gate_check X u signals x = Inr () \<and>
       f_in min_threshold max_threshold t \<and> smp \<in> set samples \<and> f_le t (cosine live smp)) \<and>
    (b \<noteq> Some m \<longrightarrow> is_root peer \<and> effective_tier X u w = Secure \<and> face_is_active_method w)"
proof -
  obtain r w' where d: "dispatch X (RAuthenticate u sv) peer w = (r, w')" by fastforce
  then have e: "(n, b) = bridged r len m"
    using authenticate_bridged [OF assms(1,2,3) d, of enc dec m out] assms(5,6) by simp
  from bridged_evidence [OF d, of len m] e assms(7)
  obtain x where "peer_may_act_as X peer u" "validate_user u = Inr ()" "face_evidence X u w x"
    and rel: "b \<noteq> Some m \<longrightarrow> released r \<noteq> None"
    by (metis fst_conv snd_conv)
  moreover from face_evidence_match [OF this(3) assms(4)] have
    "\<exists>samples v live signals x t smp. load_user_samples X u w = (Ok samples, v) \<and>
       capture_and_embed_signals X v = (Ok (live, signals), x) \<and> ir_gate_check X u signals x = Inr () \<and>
       f_in min_threshold max_threshold t \<and> smp \<in> set samples \<and> f_le t (cosine live smp)"
    by blast
  ultimately show ?thesis using authenticate_released [OF d] by simp
qed

theorem pam_success_is_face_witness:
  "\<exists>n b s. linhello_authenticate demo_link (Some demo_user) (Some demo_service) (Some demo_buffer) 64 (demo_world, []) =
     (Ok (n, b), s) \<and> b \<noteq> Some demo_buffer \<and> effective_tier demo_ext ''alice'' demo_world = Secure"
proof -
  obtain w' where d: "dispatch demo_ext (RAuthenticate ''alice'' ''sudo'') (Some 0) demo_world =
      (SPasswordUnsealed demo_password, w')"
    using demo_auth_release by blast
  obtain s where r: "linhello_authenticate demo_link (Some demo_user) (Some demo_service) (Some demo_buffer) 64 (demo_world, []) =
    (Ok (as_i32 (length demo_password), Some (overwrite demo_password demo_buffer)), s)"
    using demo_bridge by blast
  have "effective_tier demo_ext ''alice'' demo_world = Secure"
    using pam_success_is_face [OF demo_strings, of 64 demo_world "\<lambda>_. Inr ''A''"
        "\<lambda>s. Inr (SPasswordUnsealed (butlast s))" demo_ext "Some 0" demo_buffer "[]"] r demo_changed d demo_carries
    by (simp add: demo_link_def thr_ok_def demo_world_def)
  then show ?thesis using r demo_changed by blast
qed

text \<open>
  The login password a PAM password change hands over is wiped: once the call gets past its
  checks the whole buffer the caller granted is zero, whether the daemon seals, refuses or cannot be
  reached, and the daemon was asked to seal exactly these bytes. A user name that is missing,
  empty or not UTF-8 leaves the plaintext in the buffer.
\<close>

theorem reseal_wipes:
  assumes "linhello_reseal_password S user (Some m) len w = (Ok (n, b), w')" and "0 < len" and "len \<le> length m"
  shows "case c_user user of
      Some u \<Rightarrow> b = Some (replicate len (CHR 0x00) @ drop len m) \<and>
        (n = 0 \<longleftrightarrow> send_request S (RSealPassword u (take len m)) w = (Ok SPasswordSealed, w'))
    | None \<Rightarrow> b = Some m \<and> n = minus_one \<and> w' = w"
proof (cases "c_user user")
  case None
  then show ?thesis using assms by (cases "user = None") (auto simp: linhello_reseal_password_def)
next
  case (Some u)
  then have "user \<noteq> None" by (cases user) (auto simp: c_user_def)
  then obtain r where r: "send_request S (RSealPassword u (take len m)) w = (Ok r, w') \<and> n = (case r of SPasswordSealed \<Rightarrow> 0 | _ \<Rightarrow> minus_one)
      \<or> (\<exists>e. send_request S (RSealPassword u (take len m)) w = (Err e, w')) \<and> n = minus_one"
    and b: "b = Some (overwrite (replicate len (CHR 0x00)) m)"
    using assms Some by (fastforce simp: linhello_reseal_password_def res_iff)
  have "(case r of SPasswordSealed \<Rightarrow> 0 | _ \<Rightarrow> minus_one) = 0 \<longleftrightarrow> r = SPasswordSealed"
    by (cases r) auto
  then show ?thesis using r b Some by (auto simp: overwrite_def)
qed

text \<open>The daemon refused: the request has no answer, and the buffer is zero.\<close>

definition dead_link :: "nat sockets" where
  "dead_link = \<lparr>sk_env = (\<lambda>_. None), sk_connect = (\<lambda>_ _ w. (None, w)), sk_read_timeout = (\<lambda>_ _. ret ()),
     sk_write_timeout = (\<lambda>_ _. ret ()), sk_write_all = (\<lambda>_ _. ret ()), sk_flush = (\<lambda>_. ret ()),
     sk_read_until_nl = (\<lambda>_. ret []), sk_req_json = (\<lambda>_. Inr ''A''), sk_resp_of_json = (\<lambda>_. Inr SPasswordSealed)\<rparr>"

theorem reseal_wipes_witness:
  "\<exists>n b w'. linhello_reseal_password dead_link (Some demo_user) (Some ''hunter2'') 7 0 = (Ok (n, b), w') \<and>
     b = Some (replicate 7 (CHR 0x00)) \<and> n \<noteq> 0"
proof -
  have q: "send_request dead_link (RSealPassword ''alice'' ''hunter2'') 0 = (Err (Io TimedOut), 0)"
    by (simp add: send_request_def request_at_def connect_with_timeout_def abind_def dead_link_def)
  then have "linhello_reseal_password dead_link (Some demo_user) (Some ''hunter2'') 7 0 =
      (Ok (minus_one, Some (replicate 7 (CHR 0x00))), 0)"
    using demo_strings(1) by (simp add: linhello_reseal_password_def ask_def abind_def try_act_def overwrite_def)
  then show ?thesis
    using reseal_wipes [of dead_link "Some demo_user" "''hunter2''" 7 0 minus_one] demo_strings(1) q by fastforce
qed

end
