(* ===== verification/Update.thy ===== *)
theory Update
  imports PamWire Ipc
begin

text \<open>
  The check for a newer release, crates/linhello-cli/src/update.rs. \<open>system\<close> extends the shell of
  the tools by the wall clock and by what the installer needs: commands with a working directory and
  environment, directory listings, file owners and the facts of the running process.
\<close>

record 'w system = "'w shell" +
  clock :: "'w \<Rightarrow> nat"
  exec_in :: "string \<Rightarrow> (string \<times> string) list \<Rightarrow> string \<Rightarrow> string list \<Rightarrow> ('w, string, bool \<times> bytes \<times> bytes) act"
  list_dir :: "string \<Rightarrow> 'w \<Rightarrow> string list option"
  file_uid :: "string \<Rightarrow> 'w \<Rightarrow> nat option"
  make_symlink :: "string \<Rightarrow> string \<Rightarrow> ('w, io_error, unit) act"
  chown_uid :: "string \<Rightarrow> nat \<Rightarrow> ('w, io_error, unit) act"
  current_exe :: "string option"
  euid :: nat
  pid :: nat
  daemon_send :: "request \<Rightarrow> ('w, string, response) act"

section \<open>Running a command for its status or its output\<close>

definition succeeded :: "('w, 'y) system_scheme \<Rightarrow> string \<Rightarrow> string list \<Rightarrow> ('w, 'e, bool) act" where
  "succeeded S prog args =
     abind (try_act (cmd_output S prog args)) (\<lambda>r.
     ret (case r of Inl _ \<Rightarrow> False | Inr (ok, _, _) \<Rightarrow> ok))"

definition stdout_of :: "('w, 'y) system_scheme \<Rightarrow> string \<Rightarrow> string list \<Rightarrow> ('w, 'e, string option) act" where
  "stdout_of S prog args =
     abind (try_act (cmd_output S prog args)) (\<lambda>r.
     ret (case r of Inl _ \<Rightarrow> None | Inr (ok, out, _) \<Rightarrow> if ok then Some (utf8_lossy out) else None))"

section \<open>Versions\<close>

definition repo_url :: string where "repo_url = ''https://github.com/archledger/linhello''"
definition cache_path :: string where "cache_path = ''/var/cache/linhello/update-check''"
definition cache_ttl :: nat where "cache_ttl = 24 * 60 * 60"
definition running_version :: string where "running_version = ''0.6.3''"

definition no_v :: "string \<Rightarrow> string" where
  "no_v s = dropWhile (\<lambda>c. c \<in> {CHR ''v'', CHR ''V''}) (trim s)"

definition strip_v :: "string \<Rightarrow> string" where "strip_v s = no_v s"

definition version_core :: "string \<Rightarrow> string" where
  "version_core s = takeWhile (\<lambda>c. c \<notin> {CHR ''-'', CHR ''+'', CHR ''~'', CHR ''_'', CHR '' ''}) s"

definition parse_version :: "string \<Rightarrow> nat list" where
  "parse_version s =
     map (\<lambda>p. unwrap_or 0 (parse_usize (trim p))) (split_on (CHR ''.'') (version_core (no_v s)))"

datatype ordering = Less | Equal | Greater

definition cmp_nat :: "nat \<Rightarrow> nat \<Rightarrow> ordering" where
  "cmp_nat x y = (if x < y then Less else if x = y then Equal else Greater)"

definition component :: "nat list \<Rightarrow> nat \<Rightarrow> nat" where
  "component v i = (if i < length v then v ! i else 0)"

fun cmp_from :: "nat list \<Rightarrow> nat list \<Rightarrow> nat list \<Rightarrow> ordering" where
  "cmp_from va vb [] = Equal"
| "cmp_from va vb (i # idx) =
     (case cmp_nat (component va i) (component vb i) of Equal \<Rightarrow> cmp_from va vb idx | other \<Rightarrow> other)"

definition cmp_version :: "string \<Rightarrow> string \<Rightarrow> ordering" where
  "cmp_version a b =
     (let va = parse_version a; vb = parse_version b
      in cmp_from va vb [0..<max (length va) (length vb)])"

text \<open>\<open>Iterator::max_by\<close>: the last of the greatest elements.\<close>

fun max_by :: "('a \<Rightarrow> 'a \<Rightarrow> ordering) \<Rightarrow> 'a list \<Rightarrow> 'a option" where
  "max_by cmp [] = None"
| "max_by cmp (x # xs) = Some (foldl (\<lambda>m y. if cmp m y = Greater then m else y) x xs)"

record update_status =
  us_current :: string
  us_latest :: "string option"

definition newer_available :: "update_status \<Rightarrow> bool" where
  "newer_available st = (case us_latest st of
      Some l \<Rightarrow> cmp_version l (us_current st) = Greater
    | None \<Rightarrow> False)"

section \<open>The sources\<close>

definition rpm_installed :: "('w, 'y) system_scheme \<Rightarrow> ('w, 'e, bool) act" where
  "rpm_installed S = succeeded S ''rpm'' [''-q'', ''linhello'']"

definition update_hint :: "('z host_scheme, 'y) system_scheme \<Rightarrow> ('z host_scheme, 'e, string) act" where
  "update_hint S =
     abind (query distro_family) (\<lambda>family.
     abind (if family = Fedora then rpm_installed S else ret False) (\<lambda>rpm.
     ret (if rpm then ''sudo dnf upgrade linhello'' else ''sudo linhello update'')))"

definition last_segment :: "string \<Rightarrow> string" where
  "last_segment l = last (split_on (CHR ''/'') l)"

definition git_tags :: "string \<Rightarrow> string list" where
  "git_tags out = filter (\<lambda>t. t \<noteq> []) (map (\<lambda>l. trim (last_segment l)) (str_lines out))"

definition latest_git :: "('w, 'y) system_scheme \<Rightarrow> ('w, 'e, string option) act" where
  "latest_git S =
     abind (stdout_of S ''git'' [''ls-remote'', ''--tags'', ''--refs'', repo_url, ''v*'']) (\<lambda>out.
     ret (case out of None \<Rightarrow> None | Some s \<Rightarrow> max_by cmp_version (git_tags s)))"

definition dnf_version :: "string \<Rightarrow> string option" where
  "dnf_version out =
     opt_filter (\<lambda>v. v \<noteq> [])
       (Some (unwrap_or [] (find (\<lambda>l. case l of [] \<Rightarrow> False | b # _ \<Rightarrow> is_digit b) (map trim (str_lines out)))))"

definition latest_dnf :: "('w, 'y) system_scheme \<Rightarrow> ('w, 'e, string option) act" where
  "latest_dnf S =
     abind (stdout_of S ''dnf'' [''-q'', ''-C'', ''repoquery'', ''--available'', ''--latest-limit=1'',
        ''--qf=%{version}'', ''linhello'']) (\<lambda>out.
     ret (Option.bind out dnf_version))"

definition opt_list :: "'a option \<Rightarrow> 'a list" where
  "opt_list x = (case x of None \<Rightarrow> [] | Some a \<Rightarrow> [a])"

definition newest :: "string list \<Rightarrow> string option" where
  "newest raw = max_by cmp_version (map strip_v raw)"

definition fetch_latest :: "('z host_scheme, 'y) system_scheme \<Rightarrow> ('z host_scheme, 'e, string option) act" where
  "fetch_latest S =
     abind (query distro_family) (\<lambda>family.
     abind (if family = Fedora then latest_dnf S else ret None) (\<lambda>dnf.
     abind (latest_git S) (\<lambda>git.
     ret (newest (opt_list dnf @ opt_list git)))))"

section \<open>The cache\<close>

definition cache_latest :: "nat \<Rightarrow> string \<Rightarrow> string option" where
  "cache_latest now text = (case str_lines text of
      l1 # l2 # _ \<Rightarrow> (case parse_usize (trim l1) of
          None \<Rightarrow> None
        | Some ts \<Rightarrow> if trim l2 = [] \<or> now - ts > cache_ttl then None else Some (trim l2))
    | _ \<Rightarrow> None)"

definition read_cache :: "('z host_scheme, 'y) system_scheme \<Rightarrow> 'z host_scheme \<Rightarrow> string option" where
  "read_cache S w = Option.bind (res_ok (fs_read_to_string cache_path w)) (cache_latest (clock S w))"

definition cache_text :: "nat \<Rightarrow> string \<Rightarrow> string" where
  "cache_text now latest = show_nat now @ [nl] @ latest @ [nl]"

definition write_cache :: "('z host_scheme, 'y) system_scheme \<Rightarrow> string \<Rightarrow> ('z host_scheme, 'e, unit) act" where
  "write_cache S latest =
     abind (case parent cache_path of None \<Rightarrow> ret () | Some dir \<Rightarrow> ignore (fs_create_dir_all dir)) (\<lambda>_.
     abind (query (clock S)) (\<lambda>now.
     ignore (fs_write cache_path (cache_text now latest))))"

definition live_status :: "('z host_scheme, 'y) system_scheme \<Rightarrow> ('z host_scheme, 'e, update_status) act" where
  "live_status S =
     abind (fetch_latest S) (\<lambda>latest.
     abind (case latest of None \<Rightarrow> ret () | Some v \<Rightarrow> write_cache S v) (\<lambda>_.
     ret \<lparr>us_current = running_version, us_latest = latest\<rparr>))"

definition cached_status :: "('z host_scheme, 'y) system_scheme \<Rightarrow> ('z host_scheme, 'e, update_status) act" where
  "cached_status S =
     abind (query (read_cache S)) (\<lambda>hit. case hit of
       Some latest \<Rightarrow> ret \<lparr>us_current = running_version, us_latest = Some latest\<rparr>
     | None \<Rightarrow> live_status S)"

section \<open>The order of versions\<close>

lemma cmp_nat_simps [simp]:
  "cmp_nat x y = Less \<longleftrightarrow> x < y" "cmp_nat x y = Equal \<longleftrightarrow> x = y" "cmp_nat x y = Greater \<longleftrightarrow> x > y"
  by (auto simp: cmp_nat_def)

lemma cmp_nat_swap: "cmp_nat x y = Less \<longleftrightarrow> cmp_nat y x = Greater"
  by simp

lemma cmp_from_Equal: "cmp_from va vb idx = Equal \<longleftrightarrow> (\<forall>i\<in>set idx. component va i = component vb i)"
  by (induction va vb idx rule: cmp_from.induct) (auto split: ordering.split)

lemma cmp_from_Greater:
  "cmp_from va vb idx = Greater \<longleftrightarrow>
     (\<exists>k<length idx. component va (idx ! k) > component vb (idx ! k) \<and>
        (\<forall>j<k. component va (idx ! j) = component vb (idx ! j)))"
proof (induction va vb idx rule: cmp_from.induct)
  case (2 va vb i idx)
  show ?case
    using "2.IH"
    by (cases "component va i" "component vb i" rule: linorder_cases)
      (simp_all add: cmp_nat_def Ex_less_Suc2 All_less_Suc2)
qed simp

lemma cmp_upto_Greater:
  "cmp_from va vb [0..<n] = Greater \<longleftrightarrow>
     (\<exists>k<n. component va k > component vb k \<and> (\<forall>j<k. component va j = component vb j))"
  unfolding cmp_from_Greater by (intro ex_cong1 conj_cong) auto

lemma cmp_from_swap: "cmp_from va vb idx = Less \<longleftrightarrow> cmp_from vb va idx = Greater"
  by (induction va vb idx rule: cmp_from.induct) (auto split: ordering.split simp: cmp_nat_def)

lemma component_beyond: "length v \<le> i \<Longrightarrow> component v i = 0"
  by (simp add: component_def)

text \<open>The version as an infinite sequence of numbers, zero from some point on.\<close>

definition version_seq :: "string \<Rightarrow> nat \<Rightarrow> nat" where
  "version_seq s = component (parse_version s)"

definition seq_greater :: "(nat \<Rightarrow> nat) \<Rightarrow> (nat \<Rightarrow> nat) \<Rightarrow> bool" where
  "seq_greater f g \<longleftrightarrow> (\<exists>k. f k > g k \<and> (\<forall>j<k. f j = g j))"

lemma cmp_version_Greater: "cmp_version a b = Greater \<longleftrightarrow> seq_greater (version_seq a) (version_seq b)"
proof -
  let ?va = "parse_version a" and ?vb = "parse_version b"
  have "k < max (length ?va) (length ?vb)" if "component ?va k > component ?vb k" for k
  proof (rule ccontr)
    assume "\<not> k < max (length ?va) (length ?vb)"
    then have "component ?va k = 0" by (intro component_beyond) simp
    with that show False by simp
  qed
  then show ?thesis
    by (auto simp: cmp_version_def Let_def cmp_upto_Greater seq_greater_def version_seq_def)
qed

lemma cmp_version_Equal: "cmp_version a b = Equal \<longleftrightarrow> version_seq a = version_seq b"
proof -
  let ?va = "parse_version a" and ?vb = "parse_version b"
  have "component ?va i = component ?vb i" if "\<not> i < max (length ?va) (length ?vb)" for i
    using that by (simp add: component_beyond)
  then show ?thesis
    by (auto simp: cmp_version_def Let_def cmp_from_Equal version_seq_def fun_eq_iff)
qed

lemma cmp_version_swap: "cmp_version a b = Less \<longleftrightarrow> cmp_version b a = Greater"
  by (simp add: cmp_version_def Let_def cmp_from_swap max.commute)

lemma seq_greater_trans: "seq_greater f g \<Longrightarrow> seq_greater g h \<Longrightarrow> seq_greater f h"
proof -
  assume "seq_greater f g" "seq_greater g h"
  then obtain k l where k: "g k < f k" "\<forall>j<k. f j = g j" and l: "h l < g l" "\<forall>j<l. g j = h j"
    by (auto simp: seq_greater_def)
  have "h (min k l) < f (min k l)"
    using k l by (cases k l rule: linorder_cases) (auto simp: min_def)
  moreover have "\<forall>j<min k l. f j = h j" using k l by auto
  ultimately show ?thesis by (auto simp: seq_greater_def)
qed

lemma seq_greater_irrefl: "\<not> seq_greater f f"
  by (simp add: seq_greater_def)

lemma cmp_version_trans:
  "cmp_version a b \<noteq> Less \<Longrightarrow> cmp_version b c \<noteq> Less \<Longrightarrow> cmp_version a c \<noteq> Less"
proof -
  have ge: "cmp_version x y \<noteq> Less \<longleftrightarrow> version_seq x = version_seq y \<or> seq_greater (version_seq x) (version_seq y)" for x y
    by (cases "cmp_version x y") (simp_all flip: cmp_version_Equal cmp_version_Greater)
  show "cmp_version a b \<noteq> Less \<Longrightarrow> cmp_version b c \<noteq> Less \<Longrightarrow> cmp_version a c \<noteq> Less"
    unfolding ge using seq_greater_trans by metis
qed

text \<open>\<open>max_by\<close> picks an element nothing exceeds.\<close>

lemma foldl_max:
  fixes x xs
  defines "m \<equiv> foldl (\<lambda>m y. if cmp_version m y = Greater then m else y) x xs"
  shows "m \<in> set (x # xs) \<and> (\<forall>y\<in>set (x # xs). cmp_version m y \<noteq> Less)"
  unfolding m_def
proof (induction xs arbitrary: x)
  case Nil
  then show ?case using cmp_version_Equal [of x x] by auto
next
  case (Cons y ys)
  let ?x = "if cmp_version x y = Greater then x else y"
  let ?m = "foldl (\<lambda>m y. if cmp_version m y = Greater then m else y) ?x ys"
  have x: "cmp_version ?x x \<noteq> Less" "cmp_version ?x y \<noteq> Less"
    using cmp_version_swap [of y x] cmp_version_Equal [of x x] cmp_version_Equal [of y y] by auto
  from Cons [of ?x] have m: "?m \<in> set (?x # ys)" "cmp_version ?m ?x \<noteq> Less" "\<forall>z\<in>set ys. cmp_version ?m z \<noteq> Less"
    by auto
  from m(1) have "?m \<in> set (x # y # ys)" by auto
  moreover have "cmp_version ?m x \<noteq> Less" "cmp_version ?m y \<noteq> Less"
    using cmp_version_trans [OF m(2) x(1)] cmp_version_trans [OF m(2) x(2)] by blast+
  ultimately show ?case using m(3) by simp
qed

lemma max_by_version:
  "max_by cmp_version xs = Some m \<Longrightarrow> m \<in> set xs \<and> (\<forall>y\<in>set xs. cmp_version m y \<noteq> Less)"
  using foldl_max by (cases xs) auto

end
