(* ===== verification/Install.thy ===== *)
theory Install
  imports Update
begin

text \<open>
  Deployment state, installation and the signed update, crates/linhello-cli/src/install.rs. Every
  external command goes through \<open>system\<close>; a command may change the host. The messages returned
  for the user are the source's, and an error is its text.
\<close>

definition ellipsis :: string where "ellipsis = [CHR 0xE2, CHR 0x80, CHR 0xA6]"
definition arrow :: string where "arrow = [CHR 0xE2, CHR 0x86, CHR 0x92]"

definition tools :: "('w, 'y) system_scheme \<Rightarrow> 'w shell" where
  "tools S = \<lparr>cmd_output = cmd_output S\<rparr>"

section \<open>The state of the installation\<close>

definition bin_dirs :: "string list" where "bin_dirs = [''/usr/local/bin'', ''/usr/bin'']"

record model_status =
  ms_file :: string
  ms_role :: string
  ms_required :: bool
  ms_shipped :: bool
  ms_present :: bool

definition model_catalog :: "(string \<times> string \<times> bool \<times> bool) list" where
  "model_catalog =
     [(''det_10g.onnx'', ''detector (buffalo_l)'', True, False),
      (''face.onnx'', ''recognizer (buffalo_l)'', True, False),
      (''antispoof.onnx'', ''anti-spoof'', False, True),
      (''antispoof_4.onnx'', ''anti-spoof (secondary)'', False, True)]"

record install_state =
  cli_bin :: "string option"
  daemon_bin :: "string option"
  daemon_active :: bool
  daemon_enabled :: bool
  inst_models :: "model_status list"
  models_present :: bool
  missing_models :: "string list"
  camera_configured :: bool
  inst_threshold :: "string option"
  enrolled_users :: "string list"
  pam_wired :: nat
  pam_total :: nat

definition find_bin :: "string \<Rightarrow> 'z host_scheme \<Rightarrow> string option" where
  "find_bin name w = find (\<lambda>p. path_exists p w) (map (\<lambda>d. path_join d name) bin_dirs)"

definition systemd_state :: "('w, 'y) system_scheme \<Rightarrow> string \<Rightarrow> ('w, 'e, bool \<times> bool) act" where
  "systemd_state S unit =
     abind (succeeded S ''systemctl'' [''is-active'', unit]) (\<lambda>a.
     abind (succeeded S ''systemctl'' [''is-enabled'', unit]) (\<lambda>e. ret (a, e)))"

definition model_states :: "'z host_scheme \<Rightarrow> model_status list" where
  "model_states w =
     map (\<lambda>(file, role, required, shipped).
       \<lparr>ms_file = file, ms_role = role, ms_required = required, ms_shipped = shipped,
        ms_present = path_exists (path_join config_root file) w\<rparr>) model_catalog"

definition stored_users :: "'z host_scheme \<Rightarrow> string list" where
  "stored_users w = sort_paths (filter (\<lambda>u. utf8_valid u \<and>
     (let dir = path_join config_root u in
      path_exists (path_join dir ''embedding.enc'') w \<or> path_exists (path_join dir ''embedding.bin'') w))
     (subdirs config_root w))"

definition detect_install :: "('z host_scheme, 'y) system_scheme \<Rightarrow> ('z host_scheme, 'e, install_state) act" where
  "detect_install S =
     abind (query (find_bin ''linhello'')) (\<lambda>cli.
     abind (query (find_bin ''linhellod'')) (\<lambda>dbin.
     abind (systemd_state S ''linhellod'') (\<lambda>(active, enabled).
     abind (query model_states) (\<lambda>models.
     abind (query pam_status) (\<lambda>pam.
     query (\<lambda>w.
       let missing = map ms_file (filter (\<lambda>m. ms_required m \<and> \<not> ms_present m) models) in
       \<lparr>cli_bin = cli, daemon_bin = dbin, daemon_active = active, daemon_enabled = enabled,
        inst_models = models, models_present = (missing = []), missing_models = missing,
        camera_configured = path_exists (config_path ''cameras.conf'') w,
        inst_threshold = read_kv ''settings.conf'' ''match_threshold'' w,
        enrolled_users = stored_users w,
        pam_wired = length (filter st_wired pam), pam_total = length pam\<rparr>))))))"

definition is_installed :: "install_state \<Rightarrow> bool" where
  "is_installed st \<longleftrightarrow> cli_bin st \<noteq> None \<or> daemon_bin st \<noteq> None \<or> daemon_active st"

definition is_configured :: "install_state \<Rightarrow> bool" where
  "is_configured st \<longleftrightarrow> is_installed st \<and> enrolled_users st \<noteq> []"

definition headline :: "install_state \<Rightarrow> string" where
  "headline st =
     (if \<not> is_installed st
      then ''No prior LinuxHello install detected '' @ em_dash @ '' this is a fresh setup.''
      else if \<not> is_configured st
      then ''LinuxHello is '' @ (if daemon_active st then ''running'' else ''installed, not running'') @
           '' but no face is enrolled yet.''
      else ''LinuxHello is already set up '' @ em_dash @ '' enrolled: '' @ join_with '', '' (enrolled_users st) @
           ''; '' @
           (if pam_wired st > 0
            then ''face login ON ('' @ show_nat (pam_wired st) @ ''/'' @ show_nat (pam_total st) @ '' services)''
            else ''face login OFF'') @ ''.'')"

definition yn :: "bool \<Rightarrow> string" where "yn b = (if b then ''yes'' else ''no'')"

definition detail_lines :: "install_state \<Rightarrow> string list" where
  "detail_lines st =
     (let present = length (filter ms_present (inst_models st));
          total = length (inst_models st);
          lines =
            [''binaries     '' @ (case cli_bin st of Some c \<Rightarrow> c
               | None \<Rightarrow> (case daemon_bin st of Some d \<Rightarrow> d | None \<Rightarrow> ''not found on PATH'')),
             ''daemon       active='' @ yn (daemon_active st) @ '' enabled='' @ yn (daemon_enabled st),
             (if models_present st then ''models       '' @ show_nat present @ ''/'' @ show_nat total @ '' present''
              else ''models       '' @ show_nat present @ ''/'' @ show_nat total @ '' '' @ em_dash @ '' need: '' @
                   join_with '', '' (missing_models st)),
             ''camera       '' @ (if camera_configured st then ''pinned (cameras.conf)'' else ''auto-detect (no cameras.conf)''),
             ''threshold    '' @ unwrap_or ''default 0.60'' (inst_threshold st),
             ''enrolled     '' @ (if enrolled_users st = [] then ''none'' else join_with '', '' (enrolled_users st)),
             ''login wiring '' @ show_nat (pam_wired st) @ ''/'' @ show_nat (pam_total st) @ '' services'']
      in if \<not> is_installed st then ''(nothing installed here yet)'' # lines else lines)"

section \<open>Where to install from\<close>

definition required_for_copy :: "(string \<times> bool) list" where
  "required_for_copy = [(''det_10g.onnx'', True), (''face.onnx'', True), (''antispoof.onnx'', False)]"

definition bundle_required :: "string list" where
  "bundle_required = [''det_10g.onnx'', ''face.onnx'']"

definition source_root :: "('z host_scheme, 'y) system_scheme \<Rightarrow> 'z host_scheme \<Rightarrow> string option" where
  "source_root S w =
     (case opt_filter (\<lambda>s. path_exists (path_join s ''Makefile'') w) (env_vars w ''LINHELLO_SRC'') of
        Some p \<Rightarrow> Some p
      | None \<Rightarrow> (case current_exe S of
            None \<Rightarrow> None
          | Some exe \<Rightarrow> (case drop 3 (exe # ancestors exe) of
                [] \<Rightarrow> None
              | src # _ \<Rightarrow> if path_exists (path_join src ''Makefile'') w then Some src else None)))"

definition bundled_models_dir :: "('z host_scheme, 'y) system_scheme \<Rightarrow> 'z host_scheme \<Rightarrow> string option" where
  "bundled_models_dir S w =
     find (\<lambda>d. list_all (\<lambda>m. path_exists (path_join d m) w) bundle_required)
       (opt_list (env_vars w ''LINHELLO_MODELS_DIR'') @
        map (\<lambda>src. path_join src ''models'') (opt_list (source_root S w)) @
        [''/usr/share/linhello/models''])"

section \<open>Commands\<close>

definition not_runnable :: "string \<Rightarrow> string \<Rightarrow> string" where
  "not_runnable prog e = ''running '' @ prog @ '': '' @ e @ '' (is it installed system-wide?)''"

definition as_uid :: "nat \<Rightarrow> string" where "as_uid u = ''#'' @ show_nat u"

definition run_streamed ::
  "('w, 'y) system_scheme \<Rightarrow> nat option \<Rightarrow> string \<Rightarrow> string \<Rightarrow> string list \<Rightarrow> ('w, string, unit) act" where
  "run_streamed S uid cwd prog args =
     abind (amap_err (not_runnable prog) (case uid of
         Some u \<Rightarrow> exec_in S cwd [] ''sudo'' ([''-u'', as_uid u, prog] @ args)
       | None \<Rightarrow> exec_in S cwd [] prog args)) (\<lambda>(ok, _, _).
     if ok then ret () else fail (prog @ '' '' @ join_with '' '' args @ '' failed (see output above)''))"

definition run_capture_in ::
  "('w, 'y) system_scheme \<Rightarrow> nat option \<Rightarrow> string \<Rightarrow> string \<Rightarrow> string list \<Rightarrow> (string \<times> string) list
   \<Rightarrow> ('w, string, bool \<times> bytes \<times> bytes) act" where
  "run_capture_in S uid cwd prog args envs =
     amap_err (not_runnable prog) (case uid of
         Some u \<Rightarrow> exec_in S cwd [] ''sudo''
           ([''-u'', as_uid u, ''env''] @ map (\<lambda>(k, v). k @ ''='' @ v) envs @ [prog] @ args)
       | None \<Rightarrow> exec_in S cwd envs prog args)"

definition run_systemctl :: "('w, 'y) system_scheme \<Rightarrow> string list \<Rightarrow> ('w, 'e, bool) act" where
  "run_systemctl S args = succeeded S ''systemctl'' args"

section \<open>Deployment\<close>

text \<open>Poll the daemon until it answers; the pauses between the attempts are not modelled.\<close>

fun poll_status :: "('w, 'y) system_scheme \<Rightarrow> nat \<Rightarrow> ('w, string, bool) act" where
  "poll_status S 0 = ret False"
| "poll_status S (Suc n) =
     abind (try_act (daemon_send S RStatus)) (\<lambda>r.
     case r of Inr (SStatus _ _ _ _) \<Rightarrow> ret True | _ \<Rightarrow> poll_status S n)"

definition wait_for_daemon :: "('w, 'y) system_scheme \<Rightarrow> ('w, string, unit) act" where
  "wait_for_daemon S =
     abind (poll_status S 20) (\<lambda>up.
     if up then ret ()
     else abind (try_act (cmd_output S ''journalctl'' [''-u'', ''linhellod'', ''-n'', ''5'', ''--no-pager'', ''-o'', ''cat''])) (\<lambda>r.
       let why = unwrap_or ''no journal output''
         (opt_filter (\<lambda>s. s \<noteq> []) (case r of Inl _ \<Rightarrow> None | Inr (_, out, _) \<Rightarrow> Some (trim (utf8_lossy out))))
       in fail (''linhellod did not answer on its socket within 10s. Last journal lines:'' @ [nl] @ why)))"

definition join_group :: "('w, 'y) system_scheme \<Rightarrow> string \<Rightarrow> ('w, string, string list) act" where
  "join_group S user =
     (if user = [] \<or> user = ''root'' then ret []
      else abind (try_act (cmd_output S ''id'' [''-nG'', user])) (\<lambda>r.
        let already = (case r of Inl _ \<Rightarrow> False
          | Inr (_, out, _) \<Rightarrow> ''linhello'' \<in> set (split_whitespace (utf8_lossy out))) in
        if already then ret [quoted user @ '' is already in the linhello group'']
        else abind (succeeded S ''usermod'' [''-aG'', ''linhello'', user]) (\<lambda>ok.
          ret [if ok
               then ''added '' @ quoted user @ '' to the linhello group (CLI without sudo; takes effect at next login)''
               else ''could not add '' @ quoted user @ '' to the linhello group '' @ em_dash @
                    '' run: sudo usermod -aG linhello '' @ user])))"

definition make_group :: "('w, 'y) system_scheme \<Rightarrow> ('w, string, string list) act" where
  "make_group S =
     abind (succeeded S ''getent'' [''group'', ''linhello'']) (\<lambda>there.
     if there then ret [''group '' @ quoted ''linhello'' @ '' already exists'']
     else abind (succeeded S ''groupadd'' [''--system'', ''linhello'']) (\<lambda>ok.
       ret (if ok then [''created group '' @ quoted ''linhello'' @ '' (socket access for the CLI)''] else [])))"

definition deploy_from :: "('z host_scheme, 'y) system_scheme \<Rightarrow> string \<Rightarrow> string \<Rightarrow> ('z host_scheme, string, string list) act" where
  "deploy_from S src user =
     abind (query pam_module_dir) (\<lambda>pam_dir.
     abind (amap_err (\<lambda>e. ''running make install: '' @ e)
       (exec_in S src [] ''make'' [''install'', ''CARGO=true'', ''PAMDIR='' @ pam_dir])) (\<lambda>(ok, _, err).
     if \<not> ok then fail (''make install failed: '' @ trim (utf8_lossy err))
     else
       abind (make_group S) (\<lambda>g.
       abind (join_group S user) (\<lambda>m.
       abind (run_systemctl S [''daemon-reload'']) (\<lambda>_.
       abind (run_systemctl S [''reset-failed'', ''linhellod'']) (\<lambda>_.
       abind (run_systemctl S [''enable'', ''--now'', ''linhellod'']) (\<lambda>started.
       if \<not> started
       then fail (''could not enable/start linhellod '' @ em_dash @ '' check `systemctl status linhellod`'')
       else abind (wait_for_daemon S) (\<lambda>_.
         ret ([''installed binaries + unit from '' @ src, ''PAM module '' @ arrow @ '' '' @ pam_dir] @ g @ m @
              [''linhellod is running and answering on its socket''])))))))))"

definition no_source :: string where
  "no_source = ''can't find the LinuxHello source tree '' @ em_dash @
     '' set LINHELLO_SRC, or run from the repo's target/release; on a packaged system, install via your package manager instead''"

definition deploy :: "('z host_scheme, 'y) system_scheme \<Rightarrow> string \<Rightarrow> ('z host_scheme, string, string list) act" where
  "deploy S user =
     abind (query (source_root S)) (\<lambda>r. case r of None \<Rightarrow> fail no_source | Some src \<Rightarrow> deploy_from S src user)"

fun copy_listed :: "string \<Rightarrow> (string \<times> bool) list \<Rightarrow> ('z host_scheme, string, string list) act" where
  "copy_listed dir [] = ret []"
| "copy_listed dir ((name, required) # rest) =
     abind (query (path_exists (path_join dir name))) (\<lambda>there.
     if \<not> there then
       (if required then fail (''missing required model '' @ quoted name @ '' in '' @ dir)
        else abind (copy_listed dir rest) (\<lambda>log. ret ((''optional '' @ name @ '': not found, skipped'') # log)))
     else
       abind (amap_err (\<lambda>e. ''copy '' @ name @ '': '' @ io_to_string e)
         (fs_copy (path_join dir name) (path_join config_root name))) (\<lambda>_.
       abind (copy_listed dir rest) (\<lambda>log. ret ((''copied '' @ name) # log))))"

definition copy_models_from :: "string \<Rightarrow> ('z host_scheme, string, string list) act" where
  "copy_models_from dir =
     abind (amap_err (\<lambda>e. ''create '' @ config_root @ '': '' @ io_to_string e) (fs_create_dir_all config_root)) (\<lambda>_.
     copy_listed dir required_for_copy)"

end
