(* ===== verification/SignedUpdate.thy ===== *)
theory SignedUpdate
  imports Install
begin

text \<open>
  \<open>linhello update\<close>, crates/linhello-cli/src/install.rs: the Copr path of Fedora, and elsewhere the
  build of the newest release tag, gated by the signature of the pinned key; with the native
  packages it builds. What gpg, git and the build tools do is behind \<open>system\<close>.
\<close>

section \<open>Constants\<close>

definition managed_src :: string where "managed_src = ''/var/lib/linhello/src''"
definition trusted_signer_fingerprint :: string where
  "trusted_signer_fingerprint = ''54C989C55B1FB5F26FDC55F7CC46D5CD5E601D4B''"
definition trusted_signer_key_path :: string where
  "trusted_signer_key_path = ''/etc/linhello/trusted-signer.asc''"
definition copr_project :: string where "copr_project = ''archledger/linhello''"
definition copr_repo_file :: string where
  "copr_repo_file = ''/etc/yum.repos.d/_copr:copr.fedorainfracloud.org:archledger:linhello.repo''"
definition copr_repo_content :: string where
  "copr_repo_content = unlines
     [''[copr:copr.fedorainfracloud.org:archledger:linhello]'',
      ''name=Copr repo for linhello owned by archledger'',
      ''baseurl=https://download.copr.fedorainfracloud.org/results/archledger/linhello/fedora-$releasever-$basearch/'',
      ''type=rpm-md'', ''skip_if_unavailable=True'', ''gpgcheck=1'',
      ''gpgkey=https://download.copr.fedorainfracloud.org/results/archledger/linhello/pubkey.gpg'',
      ''repo_gpgcheck=0'', ''enabled=1'', ''enabled_metadata=1'']"

section \<open>Fedora\<close>

text \<open>File names are lowered as ASCII, which is all that the three needles can match.\<close>

definition copr_repo_configured :: "('z host_scheme, 'y) system_scheme \<Rightarrow> 'z host_scheme \<Rightarrow> bool" where
  "copr_repo_configured S w \<longleftrightarrow> path_exists copr_repo_file w \<or>
     list_ex (\<lambda>e. let n = to_ascii_lowercase (utf8_lossy e) in
         contains_str n ''copr'' \<and> contains_str n ''archledger'' \<and> contains_str n ''linhello'')
       (unwrap_or [] (list_dir S ''/etc/yum.repos.d'' w))"

definition update_via_copr :: "('z host_scheme, 'y) system_scheme \<Rightarrow> ('z host_scheme, string, string list) act" where
  "update_via_copr S =
     abind (query (copr_repo_configured S)) (\<lambda>configured.
     abind (if configured then ret ''Copr repo already configured.''
            else abind (amap_err (\<lambda>e. ''writing '' @ copr_repo_file @ '': '' @ io_to_string e)
                   (fs_write copr_repo_file copr_repo_content)) (\<lambda>_.
                 ret (''Copr repo not configured '' @ em_dash @ '' enabling it ('' @ copr_repo_file @ '').''))) (\<lambda>repo.
     abind (run_streamed S None ''/'' ''dnf'' [''install'', ''--refresh'', ''-y'', ''linhello'']) (\<lambda>_.
     abind (ignore (run_streamed S None ''/'' ''systemctl'' [''try-restart'', ''linhellod''])) (\<lambda>_.
     ret [''Fedora family: tracking the Copr repo ('' @ copr_project @ '') via dnf '' @ em_dash @ '' no source rebuild.'',
          repo, ''Running: dnf install --refresh -y linhello'',
          ''Done. linhellod restarted if it was running.'']))))"

section \<open>Tags and commits\<close>

definition dir_owner :: "('z host_scheme, 'y) system_scheme \<Rightarrow> string \<Rightarrow> 'z host_scheme \<Rightarrow> nat option" where
  "dir_owner S path w = opt_filter (\<lambda>u. u \<noteq> 0) (file_uid S path w)"

definition sudo_uid :: "'z host_scheme \<Rightarrow> nat option" where
  "sudo_uid w = opt_filter (\<lambda>u. u \<noteq> 0)
     (opt_filter (\<lambda>u. u < 2 ^ 32) (Option.bind (env_vars w ''SUDO_UID'') parse_usize))"

definition first_tag :: "string \<Rightarrow> string option" where
  "first_tag out = find (\<lambda>l. l \<noteq> []) (map trim (str_lines out))"

definition latest_release_tag ::
  "('z host_scheme, 'y) system_scheme \<Rightarrow> string \<Rightarrow> nat option \<Rightarrow> ('z host_scheme, string, string option) act" where
  "latest_release_tag S rt uid =
     abind (run_capture_in S uid rt ''git'' [''tag'', ''--list'', ''v*'', ''--sort=-version:refname''] []) (\<lambda>(ok, out, _).
     if \<not> ok then fail ''git tag --list failed (see output above)''
     else ret (first_tag (utf8_lossy out)))"

definition rev_commit ::
  "('z host_scheme, 'y) system_scheme \<Rightarrow> string \<Rightarrow> nat option \<Rightarrow> string \<Rightarrow> ('z host_scheme, string, string) act" where
  "rev_commit S rt uid refname =
     abind (run_capture_in S uid rt ''git'' [''rev-parse'', ''--verify'', refname @ ''^{commit}''] []) (\<lambda>(ok, out, _).
     if \<not> ok then fail (''cannot resolve '' @ refname @ '' to a commit'')
     else ret (trim (utf8_lossy out)))"

definition short_commit :: "string \<Rightarrow> string" where
  "short_commit commit =
     (if length commit \<ge> 12 \<and> utf8_valid (take 12 commit) then take 12 commit else commit)"

section \<open>The signature of a tag\<close>

text \<open>
  A fingerprint without white space and in capitals. Fingerprints are ASCII; the capital of a
  character outside ASCII is the argument \<open>upper\<close>.
\<close>

definition ascii_upper_char :: "char \<Rightarrow> char" where
  "ascii_upper_char c = (let n = (of_char c :: nat) in if 97 \<le> n \<and> n \<le> 122 then char_of (n - 32) else c)"

function utf8_chars :: "string \<Rightarrow> string list" where
  "utf8_chars [] = []"
| "utf8_chars (c # s) = (c # takeWhile cont_byte s) # utf8_chars (dropWhile cont_byte s)"
  by pat_completeness auto
termination
  by (relation "measure length") (simp_all add: length_dropWhile_le less_Suc_eq_le)

definition normalize_fpr :: "(string \<Rightarrow> string) \<Rightarrow> string \<Rightarrow> string" where
  "normalize_fpr upper s =
     concat (map (\<lambda>c. if length c = 1 then map ascii_upper_char c else upper c)
       (filter (\<lambda>c. c \<notin> set ws_tokens) (utf8_chars s)))"

definition validsig_prefix :: string where "validsig_prefix = ''[GNUPG:] VALIDSIG ''"

definition validsig_line :: "(string \<Rightarrow> string) \<Rightarrow> string \<Rightarrow> string list" where
  "validsig_line upper line =
     (case strip_prefix (trim line) validsig_prefix of
        None \<Rightarrow> []
      | Some r \<Rightarrow> (case split_whitespace r of
            [] \<Rightarrow> []
          | f # fs \<Rightarrow> [normalize_fpr upper f, normalize_fpr upper (last (f # fs))]))"

definition validsig_fingerprints :: "(string \<Rightarrow> string) \<Rightarrow> string \<Rightarrow> string list" where
  "validsig_fingerprints upper raw = concat (map (validsig_line upper) (str_lines raw))"

definition is_hexdigit :: "char \<Rightarrow> bool" where
  "is_hexdigit c \<longleftrightarrow> (let n = (of_char c :: nat) in
     48 \<le> n \<and> n \<le> 57 \<or> 65 \<le> n \<and> n \<le> 70 \<or> 97 \<le> n \<and> n \<le> 102)"

definition temp_dir :: "'z host_scheme \<Rightarrow> string" where
  "temp_dir w = unwrap_or ''/tmp'' (env_vars w ''TMPDIR'')"

definition debug_strings :: "string list \<Rightarrow> string" where
  "debug_strings xs = ''['' @ join_with '', '' (map (\<lambda>s. [CHR 0x22] @ s @ [CHR 0x22]) xs) @ '']''"

definition verify_tag_in_keyring ::
  "('z host_scheme, 'y) system_scheme \<Rightarrow> (string \<Rightarrow> string) \<Rightarrow> string \<Rightarrow> nat option \<Rightarrow> string \<Rightarrow> string \<Rightarrow> string
   \<Rightarrow> ('z host_scheme, string, unit) act" where
  "verify_tag_in_keyring S upper rt uid tag gnupghome pinned =
     (let envs = [(''GNUPGHOME'', gnupghome)] in
      abind (run_capture_in S uid rt ''gpg'' [''--batch'', ''--quiet'', ''--import'', trusted_signer_key_path] envs) (\<lambda>(ok, _, err).
      if \<not> ok
      then fail (''failed to import trusted signer key from '' @ trusted_signer_key_path @ '': '' @ trim (utf8_lossy err))
      else
        abind (run_capture_in S uid rt ''git'' [''verify-tag'', ''--raw'', tag] envs) (\<lambda>(_, _, err2).
        let fprs = validsig_fingerprints upper (utf8_lossy err2) in
        if fprs = []
        then fail (''release tag '' @ tag @ '' is not validly signed (no VALIDSIG from gpg) '' @ em_dash @
                   '' refusing to build untrusted code as root'')
        else if pinned \<notin> set fprs
        then fail (''release tag '' @ tag @ '' is signed by an untrusted key (got '' @ debug_strings fprs @
                   '', expected '' @ pinned @ '') '' @ em_dash @ '' refusing to build untrusted code as root'')
        else ret ())))"

definition gnupg_home :: "('w, 'y) system_scheme \<Rightarrow> 'z host_scheme \<Rightarrow> string" where
  "gnupg_home S w = path_join (temp_dir w) (''linhello-verify-'' @ show_nat (pid S))"

definition verify_tag_signature ::
  "('z host_scheme, 'y) system_scheme \<Rightarrow> (string \<Rightarrow> string) \<Rightarrow> string \<Rightarrow> nat option \<Rightarrow> string
   \<Rightarrow> ('z host_scheme, string, unit) act" where
  "verify_tag_signature S upper rt uid tag =
     (let pinned = normalize_fpr upper trusted_signer_fingerprint in
      if length pinned \<noteq> 40 \<or> \<not> list_all is_hexdigit pinned
      then fail ''TRUSTED_SIGNER_FINGERPRINT is not a 40-hex-char fingerprint; refusing to update''
      else
        abind (query (path_exists trusted_signer_key_path)) (\<lambda>there.
        if \<not> there
        then fail (''trusted signer public key not found at '' @ trusted_signer_key_path @ '' '' @ em_dash @
                   '' cannot verify the release signature (export it with: gpg --export --armor '' @ pinned @
                   '' | sudo tee '' @ trusted_signer_key_path @ '')'')
        else
          abind (query (gnupg_home S)) (\<lambda>home.
          abind (ignore (fs_remove_dir_all home)) (\<lambda>_.
          abind (amap_err (\<lambda>e. ''creating verification keyring dir: '' @ io_to_string e) (fs_create_dir_all home)) (\<lambda>_.
          abind (amap_err (\<lambda>e. ''securing verification keyring dir: '' @ io_to_string e) (fs_set_permissions home 448)) (\<lambda>_.
          abind (case uid of None \<Rightarrow> ret ()
                 | Some u \<Rightarrow> amap_err (\<lambda>e. ''chowning verification keyring dir: '' @ io_to_string e) (chown_uid S home u)) (\<lambda>_.
          abind (try_act (verify_tag_in_keyring S upper rt uid tag home pinned)) (\<lambda>result.
          abind (ignore (fs_remove_dir_all home)) (\<lambda>_.
          lift result))))))))) "

section \<open>Native packages\<close>

text \<open>The version of the workspace's Cargo.toml.\<close>

definition quoted_part :: "string \<Rightarrow> string option" where
  "quoted_part l = (case split_on (CHR 0x22) l of _ # v # _ \<Rightarrow> Some v | _ \<Rightarrow> None)"

definition workspace_version :: "string \<Rightarrow> 'z host_scheme \<Rightarrow> string" where
  "workspace_version rt w = unwrap_or ''0.0.0''
     (Option.bind (res_ok (fs_read_to_string (path_join rt ''Cargo.toml'') w)) (\<lambda>s.
      Option.bind (find (\<lambda>l. starts_with (trim_start l) ''version'') (str_lines s)) quoted_part))"

text \<open>Files below a directory, in the order of the listings, to a bounded depth.\<close>

fun walk ::
  "(string \<Rightarrow> string list option) \<Rightarrow> (string \<Rightarrow> bool) \<Rightarrow> (string \<Rightarrow> bool) \<Rightarrow> nat \<Rightarrow> string \<Rightarrow> string list" where
  "walk ls is_dir accept 0 dir =
     filter (\<lambda>p. accept (file_name p)) (map (path_join dir) (unwrap_or [] (ls dir)))"
| "walk ls is_dir accept (Suc d) dir =
     concat (map (\<lambda>p. if is_dir p then walk ls is_dir accept d p
                      else if accept (file_name p) then [p] else [])
       (map (path_join dir) (unwrap_or [] (ls dir))))"

definition ends_with :: "string \<Rightarrow> string \<Rightarrow> bool" where
  "ends_with s t \<longleftrightarrow> suffix t s"

definition installable :: "string \<Rightarrow> string \<Rightarrow> string \<Rightarrow> bool" where
  "installable pre suf n \<longleftrightarrow> utf8_valid n \<and> starts_with n pre \<and> ends_with n suf \<and>
     \<not> (contains_str n ''-debug'' \<or> contains_str n ''-dbgsym'')"

definition newest_built ::
  "('z host_scheme, 'y) system_scheme \<Rightarrow> string \<Rightarrow> string \<Rightarrow> string \<Rightarrow> 'z host_scheme \<Rightarrow> string option" where
  "newest_built S dir pre suf w =
     (let hits = sort_paths (walk (\<lambda>d. list_dir S d w) (\<lambda>p. p \<in> set (dirs w)) (installable pre suf) 2 dir)
      in if hits = [] then None else Some (last hits))"

fun create_dirs :: "string list \<Rightarrow> ('z host_scheme, string, unit) act" where
  "create_dirs [] = ret ()"
| "create_dirs (d # ds) = abind (amap_err io_to_string (fs_create_dir_all d)) (\<lambda>_. create_dirs ds)"

fun stage_files :: "string \<Rightarrow> string \<Rightarrow> string list \<Rightarrow> ('z host_scheme, string, unit) act" where
  "stage_files from_dir to_dir [] = ret ()"
| "stage_files from_dir to_dir (f # fs) =
     abind (amap_err (\<lambda>e. ''staging '' @ f @ '': '' @ io_to_string e)
       (fs_copy (path_join from_dir f) (path_join to_dir f))) (\<lambda>_. stage_files from_dir to_dir fs)"

definition git_archive ::
  "('z host_scheme, 'y) system_scheme \<Rightarrow> nat option \<Rightarrow> string \<Rightarrow> string \<Rightarrow> string \<Rightarrow> ('z host_scheme, string, unit) act" where
  "git_archive S owner rt ver tar =
     run_streamed S owner rt ''git''
       [''archive'', ''--format=tar.gz'', ''--prefix=linhello-'' @ ver @ ''/'', ''-o'', tar, ''HEAD'']"

definition run_makepkg :: "('w, 'y) system_scheme \<Rightarrow> nat \<Rightarrow> string \<Rightarrow> ('w, string, unit) act" where
  "run_makepkg S uid cwd =
     abind (amap_err (\<lambda>e. ''running makepkg: '' @ e @ '' (is base-devel installed?)'')
       (exec_in S cwd [] ''sudo'' [''-u'', as_uid uid, ''-H'', ''makepkg'', ''-f'', ''--noconfirm''])) (\<lambda>(ok, _, _).
     if ok then ret () else fail ''makepkg failed (see output above)'')"

definition built ::
  "('z host_scheme, 'y) system_scheme \<Rightarrow> string \<Rightarrow> string \<Rightarrow> string \<Rightarrow> string \<Rightarrow> ('z host_scheme, string, string) act" where
  "built S dir pre suf msg =
     abind (query (newest_built S dir pre suf)) (\<lambda>p. case p of None \<Rightarrow> fail msg | Some f \<Rightarrow> ret f)"

definition rpm_dirs :: "string list" where
  "rpm_dirs = [''SOURCES'', ''SPECS'', ''BUILD'', ''RPMS'', ''SRPMS'', ''BUILDROOT'']"

definition build_rpm ::
  "('z host_scheme, 'y) system_scheme \<Rightarrow> nat option \<Rightarrow> string \<Rightarrow> string \<Rightarrow> ('z host_scheme, string, string) act" where
  "build_rpm S owner rt ver =
     (let rpmtop = path_join rt ''target/rpmbuild'' in
      abind (create_dirs (map (path_join rpmtop) rpm_dirs)) (\<lambda>_.
      abind (git_archive S owner rt ver (path_join rpmtop (''SOURCES/linhello-'' @ ver @ ''.tar.gz''))) (\<lambda>_.
      abind (run_streamed S owner rt ''rpmbuild''
        [''-bb'', ''--nodeps'', ''--define'', ''_topdir '' @ rpmtop, ''packaging/fedora/linhello.spec'']) (\<lambda>_.
      built S (path_join rpmtop ''RPMS'') ''linhello-'' ''.rpm'' ''rpmbuild produced no rpm''))))"

definition build_pkg ::
  "('z host_scheme, 'y) system_scheme \<Rightarrow> nat option \<Rightarrow> string \<Rightarrow> string \<Rightarrow> ('z host_scheme, string, string \<times> nat) act" where
  "build_pkg S owner rt ver =
     abind (query (\<lambda>w. case owner of Some u \<Rightarrow> Some u | None \<Rightarrow> sudo_uid w)) (\<lambda>mk.
     case mk of
       None \<Rightarrow> fail ''makepkg cannot run as root and no unprivileged user was found (run via `sudo` so SUDO_USER is set, or build as a normal user)''
     | Some uid \<Rightarrow>
         (let bdir = path_join rt ''target/arch-build'' in
          abind (ignore (fs_remove_dir_all bdir)) (\<lambda>_.
          abind (amap_err (\<lambda>e. ''creating '' @ bdir @ '': '' @ io_to_string e) (fs_create_dir_all bdir)) (\<lambda>_.
          abind (run_streamed S None bdir ''chown'' [show_nat uid, ''.'']) (\<lambda>_.
          abind (git_archive S owner rt ver (path_join bdir (''linhello-'' @ ver @ ''.tar.gz''))) (\<lambda>_.
          abind (stage_files (path_join rt ''packaging/arch'') bdir [''PKGBUILD'', ''linhello.install'']) (\<lambda>_.
          abind (run_streamed S None bdir ''chown'' [''-R'', show_nat uid, ''.'']) (\<lambda>_.
          abind (run_makepkg S uid bdir) (\<lambda>_.
          abind (built S bdir ''linhello-'' ''.pkg.tar.zst'' ''makepkg produced no package'') (\<lambda>p.
          ret (p, uid)))))))))))"

definition build_deb ::
  "('z host_scheme, 'y) system_scheme \<Rightarrow> nat option \<Rightarrow> string \<Rightarrow> ('z host_scheme, string, string) act" where
  "build_deb S owner rt =
     abind (run_streamed S owner rt ''cp'' [''-rT'', ''packaging/debian'', ''debian'']) (\<lambda>_.
     abind (try_act (run_streamed S owner rt ''dpkg-buildpackage'' [''-b'', ''-us'', ''-uc''])) (\<lambda>r.
     abind (ignore (fs_remove_dir_all (path_join rt ''debian''))) (\<lambda>_.
     abind (lift r) (\<lambda>_.
     case parent rt of
       None \<Rightarrow> fail ''no parent dir for .deb output''
     | Some p \<Rightarrow> built S p ''linhello_'' ''.deb'' ''dpkg-buildpackage produced no .deb''))))"

definition build_native_package ::
  "('z host_scheme, 'y) system_scheme \<Rightarrow> string \<Rightarrow> package_format_t \<Rightarrow> ('z host_scheme, string, string \<times> string list) act" where
  "build_native_package S rt fmt =
     (case build_tool fmt of
        None \<Rightarrow> fail ''no native package format for this distro''
      | Some tool \<Rightarrow>
          abind (query (on_path tool)) (\<lambda>there.
          if \<not> there
          then fail (''`'' @ tool @ ''` not found '' @ em_dash @ '' install it to build a '' @ format_as_str fmt @ '' package'')
          else
            abind (query (\<lambda>w. if euid S = 0 then dir_owner S rt w else None)) (\<lambda>owner.
            abind (query (workspace_version rt)) (\<lambda>ver.
            let head = ''building '' @ format_as_str fmt @ '' package v'' @ ver in
            case fmt of
              Rpm \<Rightarrow> abind (build_rpm S owner rt ver) (\<lambda>p. ret (p, [head, ''built '' @ p]))
            | Pkg \<Rightarrow> abind (build_pkg S owner rt ver) (\<lambda>(p, uid).
                ret (p, [head, ''built '' @ p @ '' (as uid '' @ show_nat uid @ '')'']))
            | Deb \<Rightarrow> abind (build_deb S owner rt) (\<lambda>p. ret (p, [head, ''built '' @ p]))
            | UnknownFormat \<Rightarrow> fail ''no native package format for this distro''))))"

definition install_native_package ::
  "('w, 'y) system_scheme \<Rightarrow> string \<Rightarrow> package_format_t \<Rightarrow> ('w, string, string list) act" where
  "install_native_package S pkg fmt =
     (case fmt of
        UnknownFormat \<Rightarrow> fail ''no native package manager''
      | _ \<Rightarrow>
         (let (mgr, args) = (case fmt of
              Rpm \<Rightarrow> (''dnf'', [''install'', ''-y'', pkg])
            | Deb \<Rightarrow> (''apt-get'', [''install'', ''-y'', pkg])
            | _ \<Rightarrow> (''pacman'', [''-U'', ''--noconfirm'', pkg]))
          in abind (run_streamed S None ''/'' mgr args) (\<lambda>_. ret [''installed '' @ pkg @ '' via '' @ mgr])))"

section \<open>The update\<close>

text \<open>The checkout to build from: our own, the managed clone, or a fresh managed clone.\<close>

definition update_source :: "('z host_scheme, 'y) system_scheme \<Rightarrow> ('z host_scheme, string, string \<times> string) act" where
  "update_source S =
     abind (query (\<lambda>w. opt_filter (\<lambda>r. path_exists (path_join r ''.git'') w) (source_root S w))) (\<lambda>own.
     case own of
       Some r \<Rightarrow> ret (r, ''source: git checkout at '' @ r)
     | None \<Rightarrow>
         abind (query (path_exists (path_join managed_src ''.git''))) (\<lambda>managed.
         if managed then ret (managed_src, ''source: managed clone at '' @ managed_src)
         else
           abind (case parent managed_src of None \<Rightarrow> ret ()
                  | Some d \<Rightarrow> amap_err (\<lambda>e. ''creating '' @ d @ '': '' @ io_to_string e) (fs_create_dir_all d)) (\<lambda>_.
           abind (run_streamed S None ''/'' ''git'' [''clone'', repo_url, managed_src]) (\<lambda>_.
           ret (managed_src, ''cloning '' @ repo_url @ '' -> '' @ managed_src)))))"

definition install_verified ::
  "('z host_scheme, 'y) system_scheme \<Rightarrow> string \<Rightarrow> nat option \<Rightarrow> string \<Rightarrow> ('z host_scheme, string, string list) act" where
  "install_verified S rt owner user =
     abind (query package_format) (\<lambda>fmt.
     abind (query (\<lambda>w. case build_tool fmt of None \<Rightarrow> False | Some t \<Rightarrow> on_path t w)) (\<lambda>native.
     if native then
       abind (build_native_package S rt fmt) (\<lambda>(pkg, blog).
       abind (query distro_family) (\<lambda>family.
       abind (install_native_package S pkg fmt) (\<lambda>ilog.
       ret ([''distro '' @ family_as_str family @ '': native '' @ format_as_str fmt @ '' package''] @ blog @ ilog))))
     else
       abind (run_streamed S owner rt ''cargo'' [''build'', ''--release'']) (\<lambda>_.
       abind (deploy_from S rt user) (\<lambda>dlog.
       ret ([''no native '' @ format_as_str fmt @ '' build tooling '' @ em_dash @ '' installing from source (make install)'',
             ''building (cargo build --release)'' @ ellipsis] @ dlog)))))"

definition sudo_is_wired :: "service_status list \<Rightarrow> bool" where
  "sudo_is_wired st \<longleftrightarrow> list_ex (\<lambda>s. st_wired s \<and> file_name (st_path s) = ''sudo'') st"

definition rewire :: "('z host_scheme, 'y) system_scheme \<Rightarrow> ('z host_scheme, string, string list) act" where
  "rewire S =
     abind (query pam_status) (\<lambda>st.
     if list_ex st_wired st then
       abind (try_act (enable (tools S) (sudo_is_wired st) False)) (\<lambda>r.
       ret (case r of Inr changes \<Rightarrow> map describe changes
                    | Inl e \<Rightarrow> [''PAM wiring not re-applied: '' @ (e :: string)]))
     else ret [''login wiring untouched (none was enabled)''])"

definition installed_cli :: "'z host_scheme \<Rightarrow> string option" where
  "installed_cli w = find_bin ''linhello'' w"

text \<open>What follows once the signature of the tag has been accepted.\<close>

definition build_tag ::
  "('z host_scheme, 'y) system_scheme \<Rightarrow> string \<Rightarrow> nat option \<Rightarrow> string \<Rightarrow> string \<Rightarrow> ('z host_scheme, string, string list) act" where
  "build_tag S rt owner tag user =
     abind (rev_commit S rt owner tag) (\<lambda>tag_commit.
     abind (try_act (rev_commit S rt owner ''HEAD'')) (\<lambda>h.
     let head_commit = unwrap_or [] (res_ok h);
         where_at = tag @ '' ('' @ short_commit tag_commit in
     abind (query installed_cli) (\<lambda>cli.
     if head_commit = tag_commit \<and> cli \<noteq> None
     then ret [''already at '' @ where_at @ '') and installed '' @ em_dash @ '' nothing to do'']
     else
       abind (run_streamed S owner rt ''git'' [''checkout'', ''--quiet'', ''--detach'', tag]) (\<lambda>_.
       abind (install_verified S rt owner user) (\<lambda>ilog.
       abind (rewire S) (\<lambda>wlog.
       ret ([''checked out '' @ where_at @ '')''] @ ilog @ wlog @ [''updated to '' @ where_at @ '')''])))))))"

text \<open>The newest release tag the remote has, in the checkout to build from.\<close>

definition pick_tag ::
  "('z host_scheme, 'y) system_scheme \<Rightarrow> ('z host_scheme, string, string \<times> string \<times> nat option \<times> string) act" where
  "pick_tag S =
     abind (update_source S) (\<lambda>(rt, slog).
     abind (query (dir_owner S rt)) (\<lambda>owner.
     abind (run_streamed S owner rt ''git'' [''fetch'', ''--tags'', ''--force'', ''origin'']) (\<lambda>_.
     abind (latest_release_tag S rt owner) (\<lambda>t.
     case t of
       None \<Rightarrow> fail (''no release tags found on the remote '' @ em_dash @ '' nothing to update to'')
     | Some tag \<Rightarrow> ret (slog, rt, owner, tag)))))"

definition update ::
  "('z host_scheme, 'y) system_scheme \<Rightarrow> (string \<Rightarrow> string) \<Rightarrow> string \<Rightarrow> ('z host_scheme, string, string list) act" where
  "update S upper user =
     abind (query distro_family) (\<lambda>family.
     if family = Fedora then update_via_copr S
     else
       abind (pick_tag S) (\<lambda>(slog, rt, owner, tag).
       abind (verify_tag_signature S upper rt owner tag) (\<lambda>_.
       abind (build_tag S rt owner tag user) (\<lambda>blog.
       ret ([slog, ''latest release tag: '' @ tag,
             ''signature verified: '' @ tag @ '' signed by trusted key '' @ trusted_signer_fingerprint] @ blog)))))"

section \<open>What an accepted tag has\<close>

text \<open>A status line of gpg that vouches for the pinned key, as the signing key or its primary key.\<close>

definition vouches :: "(string \<Rightarrow> string) \<Rightarrow> string \<Rightarrow> string \<Rightarrow> bool" where
  "vouches upper pinned line \<longleftrightarrow>
     (\<exists>r. trim line = validsig_prefix @ r \<and> split_whitespace r \<noteq> [] \<and>
        (normalize_fpr upper (hd (split_whitespace r)) = pinned \<or>
         normalize_fpr upper (last (split_whitespace r)) = pinned))"

lemma validsig_vouches: "pinned \<in> set (validsig_line upper line) \<longleftrightarrow> vouches upper pinned line"
proof (cases "strip_prefix (trim line) validsig_prefix")
  case None
  then show ?thesis by (auto simp: validsig_line_def vouches_def)
next
  case (Some r)
  then show ?thesis
    by (cases "split_whitespace r") (auto simp: validsig_line_def vouches_def strip_prefix_Some_iff)
qed

lemma validsig_fingerprints_iff:
  "pinned \<in> set (validsig_fingerprints upper raw) \<longleftrightarrow> (\<exists>line\<in>set (str_lines raw). vouches upper pinned line)"
  by (simp add: validsig_fingerprints_def validsig_vouches)

definition vouched ::
  "('z host_scheme, 'y) system_scheme \<Rightarrow> (string \<Rightarrow> string) \<Rightarrow> string \<Rightarrow> nat option \<Rightarrow> string \<Rightarrow> 'z host_scheme \<Rightarrow> bool" where
  "vouched S upper rt uid tag w \<longleftrightarrow>
     (\<exists>x ok out err y. run_capture_in S uid rt ''git'' [''verify-tag'', ''--raw'', tag]
          [(''GNUPGHOME'', gnupg_home S w)] x = (Ok (ok, out, err), y) \<and>
        (\<exists>line\<in>set (str_lines (utf8_lossy err)). vouches upper (normalize_fpr upper trusted_signer_fingerprint) line))"

lemma verify_tag_in_keyring_Ok:
  assumes "verify_tag_in_keyring S upper rt uid tag home pinned w = (Ok (), w')"
  shows "\<exists>x ok out err. run_capture_in S uid rt ''git'' [''verify-tag'', ''--raw'', tag] [(''GNUPGHOME'', home)] x =
      (Ok (ok, out, err), w') \<and> (\<exists>line\<in>set (str_lines (utf8_lossy err)). vouches upper pinned line)"
  using assms
  by (auto simp: verify_tag_in_keyring_def Let_def res_iff validsig_fingerprints_iff split: prod.splits if_splits) blast

lemma verify_tag_signature_Ok:
  assumes "verify_tag_signature S upper rt uid tag w = (Ok (), w')"
  shows "vouched S upper rt uid tag w"
proof -
  from assms obtain x y where
    "verify_tag_in_keyring S upper rt uid tag (gnupg_home S w) (normalize_fpr upper trusted_signer_fingerprint) x = (Ok (), y)"
    by (auto simp: verify_tag_signature_def Let_def res_iff split: if_splits)
  from verify_tag_in_keyring_Ok [OF this] show ?thesis
    unfolding vouched_def by blast
qed

end
