(* ===== verification/Models.thy ===== *)
theory Models
  imports SignedUpdate
begin

text \<open>
  Fetching the face models and the ONNX runtime, crates/linhello-cli/src/install.rs: download,
  check against the pinned digests, and only then install. \<open>curl\<close>, \<open>unzip\<close>, \<open>tar\<close> and
  \<open>sha256sum\<close> are commands of \<open>system\<close>.
\<close>

definition buffalo_url :: string where
  "buffalo_url = ''https://github.com/deepinsight/insightface/releases/download/v0.7/buffalo_l.zip''"
definition det_sha256 :: string where
  "det_sha256 = ''5838f7fe053675b1c7a08b633df49e7af5495cee0493c7dcf6697200b85b5b91''"
definition rec_sha256 :: string where
  "rec_sha256 = ''4c06341c33c2ca1f86781dab0e829f88ad5b64be9fba56e56bc9ebdefc619e43''"
definition ort_version :: string where "ort_version = ''1.24.4''"
definition ort_x64_sha256 :: string where
  "ort_x64_sha256 = ''3a211fbea252c1e66290658f1b735b772056149f28321e71c308942cdb54b747''"
definition ort_aarch64_sha256 :: string where
  "ort_aarch64_sha256 = ''866109a9248d057671a039b9d725be4bd86888e3754140e6701ec621be9d4d7e''"

definition sha256_of :: "('w, 'y) system_scheme \<Rightarrow> string \<Rightarrow> ('w, string, string) act" where
  "sha256_of S path =
     abind (amap_err (\<lambda>e. ''sha256sum: '' @ e) (cmd_output S ''sha256sum'' [path])) (\<lambda>(ok, out, _).
     if \<not> ok then fail ''sha256sum failed''
     else ret (case split_whitespace (utf8_lossy out) of [] \<Rightarrow> [] | d # _ \<Rightarrow> d))"

definition find_under ::
  "('z host_scheme, 'y) system_scheme \<Rightarrow> string \<Rightarrow> string \<Rightarrow> 'z host_scheme \<Rightarrow> string option" where
  "find_under S dir name w =
     (let out = walk (\<lambda>d. list_dir S d w) (\<lambda>p. p \<in> set (dirs w)) (\<lambda>n. n = name) 4 dir
      in if out = [] then None else Some (last out))"

definition need_under ::
  "('z host_scheme, 'y) system_scheme \<Rightarrow> string \<Rightarrow> string \<Rightarrow> ('z host_scheme, string, string) act" where
  "need_under S dir name =
     abind (query (find_under S dir name)) (\<lambda>r. case r of
       None \<Rightarrow> fail (name @ '' not found in archive'') | Some p \<Rightarrow> ret p)"

definition verify_model ::
  "('w, 'y) system_scheme \<Rightarrow> string \<Rightarrow> string \<Rightarrow> string \<Rightarrow> ('w, string, string) act" where
  "verify_model S path lbl pinned =
     abind (sha256_of S path) (\<lambda>got.
     if pinned = [] \<or> ends_with pinned ''PLACEHOLDER''
     then ret (lbl @ '' sha256 '' @ got @ '' (not pinned '' @ em_dash @ '' verification skipped)'')
     else if got \<noteq> pinned
     then fail (lbl @ '' sha256 mismatch: got '' @ got @ '', expected '' @ pinned @ '' '' @ em_dash @ '' refusing to install'')
     else ret (lbl @ '' sha256 verified''))"

fun need_tools :: "string list \<Rightarrow> ('z host_scheme, string, unit) act" where
  "need_tools [] = ret ()"
| "need_tools (t # ts) =
     abind (query (on_path t)) (\<lambda>there.
     if \<not> there then fail (''`'' @ t @ ''` not found '' @ em_dash @ '' install it and retry'') else need_tools ts)"

definition scratch_dir :: "('w, 'y) system_scheme \<Rightarrow> string \<Rightarrow> 'z host_scheme \<Rightarrow> string" where
  "scratch_dir S stem w = path_join (temp_dir w) (stem @ show_nat (pid S))"

text \<open>Run in a fresh temporary directory that is removed afterwards, whatever the outcome.\<close>

definition in_scratch ::
  "string \<Rightarrow> ('z host_scheme, string, 'a) act \<Rightarrow> ('z host_scheme, string, 'a) act" where
  "in_scratch tmp m =
     abind (amap_err (\<lambda>e. ''temp dir: '' @ io_to_string e) (fs_create_dir_all tmp)) (\<lambda>_.
     abind (try_act m) (\<lambda>result.
     abind (ignore (fs_remove_dir_all tmp)) (\<lambda>_. lift result)))"

definition download ::
  "('w, 'y) system_scheme \<Rightarrow> string \<Rightarrow> string \<Rightarrow> string \<Rightarrow> ('w, string, unit) act" where
  "download S cwd to url =
     run_streamed S None cwd ''curl'' [''-fL'', ''--proto'', ''=https'', ''--tlsv1.2'', ''-o'', to, url]"

definition install_model :: "string \<Rightarrow> string \<Rightarrow> ('z host_scheme, string, unit) act" where
  "install_model from_path to_path =
     abind (amap_err (\<lambda>e. ''install '' @ to_path @ '': '' @ io_to_string e) (fs_copy from_path to_path)) (\<lambda>_.
     ignore (fs_set_permissions to_path 420))"

definition det_path :: string where "det_path = path_join config_root ''det_10g.onnx''"
definition face_path :: string where "face_path = path_join config_root ''face.onnx''"

definition restart_linhellod :: "('w, 'y) system_scheme \<Rightarrow> string \<Rightarrow> ('w, string, string list) act" where
  "restart_linhellod S msg =
     abind (try_act (run_streamed S None ''/'' ''systemctl'' [''restart'', ''linhellod''])) (\<lambda>r.
     ret (if res_ok r = None then [] else [msg]))"

text \<open>Download, unpack, locate and check both models.\<close>

definition obtain_models ::
  "('z host_scheme, 'y) system_scheme \<Rightarrow> string
   \<Rightarrow> ('z host_scheme, string, string \<times> string \<times> string list) act" where
  "obtain_models S tmp =
     (let zip = path_join tmp ''buffalo_l.zip''; ex = path_join tmp ''x'' in
      abind (download S tmp zip buffalo_url) (\<lambda>_.
      abind (run_streamed S None tmp ''unzip'' [''-oq'', zip, ''-d'', ex]) (\<lambda>_.
      abind (need_under S ex ''det_10g.onnx'') (\<lambda>det_src.
      abind (need_under S ex ''w600k_r50.onnx'') (\<lambda>rec_src.
      abind (verify_model S det_src ''detector (det_10g.onnx)'' det_sha256) (\<lambda>l1.
      abind (verify_model S rec_src ''recognizer (w600k_r50.onnx)'' rec_sha256) (\<lambda>l2.
      ret (det_src, rec_src,
           [''downloading buffalo_l (~250 MB) from InsightFace v0.7'' @ ellipsis, l1, l2]))))))))"

definition make_config_root :: "('z host_scheme, string, unit) act" where
  "make_config_root =
     amap_err (\<lambda>e. ''mkdir '' @ config_root @ '': '' @ io_to_string e) (fs_create_dir_all config_root)"

definition install_obtained ::
  "('z host_scheme, 'y) system_scheme \<Rightarrow> string \<Rightarrow> string \<Rightarrow> string list \<Rightarrow> ('z host_scheme, string, string list) act" where
  "install_obtained S det_src rec_src vlog =
     abind (install_model det_src det_path) (\<lambda>_.
     abind (install_model rec_src face_path) (\<lambda>_.
     abind (restart_linhellod S ''restarted linhellod'') (\<lambda>rlog.
     ret (vlog @ [''installed '' @ det_path @ '' + '' @ face_path] @ rlog))))"

definition fetch_models_in ::
  "('z host_scheme, 'y) system_scheme \<Rightarrow> string \<Rightarrow> ('z host_scheme, string, string list) act" where
  "fetch_models_in S tmp =
     abind (obtain_models S tmp) (\<lambda>(det_src, rec_src, vlog).
     abind make_config_root (\<lambda>_. install_obtained S det_src rec_src vlog))"

definition fetch_models ::
  "('z host_scheme, 'y) system_scheme \<Rightarrow> bool \<Rightarrow> ('z host_scheme, string, string list) act" where
  "fetch_models S force =
     abind (query (\<lambda>w. path_exists det_path w \<and> path_exists face_path w)) (\<lambda>there.
     if \<not> force \<and> there
     then ret [''buffalo_l models already present in /etc/linhello (use --force to re-fetch)'']
     else
       abind (need_tools [''curl'', ''unzip'', ''sha256sum'']) (\<lambda>_.
       abind (query (scratch_dir S ''linhello-models-'')) (\<lambda>tmp.
       in_scratch tmp (fetch_models_in S tmp))))"

section \<open>The runtime\<close>

definition ort_asset :: "string \<Rightarrow> (string \<times> string) option" where
  "ort_asset arch =
     (if arch = ''x86_64'' then Some (''x64'', ort_x64_sha256)
      else if arch = ''aarch64'' then Some (''aarch64'', ort_aarch64_sha256) else None)"

definition ort_libdir :: string where "ort_libdir = ''/usr/local/lib''"

fun relink :: "('z host_scheme, 'y) system_scheme \<Rightarrow> string \<Rightarrow> string list \<Rightarrow> ('z host_scheme, string, unit) act" where
  "relink S soname [] = ret ()"
| "relink S soname (l # ls) =
     (let lp = path_join ort_libdir l in
      abind (ignore (fs_remove_file lp)) (\<lambda>_.
      abind (amap_err (\<lambda>e. ''symlink '' @ lp @ '': '' @ io_to_string e) (make_symlink S soname lp)) (\<lambda>_.
      relink S soname ls)))"

definition fetch_onnx_in ::
  "('z host_scheme, 'y) system_scheme \<Rightarrow> string \<Rightarrow> string \<Rightarrow> string \<Rightarrow> ('z host_scheme, string, string list) act" where
  "fetch_onnx_in S tmp asset_arch sha =
     (let tgz = path_join tmp ''onnxruntime.tgz'';
          stem = ''onnxruntime-linux-'' @ asset_arch @ ''-'' @ ort_version;
          url = ''https://github.com/microsoft/onnxruntime/releases/download/v'' @ ort_version @ ''/'' @ stem @ ''.tgz'';
          soname = ''libonnxruntime.so.'' @ ort_version;
          dst = path_join ort_libdir soname in
      abind (download S tmp tgz url) (\<lambda>_.
      abind (verify_model S tgz (''onnxruntime '' @ ort_version @ '' ('' @ asset_arch @ '')'') sha) (\<lambda>l1.
      abind (run_streamed S None tmp ''tar'' [''xzf'', tgz, ''-C'', tmp]) (\<lambda>_.
      abind (need_under S tmp soname) (\<lambda>srcp.
      abind (amap_err (\<lambda>e. ''mkdir '' @ ort_libdir @ '': '' @ io_to_string e) (fs_create_dir_all ort_libdir)) (\<lambda>_.
      abind (amap_err (\<lambda>e. ''install '' @ dst @ '': '' @ io_to_string e) (fs_copy srcp dst)) (\<lambda>_.
      abind (ignore (fs_set_permissions dst 493)) (\<lambda>_.
      abind (relink S soname [''libonnxruntime.so.1'', ''libonnxruntime.so'']) (\<lambda>_.
      abind (ignore (run_streamed S None ''/'' ''restorecon'' [''-F'', dst])) (\<lambda>_.
      abind (ignore (run_streamed S None ''/'' ''ldconfig'' [])) (\<lambda>_.
      abind (restart_linhellod S ''ran ldconfig + restarted linhellod'') (\<lambda>l3.
      ret ([''downloading ONNX Runtime '' @ ort_version @ '' ('' @ asset_arch @ '') from Microsoft'' @ ellipsis, l1,
            ''installed '' @ dst @ '' (+ .so.1, .so symlinks)''] @ l3))))))))))))) "

definition fetch_onnx ::
  "('z host_scheme, 'y) system_scheme \<Rightarrow> string \<Rightarrow> bool \<Rightarrow> ('z host_scheme, string, string list) act" where
  "fetch_onnx S arch force =
     abind (query (\<lambda>w. if force then None else onnxruntime_dylib (\<lambda>d. list_dir S d w) w)) (\<lambda>there.
     case there of
       Some p \<Rightarrow> ret [''ONNX Runtime already present at '' @ p @ '' (use --force to reinstall)'']
     | None \<Rightarrow> (case ort_asset arch of
           None \<Rightarrow> fail (''no Microsoft ONNX Runtime prebuilt for arch '' @ quoted arch @ '' '' @ em_dash @
             '' build it or install libonnxruntime.so manually and set ORT_DYLIB_PATH'')
         | Some (asset_arch, sha) \<Rightarrow>
             abind (need_tools [''curl'', ''tar'', ''sha256sum'']) (\<lambda>_.
             abind (query (scratch_dir S ''linhello-onnx-'')) (\<lambda>tmp.
             in_scratch tmp (fetch_onnx_in S tmp asset_arch sha)))))"

end
