(* ===== verification/Uninstall.thy ===== *)
theory Uninstall
  imports Models
begin

text \<open>
  Removing the program from the host, crates/linhello-cli/src/install.rs: the PAM stacks are unwired
  first, then the package or the installed files and the data are removed.
\<close>

section \<open>Constants\<close>

definition bin_names :: "string list" where
  "bin_names = [''linhello'', ''linhellod'', ''linhello-reseal-hook'']"
definition pam_lib_dirs :: "string list" where
  "pam_lib_dirs = [''/usr/lib/security'', ''/usr/lib64/security'']"
definition pam_libs :: "string list" where
  "pam_libs = [''pam_linhello.so'', ''liblinhello_pam.so'']"
definition unit_paths :: "string list" where
  "unit_paths = [''/etc/systemd/system/linhellod.service'', ''/usr/lib/systemd/system/linhellod.service'',
     ''/etc/systemd/system/linhellod-camera-refresh.service'', ''/usr/lib/systemd/system/linhellod-camera-refresh.service'']"
definition udev_rule_paths :: "string list" where
  "udev_rule_paths = [''/etc/udev/rules.d/72-linhello-camera.rules'', ''/usr/lib/udev/rules.d/72-linhello-camera.rules'']"
definition sleep_hook_paths :: "string list" where
  "sleep_hook_paths = [''/usr/lib/systemd/system-sleep/linhello-resume'']"
definition pacman_hook :: string where
  "pacman_hook = ''/etc/pacman.d/hooks/linhello-reseal.hook''"

definition uninstall_plan :: "bool \<Rightarrow> string list" where
  "uninstall_plan remove_models =
     [''disable face login in every PAM stack (password login stays)'',
      ''stop and disable the linhellod service'',
      ''remove the linhello / linhellod / reseal-hook programs'',
      ''remove the PAM modules (pam_linhello.so, liblinhello_pam.so)'',
      ''remove the systemd unit and the post-update reseal hook'',
      ''ERASE enrolled faces, TPM envelopes, and config in /etc/linhello'',
      (if remove_models then ''also delete the ~190MB face models (re-fetch needed to reinstall)''
       else ''keep only the ~190MB face models (so a reinstall skips re-fetch)'')]"

section \<open>Package managers\<close>

datatype pkg_mgr = Dnf | Pacman | Apt

definition pkg_query :: "('w, 'y) system_scheme \<Rightarrow> string \<Rightarrow> string list \<Rightarrow> ('w, 'e, bool) act" where
  "pkg_query S prog args = succeeded S prog args"

definition dpkg_installed :: "('w, 'y) system_scheme \<Rightarrow> ('w, 'e, bool) act" where
  "dpkg_installed S =
     abind (stdout_of S ''dpkg-query'' [''-W'', ''-f=${Status}'', ''linhello'']) (\<lambda>out.
     ret (case out of None \<Rightarrow> False | Some s \<Rightarrow> contains_str s ''ok installed''))"

definition owning_package_manager :: "('w, 'y) system_scheme \<Rightarrow> ('w, 'e, pkg_mgr option) act" where
  "owning_package_manager S =
     abind (pkg_query S ''rpm'' [''-q'', ''linhello'']) (\<lambda>rpm.
     if rpm then ret (Some Dnf)
     else abind (pkg_query S ''pacman'' [''-Q'', ''linhello'']) (\<lambda>pac.
       if pac then ret (Some Pacman)
       else abind (dpkg_installed S) (\<lambda>deb. ret (if deb then Some Apt else None))))"

definition remove_package :: "('w, 'y) system_scheme \<Rightarrow> pkg_mgr \<Rightarrow> ('w, 'e, string) act" where
  "remove_package S pm =
     (let (prog, args) = (case pm of
          Dnf \<Rightarrow> (''dnf'', [''remove'', ''-y'', ''linhello''])
        | Pacman \<Rightarrow> (''pacman'', [''-Rn'', ''--noconfirm'', ''linhello''])
        | Apt \<Rightarrow> (''apt-get'', [''purge'', ''-y'', ''linhello'']))
      in abind (try_act (cmd_output S prog args)) (\<lambda>r. ret (case r of
           Inr (ok, _, err) \<Rightarrow>
             if ok then ''removed the linhello package via '' @ prog
             else prog @ '' could not remove the package ('' @ trim (utf8_lossy err) @ ''); removing files directly''
         | Inl e \<Rightarrow> ''could not run '' @ prog @ '' ('' @ e @ ''); removing files directly'')))"

section \<open>References in the PAM stacks\<close>

definition pam_d :: string where "pam_d = ''/etc/pam.d''"

definition module_needle :: string where "module_needle = ''pam_linhello''"

definition cleaned_text :: "string \<Rightarrow> string" where
  "cleaned_text content =
     join_with [nl] (filter (\<lambda>l. \<not> contains_str l module_needle) (str_lines content)) @
     (if ends_with content [nl] then [nl] else [])"

definition is_regular :: "string \<Rightarrow> 'z host_scheme \<Rightarrow> bool" where
  "is_regular p w \<longleftrightarrow> io_fault w OpStat p = None \<and> files w p \<noteq> None"

definition try_remove :: "string \<Rightarrow> string list \<Rightarrow> ('z host_scheme, string, string list) act" where
  "try_remove p msgs =
     abind (try_act (fs_remove_file p)) (\<lambda>r. ret (if res_ok r = None then [] else msgs))"

definition scrub_backup :: "string \<Rightarrow> string" where "scrub_backup p = p @ ''.pre-linhello-uninstall''"

definition strip_references :: "string \<Rightarrow> string \<Rightarrow> ('z host_scheme, string, string list) act" where
  "strip_references p content =
     abind (query (path_exists (scrub_backup p))) (\<lambda>there.
     abind (if there then ret () else ignore (fs_copy p (scrub_backup p))) (\<lambda>_.
     abind (try_act (fs_write p (cleaned_text content))) (\<lambda>r.
     ret (if res_ok r = None then []
          else [''scrubbed pam_linhello from '' @ p @ '' (backup '' @ scrub_backup p @ '')'']))))"

definition scrub_entry :: "string \<Rightarrow> ('z host_scheme, string, string list) act" where
  "scrub_entry name =
     (let p = path_join pam_d name; n = (if utf8_valid name then name else []) in
      abind (query (\<lambda>w. if is_regular p w \<and> \<not> contains_str n ''.pre-linhello''
          then opt_filter (\<lambda>c. contains_str c module_needle) (res_ok (fs_read_to_string p w)) else None)) (\<lambda>c.
      case c of
        None \<Rightarrow> ret []
      | Some content \<Rightarrow>
          if n = ''linhello-test'' then try_remove p [''removed '' @ p]
          else if is_created_override content
          then try_remove p [''removed '' @ p @ '' (was a linhello-created override)'']
          else strip_references p content))"

fun scrub_entries :: "string list \<Rightarrow> ('z host_scheme, string, string list) act" where
  "scrub_entries [] = ret []"
| "scrub_entries (n # ns) =
     abind (scrub_entry n) (\<lambda>l. abind (scrub_entries ns) (\<lambda>ls. ret (l @ ls)))"

definition scrub_pam_references ::
  "('z host_scheme, 'y) system_scheme \<Rightarrow> ('z host_scheme, string, string list) act" where
  "scrub_pam_references S = abind (query (list_dir S pam_d)) (\<lambda>r.
     case r of None \<Rightarrow> ret [] | Some names \<Rightarrow> scrub_entries names)"

section \<open>Files\<close>

definition remove_if :: "string \<Rightarrow> ('z host_scheme, string, string list) act" where
  "remove_if p =
     abind (try_act (fs_remove_file p)) (\<lambda>r. ret (case r of
       Inr _ \<Rightarrow> [''removed '' @ p]
     | Inl e \<Rightarrow> if e = NotFound then [] else [''could not remove '' @ p @ '': '' @ io_to_string e]))"

fun remove_each :: "string list \<Rightarrow> ('z host_scheme, string, string list) act" where
  "remove_each [] = ret []"
| "remove_each (p # ps) = abind (remove_if p) (\<lambda>l. abind (remove_each ps) (\<lambda>ls. ret (l @ ls)))"

definition installed_files :: "string list" where
  "installed_files =
     concat (map (\<lambda>d. map (path_join d) bin_names) bin_dirs) @
     concat (map (\<lambda>d. map (path_join d) pam_libs) pam_lib_dirs) @
     unit_paths @ udev_rule_paths @ sleep_hook_paths @ [pacman_hook]"

text \<open>\<open>std::fs::remove_dir\<close>; its one caller has just seen an empty listing.\<close>

definition fs_remove_dir :: "string \<Rightarrow> ('z host_scheme, io_error, unit) act" where
  "fs_remove_dir d w = (case io_fault w OpRemove d of
      Some e \<Rightarrow> (Err e, w)
    | None \<Rightarrow>
        if d \<notin> set (dirs w) then (Err NotFound, w)
        else if list_ex (below d) (dirs w) then (Err (OtherIo ''Directory not empty (os error 39)''), w)
        else (Ok (), w\<lparr>dirs := filter (\<lambda>q. q \<noteq> d) (dirs w)\<rparr>))"

definition is_onnx :: "string \<Rightarrow> bool" where
  "is_onnx name \<longleftrightarrow> ends_with name ''.onnx'' \<and> name \<noteq> ''.onnx''"

definition remove_config_entry :: "bool \<Rightarrow> string \<Rightarrow> ('z host_scheme, string, string list) act" where
  "remove_config_entry remove_models name =
     (let p = path_join config_root name in
      if is_onnx name \<and> \<not> remove_models
      then ret [''kept model '' @ (if utf8_valid name then name else ''?'')]
      else
        abind (query (\<lambda>w. p \<in> set (dirs w))) (\<lambda>is_dir.
        abind (try_act (if is_dir then fs_remove_dir_all p else fs_remove_file p)) (\<lambda>r.
        ret (case r of Inr _ \<Rightarrow> [''removed '' @ p]
             | Inl e \<Rightarrow> [''could not remove '' @ p @ '': '' @ io_to_string e]))))"

fun remove_config_entries :: "bool \<Rightarrow> string list \<Rightarrow> ('z host_scheme, string, string list) act" where
  "remove_config_entries remove_models [] = ret []"
| "remove_config_entries remove_models (n # ns) =
     abind (remove_config_entry remove_models n) (\<lambda>l.
     abind (remove_config_entries remove_models ns) (\<lambda>ls. ret (l @ ls)))"

definition remove_config_data ::
  "('z host_scheme, 'y) system_scheme \<Rightarrow> bool \<Rightarrow> ('z host_scheme, string, string list) act" where
  "remove_config_data S remove_models =
     abind (query (list_dir S config_root)) (\<lambda>r. case r of
       None \<Rightarrow> ret []
     | Some names \<Rightarrow>
         abind (remove_config_entries remove_models names) (\<lambda>log.
         abind (query (\<lambda>w. list_dir S config_root w = Some [])) (\<lambda>empty.
         if empty then abind (ignore (fs_remove_dir config_root)) (\<lambda>_. ret (log @ [''removed '' @ config_root]))
         else ret log)))"

definition remove_everything ::
  "('z host_scheme, 'y) system_scheme \<Rightarrow> bool \<Rightarrow> ('z host_scheme, string, string list) act" where
  "remove_everything S remove_models =
     abind (run_systemctl S [''disable'', ''--now'', ''linhellod'']) (\<lambda>stopped.
     abind (owning_package_manager S) (\<lambda>pm.
     abind (case pm of Some m \<Rightarrow> remove_package S m
            | None \<Rightarrow> ret (''no package record '' @ em_dash @ '' removing installed files directly'')) (\<lambda>plog.
     abind (remove_each installed_files) (\<lambda>flog.
     abind (run_systemctl S [''daemon-reload'']) (\<lambda>_.
     abind (remove_config_data S remove_models) (\<lambda>clog.
     ret ([if stopped then ''stopped and disabled linhellod'' else ''linhellod was not running / already disabled'',
           plog] @ flog @ clog)))))))"

definition uninstall ::
  "('z host_scheme, 'y) system_scheme \<Rightarrow> bool \<Rightarrow> ('z host_scheme, string, string list) act" where
  "uninstall S remove_models =
     abind (amap_err (\<lambda>e. ''could not unwire PAM ('' @ e @ ''); aborted before removing anything (login stays intact)'')
       (disable (tools S) False)) (\<lambda>changes.
     abind (scrub_pam_references S) (\<lambda>slog.
     abind (remove_everything S remove_models) (\<lambda>rlog.
     ret ((''unwired face login from '' @ show_nat (length changes) @ '' PAM file(s)'') # slog @ rlog))))"

end
