(* ===== verification/ReleaseProps.thy ===== *)
theory ReleaseProps
  imports Uninstall
begin

text \<open>
  Lemmas on the update, the model download and the uninstallation: what changes the installed
  models, and that scrubbing leaves no reference to the PAM module.
\<close>

section \<open>The installed models\<close>

definition kept_models :: "'z host_scheme \<Rightarrow> 'z host_scheme \<Rightarrow> bool" where
  "kept_models v w \<longleftrightarrow> files w det_path = files v det_path \<and> files w face_path = files v face_path"

interpretation models: frame "kept_models :: 'z host_scheme \<Rightarrow> 'z host_scheme \<Rightarrow> bool"
  by unfold_locales (auto simp: kept_models_def)

text \<open>The external commands touch neither model.\<close>

definition models_untouched :: "('z host_scheme, 'y) system_scheme \<Rightarrow> bool" where
  "models_untouched S \<longleftrightarrow> (\<forall>prog args. models.keeps (cmd_output S prog args)) \<and>
     (\<forall>cwd envs prog args. models.keeps (exec_in S cwd envs prog args))"

lemma models_fs: "models.keeps (fs_create_dir_all p)" "models.keeps (fs_set_permissions p m)"
  by (auto simp: models.keeps_def kept_models_def fs_create_dir_all_def fs_set_permissions_def Let_def split: option.splits)

lemma no_dash: "CHR ''-'' \<notin> set det_path" "CHR ''-'' \<notin> set face_path"
  by (simp_all add: det_path_def face_path_def path_join_def starts_with_def config_root_def)

lemma models_remove_dir_all: "CHR ''-'' \<in> set d \<Longrightarrow> models.keeps (fs_remove_dir_all d)"
proof -
  assume d: "CHR ''-'' \<in> set d"
  have "\<not> below d det_path" "\<not> below d face_path"
    using d no_dash set_mono_prefix by (auto simp: below_def dest!: set_mono_prefix)
  then show ?thesis
    by (simp add: models.keeps_def kept_models_def fs_remove_dir_all_def split: option.split)
qed

lemma models_ignore: "models.keeps m \<Longrightarrow> models.keeps (ignore m)"
  unfolding ignore_def by (intro models.keeps_intros)

lemma models_run_streamed: "models_untouched S \<Longrightarrow> models.keeps (run_streamed S uid cwd prog args)"
  unfolding run_streamed_def models_untouched_def
  by (intro models.keeps_intros models.keeps_case_prod) auto

lemma models_sha256_of: "models_untouched S \<Longrightarrow> models.keeps (sha256_of S p)"
  unfolding sha256_of_def models_untouched_def by (intro models.keeps_intros models.keeps_case_prod) auto

lemma models_verify: "models_untouched S \<Longrightarrow> models.keeps (verify_model S p lbl pinned)"
  unfolding verify_model_def by (intro models.keeps_intros models_sha256_of)

lemma models_need_under: "models.keeps (need_under S d n)"
  unfolding need_under_def by (intro models.keeps_intros)

lemma verify_model_Ok:
  assumes "verify_model S p lbl pinned v = (Ok l, x)" and "pinned \<noteq> []" and "\<not> ends_with pinned ''PLACEHOLDER''"
  shows "sha256_of S p v = (Ok pinned, x)"
  using assms by (auto simp: verify_model_def res_iff split: if_splits)

lemma pinned_hashes:
  "det_sha256 \<noteq> []" "rec_sha256 \<noteq> []" "\<not> ends_with det_sha256 ''PLACEHOLDER''" "\<not> ends_with rec_sha256 ''PLACEHOLDER''"
  by (simp_all add: det_sha256_def rec_sha256_def ends_with_def suffix_to_prefix)

text \<open>A change comes from the part of a computation that may make one.\<close>

lemma changed_abind:
  assumes "models.keeps m" and "\<not> kept_models w (snd (abind m f w))"
  shows "\<exists>a v. m w = (Ok a, v) \<and> kept_models w v \<and> \<not> kept_models v (snd (f a v)) \<and> snd (abind m f w) = snd (f a v)"
  using models.keepsD [OF assms(1), of w] assms(2)
  by (cases "m w") (auto simp: abind_def kept_models_def split: outcome.splits)

lemma models_restart: "models_untouched S \<Longrightarrow> models.keeps (restart_linhellod S msg)"
  unfolding restart_linhellod_def by (intro models.keeps_intros models_run_streamed)

lemma fs_copy_files:
  "files (snd (fs_copy p q w)) = files w \<and> fst (fs_copy p q w) \<noteq> Ok () \<or>
   (\<exists>b. files w p = Some b \<and> fs_copy p q w = (Ok (), snd (fs_copy p q w)) \<and>
      files (snd (fs_copy p q w)) = (files w)(q \<mapsto> b))"
  by (auto simp: fs_copy_def fs_read_def fs_write_def split: option.splits)

lemma install_model_files:
  fixes w :: "'z host_scheme"
  shows "files (snd (install_model p q w)) = files w \<and> fst (install_model p q w) \<noteq> Ok () \<or>
   (\<exists>b. files w p = Some b \<and> fst (install_model p q w) = Ok () \<and>
      files (snd (install_model p q w)) = (files w)(q \<mapsto> b))"
proof -
  have perm: "fst ((ignore (fs_set_permissions q 420) :: ('z host_scheme, string, unit) act) v) = Ok () \<and>
      files (snd ((ignore (fs_set_permissions q 420) :: ('z host_scheme, string, unit) act) v)) = files v" for v
    by (auto simp: ignore_def abind_def try_act_def fs_set_permissions_def split: option.splits)
  from fs_copy_files [of p q w] show ?thesis
    using perm by (auto simp: install_model_def abind_eq amap_err_def split: prod.splits outcome.splits)
qed

lemma det_not_face: "det_path \<noteq> face_path"
  by (simp add: det_path_def face_path_def path_join_def starts_with_def)

text \<open>The two copies in order.\<close>

lemma copies_state:
  assumes S: "models_untouched S" and c: "\<not> kept_models x (snd (install_obtained S p q vlog x))"
  defines "w' \<equiv> snd (install_obtained S p q vlog x)"
  shows "files w' det_path = files x p \<and>
    (files w' face_path = files x face_path \<or> files w' face_path = ((files x)(det_path := files x p)) q)"
proof -
  let ?y = "snd (install_model p det_path x)"
  let ?z = "snd (install_model q face_path ?y)"
  let ?m = "abind (restart_linhellod S ''restarted linhellod'') (\<lambda>rlog.
     ret (vlog @ [''installed '' @ det_path @ '' + '' @ face_path] @ rlog))"
  have "models.keeps ?m" by (intro models.keeps_intros models_restart [OF S])
  then have mz: "files (snd (?m v)) det_path = files v det_path" "files (snd (?m v)) face_path = files v face_path" for v
    using models.keepsD [of ?m v] by (auto simp: kept_models_def)
  from c install_model_files [of p det_path x] obtain b where
    b: "files x p = Some b" "fst (install_model p det_path x) = Ok ()" "files ?y = (files x)(det_path \<mapsto> b)"
    by (auto simp: install_obtained_def abind_eq kept_models_def split: outcome.splits)
  then have w': "w' = snd (abind (install_model q face_path) (\<lambda>_. ?m) ?y)"
    by (simp add: w'_def install_obtained_def abind_eq [of "install_model p det_path"])
  from install_model_files [of q face_path ?y] show ?thesis
  proof
    assume n: "files ?z = files ?y \<and> fst (install_model q face_path ?y) \<noteq> Ok ()"
    then have "w' = ?z" unfolding w' by (auto simp: abind_eq [of "install_model q face_path"] split: outcome.splits)
    then show ?thesis using n b det_not_face by auto
  next
    assume "\<exists>c. files ?y q = Some c \<and> fst (install_model q face_path ?y) = Ok () \<and> files ?z = (files ?y)(face_path \<mapsto> c)"
    then obtain c where c: "files ?y q = Some c" "fst (install_model q face_path ?y) = Ok ()"
      "files ?z = (files ?y)(face_path \<mapsto> c)" by blast
    then have "w' = snd (?m ?z)" unfolding w' by (simp add: abind_eq [of "install_model q face_path"])
    then show ?thesis using mz [of ?z] b c det_not_face by auto
  qed
qed

lemma scratch_dash: "CHR ''-'' \<in> set (scratch_dir S ''linhello-models-'' w)"
  by (simp add: scratch_dir_def path_join_def starts_with_def)

lemma obtain_models_keeps: "models_untouched S \<Longrightarrow> models.keeps (obtain_models S tmp)"
  unfolding obtain_models_def download_def Let_def
  by (intro models.keeps_intros models_run_streamed models_need_under models_verify)

lemma obtain_models_Ok:
  assumes "obtain_models S tmp w = (Ok (p, q, vlog), x)"
  shows "\<exists>u v. sha256_of S p u = (Ok det_sha256, v) \<and> sha256_of S q v = (Ok rec_sha256, x)"
  using assms verify_model_Ok [OF _ pinned_hashes(1,3)] verify_model_Ok [OF _ pinned_hashes(2,4)]
  by (fastforce simp: obtain_models_def Let_def res_iff)

lemma create_root_state: "files (snd (make_config_root w)) = files w"
  by (auto simp: make_config_root_def fs_create_dir_all_def Let_def split: option.split)

lemma fetch_models_in_state:
  assumes S: "models_untouched S" and c: "\<not> kept_models w (snd (fetch_models_in S tmp w))"
  shows "\<exists>p q u v x. sha256_of S p u = (Ok det_sha256, v) \<and> sha256_of S q v = (Ok rec_sha256, x) \<and> kept_models w x \<and>
    files (snd (fetch_models_in S tmp w)) det_path = files x p \<and>
    (files (snd (fetch_models_in S tmp w)) face_path = files x face_path \<or>
     files (snd (fetch_models_in S tmp w)) face_path = ((files x)(det_path := files x p)) q)"
proof -
  from changed_abind [OF obtain_models_keeps [OF S] c [unfolded fetch_models_in_def]]
  obtain p q vlog x where x: "obtain_models S tmp w = (Ok (p, q, vlog), x)" "kept_models w x"
    and c1: "\<not> kept_models x (snd (abind make_config_root (\<lambda>_. install_obtained S p q vlog) x))"
    and e1: "snd (fetch_models_in S tmp w) = snd (abind make_config_root (\<lambda>_. install_obtained S p q vlog) x)"
    by (auto simp: fetch_models_in_def)
  have mk: "models.keeps make_config_root"
    unfolding make_config_root_def by (intro models.keeps_map_err models_fs)
  from changed_abind [OF mk c1] obtain y where y: "make_config_root x = (Ok (), y)"
    and c2: "\<not> kept_models y (snd (install_obtained S p q vlog y))"
    and e2: "snd (fetch_models_in S tmp w) = snd (install_obtained S p q vlog y)"
    unfolding e1 by auto
  have yx: "files y = files x" using create_root_state [of x] y by simp
  show ?thesis
    using copies_state [OF S c2] obtain_models_Ok [OF x(1)] x(2) unfolding e2 yx by blast
qed

lemma kept_after_try:
  "(\<And>res. models.keeps (f res)) \<Longrightarrow> kept_models (snd (m v)) (snd (abind (try_act m) f v))"
  unfolding abind_eq [of "try_act m"] by (auto split: outcome.split intro: models.keepsD models.frame_refl)

lemma abind_query: "abind (query f) g w = g (f w) w"
  by (simp add: abind_def)

lemma if_apply: "(if b then f else g) w = (if b then f w else g w)"
  by simp

lemma need_tools_state: "snd (need_tools ts w) = w"
  by (induction ts) (auto simp: abind_eq)

lemma fetch_models_state:
  assumes S: "models_untouched S" and c: "\<not> kept_models w (snd (fetch_models S force w))"
  shows "\<exists>tmp v. kept_models w v \<and> \<not> kept_models v (snd (fetch_models_in S tmp v)) \<and>
    kept_models (snd (fetch_models_in S tmp v)) (snd (fetch_models S force w))"
proof -
  let ?tmp = "scratch_dir S ''linhello-models-'' w"
  let ?m = "fetch_models_in S ?tmp"
  have "snd (fetch_models S force w) = w \<or> snd (fetch_models S force w) = snd (in_scratch ?tmp ?m w)"
  proof -
    obtain r where nt: "need_tools [''curl'', ''unzip'', ''sha256sum''] w = (r, w)"
      by (metis prod.collapse need_tools_state)
    have "fetch_models S force w = (if \<not> force \<and> path_exists det_path w \<and> path_exists face_path w
        then ret [''buffalo_l models already present in /etc/linhello (use --force to re-fetch)''] w
        else abind (need_tools [''curl'', ''unzip'', ''sha256sum'']) (\<lambda>_.
          abind (query (scratch_dir S ''linhello-models-'')) (\<lambda>tmp. in_scratch tmp (fetch_models_in S tmp))) w)"
      by (simp only: fetch_models_def abind_query if_apply)
    moreover have "abind (need_tools [''curl'', ''unzip'', ''sha256sum'']) (\<lambda>_.
          abind (query (scratch_dir S ''linhello-models-'')) (\<lambda>tmp. in_scratch tmp (fetch_models_in S tmp))) w =
        (case r of Ok _ \<Rightarrow> in_scratch ?tmp ?m w | Err e \<Rightarrow> (Err e, w) | Panic s \<Rightarrow> (Panic s, w))"
      by (simp only: abind_eq [of "need_tools [''curl'', ''unzip'', ''sha256sum'']"] nt fst_conv snd_conv abind_query)
    ultimately show ?thesis by (cases r) (simp_all only: ret_def snd_conv outcome.case simp_thms split: if_split)
  qed
  with c have run: "snd (fetch_models S force w) = snd (in_scratch ?tmp ?m w)" and cs: "\<not> kept_models w (snd (in_scratch ?tmp ?m w))"
    by (auto simp: kept_models_def)
  from changed_abind [OF models.keeps_map_err [OF models_fs(1)] cs [unfolded in_scratch_def]] obtain v where
    v: "kept_models w v" "\<not> kept_models v (snd (abind (try_act ?m) (\<lambda>result. abind (ignore (fs_remove_dir_all ?tmp)) (\<lambda>_. lift result)) v))"
      "snd (in_scratch ?tmp ?m w) = snd (abind (try_act ?m) (\<lambda>result. abind (ignore (fs_remove_dir_all ?tmp)) (\<lambda>_. lift result)) v)"
    unfolding in_scratch_def by auto
  have clean: "models.keeps (abind (ignore (fs_remove_dir_all ?tmp)) (\<lambda>_. lift result))" for result :: "string + string list"
    by (intro models.keeps_intros models_ignore models_remove_dir_all scratch_dash)
  have k: "kept_models (snd (?m v)) (snd (abind (try_act ?m) (\<lambda>result. abind (ignore (fs_remove_dir_all ?tmp)) (\<lambda>_. lift result)) v))"
    by (rule kept_after_try [OF clean])
  with v(2) have "\<not> kept_models v (snd (?m v))" using models.frame_trans by blast
  moreover have "kept_models (snd (?m v)) (snd (fetch_models S force w))" using k unfolding run v(3) .
  ultimately show ?thesis using v(1) by blast
qed

section \<open>Scrubbing the PAM directory\<close>

definition pam_path :: "string \<Rightarrow> string" where
  "pam_path n = path_join pam_d n"

text \<open>A directory whose files can be read and replaced, and names as a listing gives them.\<close>

definition tidy :: "string list \<Rightarrow> 'z host_scheme \<Rightarrow> bool" where
  "tidy names w \<longleftrightarrow> io_fault w = (\<lambda>_ _. None) \<and> pam_d \<in> set (dirs w) \<and>
     (\<forall>n\<in>set names. CHR ''/'' \<notin> set n \<and> pam_path n \<notin> set (dirs w))"

definition candidate :: "string \<Rightarrow> bool" where
  "candidate n \<longleftrightarrow> utf8_valid n \<and> \<not> contains_str n ''.pre-linhello''"

definition unreferenced :: "string \<Rightarrow> 'z host_scheme \<Rightarrow> bool" where
  "unreferenced n w \<longleftrightarrow> (\<forall>c. files w (pam_path n) = Some c \<and> utf8_valid c \<longrightarrow> \<not> contains_str c module_needle)"

lemma pam_path_plain: "CHR ''/'' \<notin> set n \<Longrightarrow> pam_path n = pam_d @ ''/'' @ n"
  by (cases n) (auto simp: pam_path_def path_join_def starts_with_def)

lemma sublist_nl:
  assumes "nl \<notin> set n" and "sublist n (a @ nl # b)"
  shows "sublist n a \<or> sublist n b"
proof -
  from assms(2) have "sublist n a \<or> sublist n (nl # b) \<or> (\<exists>u v. n = u @ v \<and> suffix u a \<and> prefix v (nl # b))"
    by (simp add: sublist_append)
  moreover have "v = []" if "n = u @ v" "prefix v (nl # b)" for u v
    using that assms(1) by (cases v) auto
  moreover have "sublist n (nl # b) \<Longrightarrow> n = [] \<or> sublist n b"
    using assms(1) by (cases n) (auto simp: sublist_Cons_right)
  ultimately show ?thesis by (metis append_Nil2 sublist_Nil_left suffix_imp_sublist)
qed

lemma join_nl_needle:
  assumes "nl \<notin> set n" and "n \<noteq> []" and "\<forall>l\<in>set ls. \<not> sublist n l"
  shows "\<not> sublist n (join_with [nl] ls)"
  using assms(3)
proof (induction ls)
  case (Cons l ls)
  show ?case
  proof (cases ls)
    case (Cons m ms)
    then have "join_with [nl] (l # ls) = l @ nl # join_with [nl] ls" by simp
    then show ?thesis using sublist_nl [OF assms(1), of l "join_with [nl] ls"] Cons.IH Cons.prems by auto
  qed (use Cons.prems in auto)
qed (simp add: assms(2))

lemma needle_shape: "nl \<notin> set module_needle" "module_needle \<noteq> []"
  by (simp_all add: module_needle_def)

lemma cleaned_no_needle: "\<not> contains_str (cleaned_text c) module_needle"
proof -
  let ?ls = "filter (\<lambda>l. \<not> contains_str l module_needle) (str_lines c)"
  have j: "\<not> sublist module_needle (join_with [nl] ?ls)"
    by (rule join_nl_needle [OF needle_shape]) (simp add: contains_str_iff)
  moreover have "\<not> sublist module_needle (join_with [nl] ?ls @ [nl])"
    using sublist_nl [OF needle_shape(1), of "join_with [nl] ?ls" "[]"] j needle_shape(2) by auto
  ultimately show ?thesis by (simp add: cleaned_text_def contains_str_iff)
qed

lemma backup_not_candidate: "\<not> candidate (n @ ''.pre-linhello-uninstall'')"
proof -
  have "n @ ''.pre-linhello-uninstall'' = n @ ''.pre-linhello'' @ ''-uninstall''" by simp
  then have "sublist ''.pre-linhello'' (n @ ''.pre-linhello-uninstall'')"
    by (metis sublist_appendI)
  then show ?thesis by (simp add: candidate_def contains_str_iff)
qed

lemma scrub_backup_path: "CHR ''/'' \<notin> set n \<Longrightarrow> scrub_backup (pam_path n) = pam_path (n @ ''.pre-linhello-uninstall'')"
  by (simp add: scrub_backup_def pam_path_plain)

lemma pam_path_inj: "CHR ''/'' \<notin> set m \<Longrightarrow> CHR ''/'' \<notin> set n \<Longrightarrow> pam_path m = pam_path n \<longleftrightarrow> m = n"
  by (simp add: pam_path_plain)

text \<open>What one step may change: the entry and its backup.\<close>

definition changes_only :: "string \<Rightarrow> 'z host_scheme \<Rightarrow> 'z host_scheme \<Rightarrow> bool" where
  "changes_only p v w \<longleftrightarrow> dirs w = dirs v \<and> io_fault w = io_fault v \<and>
     (\<forall>q. q \<noteq> p \<longrightarrow> q \<noteq> scrub_backup p \<longrightarrow> files w q = files v q)"

lemma changes_only_refl [simp]: "changes_only p w w"
  by (simp add: changes_only_def)

lemma fs_copy_backup: "changes_only p w (snd (fs_copy p (scrub_backup p) w)) \<and>
    files (snd (fs_copy p (scrub_backup p) w)) p = files w p \<and> \<not> panics (fst (fs_copy p (scrub_backup p) w))"
  by (auto simp: fs_copy_def fs_write_def changes_only_def scrub_backup_def split: sum.split option.splits)

lemma try_remove_calm:
  assumes "io_fault w = (\<lambda>_ _. None)" and "files w p = Some c"
  shows "\<exists>w'. try_remove p msgs w = (Ok msgs, w') \<and> changes_only p w w' \<and> files w' p = None"
  using assms by (simp add: try_remove_def abind_def try_act_def fs_remove_file_def changes_only_def)

lemma strip_references_calm:
  fixes w :: "'a host_scheme"
  assumes "io_fault w = (\<lambda>_ _. None)" and "p \<notin> set (dirs w)" and "parent p = Some d" and "d \<in> set (dirs w)"
  shows "\<exists>l w'. strip_references p content w = (Ok l, w') \<and> changes_only p w w' \<and> files w' p = Some (cleaned_text content)"
proof -
  let ?b = "(if path_exists (scrub_backup p) w then ret () else ignore (fs_copy p (scrub_backup p)))
    :: ('a host_scheme, string, unit) act"
  let ?v = "if path_exists (scrub_backup p) w then w else snd (fs_copy p (scrub_backup p) w)"
  have b: "?b w = (Ok (), ?v)"
    using fs_copy_backup [of p w]
    by (cases "fs_copy p (scrub_backup p) w"; cases "fst (fs_copy p (scrub_backup p) w)")
      (simp_all add: ignore_def abind_def try_act_def)
  obtain v where v: "?b w = (Ok (), v)" "changes_only p w v" "files v p = files w p"
    using b fs_copy_backup [of p w] by (cases "path_exists (scrub_backup p) w") auto
  then have "fs_write p (cleaned_text content) v = (Ok (), put_file p (cleaned_text content) v)"
    using assms by (simp add: changes_only_def fs_write_def)
  then have "strip_references p content w = (Ok [''scrubbed pam_linhello from '' @ p @ '' (backup '' @ scrub_backup p @ '')''], put_file p (cleaned_text content) v)"
    using v(1) by (simp add: strip_references_def abind_def try_act_def)
  moreover have "changes_only p w (put_file p (cleaned_text content) v)"
    using v(2) by (simp add: changes_only_def)
  ultimately show ?thesis by auto
qed

lemma scrub_entry_effect:
  assumes t: "tidy names w" and n: "n \<in> set names"
  shows "\<exists>l w'. scrub_entry n w = (Ok l, w') \<and> changes_only (pam_path n) w w' \<and> (candidate n \<longrightarrow> unreferenced n w')"
proof -
  let ?p = "pam_path n" and ?n = "if utf8_valid n then n else []"
  have io: "io_fault w = (\<lambda>_ _. None)" and slash: "CHR ''/'' \<notin> set n" and nd: "?p \<notin> set (dirs w)" and pd: "pam_d \<in> set (dirs w)"
    using t n by (auto simp: tidy_def)
  have par: "parent ?p = Some pam_d" by (simp add: pam_path_plain [OF slash] parent_join [OF slash, simplified])
  let ?c = "if is_regular ?p w \<and> \<not> contains_str ?n ''.pre-linhello''
      then opt_filter (\<lambda>c. contains_str c module_needle) (res_ok (fs_read_to_string ?p w)) else None"
  have step: "scrub_entry n w = (case ?c of
        None \<Rightarrow> ret []
      | Some content \<Rightarrow>
          if ?n = ''linhello-test'' then try_remove ?p [''removed '' @ ?p]
          else if is_created_override content
          then try_remove ?p [''removed '' @ ?p @ '' (was a linhello-created override)'']
          else strip_references ?p content) w"
    by (simp only: scrub_entry_def pam_path_def Let_def abind_query)
  show ?thesis
  proof (cases ?c)
    case None
    then have "candidate n \<Longrightarrow> unreferenced n w"
      using io by (auto simp: candidate_def unreferenced_def is_regular_def fs_read_to_string_def fs_read_def split: if_splits option.splits)
    then show ?thesis using step None by auto
  next
    case (Some content)
    then have f: "files w ?p = Some content"
      by (auto simp: fs_read_to_string_def fs_read_def res_iff res_ok_def split: if_splits option.splits sum.splits)
    show ?thesis
    proof (cases "?n = ''linhello-test'' \<or> is_created_override content")
      case True
      then have "\<exists>msgs. scrub_entry n w = try_remove ?p msgs w"
        unfolding step Some option.case by (cases "?n = ''linhello-test''") auto
      then obtain msgs where "scrub_entry n w = try_remove ?p msgs w" by blast
      then show ?thesis using try_remove_calm [OF io f, of msgs] by (auto simp: unreferenced_def)
    next
      case False
      then have "scrub_entry n w = strip_references ?p content w" using step Some by auto
      then show ?thesis
        using strip_references_calm [OF io nd par pd, of content] cleaned_no_needle by (auto simp: unreferenced_def)
    qed
  qed
qed

lemma changes_only_unreferenced:
  assumes "changes_only (pam_path n) v w" and "unreferenced m v" and "candidate m" and "m \<noteq> n"
    and "CHR ''/'' \<notin> set m" and "CHR ''/'' \<notin> set n"
  shows "unreferenced m w"
proof -
  have "pam_path m \<noteq> pam_path n" using assms pam_path_inj by simp
  moreover have "pam_path m \<noteq> scrub_backup (pam_path n)"
    using assms(3,5,6) backup_not_candidate [of n] by (auto simp: scrub_backup_path pam_path_inj)
  ultimately show ?thesis using assms(1,2) by (simp add: changes_only_def unreferenced_def)
qed

lemma changes_only_tidy: "changes_only p v w \<Longrightarrow> tidy names v \<Longrightarrow> tidy names w"
  by (simp add: changes_only_def tidy_def)

lemma scrub_entries_effect:
  assumes "tidy names w" and "set ns \<subseteq> set names"
  shows "\<exists>l w'. scrub_entries ns w = (Ok l, w') \<and> tidy names w' \<and>
    (\<forall>n\<in>set names. candidate n \<longrightarrow> n \<in> set ns \<or> unreferenced n w \<longrightarrow> unreferenced n w')"
  using assms
proof (induction ns arbitrary: w)
  case (Cons n ns)
  from scrub_entry_effect [OF Cons.prems(1), of n] Cons.prems(2) obtain l v where
    v: "scrub_entry n w = (Ok l, v)" "changes_only (pam_path n) w v" "candidate n \<longrightarrow> unreferenced n v"
    by auto
  have tv: "tidy names v" by (rule changes_only_tidy [OF v(2) Cons.prems(1)])
  have keep: "unreferenced m v" if "m \<in> set names" "candidate m" "m = n \<or> unreferenced m w" for m
    using that v(2,3) changes_only_unreferenced [OF v(2), of m] Cons.prems by (auto simp: tidy_def)
  from Cons.IH [OF tv] Cons.prems(2) obtain l' w' where
    "scrub_entries ns v = (Ok l', w')" "tidy names w'"
    "\<forall>n\<in>set names. candidate n \<longrightarrow> n \<in> set ns \<or> unreferenced n v \<longrightarrow> unreferenced n w'"
    by auto
  then show ?case using v(1) keep by (auto simp: abind_def)
qed simp

lemma scrub_pam_clean:
  assumes "list_dir S pam_d w = Some names" and "tidy names w"
  shows "\<exists>l w'. scrub_pam_references S w = (Ok l, w') \<and> (\<forall>n\<in>set names. candidate n \<longrightarrow> unreferenced n w')"
  using scrub_entries_effect [OF assms(2) order_refl] assms(1)
  by (simp add: scrub_pam_references_def abind_query) blast

section \<open>Steps that always return\<close>

text \<open>
  A step returns when it ends with a value in every state; it is panic-free when it never panics. What is
  tried or ignored returns as soon as it is panic-free, so the removal, which logs what it cannot remove,
  goes on to its end.
\<close>

definition returns :: "('w, 'e, 'a) act \<Rightarrow> bool" where
  "returns m \<longleftrightarrow> (\<forall>w. \<exists>x v. m w = (Ok x, v))"

definition panic_free :: "('w, 'e, 'a) act \<Rightarrow> bool" where
  "panic_free m \<longleftrightarrow> (\<forall>w s v. m w \<noteq> (Panic s, v))"

named_theorems returning

lemma returnsE: "returns m \<Longrightarrow> (\<And>x v. m w = (Ok x, v) \<Longrightarrow> P) \<Longrightarrow> P"
  unfolding returns_def by blast

lemma returns_ret [returning]: "returns (ret x)"
  by (simp add: returns_def ret_def)

lemma returns_Pair [returning]: "returns (Pair (Ok x))"
  by (simp add: returns_def)

lemma returns_query [returning]: "returns (query f)"
  by (simp add: returns_def query_def)

lemma returns_abind [returning]: "returns m \<Longrightarrow> (\<And>x. returns (f x)) \<Longrightarrow> returns (abind m f)"
  unfolding returns_def by (metis abind_run(1))

lemma returns_try [returning]: "panic_free m \<Longrightarrow> returns (try_act m)"
  by (auto simp: returns_def panic_free_def try_act_def split: prod.split outcome.split)

lemma returns_ignore [returning]: "panic_free m \<Longrightarrow> returns (ignore m)"
  unfolding ignore_def by (intro returning)

lemma returns_if [returning]: "returns m \<Longrightarrow> returns n \<Longrightarrow> returns (if b then m else n)"
  by simp

lemma panic_free_if [returning]: "panic_free m \<Longrightarrow> panic_free n \<Longrightarrow> panic_free (if b then m else n)"
  by simp

lemma panic_free_fs [returning]:
  "panic_free (fs_remove_file p)" "panic_free (fs_remove_dir_all p)" "panic_free (fs_remove_dir p)" "panic_free (fs_write p b)" "panic_free (fs_copy p q)"
  by (auto simp: panic_free_def fs_remove_file_def fs_remove_dir_all_def fs_remove_dir_def fs_write_def fs_copy_def
    split: option.splits sum.splits if_splits)

lemma returns_remove_each [returning]: "returns (remove_each ps)"
  by (induction ps) (simp_all add: remove_if_def returning)

lemma returns_scrub_entry [returning]: "returns (scrub_entry n)"
  by (simp add: scrub_entry_def Let_def try_remove_def strip_references_def returning split: option.split)

lemma returns_scrub_entries [returning]: "returns (scrub_entries ns)"
  by (induction ns) (simp_all add: returning)

lemma returns_scrub [returning]: "returns (scrub_pam_references S)"
  by (simp add: scrub_pam_references_def returning split: option.split)

lemma returns_config_entries [returning]: "returns (remove_config_entries rm ns)"
  by (induction ns) (simp_all add: remove_config_entry_def Let_def returning)

lemma returns_config_data [returning]: "returns (remove_config_data S rm)"
  by (simp add: remove_config_data_def returning split: option.split)

definition safe_commands :: "('w, 'y) system_scheme \<Rightarrow> bool" where
  "safe_commands S \<longleftrightarrow> (\<forall>p a. panic_free (cmd_output S p a))"

lemma returns_commands:
  assumes "safe_commands S"
  shows "returns (run_systemctl S a)" "returns (owning_package_manager S)" "returns (remove_package S pm)"
proof -
  have t: "returns (try_act (cmd_output S p a))" for p a
    using assms by (simp add: safe_commands_def returning)
  have s: "returns (succeeded S p a)" "returns (stdout_of S p a)" for p a
    by (simp_all add: succeeded_def stdout_of_def returning t)
  show "returns (run_systemctl S a)" "returns (owning_package_manager S)" "returns (remove_package S pm)"
    by (simp_all add: run_systemctl_def owning_package_manager_def pkg_query_def dpkg_installed_def remove_package_def
       returning s t split: pkg_mgr.split)
qed

lemma returns_remove_everything: "safe_commands S \<Longrightarrow> returns (remove_everything S rm)"
  unfolding remove_everything_def
  by (intro returning returns_commands) (auto split: option.split intro!: returning returns_commands)

lemma uninstall_returns:
  assumes "safe_commands S" and "disable (tools S) False w = (Ok changes, v)"
  shows "\<exists>msgs w'. uninstall S rm w = (Ok msgs, w')"
proof -
  obtain slog x where "scrub_pam_references S v = (Ok slog, x)" by (rule returnsE [OF returns_scrub])
  moreover obtain rlog w' where "remove_everything S rm x = (Ok rlog, w')"
    by (rule returnsE [OF returns_remove_everything [OF assms(1)]])
  ultimately show ?thesis
    using assms(2) by (simp add: uninstall_def abind_def amap_err_def ret_def)
qed

end
