(* ===== verification/ReleaseSpec.thy ===== *)
theory ReleaseSpec
  imports ReleaseProps
begin

text \<open>
  Properties of the release tooling: the update check, the signed update, the pinned downloads and
  the uninstallation.
\<close>

section \<open>Hosts for the examples\<close>

lemma take_token_word: "\<forall>c\<in>set s. ws_free c \<Longrightarrow> take_token s = s"
proof (induction s)
  case (Cons c s)
  then have "no_ws_start (c # s)" by (intro no_ws_start_Cons) simp
  with Cons show ?case by (simp add: no_ws_start_def)
qed simp

lemma split_whitespace_Nil: "split_whitespace [] = []"
  using trim_start_id [of "[]"] by (simp add: split_whitespace.simps no_ws_start_def head_token_def ws_tokens_def)

lemma split_whitespace_word:
  assumes "s \<noteq> []" and "\<forall>c\<in>set s. ws_free c"
  shows "split_whitespace s = [s]"
proof -
  obtain c t where s: "s = c # t" using assms(1) by (cases s) auto
  have t: "trim_start s = s"
    using no_ws_start_Cons [of c t] assms(2) by (intro trim_start_id) (simp add: s)
  show ?thesis
    using take_token_word [OF assms(2)]
    by (simp only: split_whitespace.simps [of s] t) (simp only: s list.case drop_all split_whitespace_Nil order_refl)
qed

definition checkout_files :: "(string \<times> bytes) list" where
  "checkout_files =
     [(''/src/Makefile'', []), (''/src/.git'', []), (trusted_signer_key_path, ''key''), (''/usr/bin/linhello'', [])]"

definition checkout_host :: host where
  "checkout_host = \<lparr>files = map_of checkout_files, modes = (\<lambda>_. Some 420),
     dirs = [''/etc'', ''/src'', ''/tmp''],
     new_mode = 420, io_fault = (\<lambda>_ _. None),
     env_vars = map_of [(''LINHELLO_SRC'', ''/src'')],
     links = (\<lambda>_. None), realpath = (\<lambda>_. None), draws = 0\<rparr>"

definition unsigned_system :: "host system" where
  "unsigned_system = \<lparr>
     cmd_output = (\<lambda>prog args w. (Ok (True, [], []), w)),
     clock = (\<lambda>_. 0),
     exec_in = (\<lambda>cwd envs prog args w. (Ok (True, if args \<noteq> [] \<and> hd args = ''tag'' then ''v1'' else [], []), w)),
     list_dir = (\<lambda>d w. None),
     file_uid = (\<lambda>_ _. None),
     make_symlink = (\<lambda>_ _. ret ()), chown_uid = (\<lambda>_ _. ret ()), current_exe = None, euid = 0, pid = 7,
     daemon_send = (\<lambda>_. fail ''unreachable'')\<rparr>"


lemma checkout_tag: "\<exists>l. pick_tag unsigned_system checkout_host = (Ok (l, ''/src'', None, ''v1''), checkout_host)"
proof -
  have t: "trim ''v1'' = ''v1''"
    by (rule trim_id) (simp_all add: no_ws_start_def no_ws_end_def head_token_def ws_tokens_def)
  show ?thesis
    by (simp add: pick_tag_def update_source_def abind_def query_def source_root_def opt_filter_def path_join_def path_exists_def
       checkout_host_def checkout_files_def unsigned_system_def starts_with_def ret_def trusted_signer_key_path_def)
      (simp add: dir_owner_def opt_filter_def run_streamed_def run_capture_in_def amap_err_def abind_def ret_def
       latest_release_tag_def first_tag_def str_lines_def t)
qed

lemma unsigned_not_vouched: "\<not> vouched unsigned_system id ''/src'' None ''v1'' w"
  by (simp add: vouched_def run_capture_in_def amap_err_def unsigned_system_def str_lines_def)

definition wired_host :: host where
  "wired_host = \<lparr>files = map_of [(''/etc/pam.d/custom'', ''auth pam_linhello.so'' @ [nl])], modes = (\<lambda>_. Some 420),
     dirs = [''/etc/pam.d''], new_mode = 420, io_fault = (\<lambda>_ _. None), env_vars = (\<lambda>_. None),
     links = (\<lambda>_. None), realpath = (\<lambda>_. None), draws = 0\<rparr>"

definition removing_system :: "host system" where
  "removing_system = \<lparr>
     cmd_output = (\<lambda>prog args w. (Ok (True, [], []), w)),
     clock = (\<lambda>_. 0), exec_in = (\<lambda>cwd envs prog args w. (Ok (True, [], []), w)),
     list_dir = (\<lambda>d w. if d = ''/etc/pam.d'' then Some [''custom''] else None), file_uid = (\<lambda>_ _. None),
     make_symlink = (\<lambda>_ _. ret ()), chown_uid = (\<lambda>_ _. ret ()), current_exe = None, euid = 0, pid = 7,
     daemon_send = (\<lambda>_. fail ''unreachable'')\<rparr>"

lemma no_os_release: "files w ''/etc/os-release'' = None \<Longrightarrow> distro_family w = OtherDistro"
  by (simp add: distro_family_def os_release_text_def fs_read_to_string_def fs_read_def split: option.splits)
   (simp_all add: classify_os_release_def parse_os_release_def str_lines_def classify_distro_def unwrap_or_def res_ok_def 
    default_os_release_def split_whitespace_Nil)

lemma disable_wired: "disable (tools removing_system) False wired_host = (Ok [], wired_host)"
proof -
  have "distro_family wired_host = OtherDistro" by (rule no_os_release) (simp add: wired_host_def)
  moreover have "existing_targets True wired_host = []" "\<not> path_exists plasmalogin_etc wired_host" 
    "\<not> path_exists kde_fp_lockscreen wired_host" "\<not> path_exists kde_lockscreen wired_host"
    by (simp_all add: existing_targets_def wired_host_def path_exists_def greeters_def sudo_file_def plasmalogin_etc_def 
     kde_fp_lockscreen_def kde_lockscreen_def)
  ultimately show ?thesis by (simp add: disable_def abind_def query_def ret_def)
qed


definition models_host :: host where
  "models_host = \<lparr>files = map_of [(''/usr/bin/curl'', []), (''/usr/bin/unzip'', []), (''/usr/bin/sha256sum'', []),
      (''/t/linhello-models-7/x/det_10g.onnx'', ''D''), (''/t/linhello-models-7/x/w600k_r50.onnx'', ''R'')],
     modes = (\<lambda>_. Some 420), dirs = [''/etc'', ''/etc/linhello''], new_mode = 420, io_fault = (\<lambda>_ _. None),
     env_vars = map_of [(''PATH'', ''/usr/bin''), (''TMPDIR'', ''/t'')],
     links = (\<lambda>_. None), realpath = (\<lambda>_. None), draws = 0\<rparr>"

definition models_system :: "host system" where
  "models_system = \<lparr>
     cmd_output = (\<lambda>prog args w. (Ok (True, if args = [''/t/linhello-models-7/x/det_10g.onnx''] then det_sha256 else rec_sha256, []), w)),
     clock = (\<lambda>_. 0), exec_in = (\<lambda>cwd envs prog args w. (Ok (True, [], []), w)),
     list_dir = (\<lambda>d w. Some [''det_10g.onnx'', ''w600k_r50.onnx'']), file_uid = (\<lambda>_ _. None),
     make_symlink = (\<lambda>_ _. ret ()), chown_uid = (\<lambda>_ _. ret ()), current_exe = None, euid = 0, pid = 7,
     daemon_send = (\<lambda>_. fail ''unreachable'')\<rparr>"


lemma pinned_words: "split_whitespace det_sha256 = [det_sha256]" "split_whitespace rec_sha256 = [rec_sha256]"
  by (rule split_whitespace_word; simp add: det_sha256_def rec_sha256_def ws_free_def ws_tokens_def)+

lemma pinned_utf8: "utf8_lossy det_sha256 = det_sha256" "utf8_lossy rec_sha256 = rec_sha256"
  by (simp_all add: det_sha256_def rec_sha256_def)

lemma show_7: "show_nat 7 = ''7''" by code_simp

lemma models_scratch: "scratch_dir models_system ''linhello-models-'' models_host = ''/t/linhello-models-7''"
  by (simp add: scratch_dir_def temp_dir_def models_system_def models_host_def path_join_def starts_with_def unwrap_or_def show_7)

lemma models_tools: "need_tools [''curl'', ''unzip'', ''sha256sum''] models_host = (Ok (), models_host)"
  by (simp add: abind_def query_def on_path_def models_host_def path_exists_def join_dir_def ret_def)

lemma models_sha: "sha256_of models_system ''/t/linhello-models-7/x/det_10g.onnx'' w = (Ok det_sha256, w)" 
 "sha256_of models_system ''/t/linhello-models-7/x/w600k_r50.onnx'' w = (Ok rec_sha256, w)"
  by (simp_all add: sha256_of_def abind_def amap_err_def models_system_def pinned_utf8 pinned_words ret_def)

lemma models_verified: "verify_model models_system ''/t/linhello-models-7/x/det_10g.onnx'' l det_sha256 w = (Ok (l @ '' sha256 verified''), w)"
 "verify_model models_system ''/t/linhello-models-7/x/w600k_r50.onnx'' l rec_sha256 w = (Ok (l @ '' sha256 verified''), w)"
  by (simp_all add: verify_model_def abind_def models_sha ret_def ends_with_def suffix_to_prefix det_sha256_def rec_sha256_def)

lemma models_found: "''/t/linhello-models-7/x/det_10g.onnx'' \<notin> set (dirs w) \<Longrightarrow> ''/t/linhello-models-7/x/w600k_r50.onnx'' \<notin> set (dirs w) \<Longrightarrow>
   need_under models_system ''/t/linhello-models-7/x'' ''det_10g.onnx'' w = (Ok ''/t/linhello-models-7/x/det_10g.onnx'', w)"
 "''/t/linhello-models-7/x/det_10g.onnx'' \<notin> set (dirs w) \<Longrightarrow> ''/t/linhello-models-7/x/w600k_r50.onnx'' \<notin> set (dirs w) \<Longrightarrow>
   need_under models_system ''/t/linhello-models-7/x'' ''w600k_r50.onnx'' w = (Ok ''/t/linhello-models-7/x/w600k_r50.onnx'', w)"
  by (simp_all add: need_under_def abind_def query_def find_under_def models_system_def path_join_def starts_with_def
   file_name_def eval_nat_numeral ret_def)



lemma models_run: "run_streamed models_system None cwd p args w = (Ok (), w)"
  by (simp add: run_streamed_def abind_def amap_err_def models_system_def ret_def)

lemma models_obtained: "''/t/linhello-models-7/x/det_10g.onnx'' \<notin> set (dirs w) \<Longrightarrow> ''/t/linhello-models-7/x/w600k_r50.onnx'' \<notin> set (dirs w) \<Longrightarrow>
   \<exists>l. obtain_models models_system ''/t/linhello-models-7'' w =
      (Ok (''/t/linhello-models-7/x/det_10g.onnx'', ''/t/linhello-models-7/x/w600k_r50.onnx'', l), w)"
  by (simp add: obtain_models_def Let_def abind_def path_join_def starts_with_def download_def models_run models_found models_verified ret_def)

definition scratch_host :: host where
  "scratch_host = models_host\<lparr>dirs := dirs models_host @ [''/t/linhello-models-7'', ''/t'']\<rparr>"

lemma models_ancestors: "ancestors ''/t/linhello-models-7'' = [''/t'']" "ancestors ''/etc/linhello'' = [''/etc'']"
  by (simp_all add: ancestors.simps [of "''/t/linhello-models-7''"] ancestors.simps [of "''/etc/linhello''"] parent_def
     ancestors.simps [of "''/t''"] ancestors.simps [of "''/etc''"])

lemma models_mkdir: "fs_create_dir_all ''/t/linhello-models-7'' models_host = (Ok (), scratch_host)"
  by (simp add: fs_create_dir_all_def scratch_host_def models_host_def models_ancestors)

lemma models_root: "make_config_root scratch_host = (Ok (), scratch_host)"
  by (simp add: make_config_root_def amap_err_def fs_create_dir_all_def scratch_host_def models_host_def config_root_def models_ancestors)

lemma models_installed: "files (snd (install_obtained models_system ''/t/linhello-models-7/x/det_10g.onnx''
   ''/t/linhello-models-7/x/w600k_r50.onnx'' l scratch_host)) det_path = Some ''D''"
  by (simp add: install_obtained_def abind_def install_model_def amap_err_def fs_copy_def fs_write_def ignore_def try_act_def
     restart_linhellod_def models_run ret_def scratch_host_def models_host_def det_path_def face_path_def config_root_def path_join_def starts_with_def
     fs_set_permissions_def fs_read_def parent_def)

lemma models_scratch_obtained: "\<exists>l. obtain_models models_system ''/t/linhello-models-7'' scratch_host =
      (Ok (''/t/linhello-models-7/x/det_10g.onnx'', ''/t/linhello-models-7/x/w600k_r50.onnx'', l), scratch_host)"
  by (rule models_obtained) (simp_all add: scratch_host_def models_host_def)

lemma models_fetched_in: "files (snd (fetch_models_in models_system ''/t/linhello-models-7'' scratch_host)) det_path = Some ''D''"
  using models_scratch_obtained models_installed by (auto simp: fetch_models_in_def abind_def models_root)

lemma models_fetched: "files (snd (fetch_models models_system True models_host)) det_path = Some ''D''"
proof -
  have rm: "files v det_path = files w det_path" if "fs_remove_dir_all ''/t/linhello-models-7'' w = (r, v)" for w v :: host and r
    using that by (auto simp: fs_remove_dir_all_def below_def det_path_def config_root_def path_join_def starts_with_def
      split: option.splits if_splits)
  with models_fetched_in show ?thesis
    by (auto simp: fetch_models_def abind_def query_def models_tools models_scratch in_scratch_def amap_err_def models_mkdir lift_def ignore_def try_act_def ret_def
      simp del: need_tools.simps dest!: rm split: prod.splits outcome.splits)
qed


lemma removing_safe: "safe_commands removing_system"
  by (simp add: safe_commands_def panic_free_def removing_system_def)

section \<open>Versions\<close>

text \<open>
  C37. The release the check offers is one of those the sources name and no source names a newer one;
  it counts as newer than the running version exactly when, reading both as sequences of numbers
  that end in zeros, it is the greater at the first place where they differ.
\<close>

theorem newest_release:
  assumes "newest raw = Some m"
  shows "m \<in> strip_v ` set raw \<and>
    (\<forall>x\<in>set raw. \<not> seq_greater (version_seq (strip_v x)) (version_seq m)) \<and>
    (newer_available \<lparr>us_current = c, us_latest = Some m\<rparr> \<longleftrightarrow> seq_greater (version_seq m) (version_seq c))"
proof -
  from max_by_version [OF assms [unfolded newest_def]]
  have m: "m \<in> strip_v ` set raw" and le: "\<forall>x\<in>set raw. cmp_version m (strip_v x) \<noteq> Less" by auto
  have "\<not> seq_greater (version_seq (strip_v x)) (version_seq m)" if "x \<in> set raw" for x
    using le that cmp_version_swap [of m "strip_v x"] cmp_version_Greater [of "strip_v x" m] by auto
  then show ?thesis using m by (simp add: newer_available_def cmp_version_Greater)
qed

lemma trim_word:
  assumes "\<forall>c\<in>set s. ws_free c"
  shows "trim s = s"
proof (rule trim_id)
  show "no_ws_start s"
  proof (cases s)
    case Nil
    then show ?thesis by (simp add: no_ws_start_def head_token_def ws_tokens_def)
  next
    case (Cons c t)
    with assms show ?thesis by (simp add: no_ws_start_Cons)
  qed
  have "\<not> prefix (rev t) (rev s)" if t: "t \<in> set ws_tokens" "t \<noteq> []" for t
  proof
    assume "prefix (rev t) (rev s)"
    then have "set t \<subseteq> set s" using set_mono_prefix [of "rev t" "rev s"] by simp
    moreover obtain c where "c \<in> set t" using t(2) by (cases t) auto
    ultimately show False using assms t(1) by (auto simp: ws_free_def)
  qed
  then show "no_ws_end s" by (auto simp: no_ws_end_def head_token_None_iff)
qed

lemma sample_trims:
  "trim ''v0.6.9'' = ''v0.6.9''" "trim ''0.6.9'' = ''0.6.9''" "trim ''0.6.10-1.fc44'' = ''0.6.10-1.fc44''"
  "trim ''0'' = ''0''" "trim ''6'' = ''6''" "trim ''9'' = ''9''" "trim ''10'' = ''10''"
  by (rule trim_word; simp add: ws_free_def ws_tokens_def)+

lemma sample_versions:
  "strip_v ''v0.6.9'' = ''0.6.9''" "strip_v ''0.6.10-1.fc44'' = ''0.6.10-1.fc44''"
  "parse_version ''0.6.9'' = [0, 6, 9]" "parse_version ''0.6.10-1.fc44'' = [0, 6, 10]"
  by (simp_all add: strip_v_def parse_version_def no_v_def version_core_def sample_trims parse_usize_def is_digit_def
    dec_value_def Let_def opt_filter_def)

theorem newest_release_witness:
  "\<exists>m. newest [''v0.6.9'', ''0.6.10-1.fc44''] = Some m \<and>
   \<not> seq_greater (version_seq (strip_v ''v0.6.9'')) (version_seq m)"
proof -
  have n: "newest [''v0.6.9'', ''0.6.10-1.fc44''] = Some ''0.6.10-1.fc44''"
    by (simp add: newest_def sample_versions cmp_version_def Let_def cmp_nat_def component_def)
  show ?thesis using newest_release [OF n] n by simp
qed

section \<open>The signed update\<close>

text \<open>
  C38. Outside Fedora nothing is checked out, built or installed before the signature of the chosen
  tag has been accepted: when the verification fails the update ends with its error in the very
  state it left, and when the update succeeds gpg reported, for that tag and in the throwaway
  keyring, a valid signature whose signing or primary key is the pinned one.
\<close>

theorem update_gate:
  assumes "distro_family w \<noteq> Fedora" and "pick_tag S w = (Ok (slog, rt, owner, tag), v)"
  shows "(\<forall>e x. verify_tag_signature S upper rt owner tag v = (Err e, x) \<longrightarrow> update S upper user w = (Err e, x)) \<and>
    (\<forall>msgs w'. update S upper user w = (Ok msgs, w') \<longrightarrow> vouched S upper rt owner tag v \<and>
       (\<exists>x blog. verify_tag_signature S upper rt owner tag v = (Ok (), x) \<and>
          build_tag S rt owner tag user x = (Ok blog, w')))"
proof -
  have u: "update S upper user w =
      abind (verify_tag_signature S upper rt owner tag) (\<lambda>_. abind (build_tag S rt owner tag user) (\<lambda>blog.
        ret ([slog, ''latest release tag: '' @ tag,
          ''signature verified: '' @ tag @ '' signed by trusted key '' @ trusted_signer_fingerprint] @ blog))) v"
    using assms(1) by (simp only: update_def abind_query if_False abind_run(1) [where m = "pick_tag S", OF assms(2)] prod.case)
  show ?thesis
    unfolding u using verify_tag_signature_Ok [of S upper rt owner tag v]
    by (auto simp: abind_run(2) abind_result)
qed

text \<open>A tag that gpg says nothing about is never built.\<close>

theorem update_gate_witness: "\<forall>msgs w'. update unsigned_system id ''alice'' checkout_host \<noteq> (Ok msgs, w')"
proof -
  have "distro_family checkout_host = OtherDistro"
    by (rule no_os_release) (simp add: checkout_host_def checkout_files_def trusted_signer_key_path_def)
  then have f: "distro_family checkout_host \<noteq> Fedora" by simp
  obtain l where "pick_tag unsigned_system checkout_host = (Ok (l, ''/src'', None, ''v1''), checkout_host)"
    using checkout_tag by blast
  from update_gate [OF f this, of id "''alice''"] show ?thesis
    using unsigned_not_vouched by blast
qed

section \<open>The models\<close>

text \<open>
  C39. The detector and recognizer in /etc/linhello change only after both downloads matched their
  pinned digests, and what is installed is the very files that were checked: when the commands
  themselves leave the two models alone, any difference after \<open>fetch-models\<close> comes with the
  digests reported for the two source files and their bytes at the moment of the second check.
\<close>

theorem fetched_models_pinned:
  assumes "models_untouched S" and "fetch_models S force w = (r, w')" and "\<not> kept_models w w'"
  shows "\<exists>p q u v x. sha256_of S p u = (Ok det_sha256, v) \<and> sha256_of S q v = (Ok rec_sha256, x) \<and>
    files w' det_path = files x p \<and>
    (files w' face_path = files w face_path \<or> files w' face_path = ((files x)(det_path := files x p)) q)"
proof -
  from assms(2,3) have "\<not> kept_models w (snd (fetch_models S force w))" by simp
  from fetch_models_state [OF assms(1) this] assms(2) obtain tmp z where
    z: "kept_models w z" "\<not> kept_models z (snd (fetch_models_in S tmp z))"
      "kept_models (snd (fetch_models_in S tmp z)) w'"
    by auto
  from fetch_models_in_state [OF assms(1) z(2)] obtain p q u v x where
    "sha256_of S p u = (Ok det_sha256, v)" "sha256_of S q v = (Ok rec_sha256, x)" "kept_models z x"
    "files (snd (fetch_models_in S tmp z)) det_path = files x p"
    "files (snd (fetch_models_in S tmp z)) face_path = files x face_path \<or>
     files (snd (fetch_models_in S tmp z)) face_path = ((files x)(det_path := files x p)) q"
    by blast
  moreover from this(3) z(1) have "files x face_path = files w face_path" by (simp add: kept_models_def)
  ultimately show ?thesis using z(3) unfolding kept_models_def by metis
qed

theorem fetched_models_pinned_witness:
  "\<exists>p q u v x. sha256_of models_system p u = (Ok det_sha256, v) \<and> sha256_of models_system q v = (Ok rec_sha256, x) \<and>
     files (snd (fetch_models models_system True models_host)) det_path = files x p \<and> files x p \<noteq> None"
proof -
  have S: "models_untouched models_system"
    by (simp add: models_untouched_def models.keeps_def models_system_def kept_models_def)
  have "files models_host det_path = None"
    by (simp add: models_host_def det_path_def config_root_def path_join_def starts_with_def)
  with models_fetched have n: "\<not> kept_models models_host (snd (fetch_models models_system True models_host))"
    by (simp add: kept_models_def)
  show ?thesis using fetched_models_pinned [OF S surjective_pairing n] models_fetched by (metis option.distinct(1))
qed

section \<open>Uninstallation\<close>



text \<open>
  Once the stacks are unwired the uninstallation goes on to its end whatever else fails: with
  commands that fail or succeed but do not break off, it returns a report.
\<close>

theorem uninstall_completes:
  assumes "safe_commands S" and "disable (tools S) False w = (Ok changes, v)"
  shows "\<exists>msgs w'. uninstall S rm w = (Ok msgs, w')"
  by (rule uninstall_returns [OF assms])

theorem uninstall_completes_witness: "\<exists>msgs w'. uninstall removing_system False wired_host = (Ok msgs, w')"
  by (rule uninstall_completes [OF removing_safe disable_wired])

end
