(* ===== verification/CameraSelect.thy ===== *)
theory CameraSelect
  imports Install Camera Biometrics
begin

text \<open>
  Discovery and selection of the cameras, crates/linhello-biometrics/src/camera.rs: the class of a
  node by its pixel formats, and the choice of the two devices by environment, configuration,
  detection and default. What the V4L2 driver reports of the nodes is the record \<open>v4l\<close>; taking
  frames is in \<open>CameraIO\<close>.
\<close>

definition default_device :: string where "default_device = ''/dev/video0''"
definition default_ir_device :: string where "default_ir_device = ''/dev/video2''"

definition ae_warmup_ir :: "'z host_scheme \<Rightarrow> nat" where
  "ae_warmup_ir w = unwrap_or 8 (Option.bind (env_vars w ''LINHELLO_IR_WARMUP'') (\<lambda>s. parse_usize (trim s)))"

section \<open>The class of a node\<close>

datatype camera_kind = Rgb | Ir | UnknownKind

record camera_node = camera_info +
  cn_name :: "string option"
  cn_kind :: camera_kind
  cn_fourccs :: "string list"
  cn_trusted :: bool

definition color_formats :: "string list" where
  "color_formats = [''MJPG'', ''YUYV'', ''YUY2'', ''RGB3'', ''BGR3'', ''NV12'', ''YU12'', ''UYVY'', ''H264'']"
definition grey_formats :: "string list" where
  "grey_formats = [''GREY'', ''Y8'', ''Y16'', ''Y10'', ''Y12'', ''GREZ'']"

definition classify_fourccs :: "string list \<Rightarrow> camera_kind" where
  "classify_fourccs fourccs =
     (let has_color = list_ex (\<lambda>f. f \<in> set color_formats) fourccs;
          has_grey = list_ex (\<lambda>f. f \<in> set grey_formats) fourccs
      in if has_color then Rgb else if has_grey then Ir else UnknownKind)"

definition fourcc_str :: "bytes \<Rightarrow> string" where
  "fourcc_str repr =
     (let s = (if utf8_valid repr then repr else ''?'')
      in rev (dropWhile (\<lambda>c. c \<in> {CHR 0x00, CHR '' ''}) (rev s)))"

section \<open>Enumeration\<close>

text \<open>
  The nodes of the driver with their names, what opening one tells (its privacy control and its
  formats), and whether the enumeration returns before its deadline.
\<close>

record 'w v4l =
  v4l_nodes :: "'w \<Rightarrow> (bytes \<times> string option) list"
  v4l_open :: "string \<Rightarrow> 'w \<Rightarrow> (bool option \<times> bytes list option) option"
  v4l_in_time :: "'w \<Rightarrow> bool"

definition classify_device :: "('w, 'y) v4l_scheme \<Rightarrow> string \<Rightarrow> 'w \<Rightarrow> camera_kind \<times> string list \<times> bool option" where
  "classify_device V path w = (case v4l_open V path w of
      None \<Rightarrow> (UnknownKind, [], None)
    | Some (privacy, None) \<Rightarrow> (UnknownKind, [], privacy)
    | Some (privacy, Some reprs) \<Rightarrow> (let fourccs = map fourcc_str reprs in (classify_fourccs fourccs, fourccs, privacy)))"

definition node_info ::
  "('z host_scheme, 'y) v4l_scheme \<Rightarrow> 'z host_scheme \<Rightarrow> bytes \<times> string option \<Rightarrow> camera_node option" where
  "node_info V w node = (case node of (path, name) \<Rightarrow>
     if \<not> utf8_valid path then None
     else (case classify_device V path w of (kind, fourccs, privacy) \<Rightarrow>
       Some \<lparr>ci_path = path, ci_privacy = privacy, cn_name = name, cn_kind = kind, cn_fourccs = fourccs,
         cn_trusted = f_lt (f_zero False) (trust_score (validate_camera_device path w))\<rparr>))"

definition enumerate_blocking :: "('z host_scheme, 'y) v4l_scheme \<Rightarrow> 'z host_scheme \<Rightarrow> camera_node list" where
  "enumerate_blocking V w = List.map_filter (node_info V w) (v4l_nodes V w)"

definition enumerate_cameras :: "('z host_scheme, 'y) v4l_scheme \<Rightarrow> 'z host_scheme \<Rightarrow> camera_node list" where
  "enumerate_cameras V w = (if v4l_in_time V w then enumerate_blocking V w else [])"

section \<open>Selection\<close>

definition env_device :: "string \<Rightarrow> 'z host_scheme \<Rightarrow> string option" where
  "env_device var w = opt_filter (\<lambda>s. s \<noteq> []) (env_vars w var)"

definition existing_device :: "string \<Rightarrow> 'z host_scheme \<Rightarrow> string option" where
  "existing_device path w = (if path_exists path w then Some path else None)"

definition conf_device :: "string \<Rightarrow> 'z host_scheme \<Rightarrow> string option" where
  "conf_device key w = read_kv ''cameras.conf'' key w"

definition resolve_rgb :: "('z host_scheme, 'y) v4l_scheme \<Rightarrow> 'z host_scheme \<Rightarrow> string" where
  "resolve_rgb V w =
     (case env_device ''LINHELLO_RGB_DEVICE'' w of
        Some p \<Rightarrow> p
      | None \<Rightarrow> (case conf_device ''rgb'' w of
          Some p \<Rightarrow> p
        | None \<Rightarrow> unwrap_or default_device
            (map_option ci_path (find (\<lambda>c. cn_kind c = Rgb \<and> cn_trusted c) (enumerate_cameras V w)))))"

definition resolve_ir :: "('z host_scheme, 'y) v4l_scheme \<Rightarrow> 'z host_scheme \<Rightarrow> string option" where
  "resolve_ir V w =
     (case env_device ''LINHELLO_IR_DEVICE'' w of
        Some p \<Rightarrow> existing_device p w
      | None \<Rightarrow> (case conf_device ''ir'' w of
          Some p \<Rightarrow> existing_device p w
        | None \<Rightarrow> (case find (\<lambda>c. cn_kind c = Ir) (enumerate_cameras V w) of
            Some c \<Rightarrow> Some (ci_path c)
          | None \<Rightarrow> existing_device default_ir_device w)))"

text \<open>
  The per-process caches: a resolved device is used again while it is younger than the lifetime.
  Instants are in milliseconds of a monotonic clock.
\<close>

definition resolve_ttl :: nat where "resolve_ttl = 2000"

definition cached :: "nat \<Rightarrow> (nat \<times> 'a) option \<Rightarrow> 'a \<Rightarrow> 'a \<times> (nat \<times> 'a) option" where
  "cached now c fresh =
     (case opt_filter (\<lambda>(t0, _). now - t0 < resolve_ttl) c of
        Some (t0, v) \<Rightarrow> (v, c)
      | None \<Rightarrow> (fresh, Some (now, fresh)))"

definition rgb_device_at ::
  "('z host_scheme, 'y) v4l_scheme \<Rightarrow> nat \<Rightarrow> (nat \<times> string) option \<Rightarrow> 'z host_scheme \<Rightarrow> string \<times> (nat \<times> string) option" where
  "rgb_device_at V now c w = cached now c (resolve_rgb V w)"

definition ir_device_at ::
  "('z host_scheme, 'y) v4l_scheme \<Rightarrow> nat \<Rightarrow> (nat \<times> string option) option \<Rightarrow> 'z host_scheme
   \<Rightarrow> string option \<times> (nat \<times> string option) option" where
  "ir_device_at V now c w = cached now c (resolve_ir V w)"

definition write_cameras_conf :: "string \<Rightarrow> string option \<Rightarrow> ('z host_scheme, lh_error, unit) act" where
  "write_cameras_conf rgb ir =
     (let wrap = amap_err (\<lambda>e. bio_err (''writing cameras.conf: '' @ err_to_string e)) in
      abind (wrap (write_kv ''cameras.conf'' ''rgb'' rgb)) (\<lambda>_.
      case ir of None \<Rightarrow> ret () | Some p \<Rightarrow> wrap (write_kv ''cameras.conf'' ''ir'' p)))"

section \<open>Facts\<close>

lemma classify_fourccs_iff:
  "classify_fourccs fs = Rgb \<longleftrightarrow> (\<exists>f\<in>set fs. f \<in> set color_formats)"
  "classify_fourccs fs = Ir \<longleftrightarrow> (\<forall>f\<in>set fs. f \<notin> set color_formats) \<and> (\<exists>f\<in>set fs. f \<in> set grey_formats)"
  by (auto simp: classify_fourccs_def Let_def list_ex_iff)

lemma map_filter_members: "y \<in> set (List.map_filter f xs) \<longleftrightarrow> (\<exists>x\<in>set xs. f x = Some y)"
  by (force simp: List.map_filter_def)

lemma node_info_SomeD:
  assumes "node_info V w n = Some c"
  shows "cn_trusted c = f_lt (f_zero False) (trust_score (validate_camera_device (ci_path c) w))"
    and "cn_kind c = classify_fourccs (cn_fourccs c)"
proof -
  obtain path name where n: "n = (path, name)" by (cases n) auto
  obtain kind fs privacy where k: "classify_device V path w = (kind, fs, privacy)"
    by (cases "classify_device V path w") auto
  then have "kind = classify_fourccs fs"
    by (auto simp: classify_device_def Let_def classify_fourccs_def split: option.splits)
  with assms show "cn_trusted c = f_lt (f_zero False) (trust_score (validate_camera_device (ci_path c) w))"
    "cn_kind c = classify_fourccs (cn_fourccs c)"
    by (auto simp: n node_info_def k split: if_splits)
qed

lemma enumerate_node: "c \<in> set (enumerate_cameras V w) \<Longrightarrow> \<exists>n. node_info V w n = Some c"
  by (auto simp: enumerate_cameras_def enumerate_blocking_def map_filter_members split: if_splits)

end
