(* ===== verification/Fingerprint.thy ===== *)
theory Fingerprint
  imports Install BioPolicy
begin

text \<open>
  The fingerprint modality, crates/linhello-fingerprint/src/lib.rs: a front end of the tools of
  fprintd, which are found at absolute paths only. The tools themselves are commands of
  \<open>system\<close>.
\<close>

definition fprint_bus :: string where "fprint_bus = ''net.reactivated.Fprint''"
definition device0 :: string where "device0 = ''/net/reactivated/Fprint/Device/0''"

definition tool_dirs :: "string list" where "tool_dirs = [''/usr/bin'', ''/bin'', ''/usr/local/bin'']"

definition tool :: "string \<Rightarrow> 'z host_scheme \<Rightarrow> string option" where
  "tool name w = find (\<lambda>p. path_exists p w) (map (\<lambda>d. path_join d name) tool_dirs)"

definition busctl :: "'z host_scheme \<Rightarrow> string option" where "busctl w = tool ''busctl'' w"

definition fprintd_present :: "'z host_scheme \<Rightarrow> bool" where
  "fprintd_present w \<longleftrightarrow> tool ''fprintd-verify'' w \<noteq> None \<and> tool ''fprintd-list'' w \<noteq> None"

definition reader_present :: "('z host_scheme, 'y) system_scheme \<Rightarrow> ('z host_scheme, 'e, bool) act" where
  "reader_present S =
     abind (query busctl) (\<lambda>b. case b of
       None \<Rightarrow> ret False
     | Some prog \<Rightarrow>
         abind (stdout_of S prog [''--system'', ''tree'', fprint_bus]) (\<lambda>out.
         ret (case out of None \<Rightarrow> False | Some s \<Rightarrow> contains_str s ''/net/reactivated/Fprint/Device/'')))"

text \<open>The text between the first two quotation marks.\<close>

definition quoted_name :: "string \<Rightarrow> string option" where
  "quoted_name s = Option.bind (split_once (CHR 0x22) s) (\<lambda>(_, r). map_option fst (split_once (CHR 0x22) r))"

definition device_name :: "('z host_scheme, 'y) system_scheme \<Rightarrow> ('z host_scheme, 'e, string option) act" where
  "device_name S =
     abind (query busctl) (\<lambda>b. case b of
       None \<Rightarrow> ret None
     | Some prog \<Rightarrow>
         abind (stdout_of S prog [''--system'', ''get-property'', fprint_bus, device0,
           ''net.reactivated.Fprint.Device'', ''name'']) (\<lambda>out.
         ret (Option.bind out quoted_name)))"

definition fp_available :: "('z host_scheme, 'y) system_scheme \<Rightarrow> ('z host_scheme, 'e, bool) act" where
  "fp_available S =
     abind (query fprintd_present) (\<lambda>p. if p then reader_present S else ret False)"

section \<open>Enrolled fingers\<close>

definition slot_of_line :: "string \<Rightarrow> string option" where
  "slot_of_line l =
     Option.bind (opt_filter (\<lambda>r. starts_with r ''#'') (map_option trim (strip_prefix (trim l) ''-''))) (\<lambda>r.
     case split_on (CHR '':'') r of _ # name # _ \<Rightarrow> Some (trim name) | _ \<Rightarrow> None)"

definition add_slot :: "string list \<Rightarrow> string \<Rightarrow> string list" where
  "add_slot out l = (case slot_of_line l of
      None \<Rightarrow> out
    | Some slot \<Rightarrow> if slot \<in> set out then out else out @ [slot])"

definition parse_enrolled_lines :: "string \<Rightarrow> string list" where
  "parse_enrolled_lines text = foldl add_slot [] (str_lines text)"

text \<open>The output counts whatever the exit status of the tool.\<close>

definition enrolled_fingers :: "('z host_scheme, 'y) system_scheme \<Rightarrow> string \<Rightarrow> ('z host_scheme, 'e, string list) act" where
  "enrolled_fingers S user =
     abind (query (tool ''fprintd-list'')) (\<lambda>t. case t of
       None \<Rightarrow> ret []
     | Some prog \<Rightarrow>
         abind (try_act (cmd_output S prog [user])) (\<lambda>r.
         ret (case r of Inl _ \<Rightarrow> [] | Inr (_, out, _) \<Rightarrow> parse_enrolled_lines (utf8_lossy out))))"

definition has_enrollment :: "('z host_scheme, 'y) system_scheme \<Rightarrow> string \<Rightarrow> ('z host_scheme, 'e, bool) act" where
  "has_enrollment S user = abind (enrolled_fingers S user) (\<lambda>fs. ret (fs \<noteq> []))"

definition fingers :: "string list" where
  "fingers = [''right-index-finger'', ''left-index-finger'', ''right-thumb'', ''left-thumb'',
     ''right-middle-finger'', ''left-middle-finger'', ''right-ring-finger'', ''left-ring-finger'',
     ''right-little-finger'', ''left-little-finger'']"

definition first_free :: "string list \<Rightarrow> string option" where
  "first_free taken = find (\<lambda>f. \<not> list_ex (\<lambda>t. t = f) taken) fingers"

definition free_finger :: "('z host_scheme, 'y) system_scheme \<Rightarrow> string \<Rightarrow> ('z host_scheme, 'e, string option) act" where
  "free_finger S user = abind (enrolled_fingers S user) (\<lambda>fs. ret (first_free fs))"

section \<open>Enrollment\<close>

datatype enroll_outcome = FingerEnrolled | FingerDuplicate | FingerFailed string

text \<open>
  The lines of the tool's output up to the first that is not UTF-8; each is shown as it comes and
  kept to classify the result.
\<close>

definition readable_lines :: "bytes \<Rightarrow> string list" where
  "readable_lines out = takeWhile utf8_valid (str_lines out)"

definition classify_enroll :: "bool \<Rightarrow> string \<Rightarrow> enroll_outcome" where
  "classify_enroll ok captured =
     (if contains_str captured ''enroll-duplicate'' then FingerDuplicate
      else if ok \<and> contains_str captured ''enroll-completed'' then FingerEnrolled
      else if ok then FingerEnrolled
      else FingerFailed ''enrollment did not complete'')"

definition enroll_finger ::
  "('z host_scheme, 'y) system_scheme \<Rightarrow> string \<Rightarrow> string \<Rightarrow> ('z host_scheme, 'e, string list \<times> enroll_outcome) act" where
  "enroll_finger S user finger =
     abind (query (tool ''fprintd-enroll'')) (\<lambda>t. case t of
       None \<Rightarrow> ret ([], FingerFailed ''fprintd-enroll not installed'')
     | Some prog \<Rightarrow>
         abind (try_act (cmd_output S prog [''-f'', finger, user])) (\<lambda>r.
         ret (case r of
             Inl e \<Rightarrow> ([], FingerFailed (''spawn fprintd-enroll: '' @ e))
           | Inr (ok, out, _) \<Rightarrow>
               (let ls = readable_lines out in (ls, classify_enroll ok (unlines ls))))))"

section \<open>Facts\<close>

lemma add_slot_set: "set (add_slot out l) = set out \<union> set_option (slot_of_line l)"
  by (auto simp: add_slot_def split: option.splits)

lemma add_slot_distinct: "distinct out \<Longrightarrow> distinct (add_slot out l)"
  by (auto simp: add_slot_def split: option.splits)

lemma parse_enrolled_distinct: "distinct (parse_enrolled_lines text)"
proof -
  have "distinct out \<Longrightarrow> distinct (foldl add_slot out ls)" for out ls
    by (induction ls arbitrary: out) (auto simp: add_slot_distinct)
  then show ?thesis by (simp add: parse_enrolled_lines_def)
qed

lemma parse_enrolled_iff:
  "slot \<in> set (parse_enrolled_lines text) \<longleftrightarrow> (\<exists>l\<in>set (str_lines text). slot_of_line l = Some slot)"
proof -
  have "slot \<in> set (foldl add_slot out ls) \<longleftrightarrow> slot \<in> set out \<or> (\<exists>l\<in>set ls. slot_of_line l = Some slot)" for out ls
    by (induction ls arbitrary: out) (auto simp: add_slot_set)
  then show ?thesis by (simp add: parse_enrolled_lines_def)
qed

lemma first_free_Some: "first_free taken = Some f \<Longrightarrow> f \<in> set fingers \<and> f \<notin> set taken"
  by (auto simp: first_free_def find_Some_iff list_ex_iff)

lemma first_free_None: "first_free taken = None \<longleftrightarrow> set fingers \<subseteq> set taken"
  by (auto simp: first_free_def find_None_iff list_ex_iff)

end
