(* ===== verification/Console.thy ===== *)
theory Console
  imports CameraSelect Fingerprint Uninstall SecureBoot
begin

text \<open>
  The terminal of the command line tool, crates/linhello-cli/src/main.rs, and the steps its commands
  share: printing, prompts, the request to the daemon, the current user, the fingerprint commands.
  The state extends the host by what was printed and by the input still to come; a command ends
  with success, with an error or with an exit code.
\<close>

record tty_host = host +
  tty_in :: "(io_error + string) list"
  tty_secrets :: "(io_error + string) list"
  tty_out :: string

datatype cli_end = Bail string | Exit nat

text \<open>
  Facts of the process and the texts the source takes from elsewhere: the user id, the \<open>Debug\<close> form
  of a response, the text of the last exit status and the trigger templates compiled in.
\<close>

record 'w console = "'w system" +
  real_uid :: nat
  show_response :: "response \<Rightarrow> string"
  status_text :: "'w \<Rightarrow> string"
  hook_template :: "reseal_trigger_t \<Rightarrow> string"

section \<open>Printing and prompting\<close>

definition tick :: string where "tick = [CHR 0xE2, CHR 0x9C, CHR 0x93]"
definition cross :: string where "cross = [CHR 0xE2, CHR 0x9C, CHR 0x97]"
definition bullet :: string where "bullet = [CHR 0xE2, CHR 0x80, CHR 0xA2]"
definition warning_sign :: string where "warning_sign = [CHR 0xE2, CHR 0x9A, CHR 0xA0]"
definition middle_dot :: string where "middle_dot = [CHR 0xC2, CHR 0xB7]"

definition put :: "string \<Rightarrow> ('z tty_host_scheme, 'e, unit) act" where
  "put s = modify (\<lambda>w. w\<lparr>tty_out := tty_out w @ s\<rparr>)"

definition say :: "string \<Rightarrow> ('z tty_host_scheme, 'e, unit) act" where
  "say s = put (s @ [nl])"

fun say_all :: "string list \<Rightarrow> ('z tty_host_scheme, 'e, unit) act" where
  "say_all [] = ret ()"
| "say_all (l # ls) = abind (say l) (\<lambda>_. say_all ls)"

definition indent :: "string list \<Rightarrow> string list" where
  "indent ls = map (\<lambda>l. ''  '' @ l) ls"

text \<open>\<open>{:<n}\<close> and \<open>{:>n}\<close> count characters.\<close>

definition pad_right :: "nat \<Rightarrow> string \<Rightarrow> string" where
  "pad_right n s = s @ replicate (n - length (utf8_chars s)) (CHR '' '')"

definition pad_start :: "nat \<Rightarrow> string \<Rightarrow> string" where
  "pad_start n s = replicate (n - length (utf8_chars s)) (CHR '' '') @ s"

text \<open>One line of standard input; empty at its end.\<close>

definition read_stdin :: "('z tty_host_scheme, io_error, string) act" where
  "read_stdin w = (case tty_in w of
      [] \<Rightarrow> (Ok [], w)
    | Inl e # ls \<Rightarrow> (Err e, w\<lparr>tty_in := ls\<rparr>)
    | Inr l # ls \<Rightarrow> (Ok l, w\<lparr>tty_in := ls\<rparr>))"

definition prompt_secret :: "string \<Rightarrow> ('z tty_host_scheme, io_error, string) act" where
  "prompt_secret msg = abind (put msg) (\<lambda>_. (\<lambda>w. case tty_secrets w of
      [] \<Rightarrow> (Err UnexpectedEof, w)
    | Inl e # ls \<Rightarrow> (Err e, w\<lparr>tty_secrets := ls\<rparr>)
    | Inr l # ls \<Rightarrow> (Ok l, w\<lparr>tty_secrets := ls\<rparr>)))"

definition prompt_line :: "string \<Rightarrow> ('z tty_host_scheme, cli_end, string) act" where
  "prompt_line msg =
     abind (put msg) (\<lambda>_.
     abind (amap_err (\<lambda>_. Bail ''reading stdin'') read_stdin) (\<lambda>s. ret (trim s)))"

definition is_yes :: "string \<Rightarrow> bool" where "is_yes ans \<longleftrightarrow> ans = ''y'' \<or> ans = ''yes''"

definition prompt_yes :: "string \<Rightarrow> ('z tty_host_scheme, 'e, bool) act" where
  "prompt_yes msg =
     abind (try_act (prompt_line msg)) (\<lambda>r.
     ret (is_yes (to_ascii_lowercase (unwrap_or [] (res_ok r)))))"

definition show_bool :: "bool \<Rightarrow> string" where "show_bool b = (if b then ''true'' else ''false'')"

section \<open>The user, root and the daemon\<close>

definition current_user :: "'z host_scheme \<Rightarrow> cli_end + string" where
  "current_user w =
     (case opt_filter (\<lambda>u. u \<noteq> [] \<and> u \<noteq> ''root'') (env_vars w ''SUDO_USER'') of
        Some u \<Rightarrow> Inr u
      | None \<Rightarrow> (case env_vars w ''USER'' of Some u \<Rightarrow> Inr u | None \<Rightarrow> Inl (Bail ''USER env var not set'')))"

definition the_user :: "string option \<Rightarrow> ('z host_scheme, cli_end, string) act" where
  "the_user user = (case user of
      Some u \<Rightarrow> ret u
    | None \<Rightarrow> abind (query current_user) lift)"

definition require_root :: "('w, 'y) console_scheme \<Rightarrow> string \<Rightarrow> ('v, cli_end, unit) act" where
  "require_root C what =
     (if real_uid C \<noteq> 0
      then fail (Bail (''`'' @ what @ ''` must run as root (got uid '' @ show_nat (real_uid C) @ '') '' @ em_dash @
        '' re-run with sudo''))
      else ret ())"

definition send :: "('w, 'y) system_scheme \<Rightarrow> request \<Rightarrow> ('w, string, response) act" where
  "send S req = amap_err (\<lambda>e. ''daemon: '' @ e) (daemon_send S req)"

definition unexpected :: "('w, 'y) console_scheme \<Rightarrow> response \<Rightarrow> cli_end" where
  "unexpected C r = Bail (''unexpected response: '' @ show_response C r)"

text \<open>The answer the command is made for; an error or any other answer ends it.\<close>

definition answer :: "('w, 'y) console_scheme \<Rightarrow> (response \<Rightarrow> 'a option) \<Rightarrow> response \<Rightarrow> ('w, cli_end, 'a) act" where
  "answer C pick r = (case pick r of
      Some x \<Rightarrow> ret x
    | None \<Rightarrow> (case r of SError m \<Rightarrow> fail (Bail m) | _ \<Rightarrow> fail (unexpected C r)))"

definition expect :: "('w, 'y) console_scheme \<Rightarrow> request \<Rightarrow> (response \<Rightarrow> 'a option) \<Rightarrow> ('w, cli_end, 'a) act" where
  "expect C req pick = abind (amap_err Bail (send C req)) (answer C pick)"

section \<open>The socket group\<close>

definition socket_group :: string where "socket_group = ''linhello''"

definition ensure_socket_group_membership ::
  "('z host_scheme, 'y) system_scheme \<Rightarrow> ('z host_scheme, 'e, string list) act" where
  "ensure_socket_group_membership S =
     abind (query current_user) (\<lambda>u.
     let user = unwrap_or [] (res_ok u) in
     if user = [] \<or> user = ''root'' then ret []
     else
       abind (succeeded S ''getent'' [''group'', socket_group]) (\<lambda>group_exists.
       if \<not> group_exists
       then ret [quoted socket_group @ '' group missing '' @ em_dash @
         '' create it with: sudo systemd-sysusers (or sudo groupadd -r '' @ socket_group @ '')'']
       else
         abind (try_act (cmd_output S ''id'' [''-nG'', user])) (\<lambda>r.
         if (case r of Inl _ \<Rightarrow> False | Inr (_, out, _) \<Rightarrow> socket_group \<in> set (split_whitespace (utf8_lossy out)))
         then ret [quoted user @ '' is already in the '' @ socket_group @ '' group.'']
         else
           abind (succeeded S ''usermod'' [''-aG'', socket_group, user]) (\<lambda>added.
           ret [if added
             then ''added '' @ quoted user @ '' to the '' @ socket_group @ '' group '' @ em_dash @
               '' log out and back in so the lock screen (and the unprivileged CLI) can reach the daemon.''
             else ''could not add '' @ quoted user @ '' to the '' @ socket_group @
               '' group '' @ em_dash @ '' run: sudo usermod -aG '' @ socket_group @ '' '' @ user]))))"

definition group_membership_setup_step :: "(('z tty_host_scheme), 'y) system_scheme \<Rightarrow> ('z tty_host_scheme, 'e, unit) act" where
  "group_membership_setup_step S = abind (ensure_socket_group_membership S) (\<lambda>ls. say_all (indent ls))"

section \<open>Fingerprints\<close>

text \<open>Each look-up of a device resolves it anew; the two-second cache is left out here.\<close>

definition detected_methods ::
  "('z host_scheme, 'y) system_scheme \<Rightarrow> ('z host_scheme, 'v) v4l_scheme \<Rightarrow> string
   \<Rightarrow> ('z host_scheme, 'e, available_methods) act" where
  "detected_methods S V user =
     abind (query (\<lambda>w. enumerate_cameras V w \<noteq> [])) (\<lambda>rgb.
     abind (query (\<lambda>w. resolve_ir V w \<noteq> None)) (\<lambda>ir.
     abind (fp_available S) (\<lambda>av.
     abind (if av then has_enrollment S user else ret False) (\<lambda>fp.
     abind (fp_available S) (\<lambda>cap.
     ret \<lparr>face_rgb = rgb, face_ir = ir, fingerprint = fp, fingerprint_capable = cap\<rparr>)))))"

definition fp_names_file :: "string \<Rightarrow> string" where
  "fp_names_file user = user @ ''/fingerprints.conf''"

definition fingerprint_name :: "string \<Rightarrow> string \<Rightarrow> 'z host_scheme \<Rightarrow> string option" where
  "fingerprint_name user slot w = opt_filter (\<lambda>s. s \<noteq> []) (read_kv (fp_names_file user) slot w)"

definition set_fingerprint_name :: "string \<Rightarrow> string \<Rightarrow> string \<Rightarrow> ('z tty_host_scheme, 'e, unit) act" where
  "set_fingerprint_name user slot name =
     abind (try_act (fs_create_dir_all (path_join config_root user))) (\<lambda>r.
     if res_ok r = None then ret ()
     else ignore (write_kv (fp_names_file user) slot name))"

text \<open>A name given by the caller or at the prompt, else the slot in words.\<close>

definition finger_name :: "string option \<Rightarrow> string \<Rightarrow> ('z tty_host_scheme, 'e, string) act" where
  "finger_name name slot = (case opt_filter (\<lambda>n. trim n \<noteq> []) name of
      Some n \<Rightarrow> ret (trim n)
    | None \<Rightarrow>
        abind (put (''Name for this fingerprint (e.g. '' @ [CHR 0x22] @ ''Right thumb'' @ [CHR 0x22] @ ''): '')) (\<lambda>_.
        abind (try_act read_stdin) (\<lambda>r.
        let s = trim (unwrap_or [] (res_ok r)) in
        ret (if s = [] then replace_char (CHR ''-'') (CHR '' '') slot else s))))"

fun named_fingers :: "string \<Rightarrow> string list \<Rightarrow> 'z host_scheme \<Rightarrow> string list" where
  "named_fingers user [] w = []"
| "named_fingers user (s # ss) w =
     (case fingerprint_name user s w of Some n \<Rightarrow> n @ '' ['' @ s @ '']'' | None \<Rightarrow> s) # named_fingers user ss w"

definition in_quotes :: "string \<Rightarrow> string" where "in_quotes s = [CHR 0x22] @ s @ [CHR 0x22]"

definition enroll_named_finger ::
  "('z tty_host_scheme, 'y) system_scheme \<Rightarrow> string \<Rightarrow> string option \<Rightarrow> ('z tty_host_scheme, cli_end, bool) act" where
  "enroll_named_finger S user name =
     abind (free_finger S user) (\<lambda>f. case f of
       None \<Rightarrow> fail (Bail (''all ten finger slots are already enrolled '' @ em_dash @
         '' remove one with `fprintd-delete` first.''))
     | Some slot \<Rightarrow>
         abind (finger_name name slot) (\<lambda>nm.
         abind (say (''Enrolling '' @ in_quotes nm @ '' '' @ em_dash @ '' touch the sensor repeatedly until complete'' @ ellipsis)) (\<lambda>_.
         abind (enroll_finger S user slot) (\<lambda>(ls, outcome).
         abind (say_all ls) (\<lambda>_.
         case outcome of
           FingerEnrolled \<Rightarrow>
             abind (set_fingerprint_name user slot nm) (\<lambda>_.
             abind (say (tick @ '' enrolled '' @ in_quotes nm @ '' ('' @ slot @ '').'')) (\<lambda>_. ret True))
         | FingerDuplicate \<Rightarrow>
             abind (enrolled_fingers S user) (\<lambda>fs.
             abind (query (named_fingers user fs)) (\<lambda>existing.
             abind (say (cross @ '' That finger is already enrolled (you have: '' @ join_with '', '' existing @
               ''). Not saving a duplicate.'')) (\<lambda>_. ret False)))
         | FingerFailed why \<Rightarrow> fail (Bail (''enrollment did not complete ('' @ why @ ''); nothing saved.''))))))) "

end
