(* ===== verification/Commands.thy ===== *)
theory Commands
  imports Console
begin

text \<open>
  The fingerprint commands of crates/linhello-cli/src/main.rs over the terminal of \<open>Console\<close>: the
  report, wiring and unwiring of pam_fprintd, and further fingers.
\<close>

section \<open>Fingerprint commands\<close>

definition tier_debug :: "tier \<Rightarrow> string" where
  "tier_debug t = (case t of Convenience \<Rightarrow> ''Convenience'' | Secure \<Rightarrow> ''Secure'')"

definition fingerprint_reader :: "('z host_scheme, 'y) system_scheme \<Rightarrow> ('z host_scheme, 'e, string) act" where
  "fingerprint_reader S =
     abind (fp_available S) (\<lambda>av.
     if av then abind (device_name S) (\<lambda>n. ret (unwrap_or ''fingerprint reader'' n))
     else abind (query fprintd_present) (\<lambda>p. ret (if p then ''none registered'' else ''fprintd not installed'')))"

definition list_fingers :: "string \<Rightarrow> string list \<Rightarrow> 'z host_scheme \<Rightarrow> string list" where
  "list_fingers user fs w =
     (if fs = [] then [''enrolled      : no fingers '' @ em_dash @ '' run `linhello fingerprint enable`'']
      else (''enrolled      : '' @ show_nat (length fs) @ '' finger(s)'') #
        map (\<lambda>s. (case fingerprint_name user s w of
            Some n \<Rightarrow> ''                '' @ bullet @ '' '' @ n @ ''  ['' @ s @ '']''
          | None \<Rightarrow> ''                '' @ bullet @ '' '' @ s)) fs)"

definition method_advice :: "available_methods \<Rightarrow> unlock_method \<Rightarrow> bool \<Rightarrow> string list" where
  "method_advice av rec has_finger =
     (''recommended   : '' @ method_label rec @ '' ['' @ tier_debug (method_tier rec) @ '' tier]'') #
     (if default_method av \<noteq> Some rec
      then [case default_method av of
          Some act \<Rightarrow> ''active now    : '' @ method_label act @ '' '' @ em_dash @ '' until you set up the recommended method''
        | None \<Rightarrow> ''active now    : password only '' @ em_dash @ '' nothing set up yet'']
      else []) @
     (let others = map method_label (filter (\<lambda>m. m \<noteq> rec) (selectable av))
      in if others = [] then [] else [''alternatives  : '' @ join_with ''; '' others]) @
     (if needs_user_choice av
      then [nl # ''Both face (IR) and fingerprint are secure-tier '' @ em_dash @ '' choose either. Set with `/etc/linhello/policy.conf` key `method = face-ir|fingerprint`.'']
      else if rec = Fingerprint
      then (if has_finger
        then [nl # ''Fingerprint is the secure method here (screen + login + sudo). You can opt down to RGB-only face (convenience) '' @ em_dash @ '' `method = face-rgb`.'']
        else [nl # ''This machine is RGB-only for face, so fingerprint is the secure choice (screen + login + sudo). Set it up: `linhello fingerprint enable`. RGB-only face (convenience: screen unlock only) keeps working meanwhile.''])
      else [])"

definition fingerprint_status ::
  "('z tty_host_scheme, 'y) system_scheme \<Rightarrow> ('z tty_host_scheme, 'v) v4l_scheme \<Rightarrow> string \<Rightarrow> ('z tty_host_scheme, 'e, unit) act" where
  "fingerprint_status S V user =
     abind (fingerprint_reader S) (\<lambda>reader.
     abind (enrolled_fingers S user) (\<lambda>fs.
     abind (detected_methods S V user) (\<lambda>av.
     abind (say (''reader        : '' @ reader)) (\<lambda>_.
     abind (fp_available S) (\<lambda>usable.
     abind (if usable then abind (query (list_fingers user fs)) say_all else ret ()) (\<lambda>_.
     abind (say (''face camera   : '' @ (if face_ir av then ''RGB + IR'' else ''RGB only''))) (\<lambda>_.
     abind (say []) (\<lambda>_.
     case recommended_method av of
       None \<Rightarrow> say (''no biometric method available '' @ em_dash @ '' password only.'')
     | Some rec \<Rightarrow>
         abind (if \<not> needs_user_choice av \<and> rec = Fingerprint then has_enrollment S user else ret False) (\<lambda>has.
         say_all (method_advice av rec has))))))))))"

text \<open>Both subcommands of authselect, the second only after the first.\<close>

definition authselect_feature :: "('w, 'y) system_scheme \<Rightarrow> string \<Rightarrow> ('w, 'e, bool) act" where
  "authselect_feature S what =
     abind (succeeded S ''authselect'' [what, ''with-fingerprint'']) (\<lambda>changed.
     if changed then succeeded S ''authselect'' [''apply-changes''] else ret False)"

definition wire_fingerprint :: "('z tty_host_scheme, 'y) system_scheme \<Rightarrow> ('z tty_host_scheme, cli_end, unit) act" where
  "wire_fingerprint S =
     abind (query distro_family) (\<lambda>family. case family of
       Debian \<Rightarrow>
         abind (query (path_exists ''/usr/share/pam-configs/fprintd'')) (\<lambda>there.
         if \<not> there
         then fail (Bail (''libpam-fprintd is not installed (no /usr/share/pam-configs/fprintd). Install it (`apt install libpam-fprintd`) and retry.''))
         else
           abind (amap_err (\<lambda>_. Bail ''running pam-auth-update'') (cmd_output S ''pam-auth-update'' [''--enable'', ''fprintd''])) (\<lambda>(ok, _, _).
           if \<not> ok then fail (Bail ''pam-auth-update --enable fprintd failed; run it manually to review.'')
           else say ''enabled the `fprintd` pam-auth-update profile.''))
     | Fedora \<Rightarrow>
         abind (authselect_feature S ''enable-feature'') (\<lambda>applied.
         say_all (if applied then [''enabled the authselect `with-fingerprint` feature.'']
           else [''Could not run authselect automatically '' @ em_dash @ '' enable it manually:'',
             ''  sudo authselect enable-feature with-fingerprint'', ''  sudo authselect apply-changes'']))
     | _ \<Rightarrow> say_all [''Add `auth sufficient pam_fprintd.so` above pam_unix in the relevant'',
         ''/etc/pam.d files (e.g. system-local-login, sudo, and your greeter),'', ''or use your distro's helper if it has one.''])"

definition record_method :: "string \<Rightarrow> string \<Rightarrow> ('z tty_host_scheme, 'e, unit) act" where
  "record_method note m =
     abind (try_act (write_kv ''policy.conf'' ''method'' m)) (\<lambda>r. case r of
       Inr _ \<Rightarrow> ret ()
     | Inl e \<Rightarrow> say (note @ err_to_string e))"

definition first_finger :: "('z tty_host_scheme, 'y) system_scheme \<Rightarrow> string \<Rightarrow> ('z tty_host_scheme, cli_end, unit) act" where
  "first_finger S user =
     abind (has_enrollment S user) (\<lambda>has.
     if has
     then say_all [user @ '' already has an enrolled fingerprint; skipping enrollment.'',
       ''(add more with `linhello fingerprint add`.)'']
     else
       abind (enroll_named_finger S user None) (\<lambda>done.
       if done then ret () else fail (Bail ''no fingerprint was enrolled; nothing was wired.'')))"

definition fingerprint_enable :: "('z tty_host_scheme, 'y) system_scheme \<Rightarrow> string \<Rightarrow> ('z tty_host_scheme, cli_end, unit) act" where
  "fingerprint_enable S user =
     abind (query fprintd_present) (\<lambda>tools_there.
     if \<not> tools_there then fail (Bail ''fprintd is not installed. Install fprintd + libpam-fprintd, then retry.'')
     else
       abind (reader_present S) (\<lambda>reader.
       if \<not> reader then fail (Bail ''no fingerprint reader is registered with fprintd.'')
       else
         abind (first_finger S user) (\<lambda>_.
         abind (say (nl # ''Wiring fingerprint into PAM (password stays as fallback)'' @ ellipsis)) (\<lambda>_.
         abind (wire_fingerprint S) (\<lambda>_.
         abind (record_method ''note: could not record method in policy.conf: '' ''fingerprint'') (\<lambda>_.
         say_all [nl # ''Done. Fingerprint is now your secure-tier method (screen unlock + login + sudo),'',
           ''and face prompts are suppressed. Your password still works everywhere.'',
           ''To switch back to face: `sudo linhello fingerprint disable`.'']))))))"

definition unwire_fingerprint :: "('z tty_host_scheme, 'y) system_scheme \<Rightarrow> ('z tty_host_scheme, cli_end, unit) act" where
  "unwire_fingerprint S =
     abind (query distro_family) (\<lambda>family. case family of
       Debian \<Rightarrow>
         abind (amap_err (\<lambda>_. Bail ''running pam-auth-update'') (cmd_output S ''pam-auth-update'' [''--disable'', ''fprintd''])) (\<lambda>(ok, _, _).
         if \<not> ok then fail (Bail ''pam-auth-update --disable fprintd failed; run it manually to review.'')
         else say ''removed the `fprintd` pam-auth-update profile.'')
     | Fedora \<Rightarrow>
         abind (authselect_feature S ''disable-feature'') (\<lambda>applied.
         say (if applied then ''disabled the authselect `with-fingerprint` feature.''
           else ''Disable manually: `sudo authselect disable-feature with-fingerprint && sudo authselect apply-changes`''))
     | _ \<Rightarrow> say (''Remove the `auth '' @ ellipsis @ '' pam_fprintd.so` line(s) you added to /etc/pam.d.''))"

definition fingerprint_disable :: "('z tty_host_scheme, 'y) system_scheme \<Rightarrow> string \<Rightarrow> ('z tty_host_scheme, cli_end, unit) act" where
  "fingerprint_disable S user =
     abind (say (''Disabling fingerprint as the unlock method (enrollment is kept)'' @ ellipsis)) (\<lambda>_.
     abind (unwire_fingerprint S) (\<lambda>_.
     abind (record_method ''note: could not update policy.conf: '' ''auto'') (\<lambda>_.
     say_all [nl # ''Done. Face auth resumes (per your camera tier); the finger prompt is removed.'',
       ''Your enrolled fingerprint is kept '' @ em_dash @ '' re-enable with `linhello fingerprint enable`.''])))"

definition fingerprint_add ::
  "('z tty_host_scheme, 'y) system_scheme \<Rightarrow> string option \<Rightarrow> string \<Rightarrow> ('z tty_host_scheme, cli_end, unit) act" where
  "fingerprint_add S name user =
     abind (fp_available S) (\<lambda>av.
     if \<not> av then fail (Bail ''no fingerprint reader detected (or fprintd not installed).'')
     else abind (enroll_named_finger S user name) (\<lambda>done.
       if done then say ''Added. See all with `linhello fingerprint status`.'' else ret ()))"

end
