(* ===== verification/Profiles.thy ===== *)
theory Profiles
  imports Commands
begin

text \<open>
  Profiles, enrollment, calibration and passwords from the command line,
  crates/linhello-cli/src/main.rs.
\<close>

section \<open>Profiles\<close>

definition pick_profiles :: "response \<Rightarrow> profile_info list option" where
  "pick_profiles r = (case r of SProfiles ps \<Rightarrow> Some ps | _ \<Rightarrow> None)"

definition profile_row :: "profile_info \<Rightarrow> string" where
  "profile_row p = pad_right 16 (pi_user p) @ '' '' @ pad_right 22 (unwrap_or em_dash (pi_name p)) @ '' '' @
     pad_start 7 (show_nat (pi_samples p)) @ ''  '' @ (if pi_has_password p then ''yes'' else ''no'')"

definition profiles_cmd :: "('z tty_host_scheme, 'y) console_scheme \<Rightarrow> ('z tty_host_scheme, cli_end, unit) act" where
  "profiles_cmd C =
     abind (expect C RListProfiles pick_profiles) (\<lambda>ps.
     if ps = [] then say (''no enrolled profiles yet '' @ em_dash @ '' run `linhello enroll` or `linhello setup`'')
     else say_all ((pad_right 16 ''profile'' @ '' '' @ pad_right 22 ''name'' @ '' '' @ pad_start 7 ''samples'' @ ''  keyring'') #
       map profile_row ps))"

definition pick_identified :: "response \<Rightarrow> (identify_candidate option \<times> f32 \<times> identify_candidate list) option" where
  "pick_identified r = (case r of SIdentified b t cs \<Rightarrow> Some (b, t, cs) | _ \<Rightarrow> None)"

definition identify_lines :: "identify_candidate option \<Rightarrow> f32 \<Rightarrow> identify_candidate list \<Rightarrow> string list" where
  "identify_lines best threshold cs =
     (case best of
        Some c \<Rightarrow> [''This face belongs to: '' @ unwrap_or (ic_user c) (ic_name c) @ '' (profile '' @ quoted (ic_user c) @
          '', score '' @ fmt_prec 3 (ic_score c) @ '' '' @ geq_sign @ '' '' @ fmt_prec 2 threshold @ '')'']
      | None \<Rightarrow> (case cs of
          c # _ \<Rightarrow> [''No match '' @ em_dash @ '' closest was '' @ quoted (ic_user c) @ '' at '' @ fmt_prec 3 (ic_score c) @
            '' (need '' @ fmt_prec 2 threshold @ '').'']
        | [] \<Rightarrow> [''No match.''])) @
     (if length cs > 1
      then (nl # ''all candidates (best first):'') #
        map (\<lambda>c. ''  '' @ pad_right 16 (ic_user c) @ '' '' @ pad_right 20 (unwrap_or em_dash (ic_name c)) @ '' '' @
          fmt_prec 3 (ic_score c)) cs
      else [])"

definition identify_cmd :: "('z tty_host_scheme, 'y) console_scheme \<Rightarrow> ('z tty_host_scheme, cli_end, unit) act" where
  "identify_cmd C =
     abind (say (''Look at the camera'' @ ellipsis)) (\<lambda>_.
     abind (expect C RIdentify pick_identified) (\<lambda>(b, t, cs). say_all (identify_lines b t cs)))"

definition pick_deleted :: "response \<Rightarrow> (string \<times> nat) option" where
  "pick_deleted r = (case r of SProfileDeleted u n \<Rightarrow> Some (u, n) | _ \<Rightarrow> None)"

definition forget_prompt :: "profile_info \<Rightarrow> string" where
  "forget_prompt p =
     ''Permanently delete profile '' @ quoted (pi_user p) @ '' ('' @ show_nat (pi_samples p) @
     '' face sample(s))? This erases the face template, IR liveness calibration, and the TPM-sealed copies of your password and recovery key. '' @
     (if pi_has_password p
      then ''Face login/sudo will fall back to your typed password until you re-enroll AND re-seal (`linhello seal-password`). ''
      else []) @
     ''Your actual system password is unchanged. This cannot be undone. [y/N] ''"

text \<open>The answer to the question, or consent given on the command line.\<close>

definition consents :: "bool \<Rightarrow> string \<Rightarrow> ('z tty_host_scheme, 'e, bool) act" where
  "consents yes question =
     (if yes then ret True
      else abind (put question) (\<lambda>_.
        abind (try_act read_stdin) (\<lambda>r. ret (is_yes (to_ascii_lowercase (trim (unwrap_or [] (res_ok r))))))))"

definition forget_profile_cmd ::
  "('z tty_host_scheme, 'y) console_scheme \<Rightarrow> string \<Rightarrow> bool \<Rightarrow> ('z tty_host_scheme, cli_end, unit) act" where
  "forget_profile_cmd C user yes =
     abind (expect C RListProfiles pick_profiles) (\<lambda>ps.
     case find (\<lambda>p. pi_user p = user) ps of
       None \<Rightarrow> fail (Bail (''no enrolled profile '' @ quoted user @ '' '' @ em_dash @ '' run `linhello profiles` to list them''))
     | Some p \<Rightarrow>
         abind (consents yes (forget_prompt p)) (\<lambda>agreed.
         if \<not> agreed then say (''cancelled '' @ em_dash @ '' nothing deleted.'')
         else
           abind (expect C (RDeleteProfile user) pick_deleted) (\<lambda>(u, n).
           say (''deleted profile '' @ quoted u @ '' ('' @ show_nat n @ '' face sample(s) erased).''))))"

definition profile_name_cmd ::
  "('z tty_host_scheme, 'y) console_scheme \<Rightarrow> string \<Rightarrow> string \<Rightarrow> ('z tty_host_scheme, cli_end, unit) act" where
  "profile_name_cmd C user name =
     abind (expect C (RSetProfileName user name) (\<lambda>r. case r of SProfileNameSet \<Rightarrow> Some () | _ \<Rightarrow> None)) (\<lambda>_.
     say (if trim name = [] then ''cleared name for profile '' @ quoted user
          else ''profile '' @ quoted user @ '' is now named '' @ in_quotes (trim name)))"

section \<open>Enrollment\<close>

text \<open>One capture; the old samples are wiped by the first that succeeds.\<close>

fun capture_samples ::
  "('z tty_host_scheme, 'y) console_scheme \<Rightarrow> string \<Rightarrow> nat \<Rightarrow> nat \<Rightarrow> nat \<Rightarrow> bool \<Rightarrow> nat \<Rightarrow> nat
   \<Rightarrow> ('z tty_host_scheme, cli_end, nat \<times> nat) act" where
  "capture_samples C user samples i 0 reset_pending stored captured = ret (stored, captured)"
| "capture_samples C user samples i (Suc left) reset_pending stored captured =
     abind (put (''  ['' @ show_nat i @ ''/'' @ show_nat samples @ ''] capturing... '')) (\<lambda>_.
     abind (amap_err Bail (send C (REnroll user reset_pending))) (\<lambda>r. case r of
       SEnrolled s \<Rightarrow>
         abind (say (''ok (stored: '' @ show_nat s @ '')'')) (\<lambda>_.
         capture_samples C user samples (i + 1) left False s (captured + 1))
     | SError m \<Rightarrow>
         abind (say (''skipped '' @ em_dash @ '' '' @ m)) (\<lambda>_.
         capture_samples C user samples (i + 1) left reset_pending stored captured)
     | _ \<Rightarrow> fail (unexpected C r)))"

definition enroll_guided ::
  "('z tty_host_scheme, 'y) console_scheme \<Rightarrow> string \<Rightarrow> bool \<Rightarrow> nat \<Rightarrow> ('z tty_host_scheme, cli_end, unit) act" where
  "enroll_guided C user reset samples =
     abind (say_all ([''Enrolling '' @ user @ ''.'',
       ''Sit at your normal distance, look directly at the camera, and hold still.''] @
       (if reset then [''(--reset: your existing samples will be replaced.)''] else []) @
       [''Capturing '' @ show_nat samples @ '' sample(s) '' @ em_dash @ '' vary pose/expression slightly between each.'', []])) (\<lambda>_.
     abind (capture_samples C user samples 1 samples reset 0 0) (\<lambda>(stored, captured).
     abind (say []) (\<lambda>_.
     if captured = 0
     then fail (Bail (''no samples captured '' @ em_dash @ '' is your face in view and well lit? try again''))
     else say_all ([''Done '' @ em_dash @ '' '' @ show_nat stored @ '' sample(s) stored for '' @ user @ ''.''] @
       (if stored \<ge> 3
        then [''On IR hardware, active-IR liveness is now calibrated from your samples '' @ em_dash,
          ''face unlock rejects photos/screens that don't match your live IR signature.'']
        else []) @
       [''Next: run `linhello test` to confirm recognition.'']))))"

definition enroll_cmd ::
  "('z tty_host_scheme, 'y) console_scheme \<Rightarrow> string option \<Rightarrow> bool \<Rightarrow> nat \<Rightarrow> string option
   \<Rightarrow> ('z tty_host_scheme, cli_end, unit) act" where
  "enroll_cmd C user reset samples name =
     abind (the_user user) (\<lambda>u.
     abind (enroll_guided C u reset (max samples 1)) (\<lambda>_.
     case opt_filter (\<lambda>n. trim n \<noteq> []) name of None \<Rightarrow> ret () | Some n \<Rightarrow> profile_name_cmd C u n))"

section \<open>Verification\<close>

definition pick_verified :: "response \<Rightarrow> (bool \<times> f32 \<times> f32) option" where
  "pick_verified r = (case r of SVerified m s t \<Rightarrow> Some (m, s, t) | _ \<Rightarrow> None)"

definition verify_cmd :: "('z tty_host_scheme, 'y) console_scheme \<Rightarrow> string option \<Rightarrow> ('z tty_host_scheme, cli_end, unit) act" where
  "verify_cmd C user =
     abind (the_user user) (\<lambda>u.
     abind (expect C (RVerify u) pick_verified) (\<lambda>(matched, score, threshold).
     abind (say (''match: '' @ show_bool matched @ ''  score: '' @ fmt_prec 4 score @ ''  threshold: '' @ fmt_prec 4 threshold)) (\<lambda>_.
     if matched then ret () else fail (Exit 1))))"

definition test_cmd :: "('z tty_host_scheme, 'y) console_scheme \<Rightarrow> string option \<Rightarrow> ('z tty_host_scheme, cli_end, unit) act" where
  "test_cmd C user =
     abind (the_user user) (\<lambda>u.
     abind (say (''Looking for your face '' @ em_dash @ '' this is a safe test and cannot lock you out.'')) (\<lambda>_.
     abind (amap_err Bail (send C (RVerify u))) (\<lambda>r. case r of
       SVerified matched score threshold \<Rightarrow>
         if matched
         then say (tick @ '' Recognized you, '' @ u @ ''  (score '' @ fmt_prec 2 score @ '' '' @ geq_sign @ '' threshold '' @
           fmt_prec 2 threshold @ '')'')
         else abind (say_all [cross @ '' Did not recognize you  (score '' @ fmt_prec 2 score @ '' < threshold '' @ fmt_prec 2 threshold @ '')'',
             ''  Login is unaffected. Sit at your usual distance and try again,'',
             ''  run `linhello enroll` to add samples, or `linhello setup` to retune.'']) (\<lambda>_. fail (Exit 1))
     | SError m \<Rightarrow> abind (say_all [cross @ '' '' @ m, ''  (This is only a test '' @ em_dash @ '' your login is unaffected.)'']) (\<lambda>_.
         fail (Exit 1))
     | _ \<Rightarrow> fail (unexpected C r))))"

section \<open>Secrets\<close>

text \<open>A secret typed twice; the two entries must agree.\<close>

definition typed_twice ::
  "string \<Rightarrow> string \<Rightarrow> string \<Rightarrow> string \<Rightarrow> ('z tty_host_scheme, cli_end, string) act" where
  "typed_twice prompt first_context second_context mismatch =
     abind (amap_err (\<lambda>_. Bail first_context) (prompt_secret prompt)) (\<lambda>pw.
     abind (amap_err (\<lambda>_. Bail second_context) (prompt_secret ''Confirm: '')) (\<lambda>again.
     if pw \<noteq> again then fail (Bail mismatch) else ret pw))"

definition seal_password_cmd ::
  "('z tty_host_scheme, 'y) console_scheme \<Rightarrow> string option \<Rightarrow> ('z tty_host_scheme, cli_end, unit) act" where
  "seal_password_cmd C user =
     abind (the_user user) (\<lambda>u.
     abind (typed_twice (''Login password for '' @ u @ '': '') ''reading password from TTY'' ''reading password confirmation''
       ''passwords do not match'') (\<lambda>pw.
     abind (expect C (RSealPassword u pw) (\<lambda>r. case r of SPasswordSealed \<Rightarrow> Some () | _ \<Rightarrow> None)) (\<lambda>_.
     say (''password sealed for '' @ u))))"

definition set_recovery_interactive ::
  "('z tty_host_scheme, 'y) console_scheme \<Rightarrow> string \<Rightarrow> ('z tty_host_scheme, cli_end, unit) act" where
  "set_recovery_interactive C user =
     abind (typed_twice ''Recovery passphrase: '' ''reading passphrase from TTY'' ''reading passphrase confirmation''
       ''passphrases do not match'') (\<lambda>pw.
     if pw = [] then fail (Bail ''recovery passphrase must not be empty'')
     else abind (expect C (RSaveRecovery user pw) (\<lambda>r. case r of SRecoverySaved \<Rightarrow> Some () | _ \<Rightarrow> None)) (\<lambda>_.
       say (''recovery passphrase set for '' @ user)))"

definition recover_cmd :: "('z tty_host_scheme, 'y) console_scheme \<Rightarrow> string option \<Rightarrow> ('z tty_host_scheme, cli_end, unit) act" where
  "recover_cmd C user =
     abind (the_user user) (\<lambda>u.
     abind (amap_err (\<lambda>_. Bail ''reading passphrase from TTY'') (prompt_secret (''Recovery passphrase for '' @ u @ '': ''))) (\<lambda>pw.
     abind (expect C (RRestoreFromRecovery u pw) (\<lambda>r. case r of SRecoveryRestored \<Rightarrow> Some () | _ \<Rightarrow> None)) (\<lambda>_.
     say (''restored '' @ u @ '': template key re-sealed to the current TPM state. Try `linhello test`.''))))"

end
