(* ===== verification/HostCommands.thy ===== *)
theory HostCommands
  imports Profiles
begin

text \<open>
  The commands that change the host, crates/linhello-cli/src/main.rs: the SELinux policy, the reseal
  trigger, packages and the Secure Boot keys.
\<close>

section \<open>The SELinux policy\<close>

definition selinux_daemon_module_name :: string where "selinux_daemon_module_name = ''linhello-daemon''"

definition run_shell :: "('w, 'y) console_scheme \<Rightarrow> string \<Rightarrow> ('w, cli_end, unit) act" where
  "run_shell C cmd =
     abind (amap_err (\<lambda>_. Bail (''spawning: '' @ cmd)) (cmd_output C ''sh'' [''-c'', cmd])) (\<lambda>(ok, _, _).
     if ok then ret ()
     else abind (query (status_text C)) (\<lambda>st. fail (Bail (''command failed ('' @ st @ ''): '' @ cmd))))"

definition loaded_module :: "string \<Rightarrow> string option" where
  "loaded_module text =
     (let loaded = (\<lambda>name. list_ex (\<lambda>l. trim l = name) (str_lines text))
      in if loaded selinux_daemon_module_name then Some selinux_daemon_module_name
         else if loaded selinux_module_name then Some selinux_module_name else None)"

definition selinux_module_loaded :: "('z host_scheme, 'y) system_scheme \<Rightarrow> ('z host_scheme, 'e, string option option) act" where
  "selinux_module_loaded S =
     abind (query (on_path ''semodule'')) (\<lambda>there.
     if \<not> there then ret None
     else abind (stdout_of S ''semodule'' [''-l'']) (\<lambda>out. ret (map_option loaded_module out)))"

definition selinux_status_cmd :: "('z tty_host_scheme, 'y) system_scheme \<Rightarrow> ('z tty_host_scheme, 'e, unit) act" where
  "selinux_status_cmd S =
     abind (query security_module) (\<lambda>lsm.
     abind (say_all [''LSM            : '' @ module_as_str lsm,
       ''policy needed  : '' @ show_bool (needs_selinux_policy lsm)]) (\<lambda>_.
     abind (selinux_module_loaded S) (\<lambda>m.
     abind (say (case m of
         Some (Some name) \<Rightarrow> ''module loaded  : yes ('' @ name @ '')''
       | Some None \<Rightarrow> ''module loaded  : no''
       | None \<Rightarrow> ''module loaded  : unknown (run as root, or semodule unavailable)'')) (\<lambda>_.
     abind (query (path_exists ''/run/linhello.sock'')) (\<lambda>sock.
     abind (if sock then say ''socket         : /run/linhello.sock present'' else ret ()) (\<lambda>_.
     abind (if needs_selinux_policy lsm then selinux_module_loaded S else ret None) (\<lambda>again.
     if needs_selinux_policy lsm \<and> again = Some None
     then say_all [[], ''Greeter/lock face-auth needs the policy here. Install it with:'', ''  sudo linhello selinux install'']
     else ret ())))))))"

fun run_plan :: "('z tty_host_scheme, 'y) console_scheme \<Rightarrow> string list \<Rightarrow> ('z tty_host_scheme, cli_end, unit) act" where
  "run_plan C [] = ret ()"
| "run_plan C (c # cs) = abind (say (''  $ '' @ c)) (\<lambda>_. abind (run_shell C c) (\<lambda>_. run_plan C cs))"

fun need_selinux_tools :: "string list \<Rightarrow> ('z host_scheme, cli_end, unit) act" where
  "need_selinux_tools [] = ret ()"
| "need_selinux_tools (t # ts) =
     abind (query (on_path t)) (\<lambda>there.
     if \<not> there
     then fail (Bail (''required tool `'' @ t @ ''` not found '' @ em_dash @
       '' install the SELinux policy tools (Fedora: `dnf install checkpolicy policycoreutils`)''))
     else need_selinux_tools ts)"

definition selinux_build_dir :: "('w, 'y) system_scheme \<Rightarrow> 'z host_scheme \<Rightarrow> string" where
  "selinux_build_dir S w = path_join (temp_dir w) (''linhello-selinux-'' @ show_nat (system.pid S))"

definition apply_selinux_plan ::
  "('z tty_host_scheme, 'y) console_scheme \<Rightarrow> selinux_policy_plan_t \<Rightarrow> ('z tty_host_scheme, cli_end, unit) act" where
  "apply_selinux_plan C sp =
     abind (need_selinux_tools [''checkmodule'', ''semodule_package'', ''semodule'']) (\<lambda>_.
     abind (query (selinux_build_dir C)) (\<lambda>b.
     abind (amap_err (\<lambda>_. Bail (''creating build dir '' @ b)) (fs_create_dir_all b)) (\<lambda>_.
     abind (try_act (run_plan C (selinux_commands sp b))) (\<lambda>result.
     abind (ignore (fs_remove_dir_all b)) (\<lambda>_. lift result)))))"

definition selinux_install_cmd ::
  "('z tty_host_scheme, 'y) console_scheme \<Rightarrow> bool \<Rightarrow> string option \<Rightarrow> ('z tty_host_scheme, cli_end, unit) act" where
  "selinux_install_cmd C dry_run from_path =
     abind (query selinux_policy_plan) (\<lambda>pl. case pl of
       None \<Rightarrow> abind (query security_module) (\<lambda>lsm.
         say (''This system does not use SELinux ('' @ module_as_str lsm @ '') '' @ em_dash @ '' no policy to install.''))
     | Some sp0 \<Rightarrow>
         (let sp = (case from_path of None \<Rightarrow> sp0 | Some p \<Rightarrow> sp0\<lparr>sp_source_te := p\<rparr>) in
          abind (query (path_exists (sp_source_te sp))) (\<lambda>there.
          if \<not> there
          then fail (Bail (''policy source not found at '' @ sp_source_te sp @ '' '' @ em_dash @
            '' pass --from <path to linhello.te> (e.g. the repo's etc/selinux/linhello.te) or install the linhello data files''))
          else if dry_run
          then
            abind (query (selinux_build_dir C)) (\<lambda>b.
            say_all ([''Would install SELinux module `'' @ sp_module_name sp @ ''` (source '' @ sp_source_te sp @
                '', enforcing='' @ show_bool (sp_enforcing sp) @ ''):''] @
              indent (selinux_commands sp b) @ [[], ''Re-run as root without --dry-run to apply.'']))
          else
            abind (require_root C ''selinux install'') (\<lambda>_.
            abind (say (''Installing SELinux module `'' @ sp_module_name sp @ ''` from '' @ sp_source_te sp @ '' '' @ ellipsis)) (\<lambda>_.
            abind (apply_selinux_plan C sp) (\<lambda>_.
            say_all ([[], ''Done. Verify with:  ls -Z /run/linhello.sock   (expect '' @ ellipsis @ '':linhello_runtime_t)''] @
              (if sp_enforcing sp then []
               else [''Note: SELinux is permissive now; the module is in place for when you enforce.'']))))))))"

definition selinux_uninstall_cmd ::
  "('z tty_host_scheme, 'y) console_scheme \<Rightarrow> bool \<Rightarrow> ('z tty_host_scheme, cli_end, unit) act" where
  "selinux_uninstall_cmd C dry_run =
     (let cmds = [''semodule -r '' @ selinux_module_name, ''systemctl restart linhellod''] in
      if dry_run
      then say_all ((''Would unload SELinux module `'' @ selinux_module_name @ ''`:'') # indent cmds)
      else
        abind (require_root C ''selinux uninstall'') (\<lambda>_.
        abind (selinux_module_loaded C) (\<lambda>m.
        if m = Some None then say (''Module `'' @ selinux_module_name @ ''` is not loaded '' @ em_dash @ '' nothing to do.'')
        else run_plan C cmds)))"

definition selinux_setup_step :: "('z tty_host_scheme, 'y) console_scheme \<Rightarrow> ('z tty_host_scheme, cli_end, unit) act" where
  "selinux_setup_step C =
     abind (query selinux_policy_plan) (\<lambda>pl. case pl of
       None \<Rightarrow> say (''  SELinux not in use on this system '' @ em_dash @ '' no policy needed.'')
     | Some sp \<Rightarrow>
         abind (selinux_module_loaded C) (\<lambda>m. case m of
           Some (Some name) \<Rightarrow> say (''  SELinux policy `'' @ name @ ''` already installed.'')
         | _ \<Rightarrow>
             abind (query (path_exists (sp_source_te sp))) (\<lambda>there.
             if \<not> there
             then say_all [''  policy source not found at '' @ sp_source_te sp @ '' '' @ em_dash,
               ''  install later with: sudo linhello selinux install --from <path to linhello.te>'']
             else
               abind (say ''  the greeter/lock screen needs the linhello SELinux policy to reach the daemon.'') (\<lambda>_.
               abind (prompt_yes ''  install it now? [y/N] '') (\<lambda>yes.
               if yes
               then abind (apply_selinux_plan C sp) (\<lambda>_.
                 say (''  installed '' @ em_dash @ '' socket relabeled to linhello_runtime_t.''))
               else say (''  skipped '' @ em_dash @ '' run `sudo linhello selinux install` before greeter/lock face login.''))))))"

section \<open>The reseal trigger\<close>

fun replace_str :: "string \<Rightarrow> string \<Rightarrow> string \<Rightarrow> nat \<Rightarrow> string" where
  "replace_str old new [] skip = []"
| "replace_str old new (c # s) (Suc n) = replace_str old new s n"
| "replace_str old new (c # s) 0 =
     (if prefix old (c # s) then new @ replace_str old new s (length old - 1)
      else c # replace_str old new s 0)"

definition hook_script_default :: string where "hook_script_default = ''/usr/local/bin/linhello-reseal-hook''"

definition hook_content :: "('w, 'y) console_scheme \<Rightarrow> reseal_hook_plan_t \<Rightarrow> string" where
  "hook_content C p = replace_str hook_script_default (rh_script_path p) (hook_template C (rh_trigger p)) 0"

definition hook_mode :: "reseal_trigger_t \<Rightarrow> nat" where
  "hook_mode t = (case t of KernelInstall \<Rightarrow> 493 | KernelPostinst \<Rightarrow> 493 | _ \<Rightarrow> 420)"

definition write_reseal_hook :: "('w, 'y) console_scheme \<Rightarrow> reseal_hook_plan_t \<Rightarrow> ('z host_scheme, cli_end, unit) act" where
  "write_reseal_hook C p =
     abind (case parent (rh_hook_path p) of
         None \<Rightarrow> ret ()
       | Some d \<Rightarrow> amap_err (\<lambda>_. Bail (''creating '' @ d)) (fs_create_dir_all d)) (\<lambda>_.
     abind (amap_err (\<lambda>_. Bail (''writing '' @ rh_hook_path p)) (fs_write (rh_hook_path p) (hook_content C p))) (\<lambda>_.
     amap_err (\<lambda>_. Bail (''chmod '' @ show_nat (hook_mode (rh_trigger p)) @ '' '' @ rh_hook_path p))
       (fs_set_permissions (rh_hook_path p) (hook_mode (rh_trigger p)))))"

definition reseal_hook_status_cmd :: "('z tty_host_scheme, 'e, unit) act" where
  "reseal_hook_status_cmd =
     abind (query reseal_hook_plan) (\<lambda>r. case r of
       None \<Rightarrow> abind (query distro_family) (\<lambda>family.
         say (''reseal trigger : none for this distro ('' @ family_as_str family @ '') '' @ em_dash @ '' reseal manually after kernel updates''))
     | Some p \<Rightarrow>
         abind (query (\<lambda>w. (path_exists (rh_hook_path p) w, path_exists (rh_script_path p) w))) (\<lambda>(hook, script).
         say_all [''reseal trigger : '' @ trigger_as_str (rh_trigger p) @ '' ('' @ rh_hook_path p @ '')'',
           ''installed      : '' @ yn hook,
           ''reseal script  : '' @ rh_script_path p @ '' ('' @ (if script then ''present'' else ''MISSING'') @ '')'']))"

definition reseal_hook_install_cmd :: "('w, 'y) console_scheme \<Rightarrow> bool \<Rightarrow> ('z tty_host_scheme, cli_end, unit) act" where
  "reseal_hook_install_cmd C dry_run =
     abind (query reseal_hook_plan) (\<lambda>r. case r of
       None \<Rightarrow> abind (query distro_family) (\<lambda>family.
         say (''No known reseal trigger for this distro ('' @ family_as_str family @ '') '' @ em_dash @
           '' nothing to install. Reseal manually after kernel updates with `sudo linhello reseal-user-envelopes`.''))
     | Some p \<Rightarrow>
         if dry_run
         then say (''Would install the '' @ trigger_as_str (rh_trigger p) @ '' '' @ arrow @ '' '' @ rh_hook_path p @
           '' (invokes '' @ rh_script_path p @ '').'')
         else
           abind (require_root C ''reseal-hook install'') (\<lambda>_.
           abind (query (path_exists (rh_script_path p))) (\<lambda>script.
           abind (if script then ret ()
             else say (''note: reseal script not found at '' @ rh_script_path p @ '' yet '' @ em_dash @
               '' install it (make install) so the trigger has something to run.'')) (\<lambda>_.
           abind (write_reseal_hook C p) (\<lambda>_.
           say (''installed '' @ trigger_as_str (rh_trigger p) @ '' '' @ arrow @ '' '' @ rh_hook_path p))))))"

definition reseal_hook_uninstall_cmd :: "('w, 'y) console_scheme \<Rightarrow> bool \<Rightarrow> ('z tty_host_scheme, cli_end, unit) act" where
  "reseal_hook_uninstall_cmd C dry_run =
     abind (query reseal_hook_plan) (\<lambda>r. case r of
       None \<Rightarrow> say (''No known reseal trigger for this distro '' @ em_dash @ '' nothing to remove.'')
     | Some p \<Rightarrow>
         if dry_run then say (''Would remove '' @ rh_hook_path p)
         else
           abind (require_root C ''reseal-hook uninstall'') (\<lambda>_.
           abind (query (path_exists (rh_hook_path p))) (\<lambda>there.
           if there
           then abind (amap_err (\<lambda>_. Bail (''removing '' @ rh_hook_path p)) (fs_remove_file (rh_hook_path p))) (\<lambda>_.
             say (''removed '' @ rh_hook_path p))
           else say (''not installed '' @ em_dash @ '' nothing to remove ('' @ rh_hook_path p @ '')''))))"

definition reseal_hook_setup_step :: "('w, 'y) console_scheme \<Rightarrow> ('z tty_host_scheme, cli_end, unit) act" where
  "reseal_hook_setup_step C =
     abind (query reseal_hook_plan) (\<lambda>r. case r of
       None \<Rightarrow> say (''  no known kernel-update trigger for this distro '' @ em_dash @ '' reseal manually after updates.'')
     | Some p \<Rightarrow>
         abind (query (path_exists (rh_hook_path p))) (\<lambda>there.
         if there then say (''  reseal trigger already installed ('' @ trigger_as_str (rh_trigger p) @ '').'')
         else
           abind (say (''  keeps TPM envelopes valid across kernel/boot updates via the '' @ trigger_as_str (rh_trigger p) @ ''.'')) (\<lambda>_.
           abind (prompt_yes ''  install it now? [y/N] '') (\<lambda>yes.
           if yes
           then abind (write_reseal_hook C p) (\<lambda>_. say (''  installed '' @ arrow @ '' '' @ rh_hook_path p))
           else say (''  skipped '' @ em_dash @ '' run `sudo linhello reseal-hook install` later.'')))))"

section \<open>Packages and dependencies\<close>

definition chosen_format :: "string option \<Rightarrow> 'z host_scheme \<Rightarrow> cli_end + package_format_t" where
  "chosen_format format w = (case format of
      None \<Rightarrow> Inr (package_format w)
    | Some f \<Rightarrow>
       (if f = ''auto'' then Inr (package_format w)
        else if f = ''rpm'' then Inr Rpm else if f = ''deb'' then Inr Deb else if f = ''pkg'' then Inr Pkg
        else Inl (Bail (''unknown format `'' @ f @ ''`''))))"

definition package_cmd ::
  "('z tty_host_scheme, 'y) console_scheme \<Rightarrow> string option \<Rightarrow> bool \<Rightarrow> ('z tty_host_scheme, cli_end, unit) act" where
  "package_cmd C format inst =
     abind (abind (query (chosen_format format)) lift) (\<lambda>fmt.
     if fmt = UnknownFormat
     then abind (query distro_family) (\<lambda>family.
       fail (Bail (''no native package format for this distro ('' @ family_as_str family @ '')'')))
     else
       abind (if inst then require_root C ''package --install'' else ret ()) (\<lambda>_.
       abind (query (source_root C)) (\<lambda>r. case r of
         None \<Rightarrow> fail (Bail ''no source checkout found to build from'')
       | Some rt \<Rightarrow>
           abind (amap_err Bail (build_native_package C rt fmt)) (\<lambda>(pkg, log).
           abind (say_all (indent log)) (\<lambda>_.
           if inst
           then abind (amap_err Bail (install_native_package C pkg fmt)) (\<lambda>l. say_all (indent l))
           else say_all [nl # ''Built: '' @ pkg, ''Install it with: sudo linhello package --install''])))))"

definition deps_section :: "distro_family_t \<Rightarrow> 'z host_scheme \<Rightarrow> string \<times> bool \<Rightarrow> string list" where
  "deps_section family w sec = (case sec of (title, runtime) \<Rightarrow>
     (let ds = filter (\<lambda>d. dep_runtime d = runtime) dependencies;
          pkgs = filter (\<lambda>p. p \<noteq> []) (map (\<lambda>d. dep_package d family) ds)
      in [nl # title @ '':''] @
         map (\<lambda>d. ''  '' @ pad_right 22 (dep_need d) @ '' '' @
           (if dep_package d family = [] then ''(no distro package '' @ em_dash @ '' build/fetch upstream)''
            else dep_package d family)) ds @
         [case install_command pkgs w of
            Some cmd \<Rightarrow> ''  '' @ arrow @ '' '' @ cmd
          | None \<Rightarrow> ''  '' @ arrow @ '' install the above with your package manager'']))"

definition deps_cmd :: "string option \<Rightarrow> ('z tty_host_scheme, 'e, unit) act" where
  "deps_cmd only =
     abind (query (\<lambda>w.
       let family = distro_family w;
           sections = (if only = Some ''runtime'' then [(''Runtime'', True)]
             else if only = Some ''build'' then [(''Build-time'', False)]
             else [(''Runtime'', True), (''Build-time'', False)])
       in [''Dependencies for '' @ os_label (os_release w) @ '' ('' @ family_as_str family @ '')''] @
          concat (map (deps_section family w) sections) @
          (if list_ex (\<lambda>d. dep_need d = ''ONNX Runtime'' \<and> dep_package d family = []) dependencies
           then [nl # ''note: ONNX Runtime isn't in '' @ family_as_str family @
             [CHR 0x27] @ ''s main repos '' @ em_dash @ '' run `sudo linhello fetch-onnx` to install the matching prebuilt (or build it and set ORT_DYLIB_PATH).'']
           else []))) say_all"

section \<open>Secure Boot keys\<close>

definition sbctl_installed :: "('w, 'y) system_scheme \<Rightarrow> ('w, 'e, bool) act" where
  "sbctl_installed S = succeeded S ''sbctl'' [''--help'']"

definition run_sbctl :: "('w, 'y) console_scheme \<Rightarrow> string list \<Rightarrow> ('w, cli_end, unit) act" where
  "run_sbctl C args =
     abind (amap_err (\<lambda>_. Bail (''spawning sbctl '' @ join_with '' '' args)) (cmd_output C ''sbctl'' args)) (\<lambda>(ok, _, _).
     if ok then ret ()
     else abind (query (status_text C)) (\<lambda>st. fail (Bail (''sbctl '' @ join_with '' '' args @ '' exited with '' @ st))))"

definition secureboot_status :: "('z tty_host_scheme, 'y) system_scheme \<Rightarrow> ('z tty_host_scheme, cli_end, unit) act" where
  "secureboot_status S =
     abind (query (\<lambda>w. [''secure boot    : '' @ show_bool (is_secure_boot_enabled w),
       ''setup mode     : '' @ show_bool (is_setup_mode w)] @
       (case loader_identity w of None \<Rightarrow> [] | Some l \<Rightarrow> [''loader         : '' @ l]))) (\<lambda>ls.
     abind (say_all ls) (\<lambda>_.
     abind (sbctl_installed S) (\<lambda>there.
     if there
     then abind (say ''--- sbctl status ---'') (\<lambda>_. ignore (cmd_output S ''sbctl'' [''status'']))
     else say ''sbctl          : not installed'')))"

definition require_sbctl :: "('w, 'y) system_scheme \<Rightarrow> ('w, cli_end, unit) act" where
  "require_sbctl S =
     abind (sbctl_installed S) (\<lambda>there.
     if there then ret ()
     else fail (Bail (''sbctl not found on PATH '' @ em_dash @ '' install it (pacman -S sbctl) and re-run'')))"

fun sign_each :: "('z tty_host_scheme, 'y) console_scheme \<Rightarrow> string list \<Rightarrow> ('z tty_host_scheme, cli_end, unit) act" where
  "sign_each C [] = ret ()"
| "sign_each C (p # ps) =
     abind (query (path_exists p)) (\<lambda>there.
     if \<not> there then fail (Bail (''no such file: '' @ p))
     else
       abind (say (''==> sbctl sign -s '' @ p)) (\<lambda>_.
       abind (run_sbctl C [''sign'', ''-s'', p]) (\<lambda>_. sign_each C ps)))"

definition secureboot_sign :: "('z tty_host_scheme, 'y) console_scheme \<Rightarrow> string list \<Rightarrow> ('z tty_host_scheme, cli_end, unit) act" where
  "secureboot_sign C paths =
     abind (require_root C ''sign'') (\<lambda>_.
     abind (require_sbctl C) (\<lambda>_.
     abind (sign_each C paths) (\<lambda>_.
     say_all [[], ''signed '' @ show_nat (length paths) @ '' file(s). run `linhello secureboot verify` to confirm.''])))"

definition sbctl_report ::
  "('z tty_host_scheme, 'y) console_scheme \<Rightarrow> string \<Rightarrow> string \<Rightarrow> (string \<Rightarrow> string) \<Rightarrow> ('z tty_host_scheme, cli_end, unit) act" where
  "sbctl_report C what sub failed =
     abind (require_root C what) (\<lambda>_.
     abind (require_sbctl C) (\<lambda>_.
     abind (amap_err Bail (cmd_output C ''sbctl'' [sub])) (\<lambda>(ok, _, _).
     if ok then ret () else abind (query (status_text C)) (\<lambda>st. fail (Bail (failed st))))))"

definition secureboot_verify :: "('z tty_host_scheme, 'y) console_scheme \<Rightarrow> ('z tty_host_scheme, cli_end, unit) act" where
  "secureboot_verify C = sbctl_report C ''verify'' ''verify'' (\<lambda>st. ''sbctl verify reported unsigned files (exit '' @ st @ '')'')"

definition secureboot_list :: "('z tty_host_scheme, 'y) console_scheme \<Rightarrow> ('z tty_host_scheme, cli_end, unit) act" where
  "secureboot_list C = sbctl_report C ''list'' ''list-files'' (\<lambda>st. ''sbctl list-files exited with '' @ st)"

definition secureboot_setup :: "('z tty_host_scheme, 'y) console_scheme \<Rightarrow> bool \<Rightarrow> ('z tty_host_scheme, cli_end, unit) act" where
  "secureboot_setup C enroll_microsoft =
     abind (require_root C ''setup'') (\<lambda>_.
     abind (require_sbctl C) (\<lambda>_.
     abind (query (\<lambda>w. (is_secure_boot_enabled w, is_setup_mode w))) (\<lambda>(sb_on, setup_mode).
     if sb_on \<and> \<not> setup_mode
     then fail (Bail ''firmware is not in SetupMode and Secure Boot is already on. To re-enroll, clear factory keys in firmware setup first, then reboot and retry.'')
     else
       abind (if setup_mode then ret ()
         else say_all [''warning: firmware reports it is not in SetupMode. sbctl enroll-keys will likely fail.'',
           ''if it does, reboot into firmware setup, clear PK/KEK/db, and retry.'']) (\<lambda>_.
       abind (say ''==> sbctl create-keys (idempotent)'') (\<lambda>_.
       abind (run_sbctl C [''create-keys'']) (\<lambda>_.
       let args = (if enroll_microsoft then [''enroll-keys'', ''--microsoft''] else [''enroll-keys'']) in
       abind (say (''==> sbctl '' @ join_with '' '' args)) (\<lambda>_.
       abind (run_sbctl C args) (\<lambda>_.
       say_all [[], ''keys enrolled. next steps:'',
         ''  1. sbctl sign -s <path-to-UKI>     # sign every EFI binary you boot'',
         ''  2. sbctl verify                    # list any remaining unsigned binaries'',
         ''  3. reboot; enable Secure Boot in firmware if not already on'',
         ''  4. linhello reseal                   # bind the keyring secret to PCR 7 under the new keys'']))))))))"

end
