(* ===== verification/Setup_Cmds.thy ===== *)
theory Setup_Cmds
  imports HostCommands
begin

text \<open>
  The guided set-up and the remaining commands of crates/linhello-cli/src/main.rs: camera choice,
  threshold calibration, reports of the daemon's answers, PAM wiring, updates and the framing guide.
\<close>

section \<open>Cameras and the daemon\<close>

definition restart_daemon :: "('z tty_host_scheme, 'y) console_scheme \<Rightarrow> ('z tty_host_scheme, cli_end, unit) act" where
  "restart_daemon C =
     abind (put ''  restarting linhellod... '') (\<lambda>_.
     abind (amap_err (\<lambda>_. Bail ''running systemctl restart linhellod'') (cmd_output C ''systemctl'' [''restart'', ''linhellod''])) (\<lambda>(ok, _, _).
     if \<not> ok
     then abind (say ''failed'') (\<lambda>_. abind (query (status_text C)) (\<lambda>st.
       fail (Bail (''systemctl restart linhellod exited with '' @ st))))
     else say ''ok''))"

definition kind_name :: "camera_kind \<Rightarrow> string" where
  "kind_name k = (case k of Rgb \<Rightarrow> ''RGB'' | Ir \<Rightarrow> ''IR'' | UnknownKind \<Rightarrow> ''?'')"

definition camera_row :: "camera_node \<Rightarrow> string" where
  "camera_row c = ''    '' @ pad_right 14 (ci_path c) @ '' '' @ pad_right 4 (kind_name (cn_kind c)) @ '' '' @
     unwrap_or ''?'' (cn_name c) @ (if cn_trusted c then [] else ''  (untrusted/virtual)'') @
     ''  ['' @ join_with '','' (cn_fourccs c) @ '']''"

fun numbered :: "(camera_node \<Rightarrow> string) \<Rightarrow> nat \<Rightarrow> camera_node list \<Rightarrow> string list" where
  "numbered f i [] = []"
| "numbered f i (c # cs) = (''    '' @ show_nat i @ '') '' @ f c) # numbered f (i + 1) cs"

definition clamp_nat :: "nat \<Rightarrow> nat \<Rightarrow> nat \<Rightarrow> nat" where
  "clamp_nat n lo hi = (if n < lo then lo else if n > hi then hi else n)"

definition choose_rgb :: "camera_node list \<Rightarrow> ('z tty_host_scheme, cli_end, string) act" where
  "choose_rgb cs = (case cs of
      [] \<Rightarrow>
        abind (prompt_line ''  no trusted RGB camera auto-detected. Enter RGB device path: '') (\<lambda>p.
        if p = [] then fail (Bail ''no RGB camera selected'') else ret p)
    | [c] \<Rightarrow> abind (say (''  RGB camera: '' @ ci_path c @ '' ('' @ unwrap_or ''?'' (cn_name c) @ '')'')) (\<lambda>_. ret (ci_path c))
    | _ \<Rightarrow>
        abind (say_all (numbered (\<lambda>c. ci_path c @ '' ('' @ unwrap_or ''?'' (cn_name c) @ '')'') 1 cs)) (\<lambda>_.
        abind (prompt_line (''  pick RGB camera [1-'' @ show_nat (length cs) @ ''] (default 1): '')) (\<lambda>sel.
        ret (ci_path (cs ! (clamp_nat (unwrap_or 1 (parse_usize sel)) 1 (length cs) - 1))))))"

definition choose_ir :: "camera_node list \<Rightarrow> ('z tty_host_scheme, cli_end, string option) act" where
  "choose_ir cs = (case cs of
      [] \<Rightarrow> abind (say ''  IR camera: none (liveness uses the RGB anti-spoof model)'') (\<lambda>_. ret None)
    | [c] \<Rightarrow> abind (say (''  IR camera: '' @ ci_path c)) (\<lambda>_. ret (Some (ci_path c)))
    | _ \<Rightarrow>
        abind (say_all (numbered ci_path 1 cs)) (\<lambda>_.
        abind (prompt_line (''  pick IR camera [1-'' @ show_nat (length cs) @ ''] (default 1, 0=none): '')) (\<lambda>sel.
        ret (let n = unwrap_or 1 (parse_usize sel) in
          if n = 0 then None else Some (ci_path (cs ! (clamp_nat n 1 (length cs) - 1)))))))"

definition choose_cameras :: "camera_node list \<Rightarrow> ('z tty_host_scheme, cli_end, string \<times> string option) act" where
  "choose_cameras cams =
     (if cams = [] then fail (Bail ''no /dev/video* capture devices found'')
      else
        abind (say_all (''  detected video devices:'' # map camera_row cams @ [[]])) (\<lambda>_.
        abind (choose_rgb (filter (\<lambda>c. cn_kind c = Rgb \<and> cn_trusted c) cams)) (\<lambda>rgb.
        abind (choose_ir (filter (\<lambda>c. cn_kind c = Ir) cams)) (\<lambda>ir. ret (rgb, ir)))))"

section \<open>The threshold\<close>

definition calibration_runs :: nat where "calibration_runs = 8"

fun sample_scores ::
  "('z tty_host_scheme, 'y) console_scheme \<Rightarrow> string \<Rightarrow> nat \<Rightarrow> nat \<Rightarrow> f32 list
   \<Rightarrow> ('z tty_host_scheme, cli_end, f32 list) act" where
  "sample_scores C user i 0 scores = ret scores"
| "sample_scores C user i (Suc left) scores =
     abind (put (''    ['' @ show_nat i @ ''/'' @ show_nat calibration_runs @ ''] '')) (\<lambda>_.
     abind (try_act (send C (RVerify user))) (\<lambda>r. case r of
       Inl e \<Rightarrow> abind (say (''skip '' @ em_dash @ '' '' @ e)) (\<lambda>_. sample_scores C user (i + 1) left scores)
     | Inr resp \<Rightarrow> (case resp of
         SVerified _ score _ \<Rightarrow>
           abind (say (''score '' @ fmt_prec 3 score)) (\<lambda>_. sample_scores C user (i + 1) left (scores @ [score]))
       | SError m \<Rightarrow> abind (say (''skip '' @ em_dash @ '' '' @ m)) (\<lambda>_. sample_scores C user (i + 1) left scores)
       | _ \<Rightarrow> fail (unexpected C resp))))"

definition weakest :: "f32 list \<Rightarrow> f32" where "weakest scores = foldl f_min (f_inf False) scores"

definition mean_score :: "f32 list \<Rightarrow> f32" where
  "mean_score scores = f_div (foldl f_add (f_zero True) scores) (f_of_nat (length scores))"

definition recommended_threshold :: "f32 list \<Rightarrow> f32" where
  "recommended_threshold scores = f_clamp (f_sub (weakest scores) (f_lit 0.05)) (f_lit 0.45) (f_lit 0.75)"

text \<open>The answer at the prompt, with a note when it is not understood.\<close>

definition chosen_threshold :: "f32 \<Rightarrow> string \<Rightarrow> f32 \<times> string list" where
  "chosen_threshold rec ans =
     (if ans = [] \<or> is_yes (to_ascii_lowercase ans) then (rec, [])
      else case parse_f32 ans of
          Some v \<Rightarrow> (f_clamp v (f_lit 0.30) (f_lit 0.95), [])
        | None \<Rightarrow> (rec, [''  not understood; using recommended '' @ fmt_prec 2 rec]))"

definition calibrate_threshold ::
  "('z tty_host_scheme, 'y) console_scheme \<Rightarrow> string \<Rightarrow> ('z tty_host_scheme, cli_end, unit) act" where
  "calibrate_threshold C user =
     abind (say_all [''  Capturing '' @ show_nat calibration_runs @ '' samples to measure your genuine match scores.'',
       ''  Look at the camera and stay roughly still; small movements are fine.'']) (\<lambda>_.
     abind (sample_scores C user 1 calibration_runs []) (\<lambda>scores.
     if length scores < 3
     then say ''  Not enough good captures to recommend a threshold; keeping current value.''
     else
       let rec = recommended_threshold scores in
       abind (say_all [[], ''  genuine scores: min '' @ fmt_prec 3 (weakest scores) @ '', mean '' @ fmt_prec 3 (mean_score scores) @
           ''  (n='' @ show_nat (length scores) @ '')'',
         ''  recommended threshold: '' @ fmt_prec 2 rec @ ''  (a margin below your weakest genuine match)'']) (\<lambda>_.
       abind (prompt_line (''  accept '' @ fmt_prec 2 rec @ ''? [Y/n], or type a value 0.45-0.85: '')) (\<lambda>ans.
       case chosen_threshold rec ans of (chosen, note) \<Rightarrow>
         abind (say_all note) (\<lambda>_.
         abind (amap_err (\<lambda>e. Bail (''writing settings.conf: '' @ err_to_string e))
           (write_kv ''settings.conf'' ''match_threshold'' (fmt_prec 2 chosen))) (\<lambda>_.
         say (''  saved match_threshold='' @ fmt_prec 2 chosen @ '' to /etc/linhello/settings.conf'')))))))"

section \<open>Reports\<close>

definition check_row :: "capability_check \<Rightarrow> string" where
  "check_row c = (case cap_status c of
      CapOk \<Rightarrow> ''[ OK ]'' | CapWarn \<Rightarrow> ''[WARN]''
    | CapMissing \<Rightarrow> (if cap_required c then ''[FAIL]'' else ''[ -- ]'')) @ '' '' @
     pad_right 20 (cap_name c) @ '' '' @ cap_detail c"

definition print_capability_report :: "capability_report \<Rightarrow> ('z tty_host_scheme, 'e, unit) act" where
  "print_capability_report report = say_all (map check_row report)"

definition policy_lines :: "policy_status \<Rightarrow> string list" where
  "policy_lines p =
     [(if ps_secure p \<and> ps_hardware_ready p then ''[ OK ]'' else ''[WARN]'') @ '' '' @ pad_right 20 ''Biometric tier'' @ '' '' @ ps_tier p] @
     (if \<not> ps_hardware_ready p \<and> ps_hardware_note p \<noteq> []
      then [''       '' @ pad_right 20 [] @ '' '' @ warning_sign @ '' '' @ ps_hardware_note p] else []) @
     (if ps_overridden p
      then [''       '' @ pad_right 20 [] @ '' forced by policy.conf '' @ em_dash @ '' hardware is '' @ ps_hardware_tier p] else []) @
     (if \<not> ps_enrolled p
      then [''       '' @ pad_right 20 [] @ '' no face enrolled yet '' @ em_dash @ '' run `linhello setup`''] else []) @
     map (\<lambda>o0. ''       '' @ middle_dot @ '' '' @ pad_right 19 (op_operation o0) @ pad_right 8 (op_action o0) @ op_effect o0) (ps_ops p) @
     [''       '' @ middle_dot @ '' '' @ pad_right 19 ''configure'' @
      ''/etc/linhello/policy.conf (keys: method, tier, screen_unlock, login, sudo, polkit)'']"

definition print_policy_status :: "('z tty_host_scheme, 'y) console_scheme \<Rightarrow> ('z tty_host_scheme, 'e, unit) act" where
  "print_policy_status C =
     abind (query current_user) (\<lambda>u. case u of
       Inl _ \<Rightarrow> ret ()
     | Inr user \<Rightarrow>
         abind (try_act (send C (RPolicyStatus user))) (\<lambda>r. case r of
           Inr (SPolicyStatus p) \<Rightarrow> say_all (policy_lines p)
         | _ \<Rightarrow> ret ()))"

definition pick_report :: "response \<Rightarrow> capability_report option" where
  "pick_report r = (case r of SCapabilities rep \<Rightarrow> Some rep | _ \<Rightarrow> None)"

definition doctor_cmd :: "('z tty_host_scheme, 'y) console_scheme \<Rightarrow> ('z tty_host_scheme, cli_end, unit) act" where
  "doctor_cmd C =
     abind (expect C RProbe pick_report) (\<lambda>report.
     abind (print_capability_report report) (\<lambda>_.
     abind (print_policy_status C) (\<lambda>_.
     abind (say []) (\<lambda>_.
     if \<not> can_run report
     then abind (say (''verdict: CANNOT RUN '' @ em_dash @ '' a required capability is missing (see [FAIL]).'')) (\<lambda>_. fail (Exit 1))
     else if degraded report
     then say (''verdict: READY (degraded) '' @ em_dash @ '' reduced security/features; see [WARN].'')
     else say (''verdict: READY '' @ em_dash @ '' all required capabilities present.'')))))"

definition detect_cmd :: "('z tty_host_scheme, 'y) system_scheme \<Rightarrow> ('z tty_host_scheme, cli_end, unit) act" where
  "detect_cmd S =
     abind (detect_install S) (\<lambda>st.
     abind (say_all ([headline st, []] @ indent (detail_lines st))) (\<lambda>_.
     fail (Exit (if is_configured st then 0 else if is_installed st then 10 else 20))))"

section \<open>Wiring, removal and update\<close>

definition pam_status_cmd :: "('z tty_host_scheme, 'e, unit) act" where
  "pam_status_cmd =
     abind (query pam_status) (\<lambda>st.
     if st = [] then say ''no greeter/sudo PAM services found under /etc/pam.d''
     else say_all (''face-auth PAM wiring:'' #
       map (\<lambda>s. ''  ['' @ (if st_wired s then ''on '' else ''off'') @ ''] '' @ st_path s) st))"

definition pam_enable_cmd ::
  "('z tty_host_scheme, 'y) console_scheme \<Rightarrow> bool \<Rightarrow> bool \<Rightarrow> ('z tty_host_scheme, cli_end, unit) act" where
  "pam_enable_cmd C with_sudo dry_run =
     abind (if dry_run then ret () else require_root C ''pam enable'') (\<lambda>_.
     abind (amap_err Bail (enable (tools C) with_sudo dry_run)) (\<lambda>cs.
     abind (say_all (indent (map describe cs))) (\<lambda>_.
     if dry_run then ret ()
     else
       abind (say_all [[], ''Socket group (lock-screen access):'']) (\<lambda>_.
       abind (group_membership_setup_step C) (\<lambda>_.
       say_all [[], ''Escape hatch preserved: face-auth is a fallback '' @ em_dash @ '' if the camera or TPM'',
         ''is unavailable you can still type your password, and the TTY login'',
         ''(Ctrl+Alt+F2) is left untouched. `linhello pam disable` reverts this.''])))))"

definition pam_disable_cmd :: "('z tty_host_scheme, 'y) console_scheme \<Rightarrow> bool \<Rightarrow> ('z tty_host_scheme, cli_end, unit) act" where
  "pam_disable_cmd C dry_run =
     abind (if dry_run then ret () else require_root C ''pam disable'') (\<lambda>_.
     abind (amap_err Bail (disable (tools C) dry_run)) (\<lambda>cs. say_all (indent (map describe cs))))"

definition uninstall_cmd ::
  "('z tty_host_scheme, 'y) console_scheme \<Rightarrow> bool \<Rightarrow> bool \<Rightarrow> ('z tty_host_scheme, cli_end, unit) act" where
  "uninstall_cmd C remove_models yes =
     abind (require_root C ''uninstall'') (\<lambda>_.
     abind (say_all (''Uninstalling LinuxHello will:'' # map (\<lambda>s. ''  '' @ bullet @ '' '' @ s) (uninstall_plan remove_models))) (\<lambda>_.
     if \<not> yes then say (nl # ''Nothing done. Re-run with --yes to perform it.'')
     else
       abind (say []) (\<lambda>_.
       abind (amap_err Bail (uninstall C remove_models)) (\<lambda>log.
       say_all (indent log @ [nl # ''Done. Password login is unaffected.''])))))"

definition update_cmd ::
  "('z tty_host_scheme, 'y) console_scheme \<Rightarrow> (string \<Rightarrow> string) \<Rightarrow> ('z tty_host_scheme, cli_end, unit) act" where
  "update_cmd C upper =
     abind (require_root C ''update'') (\<lambda>_.
     abind (the_user None) (\<lambda>user.
     abind (amap_err Bail (update C upper user)) (\<lambda>log.
     say_all (indent log @ [nl # ''Update complete. Enrollment, config, and PAM backups were untouched.'']))))"

definition update_check_cmd :: "('z tty_host_scheme, 'y) console_scheme \<Rightarrow> ('z tty_host_scheme, cli_end, unit) act" where
  "update_check_cmd C =
     abind (live_status C) (\<lambda>st. case us_latest st of
       None \<Rightarrow> say (''could not reach the update source (offline?). This build is v'' @ us_current st @ ''.'')
     | Some latest \<Rightarrow>
         if newer_available st
         then abind (say (''update available: v'' @ us_current st @ '' '' @ arrow @ '' v'' @ latest)) (\<lambda>_.
           abind (update_hint C) (\<lambda>h. say (''  update with:  '' @ h)))
         else say (''up to date: v'' @ us_current st @ '' (newest released: v'' @ latest @ '').''))"

definition fetch_models_cmd :: "('z tty_host_scheme, 'y) console_scheme \<Rightarrow> bool \<Rightarrow> ('z tty_host_scheme, cli_end, unit) act" where
  "fetch_models_cmd C force =
     abind (require_root C ''fetch-models'') (\<lambda>_.
     abind (amap_err Bail (fetch_models C force)) (\<lambda>log. say_all (indent log)))"

definition fetch_onnx_cmd ::
  "('z tty_host_scheme, 'y) console_scheme \<Rightarrow> string \<Rightarrow> bool \<Rightarrow> ('z tty_host_scheme, cli_end, unit) act" where
  "fetch_onnx_cmd C arch force =
     abind (require_root C ''fetch-onnx'') (\<lambda>_.
     abind (amap_err Bail (fetch_onnx C arch force)) (\<lambda>log. say_all (indent log)))"

end
