(* ===== verification/Wizard.thy ===== *)
theory Wizard
  imports Setup_Cmds
begin

text \<open>
  The set-up wizard, the framing guide, the diagnostic commands and the dispatch of the command
  line, crates/linhello-cli/src/main.rs. The loop of the framing guide may run forever, so it is a
  partial function; the waits between its polls are not modelled.
\<close>

text \<open>\<open>if let Err(e) = ...\<close>: an error is caught, the exit of the process is not.\<close>

definition attempt :: "('w, cli_end, 'a) act \<Rightarrow> ('w, cli_end, string + 'a) act" where
  "attempt m = abind (try_act m) (\<lambda>r. case r of
      Inr x \<Rightarrow> ret (Inr x) | Inl (Bail e) \<Rightarrow> ret (Inl e) | Inl (Exit n) \<Rightarrow> fail (Exit n))"

section \<open>Set-up\<close>

definition setup_readiness :: "('z tty_host_scheme, 'y) console_scheme \<Rightarrow> ('z tty_host_scheme, cli_end, unit) act" where
  "setup_readiness C =
     abind (say (''Step 1/5 '' @ em_dash @ '' checking hardware & software readiness'')) (\<lambda>_.
     abind (try_act (send C RProbe)) (\<lambda>r. case r of
       Inl e \<Rightarrow> fail (Bail (''cannot reach linhellod ('' @ e @ '') '' @ em_dash @ '' check `systemctl status linhellod`''))
     | Inr resp \<Rightarrow> (case resp of
         SCapabilities report \<Rightarrow>
           abind (print_capability_report report) (\<lambda>_.
           if \<not> can_run report
           then fail (Bail (''a required capability is missing (see [FAIL]) '' @ em_dash @ '' fix it and re-run setup''))
           else say [])
       | SError m \<Rightarrow> fail (Bail m)
       | _ \<Rightarrow> fail (unexpected C resp))))"

definition setup_integration :: "('z tty_host_scheme, 'y) console_scheme \<Rightarrow> ('z tty_host_scheme, cli_end, unit) act" where
  "setup_integration C =
     abind (say (''Step 2/5 '' @ em_dash @ '' platform integration (SELinux, reseal hook, group)'')) (\<lambda>_.
     abind (selinux_setup_step C) (\<lambda>_.
     abind (reseal_hook_setup_step C) (\<lambda>_.
     abind (group_membership_setup_step C) (\<lambda>_. say []))))"

definition setup_cameras ::
  "('z tty_host_scheme, 'y) console_scheme \<Rightarrow> ('z tty_host_scheme, 'v) v4l_scheme \<Rightarrow> ('z tty_host_scheme, cli_end, unit) act" where
  "setup_cameras C V =
     abind (say (''Step 3/5 '' @ em_dash @ '' choose your camera'')) (\<lambda>_.
     abind (query (enumerate_cameras V)) (\<lambda>cams.
     abind (choose_cameras cams) (\<lambda>(rgb, ir).
     abind (amap_err (\<lambda>e. Bail (err_to_string e)) (write_cameras_conf rgb ir)) (\<lambda>_.
     abind (say (''  saved: rgb='' @ rgb @ (case ir of Some p \<Rightarrow> '', ir='' @ p | None \<Rightarrow> []))) (\<lambda>_.
     abind (restart_daemon C) (\<lambda>_. say []))))))"

definition setup_threshold :: "('z tty_host_scheme, 'y) console_scheme \<Rightarrow> string \<Rightarrow> ('z tty_host_scheme, cli_end, unit) act" where
  "setup_threshold C user =
     abind (say (''Step 4/5 '' @ em_dash @ '' calibrate the match threshold'')) (\<lambda>_.
     abind (prompt_yes (''  calibrate against '' @ user @ [CHR 0x27] @ ''s enrolled face now? (skip if not enrolled yet) [y/N] '')) (\<lambda>yes.
     abind (if yes then abind (calibrate_threshold C user) (\<lambda>_. restart_daemon C)
            else say (''  skipped '' @ em_dash @ '' using default/current threshold. Re-run setup after enrolling to tune.'')) (\<lambda>_.
     say [])))"

definition setup_enrollment :: "('z tty_host_scheme, 'y) console_scheme \<Rightarrow> string \<Rightarrow> ('z tty_host_scheme, cli_end, bool) act" where
  "setup_enrollment C user =
     abind (say (''Step 5/5 '' @ em_dash @ '' enrollment'')) (\<lambda>_.
     abind (prompt_yes (''  enroll '' @ user @ [CHR 0x27] @ ''s face now? [y/N] '')) (\<lambda>yes.
     if yes then abind (enroll_guided C user False 5) (\<lambda>_. ret True)
     else abind (say (''  skipped '' @ em_dash @ '' run `linhello enroll` when ready.'')) (\<lambda>_. ret False)))"

definition setup_recovery :: "('z tty_host_scheme, 'y) console_scheme \<Rightarrow> string \<Rightarrow> ('z tty_host_scheme, cli_end, unit) act" where
  "setup_recovery C user =
     abind (say_all [[], ''Recovery passphrase (optional) '' @ em_dash @ '' a backstop, SEPARATE from your login'',
       ''password, for when the automatic self-heal can'' @ [CHR 0x27] @ ''t run (Secure Boot off,'',
       ''TPM cleared, disk moved). Without it, those rare cases need a re-enroll.'']) (\<lambda>_.
     abind (prompt_yes ''  set a recovery passphrase now? [y/N] '') (\<lambda>yes.
     if yes
     then abind (attempt (set_recovery_interactive C user)) (\<lambda>r. case r of
         Inl e \<Rightarrow> say_all [''  recovery passphrase not set: '' @ e,
           ''  you can set one later with `sudo linhello set-recovery`.'']
       | Inr _ \<Rightarrow> ret ())
     else say (''  skipped '' @ em_dash @ '' set one later with `sudo linhello set-recovery`.'')))"

definition setup_fingerprint ::
  "('z tty_host_scheme, 'y) console_scheme \<Rightarrow> ('z tty_host_scheme, 'v) v4l_scheme \<Rightarrow> string
   \<Rightarrow> ('z tty_host_scheme, cli_end, unit) act" where
  "setup_fingerprint C V user =
     abind (fp_available C) (\<lambda>there.
     if \<not> there then ret ()
     else
       abind (detected_methods C V user) (\<lambda>av.
       abind (say_all ([] # (if \<not> face_ir av
         then [''Optional '' @ em_dash @ '' a fingerprint reader was detected. On this RGB-only machine, '',
           ''fingerprint is a SECURE-tier method (screen unlock + login + sudo), stronger '',
           ''than RGB-only face (convenience: screen unlock only).'']
         else [''Optional '' @ em_dash @ '' a fingerprint reader was detected. It'' @ [CHR 0x27] @ ''s a secure-tier alternative '',
           ''to IR face (both unlock everything); you can use either.'']))) (\<lambda>_.
       abind (prompt_yes ''  set up fingerprint now (enroll + wire pam_fprintd)? [y/N] '') (\<lambda>yes.
       if yes
       then abind (attempt (fingerprint_enable C user)) (\<lambda>r. case r of
           Inl e \<Rightarrow> say_all [''  fingerprint setup did not finish: '' @ e,
             ''  you can set it up later with `sudo linhello fingerprint enable`.'']
         | Inr _ \<Rightarrow> ret ())
       else say (''  skipped '' @ em_dash @ '' set up later with `sudo linhello fingerprint enable`.'')))))"

definition run_setup ::
  "('z tty_host_scheme, 'y) console_scheme \<Rightarrow> ('z tty_host_scheme, 'v) v4l_scheme \<Rightarrow> ('z tty_host_scheme, cli_end, unit) act" where
  "run_setup C V =
     abind (require_root C ''setup'') (\<lambda>_.
     abind (say_all [''LinuxHello setup'', ''================'', []]) (\<lambda>_.
     abind (setup_readiness C) (\<lambda>_.
     abind (setup_integration C) (\<lambda>_.
     abind (setup_cameras C V) (\<lambda>_.
     abind (abind (query current_user) lift) (\<lambda>user.
     abind (setup_threshold C user) (\<lambda>_.
     abind (setup_enrollment C user) (\<lambda>enrolled.
     abind (if enrolled then setup_recovery C user else ret ()) (\<lambda>_.
     abind (setup_fingerprint C V user) (\<lambda>_.
     say (nl # ''Setup complete. Try `linhello test`.'')))))))))))"

section \<open>The framing guide\<close>

text \<open>\<open>{:>+5.1}\<close> shows the sign of a number, not of NaN.\<close>

definition fmt_signed :: "nat \<Rightarrow> f32 \<Rightarrow> string" where
  "fmt_signed p a = (if decode a = FNan \<or> f_sign a then fmt_prec p a else CHR ''+'' # fmt_prec p a)"

definition render_position :: "position_report \<Rightarrow> string" where
  "render_position r =
     (let zero = f_zero False;
          ir = (if pr_ir_present r
            then ''ir '' @ pad_start 3 (fmt_prec 0 (unwrap_or zero (pr_ir_brightness r))) @ ''/'' @
              fmt_prec 1 (unwrap_or zero (pr_ir_face_bg r))
            else ''ir --'');
          nums = (case (pr_face_frac r, pr_yaw_deg r, pr_pitch_deg r) of
              (Some f, Some y, Some p) \<Rightarrow>
                ''q'' @ pad_start 3 (show_nat (pr_quality r)) @ ''%  face '' @ pad_start 3 (fmt_prec 0 (f_mul f (f_lit 100))) @
                ''%  yaw '' @ pad_start 5 (fmt_signed 1 y) @ ''  pitch '' @ pad_start 5 (fmt_signed 1 p) @
                ''  lum '' @ pad_start 3 (fmt_prec 0 (unwrap_or zero (pr_brightness r))) @ ''  '' @ ir
            | _ \<Rightarrow> ''faces: '' @ show_nat (pr_face_count r) @ ''  '' @ ir);
          mark = (if pr_well_framed r then ''OK '' else ''...'')
      in ''['' @ mark @ ''] '' @ pad_right 46 (pr_guidance r) @ '' '' @ pad_right 46 nums)"

definition position_once :: "('z tty_host_scheme, 'y) console_scheme \<Rightarrow> ('z tty_host_scheme, cli_end, unit) act" where
  "position_once C =
     abind (expect C RPositionSample (\<lambda>r. case r of SPosition rep \<Rightarrow> Some rep | _ \<Rightarrow> None)) (\<lambda>report.
     abind (say (trim_end (render_position report))) (\<lambda>_.
     if pr_well_framed report then ret () else fail (Exit 1)))"

text \<open>
  One poll: the loop goes on with a new streak, or ends with a result.
\<close>

datatype 'a poll = Again nat | Stop 'a

definition position_poll ::
  "('z tty_host_scheme, 'y) console_scheme \<Rightarrow> nat \<Rightarrow> 'z tty_host_scheme \<Rightarrow> ((cli_end, unit) outcome) poll \<times> 'z tty_host_scheme" where
  "position_poll C streak w = (case try_act (send C RPositionSample) w of
      (Ok (Inr (SPosition report)), w1) \<Rightarrow>
        (let w2 = snd (put (cr # render_position report) w1 :: (unit, unit) outcome \<times> _);
             n = (if pr_well_framed report then streak + 1 else 0)
         in if n \<ge> 5
            then (Stop (Ok ()), snd (say (nl # nl # ''Well framed for a moment '' @ em_dash @ '' you'' @ [CHR 0x27] @
              ''re set. Run `linhello enroll` to capture.'') w2 :: (unit, unit) outcome \<times> _))
            else (Again n, w2))
    | (Ok (Inr (SError m)), w1) \<Rightarrow>
        (Again streak, snd (put (cr # ''[err] '' @ pad_right 74 m) w1 :: (unit, unit) outcome \<times> _))
    | (Ok (Inr r), w1) \<Rightarrow> (Stop (Err (unexpected C r)), w1)
    | (Ok (Inl e), w1) \<Rightarrow> (Stop (Ok ()), w1)
    | (Err e, w1) \<Rightarrow> (Stop (Err e), w1)
    | (Panic m, w1) \<Rightarrow> (Stop (Panic m), w1))"

partial_function (option) position_loop ::
  "('z tty_host_scheme, 'y) console_scheme \<Rightarrow> nat \<Rightarrow> 'z tty_host_scheme \<Rightarrow> ((cli_end, unit) outcome \<times> 'z tty_host_scheme) option" where
  "position_loop C streak w = (case position_poll C streak w of
      (Stop r, w1) \<Rightarrow> Some (r, w1)
    | (Again n, w1) \<Rightarrow> position_loop C n w1)"

definition run_position ::
  "('z tty_host_scheme, 'y) console_scheme \<Rightarrow> bool \<Rightarrow> 'z tty_host_scheme \<Rightarrow> ((cli_end, unit) outcome \<times> 'z tty_host_scheme) option" where
  "run_position C once w =
     (if once then Some (position_once C w)
      else position_loop C 0 (snd (say (''Live framing guide '' @ em_dash @
        '' position your face; press Ctrl-C when done.'' @ [nl]) w :: (unit, unit) outcome \<times> _)))"

section \<open>Diagnostics\<close>

definition debug_level :: "security_level \<Rightarrow> string" where
  "debug_level l = (case l of Full \<Rightarrow> ''Full'' | Medium \<Rightarrow> ''Medium'' | Basic \<Rightarrow> ''Basic'')"

definition debug_mode :: "boot_mode \<Rightarrow> string" where
  "debug_mode m = (case m of Uki \<Rightarrow> ''Uki'' | Grub \<Rightarrow> ''Grub'' | Unknown \<Rightarrow> ''Unknown'')"

definition status_cmd :: "('z tty_host_scheme, 'y) console_scheme \<Rightarrow> ('z tty_host_scheme, cli_end, unit) act" where
  "status_cmd C =
     abind (amap_err Bail (send C RStatus)) (\<lambda>r. case r of
       SStatus level mode sb loader \<Rightarrow>
         say_all ([''security level : '' @ debug_level level, ''boot mode      : '' @ debug_mode mode,
           ''secure boot    : '' @ show_bool sb] @ (case loader of Some l \<Rightarrow> [''loader         : '' @ l] | None \<Rightarrow> []))
     | _ \<Rightarrow> fail (unexpected C r))"

definition reseal_cmd :: "('z tty_host_scheme, 'y) console_scheme \<Rightarrow> ('z tty_host_scheme, cli_end, unit) act" where
  "reseal_cmd C =
     abind (expect C RReseal (\<lambda>r. case r of SResealed n \<Rightarrow> Some n | _ \<Rightarrow> None)) (\<lambda>n.
     say (''sealed '' @ show_nat n @ '' bytes''))"

definition reseal_envelopes_cmd ::
  "('z tty_host_scheme, 'y) console_scheme \<Rightarrow> string \<Rightarrow> ('z tty_host_scheme, cli_end, unit) act" where
  "reseal_envelopes_cmd C user =
     (let outcome_text = (\<lambda>b. if b then ''ok'' else ''skipped'') in
      abind (expect C (RResealUserEnvelopes user) (\<lambda>r. case r of SUserEnvelopesResealed p t \<Rightarrow> Some (p, t) | _ \<Rightarrow> None)) (\<lambda>(p, t).
      say (''resealed '' @ user @ '': password='' @ outcome_text p @ '', template_key='' @ outcome_text t)))"

definition diag_lines :: "bool \<Rightarrow> security_level \<Rightarrow> nat list \<Rightarrow> nat list option \<Rightarrow> string option \<Rightarrow> string list" where
  "diag_lines present level tracked drift err =
     [''security level : '' @ debug_level level,
      ''envelope       : '' @ (if present then ''present'' else ''missing'')] @
     (if \<not> present then []
      else [''tracked PCRs   : '' @ show_nats tracked] @
        (case drift of
           None \<Rightarrow> (if err = None then [''pcr drift      : none''] else [])
         | Some changed \<Rightarrow> [''pcr drift      : '' @ show_nats changed @ '' CHANGED'']) @
        (case err of Some e \<Rightarrow> [''tpm error      : '' @ e] | None \<Rightarrow> []))"

definition diag_cmd :: "('z tty_host_scheme, 'y) console_scheme \<Rightarrow> ('z tty_host_scheme, cli_end, unit) act" where
  "diag_cmd C =
     abind (expect C RDiagnose (\<lambda>r. case r of
         SDiagnosed p l t d e \<Rightarrow> Some (p, l, t, d, e) | _ \<Rightarrow> None)) (\<lambda>(p, l, t, d, e).
     say_all (diag_lines p l t d e))"

definition fmt_opt :: "nat \<Rightarrow> f32 option \<Rightarrow> string" where
  "fmt_opt p v = (case v of Some x \<Rightarrow> fmt_prec p x | None \<Rightarrow> ''n/a'')"

definition liveness_lines :: "(string \<Rightarrow> string) \<Rightarrow> liveness_summary \<Rightarrow> string list" where
  "liveness_lines upper s =
     [''ML spoof_prob  : '' @ fmt_opt 3 (ls_spoof_prob s) @ ''  (median across the capture burst)'',
      ''ML real_score  : '' @ fmt_opt 3 (ls_ml_score s),
      ''device trust   : '' @ fmt_prec 2 (ls_device_score s) @ ''  ('' @ unwrap_or ''?'' (ls_device_name s) @ '', driver='' @
        unwrap_or ''?'' (ls_device_driver s) @ '')'',
      ''IR score       : '' @ fmt_opt 3 (ls_ir_score s) @ ''  (face/bg '' @ fmt_opt 2 (ls_ir_face_bg_ratio s) @ '', mean '' @
        fmt_opt 1 (ls_ir_mean s) @ '', std '' @ fmt_opt 1 (ls_ir_std s) @ '', hi '' @ fmt_opt 3 (ls_ir_highlight_frac s) @ '')'',
      ''IR eye-glint   : '' @ fmt_opt 1 (ls_ir_eye_glint s),
      ''IR depth       : '' @ fmt_opt 2 (ls_ir_depth_ratio s) @
        ''  (center/edge brightness; >1.3 = 3-D face, ~1 = flat photo/screen)'',
      ''face coverage  : '' @ (case ls_face_frac s of
         Some v \<Rightarrow> fmt_prec 0 (f_mul v (f_lit 100)) @ ''% of frame'' | None \<Rightarrow> ''n/a''),
      ''orientation    : yaw '' @ fmt_opt 0 (ls_yaw_deg s) @ degree_sign @ '', pitch '' @ fmt_opt 0 (ls_pitch_deg s) @ degree_sign,
      ''decision       : '' @ upper (ls_decision s)] @
     (case ls_reason s of Some r \<Rightarrow> [''reason         : '' @ r] | None \<Rightarrow> [])"

definition liveness_test_cmd ::
  "('z tty_host_scheme, 'y) console_scheme \<Rightarrow> (string \<Rightarrow> string) \<Rightarrow> ('z tty_host_scheme, cli_end, unit) act" where
  "liveness_test_cmd C upper =
     abind (expect C RLivenessTest (\<lambda>r. case r of SLivenessChecked s \<Rightarrow> Some s | _ \<Rightarrow> None)) (\<lambda>s.
     abind (say_all (liveness_lines upper s)) (\<lambda>_.
     if ls_decision s \<noteq> ''real'' then fail (Exit 1) else ret ()))"

definition set_recovery_cmd ::
  "('z tty_host_scheme, 'y) console_scheme \<Rightarrow> string option \<Rightarrow> ('z tty_host_scheme, cli_end, unit) act" where
  "set_recovery_cmd C user =
     abind (the_user user) (\<lambda>u.
     abind (say_all [''Set a recovery passphrase for '' @ u @ [CHR 0x27] @ ''s face template.'',
       ''This is SEPARATE from your login password and is your backstop if'',
       ''the automatic TPM self-heal can'' @ [CHR 0x27] @ ''t run (Secure Boot off, TPM cleared,'',
       ''disk moved). Store it somewhere safe '' @ em_dash @ '' like a BitLocker recovery key.'']) (\<lambda>_.
     set_recovery_interactive C u))"

end
