(* ===== verification/Cli.thy ===== *)
theory Cli
  imports Wizard
begin

text \<open>
  The commands of the tool and their dispatch, crates/linhello-cli/src/main.rs. The parser of the
  arguments (clap), the benchmark and the full-screen interface are parameters.
\<close>

datatype fp_action = FpStatus "string option" | FpEnable "string option" | FpDisable "string option"
  | FpAdd "string option" "string option"

datatype sb_action = SbStatus | SbSetup bool | SbSign "string list" | SbVerify | SbList

datatype pam_action = PamStatusA | PamEnableA bool bool | PamDisableA bool

datatype selinux_action = SelinuxStatusA | SelinuxInstallA bool "string option" | SelinuxUninstallA bool

datatype hook_action = HookStatusA | HookInstallA bool | HookUninstallA bool

datatype cmd =
    CStatus | CDetect | CProfiles | CIdentify
  | CProfileName string string
  | CForgetProfile string bool
  | CUninstall bool bool
  | CUpdate | CSetup
  | CEnroll "string option" bool nat "string option"
  | CTest "string option"
  | CVerify "string option"
  | CSealPassword "string option"
  | CFingerprint fp_action
  | CSetRecovery "string option"
  | CRecover "string option"
  | CReseal
  | CSecureboot sb_action
  | CDiag | CDoctor | CTui | CUpdateCheck
  | CPam pam_action
  | CSelinux selinux_action
  | CResealHook hook_action
  | CDeps "string option"
  | CFetchModels bool
  | CFetchOnnx bool
  | CPackage "string option" bool
  | CPosition bool
  | CLivenessTest
  | CResealUserEnvelopes string
  | CBenchmark "string option" nat nat

text \<open>What the dispatch calls and this model does not define: the architecture the tool was built
  for, the Unicode upper case, the benchmark and the full-screen interface.\<close>

record 'w frontend =
  fe_arch :: string
  fe_upper :: "string \<Rightarrow> string"
  fe_benchmark :: "string option \<Rightarrow> nat \<Rightarrow> nat \<Rightarrow> 'w \<Rightarrow> (cli_end, unit) outcome \<times> 'w"
  fe_tui :: "string \<Rightarrow> 'w \<Rightarrow> (cli_end, unit) outcome \<times> 'w"

definition fingerprint_cmd ::
  "('z tty_host_scheme, 'y) console_scheme \<Rightarrow> ('z tty_host_scheme, 'v) v4l_scheme \<Rightarrow> fp_action
   \<Rightarrow> ('z tty_host_scheme, cli_end, unit) act" where
  "fingerprint_cmd C V a = (case a of
      FpStatus user \<Rightarrow> abind (the_user user) (fingerprint_status C V)
    | FpEnable user \<Rightarrow> abind (the_user user) (fingerprint_enable C)
    | FpDisable user \<Rightarrow> abind (the_user user) (fingerprint_disable C)
    | FpAdd name user \<Rightarrow> abind (the_user user) (fingerprint_add C name))"

definition secureboot_cmd ::
  "('z tty_host_scheme, 'y) console_scheme \<Rightarrow> sb_action \<Rightarrow> ('z tty_host_scheme, cli_end, unit) act" where
  "secureboot_cmd C a = (case a of
      SbStatus \<Rightarrow> secureboot_status C
    | SbSetup no_microsoft \<Rightarrow> secureboot_setup C (\<not> no_microsoft)
    | SbSign paths \<Rightarrow> secureboot_sign C paths
    | SbVerify \<Rightarrow> secureboot_verify C
    | SbList \<Rightarrow> secureboot_list C)"

definition pam_cmd ::
  "('z tty_host_scheme, 'y) console_scheme \<Rightarrow> pam_action \<Rightarrow> ('z tty_host_scheme, cli_end, unit) act" where
  "pam_cmd C a = (case a of
      PamStatusA \<Rightarrow> pam_status_cmd
    | PamEnableA with_sudo dry_run \<Rightarrow> pam_enable_cmd C with_sudo dry_run
    | PamDisableA dry_run \<Rightarrow> pam_disable_cmd C dry_run)"

definition selinux_cmd ::
  "('z tty_host_scheme, 'y) console_scheme \<Rightarrow> selinux_action \<Rightarrow> ('z tty_host_scheme, cli_end, unit) act" where
  "selinux_cmd C a = (case a of
      SelinuxStatusA \<Rightarrow> selinux_status_cmd C
    | SelinuxInstallA dry_run from_path \<Rightarrow> selinux_install_cmd C dry_run from_path
    | SelinuxUninstallA dry_run \<Rightarrow> selinux_uninstall_cmd C dry_run)"

definition reseal_hook_cmd ::
  "('z tty_host_scheme, 'y) console_scheme \<Rightarrow> hook_action \<Rightarrow> ('z tty_host_scheme, cli_end, unit) act" where
  "reseal_hook_cmd C a = (case a of
      HookStatusA \<Rightarrow> reseal_hook_status_cmd
    | HookInstallA dry_run \<Rightarrow> reseal_hook_install_cmd C dry_run
    | HookUninstallA dry_run \<Rightarrow> reseal_hook_uninstall_cmd C dry_run)"

definition tui_cmd ::
  "('z tty_host_scheme, 'y) console_scheme \<Rightarrow> ('z tty_host_scheme) frontend \<Rightarrow> ('z tty_host_scheme, cli_end, unit) act" where
  "tui_cmd C F =
     abind (require_root C ''tui'') (\<lambda>_.
     abind (query current_user) (\<lambda>u. fe_tui F (unwrap_or [] (res_ok u))))"

text \<open>The commands that end whatever the daemon does: all but the framing guide.\<close>

definition run_command ::
  "('z tty_host_scheme, 'y) console_scheme \<Rightarrow> ('z tty_host_scheme, 'v) v4l_scheme \<Rightarrow> ('z tty_host_scheme) frontend
   \<Rightarrow> cmd \<Rightarrow> ('z tty_host_scheme, cli_end, unit) act" where
  "run_command C V F c = (case c of
      CUpdate \<Rightarrow> update_cmd C (fe_upper F)
    | CSetup \<Rightarrow> run_setup C V
    | CDetect \<Rightarrow> detect_cmd C
    | CUninstall keep_models yes \<Rightarrow> uninstall_cmd C (\<not> keep_models) yes
    | CProfiles \<Rightarrow> profiles_cmd C
    | CIdentify \<Rightarrow> identify_cmd C
    | CProfileName user name \<Rightarrow> profile_name_cmd C user name
    | CForgetProfile user yes \<Rightarrow> forget_profile_cmd C user yes
    | CStatus \<Rightarrow> status_cmd C
    | CEnroll user reset samples name \<Rightarrow> enroll_cmd C user reset samples name
    | CVerify user \<Rightarrow> verify_cmd C user
    | CTest user \<Rightarrow> test_cmd C user
    | CSealPassword user \<Rightarrow> seal_password_cmd C user
    | CFingerprint a \<Rightarrow> fingerprint_cmd C V a
    | CSetRecovery user \<Rightarrow> set_recovery_cmd C user
    | CRecover user \<Rightarrow> recover_cmd C user
    | CReseal \<Rightarrow> reseal_cmd C
    | CSecureboot a \<Rightarrow> secureboot_cmd C a
    | CLivenessTest \<Rightarrow> liveness_test_cmd C (fe_upper F)
    | CResealUserEnvelopes user \<Rightarrow> reseal_envelopes_cmd C user
    | CBenchmark user runs interval \<Rightarrow> fe_benchmark F user runs interval
    | CDiag \<Rightarrow> diag_cmd C
    | CDoctor \<Rightarrow> doctor_cmd C
    | CPosition _ \<Rightarrow> position_once C
    | CTui \<Rightarrow> tui_cmd C F
    | CUpdateCheck \<Rightarrow> update_check_cmd C
    | CPam a \<Rightarrow> pam_cmd C a
    | CSelinux a \<Rightarrow> selinux_cmd C a
    | CResealHook a \<Rightarrow> reseal_hook_cmd C a
    | CDeps only \<Rightarrow> deps_cmd only
    | CFetchModels force \<Rightarrow> fetch_models_cmd C force
    | CFetchOnnx force \<Rightarrow> fetch_onnx_cmd C (fe_arch F) force
    | CPackage format inst \<Rightarrow> package_cmd C format inst)"

definition main_cli ::
  "('z tty_host_scheme, 'y) console_scheme \<Rightarrow> ('z tty_host_scheme, 'v) v4l_scheme \<Rightarrow> ('z tty_host_scheme) frontend
   \<Rightarrow> cmd \<Rightarrow> 'z tty_host_scheme \<Rightarrow> ((cli_end, unit) outcome \<times> 'z tty_host_scheme) option" where
  "main_cli C V F c w = (case c of CPosition once \<Rightarrow> run_position C once w | _ \<Rightarrow> Some (run_command C V F c w))"

end
