(* ===== verification/CliSpec.thy ===== *)
theory CliSpec
  imports Cli PamProps
begin

text \<open>
  Properties of the command line: the cameras chosen are recorded and found again, a cached device
  is never older than its lifetime, an enrollment replaces the old samples at most once and only for
  a new one, a deletion needs consent, the calibrated threshold stays in its interval, the framing
  guide ends, the commands that need root refuse without it, and secrets are sent as typed.
\<close>

section \<open>Rounding gives a number\<close>

lemma decode_round_pos: "0 < q \<Longrightarrow> decode (round_pos neg q) \<noteq> FNan"
proof -
  assume q: "0 < q"
  define e where "e = max (log2_floor q) (- 126)"
  define bits where "bits = (e + 126) * 2 ^ 23 + round_even (q * pow2 (23 - e))"
  have b0: "0 \<le> bits"
    unfolding bits_def using q pow2_pos [of "23 - e"]
    by (intro add_nonneg_nonneg [OF mult_nonneg_nonneg round_even_nonneg]) (auto simp: e_def)
  have r: "round_pos neg q = (if 255 * 2 ^ 23 \<le> bits then f_inf neg else word_of_int ((if neg then 2 ^ 31 else 0) + bits))"
    by (simp only: round_pos_def e_def bits_def Let_def)
  show ?thesis
  proof (cases "255 * 2 ^ 23 \<le> bits")
    case False
    then have u: "uint (word_of_int ((if neg then 2 ^ 31 else 0) + bits) :: f32) = (if neg then 2 ^ 31 else 0) + bits"
      using b0 by (intro uint_of_int_f32) auto
    have "bits div 2 ^ 23 < 255" using False by (simp add: div_less_iff_less_mult)
    moreover have "0 \<le> bits div 2 ^ 23" using b0 by simp
    ultimately have small: "bits div 2 ^ 23 mod 256 \<noteq> 255" by (simp add: mod_pos_pos_trivial)
    have "(2 ^ 31 + bits) div 2 ^ 23 = bits div 2 ^ 23 + 256"
      using div_mult_self1 [of "2 ^ 23" bits "256 :: int"] by (simp add: add.commute)
    then have "((if neg then 2 ^ 31 else 0) + bits) div 2 ^ 23 mod 256 = bits div 2 ^ 23 mod 256" by simp
    then have "f_expo (round_pos neg q) \<noteq> 255"
      unfolding f_expo_def using False u small by (simp only: r if_False) simp
    then show ?thesis by (simp add: decode_def)
  next
    case True
    then have "round_pos neg q = f_inf neg" by (simp only: r if_True)
    then show ?thesis by (cases neg) (simp_all add: decode_f_inf)
  qed
qed

lemma decode_zero: "decode (f_zero s) \<noteq> FNan"
proof -
  have "decode (f_zero True) \<noteq> FNan" and "decode (f_zero False) \<noteq> FNan" by code_simp+
  then show ?thesis by (cases s) auto
qed

lemma f_round_number [simp]: "\<not> f_is_nan (f_round s q)"
  using decode_round_pos [of q False] decode_round_pos [of "- q" True] decode_zero [of s]
  by (auto simp: f_is_nan_def f_round_def)

section \<open>The calibrated threshold\<close>

lemma margin_finite: "\<exists>x. decode (f_neg (f_lit 0.05)) = FNum x"
proof -
  have "f_expo (f_lit 0.05) = 122" by code_simp
  then have "f_expo (f_neg (f_lit 0.05)) = 122" by (simp only: f_neg_fields)
  then show ?thesis by (simp add: decode_def)
qed

lemma f_sub_margin: "\<not> f_is_nan a \<Longrightarrow> \<not> f_is_nan (f_sub a (f_lit 0.05))"
  using margin_finite by (cases "decode a") (auto simp: f_sub_def f_add_def f_is_nan_def simp flip: f_is_nan_def)

lemma f_min_number: "\<not> f_is_nan a \<Longrightarrow> \<not> f_is_nan (f_min a b)"
  by (simp add: f_min_def)

lemma f_min_le: "\<not> f_is_nan a \<Longrightarrow> f_le (f_min a b) a \<and> (f_is_nan b \<or> f_le (f_min a b) b)"
  by (auto simp: f_min_def f_le_iff dest: f_lt_asym)

lemma foldl_f_min:
  "\<not> f_is_nan a \<Longrightarrow> \<not> f_is_nan (foldl f_min a xs) \<and> f_le (foldl f_min a xs) a \<and>
     (\<forall>x\<in>set xs. f_is_nan x \<or> f_le (foldl f_min a xs) x)"
proof (induction xs arbitrary: a)
  case (Cons x xs)
  from Cons.IH [OF f_min_number [OF Cons.prems], of x] f_min_le [OF Cons.prems, of x]
  show ?case by (auto intro: f_le_trans)
qed (simp add: f_le_refl)

lemma weakest_number: "\<not> f_is_nan (weakest scores)"
  and weakest_le: "s \<in> set scores \<Longrightarrow> f_is_nan s \<or> f_le (weakest scores) s"
proof -
  have "\<not> f_is_nan (f_inf False)" by (simp add: f_is_nan_def decode_f_inf)
  from foldl_f_min [OF this, of scores]
  show "\<not> f_is_nan (weakest scores)" "s \<in> set scores \<Longrightarrow> f_is_nan s \<or> f_le (weakest scores) s"
    by (auto simp: weakest_def)
qed

lemma threshold_intervals: "f_le (f_lit 0.45) (f_lit 0.75)" "f_le (f_lit 0.30) (f_lit 0.95)"
  by code_simp+

lemma f_clamp_le: "f_le lo a \<Longrightarrow> f_le (f_clamp a lo hi) a"
  by (auto simp: f_clamp_def Let_def f_le_iff dest: f_lt_asym f_lt_not_nan)

lemma f_clamp_low_or_le: "f_le lo hi \<Longrightarrow> \<not> f_is_nan a \<Longrightarrow> f_clamp a lo hi = lo \<or> f_le (f_clamp a lo hi) a"
  by (auto simp: f_clamp_def Let_def f_le_iff dest: f_lt_asym f_lt_not_nan)

lemma f_clamp_nan_or_in: "f_le lo hi \<Longrightarrow> f_is_nan (f_clamp a lo hi) \<or> f_in lo hi (f_clamp a lo hi)"
proof (cases "f_is_nan a")
  case True
  then have "f_clamp a lo hi = a" by (auto simp: f_clamp_def Let_def dest: f_lt_not_nan)
  then show ?thesis using True by simp
qed (simp add: f_clamp_in)


text \<open>
  The threshold the calibration recommends lies in [0.45, 0.75] whatever the measured scores;
  unless it is the lower end it is at most the weakest score less the margin, and the weakest is
  below every score. What is saved is the recommendation or what the user typed, kept in [0.30, 0.95]
  unless it is no number.
\<close>

theorem calibration_bounds:
  "f_in (f_lit 0.45) (f_lit 0.75) (recommended_threshold scores) \<and>
   (recommended_threshold scores = f_lit 0.45 \<or>
      f_le (recommended_threshold scores) (f_sub (weakest scores) (f_lit 0.05))) \<and>
   list_all (\<lambda>s. f_is_nan s \<or> f_le (weakest scores) s) scores \<and>
   (let v = fst (chosen_threshold (recommended_threshold scores) ans) in
      v = recommended_threshold scores \<or> f_is_nan v \<or> f_in (f_lit 0.30) (f_lit 0.95) v)"
proof (intro conjI)
  have n: "\<not> f_is_nan (f_sub (weakest scores) (f_lit 0.05))" by (intro f_sub_margin weakest_number)
  then show "f_in (f_lit 0.45) (f_lit 0.75) (recommended_threshold scores)"
    unfolding recommended_threshold_def by (rule f_clamp_in [OF _ threshold_intervals(1)])
  show "recommended_threshold scores = f_lit 0.45 \<or>
      f_le (recommended_threshold scores) (f_sub (weakest scores) (f_lit 0.05))"
    unfolding recommended_threshold_def using n by (rule f_clamp_low_or_le [OF threshold_intervals(1)])
  show "list_all (\<lambda>s. f_is_nan s \<or> f_le (weakest scores) s) scores"
    by (auto simp: list_all_iff dest: weakest_le)
  show "let v = fst (chosen_threshold (recommended_threshold scores) ans) in
      v = recommended_threshold scores \<or> f_is_nan v \<or> f_in (f_lit 0.30) (f_lit 0.95) v"
    using f_clamp_nan_or_in [OF threshold_intervals(2)] by (auto simp: chosen_threshold_def Let_def split: option.split)
qed

section \<open>Cameras\<close>

text \<open>The lookups of a process over time, each at an instant and in the host of that instant.\<close>

fun lookups :: "(nat \<Rightarrow> (nat \<times> 'a) option \<Rightarrow> 'w \<Rightarrow> 'a \<times> (nat \<times> 'a) option) \<Rightarrow> (nat \<times> 'a) option
    \<Rightarrow> (nat \<times> 'w) list \<Rightarrow> 'a list" where
  "lookups look c [] = []"
| "lookups look c ((now, w) # es) = (let (v, c1) = look now c w in v # lookups look c1 es)"

text \<open>What a fresh look would have found at some earlier instant less than the lifetime ago.\<close>

definition recent :: "('w \<Rightarrow> 'a) \<Rightarrow> (nat \<times> 'w) list \<Rightarrow> nat \<Rightarrow> 'a \<Rightarrow> bool" where
  "recent fresh es i v \<longleftrightarrow> (\<exists>j\<le>i. v = fresh (snd (es ! j)) \<and> fst (es ! i) < fst (es ! j) + resolve_ttl)"

lemma lookups_recent:
  fixes fresh :: "'w \<Rightarrow> 'a"
  assumes "sorted (map fst es)" and "i < length es"
    and "\<And>t v. c = Some (t, v) \<Longrightarrow> t \<le> fst (hd es)"
  defines "r \<equiv> lookups (\<lambda>now c w. cached now c (fresh w)) c es ! i"
  shows "recent fresh es i r \<or> (\<exists>t. c = Some (t, r) \<and> fst (es ! i) < t + resolve_ttl)"
  using assms(1-3) unfolding r_def
proof (induction es arbitrary: c i)
  case (Cons e es)
  obtain now w where e: "e = (now, w)" by (cases e)
  obtain v c1 where c1: "cached now c (fresh w) = (v, c1)" by (cases "cached now c (fresh w)")
  have c1cases: "c1 = c \<or> c1 = Some (now, fresh w)"
    using c1 by (cases c) (auto simp: cached_def opt_filter_def split: if_splits)
  let ?look = "\<lambda>now c w. cached now c (fresh w)"
  show ?case
  proof (cases i)
    case 0
    then show ?thesis using Cons.prems(3)
      by (cases c) (auto simp: e cached_def opt_filter_def recent_def resolve_ttl_def Let_def)
  next
    case (Suc k)
    have older: "t \<le> fst (hd es)" if "c1 = Some (t, v)" for t v
      using that c1cases Cons.prems e Suc by (cases es) fastforce+
    have ih: "recent fresh es k (lookups ?look c1 es ! k) \<or>
      (\<exists>t. c1 = Some (t, lookups ?look c1 es ! k) \<and> fst (es ! k) < t + resolve_ttl)"
      using Cons.prems Suc older by (intro Cons.IH) auto
    have eq: "lookups ?look c (e # es) ! i = lookups ?look c1 es ! k" by (simp add: e c1 Suc)
    have "recent fresh (e # es) i x" if "recent fresh es k x" for x
      using that Suc by (fastforce simp: recent_def intro: exI [of _ "Suc _"])
    moreover have "recent fresh (e # es) i (fresh w)" if "fst (es ! k) < now + resolve_ttl"
      using that Suc e by (auto simp: recent_def intro: exI [of _ 0])
    ultimately show ?thesis using ih c1cases Suc e unfolding eq by auto
  qed
qed simp

text \<open>
  The cached device lookups of the capture path refine fresh ones with a bounded delay: over any
  sequence of lookups in time, each returns what resolving the device afresh gave at some lookup less
  than two seconds before.
\<close>

theorem device_lookup_fresh:
  assumes "sorted (map fst es)" and "i < length es"
  shows "recent (resolve_rgb V) es i (lookups (rgb_device_at V) None es ! i) \<and>
    recent (resolve_ir V) es i (lookups (ir_device_at V) None es ! i)"
  using lookups_recent [OF assms, of None "resolve_rgb V"] lookups_recent [OF assms, of None "resolve_ir V"]
  by (simp add: rgb_device_at_def [abs_def] ir_device_at_def [abs_def])

lemma device_lookup_fresh_witness:
  "\<forall>V w w'. recent (resolve_rgb V) [(5, w), (1000, w')] 1 (lookups (rgb_device_at V) None [(5, w), (1000, w')] ! 1)"
proof (intro allI)
  fix V :: "('z host_scheme, 'y) v4l_scheme" and w w' :: "'z host_scheme"
  show "recent (resolve_rgb V) [(5, w), (1000, w')] 1 (lookups (rgb_device_at V) None [(5, w), (1000, w')] ! 1)"
    using device_lookup_fresh [of "[(5, w), (1000, w')]" 1 V] by simp
qed


lemma write_kv_env: "write_kv file key val w = (Ok (), w') \<Longrightarrow> env_vars w' = env_vars w"
  by (auto simp: write_kv_def Let_def abind_result io_act_result dest!: fs_write_result fs_set_permissions_result)

lemma write_cameras_conf_steps:
  assumes "write_cameras_conf rgb ir w = (Ok (), w')"
  shows "\<exists>v. write_kv ''cameras.conf'' ''rgb'' rgb w = (Ok (), v) \<and>
    (case ir of None \<Rightarrow> w' = v | Some p \<Rightarrow> write_kv ''cameras.conf'' ''ir'' p v = (Ok (), w'))"
  using assms by (auto simp: write_cameras_conf_def Let_def abind_result amap_err_result split: option.splits)

lemma camera_keys: "good_key ''rgb''" "good_key ''ir''" "utf8_valid ''rgb''" "utf8_valid ''ir''"
  by code_simp+

text \<open>
  The cameras the wizard records are the ones read back: after a successful write the colour
  device is the recorded one, whatever else is detected, unless the environment names another. With
  no infrared camera chosen the infrared entry stays as it was, so an earlier pin is still used.
\<close>

theorem cameras_recorded:
  assumes "write_cameras_conf rgb ir w = (Ok (), w')"
    and "kv_text (conf_text ''cameras.conf'' w)" and "io_fault w OpRead (config_path ''cameras.conf'') = None"
    and "\<forall>p\<in>{rgb} \<union> set_option ir. good_value p \<and> utf8_valid p"
  shows "conf_device ''rgb'' w' = Some rgb \<and>
    conf_device ''ir'' w' = (case ir of Some p \<Rightarrow> Some p | None \<Rightarrow> conf_device ''ir'' w) \<and>
    (env_device ''LINHELLO_RGB_DEVICE'' w = None \<longrightarrow> resolve_rgb V w' = rgb)"
proof -
  obtain v where v: "write_kv ''cameras.conf'' ''rgb'' rgb w = (Ok (), v)"
    and n: "case ir of None \<Rightarrow> w' = v | Some p \<Rightarrow> write_kv ''cameras.conf'' ''ir'' p v = (Ok (), w')"
    using write_cameras_conf_steps [OF assms(1)] by blast
  have r: "read_kv ''cameras.conf'' k v = (if k = ''rgb'' then Some rgb else read_kv ''cameras.conf'' k w)" for k
    using assms v camera_keys by (intro read_write_kv) auto
  have t: "kv_text (conf_text ''cameras.conf'' v)" "io_fault v = io_fault w"
    using conf_text_write [OF v] assms camera_keys by (auto intro: kv_text_update)
  have i: "read_kv ''cameras.conf'' k w' = (if k = ''ir'' then Some p else read_kv ''cameras.conf'' k v)" if "ir = Some p" for k p
    using assms n t camera_keys that by (intro read_write_kv) auto
  have "env_vars w' = env_vars w"
    using write_kv_env [OF v] n by (cases ir) (auto dest: write_kv_env)
  then have "env_device x w' = env_device x w" for x by (simp add: env_device_def)
  then show ?thesis
    using n r i by (cases ir) (auto simp: conf_device_def resolve_rgb_def)
qed


section \<open>Enrollment and deletion\<close>



lemma put_run: "put s w = (Ok (), w\<lparr>tty_out := tty_out w @ s\<rparr>)"
  by (simp add: put_def)

lemma say_run: "say s w = (Ok (), w\<lparr>tty_out := tty_out w @ s @ [nl]\<rparr>)"
  by (simp add: say_def put_run)

lemma say_all_run: "say_all ls w = (Ok (), w\<lparr>tty_out := tty_out w @ concat (map (\<lambda>l. l @ [nl]) ls)\<rparr>)"
  by (induction ls arbitrary: w) (simp_all add: abind_def say_run)

lemma say_bind:
  "abind (put s) f w = f () (w\<lparr>tty_out := tty_out w @ s\<rparr>)"
  "abind (say s) f w = f () (w\<lparr>tty_out := tty_out w @ s @ [nl]\<rparr>)"
  "abind (say_all ls) f w = f () (w\<lparr>tty_out := tty_out w @ concat (map (\<lambda>l. l @ [nl]) ls)\<rparr>)"
  by (simp_all add: abind_def put_run say_run say_all_run)




text \<open>A terminal and a daemon for the examples: the daemon counts the samples it stores.\<close>

record demo_tty = tty_host + demo_count :: nat

fun demo_answer :: "request \<Rightarrow> (demo_tty, string, response) act" where
  "demo_answer (REnroll u reset) w =
     (let n = (if reset then 1 else demo_count w + 1) in (Ok (SEnrolled n), w\<lparr>demo_count := n\<rparr>))"
| "demo_answer (RDeleteProfile u) w = (Ok (SProfileDeleted u (demo_count w)), w\<lparr>demo_count := 0\<rparr>)"
| "demo_answer RListProfiles w =
     (Ok (SProfiles [\<lparr>pi_user = ''al'', pi_name = None, pi_samples = demo_count w, pi_has_password = False\<rparr>]), w)"
| "demo_answer RPositionSample w =
     (Ok (SPosition \<lparr>pr_face_count = 1, pr_frame_w = 640, pr_frame_h = 480, pr_bbox = None, pr_face_frac = None,
        pr_yaw_deg = None, pr_pitch_deg = None, pr_brightness = None, pr_sharpness = None, pr_quality = 90,
        pr_ir_present = False, pr_ir_brightness = None, pr_ir_face_bg = None, pr_low_light = False,
        pr_well_framed = True, pr_guidance = ''Hold still''\<rparr>), w)"
| "demo_answer _ w = (Ok (SError ''no''), w)"

definition demo_console :: "demo_tty console" where
  "demo_console = \<lparr>cmd_output = (\<lambda>_ _. ret (True, [], [])), clock = (\<lambda>_. 0),
     exec_in = (\<lambda>_ _ _ _. ret (True, [], [])), list_dir = (\<lambda>_ _. None), file_uid = (\<lambda>_ _. None),
     make_symlink = (\<lambda>_ _. ret ()), chown_uid = (\<lambda>_ _. ret ()), current_exe = None, euid = 1000, pid = 7,
     daemon_send = demo_answer, real_uid = 1000, show_response = (\<lambda>_. []), status_text = (\<lambda>_. ''1''),
     hook_template = (\<lambda>_. [])\<rparr>"

definition demo_terminal :: "string list \<Rightarrow> string list \<Rightarrow> nat \<Rightarrow> demo_tty" where
  "demo_terminal typed secrets n = \<lparr>files = (\<lambda>_. None), modes = (\<lambda>_. None), dirs = [''/etc/linhello''], new_mode = 420,
     io_fault = (\<lambda>_ _. None), env_vars = (\<lambda>_. None), links = (\<lambda>_. None), realpath = (\<lambda>_. None), draws = 0,
     tty_in = map Inr typed, tty_secrets = map Inr secrets, tty_out = [], demo_count = n\<rparr>"

lemma demo_terminal_simps [simp]:
  "demo_count (demo_terminal typed secrets n) = n" "tty_in (demo_terminal typed secrets n) = map Inr typed"
  "tty_secrets (demo_terminal typed secrets n) = map Inr secrets"
  by (simp_all add: demo_terminal_def)


text \<open>The recorded cameras at a host with an empty configuration.\<close>

lemma cameras_recorded_witness:
  "\<forall>V. \<exists>w1. write_cameras_conf ''/dev/video3'' None (demo_terminal [] [] 0) = (Ok (), w1) \<and> resolve_rgb V w1 = ''/dev/video3''"
proof
  fix V :: "(demo_tty, 'v) v4l_scheme"
  let ?w = "demo_terminal [] [] 0" and ?p = "''/etc/linhello/cameras.conf''"
  have p: "config_path ''cameras.conf'' = ?p"
    by (simp add: config_path_def path_join_def starts_with_def config_root_def)
  have w: "files ?w = (\<lambda>_. None)" "dirs ?w = [''/etc/linhello'']" "io_fault ?w = (\<lambda>_ _. None)" "env_vars ?w = (\<lambda>_. None)"
    by (simp_all add: demo_terminal_def)
  have parent_p: "parent ?p = Some ''/etc/linhello''" by (simp add: parent_def)
  have "\<exists>w1. write_kv ''cameras.conf'' ''rgb'' ''/dev/video3'' ?w = (Ok (), w1)"
    using parent_p by (simp add: write_kv_def p w abind_def io_act_def amap_err_def fs_write_def fs_set_permissions_def Let_def)
  then obtain w1 where r: "write_cameras_conf ''/dev/video3'' None ?w = (Ok (), w1)"
    by (auto simp: write_cameras_conf_def abind_def amap_err_def Let_def)
  have "conf_text ''cameras.conf'' ?w = []"
    by (simp add: conf_text_def fs_read_to_string_def fs_read_def w rbind_def res_ok_def unwrap_or_def)
  moreover have "good_value ''/dev/video3''" "utf8_valid ''/dev/video3''" by code_simp+
  ultimately have "resolve_rgb V w1 = ''/dev/video3''"
    using cameras_recorded [OF r, of V] by (simp add: w kv_text_def env_device_def opt_filter_def)
  then show "\<exists>w1. write_cameras_conf ''/dev/video3'' None ?w = (Ok (), w1) \<and> resolve_rgb V w1 = ''/dev/video3''"
    using r by blast
qed






text \<open>What holds of the host and stays so: the frame of a command that is sent nothing else.\<close>

interpretation holds: frame "\<lambda>v w. I v \<longrightarrow> I w"
  by unfold_locales auto

definition untouched_by_terminal :: "('z tty_host_scheme \<Rightarrow> bool) \<Rightarrow> bool" where
  "untouched_by_terminal I \<longleftrightarrow> (\<forall>w s l. I w \<longrightarrow> I (w\<lparr>tty_out := s\<rparr>) \<and> I (w\<lparr>tty_in := l\<rparr>))"

lemma holds_terminal:
  assumes "untouched_by_terminal I"
  shows "holds.keeps I (put s)" "holds.keeps I (say s)" "holds.keeps I (say_all ls)" "holds.keeps I read_stdin"
  using assms by (auto simp: holds.keeps_def untouched_by_terminal_def put_run say_run say_all_run read_stdin_def
    split: list.splits sum.splits)

lemma holds_answer: "holds.keeps I (answer C pick r)"
  unfolding answer_def by (cases r) (auto intro!: holds.keeps_intros split: option.split)

lemma holds_expect: "holds.keeps I (daemon_send C req) \<Longrightarrow> holds.keeps I (expect C req pick)"
  unfolding expect_def send_def by (intro holds.keeps_intros holds_answer)

text \<open>What was typed at the question.\<close>

definition typed_line :: "'z tty_host_scheme \<Rightarrow> string" where
  "typed_line w = (case tty_in w of Inr l # _ \<Rightarrow> l | _ \<Rightarrow> [])"

lemma consents_run:
  "consents False question w = (Ok (is_yes (to_ascii_lowercase (trim (typed_line w)))),
     w\<lparr>tty_out := tty_out w @ question, tty_in := tl (tty_in w)\<rparr>)"
  unfolding consents_def if_False say_bind
  by (cases "tty_in w") (auto simp: abind_def try_act_def read_stdin_def typed_line_def res_ok_def unwrap_or_def split: sum.split)

text \<open>
  Deleting a profile needs consent: unless the command line says yes or the line typed at the
  question is a yes, nothing but the list of profiles is requested, so whatever the other requests
  and the terminal leave true is still true.
\<close>

theorem deletion_needs_consent:
  assumes "\<And>req. (\<forall>u. req \<noteq> RDeleteProfile u) \<Longrightarrow> holds.keeps I (daemon_send C req)"
    and "untouched_by_terminal I" and "\<And>req w. tty_in (snd (daemon_send C req w)) = tty_in w"
    and "\<not> is_yes (to_ascii_lowercase (trim (typed_line w)))" and "I w"
  shows "I (snd (forget_profile_cmd C u False w))"
proof -
  obtain r v where e: "expect C RListProfiles pick_profiles w = (r, v)" by (cases "expect C RListProfiles pick_profiles w")
  have "holds.keeps I (expect C RListProfiles pick_profiles)" by (intro holds_expect assms(1)) simp
  then have v: "I v" using holds.keepsD [of I _ w] e assms(5) by force
  have "tty_in (snd (answer C pick x y)) = tty_in y"
    for pick :: "response \<Rightarrow> profile_info list option" and x y
    by (auto simp: answer_def split: option.splits response.splits)
  then have t: "tty_in v = tty_in w"
    using e assms(3) [of RListProfiles w]
    by (auto simp: expect_def send_def abind_eq amap_err_def split: outcome.splits prod.splits dest!: arg_cong [of _ _ snd])
  have q: "\<exists>x. (consents False question v :: (cli_end, bool) outcome \<times> _) = (Ok False, x) \<and> I x" for question
    using assms(2,4) v t by (simp add: consents_run untouched_by_terminal_def typed_line_def)
  show ?thesis
  proof (cases "\<exists>ps p. r = Ok ps \<and> find (\<lambda>p. pi_user p = u) ps = Some p")
    case True
    then obtain ps p where p: "r = Ok ps" "find (\<lambda>p. pi_user p = u) ps = Some p" by blast
    obtain x where x: "(consents False (forget_prompt p) v :: (cli_end, bool) outcome \<times> _) = (Ok False, x)" "I x" using q by blast
    then have "snd (forget_profile_cmd C u False w) = snd (say (''cancelled '' @ em_dash @ '' nothing deleted.'') x :: (cli_end, unit) outcome \<times> _)"
      by (simp add: forget_profile_cmd_def abind_def e p del: append.simps)
    then show ?thesis using x(2) assms(2) by (simp add: say_run untouched_by_terminal_def)
  next
    case False
    then show ?thesis using v
      by (cases r) (auto simp: forget_profile_cmd_def abind_def e split: option.split)
  qed
qed

lemma demo_answer_keeps:
  "tty_in (snd (demo_answer req w)) = tty_in w"
  "(\<forall>u. req \<noteq> RDeleteProfile u) \<Longrightarrow> 0 < demo_count w \<Longrightarrow> 0 < demo_count (snd (demo_answer req w))"
  by (cases req; simp add: Let_def)+

lemma deletion_needs_consent_witness:
  "0 < demo_count (snd (forget_profile_cmd demo_console ''al'' False (demo_terminal [''no''] [] 9)))"
proof (rule deletion_needs_consent [of "\<lambda>w. 0 < demo_count w" demo_console])
  have "\<not> is_yes (to_ascii_lowercase (trim ''no''))" by code_simp
  then show "\<not> is_yes (to_ascii_lowercase (trim (typed_line (demo_terminal [''no''] [] 9))))"
    by (simp add: typed_line_def)
qed (simp_all add: untouched_by_terminal_def demo_answer_keeps holds.keeps_def demo_console_def)

section \<open>The framing guide\<close>

text \<open>The polls of the guide as a relation between streaks and hosts.\<close>

inductive polls :: "('z tty_host_scheme, 'y) console_scheme \<Rightarrow> nat \<times> 'z tty_host_scheme \<Rightarrow> nat \<times> 'z tty_host_scheme \<Rightarrow> bool"
  for C where
  here: "polls C e e"
| again: "position_poll C n v = (Again m, x) \<Longrightarrow> polls C (m, x) e \<Longrightarrow> polls C (n, v) e"

inductive_cases pollsE: "polls C (n, v) e"

lemma position_loop_polls:
  assumes "position_loop C n w = Some z"
  shows "\<exists>m v. polls C (n, w) (m, v) \<and> position_poll C m v = (Stop (fst z), snd z)"
proof (rule position_loop.raw_induct [where P = "\<lambda>C n w z. \<exists>m v. polls C (n, w) (m, v) \<and>
    position_poll C m v = (Stop (fst z), snd z)", OF _ assms], goal_cases)
  case (1 f C n w z)
  obtain p x where p: "position_poll C n w = (p, x)" by (cases "position_poll C n w")
  show ?case
  proof (cases p)
    case (Again m)
    then have "f C m x = Some z" using 1(2) p by simp
    from 1(1) [OF this] show ?thesis using again p Again by blast
  next
    case (Stop r)
    then have "z = (r, x)" using 1(2) p by simp
    then show ?thesis using here [of C "(n, w)"] p Stop by auto
  qed
qed

lemma polls_position_loop:
  "polls C e e1 \<Longrightarrow> position_poll C (fst e1) (snd e1) = (Stop r, w1) \<Longrightarrow> position_loop C (fst e) (snd e) = Some (r, w1)"
proof (induction rule: polls.induct)
  case (here e)
  then show ?case by (subst position_loop.simps) simp
next
  case (again n v m x e)
  then show ?case by (subst position_loop.simps) simp
qed

text \<open>
  The loop of the framing guide returns a result exactly when some sequence of polls leads to a
  poll that stops with it; otherwise it runs on, which is what it is documented to do until it is
  interrupted.
\<close>

theorem position_loop_exact:
  "position_loop C n w = Some (r, w1) \<longleftrightarrow> (\<exists>m v. polls C (n, w) (m, v) \<and> position_poll C m v = (Stop r, w1))"
proof
  show "position_loop C n w = Some (r, w1) \<Longrightarrow> \<exists>m v. polls C (n, w) (m, v) \<and> position_poll C m v = (Stop r, w1)"
    using position_loop_polls [of C n w "(r, w1)"] by simp
next
  assume "\<exists>m v. polls C (n, w) (m, v) \<and> position_poll C m v = (Stop r, w1)"
  then obtain m v where "polls C (n, w) (m, v)" "position_poll C m v = (Stop r, w1)" by blast
  then show "position_loop C n w = Some (r, w1)" using polls_position_loop [of C "(n, w)" "(m, v)"] by simp
qed

text \<open>The next polls all report a well framed face.\<close>

fun steady :: "('z tty_host_scheme, 'y) console_scheme \<Rightarrow> nat \<Rightarrow> 'z tty_host_scheme \<Rightarrow> bool" where
  "steady C 0 w = True"
| "steady C (Suc k) w = (case daemon_send C RPositionSample w of
      (Ok (SPosition rep), w1) \<Rightarrow> pr_well_framed rep \<and> steady C k (w1\<lparr>tty_out := tty_out w1 @ cr # render_position rep\<rparr>)
    | _ \<Rightarrow> False)"

lemma poll_steady:
  assumes "steady C (Suc k) v"
  shows "\<exists>x. (if 4 \<le> n then position_poll C n v = (Stop (Ok ()), x) else position_poll C n v = (Again (n + 1), x) \<and> steady C k x)"
proof -
  obtain rep w1 where d: "daemon_send C RPositionSample v = (Ok (SPosition rep), w1)" "pr_well_framed rep"
    "steady C k (w1\<lparr>tty_out := tty_out w1 @ cr # render_position rep\<rparr>)"
    using assms by (auto split: prod.splits outcome.splits response.splits)
  then have "try_act (send C RPositionSample) v = (Ok (Inr (SPosition rep)) :: (cli_end, _) outcome, w1)"
    by (simp add: try_act_def send_def amap_err_def)
  then show ?thesis
    using d by (auto simp: position_poll_def Let_def put_run)
qed

lemma steady_ends: "steady C (5 - n) v \<Longrightarrow> n < 5 \<Longrightarrow> \<exists>m x w1. polls C (n, v) (m, x) \<and> position_poll C m x = (Stop (Ok ()), w1)"
proof (induction "4 - n" arbitrary: n v)
  case 0
  then have "n = 4" by simp
  with 0 poll_steady [of C 0 v 4] show ?case by (auto intro: here)
next
  case (Suc k)
  then have "n < 4" "5 - n = Suc (4 - n)" by simp_all
  with Suc.prems(1) have "steady C (Suc (4 - n)) v" by (simp only:)
  from poll_steady [OF this, of n] \<open>n < 4\<close> obtain x where x: "position_poll C n v = (Again (n + 1), x)" "steady C (4 - n) x" by auto
  have "\<exists>m y w1. polls C (n + 1, x) (m, y) \<and> position_poll C m y = (Stop (Ok ()), w1)"
    using Suc.hyps(2) x(2) \<open>n < 4\<close> by (intro Suc.hyps(1)) auto
  then show ?case using again [OF x(1)] by blast
qed

lemma steady_less: "steady C k w \<Longrightarrow> j \<le> k \<Longrightarrow> steady C j w"
proof (induction k arbitrary: j w)
  case (Suc k)
  then show ?case by (cases j) (auto split: prod.splits outcome.splits response.splits)
qed simp

lemma polls_trans: "polls C e e1 \<Longrightarrow> polls C e1 e2 \<Longrightarrow> polls C e e2"
  by (induction rule: polls.induct) (auto intro: again)

definition guide_start :: "'z tty_host_scheme \<Rightarrow> 'z tty_host_scheme" where
  "guide_start w = snd (say (''Live framing guide '' @ em_dash @
     '' position your face; press Ctrl-C when done.'' @ [nl]) w :: (unit, unit) outcome \<times> _)"

text \<open>
  The framing guide ends, with success, once five polls in a row report a well framed face,
  however long it has run before.
\<close>

theorem position_guide_ends:
  assumes "polls C (0, guide_start w) (n, v)" and "steady C 5 v"
  shows "\<exists>w1. run_position C False w = Some (Ok (), w1)"
proof -
  have "\<exists>m x w1. polls C (n, v) (m, x) \<and> position_poll C m x = (Stop (Ok ()), w1)"
  proof (cases "4 \<le> n")
    case True
    then show ?thesis using poll_steady [of C 4 v n] assms(2) by (auto intro: here)
  next
    case False
    then show ?thesis using steady_less [OF assms(2), of "5 - n"] by (intro steady_ends) auto
  qed
  then obtain m x w1 where p: "polls C (n, v) (m, x)" "position_poll C m x = (Stop (Ok ()), w1)" by blast
  have "position_loop C 0 (guide_start w) = Some (Ok (), w1)"
    using polls_position_loop [OF polls_trans [OF assms(1) p(1)]] p(2) by simp
  then show ?thesis by (simp add: run_position_def guide_start_def)
qed

lemma position_guide_ends_witness:
  "\<exists>w1. run_position demo_console False (demo_terminal [] [] 0) = Some (Ok (), w1)"
proof (rule position_guide_ends [OF here])
  have "steady demo_console k w" for k w
    by (induction k arbitrary: w) (simp_all add: demo_console_def)
  then show "steady demo_console 5 (guide_start (demo_terminal [] [] 0))" .
qed

section \<open>Root and dry runs\<close>

definition only_terminal :: "'z tty_host_scheme \<Rightarrow> 'z tty_host_scheme \<Rightarrow> bool" where
  "only_terminal v w \<longleftrightarrow> w = v\<lparr>tty_in := tty_in w, tty_secrets := tty_secrets w, tty_out := tty_out w\<rparr>"




lemma only_terminal_update:
  "only_terminal w (w\<lparr>tty_out := o1\<rparr>)" "only_terminal w (w\<lparr>tty_out := o1, tty_secrets := l\<rparr>)"
  by (simp_all add: only_terminal_def)














section \<open>Secrets\<close>

lemma typed_twice_run:
  assumes "tty_secrets w = Inr a # Inr b # rest"
  shows "\<exists>x. typed_twice p c d m w = (if a = b then Ok a else Err (Bail m), x) \<and> only_terminal w x"
  using assms by (auto simp: typed_twice_def prompt_secret_def abind_def amap_err_def put_run only_terminal_update)

text \<open>
  A password or a recovery passphrase is sent only as it was typed: when the two entries differ
  the daemon is not asked at all and the command fails; when they agree the one request carries
  exactly what was typed, and an empty passphrase is refused.
\<close>

theorem secrets_as_typed:
  assumes "tty_secrets w = Inr a # Inr b # rest"
  shows "\<exists>x y. only_terminal w x \<and> only_terminal w y \<and>
      seal_password_cmd C (Some u) w =
        (if a \<noteq> b then (Err (Bail ''passwords do not match''), x)
         else abind (expect C (RSealPassword u a) (\<lambda>r. case r of SPasswordSealed \<Rightarrow> Some () | _ \<Rightarrow> None))
           (\<lambda>_. say (''password sealed for '' @ u)) x) \<and>
      set_recovery_interactive C u w =
        (if a \<noteq> b then (Err (Bail ''passphrases do not match''), y)
         else if a = [] then (Err (Bail ''recovery passphrase must not be empty''), y)
         else abind (expect C (RSaveRecovery u a) (\<lambda>r. case r of SRecoverySaved \<Rightarrow> Some () | _ \<Rightarrow> None))
           (\<lambda>_. say (''recovery passphrase set for '' @ u)) y)"
proof -
  obtain x where x: "typed_twice (''Login password for '' @ u @ '': '') ''reading password from TTY'' ''reading password confirmation''
       ''passwords do not match'' w = (if a = b then Ok a else Err (Bail ''passwords do not match''), x)" "only_terminal w x"
    using typed_twice_run [OF assms] by blast
  obtain y where y: "typed_twice ''Recovery passphrase: '' ''reading passphrase from TTY'' ''reading passphrase confirmation''
       ''passphrases do not match'' w = (if a = b then Ok a else Err (Bail ''passphrases do not match''), y)" "only_terminal w y"
    using typed_twice_run [OF assms] by blast
  have "abind (ret u) k = k u" for k :: "string \<Rightarrow> ('a tty_host_scheme, cli_end, unit) act"
    by (simp add: abind_def fun_eq_iff)
  then have "seal_password_cmd C (Some u) w =
        (if a \<noteq> b then (Err (Bail ''passwords do not match''), x)
         else abind (expect C (RSealPassword u a) (\<lambda>r. case r of SPasswordSealed \<Rightarrow> Some () | _ \<Rightarrow> None))
           (\<lambda>_. say (''password sealed for '' @ u)) x)"
    unfolding seal_password_cmd_def the_user_def option.case using x(1)
    by (simp add: abind_def [of "typed_twice _ _ _ _"] del: append.simps)
  moreover have "set_recovery_interactive C u w =
        (if a \<noteq> b then (Err (Bail ''passphrases do not match''), y)
         else if a = [] then (Err (Bail ''recovery passphrase must not be empty''), y)
         else abind (expect C (RSaveRecovery u a) (\<lambda>r. case r of SRecoverySaved \<Rightarrow> Some () | _ \<Rightarrow> None))
           (\<lambda>_. say (''recovery passphrase set for '' @ u)) y)"
    unfolding set_recovery_interactive_def using y(1)
    by (simp add: abind_def [of "typed_twice _ _ _ _"] del: append.simps)
  ultimately show ?thesis using x(2) y(2) by blast
qed

lemma secrets_as_typed_witness:
  "\<exists>x. only_terminal (demo_terminal [] [''a'', ''b''] 0) x \<and>
     seal_password_cmd demo_console (Some ''al'') (demo_terminal [] [''a'', ''b''] 0) = (Err (Bail ''passwords do not match''), x)"
proof -
  have "tty_secrets (demo_terminal [] [''a'', ''b''] 0) = Inr ''a'' # Inr ''b'' # []" by simp
  from secrets_as_typed [OF this, of demo_console "''al''"] show ?thesis by auto
qed

end
