(* ===== verification/Tui.thy ===== *)
theory Tui
  imports Cli
begin

text \<open>
  The state of the full-screen interface, crates/linhello-cli/src/tui.rs: the screens and their steps,
  the activity log, the gate of the wizard, what entering a screen does, scrolling and the mouse. The
  application is a record; a method that talks to the host is a computation over the terminal's host
  that returns the new application. Drawing belongs to ratatui: the geometry it leaves behind is data
  of the application. The two-second cache of the camera look-ups is left out.
\<close>

section \<open>Screens and steps\<close>

datatype screen = ScWelcome | ScInstall | ScDoctor | ScCameras | ScProfiles | ScEnroll | ScCalibrate
  | ScIdentify | ScFingerprint | ScPassword | ScPam | ScDone | ScUninstall

definition wizard_order :: "screen list" where
  "wizard_order = [ScWelcome, ScInstall, ScDoctor, ScCameras, ScProfiles, ScEnroll, ScCalibrate, ScIdentify,
     ScFingerprint, ScPassword, ScPam, ScDone]"

datatype cal_state = CalIdle | CalSampling "f32 list" nat | CalReview "f32 list" f32 string | CalSaved f32 | CalNotEnough

definition cal_target :: nat where "cal_target = 8"
definition cal_max_attempts :: nat where "cal_max_attempts = 16"

text \<open>Samples captured and the streak of good frames, or what is left of the countdown.\<close>

datatype enroll_state = EnIdle | EnFraming nat nat | EnCountdown nat nat | EnDone nat | EnFailed string

definition enroll_target :: nat where "enroll_target = 5"
definition enroll_qual_min :: nat where "enroll_qual_min = 70"
definition enroll_streak :: nat where "enroll_streak = 3"

datatype identify_state = IdIdle | IdRunning | IdDone "identify_candidate option" f32 "identify_candidate list" | IdFailed string

datatype uninstall_state = UnIdle bool | UnConfirm bool string | UnWorking | UnDone "string list" | UnFailed string

definition uninstall_word :: string where "uninstall_word = ''REMOVE''"
definition activity_max :: nat where "activity_max = 200"

datatype password_step = PwEntry string | PwConfirm string string | PwSealed | PwFailed string

datatype install_step = InIdle | InModelPath string | InDone "string list" | InFailed string

datatype scroll_target = ScrollActivity | ScrollDoctor

record rect =
  rc_x :: nat
  rc_y :: nat
  rc_w :: nat
  rc_h :: nat

definition rect_zero :: rect where "rect_zero = \<lparr>rc_x = 0, rc_y = 0, rc_w = 0, rc_h = 0\<rparr>"

definition rect_contains :: "rect \<Rightarrow> nat \<Rightarrow> nat \<Rightarrow> bool" where
  "rect_contains r col row \<longleftrightarrow> rc_x r \<le> col \<and> col < rc_x r + rc_w r \<and> rc_y r \<le> row \<and> row < rc_y r + rc_h r"

text \<open>What the last drawing left: wrapped rows of content and of the view, and the two boxes.\<close>

record geometry =
  doctor_content_rows :: nat
  doctor_view_rows :: nat
  activity_content_rows :: nat
  activity_view_rows :: nat
  activity_area :: rect
  doctor_area :: rect

record app =
  ap_screen :: screen
  ap_user :: string
  ap_install :: install_state
  ap_report :: "(string + capability_report) option"
  ap_policy :: "policy_status option"
  doctor_scroll :: nat
  activity_scroll_up :: nat
  ap_geometry :: geometry
  ap_dragging :: "scroll_target option"
  ap_update_pending :: bool
  ap_update :: "update_status option"
  ap_cameras :: "camera_node list"
  cam_cursor :: nat
  sel_rgb :: "string option"
  sel_ir :: "string option"
  ap_cal :: cal_state
  ap_enroll :: enroll_state
  enroll_last :: "position_report option"
  ap_pam :: "service_status list"
  pam_note :: "string list"
  ap_profiles :: "profile_info list"
  profile_cursor :: nat
  active_profile :: string
  name_input :: "string option"
  delete_confirm :: "string option"
  new_profile_input :: "string option"
  ap_identify :: identify_state
  ap_password :: password_step
  ap_uninstall :: uninstall_state
  ap_install_step :: install_step
  ap_activity :: "string list"
  cameras_saved :: bool
  fp_reader :: "string option"
  fp_enrolled :: "string list"
  fp_methods :: available_methods
  fp_named :: "(string \<times> string option) list"
  fp_method :: string
  pending_fp_enable :: bool
  pending_platform_setup :: bool
  pending_recovery :: bool
  group_ensured :: bool
  ap_status :: string
  should_quit :: bool

definition geometry_zero :: geometry where
  "geometry_zero = \<lparr>doctor_content_rows = 0, doctor_view_rows = 0, activity_content_rows = 0, activity_view_rows = 0,
     activity_area = rect_zero, doctor_area = rect_zero\<rparr>"

definition app_new ::
  "('z tty_host_scheme, 'y) console_scheme \<Rightarrow> ('z tty_host_scheme, 'v) v4l_scheme \<Rightarrow> string \<Rightarrow> ('z tty_host_scheme, 'e, app) act" where
  "app_new C V user =
     abind (query (enumerate_cameras V)) (\<lambda>cams.
     abind (query (\<lambda>w. (conf_device ''rgb'' w, conf_device ''ir'' w, path_exists (config_path ''cameras.conf'') w))) (\<lambda>(rgb, ir, saved).
     abind (detect_install C) (\<lambda>inst.
     ret \<lparr>ap_screen = ScWelcome, ap_user = user, ap_install = inst, ap_report = None, ap_policy = None,
       doctor_scroll = 0, activity_scroll_up = 0, ap_geometry = geometry_zero, ap_dragging = None,
       ap_update_pending = True, ap_update = None, ap_cameras = cams, cam_cursor = 0,
       sel_rgb = (case rgb of Some p \<Rightarrow> Some p | None \<Rightarrow> map_option ci_path (find (\<lambda>c. cn_kind c = Rgb \<and> cn_trusted c) cams)),
       sel_ir = (case ir of Some p \<Rightarrow> Some p | None \<Rightarrow> map_option ci_path (find (\<lambda>c. cn_kind c = Ir) cams)),
       ap_cal = CalIdle, ap_enroll = EnIdle, enroll_last = None, ap_pam = [], pam_note = [], ap_profiles = [],
       profile_cursor = 0, active_profile = user, name_input = None, delete_confirm = None, new_profile_input = None,
       ap_identify = IdIdle, ap_password = PwEntry [], ap_uninstall = UnIdle True, ap_install_step = InIdle,
       ap_activity = [], cameras_saved = saved, fp_reader = None, fp_enrolled = [],
       fp_methods = \<lparr>face_rgb = False, face_ir = False, fingerprint = False, fingerprint_capable = False\<rparr>,
       fp_named = [], fp_method = ''auto'', pending_fp_enable = False, pending_platform_setup = False,
       pending_recovery = False, group_ensured = False, ap_status = [], should_quit = False\<rparr>)))"

section \<open>The activity log\<close>

definition push_activity :: "string \<Rightarrow> app \<Rightarrow> app" where
  "push_activity msg a =
     (let log = ap_activity a @ [msg] in
      a\<lparr>activity_scroll_up := 0,
        ap_activity := (if length log > activity_max then drop (length log - activity_max) log else log)\<rparr>)"

definition log_activity :: "string \<Rightarrow> app \<Rightarrow> app" where
  "log_activity msg a = push_activity msg (a\<lparr>ap_status := msg\<rparr>)"

definition log_all :: "string list \<Rightarrow> app \<Rightarrow> app" where "log_all ls a = fold log_activity ls a"

definition set_status :: "string \<Rightarrow> app \<Rightarrow> app" where "set_status s a = a\<lparr>ap_status := s\<rparr>"

section \<open>The gate of the wizard\<close>

definition active_profile_enrolled :: "app \<Rightarrow> bool" where
  "active_profile_enrolled a \<longleftrightarrow>
     (case ap_enroll a of EnDone _ \<Rightarrow> True | _ \<Rightarrow> False) \<or>
     list_ex (\<lambda>p. pi_user p = active_profile a \<and> 0 < pi_samples p) (ap_profiles a) \<or>
     active_profile a \<in> set (enrolled_users (ap_install a))"

definition active_profile_has_password :: "app \<Rightarrow> bool" where
  "active_profile_has_password a \<longleftrightarrow> list_ex (\<lambda>p. pi_user p = active_profile a \<and> pi_has_password p) (ap_profiles a)"

definition wizard_gate :: "app \<Rightarrow> string option" where
  "wizard_gate a = (case ap_screen a of
      ScInstall \<Rightarrow>
        if \<not> is_installed (ap_install a) then Some (''install first '' @ em_dash @ '' press i to deploy'')
        else if \<not> daemon_active (ap_install a)
        then Some (''the daemon isn't running '' @ em_dash @ '' press i to deploy/start it'')
        else if \<not> models_present (ap_install a)
        then Some (''required face models missing '' @ em_dash @ '' press m to copy them in'')
        else None
    | ScDoctor \<Rightarrow> (case ap_report a of
          Some (Inr r) \<Rightarrow> if can_run r then None
            else Some (''host can't run LinuxHello '' @ em_dash @ '' fix the [FAIL] item first'')
        | _ \<Rightarrow> Some ''probe the host first (press r)'')
    | ScCameras \<Rightarrow> if cameras_saved a then None else Some ''pick an RGB camera and press s to save before continuing''
    | ScEnroll \<Rightarrow> if active_profile_enrolled a then None else Some ''enroll at least one face sample first (press Enter)''
    | ScPassword \<Rightarrow> if ap_password a = PwSealed \<or> active_profile_has_password a then None
        else Some (''seal your login password first '' @ em_dash @ '' it's what unlocks the keyring and sudo'')
    | _ \<Rightarrow> None)"

definition step_index :: "app \<Rightarrow> nat" where
  "step_index a = (if ap_screen a \<in> set wizard_order then length (takeWhile (\<lambda>s. s \<noteq> ap_screen a) wizard_order) else 0)"

definition screen_applicable :: "('z host_scheme, 'v) v4l_scheme \<Rightarrow> 'z host_scheme \<Rightarrow> screen \<Rightarrow> bool" where
  "screen_applicable V w s = (case s of ScPassword \<Rightarrow> resolve_ir V w \<noteq> None | _ \<Rightarrow> True)"

definition next_screen :: "('z host_scheme, 'v) v4l_scheme \<Rightarrow> 'z host_scheme \<Rightarrow> app \<Rightarrow> screen option" where
  "next_screen V w a = find (screen_applicable V w) (drop (step_index a + 1) wizard_order)"

definition prev_screen :: "('z host_scheme, 'v) v4l_scheme \<Rightarrow> 'z host_scheme \<Rightarrow> app \<Rightarrow> screen option" where
  "prev_screen V w a = find (screen_applicable V w) (rev (take (step_index a) wizard_order))"

section \<open>Refreshing what a screen shows\<close>

definition cursor_max :: "'a list \<Rightarrow> nat" where "cursor_max xs = length xs - 1"

definition refresh_profiles ::
  "('z tty_host_scheme, 'y) console_scheme \<Rightarrow> app \<Rightarrow> ('z tty_host_scheme, 'e, app) act" where
  "refresh_profiles C a =
     abind (try_act (send C RListProfiles)) (\<lambda>r. ret (case r of
         Inr (SProfiles ps) \<Rightarrow> a\<lparr>ap_profiles := ps, profile_cursor := min (profile_cursor a) (cursor_max ps)\<rparr>
       | _ \<Rightarrow> a))"

definition doctor_max_scroll :: "app \<Rightarrow> nat" where
  "doctor_max_scroll a = doctor_content_rows (ap_geometry a) - doctor_view_rows (ap_geometry a)"

definition activity_max_scroll :: "app \<Rightarrow> nat" where
  "activity_max_scroll a = activity_content_rows (ap_geometry a) - activity_view_rows (ap_geometry a)"

definition refresh_probe ::
  "('z tty_host_scheme, 'y) console_scheme \<Rightarrow> app \<Rightarrow> ('z tty_host_scheme, 'e, app) act" where
  "refresh_probe C a =
     abind (try_act (send C RProbe)) (\<lambda>r.
     abind (try_act (send C (RPolicyStatus (ap_user a)))) (\<lambda>q.
     ret (a\<lparr>ap_report := Some (case r of
              Inr (SCapabilities rep) \<Rightarrow> Inr rep
            | Inr other \<Rightarrow> Inl (''unexpected response: '' @ show_response C other)
            | Inl e \<Rightarrow> Inl e),
          ap_policy := (case q of Inr (SPolicyStatus p) \<Rightarrow> Some p | _ \<Rightarrow> None),
          doctor_scroll := min (doctor_scroll a) (doctor_max_scroll a)\<rparr>)))"

definition refresh_fingerprint ::
  "('z tty_host_scheme, 'y) console_scheme \<Rightarrow> ('z tty_host_scheme, 'v) v4l_scheme \<Rightarrow> app \<Rightarrow> ('z tty_host_scheme, 'e, app) act" where
  "refresh_fingerprint C V a =
     abind (fp_available C) (\<lambda>av.
     abind (if av then abind (device_name C) (\<lambda>n. ret (Some (unwrap_or ''fingerprint reader'' n))) else ret None) (\<lambda>reader.
     abind (enrolled_fingers C (active_profile a)) (\<lambda>fs.
     abind (detected_methods C V (active_profile a)) (\<lambda>methods.
     abind (query (\<lambda>w. (map (\<lambda>s. (s, fingerprint_name (active_profile a) s w)) fs,
         unwrap_or ''auto'' (read_kv ''policy.conf'' ''method'' w)))) (\<lambda>(named, m).
     ret (a\<lparr>fp_reader := reader, fp_enrolled := fs, fp_methods := methods, fp_named := named, fp_method := m\<rparr>))))))"

definition restart_daemon_quiet ::
  "('z tty_host_scheme, 'y) console_scheme \<Rightarrow> ('z tty_host_scheme, string, unit) act" where
  "restart_daemon_quiet C =
     abind (cmd_output C ''systemctl'' [''restart'', ''linhellod'']) (\<lambda>(ok, _, _).
     if ok then ret () else abind (query (status_text C)) (\<lambda>st. fail (''systemctl exited '' @ st)))"

text \<open>A restart whose outcome goes to the activity log.\<close>

definition restart_logged ::
  "('z tty_host_scheme, 'y) console_scheme \<Rightarrow> app \<Rightarrow> ('z tty_host_scheme, 'e, app) act" where
  "restart_logged C a =
     abind (try_act (restart_daemon_quiet C)) (\<lambda>r. ret (case r of
         Inr _ \<Rightarrow> log_activity ''restarted linhellod service'' a
       | Inl e \<Rightarrow> log_activity (''daemon restart failed: '' @ e) a))"

definition redetect ::
  "('z tty_host_scheme, 'y) console_scheme \<Rightarrow> app \<Rightarrow> ('z tty_host_scheme, 'e, app) act" where
  "redetect C a = abind (detect_install C) (\<lambda>inst. ret (a\<lparr>ap_install := inst\<rparr>))"

section \<open>Entering a screen\<close>

definition enter_password :: "app \<Rightarrow> app" where
  "enter_password a =
     (if active_profile_has_password a then a\<lparr>ap_password := PwSealed\<rparr>
      else (case ap_password a of PwEntry _ \<Rightarrow> a | _ \<Rightarrow> a\<lparr>ap_password := PwEntry []\<rparr>))"

definition enter_pam ::
  "('z tty_host_scheme, 'y) console_scheme \<Rightarrow> app \<Rightarrow> ('z tty_host_scheme, 'e, app) act" where
  "enter_pam C a =
     abind (query pam_status) (\<lambda>st.
     let a1 = a\<lparr>ap_pam := st\<rparr> in
     if group_ensured a1 then ret a1
     else abind (ensure_socket_group_membership C) (\<lambda>ls. ret (log_all ls (a1\<lparr>group_ensured := True\<rparr>))))"

definition on_enter ::
  "('z tty_host_scheme, 'y) console_scheme \<Rightarrow> ('z tty_host_scheme, 'v) v4l_scheme \<Rightarrow> app \<Rightarrow> ('z tty_host_scheme, 'e, app) act" where
  "on_enter C V a0 =
     abind (redetect C (a0\<lparr>ap_status := [], name_input := None\<rparr>)) (\<lambda>a.
     case ap_screen a of
       ScDoctor \<Rightarrow> refresh_probe C (a\<lparr>doctor_scroll := 0\<rparr>)
     | ScCameras \<Rightarrow>
         abind (query (enumerate_cameras V)) (\<lambda>cams.
         ret (a\<lparr>ap_cameras := cams, cam_cursor := min (cam_cursor a) (cursor_max cams)\<rparr>))
     | ScProfiles \<Rightarrow> refresh_profiles C a
     | ScPassword \<Rightarrow> abind (refresh_profiles C a) (\<lambda>a1. ret (enter_password a1))
     | ScPam \<Rightarrow> enter_pam C a
     | ScFingerprint \<Rightarrow> refresh_fingerprint C V a
     | _ \<Rightarrow> ret a)"

definition go_to ::
  "('z tty_host_scheme, 'y) console_scheme \<Rightarrow> ('z tty_host_scheme, 'v) v4l_scheme \<Rightarrow> app \<Rightarrow> screen option
   \<Rightarrow> ('z tty_host_scheme, 'e, app) act" where
  "go_to C V a target = (case target of Some s \<Rightarrow> on_enter C V (a\<lparr>ap_screen := s\<rparr>) | None \<Rightarrow> ret a)"

definition wizard_next ::
  "('z tty_host_scheme, 'y) console_scheme \<Rightarrow> ('z tty_host_scheme, 'v) v4l_scheme \<Rightarrow> app \<Rightarrow> ('z tty_host_scheme, 'e, app) act" where
  "wizard_next C V a = (case wizard_gate a of
      Some reason \<Rightarrow> ret (set_status (''can't continue yet '' @ em_dash @ '' '' @ reason) a)
    | None \<Rightarrow> abind (query (\<lambda>w. next_screen V w a)) (go_to C V a))"

definition wizard_prev ::
  "('z tty_host_scheme, 'y) console_scheme \<Rightarrow> ('z tty_host_scheme, 'v) v4l_scheme \<Rightarrow> app \<Rightarrow> ('z tty_host_scheme, 'e, app) act" where
  "wizard_prev C V a = abind (query (\<lambda>w. prev_screen V w a)) (go_to C V a)"

section \<open>Scrolling and the mouse\<close>

definition wrapped_rows :: "nat \<Rightarrow> nat \<Rightarrow> nat" where
  "wrapped_rows w inner = (if inner = 0 then 1 else (max w 1 + inner - 1) div inner)"

definition pos_from_row :: "rect \<Rightarrow> nat \<Rightarrow> nat \<Rightarrow> nat" where
  "pos_from_row area row mx =
     (let top = rc_y area + 1; track = rc_h area - 2
      in if track \<le> 1 \<or> mx = 0 then 0
         else let rel = min (row - top) (track - 1) in rel * mx div (track - 1))"

definition box_at :: "app \<Rightarrow> nat \<Rightarrow> nat \<Rightarrow> scroll_target option" where
  "box_at a col row =
     (if ap_screen a = ScDoctor \<and> 0 < doctor_max_scroll a \<and> rect_contains (doctor_area (ap_geometry a)) col row
      then Some ScrollDoctor
      else if 0 < activity_max_scroll a \<and> rect_contains (activity_area (ap_geometry a)) col row
      then Some ScrollActivity else None)"

definition on_slider :: "rect \<Rightarrow> nat \<Rightarrow> nat \<Rightarrow> nat \<Rightarrow> bool" where
  "on_slider area mx col row \<longleftrightarrow> 0 < mx \<and> 0 < rc_w area \<and> col = rc_x area + rc_w area - 1 \<and>
     rc_y area < row \<and> row + 1 < rc_y area + rc_h area"

definition drag_to :: "scroll_target \<Rightarrow> nat \<Rightarrow> app \<Rightarrow> app" where
  "drag_to t row a = (case t of
      ScrollActivity \<Rightarrow> (let mx = activity_max_scroll a in
        a\<lparr>activity_scroll_up := mx - pos_from_row (activity_area (ap_geometry a)) row mx\<rparr>)
    | ScrollDoctor \<Rightarrow> a\<lparr>doctor_scroll := pos_from_row (doctor_area (ap_geometry a)) row (doctor_max_scroll a)\<rparr>)"

datatype mouse_kind = MouseWheelUp | MouseWheelDown | MouseLeftDown | MouseLeftDrag | MouseRelease | MouseOther

definition scroll_activity_up :: "nat \<Rightarrow> app \<Rightarrow> app" where
  "scroll_activity_up n a = a\<lparr>activity_scroll_up := min (activity_scroll_up a + n) (activity_max_scroll a)\<rparr>"

definition scroll_activity_down :: "nat \<Rightarrow> app \<Rightarrow> app" where
  "scroll_activity_down n a = a\<lparr>activity_scroll_up := activity_scroll_up a - n\<rparr>"

definition scroll_doctor_up :: "nat \<Rightarrow> app \<Rightarrow> app" where
  "scroll_doctor_up n a = a\<lparr>doctor_scroll := doctor_scroll a - n\<rparr>"

definition scroll_doctor_down :: "nat \<Rightarrow> app \<Rightarrow> app" where
  "scroll_doctor_down n a = a\<lparr>doctor_scroll := min (doctor_scroll a + n) (doctor_max_scroll a)\<rparr>"

definition on_mouse :: "mouse_kind \<Rightarrow> nat \<Rightarrow> nat \<Rightarrow> app \<Rightarrow> app" where
  "on_mouse k col row a = (case k of
      MouseWheelUp \<Rightarrow> (case box_at a col row of
          Some ScrollActivity \<Rightarrow> scroll_activity_up 3 a | Some ScrollDoctor \<Rightarrow> scroll_doctor_up 3 a | None \<Rightarrow> a)
    | MouseWheelDown \<Rightarrow> (case box_at a col row of
          Some ScrollActivity \<Rightarrow> scroll_activity_down 3 a | Some ScrollDoctor \<Rightarrow> scroll_doctor_down 3 a | None \<Rightarrow> a)
    | MouseLeftDown \<Rightarrow>
        (let b = a\<lparr>ap_dragging := None\<rparr>; g = ap_geometry b in
         if ap_screen b = ScDoctor \<and> on_slider (doctor_area g) (doctor_max_scroll b) col row
         then drag_to ScrollDoctor row (b\<lparr>ap_dragging := Some ScrollDoctor\<rparr>)
         else if on_slider (activity_area g) (activity_max_scroll b) col row
         then drag_to ScrollActivity row (b\<lparr>ap_dragging := Some ScrollActivity\<rparr>)
         else b)
    | MouseLeftDrag \<Rightarrow> (case ap_dragging a of Some t \<Rightarrow> drag_to t row a | None \<Rightarrow> a)
    | MouseRelease \<Rightarrow> a\<lparr>ap_dragging := None\<rparr>
    | MouseOther \<Rightarrow> a)"

end
