(* ===== verification/TuiKeys.thy ===== *)
theory TuiKeys
  imports Tui
begin

text \<open>
  The keys of the full-screen interface, crates/linhello-cli/src/tui.rs: one handler per screen and
  the order in which a key is offered to them.
\<close>

text \<open>A character key carries the bytes of its character.\<close>

datatype key = KChar string | KBackspace | KEnter | KEsc | KTab | KBackTab | KLeft | KRight | KUp | KDown
  | KPageUp | KPageDown | KOther

definition pop_char :: "string \<Rightarrow> string" where "pop_char s = concat (butlast (utf8_chars s))"

section \<open>Install\<close>

text \<open>Copying the models: what the step becomes when it succeeds and when it fails.\<close>

definition install_models ::
  "('z tty_host_scheme, 'y) console_scheme \<Rightarrow> string \<Rightarrow> string list \<Rightarrow> string \<Rightarrow> string \<Rightarrow> app
   \<Rightarrow> ('z tty_host_scheme, 'e, app) act" where
  "install_models C dir lg failed back a =
     abind (try_act (copy_models_from dir)) (\<lambda>r. case r of
       Inr mlog \<Rightarrow>
         abind (redetect C (log_all mlog a)) (\<lambda>a1.
         abind (restart_logged C a1) (\<lambda>a2. ret (a2\<lparr>ap_install_step := InDone (lg @ mlog)\<rparr>)))
     | Inl e \<Rightarrow> ret ((log_activity (failed @ e) a)\<lparr>ap_install_step := InModelPath back\<rparr>))"

definition install_deploy ::
  "('z tty_host_scheme, 'y) console_scheme \<Rightarrow> app \<Rightarrow> ('z tty_host_scheme, 'e, app) act" where
  "install_deploy C a0 =
     (let a = log_activity (''installing programs + daemon (make install)'' @ ellipsis) a0 in
      abind (try_act (deploy C (ap_user a))) (\<lambda>r. case r of
        Inl e \<Rightarrow> ret ((log_activity (''install failed: '' @ e) a)\<lparr>ap_install_step := InFailed e\<rparr>)
      | Inr lg \<Rightarrow>
          abind (redetect C (log_all lg a)) (\<lambda>a1.
          if models_present (ap_install a1)
          then ret (a1\<lparr>ap_install_step := InDone (lg @ [''face models already in place''])\<rparr>)
          else
            abind (query (bundled_models_dir C)) (\<lambda>d. case d of
              Some dir \<Rightarrow> install_models C dir lg ''bundled copy failed: '' dir
                (log_activity (''found bundled models in '' @ dir @ '' '' @ em_dash @ '' installing them'') a1)
            | None \<Rightarrow> ret ((log_activity (''models missing '' @ em_dash @ '' point me at the .onnx folder'') a1)
                \<lparr>ap_install_step := InModelPath []\<rparr>)))))"

definition install_key ::
  "('z tty_host_scheme, 'y) console_scheme \<Rightarrow> ('z tty_host_scheme, 'v) v4l_scheme \<Rightarrow> key \<Rightarrow> app \<Rightarrow> ('z tty_host_scheme, 'e, app) act" where
  "install_key C V k a = (case ap_install_step a of
      InIdle \<Rightarrow> (case k of
          KChar c \<Rightarrow>
            if c = ''i'' then install_deploy C a
            else if c = ''m''
            then ret (a\<lparr>ap_install_step := InModelPath [], ap_status := ''type the models folder, Enter to copy''\<rparr>)
            else ret a
        | KRight \<Rightarrow> wizard_next C V a
        | KLeft \<Rightarrow> wizard_prev C V a
        | _ \<Rightarrow> ret a)
    | InModelPath input \<Rightarrow> (case k of
          KChar c \<Rightarrow> ret (a\<lparr>ap_install_step := InModelPath (input @ c)\<rparr>)
        | KBackspace \<Rightarrow> ret (a\<lparr>ap_install_step := InModelPath (pop_char input)\<rparr>)
        | KEsc \<Rightarrow> ret (a\<lparr>ap_install_step := InIdle, ap_status := ''model copy cancelled''\<rparr>)
        | KEnter \<Rightarrow>
            (let dir = trim input in
             install_models C dir [] ''model copy failed: '' input
               (log_activity (''copying models from '' @ dir @ '' '' @ arrow @ '' /etc/linhello'') (a\<lparr>ap_install_step := InIdle\<rparr>)))
        | _ \<Rightarrow> ret a)
    | _ \<Rightarrow> (case k of
          KChar c \<Rightarrow> ret (if c = ''i'' then a\<lparr>ap_install_step := InIdle\<rparr> else a)
        | KRight \<Rightarrow> wizard_next C V a
        | KLeft \<Rightarrow> wizard_prev C V a
        | _ \<Rightarrow> ret a))"

section \<open>Profiles\<close>

definition highlighted :: "app \<Rightarrow> profile_info option" where
  "highlighted a = (if profile_cursor a < length (ap_profiles a) then Some (ap_profiles a ! profile_cursor a) else None)"

definition delete_prompt :: "profile_info \<Rightarrow> string" where
  "delete_prompt p =
     ''delete profile '' @ quoted (pi_user p) @ '' ('' @ show_nat (pi_samples p) @ '' samples)'' @
     (if pi_has_password p
      then '' '' @ em_dash @ '' also erases the sealed password (face login/sudo needs re-sealing after)'' else []) @
     ''? press y to confirm, any other key to cancel''"

definition profiles_char :: "string \<Rightarrow> app \<Rightarrow> app" where
  "profiles_char c a =
     (if c = ''s'' then (case highlighted a of
          Some p \<Rightarrow> a\<lparr>active_profile := pi_user p, ap_status := ''enroll target: '' @ pi_user p\<rparr> | None \<Rightarrow> a)
      else if c = ''a'' then a\<lparr>new_profile_input := Some [],
          ap_status := ''new profile: type a name, Enter to set as enroll target, Esc to cancel''\<rparr>
      else if c = ''n'' then (case highlighted a of
          Some p \<Rightarrow> a\<lparr>name_input := Some (unwrap_or [] (pi_name p)),
            ap_status := ''naming '' @ quoted (pi_user p) @ '' '' @ em_dash @ '' type, Enter to save, Esc to cancel''\<rparr>
        | None \<Rightarrow> a)
      else if c = ''d'' then (case highlighted a of
          Some p \<Rightarrow> a\<lparr>delete_confirm := Some (pi_user p), ap_status := delete_prompt p\<rparr> | None \<Rightarrow> a)
      else a)"

definition profiles_key ::
  "('z tty_host_scheme, 'y) console_scheme \<Rightarrow> ('z tty_host_scheme, 'v) v4l_scheme \<Rightarrow> key \<Rightarrow> app \<Rightarrow> ('z tty_host_scheme, 'e, app) act" where
  "profiles_key C V k a = (case k of
      KUp \<Rightarrow> ret (a\<lparr>profile_cursor := profile_cursor a - 1\<rparr>)
    | KDown \<Rightarrow> ret (a\<lparr>profile_cursor := min (profile_cursor a + 1) (cursor_max (ap_profiles a))\<rparr>)
    | KChar c \<Rightarrow> if c = ''r'' then refresh_profiles C a else ret (profiles_char c a)
    | KRight \<Rightarrow> wizard_next C V a
    | KLeft \<Rightarrow> wizard_prev C V a
    | _ \<Rightarrow> ret a)"

text \<open>What the daemon's refusal of a change shows in the status line.\<close>

definition refusal :: "('w, 'y) console_scheme \<Rightarrow> string + response \<Rightarrow> string" where
  "refusal C r = (case r of
      Inl e \<Rightarrow> ''error: '' @ e
    | Inr (SError m) \<Rightarrow> ''error: '' @ m
    | Inr other \<Rightarrow> ''unexpected: '' @ show_response C other)"

definition save_name ::
  "('z tty_host_scheme, 'y) console_scheme \<Rightarrow> string \<Rightarrow> app \<Rightarrow> ('z tty_host_scheme, 'e, app) act" where
  "save_name C name a = (case highlighted a of
      None \<Rightarrow> ret a
    | Some p \<Rightarrow>
        abind (try_act (send C (RSetProfileName (pi_user p) name))) (\<lambda>r. case r of
          Inr SProfileNameSet \<Rightarrow> refresh_profiles C (log_activity (''set name of profile '' @ quoted (pi_user p) @ '' '' @
            arrow @ '' '' @ in_quotes name @ '' (/etc/linhello/'' @ pi_user p @ ''/display_name)'') a)
        | _ \<Rightarrow> ret (set_status (refusal C r) a)))"

definition name_edit_key ::
  "('z tty_host_scheme, 'y) console_scheme \<Rightarrow> key \<Rightarrow> app \<Rightarrow> ('z tty_host_scheme, 'e, app) act" where
  "name_edit_key C k a = (case name_input a of
      None \<Rightarrow> ret a
    | Some buf \<Rightarrow> (case k of
          KChar c \<Rightarrow> ret (a\<lparr>name_input := Some (buf @ c)\<rparr>)
        | KBackspace \<Rightarrow> ret (a\<lparr>name_input := Some (pop_char buf)\<rparr>)
        | KEsc \<Rightarrow> ret (a\<lparr>name_input := None, ap_status := ''name edit cancelled''\<rparr>)
        | KEnter \<Rightarrow> save_name C buf (a\<lparr>name_input := None\<rparr>)
        | _ \<Rightarrow> ret a))"

definition invalid_profile_name :: "string \<Rightarrow> bool" where
  "invalid_profile_name name \<longleftrightarrow> name = [] \<or> name = ''.'' \<or> name = ''..'' \<or> CHR ''/'' \<in> set name \<or> CHR 0x5C \<in> set name"

definition new_profile_edit_key :: "key \<Rightarrow> app \<Rightarrow> app" where
  "new_profile_edit_key k a = (case new_profile_input a of
      None \<Rightarrow> a
    | Some buf \<Rightarrow> (case k of
          KChar c \<Rightarrow> a\<lparr>new_profile_input := Some (buf @ c)\<rparr>
        | KBackspace \<Rightarrow> a\<lparr>new_profile_input := Some (pop_char buf)\<rparr>
        | KEsc \<Rightarrow> a\<lparr>new_profile_input := None, ap_status := ''new profile cancelled''\<rparr>
        | KEnter \<Rightarrow>
            (let name = trim buf in
             if invalid_profile_name name
             then set_status (''invalid name '' @ em_dash @ '' avoid empty, '' @ quoted ''/'' @ '', '' @ quoted [CHR 0x5C] @ '', '' @
               quoted ''.'' @ '' and '' @ quoted ''..'') a
             else (push_activity (''new profile '' @ quoted name @ '' set as the enroll target '' @ em_dash @
                 '' go to Enroll (Tab) to capture faces into it'') (a\<lparr>new_profile_input := None, active_profile := name\<rparr>))
               \<lparr>ap_status := ''enroll target: '' @ name @ '' '' @ em_dash @ '' Tab to Enroll''\<rparr>)
        | _ \<Rightarrow> a))"

definition delete_confirm_key ::
  "('z tty_host_scheme, 'y) console_scheme \<Rightarrow> key \<Rightarrow> app \<Rightarrow> ('z tty_host_scheme, 'e, app) act" where
  "delete_confirm_key C k a0 = (case delete_confirm a0 of
      None \<Rightarrow> ret a0
    | Some user \<Rightarrow>
        (let a = a0\<lparr>delete_confirm := None\<rparr> in
         if k \<noteq> KChar ''y'' \<and> k \<noteq> KChar ''Y'' then ret (set_status (''delete cancelled '' @ em_dash @ '' nothing erased'') a)
         else
           abind (try_act (send C (RDeleteProfile user))) (\<lambda>r. case r of
             Inr (SProfileDeleted u n) \<Rightarrow>
               (let a1 = set_status [] (push_activity (''deleted profile '' @ quoted u @ '' ('' @ show_nat n @
                    '' samples erased) '' @ em_dash @ '' removed /etc/linhello/'' @ u @ ''/'') a);
                    a2 = (if active_profile a1 = u then a1\<lparr>active_profile := ap_user a1\<rparr> else a1)
                in refresh_profiles C (a2\<lparr>profile_cursor := 0\<rparr>))
           | _ \<Rightarrow> ret (set_status (refusal C r) a))))"

section \<open>Identify and the password\<close>

definition identify_key ::
  "('z tty_host_scheme, 'y) console_scheme \<Rightarrow> ('z tty_host_scheme, 'v) v4l_scheme \<Rightarrow> key \<Rightarrow> app \<Rightarrow> ('z tty_host_scheme, 'e, app) act" where
  "identify_key C V k a =
     (if (k = KChar ''i'' \<or> k = KEnter) \<and> ap_identify a \<noteq> IdRunning
      then ret (a\<lparr>ap_identify := IdRunning, ap_status := ''identifying '' @ em_dash @ '' look at the camera'' @ ellipsis\<rparr>)
      else if k = KRight then wizard_next C V a
      else if k = KLeft then wizard_prev C V a
      else ret a)"

text \<open>The confirmed password is sealed for the active profile.\<close>

definition seal_confirmed ::
  "('z tty_host_scheme, 'y) console_scheme \<Rightarrow> string \<Rightarrow> app \<Rightarrow> ('z tty_host_scheme, 'e, app) act" where
  "seal_confirmed C pw a =
     (let user = active_profile a in
      abind (try_act (send C (RSealPassword user pw))) (\<lambda>r. case r of
        Inr SPasswordSealed \<Rightarrow>
          abind (redetect C (log_activity (''sealed '' @ user @ [CHR 0x27] @ ''s login password to the TPM '' @ arrow @
            '' /etc/linhello/'' @ user @ ''/password_envelope.json'') a)) (\<lambda>a1. ret (a1\<lparr>ap_password := PwSealed\<rparr>))
      | Inr (SError m) \<Rightarrow> ret ((log_activity (''seal password failed: '' @ m) a)\<lparr>ap_password := PwFailed m\<rparr>)
      | Inr other \<Rightarrow> ret (a\<lparr>ap_password := PwFailed (''unexpected: '' @ show_response C other)\<rparr>)
      | Inl e \<Rightarrow> ret (a\<lparr>ap_password := PwFailed e\<rparr>)))"

definition password_key ::
  "('z tty_host_scheme, 'y) console_scheme \<Rightarrow> ('z tty_host_scheme, 'v) v4l_scheme \<Rightarrow> key \<Rightarrow> app \<Rightarrow> ('z tty_host_scheme, 'e, app) act" where
  "password_key C V k a =
     (let cleared = a\<lparr>ap_password := PwEntry [], ap_status := ''password entry cleared''\<rparr> in
      case ap_password a of
        PwEntry input \<Rightarrow> (case k of
            KChar c \<Rightarrow> ret (a\<lparr>ap_password := PwEntry (input @ c)\<rparr>)
          | KBackspace \<Rightarrow> ret (a\<lparr>ap_password := PwEntry (pop_char input)\<rparr>)
          | KEsc \<Rightarrow> ret cleared
          | KEnter \<Rightarrow> ret (if input = [] then set_status ''type your login password first'' a
              else a\<lparr>ap_status := ''re-enter the same password to confirm'', ap_password := PwConfirm input []\<rparr>)
          | _ \<Rightarrow> ret a)
      | PwConfirm first input \<Rightarrow> (case k of
            KChar c \<Rightarrow> ret (a\<lparr>ap_password := PwConfirm first (input @ c)\<rparr>)
          | KBackspace \<Rightarrow> ret (a\<lparr>ap_password := PwConfirm first (pop_char input)\<rparr>)
          | KEsc \<Rightarrow> ret cleared
          | KEnter \<Rightarrow>
              if input \<noteq> first
              then ret (a\<lparr>ap_password := PwEntry [], ap_status := ''passwords do not match '' @ em_dash @ '' start over''\<rparr>)
              else seal_confirmed C first (a\<lparr>ap_password := PwEntry []\<rparr>)
          | _ \<Rightarrow> ret a)
      | _ \<Rightarrow> (case k of
            KChar c \<Rightarrow> ret (if c = ''r'' then a\<lparr>ap_password := PwEntry []\<rparr> else a)
          | KRight \<Rightarrow> wizard_next C V a
          | KLeft \<Rightarrow> wizard_prev C V a
          | _ \<Rightarrow> ret a))"

section \<open>Uninstall\<close>

definition leave_uninstall ::
  "('z tty_host_scheme, 'y) console_scheme \<Rightarrow> ('z tty_host_scheme, 'v) v4l_scheme \<Rightarrow> bool \<Rightarrow> app \<Rightarrow> ('z tty_host_scheme, 'e, app) act" where
  "leave_uninstall C V rm a = on_enter C V (a\<lparr>ap_uninstall := UnIdle rm, ap_screen := ScWelcome\<rparr>)"

definition perform_uninstall ::
  "('z tty_host_scheme, 'y) console_scheme \<Rightarrow> bool \<Rightarrow> app \<Rightarrow> ('z tty_host_scheme, 'e, app) act" where
  "perform_uninstall C rm a0 =
     (let a = log_activity (''uninstalling LinuxHello'' @ ellipsis) (a0\<lparr>ap_uninstall := UnWorking\<rparr>) in
      abind (try_act (uninstall C rm)) (\<lambda>r. case r of
        Inr lg \<Rightarrow> abind (redetect C a) (\<lambda>a1.
          ret ((log_activity ''LinuxHello uninstalled.'' a1)\<lparr>ap_uninstall := UnDone lg\<rparr>))
      | Inl e \<Rightarrow> ret ((log_activity (''uninstall aborted: '' @ e) a)\<lparr>ap_uninstall := UnFailed e\<rparr>)))"

definition uninstall_key ::
  "('z tty_host_scheme, 'y) console_scheme \<Rightarrow> ('z tty_host_scheme, 'v) v4l_scheme \<Rightarrow> key \<Rightarrow> app \<Rightarrow> ('z tty_host_scheme, 'e, app) act" where
  "uninstall_key C V k a = (case ap_uninstall a of
      UnIdle rm \<Rightarrow>
        if k = KChar ''d'' then ret (a\<lparr>ap_uninstall := UnIdle (\<not> rm)\<rparr>)
        else if k = KChar ''x''
        then ret (a\<lparr>ap_uninstall := UnConfirm rm [], ap_status := ''type '' @ uninstall_word @ '' to confirm, Esc to cancel''\<rparr>)
        else if k = KEsc then leave_uninstall C V rm a
        else ret a
    | UnConfirm rm input \<Rightarrow> (case k of
          KChar c \<Rightarrow> ret (a\<lparr>ap_uninstall := UnConfirm rm (input @ c)\<rparr>)
        | KBackspace \<Rightarrow> ret (a\<lparr>ap_uninstall := UnConfirm rm (pop_char input)\<rparr>)
        | KEsc \<Rightarrow> ret (a\<lparr>ap_uninstall := UnIdle rm, ap_status := ''uninstall cancelled''\<rparr>)
        | KEnter \<Rightarrow>
            if trim input = uninstall_word then perform_uninstall C rm a
            else ret (set_status (''type exactly '' @ uninstall_word) a)
        | _ \<Rightarrow> ret a)
    | _ \<Rightarrow> if k = KEsc \<or> k = KChar ''q'' then leave_uninstall C V True a else ret a)"

section \<open>Enrollment, login wiring, cameras and the threshold\<close>

definition can_start_enroll :: "enroll_state \<Rightarrow> bool" where
  "can_start_enroll e = (case e of EnIdle \<Rightarrow> True | EnDone _ \<Rightarrow> True | EnFailed _ \<Rightarrow> True | _ \<Rightarrow> False)"

definition enroll_key ::
  "('z tty_host_scheme, 'y) console_scheme \<Rightarrow> ('z tty_host_scheme, 'v) v4l_scheme \<Rightarrow> key \<Rightarrow> app \<Rightarrow> ('z tty_host_scheme, 'e, app) act" where
  "enroll_key C V k a =
     (if (k = KEnter \<or> k = KChar ''c'') \<and> can_start_enroll (ap_enroll a)
      then ret (a\<lparr>ap_enroll := EnFraming 0 0, enroll_last := None, ap_status := ''enrolling '' @ em_dash @ '' follow the cues''\<rparr>)
      else if k = KRight then wizard_next C V a
      else if k = KLeft then wizard_prev C V a
      else ret a)"

definition pam_apply ::
  "('z tty_host_scheme, 'y) console_scheme \<Rightarrow> bool \<Rightarrow> bool \<Rightarrow> app \<Rightarrow> ('z tty_host_scheme, 'e, app) act" where
  "pam_apply C enabling with_sudo a =
     abind (try_act (if enabling then enable (tools C) with_sudo False else disable (tools C) False)) (\<lambda>r.
     let a1 = (case r of
         Inr changes \<Rightarrow>
           log_all (map (\<lambda>c. ''   '' @ describe c) changes)
             (log_activity ((if enabling then ''enabling'' else ''disabling'') @ '' face login in PAM:'')
               (a\<lparr>pam_note := map describe changes\<rparr>))
       | Inl e \<Rightarrow> log_activity (''PAM change failed: '' @ e) (a\<lparr>pam_note := [''error: '' @ e]\<rparr>)) in
     abind (query pam_status) (\<lambda>st. redetect C (a1\<lparr>ap_pam := st\<rparr>)))"

definition pam_key ::
  "('z tty_host_scheme, 'y) console_scheme \<Rightarrow> ('z tty_host_scheme, 'v) v4l_scheme \<Rightarrow> key \<Rightarrow> app \<Rightarrow> ('z tty_host_scheme, 'e, app) act" where
  "pam_key C V k a = (case k of
      KChar c \<Rightarrow>
        if c = ''e'' then abind (pam_apply C True False a) (\<lambda>a1. ret (a1\<lparr>pending_platform_setup := True\<rparr>))
        else if c = ''a'' then abind (pam_apply C True True a) (\<lambda>a1. ret (a1\<lparr>pending_platform_setup := True\<rparr>))
        else if c = ''p'' then ret (a\<lparr>pending_platform_setup := True\<rparr>)
        else if c = ''d'' then pam_apply C False False a
        else ret a
    | KRight \<Rightarrow> wizard_next C V a
    | KLeft \<Rightarrow> wizard_prev C V a
    | _ \<Rightarrow> ret a)"

definition save_cameras ::
  "('z tty_host_scheme, 'y) console_scheme \<Rightarrow> app \<Rightarrow> ('z tty_host_scheme, 'e, app) act" where
  "save_cameras C a = (case sel_rgb a of
      None \<Rightarrow> ret (set_status ''pick an RGB camera first (press r)'' a)
    | Some rgb \<Rightarrow>
        abind (try_act (write_cameras_conf rgb (sel_ir a))) (\<lambda>r. case r of
          Inr _ \<Rightarrow> restart_logged C (log_activity (''wrote /etc/linhello/cameras.conf (rgb='' @ rgb @
              (case sel_ir a of Some p \<Rightarrow> '', ir='' @ p | None \<Rightarrow> []) @ '')'') (a\<lparr>cameras_saved := True\<rparr>))
        | Inl e \<Rightarrow> ret (log_activity (''could not write cameras.conf: '' @ err_to_string e) a)))"

definition highlighted_camera :: "app \<Rightarrow> string option" where
  "highlighted_camera a = (if cam_cursor a < length (ap_cameras a) then Some (ci_path (ap_cameras a ! cam_cursor a)) else None)"

definition cameras_key ::
  "('z tty_host_scheme, 'y) console_scheme \<Rightarrow> ('z tty_host_scheme, 'v) v4l_scheme \<Rightarrow> key \<Rightarrow> app \<Rightarrow> ('z tty_host_scheme, 'e, app) act" where
  "cameras_key C V k a = (case k of
      KUp \<Rightarrow> ret (a\<lparr>cam_cursor := cam_cursor a - 1\<rparr>)
    | KDown \<Rightarrow> ret (a\<lparr>cam_cursor := min (cam_cursor a + 1) (cursor_max (ap_cameras a))\<rparr>)
    | KChar c \<Rightarrow>
        if c = ''r'' then ret (case highlighted_camera a of
            Some p \<Rightarrow> a\<lparr>ap_status := ''RGB = '' @ p, sel_rgb := Some p\<rparr> | None \<Rightarrow> a)
        else if c = ''i'' then ret (case highlighted_camera a of
            Some p \<Rightarrow> a\<lparr>ap_status := ''IR = '' @ p, sel_ir := Some p\<rparr> | None \<Rightarrow> a)
        else if c = ''n'' then ret (a\<lparr>sel_ir := None, ap_status := ''IR cleared''\<rparr>)
        else if c = ''s'' then save_cameras C a
        else ret a
    | KRight \<Rightarrow> wizard_next C V a
    | KLeft \<Rightarrow> wizard_prev C V a
    | _ \<Rightarrow> ret a)"

definition reviewed_threshold :: "f32 \<Rightarrow> string \<Rightarrow> f32" where
  "reviewed_threshold rec input =
     (if trim input = [] then rec else f_clamp (unwrap_or rec (parse_f32 (trim input))) (f_lit 0.30) (f_lit 0.95))"

definition save_threshold ::
  "('z tty_host_scheme, 'y) console_scheme \<Rightarrow> f32 \<Rightarrow> app \<Rightarrow> ('z tty_host_scheme, 'e, app) act" where
  "save_threshold C v a =
     abind (try_act (write_kv ''settings.conf'' ''match_threshold'' (fmt_prec 2 v))) (\<lambda>r. case r of
       Inr _ \<Rightarrow>
         abind (restart_logged C (log_activity (''wrote match_threshold='' @ fmt_prec 2 v @ '' '' @ arrow @
           '' /etc/linhello/settings.conf'') a)) (\<lambda>a1. ret (a1\<lparr>ap_cal := CalSaved v\<rparr>))
     | Inl e \<Rightarrow> ret (log_activity (''could not write settings.conf: '' @ err_to_string e) a))"

definition threshold_char :: "string \<Rightarrow> bool" where
  "threshold_char c \<longleftrightarrow> c = ''.'' \<or> (\<exists>d\<in>set c. c = [d] \<and> is_digit d)"

definition calibrate_key ::
  "('z tty_host_scheme, 'y) console_scheme \<Rightarrow> ('z tty_host_scheme, 'v) v4l_scheme \<Rightarrow> key \<Rightarrow> app \<Rightarrow> ('z tty_host_scheme, 'e, app) act" where
  "calibrate_key C V k a = (case ap_cal a of
      CalSampling _ _ \<Rightarrow> ret a
    | CalReview scores rec input \<Rightarrow> (case k of
          KChar c \<Rightarrow> ret (if threshold_char c then a\<lparr>ap_cal := CalReview scores rec (input @ c)\<rparr> else a)
        | KBackspace \<Rightarrow> ret (a\<lparr>ap_cal := CalReview scores rec (pop_char input)\<rparr>)
        | KEnter \<Rightarrow> save_threshold C (reviewed_threshold rec input) a
        | _ \<Rightarrow> ret a)
    | _ \<Rightarrow> (case k of
          KChar c \<Rightarrow> ret (if c = ''c'' then a\<lparr>ap_cal := CalSampling [] 0\<rparr> else a)
        | KRight \<Rightarrow> wizard_next C V a
        | KLeft \<Rightarrow> wizard_prev C V a
        | _ \<Rightarrow> ret a))"

definition fingerprint_key ::
  "('z tty_host_scheme, 'y) console_scheme \<Rightarrow> key \<Rightarrow> app \<Rightarrow> ('z tty_host_scheme, 'e, app) act" where
  "fingerprint_key C k a =
     (if k = KChar ''e''
      then abind (fp_available C) (\<lambda>av. ret (if \<not> av
        then set_status ''no fingerprint reader detected (or fprintd not installed)'' a
        else a\<lparr>pending_fp_enable := True\<rparr>))
      else ret a)"

section \<open>Who gets the key\<close>

definition doctor_key ::
  "('z tty_host_scheme, 'y) console_scheme \<Rightarrow> key \<Rightarrow> app \<Rightarrow> ('z tty_host_scheme, 'e, app) act option" where
  "doctor_key C k a = (case k of
      KUp \<Rightarrow> Some (ret (scroll_doctor_up 1 a))
    | KDown \<Rightarrow> Some (ret (scroll_doctor_down 1 a))
    | KPageUp \<Rightarrow> Some (ret (scroll_doctor_up 10 a))
    | KPageDown \<Rightarrow> Some (ret (scroll_doctor_down 10 a))
    | KChar c \<Rightarrow>
        if c = ''r'' then Some (refresh_probe C a)
        else if c = ''s'' then
          Some (abind (try_act (restart_daemon_quiet C)) (\<lambda>r.
            let a1 = log_activity (''starting linhellod service (systemctl start)'' @ ellipsis) a in
            refresh_probe C (case r of
                Inr _ \<Rightarrow> log_activity ''started linhellod'' a1
              | Inl e \<Rightarrow> log_activity (''could not start linhellod: '' @ e) a1)))
        else None
    | _ \<Rightarrow> None)"

definition welcome_uninstall :: "app \<Rightarrow> app" where
  "welcome_uninstall a =
     (if is_installed (ap_install a) then a\<lparr>ap_screen := ScUninstall, ap_uninstall := UnIdle True\<rparr>
      else log_activity (''LinuxHello isn't installed '' @ em_dash @ '' nothing to uninstall.'') a)"

text \<open>Enter moves on where a screen has no use for it.\<close>

definition plain_key ::
  "('z tty_host_scheme, 'y) console_scheme \<Rightarrow> ('z tty_host_scheme, 'v) v4l_scheme \<Rightarrow> key \<Rightarrow> app \<Rightarrow> ('z tty_host_scheme, 'e, app) act" where
  "plain_key C V k a = (case k of
      KEnter \<Rightarrow> wizard_next C V a | KRight \<Rightarrow> wizard_next C V a | KLeft \<Rightarrow> wizard_prev C V a | _ \<Rightarrow> ret a)"

definition screen_key ::
  "('z tty_host_scheme, 'y) console_scheme \<Rightarrow> ('z tty_host_scheme, 'v) v4l_scheme \<Rightarrow> key \<Rightarrow> app \<Rightarrow> ('z tty_host_scheme, 'e, app) act" where
  "screen_key C V k a = (case ap_screen a of
      ScWelcome \<Rightarrow> if k = KChar ''u'' then ret (welcome_uninstall a) else plain_key C V k a
    | ScInstall \<Rightarrow> install_key C V k a
    | ScCameras \<Rightarrow> cameras_key C V k a
    | ScProfiles \<Rightarrow> profiles_key C V k a
    | ScCalibrate \<Rightarrow> calibrate_key C V k a
    | ScEnroll \<Rightarrow> enroll_key C V k a
    | ScIdentify \<Rightarrow> identify_key C V k a
    | ScPassword \<Rightarrow> password_key C V k a
    | ScPam \<Rightarrow> pam_key C V k a
    | ScFingerprint \<Rightarrow> fingerprint_key C k a
    | ScDone \<Rightarrow> if k = KChar ''r'' then ret (a\<lparr>pending_recovery := True\<rparr>) else plain_key C V k a
    | ScDoctor \<Rightarrow> (case doctor_key C k a of Some m \<Rightarrow> m | None \<Rightarrow> plain_key C V k a)
    | ScUninstall \<Rightarrow> plain_key C V k a)"

text \<open>The scrollback keys, with Shift.\<close>

definition scrollback_key :: "key \<Rightarrow> app \<Rightarrow> app option" where
  "scrollback_key k a = (case k of
      KUp \<Rightarrow> Some (scroll_activity_up 1 a)
    | KDown \<Rightarrow> Some (scroll_activity_down 1 a)
    | KPageUp \<Rightarrow> Some (scroll_activity_up 5 a)
    | KPageDown \<Rightarrow> Some (scroll_activity_down 5 a)
    | _ \<Rightarrow> None)"

definition editing_path :: "app \<Rightarrow> bool" where
  "editing_path a = (case ap_install_step a of InModelPath _ \<Rightarrow> True | _ \<Rightarrow> False)"

definition typing_password :: "app \<Rightarrow> bool" where
  "typing_password a = (case ap_password a of PwEntry _ \<Rightarrow> True | PwConfirm _ _ \<Rightarrow> True | _ \<Rightarrow> False)"

definition focused_key ::
  "('z tty_host_scheme, 'y) console_scheme \<Rightarrow> ('z tty_host_scheme, 'v) v4l_scheme \<Rightarrow> key \<Rightarrow> app \<Rightarrow> ('z tty_host_scheme, 'e, app) act" where
  "focused_key C V k a =
     (if ap_screen a = ScProfiles \<and> name_input a \<noteq> None then name_edit_key C k a
      else if ap_screen a = ScProfiles \<and> new_profile_input a \<noteq> None then ret (new_profile_edit_key k a)
      else if ap_screen a = ScInstall \<and> editing_path a then install_key C V k a
      else if ap_screen a = ScPassword \<and> typing_password a then password_key C V k a
      else if k = KChar ''q'' \<or> k = KEsc then ret (a\<lparr>should_quit := True\<rparr>)
      else screen_key C V k a)"

definition on_key ::
  "('z tty_host_scheme, 'y) console_scheme \<Rightarrow> ('z tty_host_scheme, 'v) v4l_scheme \<Rightarrow> bool \<Rightarrow> key \<Rightarrow> app
   \<Rightarrow> ('z tty_host_scheme, 'e, app) act" where
  "on_key C V shift k a =
     (case (if shift then scrollback_key k a else None) of
        Some b \<Rightarrow> ret b
      | None \<Rightarrow>
          if ap_screen a = ScUninstall then uninstall_key C V k a
          else if ap_screen a = ScProfiles \<and> delete_confirm a \<noteq> None then delete_confirm_key C k a
          else if k = KTab \<or> k = KRight then wizard_next C V a
          else if k = KBackTab \<or> k = KLeft then wizard_prev C V a
          else focused_key C V k a)"

end
