(* ===== verification/TuiLoop.thy ===== *)
theory TuiLoop
  imports TuiKeys
begin

text \<open>
  The work between keys and the event loop of the full-screen interface, crates/linhello-cli/src/tui.rs:
  live detection, calibration, guided enrollment, and the steps that suspend the interface. One
  iteration of the loop is given what it meets: the geometry the drawing left, the event, whether a
  second has passed since the last rescan, and the result of the update check when it has arrived.
\<close>

section \<open>Live detection\<close>

text \<open>A change of the hardware's readiness is noted.\<close>

definition note_readiness :: "policy_status option \<Rightarrow> app \<Rightarrow> app" where
  "note_readiness before a = (case (before, ap_policy a) of
      (Some old, Some p) \<Rightarrow>
        if ps_hardware_ready old \<and> \<not> ps_hardware_ready p \<and> ps_hardware_note p \<noteq> []
        then log_activity (ps_hardware_note p) a
        else if \<not> ps_hardware_ready old \<and> ps_hardware_ready p
        then log_activity (''IR camera reconnected '' @ em_dash @ '' secure tier fully active again'') a
        else a
    | _ \<Rightarrow> a)"

definition see_cameras :: "camera_node list \<Rightarrow> app \<Rightarrow> app" where
  "see_cameras cams a0 =
     (let a = (if length cams \<noteq> length (ap_cameras a0)
               then log_activity (''cameras changed: '' @ show_nat (length cams) @ '' device(s) now present'') a0 else a0)
      in a\<lparr>ap_cameras := cams,
           cam_cursor := (if cam_cursor a \<ge> length cams then cursor_max cams else cam_cursor a)\<rparr>)"

definition poll_live ::
  "('z tty_host_scheme, 'y) console_scheme \<Rightarrow> ('z tty_host_scheme, 'v) v4l_scheme \<Rightarrow> app \<Rightarrow> ('z tty_host_scheme, 'e, app) act" where
  "poll_live C V a0 =
     abind (redetect C a0) (\<lambda>a1.
     abind (query (enumerate_cameras V)) (\<lambda>cams.
     let a = see_cameras cams a1 in
     case ap_screen a of
       ScDoctor \<Rightarrow> abind (refresh_probe C a) (\<lambda>b. ret (note_readiness (ap_policy a) b))
     | ScProfiles \<Rightarrow> refresh_profiles C a
     | ScPam \<Rightarrow> abind (query pam_status) (\<lambda>st. ret (a\<lparr>ap_pam := st\<rparr>))
     | _ \<Rightarrow> ret a))"

section \<open>Guided enrollment\<close>

definition poll_position ::
  "('z tty_host_scheme, 'y) console_scheme \<Rightarrow> ('z tty_host_scheme, 'e, position_report option) act" where
  "poll_position C =
     abind (try_act (send C RPositionSample)) (\<lambda>r. ret (case r of Inr (SPosition rep) \<Rightarrow> Some rep | _ \<Rightarrow> None))"

definition do_enroll_capture ::
  "('z tty_host_scheme, 'y) console_scheme \<Rightarrow> app \<Rightarrow> ('z tty_host_scheme, string, unit) act" where
  "do_enroll_capture C a =
     abind (send C (REnroll (active_profile a) False)) (\<lambda>r. case r of
       SEnrolled _ \<Rightarrow> ret ()
     | SError m \<Rightarrow> fail m
     | other \<Rightarrow> fail (''unexpected response: '' @ show_response C other))"

definition good_frame :: "position_report option \<Rightarrow> bool" where
  "good_frame r = (case r of Some p \<Rightarrow> pr_well_framed p \<and> pr_quality p \<ge> enroll_qual_min | None \<Rightarrow> False)"

definition framed :: "nat \<Rightarrow> nat \<Rightarrow> bool \<Rightarrow> enroll_state" where
  "framed captured streak good =
     (let n = (if good then streak + 1 else 0) in
      if n \<ge> enroll_streak then EnCountdown captured 3 else EnFraming captured n)"

definition sample_stored ::
  "('z tty_host_scheme, 'y) console_scheme \<Rightarrow> nat \<Rightarrow> app \<Rightarrow> ('z tty_host_scheme, 'e, app) act" where
  "sample_stored C n a0 =
     (let a = log_activity (''stored face sample '' @ show_nat n @ ''/'' @ show_nat enroll_target @ '' (encrypted) '' @ arrow @
          '' /etc/linhello/'' @ active_profile a0 @ ''/embedding.enc'') a0 in
      if n \<ge> enroll_target then abind (redetect C a) (\<lambda>b. ret (b\<lparr>ap_enroll := EnDone n\<rparr>))
      else ret (a\<lparr>ap_enroll := EnFraming n 0\<rparr>))"

definition tick_enroll ::
  "('z tty_host_scheme, 'y) console_scheme \<Rightarrow> app \<Rightarrow> ('z tty_host_scheme, 'e, app) act" where
  "tick_enroll C a0 = (case ap_enroll a0 of
      EnFraming captured streak \<Rightarrow>
        abind (poll_position C) (\<lambda>r.
        ret (a0\<lparr>enroll_last := r, ap_enroll := framed captured streak (good_frame r)\<rparr>))
    | EnCountdown captured left \<Rightarrow>
        abind (poll_position C) (\<lambda>r.
        let a = a0\<lparr>enroll_last := r\<rparr> in
        if \<not> good_frame r then ret (a\<lparr>ap_enroll := EnFraming captured 0\<rparr>)
        else if left \<le> 1 then
          abind (try_act (do_enroll_capture C a)) (\<lambda>c. case c of
            Inr _ \<Rightarrow> sample_stored C (captured + 1) a
          | Inl e \<Rightarrow> ret ((log_activity (''enroll capture failed: '' @ e) a)\<lparr>ap_enroll := EnFailed e\<rparr>))
        else ret (a\<lparr>ap_enroll := EnCountdown captured (left - 1)\<rparr>))
    | _ \<Rightarrow> ret a0)"

section \<open>Identification and calibration\<close>

definition tick_identify ::
  "('z tty_host_scheme, 'y) console_scheme \<Rightarrow> app \<Rightarrow> ('z tty_host_scheme, 'e, app) act" where
  "tick_identify C a =
     (if ap_identify a \<noteq> IdRunning then ret a
      else
        abind (try_act (send C RIdentify)) (\<lambda>r. ret (case r of
            Inr (SIdentified b t cs) \<Rightarrow> a\<lparr>ap_status := ''identified'', ap_identify := IdDone b t cs\<rparr>
          | Inr (SError m) \<Rightarrow> a\<lparr>ap_identify := IdFailed m\<rparr>
          | Inr other \<Rightarrow> a\<lparr>ap_identify := IdFailed (''unexpected: '' @ show_response C other)\<rparr>
          | Inl e \<Rightarrow> a\<lparr>ap_identify := IdFailed e\<rparr>)))"

definition sampled :: "f32 list \<Rightarrow> nat \<Rightarrow> cal_state" where
  "sampled scores attempts =
     (if length scores \<ge> cal_target \<or> attempts \<ge> cal_max_attempts
      then (if length scores < 3 then CalNotEnough else CalReview scores (recommended_threshold scores) [])
      else CalSampling scores attempts)"

definition tick_calibrate ::
  "('z tty_host_scheme, 'y) console_scheme \<Rightarrow> app \<Rightarrow> ('z tty_host_scheme, 'e, app) act" where
  "tick_calibrate C a = (case ap_cal a of
      CalSampling scores0 attempts \<Rightarrow>
        abind (try_act (send C (RVerify (ap_user a)))) (\<lambda>r.
        let scores = (case r of Inr (SVerified _ score _) \<Rightarrow> scores0 @ [score] | _ \<Rightarrow> scores0) in
        ret (a\<lparr>ap_status := ''calibrating'' @ ellipsis @ '' '' @ show_nat (length scores) @ ''/'' @ show_nat cal_target,
          ap_cal := sampled scores (attempts + 1)\<rparr>))
    | _ \<Rightarrow> ret a)"

definition see_update ::
  "('z tty_host_scheme, 'y) console_scheme \<Rightarrow> update_status option \<Rightarrow> app \<Rightarrow> ('z tty_host_scheme, 'e, app) act" where
  "see_update C arrived a =
     (case (if ap_update_pending a then arrived else None) of
        None \<Rightarrow> ret a
      | Some st \<Rightarrow>
          abind (if newer_available st \<and> us_latest st \<noteq> None
            then abind (update_hint C) (\<lambda>h. ret (push_activity (''update available: v'' @ unwrap_or [] (us_latest st) @
              '' (you have v'' @ us_current st @ ''). Update: '' @ h) a))
            else ret a) (\<lambda>b. ret (b\<lparr>ap_update := Some st, ap_update_pending := False\<rparr>)))"

definition app_tick ::
  "('z tty_host_scheme, 'y) console_scheme \<Rightarrow> ('z tty_host_scheme, 'v) v4l_scheme \<Rightarrow> bool \<Rightarrow> update_status option \<Rightarrow> app
   \<Rightarrow> ('z tty_host_scheme, 'e, app) act" where
  "app_tick C V due arrived a0 =
     abind (see_update C arrived a0) (\<lambda>a1.
     abind (if due then poll_live C V a1 else ret a1) (\<lambda>a.
     case ap_screen a of
       ScEnroll \<Rightarrow> tick_enroll C a
     | ScIdentify \<Rightarrow> tick_identify C a
     | ScCalibrate \<Rightarrow> tick_calibrate C a
     | _ \<Rightarrow> ret a))"

section \<open>Suspended steps\<close>

definition press_enter :: "('z tty_host_scheme, 'e, unit) act" where
  "press_enter =
     abind (put (nl # ''Press Enter to return to the wizard'' @ ellipsis @ '' '')) (\<lambda>_. ignore read_stdin)"

text \<open>A step of the command line run in the normal terminal, its failure shown and swallowed.\<close>

definition suspended ::
  "string \<Rightarrow> ('z tty_host_scheme, cli_end, unit) act \<Rightarrow> string list \<Rightarrow> string \<Rightarrow> ('z tty_host_scheme, cli_end, unit) act" where
  "suspended title m done failed =
     abind (say_all [nl # em_dash @ '' LinuxHello: '' @ title @ '' '' @ em_dash @ [nl]]) (\<lambda>_.
     abind (attempt m) (\<lambda>r.
     abind (say_all (case r of Inr _ \<Rightarrow> done | Inl e \<Rightarrow> [failed @ e])) (\<lambda>_. press_enter)))"

definition run_fingerprint_enable_suspended ::
  "('z tty_host_scheme, 'y) console_scheme \<Rightarrow> string \<Rightarrow> ('z tty_host_scheme, cli_end, unit) act" where
  "run_fingerprint_enable_suspended C user =
     suspended ''set up fingerprint'' (fingerprint_enable C user) [nl # ''Fingerprint set up.'']
       (nl # ''Fingerprint setup did not finish: '')"

definition run_platform_setup_suspended ::
  "('z tty_host_scheme, 'y) console_scheme \<Rightarrow> ('z tty_host_scheme, cli_end, unit) act" where
  "run_platform_setup_suspended C =
     abind (say (nl # em_dash @ '' LinuxHello: platform integration (SELinux, reseal hook) '' @ em_dash @ [nl])) (\<lambda>_.
     abind (attempt (selinux_setup_step C)) (\<lambda>r1.
     abind (case r1 of Inr _ \<Rightarrow> ret () | Inl e \<Rightarrow> say (''  SELinux step did not finish: '' @ e)) (\<lambda>_.
     abind (attempt (reseal_hook_setup_step C)) (\<lambda>r2.
     abind (case r2 of Inr _ \<Rightarrow> ret () | Inl e \<Rightarrow> say (''  reseal-hook step did not finish: '' @ e)) (\<lambda>_.
     press_enter)))))"

definition run_recovery_suspended ::
  "('z tty_host_scheme, 'y) console_scheme \<Rightarrow> string \<Rightarrow> ('z tty_host_scheme, cli_end, unit) act" where
  "run_recovery_suspended C user =
     suspended ''recovery passphrase''
       (abind (say_all [''A backstop SEPARATE from your login password, for when the automatic'',
          ''self-heal can'' @ [CHR 0x27] @ ''t run (Secure Boot off, TPM cleared, disk moved).'' @ [nl]]) (\<lambda>_.
        set_recovery_interactive C user))
       [nl # ''Recovery passphrase set.''] (nl # ''Recovery passphrase not set: '')"

definition serve_pending ::
  "('z tty_host_scheme, 'y) console_scheme \<Rightarrow> ('z tty_host_scheme, 'v) v4l_scheme \<Rightarrow> app \<Rightarrow> ('z tty_host_scheme, cli_end, app) act" where
  "serve_pending C V a0 =
     abind (if pending_fp_enable a0
       then abind (run_fingerprint_enable_suspended C (active_profile a0)) (\<lambda>_. refresh_fingerprint C V (a0\<lparr>pending_fp_enable := False\<rparr>))
       else ret a0) (\<lambda>a1.
     abind (if pending_platform_setup a1
       then abind (run_platform_setup_suspended C) (\<lambda>_.
         abind (query pam_status) (\<lambda>st. redetect C (a1\<lparr>pending_platform_setup := False, ap_pam := st\<rparr>)))
       else ret a1) (\<lambda>a2.
     if pending_recovery a2
     then abind (run_recovery_suspended C (active_profile a2)) (\<lambda>_. ret (a2\<lparr>pending_recovery := False\<rparr>))
     else ret a2))"

section \<open>The event loop\<close>

datatype tui_event = KeyPress key bool | MouseEv mouse_kind nat nat | NoEvent

record moment =
  mo_geometry :: geometry
  mo_event :: tui_event
  mo_due :: bool
  mo_update :: "update_status option"

definition handle_event ::
  "('z tty_host_scheme, 'y) console_scheme \<Rightarrow> ('z tty_host_scheme, 'v) v4l_scheme \<Rightarrow> tui_event \<Rightarrow> app
   \<Rightarrow> ('z tty_host_scheme, 'e, app) act" where
  "handle_event C V ev a = (case ev of
      KeyPress k shift \<Rightarrow> on_key C V shift k a
    | MouseEv k col row \<Rightarrow> ret (on_mouse k col row a)
    | NoEvent \<Rightarrow> ret a)"

definition iteration ::
  "('z tty_host_scheme, 'y) console_scheme \<Rightarrow> ('z tty_host_scheme, 'v) v4l_scheme \<Rightarrow> moment \<Rightarrow> app
   \<Rightarrow> ('z tty_host_scheme, cli_end, app) act" where
  "iteration C V m a =
     abind (handle_event C V (mo_event m) (a\<lparr>ap_geometry := mo_geometry m\<rparr>)) (\<lambda>b.
     abind (serve_pending C V b) (\<lambda>c. app_tick C V (mo_due m) (mo_update m) c))"

text \<open>The loop over the moments it meets; it ends when the user quits, or has met them all.\<close>

fun event_loop ::
  "('z tty_host_scheme, 'y) console_scheme \<Rightarrow> ('z tty_host_scheme, 'v) v4l_scheme \<Rightarrow> moment list \<Rightarrow> app
   \<Rightarrow> ('z tty_host_scheme, cli_end, app) act" where
  "event_loop C V [] a = ret a"
| "event_loop C V (m # ms) a =
     (if should_quit a then ret a else abind (iteration C V m a) (event_loop C V ms))"

definition tui_session ::
  "('z tty_host_scheme, 'y) console_scheme \<Rightarrow> ('z tty_host_scheme, 'v) v4l_scheme \<Rightarrow> moment list \<Rightarrow> string
   \<Rightarrow> ('z tty_host_scheme, cli_end, app) act" where
  "tui_session C V ms user = abind (app_new C V user) (\<lambda>a. abind (on_enter C V a) (event_loop C V ms))"

definition run_tui ::
  "('z tty_host_scheme, 'y) console_scheme \<Rightarrow> ('z tty_host_scheme, 'v) v4l_scheme \<Rightarrow> bool \<Rightarrow> moment list \<Rightarrow> string
   \<Rightarrow> ('z tty_host_scheme, cli_end, app) act" where
  "run_tui C V is_terminal ms user =
     (if \<not> is_terminal
      then fail (Bail ''the TUI needs an interactive terminal; use `linhello setup` for the headless wizard'')
      else tui_session C V ms user)"

end
