(* ===== verification/TuiInv.thy ===== *)
theory TuiInv
  imports TuiLoop
begin

text \<open>
  What the properties of the full-screen interface share: computations by the results they give, the
  well-formedness of the interface's state, the preorder of the changes that leave its step machines
  alone, and which of its operations respect it.
\<close>

section \<open>What a computation returns\<close>

text \<open>Every result a computation returns satisfies P; a failure or a panic returns none.\<close>

definition gives :: "('a \<Rightarrow> bool) \<Rightarrow> ('w, 'e, 'a) act \<Rightarrow> bool" where
  "gives P m \<longleftrightarrow> (\<forall>w x v. m w = (Ok x, v) \<longrightarrow> P x)"

lemma givesD: "gives P m \<Longrightarrow> m w = (Ok x, v) \<Longrightarrow> P x"
  by (auto simp: gives_def)

lemma gives_ret: "P x \<Longrightarrow> gives P (ret x)"
  by (simp add: gives_def)

lemma gives_fail: "gives P (fail e)"
  by (simp add: gives_def)

lemma gives_bind: "(\<And>x. gives P (f x)) \<Longrightarrow> gives P (abind m f)"
  by (auto simp: gives_def abind_result)

lemma gives_bind_from: "gives Q m \<Longrightarrow> (\<And>x. Q x \<Longrightarrow> gives P (f x)) \<Longrightarrow> gives P (abind m f)"
  unfolding gives_def abind_result by blast

lemma gives_weaken: "gives Q m \<Longrightarrow> (\<And>x. Q x \<Longrightarrow> P x) \<Longrightarrow> gives P m"
  by (auto simp: gives_def)

lemma gives_conj: "gives P m \<Longrightarrow> gives Q m \<Longrightarrow> gives (\<lambda>x. P x \<and> Q x) m"
  by (auto simp: gives_def)

text \<open>A preorder on the application that a computation moves along, on the frame interface.\<close>

context frame
begin

lemma gives_then:
  assumes "gives (R a) m" and "\<And>b. gives (R b) (f b)"
  shows "gives (R a) (abind m f)"
proof (rule gives_bind_from [OF assms(1)])
  fix b
  assume "R a b"
  then show "gives (R a) (f b)" by (intro gives_weaken [OF assms(2) [of b]]) (rule frame_trans)
qed

lemma gives_from: "R a b \<Longrightarrow> gives (R b) m \<Longrightarrow> gives (R a) m"
  by (auto intro: gives_weaken frame_trans)

lemma gives_self: "gives (R a) (ret a)"
  by (intro gives_ret frame_refl)

end

section \<open>The state is well formed\<close>

text \<open>A calibration under way has drawn fewer samples than it may and has fewer scores than it
  wants; a reviewed threshold is the recommendation for the scores.\<close>

definition cal_ok :: "cal_state \<Rightarrow> bool" where
  "cal_ok c = (case c of
      CalSampling scores attempts \<Rightarrow> length scores < cal_target \<and> length scores \<le> attempts \<and> attempts < cal_max_attempts
    | CalReview scores rec _ \<Rightarrow> 3 \<le> length scores \<and> length scores \<le> cal_target \<and> rec = recommended_threshold scores
    | _ \<Rightarrow> True)"

definition enroll_ok :: "enroll_state \<Rightarrow> bool" where
  "enroll_ok e = (case e of
      EnFraming captured streak \<Rightarrow> captured < enroll_target \<and> streak < enroll_streak
    | EnCountdown captured left \<Rightarrow> captured < enroll_target \<and> 1 \<le> left \<and> left \<le> 3
    | EnDone n \<Rightarrow> n = enroll_target
    | _ \<Rightarrow> True)"

text \<open>A password is confirmed only after one was typed, and no removal is left half-way.\<close>

definition password_ok :: "password_step \<Rightarrow> bool" where
  "password_ok p = (case p of PwConfirm first _ \<Rightarrow> first \<noteq> [] | _ \<Rightarrow> True)"

definition log_ok :: "app \<Rightarrow> bool" where
  "log_ok a \<longleftrightarrow> length (ap_activity a) \<le> activity_max"

definition cursors_ok :: "app \<Rightarrow> bool" where
  "cursors_ok a \<longleftrightarrow> profile_cursor a \<le> cursor_max (ap_profiles a) \<and> cam_cursor a \<le> cursor_max (ap_cameras a)"

definition tui_ok :: "app \<Rightarrow> bool" where
  "tui_ok a \<longleftrightarrow> log_ok a \<and> cursors_ok a \<and> cal_ok (ap_cal a) \<and> enroll_ok (ap_enroll a) \<and>
     password_ok (ap_password a) \<and> ap_uninstall a \<noteq> UnWorking"

text \<open>
  Most of what the interface does touches none of the step machines: it keeps the screen and their
  states, and the log and the cursors where they are in bounds.
\<close>

definition machines :: "app \<Rightarrow> screen \<times> cal_state \<times> enroll_state \<times> password_step \<times> uninstall_state" where
  "machines a = (ap_screen a, ap_cal a, ap_enroll a, ap_password a, ap_uninstall a)"

definition bounded_from :: "app \<Rightarrow> app \<Rightarrow> bool" where
  "bounded_from a b \<longleftrightarrow> (log_ok a \<longrightarrow> log_ok b) \<and> (cursors_ok a \<longrightarrow> cursors_ok b)"

definition tame :: "app \<Rightarrow> app \<Rightarrow> bool" where
  "tame a b \<longleftrightarrow> machines b = machines a \<and> bounded_from a b"

interpretation tame: frame tame
  by unfold_locales (auto simp: tame_def bounded_from_def)

interpretation bounded: frame bounded_from
  by unfold_locales (auto simp: bounded_from_def)

lemma tame_ok: "tui_ok a \<Longrightarrow> tame a b \<Longrightarrow> tui_ok b"
  by (auto simp: tui_ok_def tame_def machines_def bounded_from_def)

lemma tame_screen: "tame a b \<Longrightarrow> ap_screen b = ap_screen a"
  by (simp add: tame_def machines_def)

lemmas tame_simps = tame_def machines_def bounded_from_def cursors_ok_def log_ok_def

lemma log_capped: "length (ap_activity (push_activity m a)) \<le> activity_max"
  by (simp add: push_activity_def Let_def activity_max_def)

lemma tame_push [intro!]: "tame a b \<Longrightarrow> tame a (push_activity m b)"
  using log_capped [of m b] by (auto simp: tame_simps push_activity_def Let_def)

lemma tame_status [intro!]: "tame a b \<Longrightarrow> tame a (b\<lparr>ap_status := s\<rparr>)"
  by (auto simp: tame_simps)

lemma tame_log [intro!]: "tame a b \<Longrightarrow> tame a (log_activity m b)"
  by (auto simp: log_activity_def)

lemma tame_log_all [intro!]: "tame a b \<Longrightarrow> tame a (log_all ls b)"
  unfolding log_all_def by (induction ls arbitrary: b) auto

lemma tame_set_status [intro!]: "tame a b \<Longrightarrow> tame a (set_status s b)"
  by (auto simp: set_status_def)

text \<open>Updates of one field that no machine and no bound is about.\<close>

lemma tame_fields [intro!]:
  assumes "tame a b"
  shows "tame a (b\<lparr>ap_install := i\<rparr>)" "tame a (b\<lparr>ap_pam := st\<rparr>)" "tame a (b\<lparr>pam_note := ns\<rparr>)"
    "tame a (b\<lparr>name_input := no\<rparr>)" "tame a (b\<lparr>new_profile_input := no\<rparr>)" "tame a (b\<lparr>delete_confirm := no\<rparr>)"
    "tame a (b\<lparr>active_profile := u\<rparr>)" "tame a (b\<lparr>sel_rgb := no\<rparr>)" "tame a (b\<lparr>sel_ir := no\<rparr>)"
    "tame a (b\<lparr>cameras_saved := t\<rparr>)" "tame a (b\<lparr>group_ensured := t\<rparr>)" "tame a (b\<lparr>pending_fp_enable := t\<rparr>)"
    "tame a (b\<lparr>pending_platform_setup := t\<rparr>)" "tame a (b\<lparr>pending_recovery := t\<rparr>)" "tame a (b\<lparr>should_quit := t\<rparr>)"
    "tame a (b\<lparr>ap_update := us\<rparr>)" "tame a (b\<lparr>ap_update_pending := t\<rparr>)" "tame a (b\<lparr>ap_install_step := ist\<rparr>)"
    "tame a (b\<lparr>ap_identify := ids\<rparr>)" "tame a (b\<lparr>doctor_scroll := n\<rparr>)" "tame a (b\<lparr>activity_scroll_up := n\<rparr>)"
    "tame a (b\<lparr>ap_dragging := dr\<rparr>)" "tame a (b\<lparr>ap_geometry := g\<rparr>)" "tame a (b\<lparr>enroll_last := pr\<rparr>)"
    "tame a (b\<lparr>ap_report := rp\<rparr>)" "tame a (b\<lparr>ap_policy := po\<rparr>)"
    "tame a (b\<lparr>fp_reader := no\<rparr>)" "tame a (b\<lparr>fp_enrolled := ns\<rparr>)" "tame a (b\<lparr>fp_methods := am\<rparr>)"
    "tame a (b\<lparr>fp_named := nd\<rparr>)" "tame a (b\<lparr>fp_method := s\<rparr>)" "tame a (b\<lparr>profile_cursor := 0\<rparr>)"
    "tame a (b\<lparr>profile_cursor := profile_cursor b - 1\<rparr>)" "tame a (b\<lparr>cam_cursor := cam_cursor b - 1\<rparr>)"
    "tame a (b\<lparr>profile_cursor := profile_cursor b - Suc 0\<rparr>)" "tame a (b\<lparr>cam_cursor := cam_cursor b - Suc 0\<rparr>)"
    "tame a (b\<lparr>profile_cursor := min c (cursor_max (ap_profiles b))\<rparr>)"
    "tame a (b\<lparr>cam_cursor := min c (cursor_max (ap_cameras b))\<rparr>)"
    "tame a (b\<lparr>ap_profiles := ps, profile_cursor := min c (cursor_max ps)\<rparr>)"
    "tame a (b\<lparr>ap_cameras := cams, cam_cursor := min c (cursor_max cams)\<rparr>)"
  using assms by (auto simp: tame_simps)

lemma tame_refl [simp, intro!]: "tame a a"
  by (rule tame.frame_refl)

lemmas gives_intros = gives_ret gives_fail gives_bind

section \<open>Operations that leave the step machines alone\<close>

lemma tame_redetect [intro!]: "tame a b \<Longrightarrow> gives (tame a) (redetect C b)"
  unfolding redetect_def by (intro gives_intros tame_fields)

lemma tame_restart [intro!]: "tame a b \<Longrightarrow> gives (tame a) (restart_logged C b)"
  unfolding restart_logged_def by (intro gives_intros) (auto split: sum.split)

lemma tame_refresh_profiles [intro!]: "tame a b \<Longrightarrow> gives (tame a) (refresh_profiles C b)"
  unfolding refresh_profiles_def by (intro gives_intros) (auto split: sum.split response.split)

lemma tame_refresh_probe [intro!]: "tame a b \<Longrightarrow> gives (tame a) (refresh_probe C b)"
  unfolding refresh_probe_def by (intro gives_intros tame_fields)

lemma tame_refresh_fingerprint [intro!]: "tame a b \<Longrightarrow> gives (tame a) (refresh_fingerprint C V b)"
  unfolding refresh_fingerprint_def
  by (intro gives_intros) (auto intro!: gives_intros simp: case_prod_beta)

lemma tame_enter_pam [intro!]: "tame a b \<Longrightarrow> gives (tame a) (enter_pam C b)"
  unfolding enter_pam_def Let_def by (intro gives_bind) (auto intro!: gives_intros split: if_splits)

lemma tame_pam_apply [intro!]: "tame a b \<Longrightarrow> gives (tame a) (pam_apply C en su b)"
  unfolding pam_apply_def Let_def
  by (intro gives_bind tame_redetect tame_fields) (auto split: sum.split)

lemma tame_save_cameras [intro!]: "tame a b \<Longrightarrow> gives (tame a) (save_cameras C b)"
  unfolding save_cameras_def
  by (auto split: option.split sum.split intro!: gives_intros)

lemma tame_install_models [intro!]: "tame a b \<Longrightarrow> gives (tame a) (install_models C dir lg failed back b)"
  unfolding install_models_def
proof (rule gives_bind)
  fix r
  assume t: "tame a b"
  have "gives (tame a) (abind (redetect C (log_all mlog b))
      (\<lambda>a1. abind (restart_logged C a1) (\<lambda>a2. ret (a2\<lparr>ap_install_step := InDone (lg @ mlog)\<rparr>))))" for mlog
    using t by (intro tame.gives_then tame_redetect gives_intros tame_fields tame_restart tame_log_all) auto
  then show "gives (tame a) (case r of
       Inr mlog \<Rightarrow> abind (redetect C (log_all mlog b))
         (\<lambda>a1. abind (restart_logged C a1) (\<lambda>a2. ret (a2\<lparr>ap_install_step := InDone (lg @ mlog)\<rparr>)))
     | Inl e \<Rightarrow> ret ((log_activity (failed @ e) b)\<lparr>ap_install_step := InModelPath back\<rparr>))"
    using t by (auto split: sum.split intro!: gives_ret)
qed

lemma tame_install_deploy [intro!]:
  assumes "tame a b"
  shows "gives (tame a) (install_deploy C b)"
proof -
  have deployed: "gives (tame a) (abind (redetect C c) (\<lambda>a1.
      if models_present (ap_install a1) then ret (a1\<lparr>ap_install_step := InDone d\<rparr>)
      else abind (query (bundled_models_dir C)) (\<lambda>d. case d of
          Some dir \<Rightarrow> install_models C dir lg ''bundled copy failed: '' dir
            (log_activity (''found bundled models in '' @ dir @ '' '' @ em_dash @ '' installing them'') a1)
        | None \<Rightarrow> ret ((log_activity (''models missing '' @ em_dash @ '' point me at the .onnx folder'') a1)
            \<lparr>ap_install_step := InModelPath []\<rparr>))))" if "tame a c" for c d lg
    by (rule tame.gives_then [OF tame_redetect [OF that]])
      (auto intro!: gives_intros split: option.split simp del: append.simps)
  then show ?thesis
    unfolding install_deploy_def Let_def using assms
    by (intro gives_bind) (auto split: sum.split intro!: gives_ret deployed simp del: append.simps)
qed

lemma tame_save_name [intro!]: "tame a b \<Longrightarrow> gives (tame a) (save_name C n b)"
  unfolding save_name_def
  by (auto split: option.split sum.split response.split intro!: gives_intros simp del: append.simps)

lemma tame_name_edit [intro!]: "gives (tame a) (name_edit_key C k a)"
  unfolding name_edit_key_def by (auto split: option.split key.split intro!: gives_intros)

lemma tame_new_profile_edit [intro!]: "tame a (new_profile_edit_key k a)"
  unfolding new_profile_edit_key_def by (auto split: option.split key.split simp: Let_def simp del: append.simps)

lemma tame_delete_confirm [intro!]: "gives (tame a) (delete_confirm_key C k a)"
  unfolding delete_confirm_key_def
  by (auto split: option.split sum.split response.split intro!: gives_intros simp: Let_def simp del: append.simps)

lemma tame_profiles_char [intro!]: "tame a (profiles_char c a)"
  unfolding profiles_char_def by (auto split: option.split simp del: append.simps)

lemma tame_fingerprint_key [intro!]: "gives (tame a) (fingerprint_key C k a)"
  unfolding fingerprint_key_def by (auto intro!: gives_intros simp del: append.simps)

lemma tame_scroll [intro!]:
  "tame a b \<Longrightarrow> tame a (scroll_activity_up n b)" "tame a b \<Longrightarrow> tame a (scroll_activity_down n b)"
  "tame a b \<Longrightarrow> tame a (scroll_doctor_up n b)" "tame a b \<Longrightarrow> tame a (scroll_doctor_down n b)"
  by (auto simp: scroll_activity_up_def scroll_activity_down_def scroll_doctor_up_def scroll_doctor_down_def)

lemma tame_drag [intro!]: "tame a b \<Longrightarrow> tame a (drag_to t row b)"
  unfolding drag_to_def Let_def by (auto split: scroll_target.split)

lemma tame_mouse [intro!]: "tame a (on_mouse k col row a)"
  unfolding on_mouse_def Let_def by (auto split: mouse_kind.split scroll_target.split option.split)

lemma tame_doctor_key: "doctor_key C k a = Some m \<Longrightarrow> gives (tame a) m"
  unfolding doctor_key_def
  by (auto split: key.splits if_splits sum.split intro!: gives_intros simp: Let_def simp del: append.simps)

lemma tame_scrollback: "scrollback_key k a = Some b \<Longrightarrow> tame a b"
  unfolding scrollback_key_def by (auto split: key.splits)

section \<open>Moving between the screens\<close>

text \<open>The wizard as an abstract relation on the screens: one step ahead where the gate is open,
  the password screen being passed over where it does not apply, one step back at any time, and the
  way from the first screen to the uninstaller and back.\<close>

definition place :: "screen \<Rightarrow> nat" where
  "place s = (if s \<in> set wizard_order then length (takeWhile (\<lambda>t. t \<noteq> s) wizard_order) else 0)"

inductive screen_step :: "bool \<Rightarrow> screen \<Rightarrow> screen \<Rightarrow> bool" for gate where
  stay: "screen_step gate s s"
| forward: "gate \<Longrightarrow> s \<noteq> ScUninstall \<Longrightarrow> place t = Suc (place s) \<Longrightarrow> screen_step gate s t"
| over: "gate \<Longrightarrow> screen_step gate ScFingerprint ScPam"
| backward: "place s = Suc (place t) \<Longrightarrow> t \<noteq> ScUninstall \<Longrightarrow> screen_step gate s t"
| back_over: "screen_step gate ScPam ScFingerprint"
| to_removal: "screen_step gate ScWelcome ScUninstall"
| from_removal: "screen_step gate ScUninstall ScWelcome"

lemma place_simps [simp]:
  "place ScWelcome = 0" "place ScInstall = 1" "place ScDoctor = 2" "place ScCameras = 3" "place ScProfiles = 4"
  "place ScEnroll = 5" "place ScCalibrate = 6" "place ScIdentify = 7" "place ScFingerprint = 8"
  "place ScPassword = 9" "place ScPam = 10" "place ScDone = 11" "place ScUninstall = 0"
  by (simp_all add: place_def wizard_order_def)

lemma step_index_place: "step_index a = place (ap_screen a)"
  by (simp add: step_index_def place_def)

lemma next_screen_step:
  "next_screen V w a = Some s \<Longrightarrow> ap_screen a \<noteq> ScUninstall \<Longrightarrow> screen_step True (ap_screen a) s"
  by (cases "ap_screen a")
    (auto simp: next_screen_def step_index_place wizard_order_def screen_applicable_def split: if_splits
      intro: forward over)

lemma prev_screen_step:
  "prev_screen V w a = Some s \<Longrightarrow> screen_step gate (ap_screen a) s"
  by (cases "ap_screen a")
    (auto simp: prev_screen_def step_index_place wizard_order_def screen_applicable_def split: if_splits
      intro: backward back_over)

text \<open>Entering a screen may reset what the password screen was doing.\<close>

definition moved :: "app \<Rightarrow> app \<Rightarrow> bool" where
  "moved a b \<longleftrightarrow> bounded_from a b \<and> ap_cal b = ap_cal a \<and> ap_enroll b = ap_enroll a \<and> ap_uninstall b = ap_uninstall a \<and>
     ap_password b \<in> {ap_password a, PwSealed, PwEntry []}"

interpretation moved: frame moved
  by unfold_locales (auto simp: moved_def bounded_from_def)

lemma tame_moved: "tame a b \<Longrightarrow> moved a b"
  by (auto simp: tame_def moved_def machines_def)

lemma moved_screen: "moved a (a\<lparr>ap_screen := s\<rparr>)"
  by (simp add: moved_def bounded_from_def log_ok_def cursors_ok_def)

lemma moved_ok: "moved a b \<Longrightarrow> tui_ok a \<Longrightarrow> tui_ok b"
  by (auto simp: moved_def tui_ok_def bounded_from_def password_ok_def)

definition on_screen :: "screen \<Rightarrow> app \<Rightarrow> app \<Rightarrow> bool" where
  "on_screen s a b \<longleftrightarrow> moved a b \<and> ap_screen b = s"

lemma tame_on_screen: "tame a b \<Longrightarrow> on_screen (ap_screen a) a b"
  by (simp add: on_screen_def tame_moved tame_screen)

lemma gives_on_screen: "gives (tame a) m \<Longrightarrow> gives (on_screen (ap_screen a) a) m"
  by (auto intro: gives_weaken tame_on_screen)

lemma enter_password_on_screen: "on_screen s a b \<Longrightarrow> on_screen s a (enter_password b)"
  by (auto simp: on_screen_def enter_password_def moved_def bounded_from_def log_ok_def cursors_ok_def
    split: password_step.split)

lemma on_enter_on_screen: "gives (on_screen (ap_screen a) a) (on_enter C V a)"
proof -
  let ?a = "a\<lparr>ap_status := [], name_input := None\<rparr>"
  have "gives (tame a) (redetect C ?a)" by auto
  then show ?thesis
    unfolding on_enter_def
  proof (rule gives_bind_from)
    fix b
    assume t: "tame a b"
    have pw: "gives (on_screen (ap_screen a) a) (abind (refresh_profiles C b) (\<lambda>a1. ret (enter_password a1)))"
      by (rule gives_bind_from [OF gives_on_screen [OF tame_refresh_profiles [OF t]]]) (auto intro!: gives_ret enter_password_on_screen)
    show "gives (on_screen (ap_screen a) a) (case ap_screen b of
         ScDoctor \<Rightarrow> refresh_probe C (b\<lparr>doctor_scroll := 0\<rparr>)
       | ScCameras \<Rightarrow>
           abind (query (enumerate_cameras V)) (\<lambda>cams.
           ret (b\<lparr>ap_cameras := cams, cam_cursor := min (cam_cursor b) (cursor_max cams)\<rparr>))
       | ScProfiles \<Rightarrow> refresh_profiles C b
       | ScPassword \<Rightarrow> abind (refresh_profiles C b) (\<lambda>a1. ret (enter_password a1))
       | ScPam \<Rightarrow> enter_pam C b
       | ScFingerprint \<Rightarrow> refresh_fingerprint C V b
       | _ \<Rightarrow> ret b)"
    proof (cases "ap_screen b = ScPassword")
      case True
      then show ?thesis using pw by simp
    next
      case False
      then show ?thesis using t by (intro gives_on_screen) (auto split: screen.split intro!: gives_intros)
    qed
  qed
qed

text \<open>What a key does to the machines: the screen takes a step of the abstract wizard, the state
  stays well formed, and a removal is begun only by Enter over the typed word.\<close>

definition removal_begun :: "uninstall_state \<Rightarrow> bool" where
  "removal_begun u = (case u of UnIdle _ \<Rightarrow> False | UnConfirm _ _ \<Rightarrow> False | _ \<Rightarrow> True)"

definition word_typed :: "key \<Rightarrow> app \<Rightarrow> bool" where
  "word_typed k a \<longleftrightarrow> k = KEnter \<and> ap_screen a = ScUninstall \<and>
     (case ap_uninstall a of UnConfirm _ input \<Rightarrow> trim input = uninstall_word | _ \<Rightarrow> False)"

definition key_step :: "key \<Rightarrow> app \<Rightarrow> app \<Rightarrow> bool" where
  "key_step k a b \<longleftrightarrow> screen_step (wizard_gate a = None) (ap_screen a) (ap_screen b) \<and> (tui_ok a \<longrightarrow> tui_ok b) \<and>
     (removal_begun (ap_uninstall b) \<longrightarrow> ap_uninstall b = ap_uninstall a \<or> word_typed k a)"

lemma tame_key_step: "tame a b \<Longrightarrow> key_step k a b"
  by (auto simp: key_step_def tame_screen intro: screen_step.stay tame_ok) (simp add: tame_def machines_def)

lemma gives_tame_key_step: "gives (tame a) m \<Longrightarrow> gives (key_step k a) m"
  by (auto intro: gives_weaken tame_key_step)

lemma moved_key_step:
  "moved a b \<Longrightarrow> screen_step (wizard_gate a = None) (ap_screen a) (ap_screen b) \<Longrightarrow> key_step k a b"
  by (auto simp: key_step_def intro: moved_ok) (simp add: moved_def)

lemma go_to_key_step:
  assumes "\<And>s. t = Some s \<Longrightarrow> screen_step (wizard_gate a = None) (ap_screen a) s"
  shows "gives (key_step k a) (go_to C V a t)"
proof (cases t)
  case None
  then show ?thesis by (auto simp: go_to_def intro!: gives_ret tame_key_step)
next
  case (Some s)
  have "gives (on_screen s (a\<lparr>ap_screen := s\<rparr>)) (on_enter C V (a\<lparr>ap_screen := s\<rparr>))"
    using on_enter_on_screen [of "a\<lparr>ap_screen := s\<rparr>"] by simp
  then show ?thesis
    unfolding go_to_def Some option.case
  proof (rule gives_weaken)
    fix b
    assume "on_screen s (a\<lparr>ap_screen := s\<rparr>) b"
    then show "key_step k a b"
      using assms [OF Some]
      by (auto simp: on_screen_def intro!: moved_key_step intro: moved.frame_trans [OF moved_screen])
  qed
qed

lemma wizard_next_key_step [intro!]:
  assumes "ap_screen a \<noteq> ScUninstall"
  shows "gives (key_step k a) (wizard_next C V a)"
proof (cases "wizard_gate a")
  case None
  have "gives (key_step k a) (go_to C V a (next_screen V w a))" for w
    using next_screen_step [OF _ assms] None by (intro go_to_key_step) auto
  then show ?thesis unfolding wizard_next_def None option.case by (auto simp: gives_def abind_result)
next
  case (Some r)
  then show ?thesis unfolding wizard_next_def by (auto intro!: gives_ret tame_key_step simp del: append.simps)
qed

lemma wizard_prev_key_step [intro!]: "gives (key_step k a) (wizard_prev C V a)"
proof -
  have "gives (key_step k a) (go_to C V a (prev_screen V w a))" for w
    by (intro go_to_key_step prev_screen_step)
  then show ?thesis unfolding wizard_prev_def by (auto simp: gives_def abind_result)
qed

section \<open>The keys\<close>

lemma key_step_self [intro!]: "key_step k a a"
  by (rule tame_key_step) simp

lemma install_key_step: "ap_screen a = ScInstall \<Longrightarrow> gives (key_step k a) (install_key C V k a)"
  unfolding install_key_def Let_def
  by (auto split: install_step.split key.split intro!: gives_ret tame_key_step intro: gives_tame_key_step simp del: append.simps)

lemma profiles_key_step: "ap_screen a = ScProfiles \<Longrightarrow> gives (key_step k a) (profiles_key C V k a)"
  unfolding profiles_key_def by (auto split: key.split intro!: gives_ret tame_key_step intro: gives_tame_key_step)

lemma identify_key_step: "ap_screen a = ScIdentify \<Longrightarrow> gives (key_step k a) (identify_key C V k a)"
  unfolding identify_key_def by (auto intro!: gives_ret tame_key_step simp del: append.simps)

lemma pam_key_step: "ap_screen a = ScPam \<Longrightarrow> gives (key_step k a) (pam_key C V k a)"
  unfolding pam_key_def
  by (auto split: key.split intro!: gives_ret tame_key_step intro: gives_tame_key_step tame.gives_then)

lemma cameras_key_step: "ap_screen a = ScCameras \<Longrightarrow> gives (key_step k a) (cameras_key C V k a)"
  unfolding cameras_key_def
  by (auto split: key.split option.split intro!: gives_ret tame_key_step intro: gives_tame_key_step simp del: append.simps)

text \<open>A change of one machine that keeps it well formed.\<close>

lemma machine_key_step:
  "cal_ok c \<Longrightarrow> key_step k a (a\<lparr>ap_cal := c\<rparr>)"
  "enroll_ok e \<Longrightarrow> key_step k a (a\<lparr>ap_enroll := e\<rparr>)"
  "password_ok p \<Longrightarrow> key_step k a (a\<lparr>ap_password := p\<rparr>)"
  "u \<noteq> UnWorking \<Longrightarrow> \<not> removal_begun u \<or> word_typed k a \<Longrightarrow> key_step k a (a\<lparr>ap_uninstall := u\<rparr>)"
  by (auto simp: key_step_def tui_ok_def log_ok_def cursors_ok_def intro: screen_step.stay)

lemma key_step_tame: "key_step k a b \<Longrightarrow> tame b c \<Longrightarrow> key_step k a c"
  by (auto simp: key_step_def tame_screen intro: tame_ok) (auto simp: tame_def machines_def)

lemma key_step_status: "key_step k a b \<Longrightarrow> key_step k a (b\<lparr>ap_status := s\<rparr>)"
  by (erule key_step_tame) auto

lemma enroll_key_step: "ap_screen a = ScEnroll \<Longrightarrow> gives (key_step k a) (enroll_key C V k a)"
proof -
  have "key_step k a (a\<lparr>ap_enroll := EnFraming 0 0\<rparr>)"
    by (rule machine_key_step(2)) (simp add: enroll_ok_def enroll_target_def enroll_streak_def)
  then have "key_step k a (a\<lparr>ap_enroll := EnFraming 0 0, enroll_last := None, ap_status := s\<rparr>)" for s
    by (elim key_step_tame) auto
  then show "ap_screen a = ScEnroll \<Longrightarrow> gives (key_step k a) (enroll_key C V k a)"
    unfolding enroll_key_def by (auto intro!: gives_ret simp del: append.simps)
qed

text \<open>Steps after which the new state of one machine is all that is known to matter.\<close>

lemma tame_then_machine:
  assumes "tame a b"
  shows "cal_ok c \<Longrightarrow> key_step k a (b\<lparr>ap_cal := c\<rparr>)"
    and "password_ok p \<Longrightarrow> key_step k a (b\<lparr>ap_password := p\<rparr>)"
  using assms
  by (auto simp: key_step_def tui_ok_def tame_def machines_def bounded_from_def log_ok_def cursors_ok_def intro: screen_step.stay)

lemma save_threshold_step: "gives (key_step k a) (save_threshold C v a)"
proof -
  have restarted: "gives (key_step k a) (abind (restart_logged C b) (\<lambda>a1. ret (a1\<lparr>ap_cal := CalSaved v\<rparr>)))" if "tame a b" for b
    using tame_restart [OF that, of C]
    by (rule gives_bind_from) (auto intro!: gives_ret tame_then_machine simp: cal_ok_def)
  then show ?thesis
    unfolding save_threshold_def
    by (intro gives_bind) (auto split: sum.split intro!: gives_ret tame_key_step restarted simp del: append.simps)
qed

lemma calibrate_key_step:
  assumes "ap_screen a = ScCalibrate"
  shows "gives (key_step k a) (calibrate_key C V k a)"
proof -
  have "key_step k a (a\<lparr>ap_cal := CalSampling [] 0\<rparr>)"
    by (rule machine_key_step(1)) (simp add: cal_ok_def cal_target_def cal_max_attempts_def)
  moreover have "key_step k a (a\<lparr>ap_cal := CalReview scores rec t\<rparr>)" if "ap_cal a = CalReview scores rec input" for scores rec input t
    using that by (auto simp: key_step_def tui_ok_def log_ok_def cursors_ok_def cal_ok_def intro: screen_step.stay)
  ultimately show ?thesis
    unfolding calibrate_key_def using assms
    by (auto split: cal_state.split key.split intro!: gives_ret save_threshold_step)
qed

definition sealed_from :: "app \<Rightarrow> app \<Rightarrow> bool" where
  "sealed_from a b \<longleftrightarrow> bounded_from a b \<and> ap_screen b = ap_screen a \<and> ap_cal b = ap_cal a \<and> ap_enroll b = ap_enroll a \<and>
     ap_uninstall b = ap_uninstall a \<and> password_ok (ap_password b)"

lemma sealed_key_step: "sealed_from a b \<Longrightarrow> key_step k a b"
  by (auto simp: sealed_from_def key_step_def tui_ok_def bounded_from_def intro: screen_step.stay)

lemma tame_sealed: "tame a b \<Longrightarrow> password_ok p \<Longrightarrow> sealed_from a (b\<lparr>ap_password := p\<rparr>)"
  by (simp add: sealed_from_def tame_def machines_def bounded_from_def log_ok_def cursors_ok_def)

lemma seal_confirmed_step: "gives (sealed_from a) (seal_confirmed C pw a)"
proof -
  have detected: "gives (sealed_from a) (abind (redetect C c) (\<lambda>a1. ret (a1\<lparr>ap_password := PwSealed\<rparr>)))" if "tame a c" for c
    using tame_redetect [OF that, of C]
    by (rule gives_bind_from) (auto intro!: gives_ret tame_sealed simp: password_ok_def)
  show ?thesis
    unfolding seal_confirmed_def Let_def
    by (intro gives_bind) (auto split: sum.split response.split intro!: gives_ret tame_sealed detected
      simp: password_ok_def simp del: append.simps)
qed

lemma password_key_step:
  assumes "ap_screen a = ScPassword"
  shows "gives (key_step k a) (password_key C V k a)"
proof -
  have m: "key_step q a (a\<lparr>ap_password := p\<rparr>)" if "password_ok p" for p q
    using that by (rule machine_key_step(3))
  have seal: "gives (key_step q a) (seal_confirmed C pw (a\<lparr>ap_password := PwEntry []\<rparr>))" for pw q
    using seal_confirmed_step
  proof (rule gives_weaken)
    fix c
    assume "sealed_from (a\<lparr>ap_password := PwEntry []\<rparr>) c"
    then have "sealed_from a c" by (simp add: sealed_from_def bounded_from_def log_ok_def cursors_ok_def)
    then show "key_step q a c" by (rule sealed_key_step)
  qed
  have kept: "key_step q a (a\<lparr>ap_password := PwConfirm f t\<rparr>)" if "ap_password a = PwConfirm f i" for f i t q
    using that by (auto simp: key_step_def tui_ok_def log_ok_def cursors_ok_def password_ok_def intro: screen_step.stay)
  have status: "key_step q a (a\<lparr>ap_status := s, ap_password := p\<rparr>)" "key_step q a (a\<lparr>ap_password := p, ap_status := s\<rparr>)"
    "key_step q a (set_status s a)" if "password_ok p" for p s q
  proof -
    show "key_step q a (a\<lparr>ap_password := p, ap_status := s\<rparr>)" by (rule key_step_status [OF m [OF that]])
    moreover have "a\<lparr>ap_status := s, ap_password := p\<rparr> = a\<lparr>ap_password := p, ap_status := s\<rparr>" by (cases a) simp
    ultimately show "key_step q a (a\<lparr>ap_status := s, ap_password := p\<rparr>)" by (simp only:)
    show "key_step q a (set_status s a)" by (intro tame_key_step) auto
  qed
  have entry: "key_step q a (a\<lparr>ap_password := PwEntry t\<rparr>)" for q t
    by (rule m) (simp add: password_ok_def)
  show ?thesis
    unfolding password_key_def Let_def using assms
    by (auto split: password_step.split key.split intro!: gives_ret seal entry status intro: kept simp: password_ok_def
      simp del: append.simps)
qed

lemma perform_uninstall_step:
  assumes "word_typed k a"
  shows "gives (key_step k a) (perform_uninstall C rm a)"
proof -
  define typed where "typed = (\<lambda>b. bounded_from a b \<and> ap_screen b = ap_screen a \<and> ap_cal b = ap_cal a \<and> ap_enroll b = ap_enroll a \<and>
    ap_password b = ap_password a)"
  have ends: "key_step k a (b\<lparr>ap_uninstall := u\<rparr>)" if "typed b" and "u \<noteq> UnWorking" for b u
    using that assms
    by (auto simp: typed_def key_step_def tui_ok_def bounded_from_def log_ok_def cursors_ok_def intro: screen_step.stay)
  have along: "typed c" if "typed b" "tame b c" for b c
    using that by (auto simp: typed_def tame_def machines_def bounded_from_def)
  have start: "typed (a\<lparr>ap_uninstall := UnWorking\<rparr>)"
    by (simp add: typed_def bounded_from_def log_ok_def cursors_ok_def)
  have first: "typed (log_activity m (a\<lparr>ap_uninstall := UnWorking\<rparr>))" for m
    by (rule along [OF start]) auto
  have again: "typed (log_activity m b)" if "typed b" for m b
    by (rule along [OF that]) auto
  have detected: "gives (key_step k a) (abind (redetect C b) (\<lambda>a1.
      ret ((log_activity m a1)\<lparr>ap_uninstall := UnDone lg\<rparr>)))" if "typed b" for b m lg
    using tame_redetect [OF tame_refl, of b C]
    by (rule gives_bind_from) (auto intro!: gives_ret ends again along [OF that])
  show ?thesis
    unfolding perform_uninstall_def Let_def
    by (intro gives_bind) (auto split: sum.split intro!: gives_ret detected ends again first simp del: append.simps)
qed

lemma uninstall_key_step:
  assumes "ap_screen a = ScUninstall"
  shows "gives (key_step k a) (uninstall_key C V k a)"
proof -
  have idle: "key_step q a (a\<lparr>ap_uninstall := u\<rparr>)" if "\<not> removal_begun u" for u q
    using that by (intro machine_key_step) (auto simp: removal_begun_def)
  have status: "key_step q a (set_status s a)" for q s
    by (intro tame_key_step) auto
  have leave: "gives (key_step q a) (leave_uninstall C V rm a)" for rm q
  proof -
    let ?b = "a\<lparr>ap_uninstall := UnIdle rm, ap_screen := ScWelcome\<rparr>"
    have "gives (on_screen ScWelcome ?b) (on_enter C V ?b)"
      using on_enter_on_screen [of ?b] by simp
    moreover have "key_step q a c" if "on_screen ScWelcome ?b c" for c
      using that assms
      by (auto simp: on_screen_def moved_def key_step_def tui_ok_def bounded_from_def log_ok_def cursors_ok_def password_ok_def
        removal_begun_def intro: screen_step.from_removal)
    ultimately show ?thesis unfolding leave_uninstall_def by (rule gives_weaken)
  qed
  have perform: "gives (key_step KEnter a) (perform_uninstall C rm a)"
    if "ap_uninstall a = UnConfirm r input" "trim input = uninstall_word" for rm r input
    using that assms by (intro perform_uninstall_step) (simp add: word_typed_def)
  show ?thesis
    unfolding uninstall_key_def
    by (auto split: uninstall_state.split key.split intro!: gives_ret leave perform idle key_step_status status simp: removal_begun_def
      simp del: append.simps)
qed

lemma plain_key_step: "ap_screen a \<noteq> ScUninstall \<Longrightarrow> gives (key_step k a) (plain_key C V k a)"
  unfolding plain_key_def by (auto split: key.split intro!: gives_ret)

lemma welcome_uninstall_step: "ap_screen a = ScWelcome \<Longrightarrow> key_step k a (welcome_uninstall a)"
  unfolding welcome_uninstall_def
  by (auto simp: key_step_def tui_ok_def log_ok_def cursors_ok_def removal_begun_def intro: screen_step.to_removal)
    (auto simp: set_status_def log_activity_def push_activity_def Let_def activity_max_def intro: screen_step.stay)

lemma screen_key_step:
  assumes "ap_screen a \<noteq> ScUninstall"
  shows "gives (key_step k a) (screen_key C V k a)"
proof -
  have "gives (key_step k a) (case doctor_key C k a of Some m \<Rightarrow> m | None \<Rightarrow> plain_key C V k a)"
    using assms by (auto split: option.split intro: gives_tame_key_step tame_doctor_key plain_key_step)
  then show ?thesis
    unfolding screen_key_def using assms
    by (cases "ap_screen a") (auto intro!: gives_ret welcome_uninstall_step plain_key_step install_key_step cameras_key_step
      profiles_key_step calibrate_key_step enroll_key_step identify_key_step password_key_step pam_key_step
      gives_tame_key_step [OF tame_fingerprint_key] intro: tame_key_step)
qed

lemma focused_key_step:
  assumes "ap_screen a \<noteq> ScUninstall"
  shows "gives (key_step k a) (focused_key C V k a)"
  unfolding focused_key_def using assms
  by (auto intro!: gives_ret screen_key_step install_key_step password_key_step gives_tame_key_step [OF tame_name_edit]
    intro: tame_key_step)

lemma on_key_step: "gives (key_step k a) (on_key C V shift k a)"
proof (cases "if shift then scrollback_key k a else None")
  case (Some b)
  then have "tame a b" by (cases shift) (auto intro: tame_scrollback)
  then show ?thesis unfolding on_key_def Some option.case by (intro gives_ret tame_key_step)
next
  case None
  show ?thesis
    unfolding on_key_def None option.case
    by (simp add: uninstall_key_step focused_key_step gives_tame_key_step [OF tame_delete_confirm]
      wizard_next_key_step wizard_prev_key_step)
qed

section \<open>Between the keys\<close>

lemma tame_see_cameras [intro!]: "tame a b \<Longrightarrow> tame a (see_cameras cams b)"
proof -
  assume t: "tame a b"
  have "tame b (see_cameras cams b)"
    unfolding see_cameras_def Let_def
    using log_capped [of _ b]
    by (auto simp: tame_simps log_activity_def push_activity_def Let_def cursor_max_def activity_max_def)
  then show ?thesis using t by (rule tame.frame_trans [rotated])
qed

lemma tame_note_readiness [intro!]: "tame a b \<Longrightarrow> tame a (note_readiness before b)"
  unfolding note_readiness_def by (auto split: option.split)

lemma tame_poll_live [intro!]: "gives (tame a) (poll_live C V a)"
proof -
  have probed: "gives (tame a) (abind (refresh_probe C b) (\<lambda>c. ret (note_readiness pol c)))" if "tame a b" for b pol
    using tame_refresh_probe [OF that] by (rule gives_bind_from) (auto intro!: gives_ret)
  show ?thesis
    unfolding poll_live_def Let_def
    by (rule gives_bind_from [OF tame_redetect [OF tame_refl]], rule gives_bind)
      (auto split: screen.split intro!: probed gives_ret intro: gives_bind)
qed

lemma tame_see_update [intro!]: "gives (tame a) (see_update C arrived a)"
proof (cases "if ap_update_pending a then arrived else None")
  case None
  then show ?thesis unfolding see_update_def None option.case by (intro gives_ret) simp
next
  case (Some st)
  show ?thesis
    unfolding see_update_def Some option.case
    by (rule tame.gives_then) (auto intro!: gives_intros simp del: append.simps)
qed

lemma tame_tick_identify [intro!]: "gives (tame a) (tick_identify C a)"
  unfolding tick_identify_def
  by (auto split: sum.split response.split intro!: gives_intros simp del: append.simps)

text \<open>A tick keeps the screen and what the uninstaller does, and the state well formed.\<close>

definition tick_step :: "app \<Rightarrow> app \<Rightarrow> bool" where
  "tick_step a b \<longleftrightarrow> ap_screen b = ap_screen a \<and> ap_uninstall b = ap_uninstall a \<and> (tui_ok a \<longrightarrow> tui_ok b)"

interpretation tick: frame tick_step
  by unfold_locales (auto simp: tick_step_def)

lemma tame_tick: "tame a b \<Longrightarrow> tick_step a b"
  by (auto simp: tick_step_def tame_screen intro: tame_ok) (simp add: tame_def machines_def)

lemma tick_enroll_state:
  assumes "tame a b" and "enroll_ok (ap_enroll a) \<Longrightarrow> enroll_ok e"
  shows "tick_step a (b\<lparr>ap_enroll := e\<rparr>)"
  using assms by (auto simp: tick_step_def tui_ok_def tame_def machines_def bounded_from_def log_ok_def cursors_ok_def)

lemma framed_ok: "captured < enroll_target \<Longrightarrow> enroll_ok (framed captured streak good)"
  by (simp add: framed_def enroll_ok_def enroll_streak_def Let_def)

lemma tick_enroll_step: "gives (tick_step a) (tick_enroll C a)"
proof (cases "ap_enroll a")
  case (EnFraming captured streak)
  have "tick_step a (a\<lparr>enroll_last := r, ap_enroll := framed captured streak g\<rparr>)" for r g
    using EnFraming by (intro tick_enroll_state) (auto intro!: framed_ok simp: enroll_ok_def [of "EnFraming _ _"])
  then show ?thesis unfolding tick_enroll_def EnFraming enroll_state.case by (intro gives_intros)
next
  case (EnCountdown captured left)
  have stored: "gives (tick_step a) (sample_stored C (Suc captured) b)" if "tame a b" for b
  proof -
    have complete: "gives (tick_step a) (abind (redetect C c) (\<lambda>d. ret (d\<lparr>ap_enroll := EnDone (Suc captured)\<rparr>)))"
      if "tame a c" and "enroll_target \<le> Suc captured" for c
      using tame_redetect [OF that(1)]
      by (rule gives_bind_from) (use that(2) EnCountdown in \<open>auto intro!: gives_ret tick_enroll_state simp: enroll_ok_def\<close>)
    show ?thesis
      unfolding sample_stored_def Let_def using that EnCountdown
      by (auto intro!: complete gives_ret tick_enroll_state simp: enroll_ok_def enroll_streak_def simp del: append.simps)
  qed
  have "gives (tick_step a) (let b = a\<lparr>enroll_last := r\<rparr> in
        if \<not> good_frame r then ret (b\<lparr>ap_enroll := EnFraming captured 0\<rparr>)
        else if left \<le> 1 then
          abind (try_act (do_enroll_capture C b)) (\<lambda>c. case c of
            Inr _ \<Rightarrow> sample_stored C (captured + 1) b
          | Inl e \<Rightarrow> ret ((log_activity (''enroll capture failed: '' @ e) b)\<lparr>ap_enroll := EnFailed e\<rparr>))
        else ret (b\<lparr>ap_enroll := EnCountdown captured (left - 1)\<rparr>))" for r
    using EnCountdown
    by (auto intro!: gives_ret tick_enroll_state stored gives_bind split: sum.split
      simp: Let_def enroll_ok_def enroll_streak_def simp del: append.simps)
  then show ?thesis unfolding tick_enroll_def EnCountdown enroll_state.case by (intro gives_bind)
qed (auto simp: tick_enroll_def intro!: gives_ret tame_tick)

lemma sampled_ok: "length scores \<le> cal_target \<Longrightarrow> length scores \<le> attempts \<Longrightarrow> cal_ok (sampled scores attempts)"
  by (simp add: sampled_def cal_ok_def)

lemma tick_calibrate_step: "gives (tick_step a) (tick_calibrate C a)"
proof (cases "ap_cal a")
  case (CalSampling scores attempts)
  have "tick_step a (a\<lparr>ap_status := s, ap_cal := sampled xs (attempts + 1)\<rparr>)"
    if "length xs \<le> Suc (length scores)" for s xs
    using that CalSampling sampled_ok [of xs "attempts + 1"]
    by (auto simp: tick_step_def tui_ok_def log_ok_def cursors_ok_def cal_ok_def [of "CalSampling _ _"])
  then show ?thesis
    unfolding tick_calibrate_def CalSampling cal_state.case Let_def
    by (intro gives_intros) (auto split: sum.split response.split simp del: append.simps)
qed (auto simp: tick_calibrate_def intro!: gives_ret tame_tick)

lemma app_tick_step: "gives (tick_step a) (app_tick C V due arrived a)"
proof -
  have w: "gives (tame b) m \<Longrightarrow> gives (tick_step b) m" for b and m :: "('a tty_host_scheme, 'e, app) act"
    by (auto intro: gives_weaken tame_tick)
  have live: "gives (tick_step b) (if due then poll_live C V b else ret b)" for b
    by (cases due) (auto intro!: w gives_ret tick.frame_refl)
  show ?thesis
    unfolding app_tick_def
    by (rule tick.gives_then [OF w [OF tame_see_update]], rule tick.gives_then [OF live])
      (auto split: screen.split intro!: tick_enroll_step tick_calibrate_step w gives_ret tick.frame_refl)
qed

lemma tame_serve_pending: "gives (tame a) (serve_pending C V a)"
proof -
  have fp: "gives (tame a) (if pending_fp_enable a
       then abind (run_fingerprint_enable_suspended C (active_profile a)) (\<lambda>_. refresh_fingerprint C V (a\<lparr>pending_fp_enable := False\<rparr>))
       else ret a)" for a
    by (auto intro!: gives_intros)
  have pl: "gives (tame a) (if pending_platform_setup a
       then abind (run_platform_setup_suspended C) (\<lambda>_.
         abind (query pam_status) (\<lambda>st. redetect C (a\<lparr>pending_platform_setup := False, ap_pam := st\<rparr>)))
       else ret a)" for a
    by (auto intro!: gives_intros)
  show ?thesis
    unfolding serve_pending_def
    by (rule tame.gives_then [OF fp], rule tame.gives_then [OF pl]) (auto intro!: gives_intros)
qed

text \<open>One iteration: a key's step, then work that keeps the screen.\<close>

definition event_key :: "tui_event \<Rightarrow> key" where
  "event_key ev = (case ev of KeyPress k _ \<Rightarrow> k | _ \<Rightarrow> KOther)"

lemma handle_event_step: "gives (key_step (event_key ev) a) (handle_event C V ev a)"
  unfolding handle_event_def
  by (cases ev) (auto simp: event_key_def intro!: on_key_step gives_ret tame_key_step)

lemma key_step_tick: "key_step k a b \<Longrightarrow> tick_step b c \<Longrightarrow> key_step k a c"
  by (auto simp: key_step_def tick_step_def)

lemma enrolled_geometry [simp]: "active_profile_enrolled (a\<lparr>ap_geometry := g\<rparr>) = active_profile_enrolled a"
  by (simp add: active_profile_enrolled_def)

lemma has_password_geometry [simp]: "active_profile_has_password (a\<lparr>ap_geometry := g\<rparr>) = active_profile_has_password a"
  by (simp add: active_profile_has_password_def)

lemma wizard_gate_geometry [simp]: "wizard_gate (a\<lparr>ap_geometry := g\<rparr>) = wizard_gate a"
  unfolding wizard_gate_def enrolled_geometry has_password_geometry app.select_convs app.update_convs
  by (cases a) (simp only: app.simps)

lemma key_step_geometry: "key_step k (a\<lparr>ap_geometry := g\<rparr>) b \<longleftrightarrow> key_step k a b"
  by (simp add: key_step_def tui_ok_def log_ok_def cursors_ok_def word_typed_def)

lemma iteration_step: "gives (key_step (event_key (mo_event m)) a) (iteration C V m a)"
proof -
  let ?k = "event_key (mo_event m)"
  have "gives (key_step ?k (a\<lparr>ap_geometry := mo_geometry m\<rparr>)) (iteration C V m a)"
    unfolding iteration_def
  proof (rule gives_bind_from [OF handle_event_step])
    fix b
    assume b: "key_step ?k (a\<lparr>ap_geometry := mo_geometry m\<rparr>) b"
    have "gives (tick_step b) (serve_pending C V b)"
      using tame_serve_pending by (rule gives_weaken) (rule tame_tick)
    then have "gives (tick_step b) (abind (serve_pending C V b) (\<lambda>c. app_tick C V (mo_due m) (mo_update m) c))"
      by (rule tick.gives_then [OF _ app_tick_step])
    then show "gives (key_step ?k (a\<lparr>ap_geometry := mo_geometry m\<rparr>))
        (abind (serve_pending C V b) (\<lambda>c. app_tick C V (mo_due m) (mo_update m) c))"
      by (rule gives_weaken) (rule key_step_tick [OF b])
  qed
  then show ?thesis by (rule gives_weaken) (simp add: key_step_geometry)
qed

end
