(* ===== verification/TuiSpec.thy ===== *)
theory TuiSpec
  imports TuiInv CliSpec
begin

text \<open>
  Properties of the full-screen interface: its state stays well formed, its screens follow the
  abstract wizard and a screen is passed only with its gate open, the uninstaller runs only after its
  word was typed, a profile is erased only after a yes, a password is sealed only when typed twice,
  the scroll positions stay in range, an enrollment stores a sample only after six good frames and
  ends when the frames are good, and a calibration ends.
\<close>

section \<open>The loop\<close>

text \<open>A run that leaves P has an iteration at which it does.\<close>

lemma event_loop_leaves:
  assumes "event_loop C V ms a w = (Ok b, v)" and "P a" and "\<not> P b"
  shows "\<exists>ms1 m ms2 c w1 d w2. ms = ms1 @ m # ms2 \<and> event_loop C V ms1 a w = (Ok c, w1) \<and> P c \<and>
    iteration C V m c w1 = (Ok d, w2) \<and> \<not> P d"
  using assms
proof (induction ms arbitrary: a w)
  case (Cons m ms)
  then have run: "\<not> should_quit a" by auto
  then obtain d w2 where d: "iteration C V m a w = (Ok d, w2)" "event_loop C V ms d w2 = (Ok b, v)"
    using Cons.prems(1) by (auto simp: abind_result)
  show ?case
  proof (cases "P d")
    case True
    from Cons.IH [OF d(2) True Cons.prems(3)] obtain ms1 m' ms2 c w1 e w3 where
      r: "ms = ms1 @ m' # ms2" "event_loop C V ms1 d w2 = (Ok c, w1)" "P c" "iteration C V m' c w1 = (Ok e, w3)" "\<not> P e"
      by blast
    have "event_loop C V (m # ms1) a w = (Ok c, w1)" using run d(1) r(2) by (simp add: abind_run)
    then show ?thesis using r by (intro exI [of _ "m # ms1"]) auto
  next
    case False
    have "event_loop C V [] a w = (Ok a, w)" by simp
    then show ?thesis using d(1) False Cons.prems(2) by (intro exI [of _ "[]"]) auto
  qed
qed simp

lemma event_loop_ok: "tui_ok a \<Longrightarrow> gives tui_ok (event_loop C V ms a)"
proof (induction ms arbitrary: a)
  case (Cons m ms)
  have "gives tui_ok (abind (iteration C V m a) (event_loop C V ms))"
    by (rule gives_bind_from [OF iteration_step]) (use Cons in \<open>auto simp: key_step_def\<close>)
  then show ?case using Cons.prems by (auto intro: gives_ret)
qed (auto intro: gives_ret)

lemma app_new_ok: "gives (\<lambda>a. tui_ok a \<and> ap_screen a = ScWelcome \<and> ap_uninstall a = UnIdle True) (app_new C V user)"
  unfolding app_new_def
  by (intro gives_bind) (auto simp: tui_ok_def log_ok_def cursors_ok_def cal_ok_def enroll_ok_def password_ok_def activity_max_def
    intro!: gives_bind gives_ret)

text \<open>A host whose commands do not make the interface panic detects what is installed.\<close>

definition calm :: "('w, 'y) console_scheme \<Rightarrow> bool" where
  "calm C \<longleftrightarrow> (\<forall>p args w. \<not> panics (fst (cmd_output C p args w)))"

lemma calm_succeeded: "calm C \<Longrightarrow> \<exists>t v. succeeded C p args w = (Ok t, v)"
proof -
  assume "calm C"
  then have "\<not> panics (fst (cmd_output C p args w))" by (simp add: calm_def)
  then show ?thesis
    by (cases "cmd_output C p args w"; cases "fst (cmd_output C p args w)") (auto simp: succeeded_def abind_def try_act_def)
qed

lemma calm_detect:
  assumes "calm C"
  shows "\<exists>i v. (detect_install C w :: ('e, install_state) outcome \<times> _) = (Ok i, v)"
proof -
  have "\<exists>t v. (systemd_state C unit u :: ('e, bool \<times> bool) outcome \<times> _) = (Ok t, v)" for unit u
  proof -
    obtain t1 v1 where 1: "(succeeded C ''systemctl'' [''is-active'', unit] u :: ('e, bool) outcome \<times> _) = (Ok t1, v1)"
      using calm_succeeded [OF assms] by blast
    obtain t2 v2 where "(succeeded C ''systemctl'' [''is-enabled'', unit] v1 :: ('e, bool) outcome \<times> _) = (Ok t2, v2)"
      using calm_succeeded [OF assms] by blast
    then show ?thesis using 1 by (simp add: systemd_state_def abind_run)
  qed
  then obtain t v where "(systemd_state C ''linhellod'' w :: ('e, bool \<times> bool) outcome \<times> _) = (Ok t, v)" by blast
  then show ?thesis by (cases t) (simp add: detect_install_def abind_def)
qed

lemma calm_redetect:
  assumes "calm C"
  shows "\<exists>i v. (redetect C a w :: ('e, app) outcome \<times> _) = (Ok (a\<lparr>ap_install := i\<rparr>), v)"
proof -
  obtain i v where "(detect_install C w :: ('e, install_state) outcome \<times> _) = (Ok i, v)"
    using calm_detect [OF assms] by blast
  then show ?thesis by (auto simp: redetect_def abind_run)
qed

lemma calm_demo: "calm demo_console"
  by (simp add: calm_def demo_console_def)

lemma calm_welcome:
  assumes "calm C" and "ap_screen a = ScWelcome"
  shows "\<exists>b v. (on_enter C V a w :: ('e, app) outcome \<times> _) = (Ok b, v)"
proof -
  let ?a = "a\<lparr>ap_status := [], name_input := None\<rparr>"
  obtain i v where "(redetect C ?a w :: ('e, app) outcome \<times> _) = (Ok (?a\<lparr>ap_install := i\<rparr>), v)"
    using calm_redetect [OF assms(1)] by blast
  then show ?thesis using assms(2) by (simp add: on_enter_def abind_run)
qed

lemma calm_new:
  assumes "calm C"
  shows "\<exists>a v. (app_new C V user w :: ('e, app) outcome \<times> _) = (Ok a, v)"
proof -
  obtain i v where "(detect_install C w :: ('e, install_state) outcome \<times> _) = (Ok i, v)"
    using calm_detect [OF assms] by blast
  then show ?thesis by (simp add: app_new_def abind_def)
qed

section \<open>Types\<close>

text \<open>
  C23. Whatever keys, clicks and answers the interface meets, its state stays well formed: the log
  holds at most 200 lines, the cursors are inside their lists, a calibration in progress has drawn
  fewer than 16 samples for fewer than 8 scores and a review holds the recommendation for its 3 to 8
  scores, an enrollment in progress has fewer than 5 samples with a streak or a countdown in range
  and ends with exactly 5, a password is confirmed only after a non-empty one, and no removal is
  left half-way.
\<close>

theorem tui_well_formed:
  assumes "run_tui C V is_terminal ms user w = (Ok a, v)"
  shows "tui_ok a"
proof -
  have "gives tui_ok (tui_session C V ms user)"
    unfolding tui_session_def
  proof (rule gives_bind_from [OF app_new_ok])
    fix b
    assume b: "tui_ok b \<and> ap_screen b = ScWelcome \<and> ap_uninstall b = UnIdle True"
    have "gives tui_ok (on_enter C V b)"
      using on_enter_on_screen by (rule gives_weaken) (use b in \<open>auto simp: on_screen_def intro: moved_ok\<close>)
    then show "gives tui_ok (abind (on_enter C V b) (event_loop C V ms))"
      by (rule gives_bind_from) (rule event_loop_ok)
  qed
  moreover have "tui_session C V ms user w = (Ok a, v)"
    using assms by (cases is_terminal) (simp_all add: run_tui_def)
  ultimately show ?thesis by (rule givesD)
qed

lemma tui_well_formed_witness:
  "\<forall>V :: (demo_tty, unit) v4l_scheme. \<exists>a v. run_tui demo_console V True [] ''al'' (demo_terminal [] [] 0) = (Ok a, v) \<and> tui_ok a"
proof
  fix V :: "(demo_tty, unit) v4l_scheme"
  obtain a1 w1 where 1: "(app_new demo_console V ''al'' (demo_terminal [] [] 0) :: (cli_end, app) outcome \<times> _) = (Ok a1, w1)"
    using calm_new [OF calm_demo] by blast
  have "ap_screen a1 = ScWelcome" using givesD [OF app_new_ok 1] by simp
  then obtain a2 w2 where "(on_enter demo_console V a1 w1 :: (cli_end, app) outcome \<times> _) = (Ok a2, w2)" using calm_welcome [OF calm_demo] by blast
  then have "run_tui demo_console V True [] ''al'' (demo_terminal [] [] 0) = (Ok a2, w2)" using 1 by (simp add: run_tui_def tui_session_def abind_run)
  then show "\<exists>a v. run_tui demo_console V True [] ''al'' (demo_terminal [] [] 0) = (Ok a, v) \<and> tui_ok a"
    using tui_well_formed by blast
qed

section \<open>The wizard\<close>

text \<open>
  C25. Every iteration of the interface is a step of the abstract wizard: the screen stays, or moves one
  place ahead with its gate open, or over the password screen from the one before it, or back, or
  between the first screen and the uninstaller.
\<close>

theorem wizard_refined:
  assumes "iteration C V m a w = (Ok b, v)"
  shows "screen_step (wizard_gate a = None) (ap_screen a) (ap_screen b)"
  using givesD [OF iteration_step assms] by (simp add: key_step_def)

text \<open>A quiet moment, and an application for the examples.\<close>

definition pressed :: "key \<Rightarrow> moment" where
  "pressed k = \<lparr>mo_geometry = geometry_zero, mo_event = KeyPress k False, mo_due = False, mo_update = None\<rparr>"

definition demo_install :: install_state where
  "demo_install = \<lparr>cli_bin = None, daemon_bin = None, daemon_active = False, daemon_enabled = False, inst_models = [],
     models_present = False, missing_models = [], camera_configured = False, inst_threshold = None, enrolled_users = [],
     pam_wired = 0, pam_total = 0\<rparr>"

definition demo_app :: app where
  "demo_app = \<lparr>ap_screen = ScWelcome, ap_user = ''al'', ap_install = demo_install, ap_report = None, ap_policy = None,
     doctor_scroll = 0, activity_scroll_up = 0, ap_geometry = geometry_zero, ap_dragging = None,
     ap_update_pending = False, ap_update = None, ap_cameras = [], cam_cursor = 0, sel_rgb = None, sel_ir = None,
     ap_cal = CalIdle, ap_enroll = EnIdle, enroll_last = None, ap_pam = [], pam_note = [], ap_profiles = [],
     profile_cursor = 0, active_profile = ''al'', name_input = None, delete_confirm = None, new_profile_input = None,
     ap_identify = IdIdle, ap_password = PwEntry [], ap_uninstall = UnIdle True, ap_install_step = InIdle,
     ap_activity = [], cameras_saved = False, fp_reader = None, fp_enrolled = [],
     fp_methods = \<lparr>face_rgb = False, face_ir = False, fingerprint = False, fingerprint_capable = False\<rparr>,
     fp_named = [], fp_method = ''auto'', pending_fp_enable = False, pending_platform_setup = False,
     pending_recovery = False, group_ensured = False, ap_status = [], should_quit = False\<rparr>"

text \<open>The tick at the end of a quiet iteration.\<close>

lemma quiet_iteration:
  assumes "(on_key C V False k (a\<lparr>ap_geometry := geometry_zero\<rparr>) w :: (cli_end, app) outcome \<times> _) = (Ok b, v)"
    and "\<not> pending_fp_enable b" "\<not> pending_platform_setup b" "\<not> pending_recovery b"
    and "ap_screen b \<notin> {ScEnroll, ScIdentify, ScCalibrate}"
  shows "iteration C V (pressed k) a w = (Ok b, v)"
  using assms
  by (cases "ap_screen b") (auto simp: iteration_def pressed_def handle_event_def abind_run serve_pending_def app_tick_def see_update_def
    abind_def [of "ret _"])

lemma demo_quits:
  "iteration demo_console V (pressed KEsc) (demo_app\<lparr>ap_screen := s\<rparr>) w = (Ok (demo_app\<lparr>ap_screen := s, should_quit := True\<rparr>), w)"
  if "s \<in> {ScWelcome, ScInstall, ScDoctor, ScCameras, ScDone}"
proof (rule quiet_iteration)
  show "(on_key demo_console V False KEsc (demo_app\<lparr>ap_screen := s, ap_geometry := geometry_zero\<rparr>) w :: (cli_end, app) outcome \<times> _) =
      (Ok (demo_app\<lparr>ap_screen := s, should_quit := True\<rparr>), w)"
    using that by (auto simp: on_key_def focused_key_def demo_app_def editing_path_def)
qed (use that in \<open>auto simp: demo_app_def\<close>)

lemma wizard_refined_witness:
  "\<forall>V :: (demo_tty, unit) v4l_scheme. \<exists>b v. iteration demo_console V (pressed KEsc) demo_app (demo_terminal [] [] 0) = (Ok b, v) \<and>
     screen_step True ScWelcome (ap_screen b)"
proof
  fix V :: "(demo_tty, unit) v4l_scheme"
  have app: "demo_app\<lparr>ap_screen := ScWelcome\<rparr> = demo_app" by (simp add: demo_app_def)
  have r: "iteration demo_console V (pressed KEsc) demo_app (demo_terminal [] [] 0) =
      (Ok (demo_app\<lparr>ap_screen := ScWelcome, should_quit := True\<rparr>), demo_terminal [] [] 0)"
    using demo_quits [of ScWelcome V "demo_terminal [] [] 0"] unfolding app by simp
  have "screen_step True ScWelcome (ap_screen (demo_app\<lparr>ap_screen := ScWelcome, should_quit := True\<rparr>))"
    using wizard_refined [OF r] by (simp add: demo_app_def wizard_gate_def)
  then show "\<exists>b v. iteration demo_console V (pressed KEsc) demo_app (demo_terminal [] [] 0) = (Ok b, v) \<and>
     screen_step True ScWelcome (ap_screen b)"
    using r by blast
qed






section \<open>Confirmations\<close>

text \<open>
  C26. Nothing is uninstalled without the word: a run that has begun a removal pressed Enter at a moment
  when the uninstaller asked for the word and what had been typed was REMOVE.
\<close>

theorem removal_needs_word:
  assumes "event_loop C V ms a w = (Ok b, v)"
    and "\<not> removal_begun (ap_uninstall a)" and "removal_begun (ap_uninstall b)"
  shows "\<exists>ms1 m ms2 c w1 rm input. ms = ms1 @ m # ms2 \<and> event_loop C V ms1 a w = (Ok c, w1) \<and>
    event_key (mo_event m) = KEnter \<and> ap_screen c = ScUninstall \<and> ap_uninstall c = UnConfirm rm input \<and>
    trim input = ''REMOVE''"
proof -
  let ?P = "\<lambda>c. \<not> removal_begun (ap_uninstall c)"
  have "?P a" "\<not> ?P b" using assms(2,3) by auto
  from event_loop_leaves [OF assms(1), of ?P, OF this] obtain ms1 m ms2 c w1 d w2 where
    r: "ms = ms1 @ m # ms2" "event_loop C V ms1 a w = (Ok c, w1)" "?P c" "iteration C V m c w1 = (Ok d, w2)" "\<not> ?P d"
    by blast
  have "word_typed (event_key (mo_event m)) c"
    using givesD [OF iteration_step r(4)] r(3,5) by (auto simp: key_step_def)
  then obtain rm input where "event_key (mo_event m) = KEnter" "ap_screen c = ScUninstall"
    "ap_uninstall c = UnConfirm rm input" "trim input = ''REMOVE''"
    by (auto simp: word_typed_def uninstall_word_def split: uninstall_state.splits)
  then show ?thesis using r(1,2) by blast
qed

lemma perform_uninstall_begins:
  assumes "calm C" and "\<not> panics (fst (uninstall C rm w))"
  shows "\<exists>b v. (perform_uninstall C rm a w :: ('e, app) outcome \<times> _) = (Ok b, v) \<and> removal_begun (ap_uninstall b) \<and>
    ap_screen b = ap_screen a \<and> pending_fp_enable b = pending_fp_enable a \<and>
    pending_platform_setup b = pending_platform_setup a \<and> pending_recovery b = pending_recovery a"
proof -
  let ?a = "log_activity (''uninstalling LinuxHello'' @ ellipsis) (a\<lparr>ap_uninstall := UnWorking\<rparr>)"
  have logged: "ap_screen (log_activity m c) = ap_screen c" "pending_fp_enable (log_activity m c) = pending_fp_enable c"
    "pending_platform_setup (log_activity m c) = pending_platform_setup c" "pending_recovery (log_activity m c) = pending_recovery c"
    for m c by (simp_all add: log_activity_def push_activity_def Let_def)
  obtain r u where r: "uninstall C rm w = (r, u)" by (cases "uninstall C rm w")
  show ?thesis
  proof (cases r)
    case (Ok lg)
    obtain i v where "(redetect C ?a u :: ('e, app) outcome \<times> _) = (Ok (?a\<lparr>ap_install := i\<rparr>), v)"
      using calm_redetect [OF assms(1)] by blast
    then show ?thesis
      using r Ok by (simp add: perform_uninstall_def Let_def abind_def try_act_def removal_begun_def logged del: append.simps)
  qed (use r assms(2) in \<open>simp_all add: perform_uninstall_def Let_def abind_def try_act_def removal_begun_def logged del: append.simps\<close>)
qed

lemma removal_needs_word_witness:
  "\<forall>V :: (demo_tty, unit) v4l_scheme. \<exists>b v ms1 m ms2 c w1 rm input.
     event_loop demo_console V [pressed KEnter]
       (demo_app\<lparr>ap_screen := ScUninstall, ap_uninstall := UnConfirm True ''REMOVE ''\<rparr>) (demo_terminal [] [] 0) = (Ok b, v) \<and>
     removal_begun (ap_uninstall b) \<and> [pressed KEnter] = ms1 @ m # ms2 \<and> event_loop demo_console V ms1
       (demo_app\<lparr>ap_screen := ScUninstall, ap_uninstall := UnConfirm True ''REMOVE ''\<rparr>) (demo_terminal [] [] 0) = (Ok c, w1) \<and>
     ap_uninstall c = UnConfirm rm input \<and> trim input = ''REMOVE''"
proof
  fix V :: "(demo_tty, unit) v4l_scheme"
  let ?a = "demo_app\<lparr>ap_screen := ScUninstall, ap_uninstall := UnConfirm True ''REMOVE ''\<rparr>" and ?w = "demo_terminal [] [] 0"
  have "\<not> panics (fst (uninstall demo_console True ?w))" by code_simp
  from perform_uninstall_begins [OF calm_demo this, of "?a\<lparr>ap_geometry := geometry_zero\<rparr>"] obtain b v where
    b: "(perform_uninstall demo_console True (?a\<lparr>ap_geometry := geometry_zero\<rparr>) ?w :: (cli_end, app) outcome \<times> _) = (Ok b, v)"
    "removal_begun (ap_uninstall b)" "ap_screen b = ScUninstall" "\<not> pending_fp_enable b" "\<not> pending_platform_setup b"
    "\<not> pending_recovery b"
    by (auto simp: demo_app_def)
  have word: "trim ''REMOVE '' = uninstall_word" by code_simp
  have "(on_key demo_console V False KEnter (?a\<lparr>ap_geometry := geometry_zero\<rparr>) ?w :: (cli_end, app) outcome \<times> _) = (Ok b, v)"
    using b(1) by (simp add: on_key_def uninstall_key_def word)
  then have "iteration demo_console V (pressed KEnter) ?a ?w = (Ok b, v)"
    by (rule quiet_iteration) (simp_all add: b(3-6))
  moreover have "\<not> should_quit ?a" by (simp add: demo_app_def)
  ultimately have r: "event_loop demo_console V [pressed KEnter] ?a ?w = (Ok b, v)" by (simp add: abind_run)
  have "\<not> removal_begun (ap_uninstall ?a)" by (simp add: removal_begun_def)
  from removal_needs_word [OF r this b(2)] show "\<exists>b v ms1 m ms2 c w1 rm input.
     event_loop demo_console V [pressed KEnter] ?a ?w = (Ok b, v) \<and> removal_begun (ap_uninstall b) \<and>
     [pressed KEnter] = ms1 @ m # ms2 \<and> event_loop demo_console V ms1 ?a ?w = (Ok c, w1) \<and>
     ap_uninstall c = UnConfirm rm input \<and> trim input = ''REMOVE''"
    using r b(2) by blast
qed

text \<open>
  A profile is erased only after a yes: at the question any key but y and Y ends it, asks nothing of
  the daemon, touches nothing on the host and leaves the profiles as they were; and the key that
  raises the question for the highlighted profile only raises it.
\<close>

theorem erasure_needs_yes:
  "ap_screen a = ScProfiles \<longrightarrow>
   (delete_confirm a \<noteq> None \<longrightarrow> k \<noteq> KChar ''y'' \<longrightarrow> k \<noteq> KChar ''Y'' \<longrightarrow>
      on_key C V False k a w = (Ok (a\<lparr>delete_confirm := None, ap_status := ''delete cancelled '' @ em_dash @ '' nothing erased''\<rparr>), w)) \<and>
   (delete_confirm a = None \<longrightarrow> name_input a = None \<longrightarrow> new_profile_input a = None \<longrightarrow>
      on_key C V False (KChar ''d'') a w = (Ok (case highlighted a of None \<Rightarrow> a
        | Some p \<Rightarrow> a\<lparr>delete_confirm := Some (pi_user p), ap_status := delete_prompt p\<rparr>), w))"
proof (intro impI conjI)
  assume s: "ap_screen a = ScProfiles"
  show "on_key C V False k a w = (Ok (a\<lparr>delete_confirm := None, ap_status := ''delete cancelled '' @ em_dash @ '' nothing erased''\<rparr>), w)"
    if "delete_confirm a \<noteq> None" "k \<noteq> KChar ''y''" "k \<noteq> KChar ''Y''"
    using s that by (auto simp: on_key_def delete_confirm_key_def set_status_def Let_def simp del: append.simps)
  show "on_key C V False (KChar ''d'') a w = (Ok (case highlighted a of None \<Rightarrow> a
        | Some p \<Rightarrow> a\<lparr>delete_confirm := Some (pi_user p), ap_status := delete_prompt p\<rparr>), w)"
    if "delete_confirm a = None" "name_input a = None" "new_profile_input a = None"
    using s that by (simp add: on_key_def focused_key_def screen_key_def profiles_key_def profiles_char_def)
qed

lemma erasure_needs_yes_witness:
  "\<forall>V :: (demo_tty, unit) v4l_scheme. fst (on_key demo_console V False (KChar ''n'')
     (demo_app\<lparr>ap_screen := ScProfiles, delete_confirm := Some ''al''\<rparr>) (demo_terminal [] [] 0) :: (cli_end, app) outcome \<times> demo_tty) =
     Ok (demo_app\<lparr>ap_screen := ScProfiles, ap_status := ''delete cancelled '' @ em_dash @ '' nothing erased''\<rparr>)"
proof
  fix V :: "(demo_tty, unit) v4l_scheme"
  show "fst (on_key demo_console V False (KChar ''n'')
     (demo_app\<lparr>ap_screen := ScProfiles, delete_confirm := Some ''al''\<rparr>) (demo_terminal [] [] 0) :: (cli_end, app) outcome \<times> demo_tty) =
     Ok (demo_app\<lparr>ap_screen := ScProfiles, ap_status := ''delete cancelled '' @ em_dash @ '' nothing erased''\<rparr>)"
    (is "fst (on_key demo_console V False ?k ?a ?w) = Ok ?b")
  proof -
    have "(on_key demo_console V False ?k ?a ?w :: (cli_end, app) outcome \<times> demo_tty) =
        (Ok (?a\<lparr>delete_confirm := None, ap_status := ''delete cancelled '' @ em_dash @ '' nothing erased''\<rparr>), ?w)"
      by (rule erasure_needs_yes [THEN mp, THEN conjunct1, THEN mp, THEN mp, THEN mp]) (simp_all add: demo_app_def)
    then show ?thesis by (simp add: demo_app_def del: append.simps)
  qed
qed



section \<open>Scrolling\<close>

definition scrolls_ok :: "app \<Rightarrow> bool" where
  "scrolls_ok a \<longleftrightarrow> doctor_scroll a \<le> doctor_max_scroll a \<and> activity_scroll_up a \<le> activity_max_scroll a"

lemma pos_from_row_le: "pos_from_row area row mx \<le> mx"
proof (cases "rc_h area - 2 \<le> 1 \<or> mx = 0")
  case False
  then have t: "0 < rc_h area - 2 - 1" by linarith
  have "min (row - (rc_y area + 1)) (rc_h area - 2 - 1) * mx div (rc_h area - 2 - 1) \<le>
      (rc_h area - 2 - 1) * mx div (rc_h area - 2 - 1)"
    by (intro div_le_mono mult_le_mono1) simp
  also have "... = mx" using t by simp
  finally show ?thesis using False by (simp add: pos_from_row_def Let_def)
qed (auto simp: pos_from_row_def Let_def)

lemma pos_from_row_ends:
  "pos_from_row area (Suc (rc_y area)) mx = 0"
  "4 \<le> rc_h area \<Longrightarrow> rc_y area + rc_h area - 2 \<le> row \<Longrightarrow> pos_from_row area row mx = mx"
proof -
  show "pos_from_row area (Suc (rc_y area)) mx = 0" by (simp add: pos_from_row_def Let_def)
  assume h: "4 \<le> rc_h area" and r: "rc_y area + rc_h area - 2 \<le> row"
  then have "min (row - (rc_y area + 1)) (rc_h area - 2 - 1) = rc_h area - 2 - 1" by linarith
  moreover have "\<not> rc_h area - 2 \<le> 1" and "rc_h area - 2 - 1 \<noteq> 0" using h by linarith+
  ultimately show "pos_from_row area row mx = mx" by (simp add: pos_from_row_def Let_def)
qed

lemma pos_product: "row < 65536 \<Longrightarrow> mx < 65536 \<Longrightarrow> (row - n) * mx < (4294967296 :: nat)"
  using mult_strict_mono' [of "row - n" 65536 mx "65536 :: nat"] by simp

lemma scrolls_ok_scroll:
  assumes "scrolls_ok a"
  shows "scrolls_ok (scroll_activity_up n a)" "scrolls_ok (scroll_activity_down n a)"
    "scrolls_ok (scroll_doctor_up n a)" "scrolls_ok (scroll_doctor_down n a)"
  using assms
  by (auto simp: scrolls_ok_def doctor_max_scroll_def activity_max_scroll_def scroll_activity_up_def scroll_activity_down_def
    scroll_doctor_up_def scroll_doctor_down_def)

lemma scrolls_ok_dragging [simp]: "scrolls_ok (a\<lparr>ap_dragging := d\<rparr>) = scrolls_ok a"
  by (simp add: scrolls_ok_def doctor_max_scroll_def activity_max_scroll_def)

lemma scrolls_ok_drag: "scrolls_ok a \<Longrightarrow> scrolls_ok (drag_to t row a)"
  using pos_from_row_le
  by (auto simp: scrolls_ok_def drag_to_def Let_def doctor_max_scroll_def activity_max_scroll_def split: scroll_target.split)

text \<open>
  The mouse and the scroll keys keep both boxes inside their content; dragging a slider's thumb to
  the first row of its track shows the top and to the last row (or below) the bottom, whatever the
  height of the box; and on the 16-bit coordinates of a terminal the position never overflows.
\<close>

theorem scrolling_in_range:
  assumes "scrolls_ok a"
  shows "scrolls_ok (on_mouse k col row a) \<and> scrolls_ok (scroll_activity_up n a) \<and> scrolls_ok (scroll_activity_down n a) \<and>
    scrolls_ok (scroll_doctor_up n a) \<and> scrolls_ok (scroll_doctor_down n a) \<and>
    (let area = doctor_area (ap_geometry a); mx = doctor_max_scroll a in
      doctor_scroll (drag_to ScrollDoctor (rc_y area + 1) a) = 0 \<and>
      (4 \<le> rc_h area \<and> rc_y area + rc_h area - 2 \<le> low \<longrightarrow> doctor_scroll (drag_to ScrollDoctor low a) = mx) \<and>
      (low < 2 ^ 16 \<and> mx < 2 ^ 16 \<longrightarrow> (low - (rc_y area + 1)) * mx < 2 ^ 32))"
proof (intro conjI)
  show "scrolls_ok (scroll_activity_up n a)" "scrolls_ok (scroll_activity_down n a)"
    "scrolls_ok (scroll_doctor_up n a)" "scrolls_ok (scroll_doctor_down n a)"
    using assms by (simp_all add: scrolls_ok_scroll)
  show "scrolls_ok (on_mouse k col row a)"
    using assms
    by (auto simp: on_mouse_def Let_def scrolls_ok_scroll scrolls_ok_drag scrolls_ok_dragging
      split: mouse_kind.split option.split scroll_target.split)
  show "let area = doctor_area (ap_geometry a); mx = doctor_max_scroll a in
      doctor_scroll (drag_to ScrollDoctor (rc_y area + 1) a) = 0 \<and>
      (4 \<le> rc_h area \<and> rc_y area + rc_h area - 2 \<le> low \<longrightarrow> doctor_scroll (drag_to ScrollDoctor low a) = mx) \<and>
      (low < 2 ^ 16 \<and> mx < 2 ^ 16 \<longrightarrow> (low - (rc_y area + 1)) * mx < 2 ^ 32)"
    by (auto simp: Let_def drag_to_def pos_from_row_ends intro: pos_product)
qed

lemma scrolling_in_range_witness:
  "let area = \<lparr>rc_x = 0, rc_y = 2, rc_w = 80, rc_h = 12\<rparr>;
     a = demo_app\<lparr>ap_screen := ScDoctor, doctor_scroll := 5, ap_geometry := \<lparr>doctor_content_rows = 50, doctor_view_rows = 10,
       activity_content_rows = 0, activity_view_rows = 0, activity_area = rect_zero, doctor_area = area\<rparr>\<rparr>
   in scrolls_ok (on_mouse MouseWheelDown 3 4 a) \<and> doctor_scroll (on_mouse MouseWheelDown 3 4 a) = 8 \<and>
     doctor_scroll (drag_to ScrollDoctor 12 a) = 40"
proof -
  define a where "a = demo_app\<lparr>ap_screen := ScDoctor, doctor_scroll := 5, ap_geometry := \<lparr>doctor_content_rows = 50, doctor_view_rows = 10,
       activity_content_rows = 0, activity_view_rows = 0, activity_area = rect_zero,
       doctor_area = \<lparr>rc_x = 0, rc_y = 2, rc_w = 80, rc_h = 12\<rparr>\<rparr>\<rparr>"
  have "scrolls_ok a" by (simp add: a_def scrolls_ok_def demo_app_def doctor_max_scroll_def activity_max_scroll_def)
  from scrolling_in_range [OF this, of MouseWheelDown 3 4 0 12]
  have "scrolls_ok (on_mouse MouseWheelDown 3 4 a)" "doctor_scroll (drag_to ScrollDoctor 12 a) = 40"
    by (simp_all add: Let_def a_def doctor_max_scroll_def)
  moreover have "doctor_scroll (on_mouse MouseWheelDown 3 4 a) = 8"
    by (simp add: a_def on_mouse_def box_at_def doctor_max_scroll_def rect_contains_def scroll_doctor_down_def)
  ultimately show ?thesis by (simp add: a_def)
qed

section \<open>Enrollment\<close>

definition samples_held :: "enroll_state \<Rightarrow> nat" where
  "samples_held e = (case e of EnFraming c _ \<Rightarrow> c | EnCountdown c _ \<Rightarrow> c | EnDone n \<Rightarrow> n | _ \<Rightarrow> 0)"

text \<open>The ticks of an enrollment, and for each whether its frame was good.\<close>

inductive enroll_trace ::
  "('z tty_host_scheme, 'y) console_scheme \<Rightarrow> app \<Rightarrow> 'z tty_host_scheme \<Rightarrow> bool list \<Rightarrow> app \<Rightarrow> 'z tty_host_scheme \<Rightarrow> bool"
  for C a w where
  started: "enroll_trace C a w [] a w"
| ticked: "enroll_trace C a w gs b v \<Longrightarrow> (tick_enroll C b v :: (cli_end, app) outcome \<times> _) = (Ok c, u) \<Longrightarrow>
    enroll_trace C a w (gs @ [good_frame (enroll_last c)]) c u"

text \<open>What a tick may do, by the state it starts from.\<close>

lemma redetect_gives: "gives (\<lambda>c. \<exists>i. c = b\<lparr>ap_install := i\<rparr>) (redetect C b)"
  unfolding redetect_def by (intro gives_intros) auto

lemma logged_enroll [simp]: "enroll_last (log_activity m b) = enroll_last b" "active_profile (log_activity m b) = active_profile b"
  by (simp_all add: log_activity_def push_activity_def Let_def)

definition after_sample :: "nat \<Rightarrow> enroll_state" where
  "after_sample n = (if n \<ge> enroll_target then EnDone n else EnFraming n 0)"

lemma sample_stored_gives: "gives (\<lambda>c. enroll_last c = enroll_last b \<and> ap_enroll c = after_sample n) (sample_stored C n b)"
proof -
  have "gives (\<lambda>c. enroll_last c = enroll_last b \<and> ap_enroll c = EnDone n)
      (abind (redetect C (log_activity m b)) (\<lambda>c. ret (c\<lparr>ap_enroll := EnDone n\<rparr>)))" for m
    by (rule gives_bind_from [OF redetect_gives]) (auto intro!: gives_ret)
  then show ?thesis
    unfolding sample_stored_def Let_def by (auto simp: after_sample_def intro!: gives_ret simp del: append.simps)
qed

lemma tick_framing:
  "ap_enroll b = EnFraming n s \<Longrightarrow> gives (\<lambda>c. ap_enroll c = framed n s (good_frame (enroll_last c))) (tick_enroll C b)"
  unfolding tick_enroll_def by (auto intro!: gives_intros)

lemma tick_countdown:
  assumes "ap_enroll b = EnCountdown n l"
  shows "gives (\<lambda>c. if good_frame (enroll_last c)
    then ap_enroll c = (if l \<le> 1 then after_sample (n + 1) else EnCountdown n (l - 1)) \<or> (\<exists>e. ap_enroll c = EnFailed e)
    else ap_enroll c = EnFraming n 0) (tick_enroll C b)"
  unfolding tick_enroll_def assms enroll_state.case Let_def
proof (rule gives_bind)
  fix r
  have "gives (\<lambda>c. enroll_last c = r \<and> (ap_enroll c = after_sample (n + 1) \<or> (\<exists>e. ap_enroll c = EnFailed e)))
      (abind (try_act (do_enroll_capture C (b\<lparr>enroll_last := r\<rparr>))) (\<lambda>q. case q of
            Inr _ \<Rightarrow> sample_stored C (n + 1) (b\<lparr>enroll_last := r\<rparr>)
          | Inl e \<Rightarrow> ret ((log_activity (''enroll capture failed: '' @ e) (b\<lparr>enroll_last := r\<rparr>))\<lparr>ap_enroll := EnFailed e\<rparr>)))"
    (is "gives ?P ?m")
  proof (rule gives_bind)
    have "gives ?P (sample_stored C (n + 1) (b\<lparr>enroll_last := r\<rparr>))"
      using sample_stored_gives by (rule gives_weaken) simp
    then show "gives ?P (case q of Inr _ \<Rightarrow> sample_stored C (n + 1) (b\<lparr>enroll_last := r\<rparr>)
          | Inl e \<Rightarrow> ret ((log_activity (''enroll capture failed: '' @ e) (b\<lparr>enroll_last := r\<rparr>))\<lparr>ap_enroll := EnFailed e\<rparr>))" for q
      by (auto split: sum.split intro!: gives_ret simp del: append.simps)
  qed
  then have "gives (\<lambda>c. if good_frame (enroll_last c)
      then ap_enroll c = (if l \<le> 1 then after_sample (n + 1) else EnCountdown n (l - 1)) \<or> (\<exists>e. ap_enroll c = EnFailed e)
      else ap_enroll c = EnFraming n 0) ?m"
    if "good_frame r" "l \<le> 1"
    by (rule gives_weaken) (use that in auto)
  then show "gives (\<lambda>c. if good_frame (enroll_last c)
      then ap_enroll c = (if l \<le> 1 then after_sample (n + 1) else EnCountdown n (l - 1)) \<or> (\<exists>e. ap_enroll c = EnFailed e)
      else ap_enroll c = EnFraming n 0)
     (if \<not> good_frame r then ret (b\<lparr>enroll_last := r, ap_enroll := EnFraming n 0\<rparr>)
      else if l \<le> 1 then ?m else ret (b\<lparr>enroll_last := r, ap_enroll := EnCountdown n (l - 1)\<rparr>))"
    by (cases "good_frame r"; cases "l \<le> 1") (simp_all add: gives_ret split del: if_split del: append.simps)
qed

text \<open>What the frames seen so far say of the state.\<close>

definition frames_ok :: "bool list \<Rightarrow> enroll_state \<Rightarrow> bool" where
  "frames_ok gs e = (case e of
      EnFraming n s \<Rightarrow> \<exists>hs. gs = hs @ replicate s True \<and> 6 * n \<le> length (filter id hs)
    | EnCountdown n l \<Rightarrow> 1 \<le> l \<and> l \<le> 3 \<and> (\<exists>hs. gs = hs @ replicate (6 - l) True \<and> 6 * n \<le> length (filter id hs))
    | EnDone n \<Rightarrow> 6 * n \<le> length (filter id gs)
    | _ \<Rightarrow> True)"

lemma frames_framed:
  assumes "frames_ok gs (EnFraming n s)" and "s < enroll_streak"
  shows "frames_ok (gs @ [g]) (framed n s g)"
proof -
  obtain hs where hs: "gs = hs @ replicate s True" "6 * n \<le> length (filter id hs)"
    using assms(1) by (auto simp: frames_ok_def)
  have count: "6 * n \<le> length (filter id (gs @ [g]))" using hs by simp
  show ?thesis
  proof (cases g)
    case True
    have "gs @ [g] = hs @ replicate (Suc s) True" using hs(1) True by (simp add: replicate_append_same)
    then show ?thesis using True hs(2) assms(2)
      by (auto simp: framed_def frames_ok_def Let_def enroll_streak_def eval_nat_numeral less_Suc_eq)
  next
    case False
    then show ?thesis using count by (auto simp: framed_def frames_ok_def enroll_streak_def)
  qed
qed

lemma frames_sample:
  assumes "frames_ok gs (EnCountdown n 1)"
  shows "frames_ok (gs @ [True]) (after_sample (n + 1))"
  using assms by (auto simp: frames_ok_def after_sample_def)

lemma frames_countdown:
  assumes "frames_ok gs (EnCountdown n l)"
  shows "1 < l \<Longrightarrow> frames_ok (gs @ [True]) (EnCountdown n (l - 1))" and "frames_ok (gs @ [False]) (EnFraming n 0)"
proof -
  obtain hs where hs: "1 \<le> l" "l \<le> 3" "gs = hs @ replicate (6 - l) True" "6 * n \<le> length (filter id hs)"
    using assms by (auto simp: frames_ok_def)
  have "1 < l \<Longrightarrow> gs @ [True] = hs @ replicate (6 - (l - 1)) True"
    using hs(2,3) by (simp add: replicate_append_same Suc_diff_le flip: replicate_Suc)
  then show "1 < l \<Longrightarrow> frames_ok (gs @ [True]) (EnCountdown n (l - 1))"
    using hs(2,4) by (auto simp: frames_ok_def)
  show "frames_ok (gs @ [False]) (EnFraming n 0)" using hs(3,4) by (auto simp: frames_ok_def)
qed

lemma trace_frames:
  assumes "enroll_trace C a w gs b v" and "ap_enroll a = EnFraming 0 0"
  shows "frames_ok gs (ap_enroll b) \<and> enroll_ok (ap_enroll b)"
  using assms
proof induction
  case started
  then show ?case by (simp add: frames_ok_def enroll_ok_def enroll_target_def enroll_streak_def)
next
  case (ticked gs b v c u)
  let ?g = "good_frame (enroll_last c)"
  have inv: "frames_ok gs (ap_enroll b)" "enroll_ok (ap_enroll b)" using ticked by auto
  show ?case
  proof (cases "ap_enroll b")
    case (EnFraming n s)
    from givesD [OF tick_framing [OF this] ticked.hyps(2)] show ?thesis
      using frames_framed framed_ok inv by (simp add: EnFraming enroll_ok_def [of "EnFraming _ _"])
  next
    case (EnCountdown n l)
    have l: "1 \<le> l" "l \<le> 3" "n < enroll_target" using inv(2) by (simp_all add: EnCountdown enroll_ok_def)
    have ok: "enroll_ok (EnFraming n 0)" "enroll_ok (after_sample (n + 1))" "1 < l \<Longrightarrow> enroll_ok (EnCountdown n (l - 1))"
      "enroll_ok (EnFailed e)" "frames_ok gs (EnFailed e)" for e gs
      using l by (auto simp: enroll_ok_def after_sample_def enroll_streak_def frames_ok_def)
    have n: "frames_ok gs (EnCountdown n l)" using inv(1) EnCountdown by simp
    note t = givesD [OF tick_countdown [OF EnCountdown] ticked.hyps(2)]
    show ?thesis
    proof (cases ?g)
      case False
      then show ?thesis using t ok(1) frames_countdown(2) [OF n] by simp
    next
      case True
      then consider e where "ap_enroll c = EnFailed e" | "l \<le> 1" "ap_enroll c = after_sample (n + 1)"
        | "1 < l" "ap_enroll c = EnCountdown n (l - 1)"
        using t by (auto split: if_splits)
      then show ?thesis
      proof cases
        case 2
        then have "l = 1" using l(1) by simp
        then show ?thesis using 2 True ok(2) frames_sample [of gs n] n by simp
      qed (use True ok frames_countdown(1) [OF n] in simp_all)
    qed
  qed (use ticked inv in \<open>auto simp: tick_enroll_def frames_ok_def\<close>)
qed

text \<open>
  C28. A face sample is stored only after six good frames on end: in a guided enrollment a tick that
  stores one is good and the five before it were, it stores exactly one, and every earlier sample had
  six good frames of its own.
\<close>

theorem sample_needs_good_frames:
  assumes "enroll_trace C a w gs b v" and "ap_enroll a = EnFraming 0 0"
    and "(tick_enroll C b v :: (cli_end, app) outcome \<times> _) = (Ok c, u)"
    and "samples_held (ap_enroll b) < samples_held (ap_enroll c)"
  shows "samples_held (ap_enroll c) = samples_held (ap_enroll b) + 1 \<and> good_frame (enroll_last c) \<and>
    (\<exists>hs. gs = hs @ replicate 5 True \<and> 6 * samples_held (ap_enroll b) \<le> length (filter id hs))"
proof (cases "ap_enroll b")
  case (EnFraming n s)
  from givesD [OF tick_framing [OF this] assms(3)] show ?thesis
    using assms(4) by (simp add: EnFraming samples_held_def framed_def Let_def split: if_splits)
next
  case (EnCountdown n l)
  have f: "frames_ok gs (EnCountdown n l)" using trace_frames [OF assms(1,2)] EnCountdown by simp
  have held: "samples_held (after_sample m) = m" for m by (simp add: samples_held_def after_sample_def)
  have *: "good_frame (enroll_last c) \<and> l \<le> 1 \<and> ap_enroll c = after_sample (n + 1)"
    using givesD [OF tick_countdown [OF EnCountdown] assms(3)] assms(4)
    by (auto simp: EnCountdown samples_held_def split: if_splits)
  then have "l = 1" using f by (simp add: frames_ok_def)
  then show ?thesis using f * held [of "n + 1"] by (auto simp: EnCountdown frames_ok_def samples_held_def [of "EnCountdown _ _"])
qed (use assms(3,4) in \<open>auto simp: tick_enroll_def\<close>)

text \<open>A daemon that answers: it sees a well-framed face and stores the samples asked for.\<close>

definition attentive :: "('w, 'y) console_scheme \<Rightarrow> string \<Rightarrow> bool" where
  "attentive C u \<longleftrightarrow> calm C \<and>
     (\<forall>w. \<exists>p v. daemon_send C RPositionSample w = (Ok (SPosition p), v) \<and> good_frame (Some p)) \<and>
     (\<forall>w. \<exists>n v. daemon_send C (REnroll u False) w = (Ok (SEnrolled n), v))"

definition good_next :: "enroll_state \<Rightarrow> enroll_state" where
  "good_next e = (case e of
      EnFraming n s \<Rightarrow> framed n s True
    | EnCountdown n l \<Rightarrow> if l \<le> 1 then after_sample (n + 1) else EnCountdown n (l - 1)
    | _ \<Rightarrow> e)"

lemma attentive_poll:
  assumes "attentive C u"
  shows "\<exists>r v. (poll_position C w :: ('e, position_report option) outcome \<times> _) = (Ok r, v) \<and> good_frame r"
proof -
  obtain p v where "daemon_send C RPositionSample w = (Ok (SPosition p), v)" "good_frame (Some p)"
    using assms unfolding attentive_def by blast
  then show ?thesis by (simp add: poll_position_def send_def abind_def try_act_def amap_err_def)
qed

lemma attentive_capture:
  assumes "attentive C (active_profile a)"
  shows "\<exists>v. do_enroll_capture C a w = (Ok (), v)"
proof -
  obtain n v where "daemon_send C (REnroll (active_profile a) False) w = (Ok (SEnrolled n), v)"
    using assms unfolding attentive_def by blast
  then show ?thesis by (simp add: do_enroll_capture_def send_def abind_def amap_err_def)
qed

lemma attentive_stored:
  assumes "attentive C u"
  shows "\<exists>b v. (sample_stored C n a w :: ('e, app) outcome \<times> _) = (Ok b, v) \<and> enroll_last b = enroll_last a \<and>
    active_profile b = active_profile a \<and> ap_enroll b = after_sample n"
proof -
  define c where "c = log_activity (''stored face sample '' @ show_nat n @ ''/'' @ show_nat enroll_target @ '' (encrypted) '' @ arrow @
          '' /etc/linhello/'' @ active_profile a @ ''/embedding.enc'') a"
  have c: "enroll_last c = enroll_last a" "active_profile c = active_profile a" by (simp_all add: c_def del: append.simps)
  obtain i v where "(redetect C c w :: ('e, app) outcome \<times> _) = (Ok (c\<lparr>ap_install := i\<rparr>), v)"
    using calm_redetect assms unfolding attentive_def by blast
  then show ?thesis
    unfolding sample_stored_def Let_def c_def [symmetric] using c by (simp add: abind_run after_sample_def)
qed

lemma attentive_tick:
  assumes "attentive C (active_profile a)"
  shows "\<exists>b v. (tick_enroll C a w :: ('e, app) outcome \<times> _) = (Ok b, v) \<and> ap_enroll b = good_next (ap_enroll a) \<and>
    active_profile b = active_profile a \<and> (ap_enroll a \<noteq> EnIdle \<and> (\<forall>n. ap_enroll a \<noteq> EnDone n) \<and> (\<forall>e. ap_enroll a \<noteq> EnFailed e)
      \<longrightarrow> good_frame (enroll_last b))"
proof -
  obtain r u where r: "(poll_position C w :: ('e, position_report option) outcome \<times> _) = (Ok r, u)" "good_frame r"
    using attentive_poll [OF assms] by blast
  show ?thesis
  proof (cases "ap_enroll a")
    case (EnCountdown n l)
    let ?a = "a\<lparr>enroll_last := r\<rparr>"
    obtain v where v: "do_enroll_capture C ?a u = (Ok (), v)"
      using attentive_capture [of C ?a u] assms by auto
    obtain b x where "(sample_stored C (n + 1) ?a v :: ('e, app) outcome \<times> _) = (Ok b, x)" "enroll_last b = r"
      "active_profile b = active_profile a" "ap_enroll b = after_sample (n + 1)"
      using attentive_stored [OF assms, of "n + 1" ?a v] by auto
    then show ?thesis
      using r v by (simp add: tick_enroll_def EnCountdown abind_run Let_def good_next_def abind_def try_act_def del: append.simps)
  qed (use r in \<open>simp_all add: tick_enroll_def abind_run good_next_def\<close>)
qed

lemma good_runs: "(good_next ^^ n) (EnFraming 0 0) \<noteq> EnIdle \<and> (\<forall>e. (good_next ^^ n) (EnFraming 0 0) \<noteq> EnFailed e)"
  by (induction n) (auto simp: good_next_def framed_def after_sample_def Let_def split: enroll_state.splits)

lemma good_five: "(good_next ^^ 5) (EnFraming n 0) = EnCountdown n 1"
  by (simp add: numeral_eq_Suc good_next_def framed_def enroll_streak_def)

lemma good_six: "(good_next ^^ 6) (EnFraming n 0) = after_sample (n + 1)"
  using arg_cong [OF good_five [of n], of good_next] by (simp add: numeral_eq_Suc good_next_def)

lemma good_thirty: "(good_next ^^ 30) (EnFraming 0 0) = EnDone 5"
proof -
  have "(good_next ^^ 30) (EnFraming 0 0) = (good_next ^^ (6 + 6 + 6 + 6 + 6)) (EnFraming 0 0)" by simp
  also have "... = EnDone 5"
    unfolding funpow_add comp_def by (simp add: good_six after_sample_def enroll_target_def)
  finally show ?thesis .
qed

lemma attentive_trace:
  assumes "attentive C (active_profile a)" and "ap_enroll a = EnFraming 0 0" and "n \<le> 30"
  shows "\<exists>b v. enroll_trace C a w (replicate n True) b v \<and> ap_enroll b = (good_next ^^ n) (EnFraming 0 0) \<and>
    active_profile b = active_profile a"
  using assms(3)
proof (induction n)
  case 0
  have "enroll_trace C a w [] a w" by (rule enroll_trace.started)
  then show ?case using assms(2) by auto
next
  case (Suc n)
  then obtain b v where b: "enroll_trace C a w (replicate n True) b v" "ap_enroll b = (good_next ^^ n) (EnFraming 0 0)"
    "active_profile b = active_profile a" by auto
  have going: "ap_enroll b \<noteq> EnIdle" "\<forall>e. ap_enroll b \<noteq> EnFailed e" using good_runs [of n] by (auto simp: b(2))
  have unfinished: "\<forall>m. ap_enroll b \<noteq> EnDone m"
    using trace_frames [OF b(1) assms(2)] Suc.prems by (auto simp: frames_ok_def enroll_ok_def enroll_target_def)
  obtain c u where c: "(tick_enroll C b v :: (cli_end, app) outcome \<times> _) = (Ok c, u)" "ap_enroll c = good_next (ap_enroll b)"
    "active_profile c = active_profile b" "good_frame (enroll_last c)"
    using attentive_tick [of C b v] assms(1) b(3) going unfinished by auto
  have "enroll_trace C a w (replicate n True @ [good_frame (enroll_last c)]) c u" by (rule enroll_trace.ticked [OF b(1) c(1)])
  then show ?case using b c by (intro exI [of _ c] exI [of _ u]) (simp add: replicate_append_same)
qed

lemma attentive_demo: "attentive demo_console ''al''"
  by (simp add: attentive_def calm_demo) (simp add: demo_console_def good_frame_def enroll_qual_min_def Let_def)

definition demo_enrolling :: app where
  "demo_enrolling = demo_app\<lparr>ap_screen := ScEnroll, ap_enroll := EnFraming 0 0\<rparr>"

lemma demo_enrolling_simps [simp]: "ap_enroll demo_enrolling = EnFraming 0 0" "active_profile demo_enrolling = ''al''"
  by (simp_all add: demo_enrolling_def demo_app_def)

lemma sample_needs_good_frames_witness:
  "\<exists>b v c u. enroll_trace demo_console demo_enrolling (demo_terminal [] [] 0) (replicate 5 True) b v \<and>
     (tick_enroll demo_console b v :: (cli_end, app) outcome \<times> _) = (Ok c, u) \<and>
     samples_held (ap_enroll c) = samples_held (ap_enroll b) + 1 \<and> good_frame (enroll_last c)"
proof -
  obtain b v where b: "enroll_trace demo_console demo_enrolling (demo_terminal [] [] 0) (replicate 5 True) b v"
    "ap_enroll b = EnCountdown 0 1" "active_profile b = ''al''"
    using attentive_trace [of demo_console demo_enrolling 5 "demo_terminal [] [] 0"] attentive_demo by (auto simp: good_five)
  obtain c u where c: "(tick_enroll demo_console b v :: (cli_end, app) outcome \<times> _) = (Ok c, u)"
    "ap_enroll c = good_next (ap_enroll b)"
    using attentive_tick [of demo_console b v] attentive_demo b(3) by auto
  have "samples_held (ap_enroll b) < samples_held (ap_enroll c)"
    using b(2) c(2) by (simp add: samples_held_def good_next_def after_sample_def enroll_target_def)
  from sample_needs_good_frames [OF b(1) demo_enrolling_simps(1) c(1) this] show ?thesis using b(1) c(1) by blast
qed

text \<open>
  C29. A guided enrollment ends: with a daemon that sees a well-framed face at every poll and stores what
  it is asked to, thirty ticks from the start end it with five samples, and no enrollment ends with
  fewer than five samples or fewer than thirty good frames.
\<close>

theorem enrollment_ends:
  assumes "attentive C (active_profile a)" and "ap_enroll a = EnFraming 0 0"
  shows "(\<exists>b v. enroll_trace C a w (replicate 30 True) b v \<and> ap_enroll b = EnDone 5) \<and>
    (\<forall>gs b v n. enroll_trace C a w gs b v \<and> ap_enroll b = EnDone n \<longrightarrow> n = 5 \<and> 30 \<le> length (filter id gs))"
proof (intro conjI allI impI)
  show "\<exists>b v. enroll_trace C a w (replicate 30 True) b v \<and> ap_enroll b = EnDone 5"
    using attentive_trace [OF assms, of 30 w] by (auto simp: good_thirty)
  fix gs b v n
  assume t: "enroll_trace C a w gs b v \<and> ap_enroll b = EnDone n"
  then have "frames_ok gs (EnDone n)" "enroll_ok (EnDone n)" using trace_frames [of C a w gs b v] assms(2) by auto
  then show "n = 5" "30 \<le> length (filter id gs)" by (simp_all add: frames_ok_def enroll_ok_def enroll_target_def)
qed

lemma enrollment_ends_witness:
  "\<exists>b v. enroll_trace demo_console demo_enrolling (demo_terminal [] [] 0) (replicate 30 True) b v \<and> ap_enroll b = EnDone 5"
  using enrollment_ends [of demo_console demo_enrolling] attentive_demo by simp

section \<open>Calibration\<close>

fun calibrate_ticks ::
  "('z tty_host_scheme, 'y) console_scheme \<Rightarrow> nat \<Rightarrow> app \<Rightarrow> ('z tty_host_scheme, 'e, app) act" where
  "calibrate_ticks C 0 a = ret a"
| "calibrate_ticks C (Suc n) a = abind (tick_calibrate C a) (calibrate_ticks C n)"

definition cal_ended :: "cal_state \<Rightarrow> bool" where
  "cal_ended c = (case c of
      CalNotEnough \<Rightarrow> True
    | CalReview scores rec input \<Rightarrow> 3 \<le> length scores \<and> length scores \<le> cal_target \<and>
        rec = recommended_threshold scores \<and> input = []
    | _ \<Rightarrow> False)"

lemma calibrate_idle: "cal_ended (ap_cal a) \<Longrightarrow> calibrate_ticks C n a w = (Ok a, w)"
  by (induction n arbitrary: a w) (auto simp: abind_def tick_calibrate_def cal_ended_def split: cal_state.splits)

lemma tick_sampling:
  assumes "ap_cal a = CalSampling scores n" and "\<And>w. \<not> panics (fst (daemon_send C (RVerify (ap_user a)) w))"
  shows "\<exists>b v xs. (tick_calibrate C a w :: ('e, app) outcome \<times> _) = (Ok b, v) \<and> ap_user b = ap_user a \<and>
    length xs \<le> Suc (length scores) \<and> ap_cal b = sampled xs (n + 1)"
proof -
  have "\<not> panics (fst (send C (RVerify (ap_user a)) w))" using assms(2) by (simp add: send_def)
  then obtain r v where r: "(try_act (send C (RVerify (ap_user a))) w :: ('e, string + response) outcome \<times> _) = (Ok r, v)"
    by (cases "send C (RVerify (ap_user a)) w"; cases "fst (send C (RVerify (ap_user a)) w)") (auto simp: try_act_def)
  define xs where "xs = (case r of Inr (SVerified _ score _) \<Rightarrow> scores @ [score] | _ \<Rightarrow> scores)"
  have len: "length xs \<le> Suc (length scores)" by (simp add: xs_def split: sum.split response.split)
  define b where "b = a\<lparr>ap_status := ''calibrating'' @ ellipsis @ '' '' @ show_nat (length xs) @ ''/'' @ show_nat cal_target,
    ap_cal := sampled xs (n + 1)\<rparr>"
  have "(tick_calibrate C a w :: ('e, app) outcome \<times> _) = ret b v"
    unfolding tick_calibrate_def assms(1) cal_state.case Let_def
      abind_run(1) [where m = "try_act (send C (RVerify (ap_user a)))", OF r] xs_def [symmetric] b_def
    by (rule refl)
  moreover have "ap_user b = ap_user a" "ap_cal b = sampled xs (n + 1)" by (simp_all add: b_def del: append.simps)
  ultimately show ?thesis using len by (intro exI [of _ b] exI [of _ v] exI [of _ xs]) simp
qed

lemma sampled_ends:
  assumes "length xs \<le> cal_target"
  shows "cal_ended (sampled xs n) \<or> (sampled xs n = CalSampling xs n \<and> length xs < cal_target \<and> n < cal_max_attempts)"
  using assms by (auto simp: sampled_def cal_ended_def)

lemma calibrate_run:
  assumes "ap_cal a = CalSampling scores n" and "length scores < cal_target" and "cal_max_attempts \<le> n + k" and "n < cal_max_attempts"
    and "\<And>w. \<not> panics (fst (daemon_send C (RVerify (ap_user a)) w))"
  shows "\<exists>b v. (calibrate_ticks C k a w :: ('e, app) outcome \<times> _) = (Ok b, v) \<and> cal_ended (ap_cal b)"
  using assms
proof (induction k arbitrary: a w scores n)
  case (Suc k)
  obtain b v xs where b: "(tick_calibrate C a w :: ('e, app) outcome \<times> _) = (Ok b, v)" "ap_user b = ap_user a"
    "length xs \<le> Suc (length scores)" "ap_cal b = sampled xs (n + 1)"
    using tick_sampling [OF Suc.prems(1) Suc.prems(5), of w] by blast
  have run: "(calibrate_ticks C (Suc k) a w :: ('e, app) outcome \<times> _) = calibrate_ticks C k b v" using b(1) by (simp add: abind_run)
  have "length xs \<le> cal_target" using b(3) Suc.prems(2) by simp
  from sampled_ends [OF this, of "n + 1"] show ?case
  proof
    assume "cal_ended (sampled xs (n + 1))"
    then have "(calibrate_ticks C k b v :: ('e, app) outcome \<times> _) = (Ok b, v)" and "cal_ended (ap_cal b)"
      by (simp_all add: b(4) calibrate_idle)
    then show ?thesis unfolding run by blast
  next
    assume s: "sampled xs (n + 1) = CalSampling xs (n + 1) \<and> length xs < cal_target \<and> n + 1 < cal_max_attempts"
    then show ?thesis
      unfolding run using Suc.IH [of b xs "n + 1" v] b(2,4) Suc.prems(3,5) by simp
  qed
qed simp

text \<open>
  C30. A calibration ends: sixteen ticks after its start, whatever the daemon answers or fails to, it is
  not sampling any more; it either had too few scores or shows for review the recommendation for
  between 3 and 8 of them.
\<close>

theorem calibration_ends:
  assumes "ap_cal a = CalSampling [] 0" and "\<And>w. \<not> panics (fst (daemon_send C (RVerify (ap_user a)) w))"
  shows "\<exists>b v. (calibrate_ticks C 16 a w :: ('e, app) outcome \<times> _) = (Ok b, v) \<and>
    (ap_cal b = CalNotEnough \<or>
     (\<exists>scores. 3 \<le> length scores \<and> length scores \<le> 8 \<and> ap_cal b = CalReview scores (recommended_threshold scores) []))"
proof -
  obtain b v where "(calibrate_ticks C 16 a w :: ('e, app) outcome \<times> _) = (Ok b, v)" "cal_ended (ap_cal b)"
    using calibrate_run [OF assms(1) _ _ _ assms(2), of 16 w] by (auto simp: cal_target_def cal_max_attempts_def)
  then show ?thesis
    by (cases "ap_cal b") (auto simp: cal_ended_def cal_target_def)
qed

lemma calibration_ends_witness:
  "\<exists>b v. (calibrate_ticks demo_console 16 (demo_app\<lparr>ap_cal := CalSampling [] 0\<rparr>) (demo_terminal [] [] 0) :: (cli_end, app) outcome \<times> _) =
     (Ok b, v) \<and> (ap_cal b = CalNotEnough \<or>
       (\<exists>scores. 3 \<le> length scores \<and> length scores \<le> 8 \<and> ap_cal b = CalReview scores (recommended_threshold scores) []))"
  by (rule calibration_ends) (simp_all add: demo_console_def)

end
