(* ===== verification/Capabilities.thy ===== *)
theory Capabilities
  imports CameraSelect Fingerprint Platform Liveness PcrSig Ipc
begin

text \<open>
  The capability probe of the daemon, crates/linhello-daemon/src/capabilities.rs: one definition per
  check of the host, and the report of all of them. The fingerprint reader is asked through the tools
  of \<open>system\<close>, the camera nodes come from \<open>v4l\<close>.
\<close>

section \<open>The checks\<close>

definition cap_check :: "string \<Rightarrow> capability_status \<Rightarrow> bool \<Rightarrow> string \<Rightarrow> capability_check" where
  "cap_check name status required detail =
     \<lparr>cap_name = name, cap_status = status, cap_detail = detail, cap_required = required\<rparr>"

definition fingerprint_check ::
  "('z host_scheme, 'x) system_scheme \<Rightarrow> ('z host_scheme, 'y) v4l_scheme \<Rightarrow> ('z host_scheme, 'e, capability_check option) act" where
  "fingerprint_check S V =
     abind (fp_available S) (\<lambda>av.
     if \<not> av then ret None
     else
       abind (device_name S) (\<lambda>n.
       let name = unwrap_or ''fingerprint reader'' n in
       abind (query (\<lambda>w. resolve_ir V w = None)) (\<lambda>rgb_only.
       ret (Some (cap_check ''Fingerprint'' CapOk False
         (if rgb_only
          then name @ '' present '' @ em_dash @ '' a secure-tier method (screen unlock + login + sudo), stronger than RGB-only face. Manage with `linhello fingerprint` (RGB-only face stays available as a convenience option).''
          else name @ '' present '' @ em_dash @ '' a secure-tier alternative to IR face (both unlock everything); choose either. Manage with `linhello fingerprint`.''))))))"

definition tpm_device :: "'z host_scheme \<Rightarrow> string option" where
  "tpm_device w = find (\<lambda>d. path_exists d w) [''/dev/tpmrm0'', ''/dev/tpm0'']"

definition tpm_check :: "'z host_scheme \<Rightarrow> capability_check" where
  "tpm_check w = (case tpm_device w of
      Some dev \<Rightarrow> cap_check ''TPM 2.0'' CapOk True dev
    | None \<Rightarrow> cap_check ''TPM 2.0'' CapMissing True
        (''no /dev/tpmrm0 '' @ em_dash @ '' a TPM 2.0 is required for hardware-backed sealing''))"

definition secure_boot_check :: "'z host_scheme \<Rightarrow> capability_check" where
  "secure_boot_check w =
     (if is_secure_boot_enabled w then cap_check ''Secure Boot'' CapOk False ''enabled''
      else cap_check ''Secure Boot'' CapWarn False
        (''disabled '' @ em_dash @ '' TPM binding falls back to the weakest tier; enable for PCR-7 trust''))"

definition boot_mode_check :: "'z host_scheme \<Rightarrow> capability_check" where
  "boot_mode_check w = (case detect_boot_mode w of
      Uki \<Rightarrow> cap_check ''Boot mode'' CapOk False (''UKI '' @ em_dash @ '' eligible for signed PCR-11 policy'')
    | Grub \<Rightarrow> cap_check ''Boot mode'' CapOk False
        (''GRUB '' @ em_dash @ '' uses linhello's self-healing PCR-7 signer (signed PCR-11 would need a UKI)'')
    | Unknown \<Rightarrow> cap_check ''Boot mode'' CapWarn False ''unknown bootloader'')"

definition signed_policy_check :: "'z host_scheme \<Rightarrow> capability_check" where
  "signed_policy_check w =
     (if signed_policy_available w then cap_check ''Signed PCR policy'' CapOk False
        (''systemd PCR-11 signature + public key present '' @ em_dash @ '' kernel updates won't require re-seal'')
      else if is_secure_boot_enabled w then cap_check ''Signed PCR policy'' CapOk False
        (''linhello-signed PCR-7 '' @ em_dash @
         '' self-heals after firmware/dbx updates while Secure Boot stays on (no re-enroll)'')
      else cap_check ''Signed PCR policy'' CapWarn False
        (''Secure Boot off '' @ em_dash @ '' no TPM PCR binding; enable Secure Boot for self-healing PCR-7''))"

section \<open>The cameras\<close>

text \<open>A path as the driver names its node, links resolved.\<close>

definition node_path :: "'z host_scheme \<Rightarrow> string \<Rightarrow> string" where
  "node_path w p = unwrap_or p (opt_filter utf8_valid (realpath w p))"

definition named_node :: "string \<Rightarrow> camera_node \<Rightarrow> string \<Rightarrow> string" where
  "named_node unnamed c node = unwrap_or unnamed (cn_name c) @ '' ('' @ node @ '')''"

definition rgb_check :: "camera_node list \<Rightarrow> string \<Rightarrow> 'z host_scheme \<Rightarrow> capability_check" where
  "rgb_check cams rgb_path w =
     (let node = node_path w rgb_path in
      case find (\<lambda>c. node_path w (ci_path c) = node) cams of
        Some c \<Rightarrow>
          if cn_kind c = Rgb \<and> cn_trusted c \<and> ci_privacy c = Some True
          then cap_check ''RGB camera'' CapWarn True (named_node ''camera'' c node @ '' '' @ em_dash @
            '' PRIVACY SWITCH IS ON; the camera is blocked in hardware. Toggle the camera-privacy key (e.g. Fn+F10) to use face unlock'')
          else if cn_kind c = Rgb \<and> cn_trusted c
          then cap_check ''RGB camera'' CapOk True (named_node ''camera'' c node)
          else if cn_kind c = Rgb
          then cap_check ''RGB camera'' CapWarn True
            (''resolved '' @ node @ '' is untrusted (virtual?) '' @ em_dash @ '' check cameras.conf'')
          else cap_check ''RGB camera'' CapWarn True
            (''resolved '' @ node @ '' is not colour-capable '' @ em_dash @ '' wrong cameras.conf `rgb=`'')
      | None \<Rightarrow> cap_check ''RGB camera'' CapWarn True
          (''resolved '' @ rgb_path @ '' not found among capture nodes '' @ em_dash @
           '' the camera may be unplugged or a hardware privacy kill-switch/eShutter is engaged (the OS then sees no camera at all); otherwise check cameras.conf / its SELinux label''))"

definition ir_check :: "camera_node list \<Rightarrow> string option \<Rightarrow> 'z host_scheme \<Rightarrow> capability_check" where
  "ir_check cams ir_path w = (case ir_path of
      Some path \<Rightarrow>
        (let node = node_path w path in
         case find (\<lambda>c. node_path w (ci_path c) = node) cams of
           Some c \<Rightarrow>
             if ci_privacy c = Some True
             then cap_check ''IR camera'' CapWarn False (named_node ''IR sensor'' c node @ '' '' @ em_dash @
               '' PRIVACY SWITCH IS ON; the IR sensor is blocked. Toggle the camera-privacy key (e.g. Fn+F10) to restore IR liveness'')
             else cap_check ''IR camera'' CapOk False (named_node ''IR sensor'' c node @ '' '' @ em_dash @ '' active-IR liveness available'')
         | None \<Rightarrow> cap_check ''IR camera'' CapWarn False
             (''resolved '' @ path @ '' not found among capture nodes '' @ em_dash @ '' check cameras.conf / its SELinux label''))
    | None \<Rightarrow> cap_check ''IR camera'' CapWarn False
        (''no NIR sensor '' @ em_dash @ '' active-IR anti-spoof disabled (ML anti-spoof still applies)''))"

definition camera_checks ::
  "('z host_scheme, 'y) v4l_scheme \<Rightarrow> 'z host_scheme \<Rightarrow> capability_check \<times> capability_check" where
  "camera_checks V w =
     (let cams = enumerate_cameras V w in (rgb_check cams (resolve_rgb V w) w, ir_check cams (resolve_ir V w) w))"

section \<open>The platform, the runtime and the models\<close>

definition field_sep :: string where "field_sep = [CHR '' '', CHR 0xC2, CHR 0xB7, CHR '' '']"

definition platform_check :: "'z host_scheme \<Rightarrow> capability_check" where
  "platform_check w =
     (let lsm = security_module w;
          selinux = (if needs_selinux_policy lsm then field_sep @ ''SELinux policy module required'' else [])
      in cap_check ''Platform'' CapOk False
        (family_as_str (distro_family w) @ field_sep @ ''pkg: '' @ format_as_str (package_format w) @ field_sep @
         ''PAM modules: '' @ pam_module_dir w @ field_sep @ ''initramfs: '' @ initramfs_tool w @ field_sep @
         ''reseal: '' @ trigger_as_str (reseal_trigger w) @ field_sep @ ''LSM: '' @ module_as_str lsm @ selinux))"

definition onnx_runtime ::
  "('z host_scheme, 'x) system_scheme \<Rightarrow> 'z host_scheme \<Rightarrow> string option" where
  "onnx_runtime S w = (case opt_filter (\<lambda>p. path_exists p w) (env_vars w ''ORT_DYLIB_PATH'') of
      Some p \<Rightarrow> Some (utf8_lossy p)
    | None \<Rightarrow> onnxruntime_dylib (\<lambda>d. list_dir S d w) w)"

definition onnxruntime_check ::
  "('z host_scheme, 'x) system_scheme \<Rightarrow> 'z host_scheme \<Rightarrow> capability_check" where
  "onnxruntime_check S w = (case onnx_runtime S w of
      Some p \<Rightarrow> cap_check ''ONNX runtime'' CapOk True p
    | None \<Rightarrow> cap_check ''ONNX runtime'' CapMissing True
        (''libonnxruntime.so not found '' @ em_dash @ '' '' @ onnxruntime_install_hint w))"

definition model_file :: "string \<Rightarrow> string \<Rightarrow> 'z host_scheme \<Rightarrow> string" where
  "model_file env dflt w = unwrap_or dflt (opt_filter utf8_valid (env_vars w env))"

definition buffalo_hint :: string where
  "buffalo_hint = '' '' @ em_dash @ '' in InsightFace buffalo_l (v0.7); `linhello setup` installs it automatically if found in $LINHELLO_MODELS_DIR, <repo>/models, or /usr/share/linhello/models '' @
     em_dash @ '' else fetch buffalo_l.zip from github.com/deepinsight/insightface/releases/tag/v0.7''"

definition required_models :: "(string \<times> string \<times> string \<times> bool \<times> string) list" where
  "required_models =
     [(''Face detector model'', ''LINHELLO_DET_MODEL'', ''/etc/linhello/det_10g.onnx'', True, buffalo_hint),
      (''Face embedder model'', ''LINHELLO_MODEL_PATH'', ''/etc/linhello/face.onnx'', True, buffalo_hint),
      (''Anti-spoof model'', ''LINHELLO_ANTISPOOF_MODEL'', default_antispoof_model, True,
       '' (required by default; set LINHELLO_REQUIRE_ANTISPOOF=0 to allow running without it)'')]"

definition model_check :: "'z host_scheme \<Rightarrow> string \<times> string \<times> string \<times> bool \<times> string \<Rightarrow> capability_check" where
  "model_check w = (\<lambda>(name, env, dflt, required, note).
     let path = model_file env dflt w in
     if path_exists path w then cap_check name CapOk required path
     else cap_check name CapMissing required (''missing at '' @ path @ note))"

definition model_checks :: "'z host_scheme \<Rightarrow> capability_check list" where
  "model_checks w = map (model_check w) required_models"

section \<open>The report\<close>

definition host_checks ::
  "('z host_scheme, 'x) system_scheme \<Rightarrow> ('z host_scheme, 'y) v4l_scheme \<Rightarrow> 'z host_scheme \<Rightarrow> capability_check list" where
  "host_checks S V w = (case camera_checks V w of (rgb, ir) \<Rightarrow>
     [platform_check w, tpm_check w, secure_boot_check w, boot_mode_check w, signed_policy_check w, rgb, ir,
      onnxruntime_check S w] @ model_checks w)"

definition probe ::
  "('z host_scheme, 'x) system_scheme \<Rightarrow> ('z host_scheme, 'y) v4l_scheme \<Rightarrow> ('z host_scheme, 'e, capability_report) act" where
  "probe S V =
     abind (query (host_checks S V)) (\<lambda>checks.
     abind (fingerprint_check S V) (\<lambda>fp.
     ret (checks @ (case fp of Some c \<Rightarrow> [c] | None \<Rightarrow> []))))"

lemmas check_defs = tpm_check_def secure_boot_check_def boot_mode_check_def signed_policy_check_def rgb_check_def ir_check_def
  platform_check_def onnxruntime_check_def

lemma cap_check_sel [simp]:
  "cap_status (cap_check n s r d) = s" "cap_required (cap_check n s r d) = r" "cap_name (cap_check n s r d) = n"
  by (simp_all add: cap_check_def)

text \<open>Which checks can report something required as missing.\<close>

definition blocks_use :: "capability_check \<Rightarrow> bool" where
  "blocks_use c \<longleftrightarrow> cap_required c \<and> cap_status c = CapMissing"

lemma can_run_blocks: "can_run r \<longleftrightarrow> list_all (\<lambda>c. \<not> blocks_use c) r"
  by (simp add: can_run_def blocks_use_def)

lemma never_blocks [simp]:
  "\<not> blocks_use (platform_check w)" "\<not> blocks_use (secure_boot_check w)" "\<not> blocks_use (boot_mode_check w)"
  "\<not> blocks_use (signed_policy_check w)" "\<not> blocks_use (rgb_check cams rp w)" "\<not> blocks_use (ir_check cams ip w)"
  by (simp_all add: blocks_use_def check_defs Let_def split: option.split boot_mode.split)

lemma blocks_required [simp]:
  "blocks_use (tpm_check w) \<longleftrightarrow> tpm_device w = None"
  "blocks_use (onnxruntime_check S w) \<longleftrightarrow> onnx_runtime S w = None"
  by (simp_all add: blocks_use_def tpm_check_def onnxruntime_check_def split: option.split)

lemma blocks_model: "blocks_use (model_check w (n, e, d, True, note)) \<longleftrightarrow> \<not> path_exists (model_file e d w) w"
  by (simp add: blocks_use_def model_check_def Let_def)

lemma fingerprint_never_blocks:
  "fingerprint_check S V w = (Ok (Some c), v) \<Longrightarrow> cap_name c = ''Fingerprint'' \<and> cap_status c = CapOk \<and> \<not> blocks_use c"
  by (auto simp: fingerprint_check_def res_iff Let_def blocks_use_def split: if_splits)

lemma probe_report:
  assumes "(probe S V w :: ('e, capability_report) outcome \<times> _) = (Ok r, v)"
  shows "\<exists>rest. r = host_checks S V w @ rest \<and> list_all (\<lambda>c. \<not> blocks_use c) rest"
proof -
  obtain fp u where "(fingerprint_check S V w :: ('e, capability_check option) outcome \<times> _) = (Ok fp, u)" "r = host_checks S V w @ (case fp of Some c \<Rightarrow> [c] | None \<Rightarrow> [])"
    using assms by (auto simp: probe_def res_iff)
  then show ?thesis using fingerprint_never_blocks [of S V w] by (cases fp) auto
qed

lemma rgb_check_ok:
  "cap_status (rgb_check cams rp w) = CapOk \<Longrightarrow> \<exists>c\<in>set cams. cn_kind c = Rgb \<and> cn_trusted c \<and> ci_privacy c \<noteq> Some True"
  by (auto simp: rgb_check_def Let_def find_Some_iff split: option.splits if_splits)

lemma ir_check_ok: "cap_status (ir_check cams ip w) = CapOk \<Longrightarrow> ip \<noteq> None"
  by (auto simp: ir_check_def split: option.splits)

lemma rgb_not_missing: "cap_status (rgb_check cams rp w) \<noteq> CapMissing" "cap_status (ir_check cams ip w) \<noteq> CapMissing"
  by (simp_all add: rgb_check_def ir_check_def Let_def split: option.split)

end
