(* ===== verification/CapSpec.thy ===== *)
theory CapSpec
  imports Capabilities CliSpec
begin

text \<open>
  Properties of the capability probe: what its verdict on the host says, exactly.
\<close>





end
