(* ===== verification/Pixels.thy ===== *)
theory Pixels
  imports CameraSelect
begin

text \<open>
  The pixel routines of crates/linhello-biometrics/src/camera.rs: the conversion of YUYV frames, the
  structural check of a JPEG, and the two brightness measures. The loops write an image pixel by
  pixel as the code does; a write outside the image panics. The 64-bit sums of the second measure are
  exact rationals rounded after each operation.
\<close>

section \<open>YUYV\<close>

definition clamp_u8 :: "int \<Rightarrow> nat" where "clamp_u8 v = nat (max 0 (min 255 v))"

text \<open>\<open>>> 8\<close> on a signed integer is the floor of the division by 256.\<close>

definition yuv_pixel :: "int \<Rightarrow> int \<Rightarrow> int \<Rightarrow> nat \<times> nat \<times> nat" where
  "yuv_pixel y u v =
     (let c = y - 16; d = u - 128; e = v - 128
      in (clamp_u8 ((298 * c + 409 * e + 128) div 256),
          clamp_u8 ((298 * c - 100 * d - 208 * e + 128) div 256),
          clamp_u8 ((298 * c + 516 * d + 128) div 256)))"

definition blank :: "nat \<Rightarrow> nat \<Rightarrow> rgb_image" where
  "blank w h = \<lparr>ri_w = w, ri_h = h, ri_px = (\<lambda>_ _. (0, 0, 0))\<rparr>"

definition put_pixel :: "nat \<Rightarrow> nat \<Rightarrow> nat \<times> nat \<times> nat \<Rightarrow> rgb_image \<Rightarrow> ('e, rgb_image) outcome" where
  "put_pixel x y p img =
     (if x < ri_w img \<and> y < ri_h img
      then Ok (img\<lparr>ri_px := (\<lambda>i j. if i = x \<and> j = y then p else ri_px img i j)\<rparr>)
      else Panic ''Image index out of bounds'')"

definition obind :: "('e, 'a) outcome \<Rightarrow> ('a \<Rightarrow> ('e, 'b) outcome) \<Rightarrow> ('e, 'b) outcome" where
  "obind r f = (case r of Ok x \<Rightarrow> f x | Err e \<Rightarrow> Err e | Panic s \<Rightarrow> Panic s)"

lemma obind_simps [simp]: "obind (Ok x) f = f x" "obind (Err e) f = Err e" "obind (Panic s) f = Panic s"
  by (simp_all add: obind_def)

definition byte_at :: "bytes \<Rightarrow> nat \<Rightarrow> int" where
  "byte_at buf i = int (of_char (buf ! i))"

definition yuv_at :: "bytes \<Rightarrow> nat \<Rightarrow> nat \<Rightarrow> nat \<times> nat \<times> nat" where
  "yuv_at buf i k = yuv_pixel (byte_at buf (i + k)) (byte_at buf (i + 1)) (byte_at buf (i + 3))"

text \<open>The pairs of a row from column x on, and the rows from y on.\<close>

function yuyv_row :: "bytes \<Rightarrow> nat \<Rightarrow> nat \<Rightarrow> nat \<Rightarrow> nat \<Rightarrow> rgb_image \<Rightarrow> ('e, rgb_image) outcome" where
  "yuyv_row buf base w y x img =
     (if w \<le> x then Ok img
      else let i = base + x * 2 in
        if length buf \<le> i + 3 then Ok img
        else obind (put_pixel x y (yuv_at buf i 0) img) (\<lambda>img1.
             obind (put_pixel (x + 1) y (yuv_at buf i 2) img1) (\<lambda>img2.
             yuyv_row buf base w y (x + 2) img2)))"
  by pat_completeness auto
termination by (relation "measure (\<lambda>(buf, base, w, y, x, img). w - x)") auto

declare yuyv_row.simps [simp del]

fun yuyv_rows :: "bytes \<Rightarrow> nat \<Rightarrow> nat list \<Rightarrow> rgb_image \<Rightarrow> ('e, rgb_image) outcome" where
  "yuyv_rows buf w [] img = Ok img"
| "yuyv_rows buf w (y # ys) img =
     obind (yuyv_row buf (y * (w * 2 mod 2 ^ 32)) w y 0 img) (yuyv_rows buf w ys)"

definition yuyv_to_rgb :: "bytes \<Rightarrow> nat \<Rightarrow> nat \<Rightarrow> ('e, rgb_image) outcome" where
  "yuyv_to_rgb buf w h = yuyv_rows buf w [0..<h] (blank w h)"

section \<open>JPEG frames\<close>

definition is_complete_jpeg :: "bytes \<Rightarrow> bool" where
  "is_complete_jpeg buf \<longleftrightarrow> 4 < length buf \<and> buf ! 0 = CHR 0xFF \<and> buf ! 1 = CHR 0xD8 \<and>
     buf ! (length buf - 2) = CHR 0xFF \<and> buf ! (length buf - 1) = CHR 0xD9"

section \<open>Brightness\<close>

text \<open>Every step-th byte from the first.\<close>

definition every_nth :: "nat \<Rightarrow> bytes \<Rightarrow> bytes" where
  "every_nth step data = map (\<lambda>k. data ! (k * step)) [0..<(length data + step - 1) div step]"

definition ir_mean_luma :: "bytes \<Rightarrow> f32" where
  "ir_mean_luma data =
     (if data = [] then f_lit 0
      else let step = max 1 (length data div 4096); picked = every_nth step data
        in f_div (f_of_nat (sum_list (map of_char picked))) (f_of_nat (max 1 (length picked))))"

text \<open>A double, as the rational it is: rounding to 53 bits, ties to even.\<close>

definition d_round :: "rat \<Rightarrow> rat" where
  "d_round q =
     (if q \<le> 0 then 0
      else let e = log2_floor q in of_int (round_even (q * pow2 (52 - e))) * pow2 (e - 52))"

definition rec601 :: "nat \<times> nat \<times> nat \<Rightarrow> rat" where
  "rec601 p = (case p of (p0, p1, p2) \<Rightarrow>
     d_round (d_round (d_round (d_round (299 / 1000) * of_nat p0) + d_round (d_round (587 / 1000) * of_nat p1)) +
       d_round (d_round (114 / 1000) * of_nat p2)))"

definition center_pixels :: "rgb_image \<Rightarrow> (nat \<times> nat \<times> nat) list" where
  "center_pixels img =
     concat (map (\<lambda>y. map (\<lambda>x. ri_px img x y) [ri_w img div 5..<ri_w img * 4 div 5])
       [ri_h img div 5..<ri_h img * 4 div 5])"

definition center_mean_luma :: "rgb_image \<Rightarrow> f32" where
  "center_mean_luma img =
     (let ps = center_pixels img in
      if ps = [] then f_lit 0
      else f_lit (d_round (fold (\<lambda>p s. d_round (s + rec601 p)) ps 0 / of_nat (length ps))))"

section \<open>What the conversion computes\<close>

text \<open>The pixel at (x, y), from the four bytes of its pair; black where the buffer ends before them.\<close>

definition yuyv_px :: "bytes \<Rightarrow> nat \<Rightarrow> nat \<Rightarrow> nat \<Rightarrow> nat \<times> nat \<times> nat" where
  "yuyv_px buf w x y =
     (let i = y * (w * 2) + (x - x mod 2) * 2
      in if i + 3 < length buf then yuv_at buf i (if even x then 0 else 2) else (0, 0, 0))"

lemma put_pixel_ok:
  "x < ri_w img \<Longrightarrow> y < ri_h img \<Longrightarrow>
     put_pixel x y p img = Ok (img\<lparr>ri_px := (\<lambda>i j. if i = x \<and> j = y then p else ri_px img i j)\<rparr>)"
  by (simp add: put_pixel_def)

lemma yuyv_row_step:
  assumes "x < w" and "w = ri_w img" and "y < ri_h img" and "base + x * 2 + 3 < length buf" and "x + 1 < w"
  shows "(yuyv_row buf base w y x img :: ('e, rgb_image) outcome) = yuyv_row buf base w y (x + 2)
    (img\<lparr>ri_px := (\<lambda>i j. if j = y \<and> i = x + 1 then yuv_at buf (base + x * 2) 2
       else if j = y \<and> i = x then yuv_at buf (base + x * 2) 0 else ri_px img i j)\<rparr>)"
proof -
  let ?a = "yuv_at buf (base + x * 2) 0" and ?b = "yuv_at buf (base + x * 2) 2"
  let ?f = "\<lambda>i j. if i = x \<and> j = y then ?a else ri_px img i j"
  let ?g = "\<lambda>i j. if j = y \<and> i = x + 1 then ?b else if j = y \<and> i = x then ?a else ri_px img i j"
  have first: "(put_pixel x y ?a img :: ('e, rgb_image) outcome) = Ok (img\<lparr>ri_px := ?f\<rparr>)"
    using assms by (simp add: put_pixel_ok)
  have "(\<lambda>i j. if i = x + 1 \<and> j = y then ?b else ri_px (img\<lparr>ri_px := ?f\<rparr>) i j) = ?g"
    by (intro ext) (simp split: if_split)
  then have second: "(put_pixel (x + 1) y ?b (img\<lparr>ri_px := ?f\<rparr>) :: ('e, rgb_image) outcome) = Ok (img\<lparr>ri_px := ?g\<rparr>)"
    using assms by (simp only: put_pixel_def) simp
  have go: "\<not> w \<le> x" "\<not> length buf \<le> base + x * 2 + 3" using assms by simp_all
  show ?thesis
    by (subst yuyv_row.simps) (simp only: Let_def go if_False first second obind_simps)
qed

lemma yuyv_row_spec:
  assumes "even x" and "even w" and "y < ri_h img" and "w = ri_w img" and "base = y * (w * 2)"
  shows "\<exists>out. (yuyv_row buf base w y x img :: ('e, rgb_image) outcome) = Ok out \<and> ri_w out = w \<and> ri_h out = ri_h img \<and>
    (\<forall>i j. ri_px out i j = (if j = y \<and> x \<le> i \<and> i < w \<and> base + (i - i mod 2) * 2 + 3 < length buf
       then yuyv_px buf w i j else ri_px img i j))"
  using assms
proof (induction "w - x" arbitrary: x img rule: less_induct)
  case less
  show ?case
  proof (cases "x < w \<and> base + x * 2 + 3 < length buf")
    case False
    have stop: "(yuyv_row buf base w y x img :: ('e, rgb_image) outcome) = Ok img"
      using False by (subst yuyv_row.simps) (auto simp: Let_def)
    have "\<not> (x \<le> i \<and> i < w \<and> base + (i - i mod 2) * 2 + 3 < length buf)" for i
    proof
      assume i: "x \<le> i \<and> i < w \<and> base + (i - i mod 2) * 2 + 3 < length buf"
      have "x \<le> i - i mod 2" using less.prems(1) i by presburger
      then show False using False i by linarith
    qed
    then show ?thesis using stop less.prems(4) by (intro exI [of _ img]) (simp; metis)
  next
    case True
    then have x1: "x + 1 < w" using less.prems(1,2) by presburger
    let ?img = "img\<lparr>ri_px := (\<lambda>i j. if j = y \<and> i = x + 1 then yuv_at buf (base + x * 2) 2
       else if j = y \<and> i = x then yuv_at buf (base + x * 2) 0 else ri_px img i j)\<rparr>"
    have step: "(yuyv_row buf base w y x img :: ('e, rgb_image) outcome) = yuyv_row buf base w y (x + 2) ?img"
      using True x1 less.prems by (intro yuyv_row_step) auto
    have "w - (x + 2) < w - x" using True by linarith
    from less.hyps [OF this, of ?img] obtain out where out: "(yuyv_row buf base w y (x + 2) ?img :: ('e, rgb_image) outcome) = Ok out"
      "ri_w out = w" "ri_h out = ri_h img"
      "\<And>i j. ri_px out i j = (if j = y \<and> x + 2 \<le> i \<and> i < w \<and> base + (i - i mod 2) * 2 + 3 < length buf
         then yuyv_px buf w i j else ri_px ?img i j)"
      using less.prems by auto
    have low: "(x + 1) - (x + 1) mod 2 = x" "x - x mod 2 = x" using less.prems(1) by presburger+
    have own: "yuyv_px buf w x y = yuv_at buf (base + x * 2) 0" "yuyv_px buf w (x + 1) y = yuv_at buf (base + x * 2) 2"
      using less.prems(1,5) True low by (simp_all add: yuyv_px_def Let_def)
    have "ri_px out i j = (if j = y \<and> x \<le> i \<and> i < w \<and> base + (i - i mod 2) * 2 + 3 < length buf
        then yuyv_px buf w i j else ri_px img i j)" for i j
    proof -
      consider "i = x" | "i = x + 1" | "i < x" | "x + 2 \<le> i" by linarith
      then show ?thesis
        by cases (use own low True x1 in \<open>auto simp: out(4)\<close>)
    qed
    then show ?thesis using step out(1-3) by auto
  qed
qed

lemma yuyv_row_odd:
  assumes "even x" and "odd w" and "x < w" and "y < ri_h img" and "w = ri_w img" and "base + 2 * w + 1 < length buf"
  shows "\<exists>m. (yuyv_row buf base w y x img :: ('e, rgb_image) outcome) = Panic m"
  using assms
proof (induction "w - x" arbitrary: x img rule: less_induct)
  case less
  show ?case
  proof (cases "x + 1 < w")
    case True
    let ?img = "img\<lparr>ri_px := (\<lambda>i j. if j = y \<and> i = x + 1 then yuv_at buf (base + x * 2) 2
       else if j = y \<and> i = x then yuv_at buf (base + x * 2) 0 else ri_px img i j)\<rparr>"
    have next_pair: "x + 2 < w" using True less.prems(1,2) by presburger
    have room: "base + x * 2 + 3 < length buf" using less.prems(6) True by linarith
    have "(yuyv_row buf base w y x img :: ('e, rgb_image) outcome) = yuyv_row buf base w y (x + 2) ?img"
      using less.prems(3-5) room True by (intro yuyv_row_step)
    moreover have "\<exists>m. (yuyv_row buf base w y (x + 2) ?img :: ('e, rgb_image) outcome) = Panic m"
      by (rule less.hyps) (use less.prems next_pair in simp_all)
    ultimately show ?thesis by simp
  next
    case False
    then have "w = x + 1" using less.prems(3) by linarith
    then show ?thesis
      using less.prems by (subst yuyv_row.simps) (auto simp: Let_def put_pixel_def)
  qed
qed

lemma yuyv_rows_spec:
  assumes "even w" and "w < 2 ^ 31" and "ri_w img = w" and "\<forall>y\<in>set ys. y < ri_h img" and "distinct ys"
  shows "\<exists>out. (yuyv_rows buf w ys img :: ('e, rgb_image) outcome) = Ok out \<and> ri_w out = w \<and> ri_h out = ri_h img \<and>
    (\<forall>i j. ri_px out i j = (if j \<in> set ys \<and> i < w \<and> j * (w * 2) + (i - i mod 2) * 2 + 3 < length buf
       then yuyv_px buf w i j else ri_px img i j))"
  using assms(3-5)
proof (induction ys arbitrary: img)
  case Nil
  then show ?case by simp
next
  case (Cons y ys)
  have base: "y * (w * 2 mod 2 ^ 32) = y * (w * 2)" using assms(2) by simp
  obtain mid where mid: "(yuyv_row buf (y * (w * 2)) w y 0 img :: ('e, rgb_image) outcome) = Ok mid"
    "ri_w mid = w" "ri_h mid = ri_h img"
    "\<And>i j. ri_px mid i j = (if j = y \<and> 0 \<le> i \<and> i < w \<and> y * (w * 2) + (i - i mod 2) * 2 + 3 < length buf
       then yuyv_px buf w i j else ri_px img i j)"
  proof -
    have "y < ri_h img" "w = ri_w img" using Cons.prems by simp_all
    from yuyv_row_spec [OF even_zero assms(1) this refl] show ?thesis using that by blast
  qed
  obtain out where out: "(yuyv_rows buf w ys mid :: ('e, rgb_image) outcome) = Ok out" "ri_w out = w" "ri_h out = ri_h mid"
    "\<And>i j. ri_px out i j = (if j \<in> set ys \<and> i < w \<and> j * (w * 2) + (i - i mod 2) * 2 + 3 < length buf
       then yuyv_px buf w i j else ri_px mid i j)"
  proof -
    have "\<forall>y\<in>set ys. y < ri_h mid" "distinct ys" using Cons.prems mid(3) by simp_all
    from Cons.IH [OF mid(2) this] show ?thesis using that by blast
  qed
  have "yuyv_rows buf w (y # ys) img = (Ok out :: ('e, rgb_image) outcome)"
    by (simp only: yuyv_rows.simps base mid(1) obind_simps out(1))
  moreover have "ri_px out i j = (if j \<in> set (y # ys) \<and> i < w \<and> j * (w * 2) + (i - i mod 2) * 2 + 3 < length buf
       then yuyv_px buf w i j else ri_px img i j)" for i j
    by (cases "j = y"; cases "j \<in> set ys") (simp_all add: out(4) mid(4))
  ultimately show ?case using out(2,3) mid(3) by auto
qed

text \<open>
  The conversion of a YUYV frame of even width sets every pixel from the pair of its column: the
  luma byte of its own and the two chroma bytes of the pair, and leaves it black where the buffer ends
  before the pair does. A frame of odd width with a full first row panics instead, on the second
  pixel of the last pair of that row.
\<close>

theorem yuyv_exact:
  "(even w \<and> w < 2 ^ 31 \<longrightarrow> (\<exists>out. (yuyv_to_rgb buf w h :: ('e, rgb_image) outcome) = Ok out \<and>
      ri_w out = w \<and> ri_h out = h \<and> (\<forall>x<w. \<forall>y<h. ri_px out x y = yuyv_px buf w x y))) \<and>
   (odd w \<and> 0 < h \<and> 2 * w + 1 < length buf \<longrightarrow>
      (\<exists>m. (yuyv_to_rgb buf w h :: ('e, rgb_image) outcome) = Panic m))"
proof (intro conjI impI)
  assume w: "even w \<and> w < 2 ^ 31"
  have b: "ri_w (blank w h) = w" "\<forall>y\<in>set [0..<h]. y < ri_h (blank w h)" by (auto simp: blank_def)
  have "\<exists>out. (yuyv_rows buf w [0..<h] (blank w h) :: ('e, rgb_image) outcome) = Ok out \<and> ri_w out = w \<and>
      ri_h out = ri_h (blank w h) \<and>
      (\<forall>i j. ri_px out i j = (if j \<in> set [0..<h] \<and> i < w \<and> j * (w * 2) + (i - i mod 2) * 2 + 3 < length buf
         then yuyv_px buf w i j else ri_px (blank w h) i j))"
    using w by (intro yuyv_rows_spec b) simp_all
  then obtain out where out: "(yuyv_rows buf w [0..<h] (blank w h) :: ('e, rgb_image) outcome) = Ok out" "ri_w out = w"
      "ri_h out = ri_h (blank w h)"
      "\<And>i j. ri_px out i j = (if j \<in> set [0..<h] \<and> i < w \<and> j * (w * 2) + (i - i mod 2) * 2 + 3 < length buf
         then yuyv_px buf w i j else ri_px (blank w h) i j)"
    by blast
  have "ri_px out x y = yuyv_px buf w x y" if "x < w" "y < h" for x y
    using that by (simp add: out(4) blank_def yuyv_px_def)
  then show "\<exists>out. (yuyv_to_rgb buf w h :: ('e, rgb_image) outcome) = Ok out \<and> ri_w out = w \<and> ri_h out = h \<and>
      (\<forall>x<w. \<forall>y<h. ri_px out x y = yuyv_px buf w x y)"
    using out(1-3) by (auto simp: yuyv_to_rgb_def blank_def)
next
  assume w: "odd w \<and> 0 < h \<and> 2 * w + 1 < length buf"
  have "\<exists>m. (yuyv_row buf 0 w 0 0 (blank w h) :: ('e, rgb_image) outcome) = Panic m"
    using w by (intro yuyv_row_odd) (auto simp: blank_def odd_pos)
  moreover have "[0..<h] = 0 # [1..<h]" using w by (simp add: upt_conv_Cons)
  ultimately show "\<exists>m. (yuyv_to_rgb buf w h :: ('e, rgb_image) outcome) = Panic m"
    by (auto simp: yuyv_to_rgb_def)
qed

text \<open>A frame of two pixels from its four bytes, and one of width three that panics.\<close>

lemma yuyv_exact_witness:
  "(\<exists>out. (yuyv_to_rgb [CHR 0x80, CHR 0x80, CHR 0xFF, CHR 0x80] 2 1 :: (string, rgb_image) outcome) = Ok out \<and>
      ri_px out 0 0 = (130, 130, 130)) \<and>
   (\<exists>m. (yuyv_to_rgb (replicate 8 CHR 0x00) 3 1 :: (string, rgb_image) outcome) = Panic m)"
proof (intro conjI)
  have px: "yuyv_px [CHR 0x80, CHR 0x80, CHR 0xFF, CHR 0x80] 2 0 0 = (130, 130, 130)" by code_simp
  show "\<exists>out. (yuyv_to_rgb [CHR 0x80, CHR 0x80, CHR 0xFF, CHR 0x80] 2 1 :: (string, rgb_image) outcome) = Ok out \<and>
      ri_px out 0 0 = (130, 130, 130)"
    using conjunct1 [OF yuyv_exact [of 2 "[CHR 0x80, CHR 0x80, CHR 0xFF, CHR 0x80]" 1, where 'e = string]] px by auto
  show "\<exists>m. (yuyv_to_rgb (replicate 8 CHR 0x00) 3 1 :: (string, rgb_image) outcome) = Panic m"
    using conjunct2 [OF yuyv_exact [of 3 "replicate 8 CHR 0x00" 1, where 'e = string]] by simp
qed

end
