(* ===== verification/CameraIO.thy ===== *)
theory CameraIO
  imports Pixels
begin

text \<open>
  Capturing, crates/linhello-biometrics/src/camera.rs and ir_emitter.rs: opening a device, agreeing
  on a pixel format, warming up, correcting the brightness, and taking frames until one decodes; the
  infrared burst and its emitter; the deadline of a worker thread. The driver is the record
  \<open>video\<close>, whose operations may fail or panic; the loops, the choices and the errors are the code's.
  A device is closed and its stream stopped when its scope ends, on every path.
\<close>

section \<open>The infrared emitter\<close>

record emitter_control =
  em_unit :: nat
  em_selector :: nat
  em_payload :: "nat list"

definition known_control :: "string \<Rightarrow> emitter_control option" where
  "known_control name =
     (if contains_str name ''N930W''
      then Some \<lparr>em_unit = 4, em_selector = 6, em_payload = [1, 3, 2, 0, 0, 0, 0, 0, 0]\<rparr> else None)"

definition parse_u8 :: "string \<Rightarrow> nat option" where
  "parse_u8 s0 =
     (let s = trim s0
      in case (case strip_prefix s ''0x'' of Some h \<Rightarrow> Some h | None \<Rightarrow> strip_prefix s ''0X'') of
           Some h \<Rightarrow> opt_filter (\<lambda>n. n < 256) (u32_from_hex h)
         | None \<Rightarrow> opt_filter (\<lambda>n. n < 256) (parse_usize s))"

definition env_control :: "'z host_scheme \<Rightarrow> emitter_control option" where
  "env_control w = Option.bind (env_vars w ''LINHELLO_IR_EMITTER'') (\<lambda>v.
     let raw = trim v in
     if raw = [] then None
     else (case split_on CHR '':'' raw of
         a # b # c # _ \<Rightarrow>
           Option.bind (parse_u8 a) (\<lambda>unit. Option.bind (parse_u8 b) (\<lambda>selector.
           let payload = List.map_filter parse_u8 (split_on CHR '','' c) in
           if payload = [] then None
           else Some \<lparr>em_unit = unit, em_selector = selector, em_payload = payload\<rparr>))
       | _ \<Rightarrow> None))"

section \<open>The driver\<close>

record vformat =
  vf_w :: nat
  vf_h :: nat
  vf_fourcc :: bytes

datatype control_value = CBool bool | CInt int | COther

text \<open>
  \<open>vd_hung t p w\<close> is the state in which a caller goes on when the worker it started on the device p
  is still running after t milliseconds, and None when the worker ends in time.
\<close>

record ('w, 'd) video =
  vd_open :: "string \<Rightarrow> ('w, string, 'd) act"
  vd_close :: "'d \<Rightarrow> 'w \<Rightarrow> 'w"
  vd_card :: "'d \<Rightarrow> 'w \<Rightarrow> string option"
  vd_control :: "'d \<Rightarrow> nat \<Rightarrow> 'w \<Rightarrow> control_value option"
  vd_set_control :: "'d \<Rightarrow> nat \<Rightarrow> int \<Rightarrow> ('w, string, unit) act"
  vd_xu_query :: "'d \<Rightarrow> nat \<Rightarrow> nat \<Rightarrow> nat \<Rightarrow> nat \<Rightarrow> nat list \<Rightarrow> ('w, string, unit) act"
  vd_format :: "'d \<Rightarrow> ('w, string, vformat) act"
  vd_set_format :: "'d \<Rightarrow> vformat \<Rightarrow> ('w, string, vformat) act"
  vd_stream :: "'d \<Rightarrow> ('w, string, unit) act"
  vd_stream_off :: "'d \<Rightarrow> 'w \<Rightarrow> 'w"
  vd_next :: "'d \<Rightarrow> ('w, string, bytes) act"
  vd_jpeg :: "bytes \<Rightarrow> string + rgb_image"
  vd_hung :: "nat \<Rightarrow> string \<Rightarrow> 'w \<Rightarrow> 'w option"

text \<open>What runs when a scope ends, whatever ended it.\<close>

definition scoped :: "('w \<Rightarrow> 'w) \<Rightarrow> ('w, 'e, 'a) act \<Rightarrow> ('w, 'e, 'a) act" where
  "scoped f m w = (case m w of (r, v) \<Rightarrow> (r, f v))"

definition bio :: "string \<Rightarrow> ('w, string, 'a) act \<Rightarrow> ('w, lh_error, 'a) act" where
  "bio what m = amap_err (\<lambda>e. bio_err (what @ '': '' @ e)) m"

definition privacy_cid :: nat where "privacy_cid = 0x009a0910"

definition privacy_engaged :: "('w, 'd, 'y) video_scheme \<Rightarrow> 'd \<Rightarrow> 'w \<Rightarrow> bool option" where
  "privacy_engaged V d w = (case vd_control V d privacy_cid w of
      Some (CBool b) \<Rightarrow> Some b | Some (CInt i) \<Rightarrow> Some (i \<noteq> 0) | _ \<Rightarrow> None)"

definition privacy_state :: "('w, 'd, 'y) video_scheme \<Rightarrow> string \<Rightarrow> ('w, lh_error, bool option) act" where
  "privacy_state V path =
     abind (try_act (vd_open V path)) (\<lambda>r. case r of
       Inl _ \<Rightarrow> ret None | Inr d \<Rightarrow> scoped (vd_close V d) (query (privacy_engaged V d)))"

definition privacy_blocked_err :: "string \<Rightarrow> lh_error" where
  "privacy_blocked_err path = bio_err (''camera privacy switch is ON '' @ em_dash @
     '' the sensor is blocked in hardware ('' @ path @
     ''); toggle the camera-privacy key (e.g. Fn+F10) to use face unlock'')"

text \<open>\<open>uvc_xu_control_query\<close>: unit, selector, SET_CUR, the length as 16 bits, the payload.\<close>

definition enable_emitter ::
  "('z host_scheme, 'd, 'y) video_scheme \<Rightarrow> 'd \<Rightarrow> string \<Rightarrow> ('z host_scheme, 'e, unit) act" where
  "enable_emitter V d name =
     abind (query (\<lambda>w. (map_option trim (env_vars w ''LINHELLO_IR_EMITTER''), env_control w))) (\<lambda>(switch, override).
     if switch = Some ''off'' \<or> switch = Some ''none'' then ret ()
     else (case (case override of Some c \<Rightarrow> Some c | None \<Rightarrow> known_control name) of
         None \<Rightarrow> ret ()
       | Some c \<Rightarrow> ignore (vd_xu_query V d (em_unit c) (em_selector c) 1 (length (em_payload c) mod 2 ^ 16) (em_payload c))))"

text \<open>The device, opened and not blocked.\<close>

definition with_camera ::
  "('w, 'd, 'y) video_scheme \<Rightarrow> string \<Rightarrow> ('d \<Rightarrow> ('w, lh_error, 'a) act) \<Rightarrow> ('w, lh_error, 'a) act" where
  "with_camera V path body =
     abind (bio (''open '' @ path) (vd_open V path)) (\<lambda>d.
     scoped (vd_close V d) (
     abind (query (privacy_engaged V d)) (\<lambda>privacy.
     if privacy = Some True then fail (privacy_blocked_err path) else body d)))"

section \<open>The deadline\<close>

text \<open>A panic of the worker drops its end of the channel, so the caller sees no result either.\<close>

definition run_with_deadline ::
  "('w \<Rightarrow> 'w option) \<Rightarrow> ('w, 'e, 'a) act \<Rightarrow> ('w, 'f, ('e + 'a) option) act" where
  "run_with_deadline hung m w = (case hung w of
      Some v \<Rightarrow> (Ok None, v)
    | None \<Rightarrow> (case m w of
        (Ok x, v) \<Rightarrow> (Ok (Some (Inr x)), v)
      | (Err e, v) \<Rightarrow> (Ok (Some (Inl e)), v)
      | (Panic _, v) \<Rightarrow> (Ok None, v)))"

definition capture_with_timeout ::
  "('w, 'd, 'y) video_scheme \<Rightarrow> string \<Rightarrow> string \<Rightarrow> nat \<Rightarrow> (string \<Rightarrow> ('w, lh_error, 'a) act) \<Rightarrow> ('w, lh_error, 'a) act" where
  "capture_with_timeout V what path timeout f =
     abind (run_with_deadline (vd_hung V timeout path) (f path)) (\<lambda>r. case r of
       Some res \<Rightarrow> lift res
     | None \<Rightarrow> fail (bio_err (what @ '' camera '' @ path @ '' produced no frame within '' @ show_nat (timeout div 1000) @
         ''s (device hung or held by another app)'')))"

definition capture_timeout :: nat where "capture_timeout = 8000"
definition ir_capture_timeout :: nat where "ir_capture_timeout = 6000"

section \<open>The infrared burst\<close>

definition ir_burst :: nat where "ir_burst = 6"

definition gray_of :: "nat \<Rightarrow> nat \<Rightarrow> bytes \<Rightarrow> gray_image" where
  "gray_of w h bs = \<lparr>gi_w = w, gi_h = h, gi_px = (\<lambda>x y. of_char (bs ! (y * w + x)))\<rparr>"

primrec warm_up :: "('w, 'd, 'y) video_scheme \<Rightarrow> 'd \<Rightarrow> string \<Rightarrow> nat \<Rightarrow> ('w, lh_error, unit) act" where
  "warm_up V d what 0 = ret ()"
| "warm_up V d what (Suc k) = abind (bio what (vd_next V d)) (\<lambda>_. warm_up V d what k)"

definition brighter :: "(f32 \<times> bytes) option \<Rightarrow> bytes \<Rightarrow> (f32 \<times> bytes) option" where
  "brighter best data =
     (let m = ir_mean_luma data
      in case best of Some (bm, _) \<Rightarrow> if f_lt bm m then Some (m, data) else best | None \<Rightarrow> Some (m, data))"

primrec ir_loop ::
  "('w, 'd, 'y) video_scheme \<Rightarrow> 'd \<Rightarrow> nat \<Rightarrow> nat \<Rightarrow> (f32 \<times> bytes) option \<Rightarrow> ('w, lh_error, (f32 \<times> bytes) option) act" where
  "ir_loop V d expected 0 best = ret best"
| "ir_loop V d expected (Suc k) best =
     abind (bio ''stream next'' (vd_next V d)) (\<lambda>buf.
     ir_loop V d expected k (if length buf < expected then best else brighter best (take expected buf)))"

text \<open>\<open>{:?}\<close> of a four-character code; the drivers report printable ASCII.\<close>

definition debug_code :: "string \<Rightarrow> string" where "debug_code s = [CHR 0x22] @ s @ [CHR 0x22]"
definition code_text :: "bytes \<Rightarrow> string" where "code_text b = (if utf8_valid b then b else ''?'')"

text \<open>From the agreement on the format to the chosen frame, on a device that is not blocked.\<close>

definition ir_capture ::
  "('z host_scheme, 'd, 'y) video_scheme \<Rightarrow> 'd \<Rightarrow> ('z host_scheme, lh_error, gray_image) act" where
  "ir_capture V d =
     abind (bio ''get format'' (vd_format V d)) (\<lambda>f.
     abind (bio ''set format'' (vd_set_format V d (f\<lparr>vf_w := 640, vf_h := 400, vf_fourcc := ''GREY''\<rparr>))) (\<lambda>fmt.
     if vf_fourcc fmt \<noteq> ''GREY''
     then fail (bio_err (''unexpected IR pixel format: '' @ debug_code (code_text (vf_fourcc fmt))))
     else abind (bio ''stream init'' (vd_stream V d)) (\<lambda>_.
       scoped (vd_stream_off V d) (
       abind (query (\<lambda>w. unwrap_or [] (vd_card V d w))) (\<lambda>name.
       abind (enable_emitter V d name) (\<lambda>_.
       abind (query ae_warmup_ir) (\<lambda>n.
       abind (warm_up V d ''IR warmup'' n) (\<lambda>_.
       abind (ir_loop V d (vf_w fmt * vf_h fmt) ir_burst None) (\<lambda>best.
       lift (ok_or (bio_err ''no IR frame captured'') (map_option (\<lambda>(_, b). gray_of (vf_w fmt) (vf_h fmt) b) best)))))))))))"

definition capture_ir_from_blocking ::
  "('z host_scheme, 'd, 'y) video_scheme \<Rightarrow> string \<Rightarrow> ('z host_scheme, lh_error, gray_image) act" where
  "capture_ir_from_blocking V path = with_camera V path (ir_capture V)"

definition capture_ir_from ::
  "('z host_scheme, 'd, 'y) video_scheme \<Rightarrow> string \<Rightarrow> ('z host_scheme, lh_error, gray_image) act" where
  "capture_ir_from V path = capture_with_timeout V ''IR'' path ir_capture_timeout (capture_ir_from_blocking V)"

section \<open>Colour frames\<close>

definition rgb_prefs :: "bytes list" where "rgb_prefs = [''MJPG'', ''YUYV'']"

definition decodable :: "bytes \<Rightarrow> bool" where
  "decodable fourcc \<longleftrightarrow> fourcc = ''MJPG'' \<or> fourcc = ''YUYV''"

definition decode_frame ::
  "('w, 'd, 'y) video_scheme \<Rightarrow> vformat \<Rightarrow> bytes \<Rightarrow> (lh_error, rgb_image) outcome" where
  "decode_frame V fmt buf =
     (if vf_fourcc fmt = ''MJPG'' then of_result (map_err (\<lambda>e. bio_err (''jpeg decode: '' @ e)) (vd_jpeg V buf))
      else if vf_fourcc fmt = ''YUYV'' then yuyv_to_rgb buf (vf_w fmt) (vf_h fmt)
      else Err (bio_err (''unsupported camera pixel format: '' @ debug_code (code_text (vf_fourcc fmt)))))"

definition torn :: "vformat \<Rightarrow> bytes \<Rightarrow> bool" where
  "torn fmt buf \<longleftrightarrow> vf_fourcc fmt = ''MJPG'' \<and> \<not> is_complete_jpeg buf"

definition rgb_decode_attempts :: nat where "rgb_decode_attempts = 4"

primrec luma_loop ::
  "('w, 'd, 'y) video_scheme \<Rightarrow> 'd \<Rightarrow> vformat \<Rightarrow> nat \<Rightarrow> ('w, 'e, f32 option) act" where
  "luma_loop V d fmt 0 = ret None"
| "luma_loop V d fmt (Suc k) =
     abind (try_act (vd_next V d)) (\<lambda>r. case r of
       Inl _ \<Rightarrow> ret None
     | Inr buf \<Rightarrow>
         if torn fmt buf then luma_loop V d fmt k
         else abind (try_act (lift_out (decode_frame V fmt buf))) (\<lambda>q. case q of
           Inr img \<Rightarrow> ret (Some (center_mean_luma img)) | Inl _ \<Rightarrow> luma_loop V d fmt k))"

definition grab_luma :: "('w, 'd, 'y) video_scheme \<Rightarrow> 'd \<Rightarrow> vformat \<Rightarrow> ('w, 'e, f32 option) act" where
  "grab_luma V d fmt = luma_loop V d fmt rgb_decode_attempts"

section \<open>The brightness control\<close>

definition brightness_cid :: nat where "brightness_cid = 0x00980900"
definition brightness_probe :: int where "brightness_probe = 16"
definition luma_target :: f32 where "luma_target = f_lit 128"

definition wrap_i64 :: "int \<Rightarrow> int" where "wrap_i64 i = (i + 2 ^ 63) mod 2 ^ 64 - 2 ^ 63"

definition in_band :: "f32 \<Rightarrow> bool" where "in_band l = f_in (f_lit 110) (f_lit 150) l"

definition read_brightness :: "('w, 'd, 'y) video_scheme \<Rightarrow> 'd \<Rightarrow> 'w \<Rightarrow> int option" where
  "read_brightness V d w = (case vd_control V d brightness_cid w of Some (CInt v) \<Rightarrow> Some v | _ \<Rightarrow> None)"

definition flush :: "('w, 'd, 'y) video_scheme \<Rightarrow> 'd \<Rightarrow> ('w, 'e, unit) act" where
  "flush V d = abind (ignore (vd_next V d)) (\<lambda>_. ignore (vd_next V d))"

text \<open>The probe, and the value that the measured response puts on the target; None to leave it alone.\<close>

definition probe_step :: "f32 \<Rightarrow> int" where
  "probe_step l0 = (if f_lt l0 luma_target then brightness_probe else - brightness_probe)"

definition solve_brightness :: "int \<Rightarrow> f32 \<Rightarrow> int \<Rightarrow> f32 \<Rightarrow> int option" where
  "solve_brightness b0 l0 b1 l1 =
     (let dv = f_of_int (wrap_i64 (b1 - b0)); dl = f_sub l1 l0
      in if f_lt (f_abs dv) (f_lit (1 / 2)) \<or> f_lt (f_abs dl) (f_lit 3) then None
         else let sensitivity = f_div dl dv;
                  target = f_to_int (- (2 ^ 63)) (2 ^ 63 - 1)
                    (f_round_int (f_add (f_of_int b1) (f_div (f_sub luma_target l1) sensitivity)))
           in if target = b1 then None else Some target)"

definition auto_brighten_rgb ::
  "('z host_scheme, 'd, 'y) video_scheme \<Rightarrow> 'd \<Rightarrow> vformat \<Rightarrow> ('z host_scheme, 'e, unit) act" where
  "auto_brighten_rgb V d fmt =
     abind (query (\<lambda>w. env_vars w ''LINHELLO_AUTO_BRIGHTNESS'')) (\<lambda>off.
     if off = Some ''0'' \<or> off = Some ''off'' then ret ()
     else abind (grab_luma V d fmt) (\<lambda>first. case first of None \<Rightarrow> ret () | Some l0 \<Rightarrow>
     if in_band l0 then ret ()
     else abind (query (read_brightness V d)) (\<lambda>now. case now of None \<Rightarrow> ret () | Some b0 \<Rightarrow>
     abind (try_act (vd_set_control V d brightness_cid (wrap_i64 (b0 + probe_step l0)))) (\<lambda>written. case written of Inl _ \<Rightarrow> ret () | Inr _ \<Rightarrow>
     abind (flush V d) (\<lambda>_.
     abind (query (\<lambda>w. unwrap_or b0 (read_brightness V d w))) (\<lambda>b1.
     abind (grab_luma V d fmt) (\<lambda>second. case second of None \<Rightarrow> ret () | Some l1 \<Rightarrow>
     if in_band l1 then ret ()
     else (case solve_brightness b0 l0 b1 l1 of
         None \<Rightarrow> ret ()
       | Some target \<Rightarrow> abind (ignore (vd_set_control V d brightness_cid target)) (\<lambda>_. flush V d)))))))))"

section \<open>One frame, and a burst of frames\<close>

text \<open>Ask for a format: the one the driver answers with, or the error of this preference.\<close>

definition no_usable :: lh_error where
  "no_usable = bio_err ''no usable pixel format (camera offers neither MJPG nor YUYV)''"

definition ask_format ::
  "('w, 'd, 'y) video_scheme \<Rightarrow> 'd \<Rightarrow> bytes \<Rightarrow> string \<Rightarrow> ('w, lh_error, lh_error + vformat) act" where
  "ask_format V d pref wanted =
     abind (bio ''get format'' (vd_format V d)) (\<lambda>f.
     abind (try_act (vd_set_format V d (f\<lparr>vf_w := 640, vf_h := 480, vf_fourcc := pref\<rparr>))) (\<lambda>r. ret (case r of
       Inl e \<Rightarrow> Inl (bio_err (''set format '' @ debug_code (fourcc_str pref) @ '': '' @ e))
     | Inr fmt \<Rightarrow> if decodable (vf_fourcc fmt) then Inr fmt
         else Inl (bio_err (''driver chose unsupported pixel format '' @ debug_code (fourcc_str (vf_fourcc fmt)) @ wanted)))))"

definition start_stream ::
  "('z host_scheme, 'd, 'y) video_scheme \<Rightarrow> 'd \<Rightarrow> vformat \<Rightarrow> ('z host_scheme, lh_error, 'a) act \<Rightarrow> ('z host_scheme, lh_error, 'a) act" where
  "start_stream V d fmt body =
     abind (bio ''stream init'' (vd_stream V d)) (\<lambda>_.
     scoped (vd_stream_off V d) (
     abind (warm_up V d ''warmup'' 5) (\<lambda>_.
     abind (auto_brighten_rgb V d fmt) (\<lambda>_. body))))"

primrec frame_attempts ::
  "('w, 'd, 'y) video_scheme \<Rightarrow> 'd \<Rightarrow> vformat \<Rightarrow> nat \<Rightarrow> lh_error option \<Rightarrow> ('w, lh_error, lh_error option + rgb_image) act" where
  "frame_attempts V d fmt 0 err = ret (Inl err)"
| "frame_attempts V d fmt (Suc k) err =
     abind (bio ''stream next'' (vd_next V d)) (\<lambda>buf.
     if torn fmt buf then frame_attempts V d fmt k (Some (bio_err ''incomplete MJPG frame''))
     else abind (try_act (lift_out (decode_frame V fmt buf))) (\<lambda>q. case q of
       Inr img \<Rightarrow> ret (Inr img) | Inl e \<Rightarrow> frame_attempts V d fmt k (Some e)))"

fun capture_prefs ::
  "('z host_scheme, 'd, 'y) video_scheme \<Rightarrow> 'd \<Rightarrow> bytes list \<Rightarrow> lh_error option \<Rightarrow> ('z host_scheme, lh_error, rgb_image) act" where
  "capture_prefs V d [] err = fail (unwrap_or no_usable err)"
| "capture_prefs V d (pref # prefs) err =
     abind (ask_format V d pref ('' (wanted '' @ debug_code (fourcc_str pref) @ '')'')) (\<lambda>r. case r of
       Inl e \<Rightarrow> capture_prefs V d prefs (Some e)
     | Inr fmt \<Rightarrow>
         abind (start_stream V d fmt (frame_attempts V d fmt rgb_decode_attempts None)) (\<lambda>q. case q of
           Inr img \<Rightarrow> ret img
         | Inl e \<Rightarrow> capture_prefs V d prefs e))"

definition capture_from_blocking ::
  "('z host_scheme, 'd, 'y) video_scheme \<Rightarrow> string \<Rightarrow> ('z host_scheme, lh_error, rgb_image) act" where
  "capture_from_blocking V path = with_camera V path (\<lambda>d. capture_prefs V d rgb_prefs None)"

definition capture_from ::
  "('z host_scheme, 'd, 'y) video_scheme \<Rightarrow> string \<Rightarrow> ('z host_scheme, lh_error, rgb_image) act" where
  "capture_from V path = capture_with_timeout V ''RGB'' path capture_timeout (capture_from_blocking V)"

text \<open>The frames so far and the error so far, after at most k further grabs.\<close>

primrec burst_loop ::
  "('w, 'd, 'y) video_scheme \<Rightarrow> 'd \<Rightarrow> vformat \<Rightarrow> nat \<Rightarrow> nat \<Rightarrow> rgb_image list \<Rightarrow> lh_error option
   \<Rightarrow> ('w, lh_error, rgb_image list \<times> lh_error option) act" where
  "burst_loop V d fmt n 0 out err = ret (out, err)"
| "burst_loop V d fmt n (Suc k) out err =
     (if n \<le> length out then ret (out, err)
      else abind (try_act (vd_next V d)) (\<lambda>r. case r of
          Inl e \<Rightarrow> ret (out, Some (bio_err (''stream next: '' @ e)))
        | Inr buf \<Rightarrow>
            if torn fmt buf then burst_loop V d fmt n k out err
            else abind (try_act (lift_out (decode_frame V fmt buf))) (\<lambda>q. case q of
              Inr img \<Rightarrow> burst_loop V d fmt n k (out @ [img]) err
            | Inl _ \<Rightarrow> burst_loop V d fmt n k out err)))"

definition max_attempts :: "nat \<Rightarrow> nat" where "max_attempts n = (n * 3 + 4) mod 2 ^ 64"

fun burst_prefs ::
  "('z host_scheme, 'd, 'y) video_scheme \<Rightarrow> 'd \<Rightarrow> nat \<Rightarrow> bytes list \<Rightarrow> lh_error option
   \<Rightarrow> ('z host_scheme, lh_error, rgb_image list) act" where
  "burst_prefs V d n [] err = fail (unwrap_or no_usable err)"
| "burst_prefs V d n (pref # prefs) err =
     abind (ask_format V d pref []) (\<lambda>r. case r of
       Inl e \<Rightarrow> burst_prefs V d n prefs (Some e)
     | Inr fmt \<Rightarrow>
         abind (start_stream V d fmt (burst_loop V d fmt n (max_attempts n) [] err)) (\<lambda>(out, e).
         if out \<noteq> [] then ret out else burst_prefs V d n prefs e))"

definition capture_burst_blocking ::
  "('z host_scheme, 'd, 'y) video_scheme \<Rightarrow> nat \<Rightarrow> string \<Rightarrow> ('z host_scheme, lh_error, rgb_image list) act" where
  "capture_burst_blocking V n path = with_camera V path (\<lambda>d. burst_prefs V d n rgb_prefs None)"

definition capture_burst_from ::
  "('z host_scheme, 'd, 'y) video_scheme \<Rightarrow> string \<Rightarrow> nat \<Rightarrow> ('z host_scheme, lh_error, rgb_image list) act" where
  "capture_burst_from V path n =
     abind (run_with_deadline (vd_hung V capture_timeout path) (capture_burst_blocking V n path)) (\<lambda>r. case r of
       Some res \<Rightarrow> lift res
     | None \<Rightarrow> fail (bio_err (''RGB burst from '' @ path @ '' produced no frames within '' @
         show_nat (capture_timeout div 1000) @ ''s'')))"

text \<open>The two entry points without a path.\<close>

definition frame_of_default ::
  "('z host_scheme, 'd, 'y) video_scheme \<Rightarrow> ('z host_scheme, 'x) v4l_scheme \<Rightarrow> nat \<Rightarrow> (nat \<times> string) option
   \<Rightarrow> ('z host_scheme, lh_error, rgb_image) act" where
  "frame_of_default V C now c = abind (query (\<lambda>w. fst (rgb_device_at C now c w))) (capture_from V)"

definition ir_frame_of_default ::
  "('z host_scheme, 'd, 'y) video_scheme \<Rightarrow> ('z host_scheme, 'x) v4l_scheme \<Rightarrow> nat \<Rightarrow> (nat \<times> string option) option
   \<Rightarrow> ('z host_scheme, lh_error, gray_image option) act" where
  "ir_frame_of_default V C now c =
     abind (query (\<lambda>w. fst (ir_device_at C now c w))) (\<lambda>dev. case dev of
       Some path \<Rightarrow> abind (capture_ir_from V path) (\<lambda>img. ret (Some img))
     | None \<Rightarrow> ret None)"

end
