(* ===== verification/CameraSpec.thy ===== *)
theory CameraSpec
  imports CameraIO
begin

text \<open>
  What capturing guarantees, whatever the driver does within its contract: devices and streams are
  given back on every path, the number of frames taken is bounded, a panic of the worker reaches the
  caller as an error, a colour frame is a decoded frame of an agreed format from an unblocked camera,
  and an infrared frame is a brightest one of its burst.
\<close>

section \<open>The contract of the driver\<close>














section \<open>The operations of a capture\<close>


















section \<open>What a frame is\<close>

definition frame_ok :: "('w, 'd, 'y) video_scheme \<Rightarrow> 'd \<Rightarrow> vformat \<Rightarrow> rgb_image \<Rightarrow> bool" where
  "frame_ok V d fmt img \<longleftrightarrow> (\<exists>buf s s'. vd_next V d s = (Ok buf, s') \<and> \<not> torn fmt buf \<and> decode_frame V fmt buf = Ok img)"

definition agreed :: "('w, 'd, 'y) video_scheme \<Rightarrow> 'd \<Rightarrow> vformat \<Rightarrow> bool" where
  "agreed V d fmt \<longleftrightarrow> decodable (vf_fourcc fmt) \<and> (\<exists>f s s'. vd_set_format V d f s = (Ok fmt, s'))"

lemma bio_result: "bio what m w = (Ok x, v) \<longleftrightarrow> m w = (Ok x, v)"
  by (simp add: bio_def amap_err_result)

lemma scoped_result: "scoped f m w = (r, v) \<longleftrightarrow> (\<exists>u. m w = (r, u) \<and> v = f u)"
  by (auto simp: scoped_def split: prod.splits)

lemma ask_format_agreed:
  assumes "ask_format V d pref wanted w = (Ok (Inr fmt), v)"
  shows "agreed V d fmt"
proof -
  from assms obtain f u r where set_fmt: "try_act (vd_set_format V d (f\<lparr>vf_w := 640, vf_h := 480, vf_fourcc := pref\<rparr>)) u = ((Ok r, v) :: (lh_error, _) outcome \<times> _)"
    and r: "(case r of Inl e \<Rightarrow> Inl (bio_err (''set format '' @ debug_code (fourcc_str pref) @ '': '' @ e))
     | Inr fmt \<Rightarrow> if decodable (vf_fourcc fmt) then Inr fmt
         else Inl (bio_err (''driver chose unsupported pixel format '' @ debug_code (fourcc_str (vf_fourcc fmt)) @ wanted))) = Inr fmt"
    unfolding ask_format_def abind_result act_basic by blast
  show ?thesis
  proof (cases r)
    case (Inl e)
    then show ?thesis using r by simp
  next
    case (Inr g)
    then show ?thesis using r set_fmt by (auto simp: try_act_result agreed_def split: if_splits)
  qed
qed

lemma frame_attempts_sound:
  assumes "frame_attempts V d fmt k err w = (Ok (Inr img), v)"
  shows "frame_ok V d fmt img"
  using assms
proof (induction k arbitrary: err w)
  case (Suc k)
  then obtain buf u where n: "vd_next V d w = (Ok buf, u)"
    and r: "(if torn fmt buf then frame_attempts V d fmt k (Some (bio_err ''incomplete MJPG frame''))
      else abind (try_act (lift_out (decode_frame V fmt buf))) (\<lambda>q. case q of
        Inr img \<Rightarrow> ret (Inr img) | Inl e \<Rightarrow> frame_attempts V d fmt k (Some e))) u = (Ok (Inr img), v)"
    unfolding frame_attempts.simps abind_result bio_result by blast
  show ?case
  proof (cases "torn fmt buf")
    case True
    then show ?thesis using r Suc.IH by (simp only: if_True)
  next
    case False
    show ?thesis
    proof (cases "decode_frame V fmt buf")
      case (Ok i)
      then show ?thesis using r n False by (auto simp: abind_def try_act_def frame_ok_def)
    next
      case (Err e)
      then show ?thesis using r False Suc.IH by (simp add: abind_def try_act_def)
    next
      case (Panic m)
      then show ?thesis using r False by (simp add: abind_def try_act_def)
    qed
  qed
qed simp

lemma start_stream_result:
  assumes "start_stream V d fmt body w = (Ok x, v)"
  obtains u u' where "body u = (Ok x, u')"
  using assms by (auto simp: start_stream_def abind_result bio_result scoped_result)

lemma capture_prefs_sound:
  assumes "capture_prefs V d prefs err w = (Ok img, v)"
  shows "\<exists>fmt. agreed V d fmt \<and> frame_ok V d fmt img"
  using assms
proof (induction prefs arbitrary: err w)
  case (Cons pref prefs)
  from Cons.prems obtain r u where a: "ask_format V d pref ('' (wanted '' @ debug_code (fourcc_str pref) @ '')'') w = (Ok r, u)"
    and k: "(case r of Inl e \<Rightarrow> capture_prefs V d prefs (Some e)
     | Inr fmt \<Rightarrow> abind (start_stream V d fmt (frame_attempts V d fmt rgb_decode_attempts None)) (\<lambda>q. case q of
         Inr img \<Rightarrow> ret img | Inl e \<Rightarrow> capture_prefs V d prefs e)) u = (Ok img, v)"
    unfolding capture_prefs.simps abind_result by blast
  show ?case
  proof (cases r)
    case (Inl e)
    then show ?thesis using k Cons.IH by simp
  next
    case (Inr fmt)
    then obtain q u2 where q: "start_stream V d fmt (frame_attempts V d fmt rgb_decode_attempts None) u = (Ok q, u2)"
      and rest: "(case q of Inr img \<Rightarrow> ret img | Inl e \<Rightarrow> capture_prefs V d prefs e) u2 = (Ok img, v)"
      using k by (auto simp: abind_result)
    show ?thesis
    proof (cases q)
      case (Inl e)
      then show ?thesis using rest Cons.IH by simp
    next
      case (Inr i)
      moreover obtain s s' where "frame_attempts V d fmt rgb_decode_attempts None s = (Ok q, s')"
        using q by (rule start_stream_result)
      ultimately have "frame_ok V d fmt img" using rest frame_attempts_sound by fastforce
      moreover have "agreed V d fmt" using a \<open>r = Inr fmt\<close> by (auto intro: ask_format_agreed)
      ultimately show ?thesis by blast
    qed
  qed
qed simp

lemma burst_loop_sound:
  assumes "burst_loop V d fmt n k out err w = (Ok (out', e), v)" and "length out \<le> n" and "\<forall>i\<in>set out. frame_ok V d fmt i"
  shows "length out' \<le> n \<and> (\<forall>i\<in>set out'. frame_ok V d fmt i)"
  using assms
proof (induction k arbitrary: out err w)
  case (Suc k)
  show ?case
  proof (cases "n \<le> length out")
    case True
    then show ?thesis using Suc.prems by simp
  next
    case False
    obtain r u where n: "vd_next V d w = (r, u)" by (cases "vd_next V d w")
    show ?thesis
    proof (cases r)
      case (Err x)
      then show ?thesis using Suc.prems False n by (simp add: abind_def try_act_def)
    next
      case (Panic x)
      then show ?thesis using Suc.prems False n by (simp add: abind_def try_act_def)
    next
      case (Ok buf)
      then have b: "(if torn fmt buf then burst_loop V d fmt n k out err
            else abind (try_act (lift_out (decode_frame V fmt buf))) (\<lambda>q. case q of
              Inr img \<Rightarrow> burst_loop V d fmt n k (out @ [img]) err
            | Inl _ \<Rightarrow> burst_loop V d fmt n k out err)) u = (Ok (out', e), v)"
        using Suc.prems(1) False n by (simp add: abind_def try_act_def)
      show ?thesis
      proof (cases "torn fmt buf")
        case True
        then have "burst_loop V d fmt n k out err u = (Ok (out', e), v)" using b by (simp only: if_True)
        then show ?thesis by (rule Suc.IH [OF _ Suc.prems(2,3)])
      next
        case whole: False
        show ?thesis
        proof (cases "decode_frame V fmt buf")
          case decoded: (Ok img)
          have "vd_next V d w = (Ok buf, u)" using n Ok by simp
          then have "frame_ok V d fmt img" unfolding frame_ok_def using whole decoded by blast
          moreover have "burst_loop V d fmt n k (out @ [img]) err u = (Ok (out', e), v)"
            using b whole decoded by (simp add: abind_def try_act_def)
          moreover have "length (out @ [img]) \<le> n" using False by simp
          ultimately show ?thesis using Suc.prems(3) by (intro Suc.IH [of "out @ [img]"]) auto
        next
          case (Err x)
          then have "burst_loop V d fmt n k out err u = (Ok (out', e), v)"
            using b whole by (simp add: abind_def try_act_def)
          then show ?thesis by (rule Suc.IH [OF _ Suc.prems(2,3)])
        next
          case (Panic x)
          then show ?thesis using b whole by (simp add: abind_def try_act_def)
        qed
      qed
    qed
  qed
qed simp

lemma burst_prefs_sound:
  assumes "burst_prefs V d n prefs err w = (Ok imgs, v)"
  shows "imgs \<noteq> [] \<and> length imgs \<le> n \<and> (\<exists>fmt. agreed V d fmt \<and> (\<forall>i\<in>set imgs. frame_ok V d fmt i))"
  using assms
proof (induction prefs arbitrary: err w)
  case (Cons pref prefs)
  from Cons.prems obtain r u where a: "ask_format V d pref [] w = (Ok r, u)"
    and k: "(case r of Inl e \<Rightarrow> burst_prefs V d n prefs (Some e)
     | Inr fmt \<Rightarrow> abind (start_stream V d fmt (burst_loop V d fmt n (max_attempts n) [] err)) (\<lambda>(out, e).
         if out \<noteq> [] then ret out else burst_prefs V d n prefs e)) u = (Ok imgs, v)"
    unfolding burst_prefs.simps abind_result by blast
  show ?case
  proof (cases r)
    case (Inl e)
    then show ?thesis using k Cons.IH by simp
  next
    case (Inr fmt)
    then obtain out e u2 where q: "start_stream V d fmt (burst_loop V d fmt n (max_attempts n) [] err) u = (Ok (out, e), u2)"
      and rest: "(if out \<noteq> [] then ret out else burst_prefs V d n prefs e) u2 = (Ok imgs, v)"
      using k by (auto simp: abind_result)
    show ?thesis
    proof (cases "out = []")
      case True
      then have "burst_prefs V d n prefs e u2 = (Ok imgs, v)" using rest by simp
      then show ?thesis by (rule Cons.IH)
    next
      case False
      then have "imgs = out" using rest by simp
      moreover obtain s s' where "burst_loop V d fmt n (max_attempts n) [] err s = (Ok (out, e), s')"
        using q by (rule start_stream_result)
      then have "length out \<le> n \<and> (\<forall>i\<in>set out. frame_ok V d fmt i)"
        by (rule burst_loop_sound) simp_all
      moreover have "agreed V d fmt" using a Inr by (auto intro: ask_format_agreed)
      ultimately show ?thesis using False by blast
    qed
  qed
qed simp

lemma with_camera_result:
  assumes "with_camera V path body w = (Ok x, v)"
  obtains d u u' where "vd_open V path w = (Ok d, u)" "privacy_engaged V d u \<noteq> Some True" "body d u = (Ok x, u')"
  using assms by (auto simp: with_camera_def abind_result bio_result scoped_result split: if_splits)

lemma capture_with_timeout_result:
  assumes "capture_with_timeout V what path t f w = (Ok x, v)"
  shows "vd_hung V t path w = None" and "f path w = (Ok x, v)"
proof -
  from assms obtain r u where d: "run_with_deadline (vd_hung V t path) (f path) w = ((Ok r, u) :: (lh_error, _) outcome \<times> _)"
    and r: "(case r of Some res \<Rightarrow> lift res | None \<Rightarrow> fail (bio_err (what @ '' camera '' @ path @
      '' produced no frame within '' @ show_nat (t div 1000) @ ''s (device hung or held by another app)''))) u = (Ok x, v)"
    unfolding capture_with_timeout_def abind_result by blast
  from r have "r = Some (Inr x)" "u = v" by (cases r; auto simp: of_result_Ok_iff)+
  then show "vd_hung V t path w = None" "f path w = (Ok x, v)"
    using d by (auto simp: run_with_deadline_def split: option.splits prod.splits outcome.splits)
qed

lemma capture_burst_result:
  assumes "capture_burst_from V path n w = (Ok x, v)"
  shows "vd_hung V capture_timeout path w = None" and "capture_burst_blocking V n path w = (Ok x, v)"
proof -
  from assms obtain r u where d: "run_with_deadline (vd_hung V capture_timeout path) (capture_burst_blocking V n path) w =
      ((Ok r, u) :: (lh_error, _) outcome \<times> _)"
    and r: "(case r of Some res \<Rightarrow> lift res | None \<Rightarrow> fail (bio_err (''RGB burst from '' @ path @
      '' produced no frames within '' @ show_nat (capture_timeout div 1000) @ ''s''))) u = (Ok x, v)"
    unfolding capture_burst_from_def abind_result by blast
  from r have "r = Some (Inr x)" "u = v" by (cases r; auto simp: of_result_Ok_iff)+
  then show "vd_hung V capture_timeout path w = None" "capture_burst_blocking V n path w = (Ok x, v)"
    using d by (auto simp: run_with_deadline_def split: option.splits prod.splits outcome.splits)
qed

section \<open>The infrared burst\<close>

text \<open>The driver delivers these frames one after the other.\<close>

primrec delivers :: "('w, 'd, 'y) video_scheme \<Rightarrow> 'd \<Rightarrow> bytes list \<Rightarrow> 'w \<Rightarrow> 'w \<Rightarrow> bool" where
  "delivers V d [] w v \<longleftrightarrow> v = w"
| "delivers V d (b # bs) w v \<longleftrightarrow> (\<exists>u. vd_next V d w = (Ok b, u) \<and> delivers V d bs u v)"

definition usable :: "nat \<Rightarrow> bytes list \<Rightarrow> bytes list" where
  "usable expected bufs = map (take expected) (filter (\<lambda>b. expected \<le> length b) bufs)"

lemma ir_loop_folds:
  assumes "ir_loop V d expected k best w = (Ok r, v)"
  shows "\<exists>bufs. length bufs = k \<and> delivers V d bufs w v \<and> r = foldl brighter best (usable expected bufs)"
  using assms
proof (induction k arbitrary: best w)
  case 0
  then show ?case by (auto simp: usable_def)
next
  case (Suc k)
  then obtain b u where n: "vd_next V d w = (Ok b, u)"
    and rest: "ir_loop V d expected k (if length b < expected then best else brighter best (take expected b)) u = (Ok r, v)"
    unfolding ir_loop.simps abind_result bio_result by blast
  from Suc.IH [OF rest] obtain bufs where "length bufs = k" "delivers V d bufs u v"
      "r = foldl brighter (if length b < expected then best else brighter best (take expected b)) (usable expected bufs)"
    by blast
  then show ?case using n by (intro exI [of _ "b # bufs"]) (auto simp: usable_def not_less)
qed

lemma ir_capture_result:
  assumes "ir_capture V d u = (Ok img, u')"
  obtains fmt r s s' where "vf_fourcc (fmt :: vformat) = ''GREY''"
    and "ir_loop V d (vf_w fmt * vf_h fmt) ir_burst None s = ((Ok r :: (lh_error, _) outcome), s')"
    and "ok_or (bio_err ''no IR frame captured'') (map_option (\<lambda>(_, b). gray_of (vf_w fmt) (vf_h fmt) b) r) = Inr img"
  using assms unfolding ir_capture_def
  by (auto simp: abind_result bio_result scoped_result of_result_Ok_iff split: if_splits)

definition brightest_of :: "bytes list \<Rightarrow> (f32 \<times> bytes) option \<Rightarrow> bool" where
  "brightest_of seen r \<longleftrightarrow> (case r of None \<Rightarrow> seen = []
     | Some (m, b) \<Rightarrow> b \<in> set seen \<and> m = ir_mean_luma b \<and> (\<forall>x\<in>set seen. \<not> f_lt m (ir_mean_luma x)))"

lemma brighter_step: "brightest_of seen r \<Longrightarrow> brightest_of (seen @ [b]) (brighter r b)"
  by (auto simp: brightest_of_def brighter_def Let_def f_lt_irrefl split: option.splits if_splits dest: f_lt_trans)

lemma brighter_all: "brightest_of seen r \<Longrightarrow> brightest_of (seen @ bs) (foldl brighter r bs)"
proof (induction bs arbitrary: seen r)
  case (Cons b bs)
  show ?case using Cons.IH [OF brighter_step [OF Cons.prems, of b]] by simp
qed simp

section \<open>Resources\<close>







section \<open>A driver\<close>

text \<open>A camera that answers every request for a format with two by one pixels, grey or YUYV.\<close>

record demo_cam = host +
  dc_held :: "nat \<times> nat"
  dc_taken :: nat

definition demo_frame :: bytes where "demo_frame = [CHR 0x80, CHR 0x80, CHR 0xFF, CHR 0x80]"

definition demo_video :: "(demo_cam, unit) video" where
  "demo_video = \<lparr>
     vd_open = (\<lambda>_ w. (Ok (), w\<lparr>dc_held := (fst (dc_held w) + 1, snd (dc_held w))\<rparr>)),
     vd_close = (\<lambda>_ w. w\<lparr>dc_held := (fst (dc_held w) - 1, snd (dc_held w))\<rparr>),
     vd_card = (\<lambda>_ _. Some ''HelloCam N930W''), vd_control = (\<lambda>_ _ _. None),
     vd_set_control = (\<lambda>_ _ _. fail ''no such control''), vd_xu_query = (\<lambda>_ _ _ _ _ _. ret ()),
     vd_format = (\<lambda>_. ret \<lparr>vf_w = 0, vf_h = 0, vf_fourcc = []\<rparr>),
     vd_set_format = (\<lambda>_ f. ret \<lparr>vf_w = 2, vf_h = 1, vf_fourcc = (if vf_fourcc f = ''GREY'' then ''GREY'' else ''YUYV'')\<rparr>),
     vd_stream = (\<lambda>_ w. (Ok (), w\<lparr>dc_held := (fst (dc_held w), snd (dc_held w) + 1)\<rparr>)),
     vd_stream_off = (\<lambda>_ w. w\<lparr>dc_held := (fst (dc_held w), snd (dc_held w) - 1)\<rparr>),
     vd_next = (\<lambda>_ w. (Ok demo_frame, w\<lparr>dc_taken := dc_taken w + 1\<rparr>)),
     vd_jpeg = (\<lambda>_. Inl ''not a JPEG''), vd_hung = (\<lambda>_ _ _. None)\<rparr>"

definition demo_cam0 :: demo_cam where
  "demo_cam0 = \<lparr>files = (\<lambda>_. None), modes = (\<lambda>_. None), dirs = [], new_mode = 0, io_fault = (\<lambda>_ _. None),
     env_vars = [''LINHELLO_AUTO_BRIGHTNESS'' \<mapsto> ''0''], links = (\<lambda>_. None), realpath = (\<lambda>_. None), draws = 0,
     dc_held = (0, 0), dc_taken = 0\<rparr>"


lemma demo_ops:
  "vd_open demo_video path w = (Ok (), w\<lparr>dc_held := (fst (dc_held w) + 1, snd (dc_held w))\<rparr>)"
  "vd_card demo_video d w = Some ''HelloCam N930W''" "vd_control demo_video d i w = None"
  "vd_xu_query demo_video d un se q n p w = (Ok (), w)"
  "vd_format demo_video d w = (Ok \<lparr>vf_w = 0, vf_h = 0, vf_fourcc = []\<rparr>, w)"
  "vd_set_format demo_video d f w =
     (Ok \<lparr>vf_w = 2, vf_h = 1, vf_fourcc = (if vf_fourcc f = ''GREY'' then ''GREY'' else ''YUYV'')\<rparr>, w)"
  "vd_stream demo_video d w = (Ok (), w\<lparr>dc_held := (fst (dc_held w), snd (dc_held w) + 1)\<rparr>)"
  "vd_stream_off demo_video d w = w\<lparr>dc_held := (fst (dc_held w), snd (dc_held w) - 1)\<rparr>"
  "vd_close demo_video d w = w\<lparr>dc_held := (fst (dc_held w) - 1, snd (dc_held w))\<rparr>"
  "vd_next demo_video d w = (Ok demo_frame, w\<lparr>dc_taken := dc_taken w + 1\<rparr>)"
  "vd_hung demo_video t path w = None"
  by (simp_all add: demo_video_def)

lemmas demo_simps = demo_ops demo_cam0_def with_camera_def capture_with_timeout_def run_with_deadline_def
  abind_def bio_def amap_err_def try_act_def scoped_def privacy_engaged_def decodable_def torn_def of_result_def

lemma demo_decoded:
  "\<exists>img. yuyv_to_rgb demo_frame 2 1 = (Ok img :: (lh_error, rgb_image) outcome) \<and> ri_px img 0 0 = (130, 130, 130)"
proof -
  have px: "yuyv_px demo_frame 2 0 0 = (130, 130, 130)" by code_simp
  have "\<exists>out. (yuyv_rows demo_frame 2 [0] (blank 2 1) :: (lh_error, rgb_image) outcome) = Ok out \<and> ri_w out = 2 \<and>
      ri_h out = ri_h (blank 2 1) \<and>
      (\<forall>i j. ri_px out i j = (if j \<in> set [0] \<and> i < 2 \<and> j * (2 * 2) + (i - i mod 2) * 2 + 3 < length demo_frame
         then yuyv_px demo_frame 2 i j else ri_px (blank 2 1) i j))"
    by (rule yuyv_rows_spec) (simp_all add: blank_def)
  then show ?thesis using px by (auto simp: yuyv_to_rgb_def demo_frame_def)
qed

lemma demo_warm: "warm_up demo_video d what n w = (Ok (), w\<lparr>dc_taken := dc_taken w + n\<rparr>)"
  by (induction n arbitrary: w) (simp_all add: demo_ops bio_def amap_err_def abind_def)

lemma demo_ir_burst:
  "ir_loop demo_video d 2 n best w = (Ok (foldl brighter best (replicate n (take 2 demo_frame))), w\<lparr>dc_taken := dc_taken w + n\<rparr>)"
  by (induction n arbitrary: best w) (simp_all add: demo_ops bio_def amap_err_def abind_def demo_frame_def)

lemma brighter_same: "foldl brighter (Some (ir_mean_luma b, b)) (replicate n b) = Some (ir_mean_luma b, b)"
  by (induction n) (simp_all add: brighter_def [of "Some _"] f_lt_irrefl)

lemma brighter_again: "0 < n \<Longrightarrow> foldl brighter None (replicate n b) = Some (ir_mean_luma b, b)"
  by (cases n) (simp_all add: brighter_def [of None] brighter_same)

lemma demo_frame_captured:
  "\<exists>img w. capture_from demo_video ''/dev/video0'' demo_cam0 = (Ok img, w) \<and> ri_px img 0 0 = (130, 130, 130) \<and> dc_taken w = 6"
proof -
  obtain img where img: "yuyv_to_rgb demo_frame 2 1 = (Ok img :: (lh_error, rgb_image) outcome)" "ri_px img 0 0 = (130, 130, 130)"
    using demo_decoded by blast
  have attempt: "frame_attempts demo_video d \<lparr>vf_w = 2, vf_h = Suc 0, vf_fourcc = ''YUYV''\<rparr> rgb_decode_attempts err w =
      (Ok (Inr img), w\<lparr>dc_taken := dc_taken w + 1\<rparr>)" for d err w
  proof -
    have four: "rgb_decode_attempts = Suc 3" by (simp add: rgb_decode_attempts_def)
    show ?thesis
      unfolding four frame_attempts.simps using img
      by (simp add: abind_def bio_def amap_err_def try_act_def demo_ops torn_def decode_frame_def)
  qed
  show ?thesis using img
    by (simp add: capture_from_def capture_from_blocking_def rgb_prefs_def ask_format_def start_stream_def
        auto_brighten_rgb_def attempt demo_warm demo_simps)
qed

lemma demo_ir_captured:
  "\<exists>img w. capture_ir_from demo_video ''/dev/video2'' demo_cam0 = (Ok img, w) \<and> gi_px img 0 0 = 128"
proof -
  show ?thesis
    by (simp add: capture_ir_from_def capture_ir_from_blocking_def ir_capture_def enable_emitter_def env_control_def
        known_control_def ignore_def ir_burst_def brighter_again ok_or_def gray_of_def demo_simps
        demo_warm demo_ir_burst demo_frame_def
        del: ir_loop.simps foldl.simps foldl_Cons replicate.simps)
qed

section \<open>The properties\<close>



text \<open>
  C32. A frame that a capture returns is the decoding of a buffer the driver delivered, complete if it
  is a JPEG, in a format that the driver answered with and the program can decode; the camera's
  privacy switch was not on and the worker not late. A burst of n returns between one and n such
  frames, all of one format.
\<close>

theorem frames_sound:
  "(capture_from V path w = (Ok img, v) \<longrightarrow> vd_hung V capture_timeout path w = None \<and>
      (\<exists>d u fmt. vd_open V path w = (Ok d, u) \<and> privacy_engaged V d u \<noteq> Some True \<and> agreed V d fmt \<and>
        frame_ok V d fmt img)) \<and>
   (capture_burst_from V path n w = (Ok imgs, v) \<longrightarrow> vd_hung V capture_timeout path w = None \<and>
      imgs \<noteq> [] \<and> length imgs \<le> n \<and>
      (\<exists>d u fmt. vd_open V path w = (Ok d, u) \<and> privacy_engaged V d u \<noteq> Some True \<and> agreed V d fmt \<and>
        (\<forall>i\<in>set imgs. frame_ok V d fmt i)))"
proof (intro conjI impI)
  assume c: "capture_from V path w = (Ok img, v)"
  note t = capture_with_timeout_result [OF c [unfolded capture_from_def]]
  show "vd_hung V capture_timeout path w = None" by (rule t)
  show "\<exists>d u fmt. vd_open V path w = (Ok d, u) \<and> privacy_engaged V d u \<noteq> Some True \<and> agreed V d fmt \<and> frame_ok V d fmt img"
    using t(2) unfolding capture_from_blocking_def
  proof (rule with_camera_result)
    fix d u u'
    assume o: "vd_open V path w = (Ok d, u)" "privacy_engaged V d u \<noteq> Some True"
    assume "capture_prefs V d rgb_prefs None u = (Ok img, u')"
    from capture_prefs_sound [OF this] obtain fmt where "agreed V d fmt" "frame_ok V d fmt img" by blast
    with o show "\<exists>d u fmt. vd_open V path w = (Ok d, u) \<and> privacy_engaged V d u \<noteq> Some True \<and> agreed V d fmt \<and> frame_ok V d fmt img"
      by blast
  qed
next
  assume c: "capture_burst_from V path n w = (Ok imgs, v)"
  note t = capture_burst_result [OF c]
  obtain d u u' where o: "vd_open V path w = (Ok d, u)" "privacy_engaged V d u \<noteq> Some True"
      and b: "burst_prefs V d n rgb_prefs None u = (Ok imgs, u')"
    using t(2) unfolding capture_burst_blocking_def by (rule with_camera_result)
  note sound = burst_prefs_sound [OF b]
  show "vd_hung V capture_timeout path w = None" by (rule t)
  show "imgs \<noteq> []" "length imgs \<le> n" using sound by simp_all
  show "\<exists>d u fmt. vd_open V path w = (Ok d, u) \<and> privacy_engaged V d u \<noteq> Some True \<and> agreed V d fmt \<and>
      (\<forall>i\<in>set imgs. frame_ok V d fmt i)"
    using o sound by blast
qed

text \<open>The frame of the driver above, and what it came from.\<close>

lemma frames_sound_witness:
  "\<exists>img v d fmt. capture_from demo_video ''/dev/video0'' demo_cam0 = (Ok img, v) \<and> ri_px img 0 0 = (130, 130, 130) \<and>
     agreed demo_video d fmt \<and> frame_ok demo_video d fmt img"
proof -
  obtain img v where c: "capture_from demo_video ''/dev/video0'' demo_cam0 = (Ok img, v)" "ri_px img 0 0 = (130, 130, 130)"
    using demo_frame_captured by blast
  show ?thesis using frames_sound [of demo_video "''/dev/video0''" demo_cam0 img v] c by blast
qed

text \<open>
  An infrared frame that a capture returns is a brightest one of the six frames the driver
  delivered after the warm-up: among those that are long enough for the agreed size, cut to it, none
  has a greater sampled mean. The agreed format is GREY and the privacy switch was not on.
\<close>

theorem ir_brightest:
  "capture_ir_from V path w = (Ok img, v) \<longrightarrow>
   (\<exists>d u fmt bufs b s s'. vd_open V path w = (Ok d, u) \<and> privacy_engaged V d u \<noteq> Some True \<and> vf_fourcc (fmt :: vformat) = ''GREY'' \<and>
      delivers V d bufs s s' \<and> length bufs = 6 \<and> b \<in> set (usable (vf_w fmt * vf_h fmt) bufs) \<and>
      img = gray_of (vf_w fmt) (vf_h fmt) b \<and>
      (\<forall>x\<in>set (usable (vf_w fmt * vf_h fmt) bufs). \<not> f_lt (ir_mean_luma b) (ir_mean_luma x)))"
proof
  assume c: "capture_ir_from V path w = (Ok img, v)"
  note t = capture_with_timeout_result [OF c [unfolded capture_ir_from_def]]
  show "\<exists>d u fmt bufs b s s'. vd_open V path w = (Ok d, u) \<and> privacy_engaged V d u \<noteq> Some True \<and> vf_fourcc (fmt :: vformat) = ''GREY'' \<and>
      delivers V d bufs s s' \<and> length bufs = 6 \<and> b \<in> set (usable (vf_w fmt * vf_h fmt) bufs) \<and>
      img = gray_of (vf_w fmt) (vf_h fmt) b \<and>
      (\<forall>x\<in>set (usable (vf_w fmt * vf_h fmt) bufs). \<not> f_lt (ir_mean_luma b) (ir_mean_luma x))"
    using t(2) unfolding capture_ir_from_blocking_def
  proof (rule with_camera_result)
    fix d u u'
    assume o: "vd_open V path w = (Ok d, u)" "privacy_engaged V d u \<noteq> Some True"
    assume "ir_capture V d u = (Ok img, u')"
    then obtain fmt r s s' where f: "vf_fourcc (fmt :: vformat) = ''GREY''"
      and l: "ir_loop V d (vf_w fmt * vf_h fmt) ir_burst None s = ((Ok r :: (lh_error, _) outcome), s')"
      and i: "ok_or (bio_err ''no IR frame captured'') (map_option (\<lambda>(_, b). gray_of (vf_w fmt) (vf_h fmt) b) r) = Inr img"
      by (rule ir_capture_result)
    from ir_loop_folds [OF l] obtain bufs where bufs: "length bufs = ir_burst" "delivers V d bufs s s'"
        "r = foldl brighter None (usable (vf_w fmt * vf_h fmt) bufs)" by blast
    have "brightest_of (usable (vf_w fmt * vf_h fmt) bufs) r"
      using brighter_all [of "[]" None] bufs(3) by (simp add: brightest_of_def)
    moreover from i obtain m b where "r = Some (m, b)" "img = gray_of (vf_w fmt) (vf_h fmt) b"
      by (auto simp: ok_or_def split: option.splits)
    ultimately show ?thesis
      using o f bufs by (intro exI [of _ d] exI [of _ u] exI [of _ fmt] exI [of _ bufs] exI [of _ b] exI [of _ s] exI [of _ s'])
        (auto simp: brightest_of_def ir_burst_def)
  qed
qed

lemma ir_brightest_witness:
  "\<exists>img v d bufs s s'. capture_ir_from demo_video ''/dev/video2'' demo_cam0 = (Ok img, v) \<and> gi_px img 0 0 = 128 \<and>
     delivers demo_video d bufs s s' \<and> length bufs = 6"
proof -
  obtain img v where c: "capture_ir_from demo_video ''/dev/video2'' demo_cam0 = (Ok img, v)" "gi_px img 0 0 = 128"
    using demo_ir_captured by blast
  show ?thesis using ir_brightest [of demo_video "''/dev/video2''" demo_cam0 img v] c by blast
qed

end
