(* ===== verification/Networks.thy ===== *)
theory Networks
  imports CameraSelect
begin

text \<open>
  What surrounds the neural networks: crates/linhello-biometrics/src/detect.rs, embed.rs, ort_init.rs
  and crates/linhello-liveness/src/antispoof.rs. The runtime and the image library are the record
  \<open>nets\<close>; loading with its errors, the tensors, the decoding of the detector's outputs, the
  suppression of overlapping boxes, the normalisation of an embedding, the crop and the vote of the
  anti-spoofing ensemble are the code's.
\<close>

section \<open>The libraries\<close>

record tensor =
  tn_h :: nat
  tn_w :: nat
  tn_at :: "nat \<Rightarrow> nat \<Rightarrow> nat \<Rightarrow> f32"

type_synonym run_result = "string + (string + f32 list) list"

text \<open>
  A session is a number. A run gives the outputs, each of which may fail to be extracted as floats.
\<close>

record nets =
  nt_resize :: "rgb_image \<Rightarrow> nat \<Rightarrow> nat \<Rightarrow> rgb_image"
  nt_overlay :: "rgb_image \<Rightarrow> rgb_image \<Rightarrow> int \<Rightarrow> int \<Rightarrow> rgb_image"
  nt_crop :: "rgb_image \<Rightarrow> nat \<Rightarrow> nat \<Rightarrow> nat \<Rightarrow> nat \<Rightarrow> rgb_image"
  nt_read_dir :: "string \<Rightarrow> string list option"
  nt_builder :: "string + unit"
  nt_opt_level :: "string + unit"
  nt_commit :: "string \<Rightarrow> string + nat"
  nt_build :: "tensor \<Rightarrow> string + unit"
  nt_run :: "nat \<Rightarrow> tensor \<Rightarrow> run_result"
  nt_exp :: "f32 \<Rightarrow> f32"

section \<open>Loading\<close>

text \<open>The single initialisation attempt of the process and the once-cells of the two networks.\<close>

record ort_host = host +
  ort_init :: "(string + unit) option"
  det_cell :: "(string + nat) option"
  emb_cell :: "(string + nat) option"
  live_init :: bool

definition first_init :: "('y) nets_scheme \<Rightarrow> 'z ort_host_scheme \<Rightarrow> (string + unit) \<times> 'z ort_host_scheme" where
  "first_init N w =
     (if env_vars w ''ORT_DYLIB_PATH'' \<noteq> None then (Inr (), w)
      else (case onnxruntime_dylib (nt_read_dir N) w of
          Some path \<Rightarrow> (Inr (), w\<lparr>env_vars := (env_vars w)(''ORT_DYLIB_PATH'' \<mapsto> path)\<rparr>)
        | None \<Rightarrow> (Inl (''libonnxruntime.so not found '' @ em_dash @ '' '' @ onnxruntime_install_hint w), w)))"

definition ensure_initialized :: "'y nets_scheme \<Rightarrow> ('z ort_host_scheme, lh_error, unit) act" where
  "ensure_initialized N w = (case ort_init w of
      Some r \<Rightarrow> (of_result (map_err bio_err r), w)
    | None \<Rightarrow> (case first_init N w of (r, v) \<Rightarrow> (of_result (map_err bio_err r), v\<lparr>ort_init := Some r\<rparr>)))"

text \<open>The liveness crate initialises on its own and ignores a missing library.\<close>

definition ensure_ort :: "'y nets_scheme \<Rightarrow> ('z ort_host_scheme, lh_error, unit) act" where
  "ensure_ort N w =
     (if live_init w then (Ok (), w) else (Ok (), (snd (first_init N w))\<lparr>live_init := True\<rparr>))"

definition build_session :: "'y nets_scheme \<Rightarrow> string \<Rightarrow> string \<Rightarrow> lh_error + nat" where
  "build_session N what path =
     rbind (map_err (\<lambda>e. bio_err (''ort builder: '' @ e)) (nt_builder N)) (\<lambda>_.
     rbind (map_err (\<lambda>e. bio_err (''opt level: '' @ e)) (nt_opt_level N)) (\<lambda>_.
     map_err (\<lambda>e. bio_err (''load '' @ what @ '': '' @ e)) (nt_commit N path)))"

definition load_network ::
  "'y nets_scheme \<Rightarrow> string \<Rightarrow> string \<Rightarrow> string \<Rightarrow> ('z ort_host_scheme, lh_error, nat) act" where
  "load_network N missing what path =
     abind (query (path_exists path)) (\<lambda>there.
     if \<not> there then fail (bio_err (missing @ '' model not found at '' @ path))
     else abind (ensure_initialized N) (\<lambda>_. lift (build_session N what path)))"

definition load_detector :: "'y nets_scheme \<Rightarrow> ('z ort_host_scheme, lh_error, nat) act" where
  "load_detector N =
     abind (query (\<lambda>w. unwrap_or ''/etc/linhello/det_10g.onnx'' (env_vars w ''LINHELLO_DET_MODEL'')))
       (load_network N ''SCRFD'' ''scrfd'')"

definition load_embedder :: "'y nets_scheme \<Rightarrow> ('z ort_host_scheme, lh_error, nat) act" where
  "load_embedder N =
     abind (query (\<lambda>w. unwrap_or ''/etc/linhello/face.onnx'' (env_vars w ''LINHELLO_MODEL_PATH'')))
       (load_network N ''ONNX'' ''arcface'')"

text \<open>The first attempt is kept, a failure as its message; an attempt that panics leaves the cell empty.\<close>

definition first_attempt ::
  "((string + nat) \<Rightarrow> 'w \<Rightarrow> 'w) \<Rightarrow> ('w, lh_error, nat) act \<Rightarrow> ('w, lh_error, nat) act" where
  "first_attempt fill load w = (case load w of
      (Ok s, v) \<Rightarrow> (Ok s, fill (Inr s) v)
    | (Err e, v) \<Rightarrow> (Err (bio_err (err_to_string e)), fill (Inl (err_to_string e)) v)
    | (Panic m, v) \<Rightarrow> (Panic m, v))"

definition detector_once :: "'y nets_scheme \<Rightarrow> ('z ort_host_scheme, lh_error, nat) act" where
  "detector_once N w = (case det_cell w of
      Some r \<Rightarrow> (of_result (map_err bio_err r), w)
    | None \<Rightarrow> first_attempt (\<lambda>r v. v\<lparr>det_cell := Some r\<rparr>) (load_detector N) w)"

definition embedder_once :: "'y nets_scheme \<Rightarrow> ('z ort_host_scheme, lh_error, nat) act" where
  "embedder_once N w = (case emb_cell w of
      Some r \<Rightarrow> (of_result (map_err bio_err r), w)
    | None \<Rightarrow> first_attempt (\<lambda>r v. v\<lparr>emb_cell := Some r\<rparr>) (load_embedder N) w)"

section \<open>Stable sorting\<close>

text \<open>
  \<open>sort_by\<close>: each element moves left past those it is less than. With more than twenty elements the
  library uses another algorithm, which agrees where the comparison is a total order.
\<close>

fun sink :: "('a \<Rightarrow> 'a \<Rightarrow> bool) \<Rightarrow> 'a \<Rightarrow> 'a list \<Rightarrow> 'a list" where
  "sink lt x [] = [x]"
| "sink lt x (y # ys) = (if lt x y then y # sink lt x ys else x # y # ys)"

definition stable_sort :: "('a \<Rightarrow> 'a \<Rightarrow> bool) \<Rightarrow> 'a list \<Rightarrow> 'a list" where
  "stable_sort lt xs = rev (foldl (\<lambda>acc x. sink lt x acc) [] xs)"

section \<open>Detection\<close>

record det_face = face +
  df_score :: f32

definition input_size :: nat where "input_size = 640"
definition strides :: "nat list" where "strides = [8, 16, 32]"
definition num_anchors :: nat where "num_anchors = 2"

definition rgb_channel :: "nat \<times> nat \<times> nat \<Rightarrow> nat \<Rightarrow> nat" where
  "rgb_channel p c = (case p of (r, g, b) \<Rightarrow> if c = 0 then r else if c = 1 then g else b)"

text \<open>Planes of channels scaled to about -1 to 1: the input of the detector and of the embedder.\<close>

definition unit_tensor :: "rgb_image \<Rightarrow> tensor" where
  "unit_tensor img = \<lparr>tn_h = ri_h img, tn_w = ri_w img,
     tn_at = (\<lambda>c y x. f_div (f_sub (f_of_nat (rgb_channel (ri_px img x y) c)) (f_lit 127.5)) (f_lit 128))\<rparr>"

definition letterbox :: "'y nets_scheme \<Rightarrow> rgb_image \<Rightarrow> nat \<Rightarrow> rgb_image \<times> f32 \<times> f32 \<times> f32" where
  "letterbox N img side =
     (let w = f_of_nat (ri_w img); h = f_of_nat (ri_h img);
          scale = f_min (f_div (f_of_nat side) w) (f_div (f_of_nat side) h);
          nw = f_to_u32 (f_round_int (f_mul w scale)); nh = f_to_u32 (f_round_int (f_mul h scale));
          resized = nt_resize N img nw nh;
          pad_x = f_of_nat ((side + 2 ^ 32 - nw) mod 2 ^ 32 div 2); pad_y = f_of_nat ((side + 2 ^ 32 - nh) mod 2 ^ 32 div 2);
          canvas = \<lparr>ri_w = side, ri_h = side, ri_px = (\<lambda>_ _. (0, 0, 0))\<rparr>
      in (nt_overlay N canvas resized (f_to_int (- (2 ^ 63)) (2 ^ 63 - 1) pad_x) (f_to_int (- (2 ^ 63)) (2 ^ 63 - 1) pad_y),
          scale, pad_x, pad_y))"

definition decode_one :: "nat \<Rightarrow> nat \<Rightarrow> f32 list \<Rightarrow> f32 list \<Rightarrow> f32 list \<Rightarrow> nat \<Rightarrow> det_face" where
  "decode_one stride grid_w scores bboxes kpses i =
     (let cell = i div num_anchors; st = f_of_nat stride;
          cx = f_mul (f_of_nat (cell mod grid_w)) st; cy = f_mul (f_of_nat (cell div grid_w)) st;
          b = (\<lambda>j. f_mul (bboxes ! (i * 4 + j)) st);
          k = (\<lambda>j. (f_add cx (f_mul (kpses ! (i * 10 + j * 2)) st), f_add cy (f_mul (kpses ! (i * 10 + (j * 2 + 1))) st)))
      in \<lparr>face_bbox = (f_sub cx (b 0), f_sub cy (b 1), f_add cx (b 2), f_add cy (b 3)),
          face_landmarks = \<lparr>lm_le = k 0, lm_re = k 1, lm_nose = k 2, lm_lm = k 3, lm_rm = k 4\<rparr>,
          df_score = scores ! i\<rparr>)"

definition score_threshold :: f32 where "score_threshold = f_lit 0.5"
definition nms_iou :: f32 where "nms_iou = f_lit 0.4"

definition decode_stride ::
  "nat \<Rightarrow> nat \<Rightarrow> nat \<Rightarrow> f32 list \<Rightarrow> f32 list \<Rightarrow> f32 list \<Rightarrow> det_face list" where
  "decode_stride stride grid_w grid_h scores bboxes kpses =
     map (decode_one stride grid_w scores bboxes kpses)
       (filter (\<lambda>i. \<not> f_lt (scores ! i) score_threshold) [0..<grid_w * grid_h * num_anchors])"

definition too_small :: "nat \<Rightarrow> nat \<Rightarrow> nat \<Rightarrow> nat \<Rightarrow> nat \<Rightarrow> lh_error" where
  "too_small stride a b c need = bio_err (''scrfd output too small at stride '' @ show_nat stride @
     '': scores='' @ show_nat a @ '' bboxes='' @ show_nat b @ '' kps='' @ show_nat c @ '' (need '' @
     show_nat need @ ''/'' @ show_nat (need * 4) @ ''/'' @ show_nat (need * 10) @ '')'')"

fun decode_strides :: "f32 list list \<Rightarrow> (nat \<times> nat) list \<Rightarrow> lh_error + det_face list" where
  "decode_strides outs [] = Inr []"
| "decode_strides outs ((i, stride) # rest) =
     (let grid = input_size div stride; need = grid * grid * num_anchors;
          scores = outs ! i; bboxes = outs ! (i + 3); kpses = outs ! (i + 6)
      in if length scores < need \<or> length bboxes < need * 4 \<or> length kpses < need * 10
         then Inl (too_small stride (length scores) (length bboxes) (length kpses) need)
         else rbind (decode_strides outs rest) (\<lambda>more. Inr (decode_stride stride grid grid scores bboxes kpses @ more)))"

definition rescale_face :: "f32 \<Rightarrow> f32 \<Rightarrow> f32 \<Rightarrow> f32 \<Rightarrow> f32 \<Rightarrow> det_face \<Rightarrow> det_face" where
  "rescale_face pad_x pad_y scale xmax ymax f =
     (let fx = (\<lambda>v. f_clamp (f_div (f_sub v pad_x) scale) (f_lit 0) xmax);
          fy = (\<lambda>v. f_clamp (f_div (f_sub v pad_y) scale) (f_lit 0) ymax);
          pt = (\<lambda>(a, b). (fx a, fy b)); l = face_landmarks f
      in case face_bbox f of (x1, y1, x2, y2) \<Rightarrow>
        f\<lparr>face_bbox := (fx x1, fy y1, fx x2, fy y2),
          face_landmarks := \<lparr>lm_le = pt (lm_le l), lm_re = pt (lm_re l), lm_nose = pt (lm_nose l),
            lm_lm = pt (lm_lm l), lm_rm = pt (lm_rm l)\<rparr>\<rparr>)"

definition iou :: "bbox \<Rightarrow> bbox \<Rightarrow> f32" where
  "iou a b = (case a of (a0, a1, a2, a3) \<Rightarrow> case b of (b0, b1, b2, b3) \<Rightarrow>
     (let z = f_lit 0; x1 = f_max a0 b0; y1 = f_max a1 b1; x2 = f_min a2 b2; y2 = f_min a3 b3;
          inter = f_mul (f_max (f_sub x2 x1) z) (f_max (f_sub y2 y1) z);
          area_a = f_mul (f_max (f_sub a2 a0) z) (f_max (f_sub a3 a1) z);
          area_b = f_mul (f_max (f_sub b2 b0) z) (f_max (f_sub b3 b1) z);
          joint = f_sub (f_add area_a area_b) inter
      in if f_le joint z then z else f_div inter joint))"

definition clear_of :: "f32 \<Rightarrow> det_face list \<Rightarrow> det_face \<Rightarrow> bool" where
  "clear_of thresh kept f \<longleftrightarrow> list_all (\<lambda>k. f_lt (iou (face_bbox f) (face_bbox k)) thresh) kept"

fun suppress :: "f32 \<Rightarrow> det_face list \<Rightarrow> det_face list \<Rightarrow> det_face list" where
  "suppress thresh kept [] = kept"
| "suppress thresh kept (f # fs) = suppress thresh (if clear_of thresh kept f then kept @ [f] else kept) fs"

definition nms :: "det_face list \<Rightarrow> f32 \<Rightarrow> det_face list" where
  "nms faces thresh = suppress thresh [] (stable_sort (\<lambda>a b. f_lt (df_score b) (df_score a)) faces)"

fun extract_all :: "nat \<Rightarrow> (string + f32 list) list \<Rightarrow> lh_error + f32 list list" where
  "extract_all i [] = Inr []"
| "extract_all i (o1 # os) =
     rbind (map_err (\<lambda>e. bio_err (''extract out '' @ show_nat i @ '': '' @ e)) o1) (\<lambda>d.
     rbind (extract_all (i + 1) os) (\<lambda>ds. Inr (d # ds)))"

text \<open>\<open>f32::clamp\<close> panics where its bounds are not ordered; an image without columns has none that are.\<close>

definition candidates :: "'y nets_scheme \<Rightarrow> nat \<Rightarrow> rgb_image \<Rightarrow> (lh_error, det_face list) outcome" where
  "candidates N session img =
     (case letterbox N img input_size of (boxed, scale, pad_x, pad_y) \<Rightarrow>
      case rbind (map_err (\<lambda>e. bio_err (''build input: '' @ e)) (nt_build N (unit_tensor boxed))) (\<lambda>_.
           rbind (map_err (\<lambda>e. bio_err (''scrfd inference: '' @ e)) (nt_run N session (unit_tensor boxed))) (\<lambda>outputs.
           if length outputs < 9
           then Inl (bio_err (''scrfd returned '' @ show_nat (length outputs) @ '' outputs, expected 9''))
           else rbind (extract_all 0 (take 9 outputs)) (\<lambda>outs. decode_strides outs (enumerate 0 strides)))) of
        Inl e \<Rightarrow> Err e
      | Inr faces \<Rightarrow>
          (let xmax = f_sub (f_of_nat (ri_w img)) (f_lit 1); ymax = f_sub (f_of_nat (ri_h img)) (f_lit 1)
           in if faces \<noteq> [] \<and> \<not> (f_le (f_lit 0) xmax \<and> f_le (f_lit 0) ymax) then Panic ''min > max, or either was NaN''
              else Ok (map (rescale_face pad_x pad_y scale xmax ymax) faces)))"

definition detect_in :: "'y nets_scheme \<Rightarrow> nat \<Rightarrow> rgb_image \<Rightarrow> (lh_error, det_face list) outcome" where
  "detect_in N session img = (case candidates N session img of
      Ok faces \<Rightarrow> Ok (nms faces nms_iou) | Err e \<Rightarrow> Err e | Panic m \<Rightarrow> Panic m)"

section \<open>Embedding\<close>

definition face_size :: nat where "face_size = 112"
definition embed_dim :: nat where "embed_dim = 512"

definition l2_normalize :: "f32 list \<Rightarrow> f32 list" where
  "l2_normalize v =
     (let norm = f_sqrt (f_sum (map (\<lambda>x. f_mul x x) v))
      in if f_lt (f_lit 0) norm then map (\<lambda>x. f_div x norm) v else v)"

definition embed :: "'y nets_scheme \<Rightarrow> nat \<Rightarrow> rgb_image \<Rightarrow> (lh_error, f32 list) outcome" where
  "embed N session img =
     (if ri_w img \<noteq> face_size \<or> ri_h img \<noteq> face_size then Err (bio_err ''face crop must be 112x112'')
      else case rbind (map_err (\<lambda>e. bio_err (''build input: '' @ e)) (nt_build N (unit_tensor img))) (\<lambda>_.
           map_err (\<lambda>e. bio_err (''inference: '' @ e)) (nt_run N session (unit_tensor img))) of
        Inl e \<Rightarrow> Err e
      | Inr [] \<Rightarrow> Panic ''index out of bounds''
      | Inr (o1 # _) \<Rightarrow>
          of_result (rbind (map_err (\<lambda>e. bio_err (''extract: '' @ e)) o1) (\<lambda>data.
            if length data \<noteq> embed_dim
            then Inl (bio_err (''unexpected embedding dim '' @ show_nat (length data) @ '' (want '' @ show_nat embed_dim @ '')''))
            else let v = l2_normalize data in
              if list_all f_finite v \<and> list_ex (\<lambda>x. \<not> f_eq x (f_lit 0)) v then Inr v
              else Inl (bio_err ''degenerate embedding (zero norm or non-finite)''))))"

section \<open>Anti-spoofing\<close>

record member =
  mb_session :: nat
  mb_scale :: f32
  mb_label :: string

fun load_members :: "'y nets_scheme \<Rightarrow> model_item list \<Rightarrow> ('z ort_host_scheme, lh_error, member list) act" where
  "load_members N [] = ret []"
| "load_members N ((path, scale, label) # items) =
     abind (query (path_exists path)) (\<lambda>there.
     if \<not> there then fail (Biometrics (''anti-spoof model ('' @ label @ '') not found at '' @ path))
     else abind (lift (build_session N (''anti-spoof ('' @ label @ '')'') path)) (\<lambda>s.
       abind (load_members N items) (\<lambda>ms. ret (\<lparr>mb_session = s, mb_scale = scale, mb_label = label\<rparr> # ms))))"

definition ensemble_load :: "'y nets_scheme \<Rightarrow> model_item list \<Rightarrow> ('z ort_host_scheme, lh_error, member list) act" where
  "ensemble_load N items =
     (if items = [] then fail (Biometrics ''anti-spoof ensemble is empty'')
      else abind (ensure_ort N) (\<lambda>_. load_members N items))"

definition single_load :: "'y nets_scheme \<Rightarrow> string \<Rightarrow> ('z ort_host_scheme, lh_error, member list) act" where
  "single_load N path = ensemble_load N [(path, f_lit 2.7, ''single'')]"

definition crop_box :: "rgb_image \<Rightarrow> bbox \<Rightarrow> f32 \<Rightarrow> nat \<times> nat \<times> nat \<times> nat" where
  "crop_box img bb scale = (case bb of (x1, y1, x2, y2) \<Rightarrow>
     (let fw = f_of_nat (ri_w img); fh = f_of_nat (ri_h img); one = f_lit 1; two = f_lit 2; z = f_lit 0;
          box_w = f_max (f_sub x2 x1) one; box_h = f_max (f_sub y2 y1) one;
          cx = f_add x1 (f_div box_w two); cy = f_add y1 (f_div box_h two);
          eff = f_min scale (f_min (f_div (f_sub fh one) box_h) (f_div (f_sub fw one) box_w));
          new_w = f_mul box_w eff; new_h = f_mul box_h eff;
          lx = f_sub cx (f_div new_w two); ly = f_sub cy (f_div new_h two);
          rx = f_add cx (f_div new_w two); ry = f_add cy (f_div new_h two);
          (lx, rx) = (if f_lt lx z then (z, f_sub rx lx) else (lx, rx));
          (ly, ry) = (if f_lt ly z then (z, f_sub ry ly) else (ly, ry));
          (lx, rx) = (if f_lt fw rx then (f_sub lx (f_sub rx fw), fw) else (lx, rx));
          (ly, ry) = (if f_lt fh ry then (f_sub ly (f_sub ry fh), fh) else (ly, ry));
          lx = f_to_u32 (f_max lx z); ly = f_to_u32 (f_max ly z);
          rx = max (f_to_u32 (f_min rx fw)) ((lx + 1) mod 2 ^ 32); ry = max (f_to_u32 (f_min ry fh)) ((ly + 1) mod 2 ^ 32)
      in (lx, ly, (rx + 2 ^ 32 - lx) mod 2 ^ 32, (ry + 2 ^ 32 - ly) mod 2 ^ 32)))"

definition crop_scaled :: "'y nets_scheme \<Rightarrow> rgb_image \<Rightarrow> bbox \<Rightarrow> f32 \<Rightarrow> nat \<Rightarrow> rgb_image" where
  "crop_scaled N img bb scale out =
     (case crop_box img bb scale of (x, y, w, h) \<Rightarrow> nt_resize N (nt_crop N img x y w h) out out)"

text \<open>Blue, green, red, as they are.\<close>

definition bgr_tensor :: "rgb_image \<Rightarrow> tensor" where
  "bgr_tensor img = \<lparr>tn_h = 80, tn_w = 80, tn_at = (\<lambda>c y x. f_of_nat (rgb_channel (ri_px img x y) (2 - c)))\<rparr>"

definition softmax :: "'y nets_scheme \<Rightarrow> f32 list \<Rightarrow> f32 list" where
  "softmax N xs =
     (let m = foldl f_max (f_inf True) xs; exps = map (\<lambda>v. nt_exp N (f_sub v m)) xs; s = f_sum exps
      in if f_lt (f_lit 0) s then map (\<lambda>v. f_div v s) exps else replicate (length xs) (f_lit 0))"

definition run_member :: "'y nets_scheme \<Rightarrow> rgb_image \<Rightarrow> bbox \<Rightarrow> member \<Rightarrow> (lh_error, f32 list) outcome" where
  "run_member N img bb m =
     (let t = bgr_tensor (crop_scaled N img bb (mb_scale m) 80); l = mb_label m in
      case rbind (map_err (\<lambda>e. Biometrics (''build input ('' @ l @ ''): '' @ e)) (nt_build N t)) (\<lambda>_.
           map_err (\<lambda>e. Biometrics (''antispoof inference ('' @ l @ ''): '' @ e)) (nt_run N (mb_session m) t)) of
        Inl e \<Rightarrow> Err e
      | Inr [] \<Rightarrow> Panic ''index out of bounds''
      | Inr (o1 # _) \<Rightarrow>
          of_result (rbind (map_err (\<lambda>e. Biometrics (''extract ('' @ l @ ''): '' @ e)) o1) (\<lambda>logits.
            if length logits < 2
            then Inl (Biometrics (''unexpected antispoof output shape from '' @ l @ '' (len '' @ show_nat (length logits) @ '')''))
            else Inr (softmax N logits))))"

fun sum_members :: "'y nets_scheme \<Rightarrow> rgb_image \<Rightarrow> bbox \<Rightarrow> f32 \<Rightarrow> member list \<Rightarrow> (lh_error, f32) outcome" where
  "sum_members N img bb s [] = Ok s"
| "sum_members N img bb s (m # ms) = (case run_member N img bb m of
      Ok probs \<Rightarrow> sum_members N img bb (f_add s (probs ! 1)) ms | Err e \<Rightarrow> Err e | Panic p \<Rightarrow> Panic p)"

text \<open>Of the sums of the classes only that of class 1 is read.\<close>

definition predict_frame :: "'y nets_scheme \<Rightarrow> member list \<Rightarrow> rgb_image \<Rightarrow> bbox \<Rightarrow> (lh_error, f32) outcome" where
  "predict_frame N ms img bb = (case sum_members N img bb (f_lit 0) ms of
      Ok s \<Rightarrow> Ok (f_clamp (f_sub (f_lit 1) (f_div s (f_of_nat (length ms)))) (f_lit 0) (f_lit 1))
    | Err e \<Rightarrow> Err e | Panic p \<Rightarrow> Panic p)"

definition median :: "f32 list \<Rightarrow> f32" where
  "median v =
     (let s = stable_sort f_lt v; n = length s
      in if n = 0 then f_lit 0 else if n mod 2 = 1 then s ! (n div 2)
         else f_div (f_add (s ! (n div 2 - 1)) (s ! (n div 2))) (f_lit 2))"

fun predict_all :: "'y nets_scheme \<Rightarrow> member list \<Rightarrow> (rgb_image \<times> bbox) list \<Rightarrow> (lh_error, f32 list) outcome" where
  "predict_all N ms [] = Ok []"
| "predict_all N ms ((img, bb) # fs) = (case predict_frame N ms img bb of
      Ok p \<Rightarrow> (case predict_all N ms fs of Ok ps \<Rightarrow> Ok (p # ps) | r \<Rightarrow> r)
    | Err e \<Rightarrow> Err e | Panic m \<Rightarrow> Panic m)"

definition median_of_frames ::
  "'y nets_scheme \<Rightarrow> member list \<Rightarrow> (rgb_image \<times> bbox) list \<Rightarrow> (lh_error, f32) outcome" where
  "median_of_frames N ms frames =
     (if frames = [] then Err (Biometrics ''anti-spoof: no frames to score'')
      else case predict_all N ms frames of Ok ps \<Rightarrow> Ok (median ps) | Err e \<Rightarrow> Err e | Panic m \<Rightarrow> Panic m)"

end
