(* ===== verification/NetSpec.thy ===== *)
theory NetSpec
  imports Networks "HOL-Library.Multiset"
begin

text \<open>
  The faces a detection reports, and the vote of the anti-spoofing readings.
\<close>

section \<open>Sorting\<close>

lemma sink_mset: "mset (sink lt x ys) = add_mset x (mset ys)"
  by (induction ys) auto

lemma stable_sort_mset: "mset (stable_sort lt xs) = mset xs"
proof -
  have "mset (foldl (\<lambda>acc x. sink lt x acc) acc xs) = mset acc + mset xs" for acc
    by (induction xs arbitrary: acc) (simp_all add: sink_mset)
  then show ?thesis by (simp add: stable_sort_def)
qed

lemma stable_sort_set [simp]: "set (stable_sort lt xs) = set xs"
  by (metis stable_sort_mset set_mset_mset)

text \<open>A comparison under which the elements of A are totally preordered.\<close>

definition weak_order :: "('a \<Rightarrow> 'a \<Rightarrow> bool) \<Rightarrow> 'a set \<Rightarrow> bool" where
  "weak_order lt A \<longleftrightarrow> (\<forall>a\<in>A. \<forall>b\<in>A. lt a b \<longrightarrow> \<not> lt b a) \<and>
     (\<forall>a\<in>A. \<forall>b\<in>A. \<forall>c\<in>A. \<not> lt a b \<longrightarrow> \<not> lt b c \<longrightarrow> \<not> lt a c)"

lemma weak_orderI:
  assumes "\<And>a b. a \<in> A \<Longrightarrow> b \<in> A \<Longrightarrow> lt a b \<Longrightarrow> \<not> lt b a"
    and "\<And>a b c. a \<in> A \<Longrightarrow> b \<in> A \<Longrightarrow> c \<in> A \<Longrightarrow> \<not> lt a b \<Longrightarrow> \<not> lt b c \<Longrightarrow> \<not> lt a c"
  shows "weak_order lt A"
  unfolding weak_order_def using assms by (intro conjI ballI impI)

lemma weak_order_asym: "weak_order lt A \<Longrightarrow> a \<in> A \<Longrightarrow> b \<in> A \<Longrightarrow> lt a b \<Longrightarrow> \<not> lt b a"
  unfolding weak_order_def by blast

lemma weak_order_trans: "weak_order lt A \<Longrightarrow> a \<in> A \<Longrightarrow> b \<in> A \<Longrightarrow> c \<in> A \<Longrightarrow> \<not> lt a b \<Longrightarrow> \<not> lt b c \<Longrightarrow> \<not> lt a c"
  unfolding weak_order_def by blast

lemma sink_set: "set (sink lt x ys) = insert x (set ys)"
  by (metis sink_mset set_mset_add_mset_insert set_mset_mset)

lemma sink_sorted:
  assumes "weak_order lt A" and "x \<in> A" and "set ys \<subseteq> A" and "sorted_wrt (\<lambda>a b. \<not> lt a b) ys"
  shows "sorted_wrt (\<lambda>a b. \<not> lt a b) (sink lt x ys)"
  using assms(3,4)
proof (induction ys)
  case (Cons y ys)
  have y: "y \<in> A" using Cons.prems by simp
  show ?case
  proof (cases "lt x y")
    case True
    then have "\<not> lt y x" using weak_order_asym [OF assms(1,2) y] by blast
    then show ?thesis using True Cons by (simp add: sink_set)
  next
    case False
    have "\<not> lt x z" if "z \<in> set ys" for z
    proof -
      have "z \<in> A" "\<not> lt y z" using that Cons.prems by auto
      then show ?thesis using weak_order_trans [OF assms(1,2) y] False by blast
    qed
    then show ?thesis using False Cons.prems by simp
  qed
qed simp

lemma stable_sort_sorted:
  assumes "weak_order lt (set xs)"
  shows "sorted_wrt (\<lambda>a b. \<not> lt b a) (stable_sort lt xs)"
proof -
  have "sorted_wrt (\<lambda>a b. \<not> lt a b) (foldl (\<lambda>acc x. sink lt x acc) acc ys)"
    if "set ys \<subseteq> set xs" "set acc \<subseteq> set xs" "sorted_wrt (\<lambda>a b. \<not> lt a b) acc" for acc ys
    using that
  proof (induction ys arbitrary: acc)
    case (Cons y ys)
    show ?case
      using Cons.prems by (simp, intro Cons.IH) (auto simp: sink_set intro: sink_sorted [OF assms])
  qed simp
  from this [of xs "[]"] show ?thesis by (simp add: stable_sort_def sorted_wrt_rev)
qed

lemma f_weak_order: "weak_order f_lt {x. \<not> f_is_nan x}"
proof (rule weak_orderI)
  fix a b c
  assume "a \<in> {x. \<not> f_is_nan x}" "b \<in> {x. \<not> f_is_nan x}" "c \<in> {x. \<not> f_is_nan x}" "\<not> f_lt a b" "\<not> f_lt b c"
  then show "\<not> f_lt a c"
    by (cases "decode a"; cases "decode b"; cases "decode c") (auto simp: f_lt_def f_is_nan_def)
next
  fix a b
  assume "f_lt a b"
  then show "\<not> f_lt b a" by (cases "decode a"; cases "decode b") (auto simp: f_lt_def)
qed

lemma weak_order_vimage:
  assumes "weak_order lt B" and "g ` A \<subseteq> B"
  shows "weak_order (\<lambda>a b. lt (g b) (g a)) A"
proof (rule weak_orderI)
  fix a b assume "a \<in> A" "b \<in> A" "lt (g b) (g a)"
  moreover from this have "g a \<in> B" "g b \<in> B" using assms(2) by blast+
  ultimately show "\<not> lt (g a) (g b)" by (rule_tac weak_order_asym [OF assms(1)])
next
  fix a b c assume "a \<in> A" "b \<in> A" "c \<in> A" "\<not> lt (g b) (g a)" "\<not> lt (g c) (g b)"
  moreover from this have "g a \<in> B" "g b \<in> B" "g c \<in> B" using assms(2) by blast+
  ultimately show "\<not> lt (g c) (g a)" by (rule_tac weak_order_trans [OF assms(1), of _ "g b"])
qed

lemma weak_order_mono:
  assumes "weak_order lt B" and "A \<subseteq> B"
  shows "weak_order lt A"
proof (rule weak_orderI)
  fix a b assume "a \<in> A" "b \<in> A" "lt a b"
  then show "\<not> lt b a" by (rule_tac weak_order_asym [OF assms(1)]) (assumption | rule subsetD [OF assms(2)], assumption)+
next
  fix a b c assume "a \<in> A" "b \<in> A" "c \<in> A" "\<not> lt a b" "\<not> lt b c"
  then show "\<not> lt a c"
    by (rule_tac weak_order_trans [OF assms(1), of a b c]) (assumption | rule subsetD [OF assms(2)], assumption)+
qed

section \<open>Suppression\<close>

lemma suppress_keeps: "set kept \<subseteq> set (suppress t kept fs)"
  by (induction fs arbitrary: kept) (auto, force)

lemma suppress_subset: "set (suppress t kept fs) \<subseteq> set kept \<union> set fs"
proof (induction fs arbitrary: kept)
  case (Cons f fs)
  have "set (suppress t (if clear_of t kept f then kept @ [f] else kept) fs) \<subseteq>
      set (if clear_of t kept f then kept @ [f] else kept) \<union> set fs" by (rule Cons)
  then show ?case by (auto split: if_splits)
qed simp

lemma suppress_clear:
  "sorted_wrt (\<lambda>k f. f_lt (iou (face_bbox f) (face_bbox k)) t) kept \<Longrightarrow>
   sorted_wrt (\<lambda>k f. f_lt (iou (face_bbox f) (face_bbox k)) t) (suppress t kept fs)"
proof (induction fs arbitrary: kept)
  case (Cons f fs)
  then have "sorted_wrt (\<lambda>k f. f_lt (iou (face_bbox f) (face_bbox k)) t) (if clear_of t kept f then kept @ [f] else kept)"
    by (auto simp: sorted_wrt_append clear_of_def list_all_iff)
  then show ?case using Cons.IH by simp
qed simp

text \<open>What is dropped overlaps something kept that came before it.\<close>

lemma suppress_covers:
  assumes "sorted_wrt R (kept @ fs)" and "f \<in> set fs" and "f \<notin> set (suppress t kept fs)"
  shows "\<exists>k\<in>set (suppress t kept fs). \<not> f_lt (iou (face_bbox f) (face_bbox k)) t \<and> R k f"
  using assms
proof (induction fs arbitrary: kept)
  case (Cons g fs)
  let ?kept = "if clear_of t kept g then kept @ [g] else kept"
  have sorted: "sorted_wrt R (?kept @ fs)"
    using Cons.prems(1) by (auto simp: sorted_wrt_append)
  show ?case
  proof (cases "f \<in> set fs")
    case True
    then show ?thesis using Cons.IH [OF sorted] Cons.prems(3) by simp
  next
    case False
    then have f: "f = g" using Cons.prems(2) by simp
    have "\<not> clear_of t kept g"
    proof
      assume "clear_of t kept g"
      then have "g \<in> set (suppress t kept (g # fs))" using suppress_keeps [of "kept @ [g]" t fs] by simp
      then show False using Cons.prems(3) f by simp
    qed
    then obtain k where k: "k \<in> set kept" "\<not> f_lt (iou (face_bbox f) (face_bbox k)) t"
      by (auto simp: clear_of_def list_all_iff f)
    moreover have "R k f" using Cons.prems(1) k(1) f by (auto simp: sorted_wrt_append)
    moreover have "k \<in> set (suppress t kept (g # fs))" using suppress_keeps [of kept t "g # fs"] k(1) by blast
    ultimately show ?thesis by blast
  qed
qed simp

section \<open>Candidates\<close>

definition spans :: "f32 \<Rightarrow> f32 \<Rightarrow> bool" where
  "spans hi v \<longleftrightarrow> f_is_nan v \<or> f_le (f_lit 0) v \<and> f_le v hi"

text \<open>Every coordinate lies in the image, or is not a number.\<close>

definition in_frame :: "rgb_image \<Rightarrow> det_face \<Rightarrow> bool" where
  "in_frame img f \<longleftrightarrow>
     (let wx = spans (f_sub (f_of_nat (ri_w img)) (f_lit 1)); wy = spans (f_sub (f_of_nat (ri_h img)) (f_lit 1));
          l = face_landmarks f
      in (case face_bbox f of (x1, y1, x2, y2) \<Rightarrow> wx x1 \<and> wy y1 \<and> wx x2 \<and> wy y2) \<and>
         (\<forall>p\<in>{lm_le l, lm_re l, lm_nose l, lm_lm l, lm_rm l}. wx (fst p) \<and> wy (snd p)))"

lemma clamp_within: "f_le (f_lit 0) hi \<Longrightarrow> spans hi (f_clamp v (f_lit 0) hi)"
  by (cases "decode v"; cases "decode hi"; cases "decode (f_lit 0)")
    (auto simp: spans_def f_clamp_def Let_def f_le_def f_lt_def f_eq_def f_is_nan_def)

lemma rescale_in_frame:
  assumes "f_le (f_lit 0) (f_sub (f_of_nat (ri_w img)) (f_lit 1))" and "f_le (f_lit 0) (f_sub (f_of_nat (ri_h img)) (f_lit 1))"
  shows "in_frame img (rescale_face px py sc (f_sub (f_of_nat (ri_w img)) (f_lit 1)) (f_sub (f_of_nat (ri_h img)) (f_lit 1)) f)"
  using assms by (simp add: in_frame_def rescale_face_def Let_def clamp_within split: prod.split)

lemma rescale_score [simp]: "df_score (rescale_face px py sc xm ym f) = df_score f"
  by (simp add: rescale_face_def Let_def split: prod.split)

lemma decode_score:
  "f \<in> set (decode_stride st gw gh sc bb kp) \<Longrightarrow> \<not> f_lt (df_score f) score_threshold"
  by (auto simp: decode_stride_def decode_one_def Let_def)

lemma decode_strides_score:
  "decode_strides outs is = Inr faces \<Longrightarrow> f \<in> set faces \<Longrightarrow> \<not> f_lt (df_score f) score_threshold"
proof (induction "is" arbitrary: faces)
  case (Cons p rest)
  obtain i stride where p: "p = (i, stride)" by (cases p)
  from Cons.prems(1) obtain more where more: "decode_strides outs rest = Inr more"
      "faces = decode_stride stride (input_size div stride) (input_size div stride) (outs ! i) (outs ! (i + 3)) (outs ! (i + 6)) @ more"
    by (auto simp: p Let_def rbind_def split: sum.splits if_splits)
  with Cons.prems(2) Cons.IH [OF more(1)] show ?case by (auto dest: decode_score)
qed simp

lemma candidates_good:
  assumes "candidates N s img = Ok cands" and "c \<in> set cands"
  shows "\<not> f_lt (df_score c) score_threshold" and "in_frame img c"
proof -
  obtain boxed sc px py where l: "letterbox N img input_size = (boxed, sc, px, py)" by (cases "letterbox N img input_size") auto
  let ?x = "f_sub (f_of_nat (ri_w img)) (f_lit 1)" and ?y = "f_sub (f_of_nat (ri_h img)) (f_lit 1)"
  from assms(1) obtain outs faces where d: "decode_strides outs (enumerate 0 strides) = Inr faces"
    and g: "faces \<noteq> [] \<Longrightarrow> f_le (f_lit 0) ?x \<and> f_le (f_lit 0) ?y"
    and c: "cands = map (rescale_face px py sc ?x ?y) faces"
    by (auto simp: candidates_def l Let_def rbind_def split: sum.splits if_splits)
  from assms(2) c obtain f where f: "f \<in> set faces" "c = rescale_face px py sc ?x ?y f" by auto
  then show "\<not> f_lt (df_score c) score_threshold" using decode_strides_score [OF d] by simp
  have "faces \<noteq> []" using f(1) by auto
  then show "in_frame img c" using g f(2) rescale_in_frame by blast
qed

section \<open>A detector\<close>

text \<open>A network that sees one face, at the first anchor of the finest grid.\<close>

definition demo_scores :: "f32 list" where "demo_scores = f_lit 1 # replicate 12799 (f_lit 0)"
definition zeros :: "nat \<Rightarrow> f32 list" where "zeros n = replicate n (f_lit 0)"

definition demo_nets :: nets where
  "demo_nets = \<lparr>nt_resize = (\<lambda>img _ _. img), nt_overlay = (\<lambda>canvas _ _ _. canvas), nt_crop = (\<lambda>img _ _ _ _. img),
     nt_read_dir = (\<lambda>_. None), nt_builder = Inr (), nt_opt_level = Inr (), nt_commit = (\<lambda>_. Inr 0),
     nt_build = (\<lambda>_. Inr ()),
     nt_run = (\<lambda>_ _. Inr (map Inr [demo_scores, zeros 12800, zeros 12800, zeros 51200, zeros 51200, zeros 51200,
       zeros 128000, zeros 128000, zeros 128000])), nt_exp = (\<lambda>x. x)\<rparr>"

definition demo_photo :: rgb_image where
  "demo_photo = \<lparr>ri_w = 2, ri_h = 2, ri_px = (\<lambda>_ _. (0, 0, 0))\<rparr>"

lemma demo_numbers:
  "f_lt (f_lit 0) score_threshold" "\<not> f_lt (f_lit 1) score_threshold"
  "f_le (f_lit 0) (f_sub (f_of_nat 2) (f_lit 1))"
  by code_simp+

lemma only_first: "filter (\<lambda>i. \<not> f_lt (demo_scores ! i) score_threshold) [0..<12800] = [0]"
proof -
  have "[0..<12800] = 0 # [1..<(12800 :: nat)]" 
    by (subst upt_conv_Cons) (simp_all only: One_nat_def zero_less_numeral)
  moreover have "filter (\<lambda>i. \<not> f_lt (demo_scores ! i) score_threshold) [1..<12800] = []"
    unfolding filter_empty_conv by (auto simp: demo_scores_def nth_Cons' demo_numbers)
  moreover have "demo_scores ! 0 = f_lit 1" by (simp add: demo_scores_def)
  ultimately show ?thesis by (simp only: filter.simps) (simp add: demo_numbers)
qed

lemma none_in_zeros: "filter (\<lambda>i. \<not> f_lt (zeros n ! i) score_threshold) [0..<m] = []" if "m \<le> n"
  unfolding filter_empty_conv using that by (auto simp: zeros_def demo_numbers)

lemma demo_strides:
  "\<exists>f. decode_strides [demo_scores, zeros 12800, zeros 12800, zeros 51200, zeros 51200, zeros 51200,
       zeros 128000, zeros 128000, zeros 128000] (enumerate 0 strides) = Inr [f]"
proof -
  have len: "length demo_scores = 12800" "length (zeros n) = n" for n by (simp_all add: demo_scores_def zeros_def)
  have "decode_stride 8 80 80 demo_scores b k = [decode_one 8 80 demo_scores b k 0]" for b k
    using only_first by (simp add: decode_stride_def num_anchors_def)
  moreover have "decode_stride 16 40 40 (zeros 12800) b k = []" "decode_stride 32 20 20 (zeros 12800) b k = []" for b k
    by (simp_all add: decode_stride_def num_anchors_def none_in_zeros)
  ultimately show ?thesis
    by (simp add: strides_def Let_def input_size_def num_anchors_def len rbind_def)
qed

lemma demo_detects: "\<exists>f. detect_in demo_nets 0 demo_photo = Ok [f]"
proof -
  obtain f where f: "decode_strides [demo_scores, zeros 12800, zeros 12800, zeros 51200, zeros 51200, zeros 51200,
       zeros 128000, zeros 128000, zeros 128000] (enumerate 0 strides) = Inr [f]"
    using demo_strides by blast
  obtain boxed sc px py where l: "letterbox demo_nets demo_photo input_size = (boxed, sc, px, py)"
    by (cases "letterbox demo_nets demo_photo input_size") auto
  have "\<exists>g. candidates demo_nets 0 demo_photo = Ok [g]"
    unfolding candidates_def l prod.case
    by (simp add: demo_nets_def rbind_def map_err_def f [simplified] demo_photo_def demo_numbers Let_def)
  then show ?thesis
    by (auto simp: detect_in_def nms_def stable_sort_def clear_of_def)
qed

section \<open>The properties\<close>

text \<open>
  C33. The faces that a detection reports are candidates of the network whose score is not below the
  threshold and whose box and landmarks lie in the image, no later one overlapping an earlier one by
  the limit or more; and, where no score is NaN, every candidate that is not reported overlaps by that much a
  reported face whose score is at least its own.
\<close>

theorem detections_sound:
  "detect_in N s img = Ok faces \<longrightarrow> (\<exists>cands. candidates N s img = Ok cands \<and> set faces \<subseteq> set cands \<and>
     (\<forall>f\<in>set faces. \<not> f_lt (df_score f) score_threshold \<and> in_frame img f) \<and>
     sorted_wrt (\<lambda>k f. f_lt (iou (face_bbox f) (face_bbox k)) nms_iou) faces \<and>
     ((\<forall>c\<in>set cands. \<not> f_is_nan (df_score c)) \<longrightarrow> (\<forall>c\<in>set cands. c \<in> set faces \<or>
        (\<exists>k\<in>set faces. \<not> f_lt (iou (face_bbox c) (face_bbox k)) nms_iou \<and> \<not> f_lt (df_score k) (df_score c)))))"
proof
  assume d: "detect_in N s img = Ok faces"
  then obtain cands where c: "candidates N s img = Ok cands" and f: "faces = nms cands nms_iou"
    by (auto simp: detect_in_def split: outcome.splits)
  let ?lt = "\<lambda>a b :: det_face. f_lt (df_score b) (df_score a)"
  have sub: "set faces \<subseteq> set cands" using suppress_subset [of nms_iou "[]" "stable_sort ?lt cands"] by (simp add: f nms_def)
  have clear: "sorted_wrt (\<lambda>k f. f_lt (iou (face_bbox f) (face_bbox k)) nms_iou) faces"
    by (simp add: f nms_def suppress_clear)
  have covers: "x \<in> set faces \<or> (\<exists>k\<in>set faces. \<not> f_lt (iou (face_bbox x) (face_bbox k)) nms_iou \<and> \<not> f_lt (df_score k) (df_score x))"
    if n: "\<forall>c\<in>set cands. \<not> f_is_nan (df_score c)" and x: "x \<in> set cands" for x
  proof -
    have "weak_order ?lt (set cands)"
      using n by (intro weak_order_vimage [OF f_weak_order, where g = df_score]) auto
    then have sorted: "sorted_wrt (\<lambda>a b. \<not> ?lt b a) ([] @ stable_sort ?lt cands)" by (simp add: stable_sort_sorted)
    have "x \<in> set (stable_sort ?lt cands)" using x by simp
    from suppress_covers [OF sorted this] show ?thesis unfolding f nms_def by blast
  qed
  show "\<exists>cands. candidates N s img = Ok cands \<and> set faces \<subseteq> set cands \<and>
     (\<forall>f\<in>set faces. \<not> f_lt (df_score f) score_threshold \<and> in_frame img f) \<and>
     sorted_wrt (\<lambda>k f. f_lt (iou (face_bbox f) (face_bbox k)) nms_iou) faces \<and>
     ((\<forall>c\<in>set cands. \<not> f_is_nan (df_score c)) \<longrightarrow> (\<forall>c\<in>set cands. c \<in> set faces \<or>
        (\<exists>k\<in>set faces. \<not> f_lt (iou (face_bbox c) (face_bbox k)) nms_iou \<and> \<not> f_lt (df_score k) (df_score c))))"
    using c sub clear covers candidates_good [OF c] by (intro exI [of _ cands]) blast
qed

text \<open>The one face of the network above.\<close>

lemma detections_sound_witness:
  "\<exists>f. detect_in demo_nets 0 demo_photo = Ok [f] \<and> \<not> f_lt (df_score f) score_threshold \<and> in_frame demo_photo f"
proof -
  obtain f where f: "detect_in demo_nets 0 demo_photo = Ok [f]" using demo_detects by blast
  then show ?thesis using detections_sound [of demo_nets 0 demo_photo "[f]"] by auto
qed

section \<open>The vote\<close>

lemma filter_length_mset: "mset xs = mset ys \<Longrightarrow> length (filter P xs) = length (filter P ys)"
  by (metis mset_filter size_mset)

lemma few_outside:
  assumes "\<forall>j<length s. j \<in> A \<longrightarrow> \<not> P (s ! j)"
  shows "length (filter P s) \<le> card ({..<length s} - A)"
proof -
  have "length (filter P s) = card {j. j < length s \<and> P (s ! j)}" by (rule length_filter_conv_card)
  also have "\<dots> \<le> card ({..<length s} - A)" using assms by (intro card_mono) auto
  finally show ?thesis .
qed

text \<open>
  Of an odd number of readings, none of them NaN, the median is on the side of any majority: if
  more than half do not exceed t then it does not, and if more than half are not below t it is not.
\<close>

theorem median_outvotes:
  "odd (length v) \<and> (\<forall>x\<in>set v. \<not> f_is_nan x) \<longrightarrow>
     (length v < 2 * length (filter (\<lambda>x. \<not> f_lt t x) v) \<longrightarrow> \<not> f_lt t (median v)) \<and>
     (length v < 2 * length (filter (\<lambda>x. \<not> f_lt x t) v) \<longrightarrow> \<not> f_lt (median v) t)"
proof (intro impI, elim conjE)
  assume odd: "odd (length v)" and n: "\<forall>x\<in>set v. \<not> f_is_nan x"
  define s where "s = stable_sort f_lt v"
  define k where "k = length v div 2"
  have m: "mset s = mset v" by (simp add: s_def stable_sort_mset)
  then have len: "length s = length v" by (rule mset_eq_length)
  have lv: "length v = 2 * k + 1" using odd by (simp add: k_def)
  have med: "median v = s ! k"
    using lv len by (auto simp: median_def Let_def s_def [symmetric])
  have nan: "\<not> f_is_nan (s ! j)" if "j < length v" for j
    using n that len m by (metis nth_mem set_mset_mset)
  have "weak_order f_lt (set v)" by (rule weak_order_mono [OF f_weak_order]) (use n in auto)
  then have sorted: "sorted_wrt (\<lambda>a b. \<not> f_lt b a) s" unfolding s_def by (rule stable_sort_sorted)
  have up: "\<not> f_lt (s ! j) (s ! k)" if "k \<le> j" "j < length v" for j
    using sorted_wrt_nth_less [OF sorted, of k j] that len by (cases "j = k") (simp_all add: f_lt_irrefl)
  have down: "\<not> f_lt (s ! k) (s ! j)" if "j \<le> k" for j
    using sorted_wrt_nth_less [OF sorted, of j k] that len lv by (cases "j = k") (simp_all add: f_lt_irrefl)
  show "(length v < 2 * length (filter (\<lambda>x. \<not> f_lt t x) v) \<longrightarrow> \<not> f_lt t (median v)) \<and>
     (length v < 2 * length (filter (\<lambda>x. \<not> f_lt x t) v) \<longrightarrow> \<not> f_lt (median v) t)"
  proof (intro conjI impI notI)
    assume most: "length v < 2 * length (filter (\<lambda>x. \<not> f_lt t x) v)" and "f_lt t (median v)"
    then have "\<forall>j<length s. j \<in> {k..} \<longrightarrow> \<not> \<not> f_lt t (s ! j)" using up nan len by (auto simp: med intro: f_lt_weak)
    then have "length (filter (\<lambda>x. \<not> f_lt t x) s) \<le> card ({..<length s} - {k..})" by (rule few_outside)
    also have "{..<length s} - {k..} = {..<k}" using len lv by auto
    finally show False using most lv filter_length_mset [OF m] by simp
  next
    assume most: "length v < 2 * length (filter (\<lambda>x. \<not> f_lt x t) v)" and "f_lt (median v) t"
    then have "\<forall>j<length s. j \<in> {..k} \<longrightarrow> \<not> \<not> f_lt (s ! j) t" using down nan len by (auto simp: med intro: f_lt_weak')
    then have "length (filter (\<lambda>x. \<not> f_lt x t) s) \<le> card ({..<length s} - {..k})" by (rule few_outside)
    also have "{..<length s} - {..k} = {Suc k..<length v}" using len by auto
    finally show False using most lv filter_length_mset [OF m] by simp
  qed
qed

text \<open>One reading of 1 among five does not decide.\<close>

lemma median_outvotes_witness:
  "\<not> f_lt (f_lit 0.5) (median [f_lit 0.001, f_lit 0.002, f_lit 1, f_lit 0.001, f_lit 0.003])"
proof -
  let ?v = "[f_lit 0.001, f_lit 0.002, f_lit 1, f_lit 0.001, f_lit 0.003]"
  have "list_all (\<lambda>x. \<not> f_is_nan x) ?v \<and> length (filter (\<lambda>x. \<not> f_lt (f_lit 0.5) x) ?v) = 4" by code_simp
  then have "odd (length ?v)" "\<forall>x\<in>set ?v. \<not> f_is_nan x" "length ?v < 2 * length (filter (\<lambda>x. \<not> f_lt (f_lit 0.5) x) ?v)"
    unfolding list_all_iff by (simp_all del: filter.simps)
  then show ?thesis using median_outvotes [of ?v "f_lit 0.5"] by blast
qed

end
